(* ===== verification/Prelude.thy ===== *)
theory Prelude
  imports Main "HOL-Library.Word" "HOL-Library.AList"
begin

text \<open>
  Shared vocabulary of the development: the machine integers of the Rust sources, time as the
  sources see it, the keyed stores (\<^verbatim>\<open>DashMap\<close> and \<^verbatim>\<open>HashMap\<close>) and the collections of rewrite
  rules that the component theories extend.

  \<^item> Integers keep their width: \<open>+\<close> and \<open>-\<close> on a word wrap, as \<^verbatim>\<open>fetch_add\<close> / \<^verbatim>\<open>fetch_sub\<close> do in every
    build and as the plain operators do in a release build.
  \<^item> \<^verbatim>\<open>Instant\<close> and \<^verbatim>\<open>Duration\<close> are counts of nanoseconds (\<open>nat\<close>); \<^verbatim>\<open>duration_since\<close> and \<^verbatim>\<open>elapsed\<close>
    saturate at zero, which is \<open>nat\<close> subtraction. A read of the clock is an argument \<open>now\<close>.
  \<^item> A keyed store is an association list with distinct keys; the order of the list stands for the
    unspecified iteration order of the hash map, so a statement about every list is a statement
    about every iteration order.
\<close>

named_theorems dm_simps \<open>rewriting of keyed stores\<close>
named_theorems time_simps \<open>clock arithmetic\<close>
named_theorems wf_intros \<open>preservation of well-formedness\<close>

section \<open>Machine integers\<close>

type_synonym u8 = "8 word"
type_synonym u16 = "16 word"
type_synonym u32 = "32 word"
type_synonym u64 = "64 word"
type_synonym usize = "64 word"
type_synonym i64 = "64 word"

definition saturating_sub :: "'a::len word \<Rightarrow> 'a word \<Rightarrow> 'a word" where
  "saturating_sub a b = (if b \<le> a then a - b else 0)"

definition word_max :: "'a::len word \<Rightarrow> 'a word \<Rightarrow> 'a word" where
  "word_max a b = (if a \<le> b then b else a)"

section \<open>Time\<close>

type_synonym instant = nat
type_synonym duration = nat

definition duration_since :: "instant \<Rightarrow> instant \<Rightarrow> duration" where
  "duration_since now t = now - t"

definition from_millis :: "nat \<Rightarrow> duration" where
  "from_millis n = n * 1000000"

definition from_secs :: "nat \<Rightarrow> duration" where
  "from_secs n = n * 1000000000"

definition as_millis_u64 :: "duration \<Rightarrow> u64" where
  "as_millis_u64 d = of_nat (d div 1000000)"

definition as_secs :: "duration \<Rightarrow> u64" where
  "as_secs d = of_nat (d div 1000000000)"

section \<open>Results\<close>

text \<open>\<^verbatim>\<open>Result\<close> with the error on the left: the \<^verbatim>\<open>?\<close> operator, and \<^verbatim>\<open>collect\<close> of an iterator of results.\<close>

fun and_then :: "'e + 'a \<Rightarrow> ('a \<Rightarrow> 'e + 'b) \<Rightarrow> 'e + 'b" where
  "and_then (Inl e) f = Inl e"
| "and_then (Inr a) f = f a"

fun map_err :: "('e \<Rightarrow> 'f) \<Rightarrow> 'e + 'a \<Rightarrow> 'f + 'a" where
  "map_err f (Inl e) = Inl (f e)"
| "map_err f (Inr a) = Inr a"

fun collect_results :: "('e + 'a) list \<Rightarrow> 'e + 'a list" where
  "collect_results [] = Inr []"
| "collect_results (r # rs) = and_then r (\<lambda>a. and_then (collect_results rs) (\<lambda>as. Inr (a # as)))"

lemma and_then_Inr: "and_then r f = Inr b \<longleftrightarrow> (\<exists>a. r = Inr a \<and> f a = Inr b)"
  by (cases r) auto

lemma and_then_Inl: "and_then r f = Inl e \<longleftrightarrow> r = Inl e \<or> (\<exists>a. r = Inr a \<and> f a = Inl e)"
  by (cases r) auto

lemma map_err_Inr [simp]: "map_err f r = Inr a \<longleftrightarrow> r = Inr a"
  by (cases r) auto

lemma collect_results_Inr: "collect_results rs = Inr as \<longleftrightarrow> rs = map Inr as"
  by (induction rs arbitrary: as) (auto simp: and_then_Inr)

lemma collect_results_Inl: "Inl e \<in> set rs \<Longrightarrow> \<exists>e'. collect_results rs = Inl e'"
proof (cases "collect_results rs")
  case (Inr as)
  moreover assume "Inl e \<in> set rs"
  ultimately show ?thesis by (auto simp: collect_results_Inr)
qed simp

section \<open>Keyed stores\<close>

type_synonym ('k, 'v) store = "('k \<times> 'v) list"

definition dm_empty :: "('k, 'v) store" where
  "dm_empty = []"

definition dm_get :: "('k, 'v) store \<Rightarrow> 'k \<Rightarrow> 'v option" where
  "dm_get m k = map_of m k"

definition dm_insert :: "'k \<Rightarrow> 'v \<Rightarrow> ('k, 'v) store \<Rightarrow> ('k, 'v) store" where
  "dm_insert k v m = AList.update k v m"

definition dm_remove :: "'k \<Rightarrow> ('k, 'v) store \<Rightarrow> ('k, 'v) store" where
  "dm_remove k m = AList.delete k m"

definition dm_contains :: "('k, 'v) store \<Rightarrow> 'k \<Rightarrow> bool" where
  "dm_contains m k = (dm_get m k \<noteq> None)"

definition dm_modify :: "'k \<Rightarrow> ('v \<Rightarrow> 'v) \<Rightarrow> ('k, 'v) store \<Rightarrow> ('k, 'v) store" where
  "dm_modify k f m = (case dm_get m k of None \<Rightarrow> m | Some v \<Rightarrow> dm_insert k (f v) m)"

definition dm_entry_or :: "'k \<Rightarrow> 'v \<Rightarrow> ('k, 'v) store \<Rightarrow> ('k, 'v) store" where
  "dm_entry_or k d m = (if dm_contains m k then m else dm_insert k d m)"

definition dm_retain :: "('k \<Rightarrow> 'v \<Rightarrow> bool) \<Rightarrow> ('k, 'v) store \<Rightarrow> ('k, 'v) store" where
  "dm_retain P m = filter (\<lambda>(k, v). P k v) m"

definition dm_map_values :: "('v \<Rightarrow> 'w) \<Rightarrow> ('k, 'v) store \<Rightarrow> ('k, 'w) store" where
  "dm_map_values f m = map (\<lambda>(k, v). (k, f v)) m"

definition dm_keys :: "('k, 'v) store \<Rightarrow> 'k list" where
  "dm_keys m = map fst m"

definition dm_values :: "('k, 'v) store \<Rightarrow> 'v list" where
  "dm_values m = map snd m"

definition dm_wf :: "('k, 'v) store \<Rightarrow> bool" where
  "dm_wf m = distinct (map fst m)"

fun dm_remove_all :: "'k list \<Rightarrow> ('k, 'v) store \<Rightarrow> ('k, 'v) store" where
  "dm_remove_all [] m = m"
| "dm_remove_all (k # ks) m = dm_remove_all ks (dm_remove k m)"

section \<open>Facts about integers and time\<close>

text \<open>The value of a word is written \<open>of_nat (unat w)\<close> throughout.\<close>

declare of_nat_unat [simp del]

lemma unat_lt2p: "unat (w :: 'a::len word) < 2 ^ LENGTH('a)"
  by (rule unsigned_less)

lemma word_of_nat_unat [simp]: "of_nat (unat w) = (w :: 'a::len word)"
  by (simp add: of_nat_unat)

lemma unat_saturating_sub [time_simps]: "unat (saturating_sub a b) = unat a - unat b"
  by (auto simp: saturating_sub_def unat_sub word_le_nat_alt)

lemma saturating_sub_self [simp]: "saturating_sub a a = 0"
  by (simp add: saturating_sub_def)

lemma saturating_sub_0 [simp]: "saturating_sub a 0 = a"
  by (simp add: saturating_sub_def)

lemma unat_word_max: "unat (word_max a b) = max (unat a) (unat b)"
  by (auto simp: word_max_def word_le_nat_alt max_def)

lemma unat_Suc_word:
  "unat (a :: 'a::len word) < 2 ^ LENGTH('a) - 1 \<Longrightarrow> unat (a + 1) = Suc (unat a)"
  by (simp add: unat_word_ariths less_diff_conv)

lemma unat_dec_word: "0 < (a :: 'a::len word) \<Longrightarrow> unat (a - 1) = unat a - 1"
  by (subst unat_sub) (auto simp: word_le_nat_alt word_less_nat_alt)

lemma as_millis_from_secs [simp]: "as_millis_u64 (from_secs n) = of_nat (n * 1000)"
proof -
  have "n * 1000000000 div 1000000 = n * 1000"
    using nonzero_mult_div_cancel_right [of 1000000 "n * 1000"] by simp
  then show ?thesis by (simp add: as_millis_u64_def from_secs_def)
qed

lemma as_millis_from_millis [simp]: "as_millis_u64 (from_millis n) = of_nat n"
  by (simp add: as_millis_u64_def from_millis_def)

lemma as_secs_from_secs [simp]: "as_secs (from_secs n) = of_nat n"
  by (simp add: as_secs_def from_secs_def)

section \<open>Facts about keyed stores\<close>

lemma dm_get_empty [simp, dm_simps]: "dm_get dm_empty k = None"
  by (simp add: dm_get_def dm_empty_def)

lemma dm_get_insert [simp, dm_simps]:
  "dm_get (dm_insert k v m) k' = (if k' = k then Some v else dm_get m k')"
  by (simp add: dm_get_def dm_insert_def update_conv')

lemma dm_get_remove [simp, dm_simps]:
  "dm_get (dm_remove k m) k' = (if k' = k then None else dm_get m k')"
  by (simp add: dm_get_def dm_remove_def delete_conv')

lemma dm_get_modify [simp, dm_simps]:
  "dm_get (dm_modify k f m) k' = (if k' = k then map_option f (dm_get m k) else dm_get m k')"
  by (simp add: dm_modify_def split: option.split)

lemma dm_get_entry_or [simp, dm_simps]:
  "dm_get (dm_entry_or k d m) k' =
     (if k' = k then Some (case dm_get m k of None \<Rightarrow> d | Some v \<Rightarrow> v) else dm_get m k')"
  by (auto simp: dm_entry_or_def dm_contains_def)

lemma dm_contains_iff [dm_simps]: "dm_contains m k \<longleftrightarrow> k \<in> set (dm_keys m)"
  by (simp add: dm_contains_def dm_get_def dm_keys_def map_of_eq_None_iff)

lemma dm_get_remove_all [simp, dm_simps]:
  "dm_get (dm_remove_all ks m) k = (if k \<in> set ks then None else dm_get m k)"
  by (induction ks arbitrary: m) auto

lemma dm_wf_empty [simp, wf_intros]: "dm_wf dm_empty"
  by (simp add: dm_wf_def dm_empty_def)

lemma dm_wf_insert [simp, wf_intros]: "dm_wf m \<Longrightarrow> dm_wf (dm_insert k v m)"
  by (simp add: dm_wf_def dm_insert_def distinct_update)

lemma dm_wf_remove [simp, wf_intros]: "dm_wf m \<Longrightarrow> dm_wf (dm_remove k m)"
  by (simp add: dm_wf_def dm_remove_def distinct_delete)

lemma dm_wf_modify [simp, wf_intros]: "dm_wf m \<Longrightarrow> dm_wf (dm_modify k f m)"
  by (simp add: dm_modify_def split: option.split)

lemma dm_wf_entry_or [simp, wf_intros]: "dm_wf m \<Longrightarrow> dm_wf (dm_entry_or k d m)"
  by (simp add: dm_entry_or_def)

lemma dm_wf_retain [simp, wf_intros]: "dm_wf m \<Longrightarrow> dm_wf (dm_retain P m)"
  by (induction m) (auto simp: dm_wf_def dm_retain_def)

lemma dm_wf_map_values [simp, wf_intros]: "dm_wf (dm_map_values f m) = dm_wf m"
  by (simp add: dm_wf_def dm_map_values_def case_prod_unfold comp_def)

lemma dm_wf_remove_all [simp, wf_intros]: "dm_wf m \<Longrightarrow> dm_wf (dm_remove_all ks m)"
  by (induction ks arbitrary: m) auto

lemma dm_get_map_values [simp, dm_simps]:
  "dm_get (dm_map_values f m) k = map_option f (dm_get m k)"
  by (induction m) (auto simp: dm_get_def dm_map_values_def)

lemma dm_get_retain [dm_simps]:
  assumes "dm_wf m"
  shows "dm_get (dm_retain P m) k =
    (case dm_get m k of None \<Rightarrow> None | Some v \<Rightarrow> if P k v then Some v else None)"
  using assms
proof (induction m)
  case Nil
  then show ?case by (simp add: dm_get_def dm_retain_def)
next
  case (Cons p m)
  then have "dm_wf m" and "fst p \<notin> fst ` set m"
    by (auto simp: dm_wf_def)
  with Cons.IH show ?case
    by (cases p) (auto simp: dm_get_def dm_retain_def map_of_eq_None_iff
        split: option.splits dest: map_of_SomeD intro: rev_image_eqI)
qed

lemma dm_in_set_iff: "dm_wf m \<Longrightarrow> (k, v) \<in> set m \<longleftrightarrow> dm_get m k = Some v"
  by (simp add: dm_wf_def dm_get_def)

lemma dm_values_iff: "dm_wf m \<Longrightarrow> v \<in> set (dm_values m) \<longleftrightarrow> (\<exists>k. dm_get m k = Some v)"
  by (force simp: dm_values_def simp flip: dm_in_set_iff)

lemma dm_keys_iff: "k \<in> set (dm_keys m) \<longleftrightarrow> dm_get m k \<noteq> None"
  by (simp add: dm_get_def dm_keys_def map_of_eq_None_iff)

lemma dm_insert_nonempty [simp]: "dm_insert k v m \<noteq> []"
  by (simp add: dm_insert_def)

lemma dm_remove_all_filter:
  assumes "dm_wf m"
  shows "dm_remove_all (map fst (filter (\<lambda>(k, v). P v) m)) m = dm_retain (\<lambda>k v. \<not> P v) m"
proof -
  have "dm_remove_all ks m = filter (\<lambda>(k, v). k \<notin> set ks) m" for ks
    by (induction ks arbitrary: m)
       (auto simp: dm_remove_def AList.delete_eq intro: filter_cong)
  also have "\<dots> (map fst (filter (\<lambda>(k, v). P v) m)) = dm_retain (\<lambda>k v. \<not> P v) m"
    using assms unfolding dm_retain_def dm_wf_def
    by (intro filter_cong) (force dest: eq_key_imp_eq_value)+
  finally show ?thesis .
qed

lemma dm_card_dom: "dm_wf m \<Longrightarrow> card (dom (dm_get m)) = length m"
proof -
  assume "dm_wf m"
  then have "card (set (map fst m)) = length m"
    using distinct_card [of "map fst m"] by (simp add: dm_wf_def)
  moreover have "dom (dm_get m) = set (map fst m)"
    using dom_map_of_conv_image_fst [of m] by (auto simp: dm_get_def [abs_def])
  ultimately show ?thesis by simp
qed

text \<open>What a component may assume of a keyed store: the laws of a finite map.\<close>

locale keyed_store =
  fixes empty :: "'m"
    and get :: "'m \<Rightarrow> 'k \<Rightarrow> 'v option"
    and insert :: "'k \<Rightarrow> 'v \<Rightarrow> 'm \<Rightarrow> 'm"
    and remove :: "'k \<Rightarrow> 'm \<Rightarrow> 'm"
    and wf :: "'m \<Rightarrow> bool"
  assumes get_empty: "get empty k = None"
    and get_insert: "get (insert k v m) k' = (if k' = k then Some v else get m k')"
    and get_remove: "get (remove k m) k' = (if k' = k then None else get m k')"
    and wf_empty: "wf empty"
    and wf_insert: "wf m \<Longrightarrow> wf (insert k v m)"
    and wf_remove: "wf m \<Longrightarrow> wf (remove k m)"
begin

lemma insert_then_remove: "get (remove k (insert k v m)) = get (remove k m)"
  by (rule ext) (simp add: get_insert get_remove)

lemma insert_commute: "k \<noteq> l \<Longrightarrow> get (insert k v (insert l w m)) = get (insert l w (insert k v m))"
  by (rule ext) (simp add: get_insert)

lemma insert_last: "get (insert k v (insert k w m)) = get (insert k v m)"
  by (rule ext) (simp add: get_insert)

end

interpretation dm: keyed_store dm_empty dm_get dm_insert dm_remove dm_wf
  by unfold_locales auto

section \<open>Stores of independent machines\<close>

text \<open>
  Several components keep one machine per key (a circuit per backend, a health record per backend, a bucket per
  client) and change only the machine of the key a call names. For them a run of calls on all keys is, for each
  key, the run of its own calls.
\<close>

definition calls_of :: "'k \<Rightarrow> ('k \<times> 'x) list \<Rightarrow> 'x list" where
  "calls_of i xs = map snd (filter (\<lambda>x. fst x = i) xs)"

lemma calls_of_simps [simp]:
  "calls_of i [] = []"
  "calls_of i ((j, x) # xs) = (if j = i then x # calls_of i xs else calls_of i xs)"
  "calls_of i (xs @ ys) = calls_of i xs @ calls_of i ys"
  by (simp_all add: calls_of_def)

locale keyed_machine =
  fixes step :: "'k \<times> 'x \<Rightarrow> 's \<Rightarrow> 's"
    and view :: "'s \<Rightarrow> 'k \<Rightarrow> 'c"
    and param :: "'s \<Rightarrow> 'p"
    and local_step :: "'p \<Rightarrow> 'x \<Rightarrow> 'c \<Rightarrow> 'c"
  assumes view_step: "view (step (j, x) s) i = (if i = j then local_step (param s) x (view s i) else view s i)"
    and param_step: "param (step c s) = param s"
begin

lemma param_run: "param (fold step xs s) = param s"
  by (induction xs arbitrary: s) (simp_all add: param_step)

lemma view_run: "view (fold step xs s) i = fold (local_step (param s)) (calls_of i xs) (view s i)"
proof (induction xs arbitrary: s)
  case (Cons c xs)
  then show ?case by (cases c) (simp add: view_step param_step)
qed simp

end

section \<open>Invariants up to a bound\<close>

text \<open>
  Machine counters count exactly as long as what they count stays below their range. The invariants of the
  concurrent components have this form: kept by every step whose result is below the bound, where the
  measured quantity never decreases.
\<close>

locale bounded_invariant =
  fixes step :: "'s \<Rightarrow> 's \<Rightarrow> bool"
    and inv :: "'s \<Rightarrow> bool"
    and measured :: "'s \<Rightarrow> nat"
    and bound :: nat
  assumes measured_mono: "step s t \<Longrightarrow> measured s \<le> measured t"
    and inv_step: "step s t \<Longrightarrow> inv s \<Longrightarrow> measured t < bound \<Longrightarrow> inv t"
begin

lemma inv_reach: "step\<^sup>*\<^sup>* s0 s \<Longrightarrow> inv s0 \<Longrightarrow> measured s < bound \<Longrightarrow> inv s"
proof (induction rule: rtranclp_induct)
  case (step s t)
  with measured_mono [OF step.hyps(2)] show ?case by (auto intro: inv_step)
qed

end

text \<open>An invariant that every step keeps is the special case without a bound.\<close>

locale step_invariant =
  fixes step :: "'s \<Rightarrow> 's \<Rightarrow> bool"
    and inv :: "'s \<Rightarrow> bool"
  assumes step_inv: "step s t \<Longrightarrow> inv s \<Longrightarrow> inv t"

sublocale step_invariant \<subseteq> unbounded: bounded_invariant step inv "\<lambda>_. 0" 1
  by unfold_locales (auto intro: step_inv)

context step_invariant
begin

lemma reach: "step\<^sup>*\<^sup>* s t \<Longrightarrow> inv s \<Longrightarrow> inv t"
  using unbounded.inv_reach by simp

end

end
