(* ===== verification/Strings.thy ===== *)
theory Strings
  imports Prelude "HOL-Library.Sublist"
begin

text \<open>
  The string functions of the Rust standard library that the sources call. A Rust \<^verbatim>\<open>String\<close> is a
  list of bytes (UTF-8), so \<open>length\<close> is \<^verbatim>\<open>len()\<close> and \<open>=\<close> is string equality.

  Case conversion is the ASCII one plus every code point outside ASCII whose conversion lies
  within ASCII (for example \<open>U+FB01\<close>, the ligature of f and i, is \<^verbatim>\<open>FI\<close> in upper case). Other code
  points are left as they are: their conversion is never ASCII, so a comparison of the result with
  an ASCII literal, which is all the sources do with it, comes out the same.
\<close>

section \<open>Case conversion\<close>

definition ascii_upper :: "char \<Rightarrow> char" where
  "ascii_upper c = (let n = of_char c :: nat in if 97 \<le> n \<and> n \<le> 122 then char_of (n - 32) else c)"

definition ascii_lower :: "char \<Rightarrow> char" where
  "ascii_lower c = (let n = of_char c :: nat in if 65 \<le> n \<and> n \<le> 90 then char_of (n + 32) else c)"

definition special_upper :: "(string \<times> string) list" where
  "special_upper =
     [([CHR 0xC3, CHR 0x9F], ''SS''), ([CHR 0xC4, CHR 0xB1], ''I''), ([CHR 0xC5, CHR 0xBF], ''S''),
      ([CHR 0xEF, CHR 0xAC, CHR 0x80], ''FF''), ([CHR 0xEF, CHR 0xAC, CHR 0x81], ''FI''), ([CHR 0xEF, CHR 0xAC, CHR 0x82], ''FL''),
      ([CHR 0xEF, CHR 0xAC, CHR 0x83], ''FFI''), ([CHR 0xEF, CHR 0xAC, CHR 0x84], ''FFL''),
      ([CHR 0xEF, CHR 0xAC, CHR 0x85], ''ST''), ([CHR 0xEF, CHR 0xAC, CHR 0x86], ''ST'')]"

definition special_lower :: "(string \<times> string) list" where
  "special_lower = [([CHR 0xE2, CHR 0x84, CHR 0xAA], ''k'')]"

definition find_prefix :: "(string \<times> string) list \<Rightarrow> string \<Rightarrow> (string \<times> string) option" where
  "find_prefix tab s = find (\<lambda>(p, r). take (length p) s = p) tab"

fun to_uppercase :: "string \<Rightarrow> string" where
  "to_uppercase [] = []"
| "to_uppercase (c # cs) =
     (case find_prefix special_upper (c # cs) of
        Some (p, r) \<Rightarrow> r @ to_uppercase (drop (length p - 1) cs)
      | None \<Rightarrow> ascii_upper c # to_uppercase cs)"

fun to_lowercase :: "string \<Rightarrow> string" where
  "to_lowercase [] = []"
| "to_lowercase (c # cs) =
     (case find_prefix special_lower (c # cs) of
        Some (p, r) \<Rightarrow> r @ to_lowercase (drop (length p - 1) cs)
      | None \<Rightarrow> ascii_lower c # to_lowercase cs)"

section \<open>Searching and splitting\<close>

definition ends_with :: "string \<Rightarrow> string \<Rightarrow> bool" where
  "ends_with s suf = suffix suf s"

definition strip_suffix :: "string \<Rightarrow> string \<Rightarrow> string option" where
  "strip_suffix s suf = (if suffix suf s then Some (take (length s - length suf) s) else None)"

definition contains_char :: "string \<Rightarrow> char \<Rightarrow> bool" where
  "contains_char s c = (c \<in> set s)"

definition trim_end_matches :: "char \<Rightarrow> string \<Rightarrow> string" where
  "trim_end_matches c s = rev (dropWhile (\<lambda>x. x = c) (rev s))"

fun split_on :: "char \<Rightarrow> string \<Rightarrow> string list" where
  "split_on d [] = [[]]"
| "split_on d (c # cs) =
     (if c = d then [] # split_on d cs
      else case split_on d cs of [] \<Rightarrow> [[c]] | w # ws \<Rightarrow> (c # w) # ws)"

section \<open>White space\<close>

text \<open>The code points with the Unicode property \<^verbatim>\<open>White_Space\<close>, as UTF-8, and \<^verbatim>\<open>str::trim\<close>.\<close>

definition white_space :: "string list" where
  "white_space =
     [[CHR 0x09], [CHR 0x0A], [CHR 0x0B], [CHR 0x0C], [CHR 0x0D], [CHR 0x20],
      [CHR 0xC2, CHR 0x85], [CHR 0xC2, CHR 0xA0], [CHR 0xE1, CHR 0x9A, CHR 0x80], [CHR 0xE2, CHR 0x81, CHR 0x9F], [CHR 0xE3, CHR 0x80, CHR 0x80],
      [CHR 0xE2, CHR 0x80, CHR 0x80], [CHR 0xE2, CHR 0x80, CHR 0x81], [CHR 0xE2, CHR 0x80, CHR 0x82], [CHR 0xE2, CHR 0x80, CHR 0x83],
      [CHR 0xE2, CHR 0x80, CHR 0x84], [CHR 0xE2, CHR 0x80, CHR 0x85], [CHR 0xE2, CHR 0x80, CHR 0x86], [CHR 0xE2, CHR 0x80, CHR 0x87],
      [CHR 0xE2, CHR 0x80, CHR 0x88], [CHR 0xE2, CHR 0x80, CHR 0x89], [CHR 0xE2, CHR 0x80, CHR 0x8A],
      [CHR 0xE2, CHR 0x80, CHR 0xA8], [CHR 0xE2, CHR 0x80, CHR 0xA9], [CHR 0xE2, CHR 0x80, CHR 0xAF]]"

function trim_prefixes :: "string list \<Rightarrow> string \<Rightarrow> string" where
  "trim_prefixes ws s =
     (case find (\<lambda>w. w \<noteq> [] \<and> take (length w) s = w) ws of
        Some w \<Rightarrow> trim_prefixes ws (drop (length w) s)
      | None \<Rightarrow> s)"
  by pat_completeness auto
termination
proof (relation "measure (length \<circ> snd)")
  fix ws s w
  assume "find (\<lambda>w. w \<noteq> [] \<and> take (length w) s = w) ws = Some w"
  then have "w \<noteq> []" "take (length w) s = w" by (auto simp: find_Some_iff)
  then have "s \<noteq> []" by auto
  with \<open>w \<noteq> []\<close> show "((ws, drop (length w) s), ws, s) \<in> measure (length \<circ> snd)" by simp
qed simp

declare trim_prefixes.simps [simp del]

definition trim :: "string \<Rightarrow> string" where
  "trim s = rev (trim_prefixes (map rev white_space) (rev (trim_prefixes white_space s)))"

lemma trim_prefixes_keep: "(\<And>w. w \<in> set ws \<Longrightarrow> w \<noteq> [] \<Longrightarrow> take (length w) s \<noteq> w) \<Longrightarrow> trim_prefixes ws s = s"
  by (subst trim_prefixes.simps) (auto split: option.split simp: find_Some_iff in_set_conv_nth)

lemma trim_Nil: "trim [] = []"
  by code_simp

text \<open>A line of printable characters without blanks: only its end is trimmed.\<close>

definition printable :: "char \<Rightarrow> bool" where
  "printable c = (let n = of_char c :: nat in 33 \<le> n \<and> n \<le> 126)"

lemma white_space_ends:
  assumes "w \<in> set white_space"
  shows "w \<noteq> [] \<and> \<not> printable (hd w) \<and> \<not> printable (last w)"
proof -
  have "list_all (\<lambda>w. w \<noteq> [] \<and> \<not> printable (hd w) \<and> \<not> printable (last w)) white_space"
    by code_simp
  with assms show ?thesis by (simp add: list_all_iff)
qed

lemma trim_prefixes_printable:
  assumes "\<And>w. w \<in> set ws \<Longrightarrow> w \<noteq> [] \<Longrightarrow> \<not> printable (hd w)" and "printable c"
  shows "trim_prefixes ws (c # s) = c # s"
proof (rule trim_prefixes_keep)
  fix w assume "w \<in> set ws" "w \<noteq> []"
  with assms show "take (length w) (c # s) \<noteq> w" by (cases w) force+
qed

lemma find_newline: "find (\<lambda>w. w \<noteq> [] \<and> take (length w) (CHR 10 # s) = w) (map rev white_space) = Some [CHR 10]"
  by (simp add: white_space_def)

lemma trim_line:
  assumes "s \<noteq> []" and "list_all printable s"
  shows "trim (s @ [CHR 10]) = s"
proof -
  obtain c t where s: "s = c # t" using assms(1) by (cases s) auto
  obtain d u where r: "rev s = d # u" using assms(1) by (cases "rev s") auto
  have p: "printable c" "printable d"
    using assms(2) list.set_intros(1) [of d u] by (auto simp: s list_all_iff simp flip: r)
  have "trim_prefixes white_space (s @ [CHR 10]) = s @ [CHR 10]"
    unfolding s append_Cons using white_space_ends p by (intro trim_prefixes_printable) auto
  moreover have "trim_prefixes (map rev white_space) (CHR 10 # rev s) = trim_prefixes (map rev white_space) (rev s)"
    by (subst trim_prefixes.simps) (simp add: find_newline)
  moreover have "trim_prefixes (map rev white_space) (rev s) = rev s"
    unfolding r using white_space_ends p by (intro trim_prefixes_printable) (auto simp: hd_rev)
  ultimately show ?thesis by (simp add: trim_def)
qed

section \<open>Decimal numbers\<close>

definition digit_char :: "nat \<Rightarrow> char" where
  "digit_char n = char_of (48 + n)"

definition is_digit :: "char \<Rightarrow> bool" where
  "is_digit c = (let n = of_char c :: nat in 48 \<le> n \<and> n \<le> 57)"

definition digit_val :: "char \<Rightarrow> nat" where
  "digit_val c = of_char c - 48"

fun show_nat :: "nat \<Rightarrow> string" where
  "show_nat n = (if n < 10 then [digit_char n] else show_nat (n div 10) @ [digit_char (n mod 10)])"

declare show_nat.simps [simp del]

definition show_word :: "'a::len word \<Rightarrow> string" where
  "show_word w = show_nat (unat w)"

definition digits_val :: "string \<Rightarrow> nat" where
  "digits_val ds = foldl (\<lambda>a c. a * 10 + digit_val c) 0 ds"

text \<open>\<^verbatim>\<open>str::parse\<close> for an unsigned integer type: an optional plus sign, at least one digit, no overflow.\<close>

definition parse_word :: "string \<Rightarrow> 'a::len word option" where
  "parse_word s =
     (let ds = (case s of [] \<Rightarrow> [] | c # cs \<Rightarrow> if c = CHR ''+'' then cs else s) in
      if ds = [] \<or> \<not> list_all is_digit ds then None
      else if digits_val ds < 2 ^ LENGTH('a) then Some (of_nat (digits_val ds)) else None)"

section \<open>Facts\<close>

lemma of_char_digit_char: "n < 10 \<Longrightarrow> (of_char (digit_char n) :: nat) = 48 + n"
  by (simp add: digit_char_def)

lemma is_digit_digit_char [simp]: "n < 10 \<Longrightarrow> is_digit (digit_char n)"
  by (simp add: is_digit_def of_char_digit_char)

lemma digit_val_digit_char [simp]: "n < 10 \<Longrightarrow> digit_val (digit_char n) = n"
  by (simp add: digit_val_def of_char_digit_char)

lemma digits_val_snoc: "digits_val (ds @ [c]) = digits_val ds * 10 + digit_val c"
  by (simp add: digits_val_def)

lemma show_nat_digits: "list_all is_digit (show_nat n)"
proof (induction n rule: show_nat.induct)
  case (1 n)
  then show ?case by (subst show_nat.simps) simp
qed

lemma show_nat_nonempty [simp]: "show_nat n \<noteq> []"
  by (subst show_nat.simps) simp

lemma digits_val_show_nat: "digits_val (show_nat n) = n"
proof (induction n rule: show_nat.induct)
  case (1 n)
  show ?case
  proof (cases "n < 10")
    case True
    then show ?thesis by (simp add: show_nat.simps [of n] digits_val_def)
  next
    case False
    with "1.IH" show ?thesis
      by (simp add: show_nat.simps [of n] digits_val_snoc)
  qed
qed

lemma hd_show_nat_digit: "is_digit (hd (show_nat n))"
  using show_nat_digits [of n] show_nat_nonempty [of n]
  by (cases "show_nat n") auto

lemma parse_show_word: "parse_word (show_word w) = Some (w :: 'a::len word)"
proof -
  obtain c cs where s: "show_nat (unat w) = c # cs"
    using show_nat_nonempty [of "unat w"] by (cases "show_nat (unat w)") auto
  have "c \<noteq> CHR ''+''"
    using hd_show_nat_digit [of "unat w"] by (auto simp: s is_digit_def)
  moreover have "list_all is_digit (c # cs)"
    using show_nat_digits [of "unat w"] by (simp only: s)
  moreover have "digits_val (c # cs) = unat w"
    using digits_val_show_nat [of "unat w"] by (simp only: s)
  ultimately show ?thesis
    by (simp add: parse_word_def show_word_def s)
qed

lemma split_on_nonempty [simp]: "split_on d s \<noteq> []"
  by (cases s) (auto split: list.splits)

lemma strip_suffix_append [simp]: "strip_suffix (s @ suf) suf = Some s"
  by (simp add: strip_suffix_def suffix_def)

lemma ends_with_append [simp]: "ends_with (s @ suf) suf"
  by (simp add: ends_with_def suffix_def)

end
