(* ===== verification/Config.thy ===== *)
theory Config
  imports Strings
begin

text \<open>
  The configuration read from the environment, \<^verbatim>\<open>src/config.rs\<close>. The environment is a function from names to
  values, undefined where a variable is unset or not valid Unicode, which is where \<^verbatim>\<open>std::env::var\<close> fails.
\<close>

section \<open>Model\<close>

record config =
  cf_listen_addr :: string
  cf_db_path :: string
  cf_region :: string
  cf_db_reload_secs :: u64
  cf_geoip_path :: "string option"
  cf_binding_ttl_secs :: u64
  cf_binding_gc_interval_secs :: u64
  cf_debug :: bool
  cf_tls_enabled :: bool
  cf_tls_cert_path :: "string option"
  cf_tls_key_path :: "string option"
  cf_tls_listen_addr :: "string option"
  cf_api_enabled :: bool
  cf_api_listen_addr :: string
  cf_heartbeat_ttl_secs :: u64
  cf_dns_enabled :: bool
  cf_dns_listen_addr :: string
  cf_dns_domain :: string
  cf_replication_enabled :: bool
  cf_replication_node_id :: "string option"
  cf_replication_gossip_addr :: string
  cf_replication_transport_addr :: string
  cf_replication_bootstrap_peers :: "string list"
  cf_replication_db_path :: string
  cf_replication_cluster_name :: string

definition config_default :: config where
  "config_default =
     \<lparr>cf_listen_addr = ''0.0.0.0:8080'', cf_db_path = ''routing.db'', cf_region = ''sa'', cf_db_reload_secs = 5,
      cf_geoip_path = None, cf_binding_ttl_secs = 600, cf_binding_gc_interval_secs = 60, cf_debug = False,
      cf_tls_enabled = False, cf_tls_cert_path = None, cf_tls_key_path = None, cf_tls_listen_addr = None,
      cf_api_enabled = False, cf_api_listen_addr = ''0.0.0.0:8081'', cf_heartbeat_ttl_secs = 60,
      cf_dns_enabled = False, cf_dns_listen_addr = ''0.0.0.0:5353'', cf_dns_domain = ''internal'',
      cf_replication_enabled = False, cf_replication_node_id = None,
      cf_replication_gossip_addr = ''0.0.0.0:4001'', cf_replication_transport_addr = ''0.0.0.0:4002'',
      cf_replication_bootstrap_peers = [], cf_replication_db_path = ''state.db'',
      cf_replication_cluster_name = ''edgeproxy''\<rparr>"

type_synonym env = "string \<Rightarrow> string option"

definition env_or :: "env \<Rightarrow> string \<Rightarrow> string \<Rightarrow> string" where
  "env_or e k d = (case e k of Some v \<Rightarrow> v | None \<Rightarrow> d)"

definition env_u64 :: "env \<Rightarrow> string \<Rightarrow> string \<Rightarrow> u64 \<Rightarrow> u64" where
  "env_u64 e k text d = (case parse_word (env_or e k text) of Some n \<Rightarrow> n | None \<Rightarrow> d)"

definition env_flag :: "env \<Rightarrow> string \<Rightarrow> bool" where
  "env_flag e k = (case e k of Some v \<Rightarrow> v = ''1'' \<or> to_lowercase v = ''true'' | None \<Rightarrow> False)"

definition env_list :: "env \<Rightarrow> string \<Rightarrow> string list" where
  "env_list e k = (case e k of Some v \<Rightarrow> map trim (split_on (CHR '','') v) | None \<Rightarrow> [])"

definition load_config :: "env \<Rightarrow> config" where
  "load_config e =
     \<lparr>cf_listen_addr = env_or e ''EDGEPROXY_LISTEN_ADDR'' ''0.0.0.0:8080'',
      cf_db_path = env_or e ''EDGEPROXY_DB_PATH'' ''routing.db'',
      cf_region = env_or e ''EDGEPROXY_REGION'' ''sa'',
      cf_db_reload_secs = env_u64 e ''EDGEPROXY_DB_RELOAD_SECS'' ''5'' 5,
      cf_geoip_path = e ''EDGEPROXY_GEOIP_PATH'',
      cf_binding_ttl_secs = env_u64 e ''EDGEPROXY_BINDING_TTL_SECS'' ''600'' 600,
      cf_binding_gc_interval_secs = env_u64 e ''EDGEPROXY_BINDING_GC_INTERVAL_SECS'' ''60'' 60,
      cf_debug = (e ''DEBUG'' \<noteq> None),
      cf_tls_enabled = env_flag e ''EDGEPROXY_TLS_ENABLED'',
      cf_tls_cert_path = e ''EDGEPROXY_TLS_CERT'',
      cf_tls_key_path = e ''EDGEPROXY_TLS_KEY'',
      cf_tls_listen_addr = e ''EDGEPROXY_TLS_LISTEN_ADDR'',
      cf_api_enabled = env_flag e ''EDGEPROXY_API_ENABLED'',
      cf_api_listen_addr = env_or e ''EDGEPROXY_API_LISTEN_ADDR'' ''0.0.0.0:8081'',
      cf_heartbeat_ttl_secs = env_u64 e ''EDGEPROXY_HEARTBEAT_TTL_SECS'' ''60'' 60,
      cf_dns_enabled = env_flag e ''EDGEPROXY_DNS_ENABLED'',
      cf_dns_listen_addr = env_or e ''EDGEPROXY_DNS_LISTEN_ADDR'' ''0.0.0.0:5353'',
      cf_dns_domain = env_or e ''EDGEPROXY_DNS_DOMAIN'' ''internal'',
      cf_replication_enabled = env_flag e ''EDGEPROXY_REPLICATION_ENABLED'',
      cf_replication_node_id = e ''EDGEPROXY_REPLICATION_NODE_ID'',
      cf_replication_gossip_addr = env_or e ''EDGEPROXY_REPLICATION_GOSSIP_ADDR'' ''0.0.0.0:4001'',
      cf_replication_transport_addr = env_or e ''EDGEPROXY_REPLICATION_TRANSPORT_ADDR'' ''0.0.0.0:4002'',
      cf_replication_bootstrap_peers = env_list e ''EDGEPROXY_REPLICATION_BOOTSTRAP_PEERS'',
      cf_replication_db_path = env_or e ''EDGEPROXY_REPLICATION_DB_PATH'' ''state.db'',
      cf_replication_cluster_name = env_or e ''EDGEPROXY_REPLICATION_CLUSTER_NAME'' ''edgeproxy''\<rparr>"

section \<open>Lemmas\<close>

text \<open>A peer as it may appear in the list: no comma, no whitespace at either end.\<close>

fun comma_join :: "string list \<Rightarrow> string" where
  "comma_join [] = []"
| "comma_join [p] = p"
| "comma_join (p # q # ps) = p @ '','' @ comma_join (q # ps)"

definition peer_text :: "string \<Rightarrow> bool" where
  "peer_text p \<longleftrightarrow> CHR '','' \<notin> set p \<and> trim p = p"

lemma split_on_append: "d \<notin> set p \<Longrightarrow> split_on d (p @ d # s) = p # split_on d s"
  by (induction p) auto

lemma split_on_single: "d \<notin> set p \<Longrightarrow> split_on d p = [p]"
  by (induction p) auto

lemma split_join: "ps \<noteq> [] \<Longrightarrow> \<forall>p \<in> set ps. CHR '','' \<notin> set p \<Longrightarrow> split_on (CHR '','') (comma_join ps) = ps"
  by (induction ps rule: comma_join.induct) (auto simp: split_on_single split_on_append)

section \<open>Properties\<close>

text \<open>
  With an empty environment the loaded configuration is the default one; a number that is printed into its
  variable is read back, and text that is no number is replaced by the default; a non-empty list of
  peers joined with commas is read back as it was.
\<close>

lemma load_config_spec:
  "load_config (\<lambda>_. None) = config_default
   \<and> cf_binding_ttl_secs (load_config (e(''EDGEPROXY_BINDING_TTL_SECS'' \<mapsto> show_word n))) = n
   \<and> cf_binding_ttl_secs (load_config (e(''EDGEPROXY_BINDING_TTL_SECS'' \<mapsto> ''soon''))) = 600
   \<and> (ps = [] \<or> \<not> list_all peer_text ps
      \<or> cf_replication_bootstrap_peers (load_config (e(''EDGEPROXY_REPLICATION_BOOTSTRAP_PEERS'' \<mapsto> comma_join ps))) = ps)"
proof -
  have p: "parse_word ''5'' = Some (5::u64)" "parse_word ''600'' = Some (600::u64)" "parse_word ''60'' = Some (60::u64)"
    by (simp_all add: parse_word_def digits_val_def is_digit_def digit_val_def)
  have q: "parse_word ''soon'' = (None :: u64 option)" by code_simp
  have 1: "load_config (\<lambda>_. None) = config_default"
    by (simp add: load_config_def config_default_def env_or_def env_u64_def env_flag_def env_list_def p)
  have "map trim (split_on (CHR '','') (comma_join ps)) = ps" if "ps \<noteq> []" "list_all peer_text ps"
  proof -
    have "split_on (CHR '','') (comma_join ps) = ps"
      using that by (intro split_join) (auto simp: list_all_iff peer_text_def)
    moreover have "map trim ps = ps"
      using that(2) by (induction ps) (auto simp: peer_text_def)
    ultimately show ?thesis by simp
  qed
  then have "ps = [] \<or> \<not> list_all peer_text ps
      \<or> cf_replication_bootstrap_peers (load_config (e(''EDGEPROXY_REPLICATION_BOOTSTRAP_PEERS'' \<mapsto> comma_join ps))) = ps"
    by (auto simp: load_config_def env_list_def)
  then show ?thesis
    using 1 by (simp add: load_config_def env_u64_def env_or_def parse_show_word q)
qed

lemma load_config_spec_witness:
  "cf_replication_bootstrap_peers (load_config ((\<lambda>_. None)(''EDGEPROXY_REPLICATION_BOOTSTRAP_PEERS''
     \<mapsto> comma_join [''10.0.0.1:4001'', ''10.0.0.2:4001'']))) = [''10.0.0.1:4001'', ''10.0.0.2:4001'']"
proof -
  have "list_all peer_text [''10.0.0.1:4001'', ''10.0.0.2:4001'']" by code_simp
  then show ?thesis
    using load_config_spec [where ps = "[''10.0.0.1:4001'', ''10.0.0.2:4001'']" and e = "\<lambda>_. None"] by blast
qed

text \<open>An empty variable gives one empty peer; any value of \<^verbatim>\<open>DEBUG\<close>, also \<^verbatim>\<open>0\<close>, turns debugging on.\<close>

lemma empty_peers_variable:
  "cf_replication_bootstrap_peers (load_config ((\<lambda>_. None)(''EDGEPROXY_REPLICATION_BOOTSTRAP_PEERS'' \<mapsto> []))) = [[]]"
  by (simp add: load_config_def env_list_def trim_Nil)

lemma debug_zero: "cf_debug (load_config ((\<lambda>_. None)(''DEBUG'' \<mapsto> ''0'')))"
  by (simp add: load_config_def)

end
