(* ===== verification/Domain.thy ===== *)
theory Domain
  imports Strings
begin

text \<open>
  The domain layer's data: \<^verbatim>\<open>src/domain/value_objects.rs\<close> and \<^verbatim>\<open>src/domain/entities.rs\<close>. Record fields
  carry a short prefix (\<open>bk_\<close> for \<^verbatim>\<open>Backend\<close>, \<open>bd_\<close> for \<^verbatim>\<open>Binding\<close>, \<open>geo_\<close> for \<^verbatim>\<open>GeoInfo\<close>), since
  Isabelle's selectors are global.
\<close>

section \<open>Regions\<close>

datatype region_code = SouthAmerica | NorthAmerica | Europe | AsiaPacific

definition region_from_str :: "string \<Rightarrow> region_code" where
  "region_from_str s =
     (let l = to_lowercase s in
      if l = ''sa'' then SouthAmerica
      else if l = ''us'' then NorthAmerica
      else if l = ''eu'' then Europe
      else if l = ''ap'' then AsiaPacific
      else NorthAmerica)"

fun region_as_str :: "region_code \<Rightarrow> string" where
  "region_as_str SouthAmerica = ''sa''"
| "region_as_str NorthAmerica = ''us''"
| "region_as_str Europe = ''eu''"
| "region_as_str AsiaPacific = ''ap''"

definition region_display :: "region_code \<Rightarrow> string" where
  "region_display r = region_as_str r"

fun default_country :: "region_code \<Rightarrow> string" where
  "default_country SouthAmerica = ''BR''"
| "default_country NorthAmerica = ''US''"
| "default_country Europe = ''DE''"
| "default_country AsiaPacific = ''JP''"

definition from_country :: "string \<Rightarrow> region_code" where
  "from_country country =
     (let c = to_uppercase country in
      if c \<in> {''BR'', ''AR'', ''CL'', ''PE'', ''CO'', ''UY'', ''PY'', ''BO'', ''EC'', ''VE''}
      then SouthAmerica
      else if c \<in> {''US'', ''CA'', ''MX''} then NorthAmerica
      else if c \<in> {''PT'', ''ES'', ''FR'', ''DE'', ''NL'', ''IT'', ''GB'', ''IE'', ''BE'', ''CH'', ''AT'', ''PL'',
                    ''CZ'', ''SE'', ''NO'', ''DK'', ''FI'', ''RU'', ''UA''} then Europe
      else if c \<in> {''JP'', ''KR'', ''TW'', ''HK'', ''SG'', ''MY'', ''TH'', ''VN'', ''ID'', ''PH'', ''AU'', ''NZ'',
                    ''CN'', ''IN''} then AsiaPacific
      else NorthAmerica)"

section \<open>Entities\<close>

record backend =
  bk_id :: string
  bk_app :: string
  bk_region :: region_code
  bk_country :: string
  bk_wg_ip :: string
  bk_port :: u16
  bk_healthy :: bool
  bk_weight :: u8
  bk_soft_limit :: u32
  bk_hard_limit :: u32

record binding =
  bd_backend_id :: string
  bd_created_at :: instant
  bd_last_seen :: instant

definition binding_new :: "instant \<Rightarrow> string \<Rightarrow> binding" where
  "binding_new now backend_id =
     \<lparr>bd_backend_id = backend_id, bd_created_at = now, bd_last_seen = now\<rparr>"

definition binding_touch :: "instant \<Rightarrow> binding \<Rightarrow> binding" where
  "binding_touch now b = b\<lparr>bd_last_seen := now\<rparr>"

datatype ip_addr = IpV4 u32 | IpV6 "128 word"

fun is_loopback :: "ip_addr \<Rightarrow> bool" where
  "is_loopback (IpV4 a) = (drop_bit 24 a = 127)"
| "is_loopback (IpV6 a) = (a = 1)"

record socket_addr =
  sa_ip :: ip_addr
  sa_port :: u16
  sa_scope_id :: u32

abbreviation socket_v4 :: "u32 \<Rightarrow> u16 \<Rightarrow> socket_addr" where
  "socket_v4 a p \<equiv> \<lparr>sa_ip = IpV4 a, sa_port = p, sa_scope_id = 0\<rparr>"

datatype client_key = ClientKey (ck_client_ip: ip_addr)

definition client_key_new :: "ip_addr \<Rightarrow> client_key" where
  "client_key_new ip = ClientKey ip"

definition client_key_eq :: "client_key \<Rightarrow> client_key \<Rightarrow> bool" where
  "client_key_eq a b = (ck_client_ip a = ck_client_ip b)"

record geo_info =
  geo_country :: string
  geo_region :: region_code

definition geo_info_new :: "string \<Rightarrow> region_code \<Rightarrow> geo_info" where
  "geo_info_new c r = \<lparr>geo_country = c, geo_region = r\<rparr>"

section \<open>Facts\<close>

lemma region_from_str_as_str: "region_from_str (region_as_str r) = r"
  by (cases r; hypsubst; code_simp)

lemma region_from_str_upper: "region_from_str (to_uppercase (region_as_str r)) = r"
  by (cases r; hypsubst; code_simp)

lemma from_country_default: "from_country (default_country r) = r"
  by (cases r; hypsubst; code_simp)

lemma from_country_default_lower: "from_country (to_lowercase (default_country r)) = r"
  by (cases r; hypsubst; code_simp)

text \<open>
  The textual forms of a region round-trip. Parsing what \<^verbatim>\<open>as_str\<close> prints gives the region back,
  in either letter case, and the representative country of a region is mapped to that region, so a
  backend registered without a country is scored in its own region.
\<close>

lemma region_roundtrip:
  "region_from_str (region_as_str r) = r
   \<and> region_from_str (to_uppercase (region_as_str r)) = r
   \<and> from_country (default_country r) = r
   \<and> from_country (to_lowercase (default_country r)) = r"
  by (intro conjI region_from_str_as_str region_from_str_upper
      from_country_default from_country_default_lower)

end
