(* ===== verification/F64.thy ===== *)
theory F64
  imports Prelude Complex_Main "HOL-Library.Log_Nat"
begin

text \<open>
  The \<^verbatim>\<open>f64\<close> arithmetic that the load balancer, the rate limiter and the metrics exporter use. All
  values there are non-negative and lie between \<open>2\<^sup>-\<^sup>6\<^sup>4\<close> and \<open>2\<^sup>1\<^sup>2\<^sup>8\<close>, so subnormal numbers, signed
  zeros, negative numbers and overflow of the exponent do not occur and are left out; infinity and
  NaN do occur (a rate with a zero window) and are values of the type.

  Every operation is the exact rational result rounded to 53 significant bits, ties to even
  (\<open>f64_rnd\<close>). What the components need of the rounding is the locale \<open>f64_rounding\<close>; it is
  interpreted on \<open>f64_rnd\<close>.
\<close>

section \<open>Rounding to 53 bits, ties to even\<close>

definition round_half_even :: "rat \<Rightarrow> int" where
  "round_half_even x =
     (let f = \<lfloor>x\<rfloor>; d = x - of_int f in
      if d < 1/2 then f else if 1/2 < d then f + 1 else if even f then f else f + 1)"

definition rat_log2 :: "rat \<Rightarrow> int" where
  "rat_log2 q =
     (let (n, d) = quotient_of q; k = bitlen n - bitlen d in
      if q < 2 powi k then k - 1 else k)"

definition f64_rnd :: "rat \<Rightarrow> rat" where
  "f64_rnd q =
     (if q \<le> 0 then 0
      else let e = rat_log2 q - 52 in of_int (round_half_even (q / 2 powi e)) * 2 powi e)"

section \<open>Values and operations\<close>

datatype f64 = Fin rat | Inf | NaN

definition f64_of_word :: "'a::len word \<Rightarrow> f64" where
  "f64_of_word w = Fin (f64_rnd (of_nat (unat w)))"

fun f64_add :: "f64 \<Rightarrow> f64 \<Rightarrow> f64" where
  "f64_add (Fin a) (Fin b) = Fin (f64_rnd (a + b))"
| "f64_add NaN _ = NaN"
| "f64_add _ NaN = NaN"
| "f64_add _ _ = Inf"

fun f64_mul :: "f64 \<Rightarrow> f64 \<Rightarrow> f64" where
  "f64_mul (Fin a) (Fin b) = Fin (f64_rnd (a * b))"
| "f64_mul (Fin a) Inf = (if a = 0 then NaN else Inf)"
| "f64_mul Inf (Fin b) = (if b = 0 then NaN else Inf)"
| "f64_mul Inf Inf = Inf"
| "f64_mul _ _ = NaN"

fun f64_div :: "f64 \<Rightarrow> f64 \<Rightarrow> f64" where
  "f64_div (Fin a) (Fin b) =
     (if b = 0 then (if a = 0 then NaN else Inf) else Fin (f64_rnd (a / b)))"
| "f64_div Inf (Fin b) = Inf"
| "f64_div (Fin a) Inf = Fin 0"
| "f64_div _ _ = NaN"

fun f64_less :: "f64 \<Rightarrow> f64 \<Rightarrow> bool" where
  "f64_less (Fin a) (Fin b) = (a < b)"
| "f64_less (Fin a) Inf = True"
| "f64_less _ _ = False"

fun f64_ge :: "f64 \<Rightarrow> f64 \<Rightarrow> bool" where
  "f64_ge (Fin a) (Fin b) = (b \<le> a)"
| "f64_ge Inf (Fin b) = True"
| "f64_ge Inf Inf = True"
| "f64_ge _ _ = False"

text \<open>\<^verbatim>\<open>x as u64\<close>: truncates, saturates, and maps NaN to zero.\<close>

fun f64_to_u64 :: "f64 \<Rightarrow> u64" where
  "f64_to_u64 (Fin a) = (if 2 ^ 64 \<le> a then - 1 else of_int \<lfloor>a\<rfloor>)"
| "f64_to_u64 Inf = - 1"
| "f64_to_u64 NaN = 0"

definition f64_MAX :: f64 where
  "f64_MAX = Fin ((2 ^ 53 - 1) * 2 ^ 971)"

section \<open>What clients rely on\<close>

locale f64_rounding =
  fixes rnd :: "rat \<Rightarrow> rat"
  assumes rnd_mono: "x \<le> y \<Longrightarrow> rnd x \<le> rnd y"
    and rnd_nat: "n \<le> 2 ^ 53 \<Longrightarrow> rnd (of_nat n) = of_nat n"
    and rnd_upper: "0 \<le> x \<Longrightarrow> rnd x \<le> x * (1 + 1 / 2 ^ 53)"
    and rnd_lower: "0 \<le> x \<Longrightarrow> x * (1 - 1 / 2 ^ 53) \<le> rnd x"
begin

lemma rnd_0: "rnd 0 = 0"
  using rnd_nat [of 0] by simp

lemma rnd_nonneg: "0 \<le> x \<Longrightarrow> 0 \<le> rnd x"
  using rnd_mono [of 0 x] rnd_0 by simp

lemma rnd_le_nat: "x \<le> of_nat n \<Longrightarrow> n \<le> 2 ^ 53 \<Longrightarrow> rnd x \<le> of_nat n"
  using rnd_mono [of x "of_nat n"] rnd_nat [of n] by simp

lemma rnd_ge_nat: "of_nat n \<le> x \<Longrightarrow> n \<le> 2 ^ 53 \<Longrightarrow> of_nat n \<le> rnd x"
  using rnd_mono [of "of_nat n" x] rnd_nat [of n] by simp

lemma rnd_pos: "0 < x \<Longrightarrow> 0 < rnd x"
  using rnd_lower [of x] by (auto simp: less_le_trans [rotated])

text \<open>The error of \<open>t + c / s / w\<close> when each operation is rounded.\<close>

lemma load_upper:
  assumes "0 < s" "0 < w"
  shows "rnd (of_nat t + rnd (rnd (of_nat c / of_nat s) / of_nat w))
    \<le> (of_nat t + of_nat c / (of_nat s * of_nat w) * (1 + 1 / 2 ^ 53)\<^sup>2) * (1 + 1 / 2 ^ 53)"
proof -
  let ?e = "1 + 1 / 2 ^ 53 :: rat"
  have "rnd (of_nat c / of_nat s) / of_nat w \<le> of_nat c / of_nat s * ?e / of_nat w"
    using rnd_upper [of "of_nat c / of_nat s"] assms by (intro divide_right_mono) simp_all
  then have "rnd (rnd (of_nat c / of_nat s) / of_nat w) \<le> rnd (of_nat c / of_nat s * ?e / of_nat w)" by (rule rnd_mono)
  also have "\<dots> \<le> of_nat c / of_nat s * ?e / of_nat w * ?e" by (rule rnd_upper) simp
  also have "\<dots> = of_nat c / (of_nat s * of_nat w) * ?e\<^sup>2" by (simp add: power2_eq_square)
  finally have "rnd (of_nat t + rnd (rnd (of_nat c / of_nat s) / of_nat w))
      \<le> rnd (of_nat t + of_nat c / (of_nat s * of_nat w) * ?e\<^sup>2)" by (intro rnd_mono) simp
  also have "\<dots> \<le> (of_nat t + of_nat c / (of_nat s * of_nat w) * ?e\<^sup>2) * ?e" by (rule rnd_upper) simp
  finally show ?thesis .
qed

lemma load_lower:
  assumes "0 < s" "0 < w"
  shows "(of_nat t + of_nat c / (of_nat s * of_nat w) * (1 - 1 / 2 ^ 53)\<^sup>2) * (1 - 1 / 2 ^ 53)
    \<le> rnd (of_nat t + rnd (rnd (of_nat c / of_nat s) / of_nat w))"
proof -
  let ?e = "1 - 1 / 2 ^ 53 :: rat"
  have "(of_nat t + of_nat c / (of_nat s * of_nat w) * ?e\<^sup>2) * ?e
      \<le> rnd (of_nat t + of_nat c / (of_nat s * of_nat w) * ?e\<^sup>2)" by (rule rnd_lower) simp
  also have "\<dots> \<le> rnd (of_nat t + rnd (rnd (of_nat c / of_nat s) / of_nat w))"
  proof (intro rnd_mono add_left_mono)
    have "of_nat c / (of_nat s * of_nat w) * ?e\<^sup>2 = of_nat c / of_nat s * ?e / of_nat w * ?e"
      by (simp add: power2_eq_square)
    also have "\<dots> \<le> rnd (of_nat c / of_nat s * ?e / of_nat w)" by (rule rnd_lower) simp
    also have "\<dots> \<le> rnd (rnd (of_nat c / of_nat s) / of_nat w)"
      using rnd_lower [of "of_nat c / of_nat s"] assms by (intro rnd_mono divide_right_mono) simp_all
    finally show "of_nat c / (of_nat s * of_nat w) * ?e\<^sup>2 \<le> rnd (rnd (of_nat c / of_nat s) / of_nat w)" .
  qed
  finally show ?thesis .
qed

text \<open>The three roundings together change a number by a factor close to one.\<close>

lemma cube_bounds:
  fixes e :: rat
  assumes e: "0 < e" "e \<le> 1 / 16"
  shows "(1 + e)\<^sup>2 * (1 + e) \<le> 1 + 4 * e" "1 - 3 * e \<le> (1 - e)\<^sup>2 * (1 - e)"
proof -
  have e2: "e * e \<le> e / 16" using e mult_left_mono [of e "1/16" e] by simp
  have "e * e * e \<le> e / 16 * 1" using e2 e by (intro mult_mono) simp_all
  with e2 have "0 \<le> e - 3 * (e * e) - e * e * e" using e(1) by linarith
  then show "(1 + e)\<^sup>2 * (1 + e) \<le> 1 + 4 * e" by (simp add: power2_eq_square algebra_simps)
  have "e * e * e \<le> e * e * 1" using e by (intro mult_left_mono) simp_all
  with e have "0 \<le> 3 * (e * e) - e * e * e" by simp
  then show "1 - 3 * e \<le> (1 - e)\<^sup>2 * (1 - e)" by (simp add: power2_eq_square algebra_simps)
qed

text \<open>A sum and two quotients rounded one after the other still separate neighbouring numerators, as long as these are below \<open>2\<^sup>5\<^sup>0\<close>.\<close>

lemma load_strict:
  assumes "c < d" "c < 2 ^ 50" and "0 < s" "s \<le> 2 ^ 32" "0 < w" "w \<le> 2 ^ 8" and "t \<le> 300"
  shows "rnd (of_nat t + rnd (rnd (of_nat c / of_nat s) / of_nat w))
       < rnd (of_nat t + rnd (rnd (of_nat d / of_nat s) / of_nat w))"
proof -
  define e :: rat where "e = 1 / 2 ^ 53"
  define k :: rat where "k = of_nat s * of_nat w"
  have k: "0 < k" using assms(3,5) by (simp add: k_def)
  have e: "0 < e" "e \<le> 1 / 16" by (simp_all add: e_def)
  have tsw: "of_nat t * k \<le> 300 * 2 ^ 40"
  proof -
    have "t * (s * w) \<le> 300 * (2 ^ 32 * 2 ^ 8)" using assms(4,6,7) by (intro mult_le_mono) simp_all
    then have "(of_nat (t * (s * w)) :: rat) \<le> of_nat (300 * (2 ^ 32 * 2 ^ 8))" by (simp only: of_nat_le_iff)
    then show ?thesis by (simp add: k_def)
  qed
  have c: "(of_nat c :: rat) + 1 \<le> 2 ^ 50"
    using assms(2) of_nat_le_iff [of "Suc c" "2 ^ 50", where ?'a = rat] by simp
  note up = cube_bounds(1) [OF e] and lo = cube_bounds(2) [OF e]
  have "of_nat c * ((1 + e)\<^sup>2 * (1 + e)) \<le> of_nat c * (1 + 4 * e)"
    using up by (rule mult_left_mono) simp
  moreover have "(of_nat c + 1) * (1 - 3 * e) \<le> (of_nat c + 1) * ((1 - e)\<^sup>2 * (1 - e))"
    using lo by (rule mult_left_mono) simp
  moreover have "(of_nat c + 1) * ((1 - e)\<^sup>2 * (1 - e)) \<le> of_nat d * ((1 - e)\<^sup>2 * (1 - e))"
  proof (rule mult_right_mono)
    show "(of_nat c :: rat) + 1 \<le> of_nat d" using assms(1) of_nat_le_iff [of "Suc c" d, where ?'a = rat] by simp
    show "0 \<le> (1 - e)\<^sup>2 * (1 - e)" using e by simp
  qed
  moreover have "of_nat t * k * e * 2 + of_nat c * (7 * e) + 3 * e < 1"
    using tsw c by (simp add: e_def field_simps)
  ultimately have "(of_nat t * k + of_nat c * (1 + e)\<^sup>2) * (1 + e) < (of_nat t * k + of_nat d * (1 - e)\<^sup>2) * (1 - e)"
    by (simp add: algebra_simps)
  then have "(of_nat t + of_nat c / k * (1 + e)\<^sup>2) * (1 + e) < (of_nat t + of_nat d / k * (1 - e)\<^sup>2) * (1 - e)"
  proof -
    have m: "(of_nat t + of_nat c / k * (1 + e)\<^sup>2) * (1 + e) * k = (of_nat t * k + of_nat c * (1 + e)\<^sup>2) * (1 + e)"
      "(of_nat t + of_nat d / k * (1 - e)\<^sup>2) * (1 - e) * k = (of_nat t * k + of_nat d * (1 - e)\<^sup>2) * (1 - e)"
      using k by (simp_all add: field_simps)
    assume "(of_nat t * k + of_nat c * (1 + e)\<^sup>2) * (1 + e) < (of_nat t * k + of_nat d * (1 - e)\<^sup>2) * (1 - e)"
    with k show ?thesis unfolding m [symmetric] by (simp add: mult_less_cancel_right)
  qed
  then show ?thesis
    using load_upper [OF assms(3,5), of t c] load_lower [OF assms(3,5), of t d] unfolding e_def k_def by linarith
qed

end

section \<open>The rounding satisfies the interface\<close>

lemma bitlen_powi_bounds:
  assumes "0 < n"
  shows "(2::rat) powi (bitlen n - 1) \<le> of_int n" and "of_int n < (2::rat) powi bitlen n"
proof -
  have b: "2 ^ nat (bitlen n - 1) \<le> n" "n < 2 ^ nat (bitlen n)"
    using bitlen_bounds [OF assms] by auto
  have pos: "0 < bitlen n"
    using assms bitlen_nonneg [of n] bitlen_eq_zero_iff [of n] by simp
  have "(of_int (2 ^ nat (bitlen n - 1)) :: rat) \<le> of_int n"
    using b(1) by (simp only: of_int_le_iff)
  with pos show "(2::rat) powi (bitlen n - 1) \<le> of_int n"
    by (simp add: power_int_nonneg_exp)
  have "(of_int n :: rat) < of_int (2 ^ nat (bitlen n))"
    using b(2) by (simp only: of_int_less_iff)
  with pos show "of_int n < (2::rat) powi bitlen n"
    by (simp add: power_int_nonneg_exp)
qed

lemma rat_log2_bounds:
  assumes "0 < q"
  shows "2 powi rat_log2 q \<le> q" and "q < 2 powi (rat_log2 q + 1)"
proof -
  obtain n d where nd: "quotient_of q = (n, d)" by fastforce
  then have q: "q = of_int n / of_int d" and d: "0 < d"
    using quotient_of_div quotient_of_denom_pos by blast+
  with assms have n: "0 < n"
    by (simp add: zero_less_divide_iff)
  define k where "k = bitlen n - bitlen d"
  note nb = bitlen_powi_bounds
  have hi: "q < 2 powi (k + 1)"
  proof -
    have "of_int n < (2::rat) powi (k + 1) * of_int d"
    proof -
      have "of_int n < (2::rat) powi (k + 1) * 2 powi (bitlen d - 1)"
        using nb(2) [OF n] by (simp add: k_def flip: power_int_add)
      also have "\<dots> \<le> 2 powi (k + 1) * of_int d"
        using nb(1) [OF d] by simp
      finally show ?thesis .
    qed
    then show ?thesis using d by (simp add: q divide_less_eq)
  qed
  have lo: "2 powi (k - 1) \<le> q"
  proof -
    have "(2::rat) powi (k - 1) * of_int d \<le> 2 powi (k - 1) * 2 powi bitlen d"
      using nb(2) [OF d] by simp
    also have "\<dots> = 2 powi (bitlen n - 1)"
      by (simp add: k_def flip: power_int_add)
    also have "\<dots> \<le> of_int n" by (rule nb(1) [OF n])
    finally show ?thesis using d by (simp add: q le_divide_eq)
  qed
  have "rat_log2 q = (if q < 2 powi k then k - 1 else k)"
    by (simp add: rat_log2_def nd k_def)
  with hi lo show "2 powi rat_log2 q \<le> q" and "q < 2 powi (rat_log2 q + 1)"
    by auto
qed

lemma round_half_even_bounds:
  "of_int \<lfloor>x\<rfloor> \<le> (of_int (round_half_even x) :: rat)"
  "round_half_even x \<le> \<lfloor>x\<rfloor> + 1"
  "of_int (round_half_even x) \<le> x + 1/2"
  "x - 1/2 \<le> of_int (round_half_even x)"
  unfolding round_half_even_def Let_def
  by (auto; linarith)+

lemma round_half_even_mono: "x \<le> y \<Longrightarrow> round_half_even x \<le> round_half_even y"
proof -
  assume xy: "x \<le> y"
  then have fl: "\<lfloor>x\<rfloor> \<le> \<lfloor>y\<rfloor>" by (rule floor_mono)
  show ?thesis
  proof (cases "\<lfloor>x\<rfloor> = \<lfloor>y\<rfloor>")
    case True
    with xy show ?thesis by (auto simp: round_half_even_def Let_def)
  next
    case False
    with fl have "\<lfloor>x\<rfloor> + 1 \<le> \<lfloor>y\<rfloor>" by simp
    with round_half_even_bounds(2) [of x] round_half_even_bounds(1) [of y]
    show ?thesis by simp
  qed
qed

lemma round_half_even_of_int [simp]: "round_half_even (of_int n) = n"
  by (simp add: round_half_even_def)

lemma f64_mantissa:
  assumes "0 < q"
  defines "m \<equiv> q / 2 powi (rat_log2 q - 52)"
  shows "2 ^ 52 \<le> m" and "m < 2 ^ 53"
    and "2 ^ 52 \<le> round_half_even m" and "round_half_even m \<le> 2 ^ 53"
proof -
  let ?e = "rat_log2 q - 52"
  have p: "(0::rat) < 2 powi ?e" by simp
  have "(2::rat) ^ 52 * 2 powi ?e = 2 powi rat_log2 q"
    by (simp add: power_int_diff)
  moreover have "(2::rat) ^ 53 * 2 powi ?e = 2 powi (rat_log2 q + 1)"
    by (simp add: power_int_diff power_int_add)
  ultimately show lo: "2 ^ 52 \<le> m" and hi: "m < 2 ^ 53"
    using rat_log2_bounds [OF assms(1)] p
    by (simp_all add: m_def le_divide_eq divide_less_eq)
  show "2 ^ 52 \<le> round_half_even m"
    using round_half_even_mono [OF lo] round_half_even_of_int [of "2 ^ 52"] by simp
  show "round_half_even m \<le> 2 ^ 53"
    using round_half_even_mono [of m "2 ^ 53"] hi round_half_even_of_int [of "2 ^ 53"] by simp
qed

lemma rat_log2_mono:
  assumes "0 < x" and "x \<le> y"
  shows "rat_log2 x \<le> rat_log2 y"
proof (rule ccontr)
  assume "\<not> rat_log2 x \<le> rat_log2 y"
  then have "rat_log2 y + 1 \<le> rat_log2 x" by simp
  then have "(2::rat) powi (rat_log2 y + 1) \<le> 2 powi rat_log2 x"
    by (intro power_int_increasing) auto
  with rat_log2_bounds(2) [of y] rat_log2_bounds(1) [of x] assms show False by simp
qed

lemma f64_rnd_mono: "x \<le> y \<Longrightarrow> f64_rnd x \<le> f64_rnd y"
proof -
  assume xy: "x \<le> y"
  consider "y \<le> 0" | "x \<le> 0" "0 < y" | "0 < x" by linarith
  then show ?thesis
  proof cases
    case 1
    with xy show ?thesis by (simp add: f64_rnd_def)
  next
    case 2
    with f64_mantissa(3) [of y] have "0 \<le> f64_rnd y"
      by (auto simp: f64_rnd_def Let_def zero_le_mult_iff)
    with 2 show ?thesis by (simp add: f64_rnd_def)
  next
    case 3
    let ?ex = "rat_log2 x - 52" and ?ey = "rat_log2 y - 52"
    have y: "0 < y" using 3 xy by simp
    show ?thesis
    proof (cases "?ex = ?ey")
      case True
      have "x / 2 powi ?ex \<le> y / 2 powi ?ex"
        using xy by (simp add: divide_right_mono)
      from round_half_even_mono [OF this] True 3 y show ?thesis
        by (simp add: f64_rnd_def Let_def)
    next
      case False
      with rat_log2_mono [OF 3 xy] have le: "rat_log2 x + 1 \<le> rat_log2 y" by simp
      have "f64_rnd x \<le> 2 ^ 53 * 2 powi ?ex"
        using f64_mantissa(4) [OF 3] 3
        by (simp add: f64_rnd_def Let_def)
      also have "\<dots> = 2 powi (rat_log2 x + 1)"
        by (simp add: power_int_diff power_int_add)
      also have "\<dots> \<le> 2 powi rat_log2 y"
        using le by (intro power_int_increasing) auto
      also have "\<dots> = 2 ^ 52 * 2 powi ?ey"
        by (simp add: power_int_diff)
      also have "\<dots> \<le> f64_rnd y"
        using f64_mantissa(3) [OF y] y
        by (simp add: f64_rnd_def Let_def)
      finally show ?thesis .
    qed
  qed
qed

lemma f64_rnd_error:
  assumes "0 \<le> x"
  shows "f64_rnd x \<le> x * (1 + 1 / 2 ^ 53)" and "x * (1 - 1 / 2 ^ 53) \<le> f64_rnd x"
proof -
  have "f64_rnd x \<le> x * (1 + 1 / 2 ^ 53) \<and> x * (1 - 1 / 2 ^ 53) \<le> f64_rnd x" if x: "0 < x"
  proof -
    define s :: rat where "s = 2 powi (rat_log2 x - 52)"
    define m where "m = x / s"
    have s: "0 < s" and xm: "x = m * s" by (simp_all add: m_def s_def)
    have r: "f64_rnd x = of_int (round_half_even m) * s"
      using x by (simp add: f64_rnd_def m_def s_def Let_def)
    have "2 ^ 52 \<le> m" using f64_mantissa(1) [OF x] by (simp add: m_def s_def)
    then have "of_int (round_half_even m) \<le> m * (1 + 1 / 2 ^ 53)"
      and "m * (1 - 1 / 2 ^ 53) \<le> of_int (round_half_even m)"
      using round_half_even_bounds(3,4) [of m] by (auto simp: field_simps)
    from this [THEN mult_right_mono, of s] s
    have "of_int (round_half_even m) * s \<le> m * (1 + 1 / 2 ^ 53) * s"
      and "m * (1 - 1 / 2 ^ 53) * s \<le> of_int (round_half_even m) * s"
      by simp_all
    moreover have "x * c = m * c * s" for c by (simp add: xm)
    ultimately show ?thesis by (simp only: r)
  qed
  with assms show "f64_rnd x \<le> x * (1 + 1 / 2 ^ 53)" and "x * (1 - 1 / 2 ^ 53) \<le> f64_rnd x"
    by (cases "x = 0"; auto simp: f64_rnd_def)+
qed

lemma f64_rnd_pow53: "f64_rnd (2 ^ 53) = 2 ^ 53"
  by code_simp

lemma f64_rnd_nat:
  assumes "n \<le> 2 ^ 53"
  shows "f64_rnd (of_nat n) = of_nat n"
proof (cases "n = 0 \<or> n = 2 ^ 53")
  case False
  then have n: "0 < n" "n < 2 ^ 53" using assms by auto
  let ?q = "of_nat n :: rat"
  have "rat_log2 ?q \<le> 52"
  proof (rule ccontr)
    assume "\<not> rat_log2 ?q \<le> 52"
    then have "(2::rat) powi 53 \<le> 2 powi rat_log2 ?q"
      by (intro power_int_increasing) auto
    also have "\<dots> \<le> ?q" using rat_log2_bounds(1) [of ?q] n by simp
    finally have "(of_nat (2 ^ 53) :: rat) \<le> ?q" by simp
    with n(2) show False by (simp only: of_nat_le_iff)
  qed
  then obtain j where j: "rat_log2 ?q - 52 = - int j"
    by (metis diff_le_0_iff_le nonpos_int_cases)
  then have m: "?q / 2 powi (rat_log2 ?q - 52) = of_int (int (n * 2 ^ j))"
    by (simp add: power_int_minus divide_inverse)
  have "f64_rnd ?q = of_int (round_half_even (of_int (int (n * 2 ^ j)))) * 2 powi (- int j)"
    using n unfolding f64_rnd_def Let_def m by (simp add: j)
  also have "\<dots> = of_int (int (n * 2 ^ j)) * 2 powi (- int j)"
    by (simp only: round_half_even_of_int)
  finally show ?thesis by (simp add: power_int_minus)
qed (use f64_rnd_pow53 in \<open>auto simp: f64_rnd_def\<close>)

interpretation rnd: f64_rounding f64_rnd
  using f64_rnd_mono f64_rnd_nat f64_rnd_error by unfold_locales

end
