(* ===== verification/Load_Balancer.thy ===== *)
theory Load_Balancer
  imports Domain F64
begin

text \<open>
  The load balancer, \<^verbatim>\<open>src/domain/services/load_balancer.rs\<close>: the geographic tiers, the score of a
  backend, the selection loop of \<^verbatim>\<open>pick_backend\<close> and the table of \<^verbatim>\<open>calculate_all_scores\<close>. Scores are
  \<^verbatim>\<open>f64\<close> values, rounded after each operation as the hardware does. The closure \<^verbatim>\<open>get_conn_count\<close> is
  an argument.
\<close>

section \<open>Model\<close>

definition calculate_geo_score :: "backend \<Rightarrow> region_code \<Rightarrow> geo_info option \<Rightarrow> f64" where
  "calculate_geo_score b local_region client_geo =
     (case client_geo of
        Some geo \<Rightarrow>
          if bk_country b = geo_country geo then Fin 0
          else if bk_region b = geo_region geo then Fin 1
          else if bk_region b = local_region then Fin 2
          else Fin 3
      | None \<Rightarrow> if bk_region b = local_region then Fin 2 else Fin 3)"

definition lb_soft :: "backend \<Rightarrow> f64" where
  "lb_soft b = (if bk_soft_limit b = 0 then Fin 1 else f64_of_word (bk_soft_limit b))"

definition lb_hard :: "backend \<Rightarrow> f64" where
  "lb_hard b = (if bk_hard_limit b = 0 then f64_MAX else f64_of_word (bk_hard_limit b))"

definition lb_weight :: "backend \<Rightarrow> f64" where
  "lb_weight b = (if bk_weight b = 0 then Fin 1 else f64_of_word (bk_weight b))"

definition lb_score :: "region_code \<Rightarrow> geo_info option \<Rightarrow> (string \<Rightarrow> usize) \<Rightarrow> backend \<Rightarrow> f64" where
  "lb_score local_region client_geo get_conn_count b =
     (let current = f64_of_word (get_conn_count (bk_id b));
          geo_score = calculate_geo_score b local_region client_geo;
          load_factor = f64_div current (lb_soft b)
      in f64_add (f64_mul geo_score (Fin 100)) (f64_div load_factor (lb_weight b)))"

fun pick_loop ::
  "region_code \<Rightarrow> geo_info option \<Rightarrow> (string \<Rightarrow> usize) \<Rightarrow> (backend \<times> f64) option \<Rightarrow> backend list
     \<Rightarrow> (backend \<times> f64) option" where
  "pick_loop lr geo cnt best [] = best"
| "pick_loop lr geo cnt best (b # bs) =
     (if f64_ge (f64_of_word (cnt (bk_id b))) (lb_hard b) then pick_loop lr geo cnt best bs
      else let score = lb_score lr geo cnt b in
        pick_loop lr geo cnt
          (case best of
             Some (_, best_score) \<Rightarrow> if f64_less score best_score then Some (b, score) else best
           | None \<Rightarrow> Some (b, score)) bs)"

definition pick_backend ::
  "backend list \<Rightarrow> region_code \<Rightarrow> geo_info option \<Rightarrow> (string \<Rightarrow> usize) \<Rightarrow> backend option" where
  "pick_backend backends local_region client_geo get_conn_count =
     map_option fst (pick_loop local_region client_geo get_conn_count None
       (filter bk_healthy backends))"

definition calculate_all_scores ::
  "backend list \<Rightarrow> region_code \<Rightarrow> geo_info option \<Rightarrow> (string \<Rightarrow> usize) \<Rightarrow> (string \<times> f64) list" where
  "calculate_all_scores backends local_region client_geo get_conn_count =
     map (\<lambda>b. (bk_id b, lb_score local_region client_geo get_conn_count b))
       (filter bk_healthy backends)"

record backend_score =
  sc_backend_id :: string
  sc_score :: f64

definition backend_score_new :: "string \<Rightarrow> f64 \<Rightarrow> backend_score" where
  "backend_score_new backend_id score = \<lparr>sc_backend_id = backend_id, sc_score = score\<rparr>"

section \<open>Specification\<close>

text \<open>
  A backend is eligible when it is healthy and below its hard limit (a hard limit of zero means no
  limit). The specification of the choice: the leftmost eligible backend of least score.
\<close>

definition at_hard_limit :: "(string \<Rightarrow> usize) \<Rightarrow> backend \<Rightarrow> bool" where
  "at_hard_limit cnt b \<longleftrightarrow> bk_hard_limit b \<noteq> 0 \<and> unat (bk_hard_limit b) \<le> unat (cnt (bk_id b))"

definition eligible :: "(string \<Rightarrow> usize) \<Rightarrow> backend \<Rightarrow> bool" where
  "eligible cnt b \<longleftrightarrow> bk_healthy b \<and> \<not> at_hard_limit cnt b"

fun f64_val :: "f64 \<Rightarrow> rat" where
  "f64_val (Fin a) = a"
| "f64_val _ = 0"

definition score_val :: "region_code \<Rightarrow> geo_info option \<Rightarrow> (string \<Rightarrow> usize) \<Rightarrow> backend \<Rightarrow> rat" where
  "score_val lr geo cnt b = f64_val (lb_score lr geo cnt b)"

definition geo_tier :: "region_code \<Rightarrow> geo_info option \<Rightarrow> backend \<Rightarrow> nat" where
  "geo_tier lr geo b =
     (if \<exists>g. geo = Some g \<and> bk_country b = geo_country g then 0
      else if \<exists>g. geo = Some g \<and> bk_region b = geo_region g then 1
      else if bk_region b = lr then 2 else 3)"

fun first_min :: "('a \<Rightarrow> 'b::linorder) \<Rightarrow> 'a list \<Rightarrow> 'a option" where
  "first_min f [] = None"
| "first_min f (x # xs) =
     (case first_min f xs of None \<Rightarrow> Some x | Some y \<Rightarrow> if f x \<le> f y then Some x else Some y)"

section \<open>Facts about the least element\<close>

lemma first_min_None: "first_min f xs = None \<longleftrightarrow> xs = []"
  by (cases xs) (auto split: option.splits)

lemma first_min_Some:
  "first_min f xs = Some x \<Longrightarrow> x \<in> set xs \<and> (\<forall>y \<in> set xs. f x \<le> f y)"
proof (induction xs arbitrary: x)
  case (Cons z zs)
  then show ?case
    by (cases "first_min f zs") (fastforce simp: first_min_None split: if_splits)+
qed simp

section \<open>Scores are finite\<close>

lemma geo_score_tier: "calculate_geo_score b lr geo = Fin (of_nat (geo_tier lr geo b))"
  by (auto simp: calculate_geo_score_def geo_tier_def split: option.split)

lemma geo_tier_le: "geo_tier lr geo b \<le> 3"
  by (simp add: geo_tier_def)

definition soft_val :: "backend \<Rightarrow> nat" where
  "soft_val b = (if bk_soft_limit b = 0 then 1 else unat (bk_soft_limit b))"

definition weight_val :: "backend \<Rightarrow> nat" where
  "weight_val b = (if bk_weight b = 0 then 1 else unat (bk_weight b))"

lemma unat_le_pow53: "LENGTH('a) \<le> 53 \<Longrightarrow> unat (w :: 'a::len word) \<le> 2 ^ 53"
  using unat_lt2p [of w] power_increasing [of "LENGTH('a)" 53 "2::nat"] by linarith

lemma lb_soft_val: "lb_soft b = Fin (of_nat (soft_val b))"
  using unat_le_pow53 [of "bk_soft_limit b"]
  by (simp add: lb_soft_def soft_val_def f64_of_word_def rnd.rnd_nat)

lemma lb_weight_val: "lb_weight b = Fin (of_nat (weight_val b))"
  using unat_le_pow53 [of "bk_weight b"]
  by (simp add: lb_weight_def weight_val_def f64_of_word_def rnd.rnd_nat)

lemma soft_val_bounds: "0 < soft_val b" "soft_val b \<le> 2 ^ 32"
  using unat_lt2p [of "bk_soft_limit b"]
  by (auto simp: soft_val_def unat_gt_0)

lemma weight_val_bounds: "0 < weight_val b" "weight_val b \<le> 2 ^ 8"
  using unat_lt2p [of "bk_weight b"]
  by (auto simp: weight_val_def unat_gt_0)

definition load_val :: "(string \<Rightarrow> usize) \<Rightarrow> backend \<Rightarrow> rat" where
  "load_val cnt b =
     f64_rnd (f64_rnd (f64_rnd (of_nat (unat (cnt (bk_id b)))) / of_nat (soft_val b))
       / of_nat (weight_val b))"

lemma lb_score_Fin:
  "lb_score lr geo cnt b = Fin (f64_rnd (of_nat (100 * geo_tier lr geo b) + load_val cnt b))"
proof -
  have "f64_rnd (of_nat (geo_tier lr geo b) * 100) = of_nat (100 * geo_tier lr geo b)"
    using rnd.rnd_nat [of "100 * geo_tier lr geo b"] geo_tier_le [of lr geo b]
    by (simp add: mult.commute)
  then show ?thesis
    using soft_val_bounds [of b] weight_val_bounds [of b]
    by (simp add: lb_score_def Let_def geo_score_tier lb_soft_val lb_weight_val load_val_def
        f64_of_word_def)
qed

lemma score_val_eq:
  "score_val lr geo cnt b = f64_rnd (of_nat (100 * geo_tier lr geo b) + load_val cnt b)"
  by (simp add: score_val_def lb_score_Fin)

lemma f64_less_score:
  "f64_less (lb_score lr geo cnt a) (lb_score lr geo cnt b)
     \<longleftrightarrow> score_val lr geo cnt a < score_val lr geo cnt b"
  by (simp add: score_val_def lb_score_Fin)

section \<open>The hard limit\<close>

lemma f64_of_u64_ge_u32:
  "f64_rnd (of_nat (unat (h :: u32))) \<le> f64_rnd (of_nat (unat (c :: u64))) \<longleftrightarrow> unat h \<le> unat c"
proof
  assume le: "f64_rnd (of_nat (unat h)) \<le> f64_rnd (of_nat (unat c))"
  show "unat h \<le> unat c"
  proof (rule ccontr)
    assume "\<not> unat h \<le> unat c"
    then have "unat c < unat h" by simp
    moreover have h: "unat h \<le> 2 ^ 53" by (rule unat_le_pow53) simp
    ultimately show False
      using le rnd.rnd_nat [of "unat c"] rnd.rnd_nat [OF h] by simp
  qed
qed (simp add: rnd.rnd_mono)

lemma u64_below_MAX: "f64_rnd (of_nat (unat (c :: u64))) < (2 ^ 53 - 1) * 2 ^ 971"
proof -
  have "(of_nat (unat c) :: rat) \<le> of_nat (2 ^ 64)"
    using unat_lt2p [of c] by (simp only: of_nat_le_iff) simp
  then have "(of_nat (unat c) :: rat) * (1 + 1 / 2 ^ 53) \<le> of_nat (2 ^ 64) * (1 + 1 / 2 ^ 53)"
    by (rule mult_right_mono) simp
  with rnd.rnd_upper [of "of_nat (unat c)"]
  have "f64_rnd (of_nat (unat c)) \<le> of_nat (2 ^ 64) * (1 + 1 / 2 ^ 53)"
    by linarith
  also have "\<dots> < (2 ^ 53 - 1) * 2 ^ 971"
    by simp
  finally show ?thesis .
qed

lemma hard_limit_test:
  "f64_ge (f64_of_word (cnt (bk_id b))) (lb_hard b) \<longleftrightarrow> at_hard_limit cnt b"
  using u64_below_MAX [of "cnt (bk_id b)"]
  by (auto simp: lb_hard_def at_hard_limit_def f64_of_word_def f64_MAX_def f64_of_u64_ge_u32
      simp del: power_numeral)

section \<open>The loop computes the specification\<close>

lemma pick_loop_spec:
  "pick_loop lr geo cnt best bs =
     (let xs = filter (\<lambda>b. \<not> at_hard_limit cnt b) bs;
          r = first_min (score_val lr geo cnt)
                ((case best of None \<Rightarrow> [] | Some (b, _) \<Rightarrow> [b]) @ xs)
      in map_option (\<lambda>b. (b, lb_score lr geo cnt b)) r)"
  if "\<forall>b s. best = Some (b, s) \<longrightarrow> s = lb_score lr geo cnt b"
  using that
proof (induction bs arbitrary: best)
  case Nil
  then show ?case by (auto split: option.splits)
next
  case (Cons b bs)
  show ?case
  proof (cases "at_hard_limit cnt b")
    case True
    with Cons.IH [OF Cons.prems] show ?thesis by (simp add: hard_limit_test)
  next
    case False
    let ?best = "case best of
             Some (_, best_score) \<Rightarrow>
               if f64_less (lb_score lr geo cnt b) best_score then Some (b, lb_score lr geo cnt b) else best
           | None \<Rightarrow> Some (b, lb_score lr geo cnt b)"
    have "\<forall>c s. ?best = Some (c, s) \<longrightarrow> s = lb_score lr geo cnt c"
      using Cons.prems by (auto split: option.splits)
    note IH = Cons.IH [OF this]
    have step: "pick_loop lr geo cnt best (b # bs) = pick_loop lr geo cnt ?best bs"
      using False by (simp add: hard_limit_test Let_def)
    show ?thesis
      unfolding step IH using False Cons.prems
      by (cases best) (fastforce simp: Let_def f64_less_score split: option.splits)+
  qed
qed

lemma filter_eligible:
  "filter (\<lambda>b. \<not> at_hard_limit cnt b) (filter bk_healthy bs) = filter (eligible cnt) bs"
  by (simp add: eligible_def conj_commute cong: filter_cong)

lemma pick_backend_first_min:
  "pick_backend bs lr geo cnt = first_min (score_val lr geo cnt) (filter (eligible cnt) bs)"
  unfolding pick_backend_def
  by (subst pick_loop_spec)
     (simp_all only: filter_eligible, simp_all add: option.map_comp comp_def option.map_ident)

lemma load_val_nonneg: "0 \<le> load_val cnt b"
  by (simp add: load_val_def rnd.rnd_nonneg)

lemma load_val_le:
  assumes "unat (cnt (bk_id b)) \<le> k * soft_val b * weight_val b" and "k \<le> 100"
  shows "load_val cnt b \<le> of_nat k"
proof -
  let ?s = "soft_val b" and ?w = "weight_val b"
  have kw: "k * ?w \<le> 100 * 2 ^ 8"
    using mult_le_mono [OF assms(2) weight_val_bounds(2) [of b]] .
  have ksw: "k * ?w * ?s \<le> 100 * 2 ^ 8 * 2 ^ 32"
    using mult_le_mono [OF kw soft_val_bounds(2) [of b]] .
  have "f64_rnd (of_nat (unat (cnt (bk_id b)))) \<le> of_nat (k * ?w * ?s)"
    using assms(1) ksw by (intro rnd.rnd_le_nat) (simp_all only: of_nat_le_iff mult_ac, simp_all)
  then have "f64_rnd (of_nat (unat (cnt (bk_id b)))) / of_nat ?s \<le> of_nat (k * ?w)"
    using soft_val_bounds(1) [of b] by (simp add: divide_le_eq)
  then have "f64_rnd (f64_rnd (of_nat (unat (cnt (bk_id b)))) / of_nat ?s) \<le> of_nat (k * ?w)"
    using kw by (intro rnd.rnd_le_nat) simp_all
  then have "f64_rnd (f64_rnd (of_nat (unat (cnt (bk_id b)))) / of_nat ?s) / of_nat ?w \<le> of_nat k"
    using weight_val_bounds(1) [of b] by (simp add: divide_le_eq)
  then show ?thesis
    unfolding load_val_def using assms(2) by (intro rnd.rnd_le_nat) simp_all
qed

lemma score_val_lower: "of_nat (100 * geo_tier lr geo b) \<le> score_val lr geo cnt b"
  unfolding score_val_eq
  using load_val_nonneg [of cnt b] geo_tier_le [of lr geo b]
  by (intro rnd.rnd_ge_nat) auto

lemma score_val_upper:
  assumes "unat (cnt (bk_id b)) \<le> k * soft_val b * weight_val b" and "k \<le> 100"
  shows "score_val lr geo cnt b \<le> of_nat (100 * geo_tier lr geo b + k)"
  unfolding score_val_eq
  using load_val_le [of cnt b k] assms geo_tier_le [of lr geo b]
  by (intro rnd.rnd_le_nat) auto

lemma score_val_mono_load:
  assumes "unat (cnt (bk_id a)) \<le> unat (cnt (bk_id b))"
    and "soft_val a = soft_val b" and "weight_val a = weight_val b"
    and "geo_tier lr geo a = geo_tier lr geo b"
  shows "score_val lr geo cnt a \<le> score_val lr geo cnt b"
  using assms unfolding score_val_eq load_val_def
  by (simp add: rnd.rnd_mono divide_right_mono)

text \<open>The score of an idle backend is its tier.\<close>

lemma lb_score_idle: "cnt (bk_id b) = 0 \<Longrightarrow> lb_score lr geo cnt b = Fin (of_nat (100 * geo_tier lr geo b))"
  using rnd.rnd_nat [of "100 * geo_tier lr geo b"] geo_tier_le [of lr geo b]
  by (simp add: lb_score_Fin load_val_def rnd.rnd_0)

lemma score_val_idle: "cnt (bk_id b) = 0 \<Longrightarrow> score_val lr geo cnt b = of_nat (100 * geo_tier lr geo b)"
  by (simp add: score_val_def lb_score_idle)

text \<open>One connection more always shows in the score.\<close>

lemma score_val_strict_load:
  assumes "unat (cnt (bk_id a)) < unat (cnt (bk_id b))" and "unat (cnt (bk_id b)) \<le> 2 ^ 50"
    and "soft_val a = soft_val b" and "weight_val a = weight_val b"
    and "geo_tier lr geo a = geo_tier lr geo b"
  shows "score_val lr geo cnt a < score_val lr geo cnt b"
proof -
  have "f64_rnd (of_nat (unat (cnt (bk_id x)))) = of_nat (unat (cnt (bk_id x)))" if "x \<in> {a, b}" for x
    using that assms(1,2) by (intro rnd.rnd_nat) auto
  moreover have "100 * geo_tier lr geo b \<le> 300" using geo_tier_le [of lr geo b] by simp
  ultimately show ?thesis
    using rnd.load_strict [OF assms(1) _ soft_val_bounds [of b] weight_val_bounds [of b], of "100 * geo_tier lr geo b"] assms
    unfolding score_val_eq load_val_def by simp
qed

section \<open>Properties\<close>

text \<open>
  C2: the one-pass loop of \<^verbatim>\<open>pick_backend\<close> refines its specification: it returns the leftmost backend
  of least score among the backends that are healthy and below their hard limit. The proof goes
  through the rounding of every operation: scores are always finite, and the floating-point test
  against the hard limit decides exactly the integer comparison.
\<close>

theorem pick_backend_refines:
  "pick_backend bs lr geo cnt = first_min (score_val lr geo cnt) (filter (eligible cnt) bs)"
  by (rule pick_backend_first_min)

text \<open>
  A backend is found exactly when some healthy backend is below its hard limit (zero meaning
  unlimited).
\<close>

lemma pick_backend_total:
  "(\<exists>b. pick_backend bs lr geo cnt = Some b) \<longleftrightarrow> (\<exists>b \<in> set bs. eligible cnt b)"
  using first_min_None [of "score_val lr geo cnt" "filter (eligible cnt) bs"]
  by (auto simp: pick_backend_first_min filter_empty_conv simp flip: not_None_eq)

text \<open>
  The chosen backend comes from the list, is healthy, is below its hard limit, and no eligible
  backend has a smaller score under the floating-point comparison of the code.
\<close>

lemma pick_backend_optimal:
  assumes "pick_backend bs lr geo cnt = Some b"
  shows "b \<in> set bs \<and> bk_healthy b
    \<and> (bk_hard_limit b = 0 \<or> unat (cnt (bk_id b)) < unat (bk_hard_limit b))
    \<and> (\<forall>c \<in> set bs. eligible cnt c \<longrightarrow> \<not> f64_less (lb_score lr geo cnt c) (lb_score lr geo cnt b))"
  using first_min_Some [OF assms [unfolded pick_backend_first_min]]
  by (auto simp: eligible_def at_hard_limit_def f64_less_score not_less)

text \<open>
  C9: geography dominates load. If an eligible backend \<open>a\<close> carries at most 99 times its soft limit
  per unit of weight, then the chosen backend is in a geographic tier at least as good as that of
  \<open>a\<close> (tiers: same country, same region, region of the POP, anything else).
\<close>

theorem pick_backend_geo_priority:
  assumes "pick_backend bs lr geo cnt = Some b"
    and "a \<in> set bs" and "eligible cnt a"
    and "unat (cnt (bk_id a)) \<le> 99 * soft_val a * weight_val a"
  shows "geo_tier lr geo b \<le> geo_tier lr geo a"
proof -
  have "score_val lr geo cnt b \<le> score_val lr geo cnt a"
    using first_min_Some [OF assms(1) [unfolded pick_backend_first_min]] assms(2,3) by auto
  also have "\<dots> \<le> of_nat (100 * geo_tier lr geo a + 99)"
    using assms(4) by (rule score_val_upper) simp
  finally have "(of_nat (100 * geo_tier lr geo b) :: rat) \<le> of_nat (100 * geo_tier lr geo a + 99)"
    using score_val_lower [of lr geo b cnt] by linarith
  then show ?thesis by linarith
qed

section \<open>Witnesses\<close>

definition example_backend :: "string \<Rightarrow> region_code \<Rightarrow> string \<Rightarrow> backend" where
  "example_backend i r c =
     \<lparr>bk_id = i, bk_app = ''myapp'', bk_region = r, bk_country = c, bk_wg_ip = ''10.50.1.1'',
      bk_port = 8080, bk_healthy = True, bk_weight = 2, bk_soft_limit = 100, bk_hard_limit = 150\<rparr>"

definition example_backends :: "backend list" where
  "example_backends =
     [example_backend ''us-1'' NorthAmerica ''US'', example_backend ''sa-1'' SouthAmerica ''AR'',
      example_backend ''eu-1'' Europe ''DE'']"

definition example_geo :: geo_info where
  "example_geo = \<lparr>geo_country = ''BR'', geo_region = SouthAmerica\<rparr>"

definition example_count :: "string \<Rightarrow> usize" where
  "example_count i = (if i = ''us-1'' then 150 else 0)"

lemma example_pick:
  "pick_backend example_backends Europe (Some example_geo) example_count
     = Some (example_backend ''sa-1'' SouthAmerica ''AR'')"
  by code_simp

lemma pick_backend_optimal_witness:
  "example_backend ''sa-1'' SouthAmerica ''AR'' \<in> set example_backends
   \<and> \<not> f64_less (lb_score Europe (Some example_geo) example_count
                    (example_backend ''eu-1'' Europe ''DE''))
                 (lb_score Europe (Some example_geo) example_count
                    (example_backend ''sa-1'' SouthAmerica ''AR''))"
proof -
  have "eligible example_count (example_backend ''eu-1'' Europe ''DE'')"
    by code_simp
  moreover have "example_backend ''eu-1'' Europe ''DE'' \<in> set example_backends"
    by (simp add: example_backends_def)
  ultimately show ?thesis
    using pick_backend_optimal [OF example_pick] by blast
qed

theorem pick_backend_geo_priority_witness:
  "geo_tier Europe (Some example_geo) (example_backend ''sa-1'' SouthAmerica ''AR'')
     \<le> geo_tier Europe (Some example_geo) (example_backend ''eu-1'' Europe ''DE'')"
proof (rule pick_backend_geo_priority [OF example_pick])
  show "example_backend ''eu-1'' Europe ''DE'' \<in> set example_backends"
    by (simp add: example_backends_def)
  show "eligible example_count (example_backend ''eu-1'' Europe ''DE'')"
    by code_simp
  show "unat (example_count (bk_id (example_backend ''eu-1'' Europe ''DE'')))
    \<le> 99 * soft_val (example_backend ''eu-1'' Europe ''DE'')
        * weight_val (example_backend ''eu-1'' Europe ''DE'')"
    by code_simp
qed

end
