(* ===== verification/Binding_Repo.thy ===== *)
theory Binding_Repo
  imports Domain
begin

text \<open>
  Session affinity: the port \<^verbatim>\<open>src/domain/ports/binding_repository.rs\<close> as a locale, and its
  implementation \<^verbatim>\<open>src/adapters/outbound/dashmap_binding_repo.rs\<close>.
\<close>

section \<open>Model\<close>

type_synonym binding_repo = "(client_key, binding) store"

definition binding_repo_new :: binding_repo where
  "binding_repo_new = dm_empty"

definition binding_repo_default :: binding_repo where
  "binding_repo_default = binding_repo_new"

definition binding_repo_inner :: "binding_repo \<Rightarrow> (client_key, binding) store" where
  "binding_repo_inner r = r"

definition binding_repo_get :: "binding_repo \<Rightarrow> client_key \<Rightarrow> binding option" where
  "binding_repo_get r key = dm_get r key"

definition binding_repo_set :: "client_key \<Rightarrow> binding \<Rightarrow> binding_repo \<Rightarrow> binding_repo" where
  "binding_repo_set key b r = dm_insert key b r"

definition binding_repo_remove :: "client_key \<Rightarrow> binding_repo \<Rightarrow> binding_repo" where
  "binding_repo_remove key r = dm_remove key r"

definition binding_repo_touch :: "instant \<Rightarrow> client_key \<Rightarrow> binding_repo \<Rightarrow> binding_repo" where
  "binding_repo_touch now key r = dm_modify key (\<lambda>b. b\<lparr>bd_last_seen := now\<rparr>) r"

definition binding_expired :: "instant \<Rightarrow> duration \<Rightarrow> binding \<Rightarrow> bool" where
  "binding_expired now ttl b \<longleftrightarrow> ttl < duration_since now (bd_last_seen b)"

definition binding_repo_cleanup_expired ::
  "instant \<Rightarrow> duration \<Rightarrow> binding_repo \<Rightarrow> binding_repo \<times> nat" where
  "binding_repo_cleanup_expired now ttl r =
     (let to_remove = map fst (filter (\<lambda>(key, b). binding_expired now ttl b) r)
      in (dm_remove_all to_remove r, length to_remove))"

definition binding_repo_count :: "binding_repo \<Rightarrow> nat" where
  "binding_repo_count r = length r"

text \<open>One iteration of the background task of \<^verbatim>\<open>start_gc\<close>, and the task over the instants at which it wakes.\<close>

definition binding_gc_tick :: "duration \<Rightarrow> instant \<Rightarrow> binding_repo \<Rightarrow> binding_repo" where
  "binding_gc_tick ttl now r =
     (let to_remove = map fst (filter (\<lambda>(key, b). ttl < duration_since now (bd_last_seen b)) r)
      in dm_remove_all to_remove r)"

fun binding_gc :: "duration \<Rightarrow> instant list \<Rightarrow> binding_repo \<Rightarrow> binding_repo" where
  "binding_gc ttl [] r = r"
| "binding_gc ttl (now # nows) r = binding_gc ttl nows (binding_gc_tick ttl now r)"

section \<open>The port\<close>

locale binding_repository =
  fixes new :: "'s"
    and get :: "'s \<Rightarrow> client_key \<Rightarrow> binding option"
    and set :: "client_key \<Rightarrow> binding \<Rightarrow> 's \<Rightarrow> 's"
    and remove :: "client_key \<Rightarrow> 's \<Rightarrow> 's"
    and touch :: "instant \<Rightarrow> client_key \<Rightarrow> 's \<Rightarrow> 's"
    and cleanup :: "instant \<Rightarrow> duration \<Rightarrow> 's \<Rightarrow> 's \<times> nat"
    and count :: "'s \<Rightarrow> nat"
    and wf :: "'s \<Rightarrow> bool"
  assumes get_new: "get new k = None"
    and get_set: "get (set k b s) k' = (if k' = k then Some b else get s k')"
    and get_remove: "get (remove k s) k' = (if k' = k then None else get s k')"
    and get_touch: "get (touch now k s) k' =
          (if k' = k then map_option (binding_touch now) (get s k) else get s k')"
    and get_cleanup: "wf s \<Longrightarrow> get (fst (cleanup now ttl s)) k =
          (case get s k of None \<Rightarrow> None | Some b \<Rightarrow> if binding_expired now ttl b then None else Some b)"
    and count_dom: "wf s \<Longrightarrow> count s = card (dom (get s))"
    and cleanup_count: "wf s \<Longrightarrow> snd (cleanup now ttl s) + count (fst (cleanup now ttl s)) = count s"
    and wf_new: "wf new"
    and wf_set: "wf s \<Longrightarrow> wf (set k b s)"
    and wf_remove: "wf s \<Longrightarrow> wf (remove k s)"
    and wf_touch: "wf s \<Longrightarrow> wf (touch now k s)"
    and wf_cleanup: "wf s \<Longrightarrow> wf (fst (cleanup now ttl s))"
begin

lemma touch_keeps_backend:
  "map_option bd_backend_id (get (touch now k s) k') = map_option bd_backend_id (get s k')"
  by (cases "get s k") (auto simp: get_touch binding_touch_def)

lemma touched_survives:
  assumes "wf s" and "get s k = Some b" and "now' \<le> now + ttl"
  shows "get (fst (cleanup now' ttl (touch now k s))) k = Some (binding_touch now b)"
  using assms
  by (simp add: get_cleanup wf_touch get_touch binding_expired_def binding_touch_def duration_since_def)

lemma cleanup_idempotent:
  assumes "wf s"
  shows "get (fst (cleanup now ttl (fst (cleanup now ttl s)))) = get (fst (cleanup now ttl s))"
  using assms by (auto simp: get_cleanup wf_cleanup split: option.splits)

end

section \<open>The implementation satisfies the port\<close>

lemmas binding_repo_defs =
  binding_repo_new_def binding_repo_get_def [abs_def] binding_repo_set_def binding_repo_remove_def
  binding_repo_touch_def binding_repo_count_def

lemma cleanup_retain:
  "dm_wf r \<Longrightarrow> binding_repo_cleanup_expired now ttl r =
     (dm_retain (\<lambda>k b. \<not> binding_expired now ttl b) r,
      length (filter (\<lambda>(k, b). binding_expired now ttl b) r))"
  by (simp add: binding_repo_cleanup_expired_def dm_remove_all_filter)

interpretation bindings: binding_repository
  binding_repo_new binding_repo_get binding_repo_set binding_repo_remove binding_repo_touch
  binding_repo_cleanup_expired binding_repo_count dm_wf
proof unfold_locales
  fix s :: binding_repo and now ttl
  assume "dm_wf s"
  then show "snd (binding_repo_cleanup_expired now ttl s)
      + binding_repo_count (fst (binding_repo_cleanup_expired now ttl s)) = binding_repo_count s"
    using sum_length_filter_compl [of "\<lambda>(k, b). binding_expired now ttl b" s]
    by (simp add: cleanup_retain binding_repo_count_def dm_retain_def case_prod_unfold)
qed (auto simp: binding_repo_defs binding_touch_def [abs_def] cleanup_retain dm_get_retain
      dm_card_dom split: option.splits)

lemma binding_gc_tick_cleanup:
  "binding_gc_tick ttl now r = fst (binding_repo_cleanup_expired now ttl r)"
  by (simp add: binding_gc_tick_def binding_repo_cleanup_expired_def binding_expired_def)

end
