(* ===== verification/Metrics_Store.thy ===== *)
theory Metrics_Store
  imports Domain
begin

text \<open>
  Connection counts and round-trip times per backend: the port
  \<^verbatim>\<open>src/domain/ports/metrics_store.rs\<close> as a locale and its implementation
  \<^verbatim>\<open>src/adapters/outbound/dashmap_metrics_store.rs\<close>. The decrement is a compare-and-swap loop that
  several tasks may run at once on one counter; the last part gives those interleavings as a step
  relation and shows that no decrement is lost and the counter never wraps below zero.
\<close>

section \<open>Model\<close>

record backend_metrics =
  bm_current_conns :: usize
  bm_last_rtt_ms :: u64

definition backend_metrics_new :: backend_metrics where
  "backend_metrics_new = \<lparr>bm_current_conns = 0, bm_last_rtt_ms = 0\<rparr>"

type_synonym metrics_store = "(string, backend_metrics) store"

definition metrics_store_new :: metrics_store where
  "metrics_store_new = dm_empty"

definition backend_metrics_default :: backend_metrics where
  "backend_metrics_default = backend_metrics_new"

definition metrics_store_default :: metrics_store where
  "metrics_store_default = metrics_store_new"

definition metrics_backend_ids :: "metrics_store \<Rightarrow> string list" where
  "metrics_backend_ids s = dm_keys s"

definition metrics_get_metrics :: "metrics_store \<Rightarrow> string \<Rightarrow> (usize \<times> u64) option" where
  "metrics_get_metrics s i = map_option (\<lambda>m. (bm_current_conns m, bm_last_rtt_ms m)) (dm_get s i)"

definition metrics_get_connection_count :: "metrics_store \<Rightarrow> string \<Rightarrow> usize" where
  "metrics_get_connection_count s i = (case dm_get s i of Some m \<Rightarrow> bm_current_conns m | None \<Rightarrow> 0)"

definition metrics_increment_connections :: "string \<Rightarrow> metrics_store \<Rightarrow> metrics_store" where
  "metrics_increment_connections i s =
     dm_modify i (\<lambda>m. m\<lparr>bm_current_conns := bm_current_conns m + 1\<rparr>)
       (dm_entry_or i backend_metrics_new s)"

text \<open>
  The loop of \<^verbatim>\<open>decrement_connections\<close> on a counter nobody else writes: \<open>n\<close> is the number of times
  the weak compare-exchange fails spuriously before it succeeds.
\<close>

fun dec_loop :: "nat \<Rightarrow> usize \<Rightarrow> usize \<Rightarrow> usize" where
  "dec_loop 0 cell current = (if 0 < current then current - 1 else cell)"
| "dec_loop (Suc n) cell current = (if 0 < current then dec_loop n cell cell else cell)"

definition metrics_decrement_connections :: "string \<Rightarrow> metrics_store \<Rightarrow> metrics_store" where
  "metrics_decrement_connections i s =
     (case dm_get s i of
        Some m \<Rightarrow> dm_insert i (m\<lparr>bm_current_conns :=
                    dec_loop 0 (bm_current_conns m) (bm_current_conns m)\<rparr>) s
      | None \<Rightarrow> s)"

definition metrics_record_rtt :: "string \<Rightarrow> u64 \<Rightarrow> metrics_store \<Rightarrow> metrics_store" where
  "metrics_record_rtt i rtt_ms s =
     dm_modify i (\<lambda>m. m\<lparr>bm_last_rtt_ms := rtt_ms\<rparr>) (dm_entry_or i backend_metrics_new s)"

definition metrics_get_last_rtt :: "metrics_store \<Rightarrow> string \<Rightarrow> u64 option" where
  "metrics_get_last_rtt s i = map_option bm_last_rtt_ms (dm_get s i)"

text \<open>
  The same counter under interleaving. A task is before its load, in the loop with the value it
  last saw, or done. A compare-exchange may fail although the values agree (it is the weak form).
\<close>

datatype dec_pc = Start | Looping usize | Finished

record counter_sys =
  cs_cell :: usize
  cs_tasks :: "nat \<Rightarrow> dec_pc"
  cs_incs :: nat
  cs_decs :: nat

inductive counter_step :: "counter_sys \<Rightarrow> counter_sys \<Rightarrow> bool" where
  load: "cs_tasks s i = Start \<Longrightarrow>
     counter_step s (s\<lparr>cs_tasks := (cs_tasks s)(i := Looping (cs_cell s))\<rparr>)"
| leave: "cs_tasks s i = Looping c \<Longrightarrow> c = 0 \<Longrightarrow>
     counter_step s (s\<lparr>cs_tasks := (cs_tasks s)(i := Finished)\<rparr>)"
| exchange: "cs_tasks s i = Looping c \<Longrightarrow> 0 < c \<Longrightarrow> cs_cell s = c \<Longrightarrow>
     counter_step s (s\<lparr>cs_cell := c - 1, cs_tasks := (cs_tasks s)(i := Finished),
                       cs_decs := Suc (cs_decs s)\<rparr>)"
| retry: "cs_tasks s i = Looping c \<Longrightarrow> 0 < c \<Longrightarrow>
     counter_step s (s\<lparr>cs_tasks := (cs_tasks s)(i := Looping (cs_cell s))\<rparr>)"
| fetch_add: "counter_step s (s\<lparr>cs_cell := cs_cell s + 1, cs_incs := Suc (cs_incs s)\<rparr>)"

inductive counter_reach :: "counter_sys \<Rightarrow> counter_sys \<Rightarrow> bool" for s0 where
  start: "counter_reach s0 s0"
| step: "counter_reach s0 s \<Longrightarrow> counter_step s t \<Longrightarrow> counter_reach s0 t"

inductive_cases counter_stepE: "counter_step s t"

section \<open>The port\<close>

locale metrics_store_port =
  fixes new :: "'s"
    and count :: "'s \<Rightarrow> string \<Rightarrow> usize"
    and increment :: "string \<Rightarrow> 's \<Rightarrow> 's"
    and decrement :: "string \<Rightarrow> 's \<Rightarrow> 's"
    and record_rtt :: "string \<Rightarrow> u64 \<Rightarrow> 's \<Rightarrow> 's"
    and last_rtt :: "'s \<Rightarrow> string \<Rightarrow> u64 option"
  assumes count_new: "count new i = 0"
    and count_increment: "count (increment i s) j = (if j = i then count s i + 1 else count s j)"
    and count_decrement: "count (decrement i s) j =
          (if j = i then (if 0 < count s i then count s i - 1 else 0) else count s j)"
    and count_record_rtt: "count (record_rtt i r s) j = count s j"
    and last_record_rtt: "last_rtt (record_rtt i r s) i = Some r"
    and last_decrement: "last_rtt (decrement i s) j = last_rtt s j"
begin

text \<open>A connection's start and end cancel, whatever is recorded in between.\<close>

lemma start_end_cancel:
  assumes "unat (count s i) < 2 ^ 64 - 1"
  shows "count (decrement i (record_rtt i r (increment i s))) j = count s j"
proof -
  have "0 < count s i + 1"
    using assms unat_Suc_word [of "count s i"] by (simp add: word_less_nat_alt)
  then show ?thesis
    by (simp add: count_decrement count_record_rtt count_increment)
qed

end

section \<open>The implementation satisfies the port\<close>

lemma dec_loop_spurious: "dec_loop n cell cell = (if 0 < cell then cell - 1 else cell)"
  by (induction n) auto

lemmas metrics_defs =
  metrics_store_new_def metrics_get_connection_count_def metrics_increment_connections_def
  metrics_decrement_connections_def metrics_record_rtt_def metrics_get_last_rtt_def
  backend_metrics_new_def

interpretation metrics: metrics_store_port
  metrics_store_new metrics_get_connection_count metrics_increment_connections
  metrics_decrement_connections metrics_record_rtt metrics_get_last_rtt
  by unfold_locales (auto simp: metrics_defs word_gt_0 split: option.splits)

section \<open>The counter under interleaving\<close>

definition counter_init :: "usize \<Rightarrow> counter_sys" where
  "counter_init n = \<lparr>cs_cell = n, cs_tasks = (\<lambda>_. Start), cs_incs = 0, cs_decs = 0\<rparr>"

definition counter_balanced :: "usize \<Rightarrow> counter_sys \<Rightarrow> bool" where
  "counter_balanced n s \<longleftrightarrow> unat (cs_cell s) + cs_decs s = unat n + cs_incs s"

lemma counter_step_incs: "counter_step s t \<Longrightarrow> cs_incs s \<le> cs_incs t"
  by (erule counter_step.cases) auto

lemma counter_step_balanced:
  assumes "counter_step s t" and "counter_balanced n s" and "unat n + cs_incs t < 2 ^ 64"
  shows "counter_balanced n t"
  using assms
proof (cases rule: counter_step.cases)
  case (exchange i c)
  then show ?thesis
    using assms(2) unat_dec_word [of c] by (auto simp: counter_balanced_def word_less_nat_alt)
next
  case fetch_add
  then have "unat (cs_cell s) < 2 ^ 64 - 1"
    using assms(2,3) by (simp add: counter_balanced_def)
  with fetch_add show ?thesis
    using assms(2) unat_Suc_word [of "cs_cell s"] by (simp add: counter_balanced_def)
qed (auto simp: counter_balanced_def)

lemma counter_reach_steps: "counter_reach s0 s \<Longrightarrow> counter_step\<^sup>*\<^sup>* s0 s"
  by (induction rule: counter_reach.induct) (auto intro: rtranclp.rtrancl_into_rtrancl)

interpretation counter: bounded_invariant counter_step "counter_balanced n" "\<lambda>s. unat n + cs_incs s" "2 ^ 64"
  by unfold_locales (auto dest: counter_step_incs intro: counter_step_balanced)

lemma counter_reach_balanced:
  assumes "counter_reach (counter_init n) s" and "unat n + cs_incs s < 2 ^ 64"
  shows "counter_balanced n s"
  using counter_reach_steps [OF assms(1)] _ assms(2)
  by (rule counter.inv_reach) (simp add: counter_balanced_def counter_init_def)

section \<open>The decrement loops end\<close>

text \<open>
  The steps that change the state when the first \<open>N\<close> tasks run: a compare-exchange that fails spuriously leaves the
  state as it was, and is left out. A task is stale when the value it last saw is no longer that of
  the counter, so that its next compare-exchange fails.
\<close>

definition dec_step :: "nat \<Rightarrow> counter_sys \<Rightarrow> counter_sys \<Rightarrow> bool" where
  "dec_step N s t \<longleftrightarrow> counter_step s t \<and> t \<noteq> s \<and> (\<forall>j\<ge>N. cs_tasks t j = cs_tasks s j)"

fun dec_cost :: "nat \<Rightarrow> usize \<Rightarrow> dec_pc \<Rightarrow> nat" where
  "dec_cost N cell Start = N + 2"
| "dec_cost N cell (Looping c) = (if c = cell then N + 1 else N + 2)"
| "dec_cost N cell Finished = 0"

definition dec_potential :: "nat \<Rightarrow> counter_sys \<Rightarrow> nat" where
  "dec_potential N s = (\<Sum>i<N. dec_cost N (cs_cell s) (cs_tasks s i))"

lemma dec_cost_le: "dec_cost N cell p \<le> N + 2"
  by (cases p) auto

lemma dec_cost_cell: "dec_cost N cell' p \<le> dec_cost N cell p + 1"
  by (cases p) auto

lemma dec_potential_le: "dec_potential N s \<le> N * (N + 2)"
  using sum_bounded_above [of "{..<N}", OF dec_cost_le] by (simp add: dec_potential_def)

text \<open>One task moves to \<open>p\<close> and the counter to \<open>cell\<close>: every other task costs at most one more.\<close>

lemma dec_potential_move:
  assumes "i < N" and "cs_tasks t = (cs_tasks s)(i := p)"
  shows "dec_potential N t + dec_cost N (cs_cell s) (cs_tasks s i)
     \<le> dec_potential N s + dec_cost N (cs_cell t) p + (if cs_cell t = cs_cell s then 0 else N - 1)"
proof -
  let ?I = "{..<N} - {i}"
  have split: "(\<Sum>j<N. f j) = f i + sum f ?I" for f :: "nat \<Rightarrow> nat"
    using assms(1) by (simp add: sum.remove)
  have "(\<Sum>j\<in>?I. dec_cost N (cs_cell t) (cs_tasks t j))
      \<le> (\<Sum>j\<in>?I. dec_cost N (cs_cell s) (cs_tasks s j) + (if cs_cell t = cs_cell s then 0 else 1))"
    by (rule sum_mono) (use assms(2) dec_cost_cell in auto)
  also have "\<dots> = (\<Sum>j\<in>?I. dec_cost N (cs_cell s) (cs_tasks s j)) + (if cs_cell t = cs_cell s then 0 else N - 1)"
    using assms(1) by (simp add: sum.distrib)
  finally show ?thesis
    unfolding dec_potential_def split using assms(2) by simp
qed

lemma dec_potential_cell:
  assumes "cs_tasks t = cs_tasks s"
  shows "dec_potential N t \<le> dec_potential N s + N"
proof -
  have "dec_potential N t \<le> (\<Sum>i<N. dec_cost N (cs_cell s) (cs_tasks s i) + 1)"
    unfolding dec_potential_def by (rule sum_mono) (use assms dec_cost_cell in auto)
  then show ?thesis by (simp add: dec_potential_def sum_Suc)
qed

lemma dec_step_potential:
  assumes "dec_step N s t"
  shows "dec_potential N t + (N + 1) * cs_incs s < dec_potential N s + (N + 1) * cs_incs t"
proof -
  from assms have step: "counter_step s t" and ne: "t \<noteq> s" and out: "\<forall>j\<ge>N. cs_tasks t j = cs_tasks s j"
    by (simp_all add: dec_step_def)
  have in_range: "i < N" if "cs_tasks t i \<noteq> cs_tasks s i" for i
    using that out leI by blast
  show ?thesis
    using step
  proof (cases rule: counter_step.cases)
    case (load i)
    with in_range [of i] dec_potential_move [of i N t s "Looping (cs_cell s)"] show ?thesis by simp
  next
    case (leave i c)
    with in_range [of i] dec_potential_move [of i N t s Finished] show ?thesis by (simp split: if_splits)
  next
    case (exchange i c)
    with in_range [of i] dec_potential_move [of i N t s Finished] show ?thesis by (simp split: if_splits)
  next
    case (retry i c)
    then have "c \<noteq> cs_cell s" using ne by (auto simp: fun_upd_idem)
    with retry in_range [of i] dec_potential_move [of i N t s "Looping (cs_cell s)"] show ?thesis by simp
  next
    case fetch_add
    with dec_potential_cell [of t s N] show ?thesis by simp
  qed
qed

lemma dec_steps_potential:
  "(dec_step N ^^ k) s t \<Longrightarrow> k + dec_potential N t + (N + 1) * cs_incs s \<le> dec_potential N s + (N + 1) * cs_incs t"
proof (induction k arbitrary: t)
  case (Suc k)
  then obtain u where "(dec_step N ^^ k) s u" "dec_step N u t" by auto
  with Suc.IH [of u] dec_step_potential [of N u t] show ?case by linarith
qed simp

text \<open>A task that is not finished can take a step.\<close>

lemma dec_step_progress:
  assumes "i < N" and "cs_tasks s i \<noteq> Finished"
  shows "\<exists>t. dec_step N s t \<and> cs_incs t = cs_incs s"
proof (cases "cs_tasks s i")
  case Start
  from counter_step.load [OF this] show ?thesis
    using Start assms(1) by (intro exI [of _ "s\<lparr>cs_tasks := (cs_tasks s)(i := Looping (cs_cell s))\<rparr>"])
      (auto simp: dec_step_def dest: arg_cong [of _ _ "\<lambda>s. cs_tasks s i"])
next
  case (Looping c)
  consider "c = 0" | "0 < c" "cs_cell s = c" | "0 < c" "cs_cell s \<noteq> c" by (auto simp: word_gt_0)
  then show ?thesis
  proof cases
    case 1
    from counter_step.leave [OF Looping 1] show ?thesis
      using Looping assms(1) by (intro exI [of _ "s\<lparr>cs_tasks := (cs_tasks s)(i := Finished)\<rparr>"])
        (auto simp: dec_step_def dest: arg_cong [of _ _ "\<lambda>s. cs_tasks s i"])
  next
    case 2
    from counter_step.exchange [OF Looping 2] show ?thesis
      using Looping assms(1)
      by (intro exI [of _ "s\<lparr>cs_cell := c - 1, cs_tasks := (cs_tasks s)(i := Finished), cs_decs := Suc (cs_decs s)\<rparr>"])
        (auto simp: dec_step_def dest: arg_cong [of _ _ "\<lambda>s. cs_tasks s i"])
  next
    case 3
    from counter_step.retry [OF Looping 3(1)] show ?thesis
      using Looping 3 assms(1) by (intro exI [of _ "s\<lparr>cs_tasks := (cs_tasks s)(i := Looping (cs_cell s))\<rparr>"])
        (auto simp: dec_step_def dest: arg_cong [of _ _ "\<lambda>s. cs_tasks s i"])
  qed
qed (use assms in simp)

text \<open>
  What the tasks have seen and done when no connection is opened meanwhile: a task in the loop saw a value that is
  not below the counter, and the finished tasks all decremented unless the counter is zero.
\<close>

definition dec_progress :: "nat \<Rightarrow> counter_sys \<Rightarrow> bool" where
  "dec_progress N s \<longleftrightarrow> (\<forall>i c. cs_tasks s i = Looping c \<longrightarrow> cs_cell s \<le> c)
     \<and> cs_decs s \<le> card {i. i < N \<and> cs_tasks s i = Finished}
     \<and> (cs_cell s = 0 \<or> cs_decs s = card {i. i < N \<and> cs_tasks s i = Finished})"

lemma finished_upd:
  assumes "i < N" and "cs_tasks s i \<noteq> Finished"
  shows "card {j. j < N \<and> ((cs_tasks s)(i := p)) j = Finished}
    = card {j. j < N \<and> cs_tasks s j = Finished} + of_bool (p = Finished)"
proof -
  have "{j. j < N \<and> ((cs_tasks s)(i := p)) j = Finished}
      = (if p = Finished then insert i {j. j < N \<and> cs_tasks s j = Finished} else {j. j < N \<and> cs_tasks s j = Finished})"
    using assms by auto
  then show ?thesis using assms by simp
qed

lemma dec_step_dec_progress:
  assumes "dec_step N s t" and "cs_incs t = cs_incs s" and "dec_progress N s"
  shows "dec_progress N t"
proof -
  from assms(1) have step: "counter_step s t" and out: "\<forall>j\<ge>N. cs_tasks t j = cs_tasks s j"
    by (simp_all add: dec_step_def)
  have in_range: "i < N" if "cs_tasks t i \<noteq> cs_tasks s i" for i
    using that out leI by blast
  show ?thesis
    using step
  proof (cases rule: counter_step.cases)
    case (load i)
    with in_range [of i] assms(3) finished_upd [of i N s "Looping (cs_cell s)"] show ?thesis
      by (auto simp: dec_progress_def)
  next
    case (leave i c)
    with assms(3) have "cs_cell s \<le> c" unfolding dec_progress_def by blast
    then have "cs_cell s = 0" using leave by simp
    with leave in_range [of i] assms(3) finished_upd [of i N s Finished] show ?thesis
      by (auto simp: dec_progress_def)
  next
    case (exchange i c)
    then have "cs_cell t \<le> cs_cell s" "i < N"
      using in_range [of i] by (auto simp: word_le_nat_alt unat_dec_word)
    with exchange assms(3) finished_upd [of i N s Finished] show ?thesis
      by (force simp: dec_progress_def intro: order_trans)
  next
    case (retry i c)
    with assms(3) finished_upd [of i N s "Looping (cs_cell s)"] show ?thesis
      by (cases "i < N") (auto simp: dec_progress_def cong: conj_cong)
  next
    case fetch_add
    with assms(2) show ?thesis by simp
  qed
qed

lemma dec_step_incs: "dec_step N s t \<Longrightarrow> cs_incs s \<le> cs_incs t"
  by (simp add: dec_step_def counter_step_incs)

lemma dec_steps_incs: "(dec_step N ^^ k) s t \<Longrightarrow> cs_incs s \<le> cs_incs t"
proof (induction k arbitrary: t)
  case (Suc k)
  then obtain u where "(dec_step N ^^ k) s u" "dec_step N u t" by auto
  with Suc.IH [of u] dec_step_incs [of N u t] show ?case by simp
qed simp

lemma dec_steps_progress:
  "(dec_step N ^^ k) s t \<Longrightarrow> cs_incs t = cs_incs s \<Longrightarrow> dec_progress N s \<Longrightarrow> dec_progress N t"
proof (induction k arbitrary: t)
  case (Suc k)
  then obtain u where u: "(dec_step N ^^ k) s u" "dec_step N u t" by auto
  then have "cs_incs s \<le> cs_incs u" "cs_incs u \<le> cs_incs t"
    using dec_steps_incs dec_step_incs by blast+
  with Suc.IH [of u] Suc.prems u dec_step_dec_progress [of N u t] show ?case by auto
qed simp

lemma dec_steps_reach: "(dec_step N ^^ k) s t \<Longrightarrow> counter_reach s t"
proof (induction k arbitrary: t)
  case (Suc k)
  then obtain u where "counter_reach s u" "dec_step N u t" by auto
  then show ?case by (simp add: dec_step_def counter_reach.step)
qed (auto intro: counter_reach.start)

lemma dec_progress_done:
  assumes "dec_progress N s" and "\<forall>i<N. cs_tasks s i = Finished" and "counter_balanced n s" and "cs_incs s = 0"
  shows "unat (cs_cell s) = unat n - N"
proof -
  have "{i. i < N \<and> cs_tasks s i = Finished} = {..<N}" using assms(2) by auto
  with assms(1,3,4) show ?thesis by (auto simp: dec_progress_def counter_balanced_def)
qed

section \<open>Properties\<close>

text \<open>
  However the tasks that close connections interleave, with each other and with new
  connections, the counter equals the connections opened minus the successful decrements: no update
  is lost and it never wraps below zero, as long as fewer than \<open>2\<^sup>6\<^sup>4\<close> connections were opened.
\<close>

lemma concurrent_decrement_balanced:
  assumes "counter_reach (counter_init n) s" and "unat n + cs_incs s < 2 ^ 64"
  shows "unat (cs_cell s) + cs_decs s = unat n + cs_incs s \<and> cs_decs s \<le> unat n + cs_incs s"
  using counter_reach_balanced [OF assms] by (auto simp: counter_balanced_def)

lemma concurrent_decrement_balanced_witness:
  "unat (0 :: usize) + 1 = unat (1 :: usize) + 0"
proof -
  define s1 where "s1 = (counter_init 1)\<lparr>cs_tasks := (cs_tasks (counter_init 1))(0 := Looping 1)\<rparr>"
  define s2 where "s2 = s1\<lparr>cs_cell := 0, cs_tasks := (cs_tasks s1)(0 := Finished), cs_decs := 1\<rparr>"
  have "counter_step (counter_init 1) s1"
    using counter_step.load [of "counter_init 1" 0] by (simp add: s1_def counter_init_def)
  moreover have "counter_step s1 s2"
    using counter_step.exchange [of s1 0 1] by (simp add: s1_def s2_def counter_init_def)
  ultimately have "counter_reach (counter_init 1) s2"
    by (meson counter_reach.intros)
  from concurrent_decrement_balanced [OF this] show ?thesis
    by (simp add: s1_def s2_def counter_init_def)
qed


text \<open>
  C33: The decrement loops end under every interleaving. When \<open>N\<close> connections close at once, whatever the schedule, all runs (without the
  spurious failures, which change nothing) take at most \<open>N (N + 2)\<close> steps, plus \<open>N + 1\<close> for every connection opened meanwhile; a state in
  which no task can step has all \<open>N\<close> of them finished; and if none was opened meanwhile the counter
  has then been lowered by \<open>N\<close>, stopping at zero.
\<close>

theorem concurrent_decrements_terminate:
  assumes "(dec_step N ^^ k) (counter_init n) s"
  shows "k \<le> N * (N + 2) + (N + 1) * cs_incs s
    \<and> ((\<exists>i<N. cs_tasks s i \<noteq> Finished) \<longrightarrow> (\<exists>t. dec_step N s t \<and> cs_incs t = cs_incs s))
    \<and> ((\<forall>i<N. cs_tasks s i = Finished) \<longrightarrow> cs_incs s = 0 \<longrightarrow> unat (cs_cell s) = unat n - N)"
proof (intro conjI impI)
  show "k \<le> N * (N + 2) + (N + 1) * cs_incs s"
    using dec_steps_potential [OF assms] dec_potential_le [of N "counter_init n"] by linarith
  show "\<exists>t. dec_step N s t \<and> cs_incs t = cs_incs s" if "\<exists>i<N. cs_tasks s i \<noteq> Finished"
    using that dec_step_progress by blast
  show "unat (cs_cell s) = unat n - N" if "\<forall>i<N. cs_tasks s i = Finished" and "cs_incs s = 0"
  proof (rule dec_progress_done)
    show "dec_progress N s"
      using dec_steps_progress [OF assms] that(2) by (simp add: counter_init_def dec_progress_def)
    show "counter_balanced n s"
      using counter_reach_balanced [OF dec_steps_reach [OF assms]] that(2) unat_lt2p [of n] by simp
  qed (use that in simp_all)
qed

theorem concurrent_decrements_terminate_witness:
  "\<exists>s. (dec_step 1 ^^ 2) (counter_init 5) s \<and> cs_incs s = 0 \<and> unat (cs_cell s) = 4"
proof -
  define s1 where "s1 = (counter_init 5)\<lparr>cs_tasks := (cs_tasks (counter_init 5))(0 := Looping 5)\<rparr>"
  define s2 where "s2 = s1\<lparr>cs_cell := 5 - 1, cs_tasks := (cs_tasks s1)(0 := Finished), cs_decs := Suc (cs_decs s1)\<rparr>"
  have 1: "dec_step 1 (counter_init 5) s1"
    using counter_step.load [of "counter_init 5" 0]
    by (auto simp: s1_def counter_init_def dec_step_def dest: fun_cong [of _ _ 0])
  have 2: "dec_step 1 s1 s2"
    using counter_step.exchange [of s1 0 5]
    by (auto simp: s1_def s2_def counter_init_def dec_step_def)
  have r: "(dec_step 1 ^^ 2) (counter_init 5) s2"
    using 1 2 by (auto simp: numeral_2_eq_2)
  moreover have i: "cs_incs s2 = 0" by (simp add: s2_def s1_def counter_init_def)
  moreover have "unat (cs_cell s2) = 4"
    using concurrent_decrements_terminate [OF r] i by (simp add: s2_def)
  ultimately show ?thesis by blast
qed

end
