(* ===== verification/Backend_Repo.thy ===== *)
theory Backend_Repo
  imports Domain F64
begin

text \<open>
  The port \<^verbatim>\<open>src/domain/ports/backend_repository.rs\<close> as a locale, and its two implementations:
  \<^verbatim>\<open>src/adapters/outbound/sqlite_backend_repo.rs\<close> (a list reloaded from SQLite) and
  \<^verbatim>\<open>src/adapters/outbound/postgres_backend_repo.rs\<close> (a cached list with its connection settings; its PostgreSQL calls are stubs).

  The content of the SQLite file is an argument: \<open>None\<close> when the file cannot be opened or the query
  cannot be prepared, otherwise the rows of the table \<^verbatim>\<open>backends\<close>. The \<^verbatim>\<open>WHERE\<close> clause and the
  conversion of each column are modelled.
\<close>

section \<open>Rows of the backends table\<close>

text \<open>A column holds a value of any of the storage classes of SQLite, whatever type the table declares for it.\<close>

datatype sql_value = SqlNull | SqlInteger i64 | SqlReal f64 | SqlText string | SqlBlob "u8 list"

record backend_row =
  row_id :: sql_value
  row_app :: sql_value
  row_region :: sql_value
  row_country :: sql_value
  row_wg_ip :: sql_value
  row_port :: sql_value
  row_healthy :: sql_value
  row_weight :: sql_value
  row_soft_limit :: sql_value
  row_hard_limit :: sql_value
  row_deleted :: sql_value

datatype repo_error = QueryFailed | InvalidColumnType nat

fun get_text :: "nat \<Rightarrow> sql_value \<Rightarrow> repo_error + string" where
  "get_text i (SqlText s) = Inr s"
| "get_text i _ = Inl (InvalidColumnType i)"

fun get_i64 :: "nat \<Rightarrow> sql_value \<Rightarrow> repo_error + i64" where
  "get_i64 i (SqlInteger n) = Inr n"
| "get_i64 i _ = Inl (InvalidColumnType i)"

text \<open>\<^verbatim>\<open>row_to_backend\<close>: the columns are read in order, and \<^verbatim>\<open>as u16\<close> and its like keep the low bits.\<close>

definition row_to_backend :: "backend_row \<Rightarrow> repo_error + backend" where
  "row_to_backend row =
     and_then (get_text 0 (row_id row)) (\<lambda>i.
     and_then (get_text 1 (row_app row)) (\<lambda>app.
     and_then (get_text 2 (row_region row)) (\<lambda>region.
     and_then (get_text 3 (row_country row)) (\<lambda>country.
     and_then (get_text 4 (row_wg_ip row)) (\<lambda>wg_ip.
     and_then (get_i64 5 (row_port row)) (\<lambda>port.
     and_then (get_i64 6 (row_healthy row)) (\<lambda>healthy.
     and_then (get_i64 7 (row_weight row)) (\<lambda>weight.
     and_then (get_i64 8 (row_soft_limit row)) (\<lambda>soft.
     and_then (get_i64 9 (row_hard_limit row)) (\<lambda>hard.
       Inr \<lparr>bk_id = i, bk_app = app, bk_region = region_from_str region, bk_country = country,
            bk_wg_ip = wg_ip, bk_port = ucast port, bk_healthy = (healthy \<noteq> 0),
            bk_weight = ucast weight, bk_soft_limit = ucast soft, bk_hard_limit = ucast hard\<rparr>))))))))))"

definition row_visible :: "backend_row \<Rightarrow> bool" where
  "row_visible row \<longleftrightarrow> row_deleted row \<in> {SqlNull, SqlInteger 0, SqlReal (Fin 0)}"

definition load_from_sqlite :: "backend_row list option \<Rightarrow> repo_error + backend list" where
  "load_from_sqlite db =
     (case db of
        None \<Rightarrow> Inl QueryFailed
      | Some rows \<Rightarrow> collect_results (map row_to_backend (filter row_visible rows)))"

section \<open>SQLite repository\<close>

record sqlite_repo =
  sq_backends :: "backend list"
  sq_version :: u64

definition sqlite_repo_new :: sqlite_repo where
  "sqlite_repo_new = \<lparr>sq_backends = [], sq_version = 0\<rparr>"

definition sqlite_repo_default :: sqlite_repo where
  "sqlite_repo_default = sqlite_repo_new"

text \<open>One iteration of the task of \<^verbatim>\<open>start_sync\<close>; a failed load leaves the list and the version alone.\<close>

definition sqlite_sync_tick :: "backend_row list option \<Rightarrow> sqlite_repo \<Rightarrow> sqlite_repo" where
  "sqlite_sync_tick db r =
     (case load_from_sqlite db of
        Inr new_backends \<Rightarrow> r\<lparr>sq_backends := new_backends, sq_version := sq_version r + 1\<rparr>
      | Inl e \<Rightarrow> r)"

definition sqlite_get_all :: "sqlite_repo \<Rightarrow> backend list" where
  "sqlite_get_all r = sq_backends r"

definition sqlite_get_by_id :: "sqlite_repo \<Rightarrow> string \<Rightarrow> backend option" where
  "sqlite_get_by_id r i = find (\<lambda>b. bk_id b = i) (sq_backends r)"

definition sqlite_get_healthy :: "sqlite_repo \<Rightarrow> backend list" where
  "sqlite_get_healthy r = filter bk_healthy (sq_backends r)"

definition sqlite_get_version :: "sqlite_repo \<Rightarrow> u64" where
  "sqlite_get_version r = sq_version r"

section \<open>PostgreSQL repository\<close>

record postgres_config =
  pc_url :: string
  pc_max_connections :: u32
  pc_min_connections :: u32
  pc_connect_timeout :: duration
  pc_query_timeout :: duration
  pc_reload_interval :: duration

definition postgres_config_default :: postgres_config where
  "postgres_config_default =
     \<lparr>pc_url = ''postgres://localhost:5432/edgeproxy'', pc_max_connections = 10, pc_min_connections = 2,
      pc_connect_timeout = from_secs 5, pc_query_timeout = from_secs 10, pc_reload_interval = from_secs 5\<rparr>"

datatype postgres_error = ConnectionError string | QueryError string | DataError string | NotInitialized

fun postgres_error_display :: "postgres_error \<Rightarrow> string" where
  "postgres_error_display (ConnectionError e) = ''connection error: '' @ e"
| "postgres_error_display (QueryError e) = ''query error: '' @ e"
| "postgres_error_display (DataError e) = ''data error: '' @ e"
| "postgres_error_display NotInitialized = ''repository not initialized''"

record pg_repo =
  pg_config :: postgres_config
  pg_backends :: "backend list"
  pg_version :: u64
  pg_initialized :: bool

definition pg_repo_new :: "postgres_config \<Rightarrow> pg_repo" where
  "pg_repo_new cfg = \<lparr>pg_config = cfg, pg_backends = [], pg_version = 0, pg_initialized = False\<rparr>"

definition pg_repo_default :: pg_repo where
  "pg_repo_default = pg_repo_new postgres_config_default"

definition pg_initialize :: "pg_repo \<Rightarrow> pg_repo" where
  "pg_initialize r = r\<lparr>pg_initialized := True\<rparr>"

definition load_backends_from_postgres :: "postgres_config \<Rightarrow> postgres_error + backend list" where
  "load_backends_from_postgres cfg = Inr []"

text \<open>
  One iteration of the task of \<^verbatim>\<open>start_sync\<close>. The task counts in its own copy of the version, made
  when it was started; the repository's version is not the one it increments.
\<close>

definition pg_sync_tick :: "u64 \<Rightarrow> pg_repo \<Rightarrow> u64 \<times> pg_repo" where
  "pg_sync_tick version r =
     (if \<not> pg_initialized r then (version, r)
      else case load_backends_from_postgres (pg_config r) of
        Inr new_backends \<Rightarrow>
          if pg_backends r \<noteq> new_backends then (version + 1, r\<lparr>pg_backends := new_backends\<rparr>)
          else (version, r)
      | Inl e \<Rightarrow> (version, r))"

definition pg_add_backend :: "backend \<Rightarrow> pg_repo \<Rightarrow> pg_repo" where
  "pg_add_backend b r = r\<lparr>pg_backends := pg_backends r @ [b], pg_version := pg_version r + 1\<rparr>"

definition pg_remove_backend :: "string \<Rightarrow> pg_repo \<Rightarrow> pg_repo" where
  "pg_remove_backend i r =
     r\<lparr>pg_backends := filter (\<lambda>b. bk_id b \<noteq> i) (pg_backends r), pg_version := pg_version r + 1\<rparr>"

fun set_health_first :: "string \<Rightarrow> bool \<Rightarrow> backend list \<Rightarrow> backend list option" where
  "set_health_first i h [] = None"
| "set_health_first i h (b # bs) =
     (if bk_id b = i then Some (b\<lparr>bk_healthy := h\<rparr> # bs)
      else map_option ((#) b) (set_health_first i h bs))"

definition pg_update_health :: "string \<Rightarrow> bool \<Rightarrow> pg_repo \<Rightarrow> pg_repo" where
  "pg_update_health i h r =
     (case set_health_first i h (pg_backends r) of
        Some bs \<Rightarrow> r\<lparr>pg_backends := bs, pg_version := pg_version r + 1\<rparr>
      | None \<Rightarrow> r)"

definition pg_get_all :: "pg_repo \<Rightarrow> backend list" where
  "pg_get_all r = pg_backends r"

definition pg_get_by_id :: "pg_repo \<Rightarrow> string \<Rightarrow> backend option" where
  "pg_get_by_id r i = find (\<lambda>b. bk_id b = i) (pg_backends r)"

definition pg_get_healthy :: "pg_repo \<Rightarrow> backend list" where
  "pg_get_healthy r = filter bk_healthy (pg_backends r)"

definition pg_get_version :: "pg_repo \<Rightarrow> u64" where
  "pg_get_version r = pg_version r"

section \<open>The port\<close>

locale backend_repository =
  fixes get_all :: "'s \<Rightarrow> backend list"
    and get_by_id :: "'s \<Rightarrow> string \<Rightarrow> backend option"
    and get_healthy :: "'s \<Rightarrow> backend list"
  assumes get_by_id_find: "get_by_id s i = find (\<lambda>b. bk_id b = i) (get_all s)"
    and get_healthy_filter: "get_healthy s = filter bk_healthy (get_all s)"
begin

lemma get_by_id_Some: "get_by_id s i = Some b \<Longrightarrow> bk_id b = i \<and> b \<in> set (get_all s)"
  by (auto simp: get_by_id_find find_Some_iff)

lemma get_by_id_None: "get_by_id s i = None \<longleftrightarrow> i \<notin> bk_id ` set (get_all s)"
  by (auto simp: get_by_id_find find_None_iff)

lemma get_healthy_iff: "b \<in> set (get_healthy s) \<longleftrightarrow> b \<in> set (get_all s) \<and> bk_healthy b"
  by (auto simp: get_healthy_filter)

end

interpretation sqlite: backend_repository sqlite_get_all sqlite_get_by_id sqlite_get_healthy
  by unfold_locales (simp_all add: sqlite_get_all_def sqlite_get_by_id_def sqlite_get_healthy_def)

interpretation pg: backend_repository pg_get_all pg_get_by_id pg_get_healthy
  by unfold_locales (simp_all add: pg_get_all_def pg_get_by_id_def pg_get_healthy_def)

section \<open>Loading\<close>

lemma get_text_Inr [simp]: "get_text i v = Inr s \<longleftrightarrow> v = SqlText s"
  by (cases v) auto

lemma get_i64_Inr [simp]: "get_i64 i v = Inr n \<longleftrightarrow> v = SqlInteger n"
  by (cases v) auto

text \<open>
  A load succeeds only with every visible row, in table order, as a backend; a single visible
  row with a column of the wrong type (a \<^verbatim>\<open>NULL\<close> country, say) fails the whole load, and the
  repository then keeps serving the previous list under the previous version.
\<close>

lemma sqlite_load_all_or_nothing:
  "(\<forall>bs. load_from_sqlite (Some rows) = Inr bs
      \<longleftrightarrow> map row_to_backend (filter row_visible rows) = map Inr bs)
   \<and> ((\<exists>row \<in> set rows. row_visible row \<and> (\<exists>e. row_to_backend row = Inl e))
      \<longrightarrow> sqlite_sync_tick (Some rows) r = r)"
proof (intro conjI allI impI)
  fix bs
  show "load_from_sqlite (Some rows) = Inr bs
      \<longleftrightarrow> map row_to_backend (filter row_visible rows) = map Inr bs"
    by (simp add: load_from_sqlite_def collect_results_Inr)
next
  assume "\<exists>row \<in> set rows. row_visible row \<and> (\<exists>e. row_to_backend row = Inl e)"
  then obtain e where "Inl e \<in> set (map row_to_backend (filter row_visible rows))"
    by force
  from collect_results_Inl [OF this] show "sqlite_sync_tick (Some rows) r = r"
    by (auto simp: sqlite_sync_tick_def load_from_sqlite_def)
qed

definition example_row :: "sql_value \<Rightarrow> backend_row" where
  "example_row country =
     \<lparr>row_id = SqlText ''sa-1'', row_app = SqlText ''myapp'', row_region = SqlText ''sa'',
      row_country = country, row_wg_ip = SqlText ''10.50.1.1'', row_port = SqlInteger 8080,
      row_healthy = SqlInteger 1, row_weight = SqlInteger 2, row_soft_limit = SqlInteger 100,
      row_hard_limit = SqlInteger 150, row_deleted = SqlInteger 0\<rparr>"

lemma sqlite_load_all_or_nothing_example:
  "sqlite_sync_tick (Some [example_row SqlNull]) sqlite_repo_new = sqlite_repo_new"
proof -
  have "row_visible (example_row SqlNull) \<and> row_to_backend (example_row SqlNull) = Inl (InvalidColumnType 3)"
    by (simp add: row_visible_def row_to_backend_def example_row_def)
  then show ?thesis
    using sqlite_load_all_or_nothing [of "[example_row SqlNull]" sqlite_repo_new] by auto
qed

end
