(* ===== verification/Proxy_Service.thy ===== *)
theory Proxy_Service
  imports Load_Balancer Binding_Repo Metrics_Store Backend_Repo
begin

text \<open>
  The application service, \<^verbatim>\<open>src/application/proxy_service.rs\<close>. In the sources it holds trait objects;
  here \<open>ports\<close> is the table of their methods (one record for each of the traits of \<^verbatim>\<open>src/domain/ports\<close>, each extending the one before) and \<open>proxy_service\<close> the state behind them, so the
  definitions work for any implementation of the ports. The contract the service relies on is the
  locale \<open>proxy_ports\<close>, assembled from the locales of the three ports; it is interpreted on the
  adapters that \<^verbatim>\<open>src/main.rs\<close> wires together.
\<close>

section \<open>Model\<close>

record 'br backend_repository_port =
  p_get_all :: "'br \<Rightarrow> backend list"
  p_get_by_id :: "'br \<Rightarrow> string \<Rightarrow> backend option"
  p_get_healthy :: "'br \<Rightarrow> backend list"
  p_get_version :: "'br \<Rightarrow> u64"

record ('br, 'bi) binding_repository_port = "'br backend_repository_port" +
  p_bind_get :: "'bi \<Rightarrow> client_key \<Rightarrow> binding option"
  p_bind_set :: "client_key \<Rightarrow> binding \<Rightarrow> 'bi \<Rightarrow> 'bi"
  p_bind_remove :: "client_key \<Rightarrow> 'bi \<Rightarrow> 'bi"
  p_bind_touch :: "instant \<Rightarrow> client_key \<Rightarrow> 'bi \<Rightarrow> 'bi"
  p_bind_cleanup :: "instant \<Rightarrow> duration \<Rightarrow> 'bi \<Rightarrow> 'bi \<times> nat"
  p_bind_count :: "'bi \<Rightarrow> nat"

record ('br, 'bi, 'ms) metrics_port = "('br, 'bi) binding_repository_port" +
  p_conn_count :: "'ms \<Rightarrow> string \<Rightarrow> usize"
  p_conn_inc :: "string \<Rightarrow> 'ms \<Rightarrow> 'ms"
  p_conn_dec :: "string \<Rightarrow> 'ms \<Rightarrow> 'ms"
  p_record_rtt :: "string \<Rightarrow> u64 \<Rightarrow> 'ms \<Rightarrow> 'ms"
  p_last_rtt :: "'ms \<Rightarrow> string \<Rightarrow> u64 option"

type_synonym ('br, 'bi, 'ms) ports = "('br, 'bi, 'ms) metrics_port"

lemmas ports_simps = backend_repository_port.simps binding_repository_port.simps metrics_port.simps

record ('br, 'bi, 'ms) proxy_service =
  ps_backend_repo :: 'br
  ps_binding_repo :: 'bi
  ps_geo_resolver :: "(ip_addr \<Rightarrow> geo_info option) option"
  ps_metrics :: 'ms
  ps_local_region :: region_code

definition proxy_service_new ::
  "'br \<Rightarrow> 'bi \<Rightarrow> (ip_addr \<Rightarrow> geo_info option) option \<Rightarrow> 'ms \<Rightarrow> region_code
     \<Rightarrow> ('br, 'bi, 'ms) proxy_service" where
  "proxy_service_new br bi geo ms lr =
     \<lparr>ps_backend_repo = br, ps_binding_repo = bi, ps_geo_resolver = geo, ps_metrics = ms,
      ps_local_region = lr\<rparr>"

definition resolve_geo :: "('br, 'bi, 'ms) proxy_service \<Rightarrow> ip_addr \<Rightarrow> geo_info option" where
  "resolve_geo s ip = (case ps_geo_resolver s of None \<Rightarrow> None | Some g \<Rightarrow> g ip)"

definition resolve_backend ::
  "('br, 'bi, 'ms) ports \<Rightarrow> instant \<Rightarrow> ip_addr \<Rightarrow> ('br, 'bi, 'ms) proxy_service
     \<Rightarrow> backend option \<times> ('br, 'bi, 'ms) proxy_service" where
  "resolve_backend P now client_ip s =
     (let key = client_key_new client_ip;
          select = (\<lambda>s.
            let client_geo = resolve_geo s client_ip;
                backends = p_get_healthy P (ps_backend_repo s)
            in if backends = [] then (None, s)
               else case pick_backend backends (ps_local_region s) client_geo
                           (p_conn_count P (ps_metrics s)) of
                 None \<Rightarrow> (None, s)
               | Some b \<Rightarrow>
                   (Some b, s\<lparr>ps_binding_repo :=
                      p_bind_set P key (binding_new now (bk_id b)) (ps_binding_repo s)\<rparr>))
      in case p_bind_get P (ps_binding_repo s) key of
           Some bd \<Rightarrow>
             (let s = s\<lparr>ps_binding_repo := p_bind_touch P now key (ps_binding_repo s)\<rparr>;
                  stale = (\<lambda>s. select (s\<lparr>ps_binding_repo := p_bind_remove P key (ps_binding_repo s)\<rparr>))
              in case p_get_by_id P (ps_backend_repo s) (bd_backend_id bd) of
                   Some b \<Rightarrow> if bk_healthy b then (Some b, s) else stale s
                 | None \<Rightarrow> stale s)
         | None \<Rightarrow> select s)"

definition resolve_backend_with_geo ::
  "('br, 'bi, 'ms) ports \<Rightarrow> instant \<Rightarrow> ip_addr \<Rightarrow> geo_info option \<Rightarrow> ('br, 'bi, 'ms) proxy_service
     \<Rightarrow> backend option \<times> ('br, 'bi, 'ms) proxy_service" where
  "resolve_backend_with_geo P now client_ip client_geo s =
     (let key = client_key_new client_ip;
          select = (\<lambda>s.
            let backends = p_get_healthy P (ps_backend_repo s)
            in if backends = [] then (None, s)
               else case pick_backend backends (ps_local_region s) client_geo
                           (p_conn_count P (ps_metrics s)) of
                 None \<Rightarrow> (None, s)
               | Some b \<Rightarrow>
                   (Some b, s\<lparr>ps_binding_repo :=
                      p_bind_set P key (binding_new now (bk_id b)) (ps_binding_repo s)\<rparr>))
      in case p_bind_get P (ps_binding_repo s) key of
           Some bd \<Rightarrow>
             (let s = s\<lparr>ps_binding_repo := p_bind_touch P now key (ps_binding_repo s)\<rparr>;
                  stale = (\<lambda>s. select (s\<lparr>ps_binding_repo := p_bind_remove P key (ps_binding_repo s)\<rparr>))
              in case p_get_by_id P (ps_backend_repo s) (bd_backend_id bd) of
                   Some b \<Rightarrow> if bk_healthy b then (Some b, s) else stale s
                 | None \<Rightarrow> stale s)
         | None \<Rightarrow> select s)"

definition clear_binding ::
  "('br, 'bi, 'ms) ports \<Rightarrow> ip_addr \<Rightarrow> ('br, 'bi, 'ms) proxy_service
     \<Rightarrow> ('br, 'bi, 'ms) proxy_service" where
  "clear_binding P client_ip s =
     s\<lparr>ps_binding_repo := p_bind_remove P (client_key_new client_ip) (ps_binding_repo s)\<rparr>"

definition record_connection_start ::
  "('br, 'bi, 'ms) ports \<Rightarrow> string \<Rightarrow> ('br, 'bi, 'ms) proxy_service
     \<Rightarrow> ('br, 'bi, 'ms) proxy_service" where
  "record_connection_start P i s = s\<lparr>ps_metrics := p_conn_inc P i (ps_metrics s)\<rparr>"

definition record_connection_end ::
  "('br, 'bi, 'ms) ports \<Rightarrow> string \<Rightarrow> ('br, 'bi, 'ms) proxy_service
     \<Rightarrow> ('br, 'bi, 'ms) proxy_service" where
  "record_connection_end P i s = s\<lparr>ps_metrics := p_conn_dec P i (ps_metrics s)\<rparr>"

definition proxy_record_rtt ::
  "('br, 'bi, 'ms) ports \<Rightarrow> string \<Rightarrow> u64 \<Rightarrow> ('br, 'bi, 'ms) proxy_service
     \<Rightarrow> ('br, 'bi, 'ms) proxy_service" where
  "proxy_record_rtt P i rtt s = s\<lparr>ps_metrics := p_record_rtt P i rtt (ps_metrics s)\<rparr>"

definition proxy_get_connection_count ::
  "('br, 'bi, 'ms) ports \<Rightarrow> ('br, 'bi, 'ms) proxy_service \<Rightarrow> string \<Rightarrow> usize" where
  "proxy_get_connection_count P s i = p_conn_count P (ps_metrics s) i"

definition proxy_local_region :: "('br, 'bi, 'ms) proxy_service \<Rightarrow> region_code" where
  "proxy_local_region s = ps_local_region s"

text \<open>One iteration of the endless loop of \<^verbatim>\<open>run_binding_cleanup\<close>.\<close>

definition binding_cleanup_tick ::
  "('br, 'bi, 'ms) ports \<Rightarrow> instant \<Rightarrow> duration \<Rightarrow> ('br, 'bi, 'ms) proxy_service
     \<Rightarrow> ('br, 'bi, 'ms) proxy_service" where
  "binding_cleanup_tick P now ttl s =
     s\<lparr>ps_binding_repo := fst (p_bind_cleanup P now ttl (ps_binding_repo s))\<rparr>"

text \<open>A sequence of calls on the service, each with the instant at which it reads the clock.\<close>

datatype proxy_call =
  Resolve ip_addr "geo_info option"
| Clear ip_addr
| ConnStart string
| ConnEnd string
| Rtt string u64
| Cleanup duration

fun proxy_step ::
  "('br, 'bi, 'ms) ports \<Rightarrow> instant \<times> proxy_call \<Rightarrow> ('br, 'bi, 'ms) proxy_service
     \<Rightarrow> ('br, 'bi, 'ms) proxy_service" where
  "proxy_step P (now, Resolve ip geo) s = snd (resolve_backend_with_geo P now ip geo s)"
| "proxy_step P (now, Clear ip) s = clear_binding P ip s"
| "proxy_step P (now, ConnStart i) s = record_connection_start P i s"
| "proxy_step P (now, ConnEnd i) s = record_connection_end P i s"
| "proxy_step P (now, Rtt i r) s = proxy_record_rtt P i r s"
| "proxy_step P (now, Cleanup ttl) s = binding_cleanup_tick P now ttl s"

fun proxy_run ::
  "('br, 'bi, 'ms) ports \<Rightarrow> (instant \<times> proxy_call) list \<Rightarrow> ('br, 'bi, 'ms) proxy_service
     \<Rightarrow> ('br, 'bi, 'ms) proxy_service" where
  "proxy_run P [] s = s"
| "proxy_run P (c # cs) s = proxy_run P cs (proxy_step P c s)"

text \<open>The adapters of \<^verbatim>\<open>src/main.rs\<close>: SQLite backends, DashMap bindings, DashMap metrics.\<close>

definition main_ports :: "(sqlite_repo, binding_repo, metrics_store) ports" where
  "main_ports =
     \<lparr>p_get_all = sqlite_get_all, p_get_by_id = sqlite_get_by_id, p_get_healthy = sqlite_get_healthy,
      p_get_version = sqlite_get_version,
      p_bind_get = binding_repo_get, p_bind_set = binding_repo_set,
      p_bind_remove = binding_repo_remove, p_bind_touch = binding_repo_touch,
      p_bind_cleanup = binding_repo_cleanup_expired, p_bind_count = binding_repo_count,
      p_conn_count = metrics_get_connection_count, p_conn_inc = metrics_increment_connections,
      p_conn_dec = metrics_decrement_connections, p_record_rtt = metrics_record_rtt,
      p_last_rtt = metrics_get_last_rtt\<rparr>"

type_synonym main_service = "(sqlite_repo, binding_repo, metrics_store) proxy_service"

section \<open>Specification of affinity\<close>

text \<open>
  The call keeps the affinity of the client at \<open>ip\<close>, which was last confirmed at \<open>t\<close>: the clock does
  not run backwards, the client's binding is not cleared, and a cleanup comes before the
  time-to-live has run out.
\<close>

definition keeps_affinity :: "instant \<Rightarrow> ip_addr \<Rightarrow> instant \<times> proxy_call \<Rightarrow> bool" where
  "keeps_affinity t ip c \<longleftrightarrow>
     t \<le> fst c \<and> snd c \<noteq> Clear ip \<and> (\<forall>ttl. snd c = Cleanup ttl \<longrightarrow> fst c \<le> t + ttl)"

section \<open>The contract of the ports\<close>

locale proxy_ports =
  repo: backend_repository "p_get_all P" "p_get_by_id P" "p_get_healthy P" +
  bind: binding_repository bind_new "p_bind_get P" "p_bind_set P" "p_bind_remove P"
    "p_bind_touch P" "p_bind_cleanup P" "p_bind_count P" bind_wf +
  metrics: metrics_store_port metrics_new "p_conn_count P" "p_conn_inc P" "p_conn_dec P"
    "p_record_rtt P" "p_last_rtt P"
  for P :: "('br, 'bi, 'ms) ports"
    and bind_new :: 'bi
    and bind_wf :: "'bi \<Rightarrow> bool"
    and metrics_new :: 'ms
begin

abbreviation bound_to :: "('br, 'bi, 'ms) proxy_service \<Rightarrow> ip_addr \<Rightarrow> string option" where
  "bound_to s ip \<equiv> map_option bd_backend_id (p_bind_get P (ps_binding_repo s) (client_key_new ip))"

lemma resolve_geo_cong [simp]: "resolve_geo (s\<lparr>ps_binding_repo := b\<rparr>) ip = resolve_geo s ip"
  by (simp add: resolve_geo_def)

lemma resolve_backend_eq:
  "resolve_backend P now ip s = resolve_backend_with_geo P now ip (resolve_geo s ip) s"
  by (auto simp: resolve_backend_def resolve_backend_with_geo_def Let_def split: option.split)

text \<open>The three ways a resolution can go.\<close>

lemma resolve_bound:
  assumes "p_bind_get P (ps_binding_repo s) (client_key_new ip) = Some bd"
    and "p_get_by_id P (ps_backend_repo s) (bd_backend_id bd) = Some b" and "bk_healthy b"
  shows "resolve_backend_with_geo P now ip geo s =
    (Some b, s\<lparr>ps_binding_repo := p_bind_touch P now (client_key_new ip) (ps_binding_repo s)\<rparr>)"
  using assms by (simp add: resolve_backend_with_geo_def Let_def)

definition dead_binding :: "('br, 'bi, 'ms) proxy_service \<Rightarrow> ip_addr \<Rightarrow> bool" where
  "dead_binding s ip \<longleftrightarrow>
     (\<forall>i b. bound_to s ip = Some i \<longrightarrow> p_get_by_id P (ps_backend_repo s) i = Some b \<longrightarrow> \<not> bk_healthy b)"

lemma resolve_unbound:
  assumes "dead_binding s ip"
  shows "\<exists>bi. (\<forall>k. p_bind_get P bi k =
            (if k = client_key_new ip then None else p_bind_get P (ps_binding_repo s) k))
       \<and> (bind_wf (ps_binding_repo s) \<longrightarrow> bind_wf bi)
       \<and> resolve_backend_with_geo P now ip geo s =
         (case pick_backend (p_get_healthy P (ps_backend_repo s)) (ps_local_region s) geo
                 (p_conn_count P (ps_metrics s)) of
            None \<Rightarrow> (None, s\<lparr>ps_binding_repo := bi\<rparr>)
          | Some b \<Rightarrow> (Some b, s\<lparr>ps_binding_repo :=
                         p_bind_set P (client_key_new ip) (binding_new now (bk_id b)) bi\<rparr>))"
proof (cases "p_bind_get P (ps_binding_repo s) (client_key_new ip)")
  case None
  then show ?thesis
    by (intro exI [of _ "ps_binding_repo s"])
       (auto simp: resolve_backend_with_geo_def Let_def pick_backend_def split: option.split)
next
  case (Some bd)
  with assms have dead: "p_get_by_id P (ps_backend_repo s) (bd_backend_id bd) = Some b \<Longrightarrow> \<not> bk_healthy b" for b
    by (auto simp: dead_binding_def)
  let ?bi = "p_bind_remove P (client_key_new ip)
    (p_bind_touch P now (client_key_new ip) (ps_binding_repo s))"
  show ?thesis
    using Some dead
    by (intro exI [of _ ?bi])
       (auto simp: resolve_backend_with_geo_def Let_def pick_backend_def bind.get_remove
          bind.get_touch bind.wf_remove bind.wf_touch split: option.split)
qed

lemma not_dead_binding:
  assumes "\<not> dead_binding s ip"
  obtains bd b where "p_bind_get P (ps_binding_repo s) (client_key_new ip) = Some bd"
    and "p_get_by_id P (ps_backend_repo s) (bd_backend_id bd) = Some b" and "bk_healthy b"
  using assms by (auto simp: dead_binding_def)

lemma resolve_result_healthy:
  assumes "resolve_backend_with_geo P now ip geo s = (Some b, s')"
  shows "bk_healthy b \<and> b \<in> set (p_get_all P (ps_backend_repo s))"
proof (cases "dead_binding s ip")
  case True
  from resolve_unbound [OF this, of now geo] assms
  have "pick_backend (p_get_healthy P (ps_backend_repo s)) (ps_local_region s) geo
      (p_conn_count P (ps_metrics s)) = Some b"
    by (auto split: option.splits)
  then have "b \<in> set (p_get_healthy P (ps_backend_repo s))"
    by (auto simp: pick_backend_first_min dest!: first_min_Some)
  then show ?thesis by (simp add: repo.get_healthy_iff)
next
  case False
  then obtain bd c where bound:
    "p_bind_get P (ps_binding_repo s) (client_key_new ip) = Some bd"
    "p_get_by_id P (ps_backend_repo s) (bd_backend_id bd) = Some c" "bk_healthy c"
    by (rule not_dead_binding)
  from resolve_bound [OF this, of now geo] assms bound show ?thesis
    by (auto dest: repo.get_by_id_Some)
qed

lemma resolve_frame:
  assumes "resolve_backend_with_geo P now ip geo s = (r, s')"
  shows "ps_backend_repo s' = ps_backend_repo s \<and> ps_metrics s' = ps_metrics s
    \<and> ps_local_region s' = ps_local_region s \<and> ps_geo_resolver s' = ps_geo_resolver s
    \<and> (\<forall>k. k \<noteq> client_key_new ip \<longrightarrow>
         p_bind_get P (ps_binding_repo s') k = p_bind_get P (ps_binding_repo s) k)
    \<and> (bind_wf (ps_binding_repo s) \<longrightarrow> bind_wf (ps_binding_repo s'))"
proof (cases "dead_binding s ip")
  case True
  from resolve_unbound [OF this, of now geo] assms show ?thesis
    by (auto simp: bind.get_set bind.wf_set split: option.splits)
next
  case False
  then obtain bd c where bound:
    "p_bind_get P (ps_binding_repo s) (client_key_new ip) = Some bd"
    "p_get_by_id P (ps_backend_repo s) (bd_backend_id bd) = Some c" "bk_healthy c"
    by (rule not_dead_binding)
  from resolve_bound [OF this, of now geo] assms show ?thesis
    by (auto simp: bind.get_touch bind.wf_touch)
qed

lemma resolve_binds:
  assumes "resolve_backend_with_geo P now ip geo s = (Some b, s')"
  shows "\<exists>bd. p_bind_get P (ps_binding_repo s') (client_key_new ip) = Some bd
    \<and> bd_backend_id bd = bk_id b \<and> bd_last_seen bd = now"
proof (cases "dead_binding s ip")
  case True
  from resolve_unbound [OF this, of now geo] assms show ?thesis
    by (auto simp: bind.get_set binding_new_def split: option.splits)
next
  case False
  then obtain bd c where bound:
    "p_bind_get P (ps_binding_repo s) (client_key_new ip) = Some bd"
    "p_get_by_id P (ps_backend_repo s) (bd_backend_id bd) = Some c" "bk_healthy c"
    by (rule not_dead_binding)
  from resolve_bound [OF this, of now geo] assms bound show ?thesis
    by (auto simp: bind.get_touch binding_touch_def dest: repo.get_by_id_Some)
qed

lemma resolve_None_unbinds:
  assumes "resolve_backend_with_geo P now ip geo s = (None, s')"
  shows "p_bind_get P (ps_binding_repo s') (client_key_new ip) = None
    \<and> (\<forall>b \<in> set (p_get_all P (ps_backend_repo s)).
         \<not> eligible (p_conn_count P (ps_metrics s)) b)"
proof (cases "dead_binding s ip")
  case True
  from resolve_unbound [OF this, of now geo] assms
  have "pick_backend (p_get_healthy P (ps_backend_repo s)) (ps_local_region s) geo
      (p_conn_count P (ps_metrics s)) = None"
    and "p_bind_get P (ps_binding_repo s') (client_key_new ip) = None"
    by (auto split: option.splits)
  then show ?thesis
    by (auto simp: pick_backend_first_min first_min_None repo.get_healthy_filter
        filter_empty_conv eligible_def)
next
  case False
  then obtain bd c where bound:
    "p_bind_get P (ps_binding_repo s) (client_key_new ip) = Some bd"
    "p_get_by_id P (ps_backend_repo s) (bd_backend_id bd) = Some c" "bk_healthy c"
    by (rule not_dead_binding)
  from resolve_bound [OF this, of now geo] assms show ?thesis by simp
qed

text \<open>Affinity over a run.\<close>

definition affine :: "instant \<Rightarrow> ip_addr \<Rightarrow> backend \<Rightarrow> ('br, 'bi, 'ms) proxy_service \<Rightarrow> bool" where
  "affine t ip b s \<longleftrightarrow>
     bind_wf (ps_binding_repo s)
     \<and> p_get_by_id P (ps_backend_repo s) (bk_id b) = Some b \<and> bk_healthy b
     \<and> (\<exists>bd. p_bind_get P (ps_binding_repo s) (client_key_new ip) = Some bd
          \<and> bd_backend_id bd = bk_id b \<and> t \<le> bd_last_seen bd)"

lemma affine_resolve:
  assumes "affine t ip b s"
  shows "resolve_backend_with_geo P now ip geo s =
    (Some b, s\<lparr>ps_binding_repo := p_bind_touch P now (client_key_new ip) (ps_binding_repo s)\<rparr>)"
  using assms by (auto simp: affine_def intro: resolve_bound)

lemma affine_step:
  assumes "affine t ip b s" and "keeps_affinity t ip c"
  shows "affine t ip b (proxy_step P c s)"
proof (cases c)
  case (Pair now call)
  show ?thesis
  proof (cases call)
    case (Resolve ip' geo)
    show ?thesis
    proof (cases "ip' = ip")
      case True
      with assms Resolve Pair affine_resolve [OF assms(1), of now geo] show ?thesis
        by (auto simp: affine_def keeps_affinity_def bind.wf_touch bind.get_touch binding_touch_def)
    next
      case False
      obtain r s' where r: "resolve_backend_with_geo P now ip' geo s = (r, s')" by fastforce
      from resolve_frame [OF r] assms(1) False Resolve Pair r show ?thesis
        by (auto simp: affine_def client_key_new_def)
    qed
  next
    case (Cleanup ttl)
    with assms Pair show ?thesis
      by (auto simp: affine_def keeps_affinity_def binding_cleanup_tick_def bind.get_cleanup
          bind.wf_cleanup binding_expired_def duration_since_def)
  qed (use assms Pair in \<open>auto simp: affine_def keeps_affinity_def clear_binding_def
        record_connection_start_def record_connection_end_def proxy_record_rtt_def
        bind.get_remove bind.wf_remove client_key_new_def\<close>)
qed

lemma affine_run:
  "affine t ip b s \<Longrightarrow> \<forall>c \<in> set cs. keeps_affinity t ip c \<Longrightarrow> affine t ip b (proxy_run P cs s)"
  by (induction cs arbitrary: s) (auto intro: affine_step)

lemma sticky:
  assumes "bind_wf (ps_binding_repo s)"
    and "distinct (map bk_id (p_get_all P (ps_backend_repo s)))"
    and "resolve_backend_with_geo P t ip geo s = (Some b, s')"
    and "\<forall>c \<in> set cs. keeps_affinity t ip c"
  shows "fst (resolve_backend_with_geo P now ip geo' (proxy_run P cs s')) = Some b"
proof -
  note frame = resolve_frame [OF assms(3)]
  have b: "bk_healthy b" "b \<in> set (p_get_all P (ps_backend_repo s))"
    using resolve_result_healthy [OF assms(3)] by auto
  have "find (\<lambda>c. bk_id c = bk_id b) xs = Some b" if "distinct (map bk_id xs)" "b \<in> set xs" for xs
    using that by (induction xs) auto
  then have "p_get_by_id P (ps_backend_repo s') (bk_id b) = Some b"
    using assms(2) b(2) frame by (simp add: repo.get_by_id_find)
  then have "affine t ip b s'"
    using frame assms(1) b(1) resolve_binds [OF assms(3)] by (auto simp: affine_def)
  from affine_resolve [OF affine_run [OF this assms(4)]] show ?thesis by simp
qed

text \<open>Well-formed bindings at time \<open>t\<close>, to backends with a name in \<open>I\<close>, and their preservation by every call while the listed backends have such names.\<close>

definition bindings_ok :: "string set \<Rightarrow> instant \<Rightarrow> ('br, 'bi, 'ms) proxy_service \<Rightarrow> bool" where
  "bindings_ok I t s \<longleftrightarrow> bind_wf (ps_binding_repo s)
     \<and> (\<forall>k bd. p_bind_get P (ps_binding_repo s) k = Some bd \<longrightarrow>
          bd_created_at bd \<le> bd_last_seen bd \<and> bd_last_seen bd \<le> t
          \<and> bd_backend_id bd \<in> I)"

lemma resolve_bindings_ok:
  assumes "bindings_ok I t s" and "t \<le> now" and "bk_id ` set (p_get_all P (ps_backend_repo s)) \<subseteq> I"
  shows "bindings_ok I now (snd (resolve_backend_with_geo P now ip geo s))"
proof (cases "dead_binding s ip")
  case True
  obtain r s' where r: "resolve_backend_with_geo P now ip geo s = (r, s')" by fastforce
  from resolve_unbound [OF True, of now geo] obtain bi where bi:
    "\<forall>k. p_bind_get P bi k = (if k = client_key_new ip then None else p_bind_get P (ps_binding_repo s) k)"
    "bind_wf (ps_binding_repo s) \<longrightarrow> bind_wf bi"
    "(r, s') = (case r of None \<Rightarrow> (None, s\<lparr>ps_binding_repo := bi\<rparr>)
       | Some b \<Rightarrow> (Some b, s\<lparr>ps_binding_repo := p_bind_set P (client_key_new ip) (binding_new now (bk_id b)) bi\<rparr>))"
    using r by (auto split: option.splits)
  show ?thesis
  proof (cases r)
    case None
    with assms bi r show ?thesis by (force simp: bindings_ok_def split: if_splits)
  next
    case (Some b)
    with r have "b \<in> set (p_get_all P (ps_backend_repo s))" using resolve_result_healthy by blast
    with Some assms bi r show ?thesis
      by (force simp: bindings_ok_def bind.get_set bind.wf_set binding_new_def split: if_splits)
  qed
next
  case False
  then obtain bd c where bound:
    "p_bind_get P (ps_binding_repo s) (client_key_new ip) = Some bd"
    "p_get_by_id P (ps_backend_repo s) (bd_backend_id bd) = Some c" "bk_healthy c"
    by (rule not_dead_binding)
  from resolve_bound [OF this, of now geo] assms bound(1) show ?thesis
    by (force simp: bindings_ok_def bind.get_touch bind.wf_touch binding_touch_def split: if_splits)
qed

lemma bindings_ok_mono: "bindings_ok I t s \<Longrightarrow> t \<le> t' \<Longrightarrow> bindings_ok I t' s"
  by (force simp: bindings_ok_def)

lemma step_bindings_ok:
  assumes "bindings_ok I t s" and "t \<le> fst c" and "bk_id ` set (p_get_all P (ps_backend_repo s)) \<subseteq> I"
  shows "bindings_ok I (fst c) (proxy_step P c s)"
proof (cases c)
  case (Pair now call)
  with assms bindings_ok_mono [of I t s now] have ok: "bindings_ok I now s" by simp
  show ?thesis
  proof (cases call)
    case (Resolve ip geo)
    with Pair assms show ?thesis by (simp add: resolve_bindings_ok)
  qed (use ok Pair in \<open>auto simp: bindings_ok_def clear_binding_def record_connection_start_def
        record_connection_end_def proxy_record_rtt_def binding_cleanup_tick_def bind.get_remove bind.wf_remove
        bind.get_cleanup bind.wf_cleanup split: option.splits if_splits\<close>)
qed

text \<open>Only a resolution creates a binding, and only for its own client.\<close>

lemma step_binding_dom:
  assumes "bind_wf (ps_binding_repo s)"
  shows "bind_wf (ps_binding_repo (proxy_step P c s))
    \<and> dom (p_bind_get P (ps_binding_repo (proxy_step P c s)))
        \<subseteq> dom (p_bind_get P (ps_binding_repo s)) \<union> client_key_new ` {ip. \<exists>geo. snd c = Resolve ip geo}"
proof (cases c)
  case (Pair now call)
  show ?thesis
  proof (cases call)
    case (Resolve ip geo)
    obtain r s' where r: "resolve_backend_with_geo P now ip geo s = (r, s')" by fastforce
    from resolve_frame [OF r] assms r Pair Resolve show ?thesis by (force simp: dom_def)
  qed (use assms Pair in \<open>auto simp: clear_binding_def record_connection_start_def record_connection_end_def
        proxy_record_rtt_def binding_cleanup_tick_def bind.get_remove bind.wf_remove bind.get_cleanup bind.wf_cleanup
        split: option.splits if_splits\<close>)
qed

end

interpretation main: proxy_ports main_ports binding_repo_new dm_wf metrics_store_new
  unfolding proxy_ports_def main_ports_def ports_simps
  by (intro conjI sqlite.backend_repository_axioms bindings.binding_repository_axioms
      metrics.metrics_store_port_axioms)

section \<open>Properties of the service as wired in main\<close>

lemma main_ports_simps [simp]:
  "p_get_all main_ports = sqlite_get_all"
  "p_bind_get main_ports = binding_repo_get"
  "p_get_by_id main_ports = sqlite_get_by_id"
  "p_get_healthy main_ports = sqlite_get_healthy"
  "p_conn_count main_ports = metrics_get_connection_count"
  "p_last_rtt main_ports = metrics_get_last_rtt"
  by (simp_all add: main_ports_def)

text \<open>
  C1: session affinity. Once a client was routed to a backend, every later resolution for that
  client returns the same backend, whatever other clients do in between, whatever the load and the
  client's resolved location are by then, as long as the backend list stays the same (with unique
  ids), nobody clears the client's binding, the clock does not run backwards and every cleanup comes
  within the time-to-live.
\<close>

theorem session_affinity:
  fixes s :: main_service
  assumes "dm_wf (ps_binding_repo s)"
    and "distinct (map bk_id (sq_backends (ps_backend_repo s)))"
    and "resolve_backend_with_geo main_ports t ip geo s = (Some b, s')"
    and "\<forall>c \<in> set calls. keeps_affinity t ip c"
  shows "fst (resolve_backend_with_geo main_ports now ip geo' (proxy_run main_ports calls s')) = Some b"
  using assms by (intro main.sticky) (auto simp: sqlite_get_all_def)

text \<open>
  C11: what a successful resolution guarantees: the backend is healthy and comes from the repository,
  the client is now bound to it with a fresh timestamp, and nothing else changed: no other client's
  binding, no metric, no backend.
\<close>

theorem resolve_sound:
  fixes s :: main_service
  assumes "resolve_backend_with_geo main_ports now ip geo s = (Some b, s')"
  shows "bk_healthy b \<and> b \<in> set (sq_backends (ps_backend_repo s))
    \<and> (\<exists>bd. binding_repo_get (ps_binding_repo s') (client_key_new ip) = Some bd
          \<and> bd_backend_id bd = bk_id b \<and> bd_last_seen bd = now)
    \<and> (\<forall>k. k \<noteq> client_key_new ip \<longrightarrow>
          binding_repo_get (ps_binding_repo s') k = binding_repo_get (ps_binding_repo s) k)
    \<and> ps_metrics s' = ps_metrics s \<and> ps_backend_repo s' = ps_backend_repo s"
  using main.resolve_result_healthy [OF assms] main.resolve_binds [OF assms]
    main.resolve_frame [OF assms]
  by (simp add: sqlite_get_all_def)

text \<open>
  C12: a resolution fails only when no backend in the repository is both healthy and below its hard
  limit, and a failed resolution leaves the client without a binding.
\<close>

theorem resolve_none:
  fixes s :: main_service
  assumes "resolve_backend_with_geo main_ports now ip geo s = (None, s')"
  shows "binding_repo_get (ps_binding_repo s') (client_key_new ip) = None
    \<and> (\<forall>b \<in> set (sq_backends (ps_backend_repo s)).
         \<not> eligible (metrics_get_connection_count (ps_metrics s)) b)"
  using main.resolve_None_unbinds [OF assms] by (simp add: sqlite_get_all_def)

lemma step_metrics_wf: "dm_wf (ps_metrics s) \<Longrightarrow> dm_wf (ps_metrics (proxy_step main_ports c s))"
proof (cases c)
  case (Pair now call)
  moreover assume "dm_wf (ps_metrics s)"
  moreover have "ps_metrics (snd (resolve_backend_with_geo main_ports now ip geo s)) = ps_metrics s" for ip geo
    using main.resolve_frame [OF prod.collapse [symmetric], of now ip geo s] by simp
  ultimately show ?thesis
    by (cases call) (auto simp: clear_binding_def record_connection_start_def record_connection_end_def
        proxy_record_rtt_def binding_cleanup_tick_def main_ports_def metrics_increment_connections_def
        metrics_decrement_connections_def metrics_record_rtt_def split: option.split)
qed

lemma step_repo [simp]: "ps_backend_repo (proxy_step main_ports c s) = ps_backend_repo s"
proof (cases c)
  case (Pair now call)
  moreover have "ps_backend_repo (snd (resolve_backend_with_geo main_ports now ip geo s)) = ps_backend_repo s" for ip geo
    using main.resolve_frame [OF prod.collapse [symmetric], of now ip geo s] by simp
  ultimately show ?thesis
    by (cases call) (simp_all add: clear_binding_def record_connection_start_def record_connection_end_def
        proxy_record_rtt_def binding_cleanup_tick_def)
qed

text \<open>What happens to the service while it runs: calls, and reloads of the list of backends from the content of the database.\<close>

datatype service_event = Call instant proxy_call | Reload "backend_row list option"

fun service_event_step :: "service_event \<Rightarrow> main_service \<Rightarrow> main_service" where
  "service_event_step (Call now c) s = proxy_step main_ports (now, c) s"
| "service_event_step (Reload db) s = s\<lparr>ps_backend_repo := sqlite_sync_tick db (ps_backend_repo s)\<rparr>"

fun service_event_run :: "service_event list \<Rightarrow> main_service \<Rightarrow> main_service" where
  "service_event_run [] s = s"
| "service_event_run (e # es) s = service_event_run es (service_event_step e s)"

fun call_times :: "service_event list \<Rightarrow> instant list" where
  "call_times [] = []"
| "call_times (Call now c # es) = now # call_times es"
| "call_times (Reload db # es) = call_times es"

definition listed :: "sqlite_repo \<Rightarrow> string set" where
  "listed r = bk_id ` set (sq_backends r)"

text \<open>The names of all backends that were in the list at some time.\<close>

fun ever_listed :: "service_event list \<Rightarrow> sqlite_repo \<Rightarrow> string set" where
  "ever_listed [] r = listed r"
| "ever_listed (Call now c # es) r = ever_listed es r"
| "ever_listed (Reload db # es) r = listed r \<union> ever_listed es (sqlite_sync_tick db r)"

definition asking :: "service_event list \<Rightarrow> ip_addr set" where
  "asking es = {ip. \<exists>now geo. Call now (Resolve ip geo) \<in> set es}"

definition service_wf :: "string set \<Rightarrow> instant \<Rightarrow> main_service \<Rightarrow> bool" where
  "service_wf I t s \<longleftrightarrow> dm_wf (ps_binding_repo s) \<and> dm_wf (ps_metrics s)
     \<and> (\<forall>k bd. binding_repo_get (ps_binding_repo s) k = Some bd \<longrightarrow>
          bd_created_at bd \<le> bd_last_seen bd \<and> bd_last_seen bd \<le> t \<and> bd_backend_id bd \<in> I)"

lemma service_wf_alt: "service_wf I t s \<longleftrightarrow> main.bindings_ok I t s \<and> dm_wf (ps_metrics s)"
  by (auto simp: service_wf_def main.bindings_ok_def)

lemma service_wf_new:
  "service_wf I t (proxy_service_new br binding_repo_new geo metrics_store_new region)"
  by (simp add: service_wf_def proxy_service_new_def binding_repo_defs metrics_store_new_def)

lemma listed_ever: "listed r \<subseteq> ever_listed es r"
  by (induction es r rule: ever_listed.induct) auto

lemma event_run_wf:
  assumes "service_wf I t s" "sorted (t # call_times es)" "ever_listed es (ps_backend_repo s) \<subseteq> I"
  shows "service_wf I (last (t # call_times es)) (service_event_run es s)"
  using assms
proof (induction es arbitrary: t s)
  case (Cons e es)
  show ?case
  proof (cases e)
    case (Call now c)
    have "bk_id ` set (sqlite_get_all (ps_backend_repo s)) \<subseteq> I"
      using listed_ever [of "ps_backend_repo s" es] Cons.prems(3) Call by (auto simp: listed_def sqlite_get_all_def)
    then have "service_wf I now (proxy_step main_ports (now, c) s)"
      using main.step_bindings_ok [of I t s "(now, c)"] step_metrics_wf [of s "(now, c)"] Cons.prems(1,2) Call
      by (simp add: service_wf_alt)
    from Cons.IH [OF this] Cons.prems Call show ?thesis by simp
  next
    case (Reload db)
    from Cons.prems(1) have "service_wf I t (service_event_step e s)" by (simp add: Reload service_wf_def)
    from Cons.IH [OF this] Cons.prems Reload show ?thesis by simp
  qed
qed simp

lemma event_run_dom:
  assumes "dm_wf (ps_binding_repo s)"
  shows "dm_wf (ps_binding_repo (service_event_run es s))
    \<and> dom (binding_repo_get (ps_binding_repo (service_event_run es s)))
        \<subseteq> dom (binding_repo_get (ps_binding_repo s)) \<union> client_key_new ` asking es"
  using assms
proof (induction es arbitrary: s)
  case (Cons e es)
  show ?case
  proof (cases e)
    case (Call now c)
    let ?s = "proxy_step main_ports (now, c) s"
    have "{ip. \<exists>geo. c = Resolve ip geo} \<union> asking es \<subseteq> asking (e # es)" using Call by (auto simp: asking_def)
    note keys = image_mono [OF this, of client_key_new, unfolded image_Un]
    have wf: "dm_wf (ps_binding_repo ?s)" and sub: "dom (binding_repo_get (ps_binding_repo ?s))
        \<subseteq> dom (binding_repo_get (ps_binding_repo s)) \<union> client_key_new ` {ip. \<exists>geo. c = Resolve ip geo}"
      using main.step_binding_dom [OF Cons.prems, of "(now, c)"] by simp_all
    show ?thesis using Cons.IH [OF wf] sub keys unfolding Call service_event_run.simps service_event_step.simps by blast
  next
    case (Reload db)
    have "asking es \<subseteq> asking (e # es)" by (auto simp: asking_def)
    note keys = image_mono [OF this, of client_key_new]
    have same: "ps_binding_repo (service_event_step e s) = ps_binding_repo s" by (simp add: Reload)
    show ?thesis using Cons.IH [of "service_event_step e s", unfolded same, OF Cons.prems] keys unfolding service_event_run.simps by blast
  qed
qed simp

text \<open>
  C6: The state of the service is well-formed at all times. From a new service, after any sequence of calls that read a clock that
  does not run backwards, and of reloads of the list of backends: each client has one binding and each backend one entry of metrics; every
  binding was created no later than it was last used and last used no later than the last call, so that no age computed from it
  underflows; it names a backend that was in the list at some time (one that a reload has removed keeps its bindings until they are used or
  expire); and there are at most as many bindings as clients that asked for a backend.
\<close>

theorem service_well_formed:
  fixes br :: sqlite_repo
  assumes "sorted (t0 # call_times events)"
  shows "let s = service_event_run events (proxy_service_new br binding_repo_new geo metrics_store_new region)
    in service_wf (ever_listed events br) (last (t0 # call_times events)) s
       \<and> binding_repo_count (ps_binding_repo s) \<le> card (asking events)"
  unfolding Let_def
proof
  define s0 where "s0 = proxy_service_new br binding_repo_new geo metrics_store_new region"
  note s0_def [symmetric, simp]
  have s0: "service_wf (ever_listed events br) t0 s0" unfolding s0_def by (rule service_wf_new)
  have "ps_backend_repo s0 = br" by (simp add: s0_def proxy_service_new_def del: s0_def [symmetric])
  then show "service_wf (ever_listed events br) (last (t0 # call_times events)) (service_event_run events
      (proxy_service_new br binding_repo_new geo metrics_store_new region))"
    using event_run_wf [OF s0 assms] by simp
  let ?bi = "ps_binding_repo (service_event_run events s0)"
  have "asking events \<subseteq> (\<lambda>e. case e of Call now (Resolve ip geo) \<Rightarrow> ip | _ \<Rightarrow> IpV4 0) ` set events" by (force simp: asking_def)
  then have fin: "finite (asking events)" by (rule finite_subset) simp
  have "dom (binding_repo_get (ps_binding_repo s0)) = {}"
    using bindings.get_new by (auto simp: s0_def proxy_service_new_def dom_def simp del: s0_def [symmetric])
  then have "dm_wf ?bi \<and> dom (binding_repo_get ?bi) \<subseteq> client_key_new ` asking events"
    using event_run_dom [of s0 events] s0 by (simp add: service_wf_def)
  then show "binding_repo_count (ps_binding_repo (service_event_run events
      (proxy_service_new br binding_repo_new geo metrics_store_new region))) \<le> card (asking events)"
    using fin bindings.count_dom [of ?bi] surj_card_le [of "asking events" "dom (binding_repo_get ?bi)" client_key_new] by simp
qed

text \<open>
  The two resolution functions agree: \<^verbatim>\<open>resolve_backend\<close> is \<^verbatim>\<open>resolve_backend_with_geo\<close> with the
  location that the service's own resolver gives.
\<close>

lemma resolve_backend_equiv:
  "resolve_backend main_ports now ip s
     = resolve_backend_with_geo main_ports now ip (resolve_geo s ip) s"
  by (rule main.resolve_backend_eq)

text \<open>
  The hard limit does not bind a client that already has a binding: a client bound to a healthy
  backend is sent there however many connections that backend has, although \<^verbatim>\<open>hard_limit\<close> is
  documented as the maximum number of connections.
\<close>

lemma affinity_overrides_hard_limit:
  fixes s :: main_service
  assumes "binding_repo_get (ps_binding_repo s) (client_key_new ip) = Some bd"
    and "sqlite_get_by_id (ps_backend_repo s) (bd_backend_id bd) = Some b" and "bk_healthy b"
    and "at_hard_limit (metrics_get_connection_count (ps_metrics s)) b"
  shows "fst (resolve_backend_with_geo main_ports now ip geo s) = Some b"
  using assms by (subst main.resolve_bound) auto

section \<open>Witnesses\<close>

definition example_service :: main_service where
  "example_service =
     proxy_service_new \<lparr>sq_backends = [example_backend ''sa-1'' SouthAmerica ''AR''], sq_version = 1\<rparr>
       binding_repo_new None metrics_store_new SouthAmerica"

definition example_bound :: main_service where
  "example_bound = example_service\<lparr>ps_binding_repo :=
     [(ClientKey (IpV4 7), \<lparr>bd_backend_id = ''sa-1'', bd_created_at = 5, bd_last_seen = 5\<rparr>)]\<rparr>"

lemma example_resolve:
  "resolve_backend_with_geo main_ports 5 (IpV4 7) None example_service =
     (Some (example_backend ''sa-1'' SouthAmerica ''AR''), example_bound)"
proof -
  have "pick_backend [example_backend ''sa-1'' SouthAmerica ''AR''] SouthAmerica None
      (metrics_get_connection_count metrics_store_new) = Some (example_backend ''sa-1'' SouthAmerica ''AR'')"
    by code_simp
  moreover have "bk_healthy (example_backend ''sa-1'' SouthAmerica ''AR'')"
    and "bk_id (example_backend ''sa-1'' SouthAmerica ''AR'') = ''sa-1''"
    by (simp_all add: example_backend_def)
  ultimately show ?thesis
    by (simp add: resolve_backend_with_geo_def example_service_def proxy_service_new_def
        example_bound_def main_ports_def sqlite_get_healthy_def binding_repo_defs client_key_new_def
        binding_new_def dm_empty_def dm_get_def dm_insert_def)
qed

theorem service_well_formed_witness:
  "service_wf {''sa-1''} 600 (service_event_run [Call 5 (Resolve (IpV4 7) None), Reload (Some []), Call 600 (Cleanup 600)] example_service)"
proof -
  let ?r = "\<lparr>sq_backends = [example_backend ''sa-1'' SouthAmerica ''AR''], sq_version = 1\<rparr>"
  let ?es = "[Call 5 (Resolve (IpV4 7) None), Reload (Some []), Call 600 (Cleanup 600)]"
  have "ever_listed ?es ?r = {''sa-1''}"
    by (simp add: listed_def sqlite_sync_tick_def load_from_sqlite_def example_backend_def)
  with service_well_formed [of 0 ?es ?r None SouthAmerica] show ?thesis
    by (simp add: example_service_def Let_def del: service_event_run.simps)
qed

theorem session_affinity_witness:
  "fst (resolve_backend_with_geo main_ports 900 (IpV4 7) (Some example_geo)
     (proxy_run main_ports [(6, ConnStart ''sa-1''), (7, Clear (IpV4 8)), (600, Cleanup 600)] example_bound))
   = Some (example_backend ''sa-1'' SouthAmerica ''AR'')"
proof (rule session_affinity [OF _ _ example_resolve])
  show "dm_wf (ps_binding_repo example_service)"
    by (simp add: example_service_def proxy_service_new_def binding_repo_new_def)
  show "distinct (map bk_id (sq_backends (ps_backend_repo example_service)))"
    by (simp add: example_service_def proxy_service_new_def)
  show "\<forall>c \<in> set [(6, ConnStart ''sa-1''), (7, Clear (IpV4 8)), (600, Cleanup 600)].
      keeps_affinity 5 (IpV4 7) c"
    by (simp add: keeps_affinity_def)
qed

theorem resolve_sound_witness:
  "bk_healthy (example_backend ''sa-1'' SouthAmerica ''AR'')
   \<and> ps_metrics example_bound = ps_metrics example_service"
  using resolve_sound [OF example_resolve] by blast

theorem resolve_none_witness:
  "\<not> eligible (metrics_get_connection_count metrics_store_new)
      ((example_backend ''sa-1'' SouthAmerica ''AR'')\<lparr>bk_healthy := False\<rparr>)"
proof -
  let ?s = "example_service\<lparr>ps_backend_repo :=
    \<lparr>sq_backends = [(example_backend ''sa-1'' SouthAmerica ''AR'')\<lparr>bk_healthy := False\<rparr>], sq_version = 1\<rparr>\<rparr>"
  have "resolve_backend_with_geo main_ports 5 (IpV4 7) None ?s = (None, ?s)"
    by (simp add: resolve_backend_with_geo_def example_service_def proxy_service_new_def
        sqlite_get_healthy_def binding_repo_defs)
  from resolve_none [OF this] show ?thesis
    by (simp add: example_service_def proxy_service_new_def)
qed

lemma affinity_overrides_hard_limit_witness:
  "fst (resolve_backend_with_geo main_ports 9 (IpV4 7) None
     (example_bound\<lparr>ps_metrics := [(''sa-1'', \<lparr>bm_current_conns = 150, bm_last_rtt_ms = 1\<rparr>)]\<rparr>))
   = Some (example_backend ''sa-1'' SouthAmerica ''AR'')"
proof (rule affinity_overrides_hard_limit)
  let ?s = "example_bound\<lparr>ps_metrics := [(''sa-1'', \<lparr>bm_current_conns = 150, bm_last_rtt_ms = 1\<rparr>)]\<rparr>"
  let ?bd = "\<lparr>bd_backend_id = ''sa-1'', bd_created_at = 5, bd_last_seen = 5\<rparr>"
  show "binding_repo_get (ps_binding_repo ?s) (client_key_new (IpV4 7)) = Some ?bd"
    by code_simp
  show "sqlite_get_by_id (ps_backend_repo ?s) (bd_backend_id ?bd)
      = Some (example_backend ''sa-1'' SouthAmerica ''AR'')"
    by code_simp
  show "bk_healthy (example_backend ''sa-1'' SouthAmerica ''AR'')" by code_simp
  show "at_hard_limit (metrics_get_connection_count (ps_metrics ?s))
      (example_backend ''sa-1'' SouthAmerica ''AR'')"
    by code_simp
qed

end
