(* ===== verification/Net_Addr.thy ===== *)
theory Net_Addr
  imports Domain
begin

text \<open>
  The textual form of internet addresses as the Rust standard library reads it (\<^verbatim>\<open>str::parse\<close> at the types \<^verbatim>\<open>Ipv4Addr\<close>,
  \<^verbatim>\<open>IpAddr\<close> and \<^verbatim>\<open>SocketAddr\<close>). A reader takes a prefix off the text and gives its value and the rest, or fails. The sources
  parse the addresses of backends, of the replication listeners and peers, of the DNS listener and of the
  public-address service, and print backend addresses for the connection calls.
\<close>

section \<open>Readers\<close>

type_synonym 'a reader = "string \<Rightarrow> ('a \<times> string) option"

definition read_given_char :: "char \<Rightarrow> unit reader" where
  "read_given_char c s = (case s of [] \<Rightarrow> None | x # xs \<Rightarrow> if x = c then Some ((), xs) else None)"

text \<open>\<^verbatim>\<open>char::to_digit\<close> for the radices in use.\<close>

definition to_digit :: "int \<Rightarrow> char \<Rightarrow> int option" where
  "to_digit radix c =
     (let n = of_char c :: int;
          d = (if 48 \<le> n \<and> n \<le> 57 then Some (n - 48)
               else if 97 \<le> n \<and> n \<le> 102 then Some (n - 87)
               else if 65 \<le> n \<and> n \<le> 70 then Some (n - 55) else None)
      in case d of Some v \<Rightarrow> if v < radix then Some v else None | None \<Rightarrow> None)"

definition is_radix_digit :: "int \<Rightarrow> char \<Rightarrow> bool" where
  "is_radix_digit radix c = (to_digit radix c \<noteq> None)"

definition number_val :: "int \<Rightarrow> string \<Rightarrow> int" where
  "number_val radix ds = foldl (\<lambda>a c. a * radix + (case to_digit radix c of Some d \<Rightarrow> d | None \<Rightarrow> 0)) 0 ds"

text \<open>
  \<^verbatim>\<open>read_number\<close>: all digits that follow, at least one, at most \<open>max_digits\<close> (if that is given), without a leading zero unless
  \<open>allow_zero_prefix\<close>, and below \<open>limit\<close>, the size of the result type.
\<close>

definition read_number :: "int \<Rightarrow> nat option \<Rightarrow> bool \<Rightarrow> int \<Rightarrow> int reader" where
  "read_number radix max_digits allow_zero_prefix limit s =
     (let ds = takeWhile (is_radix_digit radix) s; rest = dropWhile (is_radix_digit radix) s in
      if ds = [] then None
      else if (case max_digits of Some m \<Rightarrow> m < length ds | None \<Rightarrow> False) then None
      else if \<not> allow_zero_prefix \<and> hd ds = CHR ''0'' \<and> 1 < length ds then None
      else if number_val radix ds < limit then Some (number_val radix ds, rest) else None)"

definition read_separator :: "char \<Rightarrow> nat \<Rightarrow> 'a reader \<Rightarrow> 'a reader" where
  "read_separator sep index inner s =
     (if 0 < index then case read_given_char sep s of None \<Rightarrow> None | Some (_, r) \<Rightarrow> inner r
      else inner s)"

section \<open>IPv4 addresses\<close>

text \<open>The octets from number \<open>i\<close> on; \<open>n\<close> are still to be read.\<close>

fun read_octets :: "nat \<Rightarrow> nat \<Rightarrow> int list reader" where
  "read_octets 0 i s = Some ([], s)"
| "read_octets (Suc n) i s =
     (case read_separator (CHR ''.'') i (read_number 10 (Some 3) False 256) s of
        None \<Rightarrow> None
      | Some (v, r) \<Rightarrow> (case read_octets n (Suc i) r of None \<Rightarrow> None | Some (vs, r') \<Rightarrow> Some (v # vs, r')))"

definition be_val :: "int \<Rightarrow> int list \<Rightarrow> int" where
  "be_val base = foldl (\<lambda>a d. a * base + d) 0"

definition read_ipv4_addr :: "u32 reader" where
  "read_ipv4_addr s = map_option (\<lambda>(vs, r). (of_int (be_val 256 vs), r)) (read_octets 4 0 s)"

section \<open>IPv6 addresses\<close>

text \<open>
  \<^verbatim>\<open>read_groups\<close>: up to \<open>n\<close> more groups, the next being number \<open>i\<close>. An IPv4 address may stand for two groups and ends them.
  The result is the groups read, whether an IPv4 address ended them, and the rest.
\<close>

fun read_groups :: "nat \<Rightarrow> nat \<Rightarrow> string \<Rightarrow> int list \<times> bool \<times> string" where
  "read_groups 0 i s = ([], False, s)"
| "read_groups (Suc n) i s =
     (case (if n = 0 then None else read_separator (CHR '':'') i read_ipv4_addr s) of
        Some (a, r) \<Rightarrow> ([uint a div 65536, uint a mod 65536], True, r)
      | None \<Rightarrow>
          (case read_separator (CHR '':'') i (read_number 16 (Some 4) True 65536) s of
             None \<Rightarrow> ([], False, s)
           | Some (g, r) \<Rightarrow> (case read_groups n (Suc i) r of (gs, v4, r') \<Rightarrow> (g # gs, v4, r'))))"

definition read_ipv6_addr :: "128 word reader" where
  "read_ipv6_addr s =
     (case read_groups 8 0 s of (head, head_ipv4, r) \<Rightarrow>
        if length head = 8 then Some (of_int (be_val 65536 head), r)
        else if head_ipv4 then None
        else case read_given_char (CHR '':'') r of
               None \<Rightarrow> None
             | Some (_, r) \<Rightarrow>
                 (case read_given_char (CHR '':'') r of
                    None \<Rightarrow> None
                  | Some (_, r) \<Rightarrow>
                      (case read_groups (8 - (length head + 1)) 0 r of (tail, _, r') \<Rightarrow>
                         Some (of_int (be_val 65536 (head @ replicate (8 - length head - length tail) 0 @ tail)), r'))))"

definition read_ip_addr :: "ip_addr reader" where
  "read_ip_addr s =
     (case read_ipv4_addr s of
        Some (a, r) \<Rightarrow> Some (IpV4 a, r)
      | None \<Rightarrow> map_option (\<lambda>(a, r). (IpV6 a, r)) (read_ipv6_addr s))"

section \<open>Socket addresses\<close>

definition read_port :: "u16 reader" where
  "read_port s =
     (case read_given_char (CHR '':'') s of
        None \<Rightarrow> None
      | Some (_, r) \<Rightarrow> map_option (\<lambda>(p, r). (of_int p, r)) (read_number 10 None True 65536 r))"

definition read_scope_id :: "u32 reader" where
  "read_scope_id s =
     (case read_given_char (CHR ''%'') s of
        None \<Rightarrow> None
      | Some (_, r) \<Rightarrow> map_option (\<lambda>(p, r). (of_int p, r)) (read_number 10 None True 4294967296 r))"

definition read_socket_addr_v4 :: "socket_addr reader" where
  "read_socket_addr_v4 s =
     (case read_ipv4_addr s of
        None \<Rightarrow> None
      | Some (a, r) \<Rightarrow> map_option (\<lambda>(p, r). (socket_v4 a p, r)) (read_port r))"

definition read_socket_addr_v6 :: "socket_addr reader" where
  "read_socket_addr_v6 s =
     (case read_given_char (CHR ''['') s of
        None \<Rightarrow> None
      | Some (_, r) \<Rightarrow>
          (case read_ipv6_addr r of
             None \<Rightarrow> None
           | Some (a, r) \<Rightarrow>
               (case (case read_scope_id r of None \<Rightarrow> (0, r) | Some (z, r') \<Rightarrow> (z, r')) of (z, r) \<Rightarrow>
                  (case read_given_char (CHR '']'') r of
                     None \<Rightarrow> None
                   | Some (_, r) \<Rightarrow>
                       map_option (\<lambda>(p, r). (\<lparr>sa_ip = IpV6 a, sa_port = p, sa_scope_id = z\<rparr>, r)) (read_port r)))))"

definition read_socket_addr :: "socket_addr reader" where
  "read_socket_addr s = (case read_socket_addr_v4 s of Some x \<Rightarrow> Some x | None \<Rightarrow> read_socket_addr_v6 s)"

section \<open>Parsing a whole text\<close>

definition parse_with :: "'a reader \<Rightarrow> string \<Rightarrow> 'a option" where
  "parse_with p s = (case p s of Some (v, []) \<Rightarrow> Some v | _ \<Rightarrow> None)"

definition parse_ipv4 :: "string \<Rightarrow> u32 option" where
  "parse_ipv4 s = (if 15 < length s then None else parse_with read_ipv4_addr s)"

definition parse_ip_addr :: "string \<Rightarrow> ip_addr option" where
  "parse_ip_addr = parse_with read_ip_addr"

definition parse_socket_addr :: "string \<Rightarrow> socket_addr option" where
  "parse_socket_addr = parse_with read_socket_addr"

section \<open>Readers leave a delimiter alone\<close>

text \<open>
  A reader that cannot take the character \<open>d\<close> reads a text followed by \<open>d\<close> as it reads the text alone. This is what lets an address be printed
  between brackets or in front of a port.
\<close>

definition stops_at :: "char \<Rightarrow> 'a reader \<Rightarrow> bool" where
  "stops_at d p \<longleftrightarrow> (\<forall>s r. p (s @ d # r) = map_option (\<lambda>(v, u). (v, u @ d # r)) (p s))"

named_theorems stops

lemma stops_atD: "stops_at d p \<Longrightarrow> p (s @ d # r) = map_option (\<lambda>(v, u). (v, u @ d # r)) (p s)"
  by (simp add: stops_at_def)

lemma takeWhile_stop: "\<not> Q d \<Longrightarrow> takeWhile Q (s @ d # r) = takeWhile Q s \<and> dropWhile Q (s @ d # r) = dropWhile Q s @ d # r"
  by (induction s) auto

lemma stops_given_char [stops]: "c \<noteq> d \<Longrightarrow> stops_at d (read_given_char c)"
  by (auto simp: stops_at_def read_given_char_def split: list.split)

lemma stops_number [stops]: "\<not> is_radix_digit radix d \<Longrightarrow> stops_at d (read_number radix m z l)"
  by (auto simp: stops_at_def read_number_def takeWhile_stop Let_def)

lemma stops_separator [stops]: "sep \<noteq> d \<Longrightarrow> stops_at d p \<Longrightarrow> stops_at d (read_separator sep i p)"
  using stops_given_char [of sep d] by (auto simp: stops_at_def read_separator_def split: option.split)

lemma stops_octets [stops]: "d \<noteq> CHR ''.'' \<Longrightarrow> \<not> is_radix_digit 10 d \<Longrightarrow> stops_at d (read_octets n i)"
proof (induction n arbitrary: i)
  case (Suc n)
  then have "stops_at d (read_separator (CHR ''.'') i (read_number 10 (Some 3) False 256))"
    by (intro stops) auto
  with Suc show ?case
    by (auto simp: stops_at_def split: option.split)
qed (simp add: stops_at_def)

lemma stops_ipv4 [stops]: "d \<noteq> CHR ''.'' \<Longrightarrow> \<not> is_radix_digit 10 d \<Longrightarrow> stops_at d read_ipv4_addr"
  using stops_octets [of d 4 0] by (auto simp: stops_at_def read_ipv4_addr_def option.map_comp comp_def case_prod_unfold)

lemma radix_digit_10_16: "is_radix_digit 10 c \<Longrightarrow> is_radix_digit 16 c"
  by (auto simp: is_radix_digit_def to_digit_def Let_def split: option.splits if_splits)

lemma read_groups_stop:
  assumes "d \<noteq> CHR ''.''" "d \<noteq> CHR '':''" "\<not> is_radix_digit 16 d"
  shows "read_groups n i (s @ d # r) = (case read_groups n i s of (gs, v, u) \<Rightarrow> (gs, v, u @ d # r))"
proof (induction n arbitrary: i s)
  case (Suc n)
  have 4: "stops_at d (read_separator (CHR '':'') i read_ipv4_addr)"
    using assms radix_digit_10_16 by (intro stops) auto
  have g: "stops_at d (read_separator (CHR '':'') i (read_number 16 (Some 4) True 65536))"
    using assms by (intro stops) auto
  show ?case
    by (auto simp: stops_atD [OF 4] stops_atD [OF g] Suc.IH split: option.split prod.split)
qed simp

lemma stops_ipv6 [stops]:
  assumes "d \<noteq> CHR ''.''" "d \<noteq> CHR '':''" "\<not> is_radix_digit 16 d"
  shows "stops_at d read_ipv6_addr"
  unfolding stops_at_def
proof (intro allI)
  fix s r
  have c: "stops_at d (read_given_char (CHR '':''))" using assms by (intro stops) auto
  show "read_ipv6_addr (s @ d # r) = map_option (\<lambda>(v, u). (v, u @ d # r)) (read_ipv6_addr s)"
    unfolding read_ipv6_addr_def
    by (auto simp: read_groups_stop [OF assms] stops_atD [OF c] split: option.split prod.split)
qed


section \<open>What readers consume\<close>

definition consumes :: "(char \<Rightarrow> bool) \<Rightarrow> 'a reader \<Rightarrow> bool" where
  "consumes Q p \<longleftrightarrow> (\<forall>s v r. p s = Some (v, r) \<longrightarrow> (\<exists>u. s = u @ r \<and> list_all Q u))"

lemma consumesD: "consumes Q p \<Longrightarrow> p s = Some (v, r) \<Longrightarrow> \<exists>u. s = u @ r \<and> list_all Q u"
  by (simp add: consumes_def)

lemma consumes_number: "(\<And>c. is_radix_digit radix c \<Longrightarrow> Q c) \<Longrightarrow> consumes Q (read_number radix m z l)"
  unfolding consumes_def
proof (intro allI impI)
  fix s v r
  assume Q: "\<And>c. is_radix_digit radix c \<Longrightarrow> Q c" and "read_number radix m z l s = Some (v, r)"
  then have "r = dropWhile (is_radix_digit radix) s"
    by (auto simp: read_number_def Let_def split: option.splits if_splits)
  then show "\<exists>u. s = u @ r \<and> list_all Q u"
    using Q by (intro exI [of _ "takeWhile (is_radix_digit radix) s"])
      (auto simp: list_all_iff dest: set_takeWhileD)
qed

lemma consumes_separator: "Q sep \<Longrightarrow> consumes Q p \<Longrightarrow> consumes Q (read_separator sep i p)"
  unfolding consumes_def
proof (intro allI impI)
  fix s v r
  assume "Q sep" and p: "\<forall>s v r. p s = Some (v, r) \<longrightarrow> (\<exists>u. s = u @ r \<and> list_all Q u)"
    and "read_separator sep i p s = Some (v, r)"
  then consider "p s = Some (v, r)" | t where "s = sep # t" "p t = Some (v, r)"
    by (auto simp: read_separator_def read_given_char_def split: if_splits list.splits)
  then show "\<exists>u. s = u @ r \<and> list_all Q u"
  proof cases
    case 2
    with p obtain u where "t = u @ r" "list_all Q u" by blast
    with 2 \<open>Q sep\<close> show ?thesis by (intro exI [of _ "sep # u"]) simp
  qed (use p in blast)
qed

abbreviation dotted :: "char \<Rightarrow> bool" where
  "dotted c \<equiv> is_radix_digit 10 c \<or> c = CHR ''.''"

lemma consumes_octets: "consumes dotted (read_octets n i)"
proof (induction n arbitrary: i)
  case (Suc n)
  have one: "consumes dotted (read_separator (CHR ''.'') i (read_number 10 (Some 3) False 256))"
    by (intro consumes_separator consumes_number) auto
  show ?case
    unfolding consumes_def
  proof (intro allI impI)
    fix s v r
    assume "read_octets (Suc n) i s = Some (v, r)"
    then obtain x t vs where t: "read_separator (CHR ''.'') i (read_number 10 (Some 3) False 256) s = Some (x, t)"
      "read_octets n (Suc i) t = Some (vs, r)"
      by (auto split: option.splits)
    from consumesD [OF one t(1)] obtain u where "s = u @ t" "list_all dotted u" by blast
    moreover from consumesD [OF Suc t(2)] obtain w where "t = w @ r" "list_all dotted w" by blast
    ultimately show "\<exists>u. s = u @ r \<and> list_all dotted u"
      by (intro exI [of _ "u @ w"]) simp
  qed
qed (simp add: consumes_def)

lemma consumes_ipv4: "consumes dotted read_ipv4_addr"
  using consumes_octets [of 4 0] by (auto simp: consumes_def read_ipv4_addr_def)

lemma consumes_weaken: "consumes Q p \<Longrightarrow> (\<And>c. Q c \<Longrightarrow> Q' c) \<Longrightarrow> consumes Q' p"
  unfolding consumes_def list_all_iff by meson

lemma parse_ipv4_read: "parse_ipv4 s = Some a \<longleftrightarrow> length s \<le> 15 \<and> read_ipv4_addr s = Some (a, [])"
  by (auto simp: parse_ipv4_def parse_with_def split: option.splits list.splits)

lemma parse_with_Some: "parse_with p s = Some v \<longleftrightarrow> p s = Some (v, [])"
  by (auto simp: parse_with_def split: option.splits list.splits)

lemma ipv4_no_colon:
  assumes "read_ipv4_addr s = Some (a, [])"
  shows "CHR '':'' \<notin> set s"
proof -
  have "\<not> dotted (CHR '':'')" by code_simp
  with consumesD [OF consumes_ipv4 assms] show ?thesis by (auto simp: list_all_iff)
qed

lemma read_separator_colon:
  "read_separator (CHR '':'') (Suc i) p s = Some x \<Longrightarrow> CHR '':'' \<in> set s"
  by (auto simp: read_separator_def read_given_char_def split: list.splits if_splits)

lemma read_groups_suffix: "read_groups n i s = (gs, v, r) \<Longrightarrow> set r \<subseteq> set s"
proof (induction n arbitrary: i s gs v r)
  case (Suc n)
  have four: "consumes (\<lambda>_. True) (read_separator (CHR '':'') i read_ipv4_addr)"
    by (intro consumes_separator consumes_weaken [OF consumes_ipv4]) auto
  have grp: "consumes (\<lambda>_. True) (read_separator (CHR '':'') i (read_number 16 (Some 4) True 65536))"
    by (intro consumes_separator consumes_number) auto
  from Suc.prems consider a where "read_separator (CHR '':'') i read_ipv4_addr s = Some (a, r)"
    | "r = s" | g t gs' where "read_separator (CHR '':'') i (read_number 16 (Some 4) True 65536) s = Some (g, t)"
      "read_groups n (Suc i) t = (gs', v, r)"
    by (auto split: option.splits prod.splits if_splits)
  then show ?case
  proof cases
    case 1
    from consumesD [OF four 1] show ?thesis by auto
  next
    case 3
    from consumesD [OF grp 3(1)] Suc.IH [OF 3(2)] show ?thesis by auto
  qed auto
qed simp

lemma read_groups_colon:
  assumes "read_groups n i s = (gs, v, r)" and "2 < length gs"
  shows "CHR '':'' \<in> set s"
proof -
  obtain m where n: "n = Suc m" using assms by (cases n) auto
  have grp: "consumes (\<lambda>_. True) (read_separator (CHR '':'') i (read_number 16 (Some 4) True 65536))"
    by (intro consumes_separator consumes_number) auto
  obtain g t gs' where t: "read_separator (CHR '':'') i (read_number 16 (Some 4) True 65536) s = Some (g, t)"
    "read_groups m (Suc i) t = (gs', v, r)" "1 < length gs'"
    using assms by (auto simp: n split: option.splits prod.splits if_splits)
  then obtain l where m: "m = Suc l" by (cases m) auto
  have "CHR '':'' \<in> set t"
    using t(2,3) by (auto simp: m split: option.splits if_splits dest: read_separator_colon)
  with consumesD [OF grp t(1)] show ?thesis by auto
qed

lemma ipv6_colon:
  assumes "read_ipv6_addr s = Some (a, r)"
  shows "CHR '':'' \<in> set s"
proof -
  obtain hd v t where h: "read_groups 8 0 s = (hd, v, t)" using prod_cases3 by blast
  show ?thesis
  proof (cases "length hd = 8")
    case True
    with read_groups_colon [OF h] show ?thesis by simp
  next
    case False
    with assms h have "CHR '':'' \<in> set t"
      by (auto simp: read_ipv6_addr_def read_given_char_def split: list.splits if_splits)
    with read_groups_suffix [OF h] show ?thesis by blast
  qed
qed


section \<open>Ports and printed socket addresses\<close>

lemma of_char_int: "(of_char c :: int) = int (of_char c)"
  by (simp add: of_nat_of_char)

lemma radix_digit_10: "is_radix_digit 10 c = is_digit c"
  by (auto simp: is_radix_digit_def to_digit_def is_digit_def Let_def of_char_int split: option.splits if_splits)

lemma to_digit_10: "is_digit c \<Longrightarrow> to_digit 10 c = Some (int (digit_val c))"
  by (auto simp: to_digit_def is_digit_def digit_val_def Let_def of_char_int)

lemma number_val_10: "list_all is_digit ds \<Longrightarrow> number_val 10 ds = int (digits_val ds)"
proof (induction ds rule: rev_induct)
  case (snoc d ds)
  then show ?case by (simp add: number_val_def digits_val_def to_digit_10)
qed (simp add: number_val_def digits_val_def)

lemma read_port_show: "read_port (CHR '':'' # show_word p) = Some (p, [])"
proof -
  have d: "list_all is_digit (show_word p)" by (simp add: show_word_def show_nat_digits)
  then have tw: "takeWhile (is_radix_digit 10) (show_word p) = show_word p"
    "dropWhile (is_radix_digit 10) (show_word p) = []"
    by (auto simp: radix_digit_10 list_all_iff takeWhile_eq_all_conv dropWhile_eq_Nil_conv)
  have "number_val 10 (show_word p) = uint p"
    using number_val_10 [OF d] uint_nat [of p] by (simp add: show_word_def digits_val_show_nat)
  moreover have "uint p < 65536" using uint_lt2p [of p] by simp
  moreover have "show_word p \<noteq> []" by (simp add: show_word_def)
  ultimately have "read_number 10 None True 65536 (show_word p) = Some (uint p, [])"
    unfolding read_number_def Let_def tw by simp
  then show ?thesis by (simp add: read_port_def read_given_char_def)
qed

lemma delimiters:
  "\<not> is_radix_digit 10 (CHR '':'')" "\<not> is_radix_digit 16 (CHR '']'')" "\<not> dotted (CHR ''['')"
  by code_simp+

lemma read_ipv4_bracket: "read_ipv4_addr (CHR ''['' # s) = None"
proof -
  have "\<not> is_radix_digit 10 (CHR ''['')" by code_simp
  then show ?thesis
    by (simp add: read_ipv4_addr_def numeral_eq_Suc read_separator_def read_number_def)
qed

lemma parse_socket_addr_v4:
  assumes "read_ipv4_addr s = Some (a, [])"
  shows "parse_socket_addr (s @ CHR '':'' # show_word p) = Some (socket_v4 a p)"
proof -
  have "stops_at (CHR '':'') read_ipv4_addr" using delimiters by (intro stops) auto
  from stops_atD [OF this, of s "show_word p"] assms
  have "read_ipv4_addr (s @ CHR '':'' # show_word p) = Some (a, CHR '':'' # show_word p)" by simp
  then show ?thesis
    by (simp add: parse_socket_addr_def parse_with_def read_socket_addr_def read_socket_addr_v4_def read_port_show)
qed

lemma parse_socket_addr_v6:
  assumes "read_ipv6_addr s = Some (a, [])"
  shows "parse_socket_addr (''['' @ s @ '']:'' @ show_word p) = Some \<lparr>sa_ip = IpV6 a, sa_port = p, sa_scope_id = 0\<rparr>"
proof -
  have "stops_at (CHR '']'') read_ipv6_addr" using delimiters by (intro stops) auto
  from stops_atD [OF this, of s "CHR '':'' # show_word p"] assms
  have "read_ipv6_addr (s @ CHR '']'' # CHR '':'' # show_word p) = Some (a, CHR '']'' # CHR '':'' # show_word p)" by simp
  then show ?thesis
    by (simp add: parse_socket_addr_def parse_with_def read_socket_addr_def read_socket_addr_v4_def read_socket_addr_v6_def
        read_ipv4_bracket read_given_char_def [of "CHR ''[''"] read_given_char_def [of "CHR '']''"]
        read_given_char_def [of "CHR ''%''"] read_scope_id_def read_port_show)
qed

text \<open>An IPv6 address with a port and no brackets is not a socket address.\<close>

lemma parse_socket_addr_unbracketed:
  assumes "read_ipv4_addr s = None" and "read_ipv6_addr s = Some (a, [])"
  shows "parse_socket_addr (s @ CHR '':'' # r) = None"
proof -
  have "stops_at (CHR '':'') read_ipv4_addr" using delimiters by (intro stops) auto
  from stops_atD [OF this, of s r] assms(1) have "read_ipv4_addr (s @ CHR '':'' # r) = None" by simp
  moreover obtain c t where s: "s = c # t" and "c \<noteq> CHR ''[''"
  proof (cases s)
    case Nil
    with assms(2) show ?thesis using ipv6_colon [of s a "[]"] by simp
  next
    case (Cons c t)
    have "c \<noteq> CHR ''[''"
    proof
      assume c: "c = CHR ''[''"
      have "\<not> is_radix_digit 16 (CHR ''['')" by code_simp
      with assms(2) show False
        by (simp add: Cons c read_ipv6_addr_def numeral_eq_Suc read_ipv4_bracket read_separator_def read_number_def
            read_given_char_def)
    qed
    with Cons show ?thesis by (rule that)
  qed
  ultimately show ?thesis
    by (simp add: parse_socket_addr_def parse_with_def read_socket_addr_def read_socket_addr_v4_def read_socket_addr_v6_def
        read_given_char_def)
qed

text \<open>Only a text that starts with a digit or a bracket is a socket address.\<close>

lemma parse_socket_addr_start:
  assumes "\<not> is_digit c" and "c \<noteq> CHR ''[''"
  shows "parse_socket_addr (c # s) = None"
proof -
  have "read_ipv4_addr (c # s) = None"
    using assms(1) by (simp add: read_ipv4_addr_def numeral_eq_Suc read_separator_def read_number_def radix_digit_10)
  with assms(2) show ?thesis
    by (simp add: parse_socket_addr_def parse_with_def read_socket_addr_def read_socket_addr_v4_def read_socket_addr_v6_def
        read_given_char_def)
qed

text \<open>The two ways to read a backend's address agree where both apply.\<close>

lemma parse_ip_addr_v4: "parse_ip_addr s = Some (IpV4 a) \<longleftrightarrow> read_ipv4_addr s = Some (a, [])"
  by (auto simp: parse_ip_addr_def parse_with_Some read_ip_addr_def split: option.splits)

lemma parse_ip_addr_v6:
  "parse_ip_addr s = Some (IpV6 a) \<longleftrightarrow> read_ipv4_addr s = None \<and> read_ipv6_addr s = Some (a, [])"
  by (auto simp: parse_ip_addr_def parse_with_Some read_ip_addr_def split: option.splits)


text \<open>The length test in front of the IPv4 parser rejects nothing that the reader accepts.\<close>

lemma read_number_length:
  assumes "read_number radix (Some m) z l s = Some (v, r)"
  shows "length s \<le> length r + m"
proof -
  have "length s = length (takeWhile (is_radix_digit radix) s) + length (dropWhile (is_radix_digit radix) s)"
    by (metis length_append takeWhile_dropWhile_id)
  with assms show ?thesis by (auto simp: read_number_def Let_def split: if_splits)
qed

lemma read_separator_length:
  assumes "\<And>s v r. p s = Some (v, r) \<Longrightarrow> length s \<le> length r + m" and "read_separator sep i p s = Some (v, r)"
  shows "length s \<le> length r + m + of_bool (0 < i)"
proof (cases "0 < i")
  case True
  with assms(2) obtain t where t: "s = sep # t" "p t = Some (v, r)"
    by (auto simp: read_separator_def read_given_char_def split: list.splits if_splits)
  with assms(1) [OF t(2)] True show ?thesis by simp
next
  case False
  with assms(2) assms(1) [of s v r] show ?thesis by (simp add: read_separator_def)
qed

lemma read_octets_length:
  "read_octets n i s = Some (vs, r) \<Longrightarrow> length s + of_bool (i = 0 \<and> 0 < n) \<le> length r + 4 * n"
proof (induction n arbitrary: i s vs)
  case (Suc n)
  then obtain v t ws where t: "read_separator (CHR ''.'') i (read_number 10 (Some 3) False 256) s = Some (v, t)"
    "read_octets n (Suc i) t = Some (ws, r)"
    by (auto split: option.splits)
  have "length s \<le> length t + 3 + of_bool (0 < i)"
    by (rule read_separator_length [OF _ t(1)]) (rule read_number_length)
  with Suc.IH [OF t(2)] show ?case by (cases "i = 0") auto
qed simp

lemma parse_ipv4_eq: "parse_ipv4 s = parse_with read_ipv4_addr s"
proof -
  have "length s \<le> 15" if "read_ipv4_addr s = Some (a, [])" for a
    using that read_octets_length [of 4 0 s _ "[]"] by (auto simp: read_ipv4_addr_def)
  then show ?thesis by (auto simp: parse_ipv4_def parse_with_def split: option.splits list.splits)
qed

end
