(* ===== verification/Dns_Server.thy ===== *)
theory Dns_Server
  imports Proxy_Service Net_Addr
begin

text \<open>
  The DNS resolver for the internal domain, \<^verbatim>\<open>src/adapters/inbound/dns_server.rs\<close>. The wire format and the
  request and response types are \<^verbatim>\<open>hickory\<close>; a request is given by the printed query name, the query
  type and the client's address, a response by its code and its answer section. The server loop runs over the
  datagrams and errors that its socket gives, with the decoder as an argument.
\<close>

section \<open>Model\<close>

record dns_config =
  dc_domain :: string
  dc_ttl :: u32

definition dns_config_default :: dns_config where
  "dns_config_default = \<lparr>dc_domain = ''internal'', dc_ttl = 30\<rparr>"

record dns_handler =
  dh_geo_resolver :: "(ip_addr \<Rightarrow> geo_info option) option"
  dh_config :: dns_config

definition dns_handler_new :: "(ip_addr \<Rightarrow> geo_info option) option \<Rightarrow> dns_config \<Rightarrow> dns_handler" where
  "dns_handler_new geo cfg = \<lparr>dh_geo_resolver = geo, dh_config = cfg\<rparr>"

text \<open>
  The name of the application is taken from the query and compared with the backend's; the mismatch
  is logged, and both branches of the comparison give the same answer.
\<close>

definition dns_resolve ::
  "('br, 'bi, 'ms) ports \<Rightarrow> instant \<Rightarrow> dns_handler \<Rightarrow> string \<Rightarrow> ip_addr \<Rightarrow> ('br, 'bi, 'ms) proxy_service
     \<Rightarrow> u32 option \<times> ('br, 'bi, 'ms) proxy_service" where
  "dns_resolve P now h name client_ip s =
     (let query_str = trim_end_matches (CHR ''.'') name;
          domain = dc_domain (dh_config h);
          suffix = ''.'' @ domain
      in if \<not> ends_with query_str suffix \<and> query_str \<noteq> domain then (None, s)
         else
           (let app_name = (if query_str = domain then None
                            else Some (case strip_suffix query_str suffix of Some a \<Rightarrow> a | None \<Rightarrow> query_str));
                client_geo = (if is_loopback client_ip then None
                              else case dh_geo_resolver h of Some g \<Rightarrow> g client_ip | None \<Rightarrow> None)
            in case resolve_backend_with_geo P now client_ip client_geo s of
                 (None, s) \<Rightarrow> (None, s)
               | (Some backend, s) \<Rightarrow>
                   (let answer = parse_ipv4 (bk_wg_ip backend)
                    in case app_name of
                         Some app \<Rightarrow> if bk_app backend \<noteq> app then (answer, s) else (answer, s)
                       | None \<Rightarrow> (answer, s))))"

datatype record_type = RecordA | RecordOther u16

datatype response_code = NoError | NXDomain | NotImp

record dns_record =
  dr_name :: string
  dr_ttl :: u32
  dr_address :: u32

record dns_response =
  rs_authoritative :: bool
  rs_code :: response_code
  rs_answers :: "dns_record list"

definition handle_request ::
  "('br, 'bi, 'ms) ports \<Rightarrow> instant \<Rightarrow> dns_handler \<Rightarrow> string \<Rightarrow> record_type \<Rightarrow> ip_addr
     \<Rightarrow> ('br, 'bi, 'ms) proxy_service \<Rightarrow> dns_response \<times> ('br, 'bi, 'ms) proxy_service" where
  "handle_request P now h name query_type src s =
     (if query_type \<noteq> RecordA then (\<lparr>rs_authoritative = True, rs_code = NotImp, rs_answers = []\<rparr>, s)
      else case dns_resolve P now h name src s of
             (Some ip, s) \<Rightarrow>
               (\<lparr>rs_authoritative = True, rs_code = NoError,
                 rs_answers = [\<lparr>dr_name = name, dr_ttl = dc_ttl (dh_config h), dr_address = ip\<rparr>]\<rparr>, s)
           | (None, s) \<Rightarrow> (\<lparr>rs_authoritative = True, rs_code = NXDomain, rs_answers = []\<rparr>, s))"

record dns_server =
  ds_listen_addr :: string
  ds_handler :: dns_handler

definition dns_server_new :: "string \<Rightarrow> (ip_addr \<Rightarrow> geo_info option) option \<Rightarrow> string \<Rightarrow> dns_server" where
  "dns_server_new listen_addr geo domain =
     \<lparr>ds_listen_addr = listen_addr, ds_handler = dns_handler_new geo \<lparr>dc_domain = domain, dc_ttl = 30\<rparr>\<rparr>"

text \<open>
  What the server's loop does with a packet: it is decoded (\<open>from_bytes\<close> is the decoder) and logged. The handler is passed
  along and not used; the packets sent in reply are the last component.
\<close>

definition handle_packet ::
  "(u8 list \<Rightarrow> 'e + 'm) \<Rightarrow> dns_handler \<Rightarrow> u8 list \<Rightarrow> ('e + unit) \<times> u8 list list" where
  "handle_packet from_bytes h data =
     (case from_bytes data of Inl e \<Rightarrow> (Inl e, []) | Inr message \<Rightarrow> (Inr (), []))"

text \<open>
  \<^verbatim>\<open>run\<close>: the listening address must be a socket address (host names are refused), then every datagram is cut to the buffer's 512 bytes and
  handled by a task; an error of \<^verbatim>\<open>recv_from\<close> is logged and the loop goes on. The result is the error that ends \<^verbatim>\<open>run\<close>, if any, and what
  the tasks return and send.
\<close>

datatype dns_run_error = BadListenAddr string | BindFailed string

fun dns_loop :: "(u8 list \<Rightarrow> 'e + 'm) \<Rightarrow> dns_handler \<Rightarrow> (string + u8 list) list \<Rightarrow> (('e + unit) \<times> u8 list list) list" where
  "dns_loop from_bytes h [] = []"
| "dns_loop from_bytes h (Inl e # ds) = dns_loop from_bytes h ds"
| "dns_loop from_bytes h (Inr d # ds) = handle_packet from_bytes h (take 512 d) # dns_loop from_bytes h ds"

definition dns_run ::
  "(socket_addr \<Rightarrow> string option) \<Rightarrow> (u8 list \<Rightarrow> 'e + 'm) \<Rightarrow> (string + u8 list) list \<Rightarrow> dns_server
     \<Rightarrow> dns_run_error option \<times> (('e + unit) \<times> u8 list list) list" where
  "dns_run bind_error from_bytes datagrams srv =
     (case parse_socket_addr (ds_listen_addr srv) of
        None \<Rightarrow> (Some (BadListenAddr (ds_listen_addr srv)), [])
      | Some addr \<Rightarrow>
          (case bind_error addr of
             Some e \<Rightarrow> (Some (BindFailed e), [])
           | None \<Rightarrow> (None, dns_loop from_bytes (ds_handler srv) datagrams)))"

text \<open>
  \<^verbatim>\<open>resolve_internal\<close>, the client: the query it sends and the answer it takes, the first A record. Sockets and the wire format are the
  record \<open>dns_net\<close>; a received datagram is cut to 512 bytes.
\<close>

datatype rdata = RDataA u32 | RDataOther

record 'name dns_query =
  dq_id :: u16
  dq_recursion_desired :: bool
  dq_name :: 'name
  dq_type :: record_type

record 'name dns_net =
  dn_bind :: "string option"
  dn_name :: "string \<Rightarrow> string + 'name"
  dn_to_bytes :: "'name dns_query \<Rightarrow> string + u8 list"
  dn_send :: "u8 list \<Rightarrow> string \<Rightarrow> string option"
  dn_recv :: "(string + u8 list) option"
  dn_from_bytes :: "u8 list \<Rightarrow> string + rdata option list"

definition query_id :: "u32 \<Rightarrow> u32 \<Rightarrow> u16" where
  "query_id subsec_nanos pid = xor (ucast subsec_nanos) (ucast pid)"

fun first_a_record :: "rdata option list \<Rightarrow> u32 option" where
  "first_a_record [] = None"
| "first_a_record (Some (RDataA a) # as) = Some a"
| "first_a_record (_ # as) = first_a_record as"

definition resolve_internal :: "'name dns_net \<Rightarrow> u32 \<Rightarrow> u32 \<Rightarrow> string \<Rightarrow> string \<Rightarrow> string + u32 option" where
  "resolve_internal N subsec_nanos pid name server_addr =
     and_then (case dn_bind N of Some e \<Rightarrow> Inl e | None \<Rightarrow> Inr ()) (\<lambda>_.
     and_then (dn_name N name) (\<lambda>qname.
     and_then (dn_to_bytes N \<lparr>dq_id = query_id subsec_nanos pid, dq_recursion_desired = True, dq_name = qname, dq_type = RecordA\<rparr>) (\<lambda>bytes.
     and_then (case dn_send N bytes server_addr of Some e \<Rightarrow> Inl e | None \<Rightarrow> Inr ()) (\<lambda>_.
     and_then (case dn_recv N of None \<Rightarrow> Inl ''deadline has elapsed'' | Some r \<Rightarrow> r) (\<lambda>datagram.
     and_then (dn_from_bytes N (take 512 datagram)) (\<lambda>answers.
       Inr (first_a_record answers)))))))"

section \<open>Lemmas\<close>

text \<open>The names the server is responsible for: the domain itself, and those below it, with any number of final dots.\<close>

definition in_domain :: "dns_handler \<Rightarrow> string \<Rightarrow> bool" where
  "in_domain h name \<longleftrightarrow>
     (let q = trim_end_matches (CHR ''.'') name; d = dc_domain (dh_config h)
      in q = d \<or> (\<exists>app. q = app @ CHR ''.'' # d))"

lemma dns_resolve_outside: "\<not> in_domain h name \<Longrightarrow> dns_resolve P now h name ip s = (None, s)"
  by (auto simp: dns_resolve_def in_domain_def ends_with_def suffix_def Let_def)

definition dns_geo :: "dns_handler \<Rightarrow> ip_addr \<Rightarrow> geo_info option" where
  "dns_geo h ip = (if is_loopback ip then None else case dh_geo_resolver h of Some g \<Rightarrow> g ip | None \<Rightarrow> None)"

lemma dns_resolve_inside:
  "in_domain h name \<Longrightarrow> dns_resolve P now h name ip s =
     (case resolve_backend_with_geo P now ip (dns_geo h ip) s of
        (None, s) \<Rightarrow> (None, s) | (Some b, s) \<Rightarrow> (parse_ipv4 (bk_wg_ip b), s))"
  by (auto simp: dns_resolve_def in_domain_def ends_with_def suffix_def Let_def dns_geo_def
      split: option.split prod.split)

section \<open>Properties\<close>

text \<open>
  What the request handler gives and does, on every branch; the server's loop does not call it (below), and the documented meaning of names such as
  \<^verbatim>\<open>hkg.pops.internal\<close> is not implemented: every name in the domain is resolved alike. A query for another record type is answered \<^verbatim>\<open>NOTIMP\<close>, one outside the domain
  \<^verbatim>\<open>NXDOMAIN\<close>, both without touching the proxy's state. A query inside the domain is answered with exactly one record, for the name
  asked and with the configured time to live, whose address is that of a healthy backend of the repository to which the
  client is bound from then on; or with \<^verbatim>\<open>NXDOMAIN\<close> when no backend is eligible or the client's
  backend has no IPv4 address. Metrics and backends are never changed.
\<close>

lemma handle_request_spec:
  fixes s :: main_service
  shows "let (r, s') = handle_request main_ports now h name qt ip s;
             bound = map_option bd_backend_id (binding_repo_get (ps_binding_repo s') (client_key_new ip));
             bs = sq_backends (ps_backend_repo s)
    in ps_metrics s' = ps_metrics s \<and> ps_backend_repo s' = ps_backend_repo s
       \<and> (if qt \<noteq> RecordA then s' = s \<and> rs_code r = NotImp \<and> rs_answers r = []
          else if \<not> in_domain h name then s' = s \<and> rs_code r = NXDomain \<and> rs_answers r = []
          else (rs_code r = NoError \<and> (\<exists>b ip. b \<in> set bs \<and> bk_healthy b \<and> bound = Some (bk_id b)
                   \<and> parse_ipv4 (bk_wg_ip b) = Some ip
                   \<and> rs_answers r = [\<lparr>dr_name = name, dr_ttl = dc_ttl (dh_config h), dr_address = ip\<rparr>]))
             \<or> (rs_code r = NXDomain \<and> rs_answers r = []
                   \<and> (filter (eligible (metrics_get_connection_count (ps_metrics s))) bs = [] \<and> bound = None
                     \<or> (\<exists>b. b \<in> set bs \<and> bk_healthy b \<and> bound = Some (bk_id b) \<and> parse_ipv4 (bk_wg_ip b) = None))))"
proof (cases "qt = RecordA \<and> in_domain h name")
  case False
  then show ?thesis by (auto simp: handle_request_def dns_resolve_outside)
next
  case True
  obtain rb s' where r: "resolve_backend_with_geo main_ports now ip (dns_geo h ip) s = (rb, s')" by fastforce
  note frame = main.resolve_frame [OF r]
  show ?thesis
  proof (cases rb)
    case None
    with r main.resolve_None_unbinds [of now ip "dns_geo h ip" s s'] frame True show ?thesis
      by (simp add: handle_request_def dns_resolve_inside filter_empty_conv sqlite_get_all_def)
  next
    case (Some b)
    with r have r': "resolve_backend_with_geo main_ports now ip (dns_geo h ip) s = (Some b, s')" by simp
    from main.resolve_result_healthy [OF r'] main.resolve_binds [OF r'] frame True r' show ?thesis
      by (cases "parse_ipv4 (bk_wg_ip b)")
         (auto simp: handle_request_def dns_resolve_inside sqlite_get_all_def)
  qed
qed

text \<open>
  The application named in the query plays no part in the answer: any two names inside the domain get the same
  response code, the same address and leave the same state, although the query is for one application.
\<close>

lemma dns_ignores_app:
  assumes "in_domain h n1" and "in_domain h n2"
  shows "rs_code (fst (handle_request P now h n1 qt ip s)) = rs_code (fst (handle_request P now h n2 qt ip s))
    \<and> map dr_address (rs_answers (fst (handle_request P now h n1 qt ip s)))
        = map dr_address (rs_answers (fst (handle_request P now h n2 qt ip s)))
    \<and> snd (handle_request P now h n1 qt ip s) = snd (handle_request P now h n2 qt ip s)"
proof -
  have "dns_resolve P now h n1 ip s = dns_resolve P now h n2 ip s"
    using assms by (simp add: dns_resolve_inside)
  then show ?thesis
    by (cases "dns_resolve P now h n2 ip s"; cases "fst (dns_resolve P now h n2 ip s)") (auto simp: handle_request_def)
qed

lemma dns_ignores_app_witness:
  "let h = dns_handler_new None dns_config_default in
   snd (handle_request main_ports 5 h ''shop.internal.'' RecordA (IpV4 7) example_service)
     = snd (handle_request main_ports 5 h ''mail.internal'' RecordA (IpV4 7) example_service)"
proof -
  let ?h = "dns_handler_new None dns_config_default"
  have "in_domain ?h ''shop.internal.''"
    by (auto simp: in_domain_def dns_handler_new_def dns_config_default_def trim_end_matches_def
        intro: exI [of _ "''shop''"])
  moreover have "in_domain ?h ''mail.internal''"
    by (auto simp: in_domain_def dns_handler_new_def dns_config_default_def trim_end_matches_def
        intro: exI [of _ "''mail''"])
  ultimately show ?thesis
    using dns_ignores_app [of ?h "''shop.internal.''" "''mail.internal''" main_ports 5 RecordA "IpV4 7" example_service]
    by simp
qed

text \<open>
  The server never answers: whatever datagrams arrive, and whether they decode or not, nothing is sent, so a client that
  waits for the reply of this server gets the timeout.
\<close>

lemma dns_server_sends_nothing: "(r, sent) \<in> set (snd (dns_run bind_error from_bytes datagrams srv)) \<Longrightarrow> sent = []"
proof -
  have "\<forall>x \<in> set (dns_loop from_bytes h ds). snd x = []" for h and ds :: "(string + u8 list) list"
    by (induction from_bytes h ds rule: dns_loop.induct) (auto simp: handle_packet_def split: sum.split)
  then show "(r, sent) \<in> set (snd (dns_run bind_error from_bytes datagrams srv)) \<Longrightarrow> sent = []"
    by (force simp: dns_run_def split: option.splits)
qed

text \<open>Errors of the socket do not end the loop: the datagrams after one are handled as if it had not occurred.\<close>

lemma dns_loop_skips_errors:
  "dns_loop from_bytes h ds = map (\<lambda>d. handle_packet from_bytes h (take 512 (projr d))) (filter (\<lambda>d. \<not> isl d) ds)"
  by (induction from_bytes h ds rule: dns_loop.induct) simp_all

lemma resolve_internal_first_a:
  "resolve_internal N nanos pid name server = Inr (Some a) \<Longrightarrow>
     \<exists>d answers. dn_recv N = Some (Inr d) \<and> dn_from_bytes N (take 512 d) = Inr answers \<and> Some (RDataA a) \<in> set answers"
proof -
  have *: "first_a_record as = Some a \<Longrightarrow> Some (RDataA a) \<in> set as" for as
    by (induction as rule: first_a_record.induct) auto
  assume "resolve_internal N nanos pid name server = Inr (Some a)"
  then show ?thesis
    by (auto simp: resolve_internal_def and_then_Inr dest!: * split: option.splits)
qed

end
