(* ===== verification/Api_Server.thy ===== *)
theory Api_Server
  imports Domain
begin

text \<open>
  The auto-discovery API, \<^verbatim>\<open>src/adapters/inbound/api_server.rs\<close>: the registry of backends with their heartbeats,
  the bodies of the HTTP handlers, the route table, the start of the server and its cleanup task. The HTTP server itself and the JSON decoding
  are \<^verbatim>\<open>axum\<close> and \<^verbatim>\<open>serde\<close>; a request is given by its method, path and decoded body.
\<close>

section \<open>Model\<close>

record register_request =
  rq_id :: string
  rq_app :: string
  rq_region :: string
  rq_country :: "string option"
  rq_ip :: string
  rq_port :: u16
  rq_weight :: u8
  rq_soft_limit :: u32
  rq_hard_limit :: u32

definition default_weight :: u8 where
  "default_weight = 2"

definition default_soft_limit :: u32 where
  "default_soft_limit = 100"

definition default_hard_limit :: u32 where
  "default_hard_limit = 150"

record register_response =
  rr_id :: string
  rr_registered :: bool
  rr_message :: string

record backend_status =
  st_id :: string
  st_app :: string
  st_region :: string
  st_ip :: string
  st_port :: u16
  st_healthy :: bool
  st_last_heartbeat_secs :: u64
  st_registered_secs :: u64

record backends_list_response =
  bl_backends :: "backend_status list"
  bl_total :: nat

record health_response =
  hr_status :: string
  hr_version :: string
  hr_registered_backends :: nat

record registered_backend =
  rb_backend :: backend
  rb_registered_at :: instant
  rb_last_heartbeat :: instant

record api_state =
  as_backends :: "(string, registered_backend) store"
  as_heartbeat_ttl :: duration

definition api_state_new :: "u64 \<Rightarrow> api_state" where
  "api_state_new ttl_secs = \<lparr>as_backends = dm_empty, as_heartbeat_ttl = from_secs (unat ttl_secs)\<rparr>"

definition beats :: "api_state \<Rightarrow> instant \<Rightarrow> registered_backend \<Rightarrow> bool" where
  "beats s now e \<longleftrightarrow> duration_since now (rb_last_heartbeat e) < as_heartbeat_ttl s"

definition get_healthy_backends :: "instant \<Rightarrow> api_state \<Rightarrow> backend list" where
  "get_healthy_backends now s =
     map (\<lambda>e. (rb_backend e)\<lparr>bk_healthy := True\<rparr>) (filter (beats s now) (dm_values (as_backends s)))"

definition status_of_entry :: "instant \<Rightarrow> api_state \<Rightarrow> registered_backend \<Rightarrow> backend_status" where
  "status_of_entry now s e =
     \<lparr>st_id = bk_id (rb_backend e), st_app = bk_app (rb_backend e), st_region = region_as_str (bk_region (rb_backend e)),
      st_ip = bk_wg_ip (rb_backend e), st_port = bk_port (rb_backend e), st_healthy = beats s now e,
      st_last_heartbeat_secs = as_secs (duration_since now (rb_last_heartbeat e)),
      st_registered_secs = as_secs (duration_since now (rb_registered_at e))\<rparr>"

definition get_all_backends :: "instant \<Rightarrow> api_state \<Rightarrow> backend_status list" where
  "get_all_backends now s = map (status_of_entry now s) (dm_values (as_backends s))"

definition register :: "instant \<Rightarrow> register_request \<Rightarrow> api_state \<Rightarrow> registered_backend \<times> api_state" where
  "register now req s =
     (let region = region_from_str (rq_region req);
          country = (case rq_country req of Some c \<Rightarrow> c | None \<Rightarrow> default_country region);
          backend = \<lparr>bk_id = rq_id req, bk_app = rq_app req, bk_region = region, bk_country = country,
                     bk_wg_ip = rq_ip req, bk_port = rq_port req, bk_healthy = True, bk_weight = rq_weight req,
                     bk_soft_limit = rq_soft_limit req, bk_hard_limit = rq_hard_limit req\<rparr>;
          registered = \<lparr>rb_backend = backend, rb_registered_at = now, rb_last_heartbeat = now\<rparr>
      in (registered, s\<lparr>as_backends := dm_insert (rq_id req) registered (as_backends s)\<rparr>))"

definition heartbeat :: "instant \<Rightarrow> string \<Rightarrow> api_state \<Rightarrow> bool \<times> api_state" where
  "heartbeat now i s =
     (case dm_get (as_backends s) i of
        Some e \<Rightarrow> (True, s\<lparr>as_backends := dm_insert i (e\<lparr>rb_last_heartbeat := now\<rparr>) (as_backends s)\<rparr>)
      | None \<Rightarrow> (False, s))"

definition deregister :: "string \<Rightarrow> api_state \<Rightarrow> bool \<times> api_state" where
  "deregister i s =
     (dm_get (as_backends s) i \<noteq> None, s\<lparr>as_backends := dm_remove i (as_backends s)\<rparr>)"

definition api_cleanup_expired :: "instant \<Rightarrow> api_state \<Rightarrow> nat \<times> api_state" where
  "api_cleanup_expired now s =
     (let expired = map fst (filter (\<lambda>(i, e). as_heartbeat_ttl s \<le> duration_since now (rb_last_heartbeat e)) (as_backends s))
      in (length expired, s\<lparr>as_backends := dm_remove_all expired (as_backends s)\<rparr>))"

text \<open>The handlers: status code and body.\<close>

datatype api_body =
    RegisterBody register_response
  | StatusBody backend_status
  | ListBody backends_list_response
  | HealthBody health_response
  | OkBody string string
  | DeregisteredBody string
  | ErrorBody "string option" string

definition health_handler :: "string \<Rightarrow> api_state \<Rightarrow> nat \<times> api_body" where
  "health_handler version s =
     (200, HealthBody \<lparr>hr_status = ''ok'', hr_version = version, hr_registered_backends = length (as_backends s)\<rparr>)"

definition register_handler :: "instant \<Rightarrow> register_request \<Rightarrow> api_state \<Rightarrow> (nat \<times> api_body) \<times> api_state" where
  "register_handler now req s =
     (let (_, s) = register now req s
      in ((201, RegisterBody \<lparr>rr_id = rq_id req, rr_registered = True, rr_message = ''Backend registered successfully''\<rparr>), s))"

definition heartbeat_handler :: "instant \<Rightarrow> string \<Rightarrow> api_state \<Rightarrow> (nat \<times> api_body) \<times> api_state" where
  "heartbeat_handler now i s =
     (case heartbeat now i s of
        (True, s) \<Rightarrow> ((200, OkBody i ''ok''), s)
      | (False, s) \<Rightarrow> ((404, ErrorBody (Some i) ''backend not registered''), s))"

definition deregister_handler :: "string \<Rightarrow> api_state \<Rightarrow> (nat \<times> api_body) \<times> api_state" where
  "deregister_handler i s =
     (case deregister i s of
        (True, s) \<Rightarrow> ((200, DeregisteredBody i), s)
      | (False, s) \<Rightarrow> ((404, ErrorBody (Some i) ''backend not found''), s))"

definition list_backends_handler :: "instant \<Rightarrow> api_state \<Rightarrow> nat \<times> api_body" where
  "list_backends_handler now s =
     (let bs = get_all_backends now s in (200, ListBody \<lparr>bl_backends = bs, bl_total = length bs\<rparr>))"

definition get_backend_handler :: "instant \<Rightarrow> string \<Rightarrow> api_state \<Rightarrow> nat \<times> api_body" where
  "get_backend_handler now i s =
     (case dm_get (as_backends s) i of
        Some e \<Rightarrow> (200, StatusBody (status_of_entry now s e))
      | None \<Rightarrow> (404, ErrorBody None ''backend not found''))"

text \<open>
  The server: its route table and its cleanup task. Matching a path against the patterns of the table and decoding the body are \<^verbatim>\<open>axum\<close>;
  a request is given by its method, the pattern its path matched (with the value of \<^verbatim>\<open>:id\<close>), and the decoded body or the
  status with which decoding it was refused. A route of \<^verbatim>\<open>get(..)\<close> serves HEAD as well: it runs the handler and leaves out the body.
\<close>

datatype http_method = HttpGet | HttpHead | HttpPost | HttpDelete | HttpOther string

record api_request =
  ar_method :: http_method
  ar_pattern :: "string option"
  ar_id :: string
  ar_body :: "nat + register_request"

record api_server =
  sv_listen_addr :: string
  sv_state :: api_state

definition api_server_new :: "string \<Rightarrow> u64 \<Rightarrow> api_server" where
  "api_server_new listen_addr ttl_secs = \<lparr>sv_listen_addr = listen_addr, sv_state = api_state_new ttl_secs\<rparr>"

definition api_server_state :: "api_server \<Rightarrow> api_state" where
  "api_server_state srv = sv_state srv"

definition api_dispatch ::
  "string \<Rightarrow> instant \<Rightarrow> api_request \<Rightarrow> api_state \<Rightarrow> (nat \<times> api_body option) \<times> api_state" where
  "api_dispatch version now r s =
     (let reply = (\<lambda>(code, body). (code, Some body));
          get = (\<lambda>(code, body). ((code, if ar_method r = HttpHead then None else Some body), s));
          is_get = (ar_method r = HttpGet \<or> ar_method r = HttpHead);
          method_not_allowed = ((405, None), s)
      in case ar_pattern r of
           None \<Rightarrow> ((404, None), s)
         | Some p \<Rightarrow>
             if p = ''/health'' then
               (if is_get then get (health_handler version s) else method_not_allowed)
             else if p = ''/api/v1/register'' then
               (if ar_method r = HttpPost
                then case ar_body r of
                       Inl code \<Rightarrow> ((code, None), s)
                     | Inr req \<Rightarrow> (case register_handler now req s of (resp, s') \<Rightarrow> (reply resp, s'))
                else method_not_allowed)
             else if p = ''/api/v1/heartbeat/:id'' then
               (if ar_method r = HttpPost
                then case heartbeat_handler now (ar_id r) s of (resp, s') \<Rightarrow> (reply resp, s')
                else method_not_allowed)
             else if p = ''/api/v1/backends/:id'' then
               (if ar_method r = HttpDelete
                then case deregister_handler (ar_id r) s of (resp, s') \<Rightarrow> (reply resp, s')
                else if is_get then get (get_backend_handler now (ar_id r) s)
                else method_not_allowed)
             else if p = ''/api/v1/backends'' then
               (if is_get then get (list_backends_handler now s) else method_not_allowed)
             else ((404, None), s))"

text \<open>One tick of the cleanup task: the number of entries removed is only logged.\<close>

definition api_cleanup_tick :: "instant \<Rightarrow> api_state \<Rightarrow> api_state" where
  "api_cleanup_tick now s = snd (api_cleanup_expired now s)"

section \<open>Specification\<close>

datatype api_call = ApiRegister register_request | ApiHeartbeat string | ApiDeregister string | ApiCleanup

fun api_step :: "instant \<times> api_call \<Rightarrow> api_state \<Rightarrow> api_state" where
  "api_step (now, ApiRegister req) s = snd (register_handler now req s)"
| "api_step (now, ApiHeartbeat i) s = snd (heartbeat_handler now i s)"
| "api_step (now, ApiDeregister i) s = snd (deregister_handler i s)"
| "api_step (now, ApiCleanup) s = snd (api_cleanup_expired now s)"

fun api_run :: "(instant \<times> api_call) list \<Rightarrow> api_state \<Rightarrow> api_state" where
  "api_run [] s = s"
| "api_run (c # cs) s = api_run cs (api_step c s)"

text \<open>The lease of one backend: the time of its last sign of life, as the calls on it leave it.\<close>

fun lease_step :: "duration \<Rightarrow> string \<Rightarrow> instant \<times> api_call \<Rightarrow> instant option \<Rightarrow> instant option" where
  "lease_step ttl i (now, ApiRegister req) l = (if rq_id req = i then Some now else l)"
| "lease_step ttl i (now, ApiHeartbeat j) l = (if j = i then map_option (\<lambda>_. now) l else l)"
| "lease_step ttl i (now, ApiDeregister j) l = (if j = i then None else l)"
| "lease_step ttl i (now, ApiCleanup) l = (case l of Some t \<Rightarrow> if ttl \<le> now - t then None else Some t | None \<Rightarrow> None)"

definition lease :: "duration \<Rightarrow> string \<Rightarrow> (instant \<times> api_call) list \<Rightarrow> instant option" where
  "lease ttl i cs = fold (lease_step ttl i) cs None"

definition api_wf :: "api_state \<Rightarrow> bool" where
  "api_wf s \<longleftrightarrow> dm_wf (as_backends s) \<and> (\<forall>i e. dm_get (as_backends s) i = Some e \<longrightarrow> bk_id (rb_backend e) = i)"

section \<open>Lemmas\<close>

lemma api_step_ttl [simp]: "as_heartbeat_ttl (api_step c s) = as_heartbeat_ttl s"
  by (cases c; cases "snd c")
     (auto simp: register_handler_def register_def heartbeat_handler_def heartbeat_def deregister_handler_def
        deregister_def api_cleanup_expired_def Let_def split: option.splits bool.splits)

lemma api_cleanup_retain:
  assumes "dm_wf (as_backends s)"
  shows "as_backends (snd (api_cleanup_expired now s)) = dm_retain (\<lambda>_ e. beats s now e) (as_backends s)"
  using dm_remove_all_filter [OF assms, of "\<lambda>e. as_heartbeat_ttl s \<le> duration_since now (rb_last_heartbeat e)"]
  by (simp add: api_cleanup_expired_def Let_def beats_def not_le)

lemma api_step_wf: "api_wf s \<Longrightarrow> api_wf (api_step c s)"
proof (cases c)
  case (Pair now x)
  assume wf: "api_wf s"
  show ?thesis
  proof (cases x)
    case ApiCleanup
    with wf Pair api_cleanup_retain [of s now] show ?thesis
      by (auto simp: api_wf_def dm_get_retain split: option.splits if_splits)
  qed (use wf Pair in \<open>auto simp: api_wf_def register_handler_def register_def heartbeat_handler_def heartbeat_def
        deregister_handler_def deregister_def Let_def split: option.splits if_splits bool.splits\<close>)
qed

lemma api_step_lease:
  assumes "api_wf s"
  shows "map_option rb_last_heartbeat (dm_get (as_backends (api_step c s)) i)
    = lease_step (as_heartbeat_ttl s) i c (map_option rb_last_heartbeat (dm_get (as_backends s) i))"
proof (cases c)
  case (Pair now x)
  show ?thesis
  proof (cases x)
    case ApiCleanup
    with assms Pair api_cleanup_retain [of s now] show ?thesis
      by (auto simp: api_wf_def dm_get_retain beats_def duration_since_def split: option.splits)
  qed (use Pair in \<open>auto simp: register_handler_def register_def heartbeat_handler_def heartbeat_def
        deregister_handler_def deregister_def Let_def split: option.splits bool.splits\<close>)
qed

lemma api_run_lease:
  assumes "api_wf s"
  shows "map_option rb_last_heartbeat (dm_get (as_backends (api_run cs s)) i)
      = fold (lease_step (as_heartbeat_ttl s) i) cs (map_option rb_last_heartbeat (dm_get (as_backends s) i))
    \<and> api_wf (api_run cs s) \<and> as_heartbeat_ttl (api_run cs s) = as_heartbeat_ttl s"
  using assms
proof (induction cs arbitrary: s)
  case (Cons c cs)
  from Cons.IH [OF api_step_wf [OF Cons.prems]] api_step_lease [OF Cons.prems, of c i] show ?case by simp
qed simp

lemma api_wf_new [simp]: "api_wf (api_state_new n)"
  by (simp add: api_wf_def api_state_new_def)

lemma run_new:
  "map_option rb_last_heartbeat (dm_get (as_backends (api_run cs (api_state_new n))) i) = lease (from_secs (unat n)) i cs"
  "api_wf (api_run cs (api_state_new n))"
  "as_heartbeat_ttl (api_run cs (api_state_new n)) = from_secs (unat n)"
  using api_run_lease [OF api_wf_new, of cs n i] by (simp_all add: lease_def api_state_new_def)

lemma healthy_ids:
  assumes "api_wf s"
  shows "i \<in> bk_id ` set (get_healthy_backends now s) \<longleftrightarrow> (\<exists>e. dm_get (as_backends s) i = Some e \<and> beats s now e)"
proof -
  have "i \<in> bk_id ` set (get_healthy_backends now s)
      \<longleftrightarrow> (\<exists>e \<in> set (dm_values (as_backends s)). beats s now e \<and> bk_id (rb_backend e) = i)"
    by (auto simp: get_healthy_backends_def image_iff)
  also have "\<dots> \<longleftrightarrow> (\<exists>e k. dm_get (as_backends s) k = Some e \<and> beats s now e \<and> bk_id (rb_backend e) = i)"
    using assms dm_values_iff [of "as_backends s"] by (fastforce simp: api_wf_def)
  also have "\<dots> \<longleftrightarrow> (\<exists>e. dm_get (as_backends s) i = Some e \<and> beats s now e)"
    using assms by (auto simp: api_wf_def)
  finally show ?thesis .
qed

lemma filter_remove_all_neutral:
  "\<forall>e \<in> set m. P (snd e) \<longrightarrow> Q (snd e) \<Longrightarrow> filter P (dm_values (dm_retain (\<lambda>_. Q) m)) = filter P (dm_values m)"
  by (induction m) (auto simp: dm_values_def dm_retain_def)

lemma beats_antimono: "now \<le> later \<Longrightarrow> beats s later e \<Longrightarrow> beats s now e"
  by (auto simp: beats_def duration_since_def)

text \<open>
  Every HTTP request acts on the registry as one of the calls above or not at all: a request with another method, an unknown path or a
  body that does not decode, and every GET and HEAD, leaves it unchanged.
\<close>

definition request_call :: "api_request \<Rightarrow> api_call option" where
  "request_call r =
     (if ar_pattern r = Some ''/api/v1/register'' \<and> ar_method r = HttpPost
      then (case ar_body r of Inl _ \<Rightarrow> None | Inr req \<Rightarrow> Some (ApiRegister req))
      else if ar_pattern r = Some ''/api/v1/heartbeat/:id'' \<and> ar_method r = HttpPost then Some (ApiHeartbeat (ar_id r))
      else if ar_pattern r = Some ''/api/v1/backends/:id'' \<and> ar_method r = HttpDelete then Some (ApiDeregister (ar_id r))
      else None)"

lemma api_dispatch_step:
  "snd (api_dispatch version now r s) = (case request_call r of Some c \<Rightarrow> api_step (now, c) s | None \<Rightarrow> s)"
proof (cases "ar_pattern r")
  case (Some p)
  then show ?thesis
    by (simp add: api_dispatch_def request_call_def Let_def split: sum.split prod.split)
qed (simp add: api_dispatch_def request_call_def)

text \<open>The server with its cleanup task: requests and ticks, in the order in which they reach the registry.\<close>

fun api_serve :: "string \<Rightarrow> (instant \<times> api_request option) list \<Rightarrow> api_state \<Rightarrow> api_state" where
  "api_serve version [] s = s"
| "api_serve version ((now, Some r) # es) s = api_serve version es (snd (api_dispatch version now r s))"
| "api_serve version ((now, None) # es) s = api_serve version es (api_cleanup_tick now s)"

definition event_calls :: "(instant \<times> api_request option) list \<Rightarrow> (instant \<times> api_call) list" where
  "event_calls = List.map_filter (\<lambda>(now, e). case e of None \<Rightarrow> Some (now, ApiCleanup)
     | Some r \<Rightarrow> map_option (Pair now) (request_call r))"

lemma api_serve_run: "api_serve version es s = api_run (event_calls es) s"
proof (induction version es s rule: api_serve.induct)
  case (2 version now r es s)
  then show ?case
    by (cases "request_call r") (simp_all add: event_calls_def map_filter_simps api_dispatch_step)
qed (simp_all add: event_calls_def map_filter_simps api_cleanup_tick_def)

section \<open>Properties\<close>

text \<open>
  C30: The registry follows the leases of its backends: after any sequence of HTTP requests of any kind and cleanup ticks on a fresh server, a backend is
  among the healthy ones exactly if its lease is live: the accepted register, heartbeat and deregister requests for its own id, in their order, left it
  registered and its last sign of life is younger than the heartbeat time to live. A GET for it finds it (status 200, else 404) and shows
  a health that follow the same lease, as do the status codes of a heartbeat and of a deregistration, and requests for other ids have no influence.
\<close>

theorem registry_follows_leases:
  "let s = api_serve version es (sv_state (api_server_new addr ttl_secs));
       ttl = from_secs (unat ttl_secs); l = lease ttl i (event_calls es);
       req = (\<lambda>m p. \<lparr>ar_method = m, ar_pattern = Some p, ar_id = i, ar_body = body\<rparr>) in
     i \<in> bk_id ` set (get_healthy_backends now s) = (\<exists>t. l = Some t \<and> now - t < ttl)
     \<and> (case l of
          None \<Rightarrow> api_dispatch version now (req HttpGet ''/api/v1/backends/:id'') s
                    = ((404, Some (ErrorBody None ''backend not found'')), s)
        | Some t \<Rightarrow> \<exists>b. api_dispatch version now (req HttpGet ''/api/v1/backends/:id'') s = ((200, Some (StatusBody b)), s)
            \<and> st_id b = i \<and> st_healthy b = (now - t < ttl) \<and> st_last_heartbeat_secs b = as_secs (now - t))
     \<and> fst (fst (api_dispatch version now (req HttpPost ''/api/v1/heartbeat/:id'') s)) = (if l = None then 404 else 200)
     \<and> fst (fst (api_dispatch version now (req HttpDelete ''/api/v1/backends/:id'') s)) = (if l = None then 404 else 200)"
proof -
  define s l where "s = api_serve version es (sv_state (api_server_new addr ttl_secs))"
    and "l = lease (from_secs (unat ttl_secs)) i (event_calls es)"
  have g: "map_option rb_last_heartbeat (dm_get (as_backends s) i) = l" and wf: "api_wf s"
    and ttl: "as_heartbeat_ttl s = from_secs (unat ttl_secs)"
    unfolding s_def l_def api_serve_run api_server_new_def api_server.simps by (rule run_new)+
  have "i \<in> bk_id ` set (get_healthy_backends now s) = (\<exists>t. l = Some t \<and> now - t < from_secs (unat ttl_secs))"
    unfolding healthy_ids [OF wf] using ttl by (auto simp: g [symmetric] beats_def duration_since_def)
  moreover have "case l of None \<Rightarrow> get_backend_handler now i s = (404, ErrorBody None ''backend not found'')
      | Some t \<Rightarrow> \<exists>b. get_backend_handler now i s = (200, StatusBody b) \<and> st_id b = i
          \<and> st_healthy b = (now - t < from_secs (unat ttl_secs)) \<and> st_last_heartbeat_secs b = as_secs (now - t)"
    using wf ttl by (auto simp: g [symmetric] get_backend_handler_def status_of_entry_def beats_def duration_since_def
        api_wf_def split: option.splits)
  moreover have "fst (fst (heartbeat_handler now i s)) = (if l = None then 404 else 200)"
    by (auto simp: g [symmetric] heartbeat_handler_def heartbeat_def split: option.splits)
  moreover have "fst (fst (deregister_handler i s)) = (if l = None then 404 else 200)"
    by (auto simp: g [symmetric] deregister_handler_def deregister_def split: option.splits bool.splits)
  ultimately show ?thesis
    by (auto simp: Let_def s_def [symmetric] l_def [symmetric] api_dispatch_def case_prod_unfold split: option.splits)
qed

text \<open>
  The periodic cleanup removes exactly the entries whose lease ran out, reports their number, and is
  invisible to the routing side: the healthy backends are the same ones, in the same order, at every
  later time whether it ran or not.
\<close>

lemma cleanup_invisible:
  assumes "now \<le> later"
  shows "let s = api_run cs (api_state_new ttl_secs); (n, s') = api_cleanup_expired now s in
    get_healthy_backends later s' = get_healthy_backends later s
    \<and> get_all_backends now s' = filter st_healthy (get_all_backends now s)
    \<and> length (as_backends s) = n + length (as_backends s')"
proof -
  define s where "s = api_run cs (api_state_new ttl_secs)"
  obtain n s' where c: "api_cleanup_expired now s = (n, s')" by fastforce
  have wf: "dm_wf (as_backends s)" using run_new(2) [of cs ttl_secs] by (simp add: s_def api_wf_def)
  have r: "as_backends s' = dm_retain (\<lambda>_. beats s now) (as_backends s)"
    using api_cleanup_retain [OF wf, of now] by (simp add: c)
  have "as_heartbeat_ttl s' = as_heartbeat_ttl s"
    using c by (auto simp: api_cleanup_expired_def Let_def)
  then have b: "beats s' = beats s" by (intro ext) (simp add: beats_def)
  have "get_healthy_backends later s' = get_healthy_backends later s"
    using assms by (simp add: get_healthy_backends_def r b filter_remove_all_neutral beats_antimono)
  moreover have "get_all_backends now s' = filter st_healthy (get_all_backends now s)"
    by (simp add: get_all_backends_def r dm_retain_def dm_values_def filter_map comp_def case_prod_unfold
        status_of_entry_def b)
  moreover have "length (as_backends s) = n + length (as_backends s')"
    using c sum_length_filter_compl [of "\<lambda>(i, e). beats s now e" "as_backends s"]
    by (auto simp: r api_cleanup_expired_def Let_def dm_retain_def beats_def not_less case_prod_unfold)
  ultimately show ?thesis by (simp add: s_def [symmetric] c)
qed

lemma cleanup_invisible_example:
  "let s = api_run [(0, ApiHeartbeat ''b'')] (api_state_new 60); (n, s') = api_cleanup_expired 5 s in
    get_healthy_backends 7 s' = get_healthy_backends 7 s
    \<and> get_all_backends 5 s' = filter st_healthy (get_all_backends 5 s)
    \<and> length (as_backends s) = n + length (as_backends s')"
  by (rule cleanup_invisible) simp

end
