(* ===== verification/Relay.thy ===== *)
theory Relay
  imports Prelude
begin

text \<open>
  The two-way copy between client and backend, \<^verbatim>\<open>proxy_bidirectional\<close> of \<^verbatim>\<open>src/adapters/inbound/tcp_server.rs\<close> and of
  \<^verbatim>\<open>src/adapters/inbound/tls_server.rs\<close>: one task per direction, which run independently, and a join of the two. \<^verbatim>\<open>tokio::io::copy\<close> is
  seen through the reads and writes it makes on its two ends, as documented: it reads into a buffer of 8 KiB, writes from the buffer what the
  writer accepts, stops at the reader's end once the buffer is written, and gives up at any error of either end. How much a read
  or a write moves, when one fails and when a task panics is left open.
\<close>

section \<open>Model\<close>

datatype server_kind = TcpRelay | TlsRelay

datatype direction = ClientToBackend | BackendToClient

text \<open>How a spawned copy task ends: it panicked or was cancelled, or its copy gave an I/O error or the number of bytes copied.\<close>

type_synonym copy_result = "string + (string + u64)"

datatype copy_pc =
    Copying
  | CopyReturned "string + u64"
  | ShutdownReturned "string + u64"
  | TaskEnded copy_result

text \<open>
  One direction: what its reader will still give before its end, whether that end was read, the buffer and the byte count of the copy, what the
  receiving side was given, the outcome of the call of \<^verbatim>\<open>shutdown\<close> (which the code discards) and whether the write half is shut.
\<close>

record copy_task =
  ct_unread :: "u8 list"
  ct_read_done :: bool
  ct_buffer :: "u8 list"
  ct_amt :: u64
  ct_delivered :: "u8 list"
  ct_pc :: copy_pc
  ct_shutdown :: "bool option"
  ct_shut :: bool

definition copy_start :: "u8 list \<Rightarrow> copy_task" where
  "copy_start inp = \<lparr>ct_unread = inp, ct_read_done = False, ct_buffer = [], ct_amt = 0, ct_delivered = [], ct_pc = Copying,
     ct_shutdown = None, ct_shut = False\<rparr>"

text \<open>
  Which tasks call \<^verbatim>\<open>shutdown\<close> on their write half after the copy, and which write halves are shut when they are dropped with the task: those
  that come from \<^verbatim>\<open>TcpStream::into_split\<close>, but not the one from \<^verbatim>\<open>tokio::io::split\<close> of the TLS stream.
\<close>

fun calls_shutdown :: "server_kind \<Rightarrow> direction \<Rightarrow> bool" where
  "calls_shutdown TcpRelay ClientToBackend = True"
| "calls_shutdown TcpRelay BackendToClient = False"
| "calls_shutdown TlsRelay ClientToBackend = True"
| "calls_shutdown TlsRelay BackendToClient = True"

fun shut_on_drop :: "server_kind \<Rightarrow> direction \<Rightarrow> bool" where
  "shut_on_drop TlsRelay BackendToClient = False"
| "shut_on_drop _ _ = True"

abbreviation copy_buf_size :: nat where "copy_buf_size \<equiv> 8192"

inductive copy_step :: "server_kind \<Rightarrow> direction \<Rightarrow> copy_task \<Rightarrow> copy_task \<Rightarrow> bool" for k d where
  read: "ct_pc c = Copying \<Longrightarrow> ct_unread c = xs @ rest \<Longrightarrow> xs \<noteq> [] \<Longrightarrow> length (ct_buffer c @ xs) \<le> copy_buf_size \<Longrightarrow>
     copy_step k d c (c\<lparr>ct_unread := rest, ct_buffer := ct_buffer c @ xs\<rparr>)"
| read_end: "ct_pc c = Copying \<Longrightarrow> ct_unread c = [] \<Longrightarrow> \<not> ct_read_done c \<Longrightarrow> copy_step k d c (c\<lparr>ct_read_done := True\<rparr>)"
| written: "ct_pc c = Copying \<Longrightarrow> ct_buffer c = xs @ rest \<Longrightarrow> xs \<noteq> [] \<Longrightarrow>
     copy_step k d c
       (c\<lparr>ct_buffer := rest, ct_delivered := ct_delivered c @ xs, ct_amt := ct_amt c + of_nat (length xs)\<rparr>)"
| finished: "ct_pc c = Copying \<Longrightarrow> ct_read_done c \<Longrightarrow> ct_buffer c = [] \<Longrightarrow>
     copy_step k d c (c\<lparr>ct_pc := CopyReturned (Inr (ct_amt c))\<rparr>)"
| failed: "ct_pc c = Copying \<Longrightarrow> copy_step k d c (c\<lparr>ct_pc := CopyReturned (Inl e)\<rparr>)"
| shutdown: "ct_pc c = CopyReturned r \<Longrightarrow> calls_shutdown k d \<Longrightarrow>
     copy_step k d c (c\<lparr>ct_pc := ShutdownReturned r, ct_shutdown := Some ok, ct_shut := ok\<rparr>)"
| ended: "ct_pc c = (if calls_shutdown k d then ShutdownReturned r else CopyReturned r) \<Longrightarrow>
     copy_step k d c (c\<lparr>ct_pc := TaskEnded (Inr r), ct_shut := (ct_shut c \<or> shut_on_drop k d)\<rparr>)"
| panicked: "\<nexists>r. ct_pc c = TaskEnded r \<Longrightarrow>
     copy_step k d c (c\<lparr>ct_pc := TaskEnded (Inl e), ct_shut := (ct_shut c \<or> shut_on_drop k d)\<rparr>)"

text \<open>The value of the function once both tasks are joined: errors of the copies are logged only.\<close>

definition proxy_bidirectional :: "copy_result \<Rightarrow> copy_result \<Rightarrow> string + unit" where
  "proxy_bidirectional c2b b2c = Inr ()"

record relay =
  rl_task :: "direction \<Rightarrow> copy_task"
  rl_returned :: "(string + unit) option"

text \<open>\<open>input d\<close> is what the sending side of direction \<open>d\<close> transmits until it closes or fails.\<close>

definition relay_start :: "(direction \<Rightarrow> u8 list) \<Rightarrow> relay" where
  "relay_start input = \<lparr>rl_task = (\<lambda>d. copy_start (input d)), rl_returned = None\<rparr>"

inductive relay_step :: "server_kind \<Rightarrow> relay \<Rightarrow> relay \<Rightarrow> bool" for k where
  task: "copy_step k d (rl_task s d) c \<Longrightarrow> relay_step k s (s\<lparr>rl_task := (rl_task s)(d := c)\<rparr>)"
| joined: "ct_pc (rl_task s ClientToBackend) = TaskEnded c2b \<Longrightarrow> ct_pc (rl_task s BackendToClient) = TaskEnded b2c \<Longrightarrow>
     rl_returned s = None \<Longrightarrow> relay_step k s (s\<lparr>rl_returned := Some (proxy_bidirectional c2b b2c)\<rparr>)"

definition tcp_relay_step :: "relay \<Rightarrow> relay \<Rightarrow> bool" where
  "tcp_relay_step = relay_step TcpRelay"

definition tls_relay_step :: "relay \<Rightarrow> relay \<Rightarrow> bool" where
  "tls_relay_step = relay_step TlsRelay"

section \<open>One direction\<close>

text \<open>
  At every point: delivered, buffered and unread bytes together are the input, and the count is that of the delivered bytes. The
  reader's end is seen only when nothing is left, and a successful return only with an empty buffer.
\<close>

definition shut_after :: "server_kind \<Rightarrow> direction \<Rightarrow> copy_task \<Rightarrow> bool" where
  "shut_after k d c \<longleftrightarrow>
     (case ct_pc c of
        Copying \<Rightarrow> \<not> ct_shut c \<and> ct_shutdown c = None
      | CopyReturned r \<Rightarrow> \<not> ct_shut c \<and> ct_shutdown c = None
      | ShutdownReturned r \<Rightarrow> calls_shutdown k d \<and> ct_shutdown c = Some (ct_shut c)
      | TaskEnded r \<Rightarrow> ct_shut c = (shut_on_drop k d \<or> ct_shutdown c = Some True)
          \<and> (\<forall>x. r = Inr x \<longrightarrow> calls_shutdown k d \<longrightarrow> ct_shutdown c \<noteq> None))"

definition pc_success :: "copy_pc \<Rightarrow> u64 option" where
  "pc_success p = (case p of CopyReturned (Inr n) \<Rightarrow> Some n | ShutdownReturned (Inr n) \<Rightarrow> Some n | TaskEnded (Inr (Inr n)) \<Rightarrow> Some n
     | _ \<Rightarrow> None)"

definition copy_inv :: "server_kind \<Rightarrow> direction \<Rightarrow> u8 list \<Rightarrow> copy_task \<Rightarrow> bool" where
  "copy_inv k d inp c \<longleftrightarrow>
     ct_delivered c @ ct_buffer c @ ct_unread c = inp \<and> length (ct_buffer c) \<le> copy_buf_size
     \<and> ct_amt c = of_nat (length (ct_delivered c)) \<and> (ct_read_done c \<longrightarrow> ct_unread c = [])
     \<and> (\<forall>n. pc_success (ct_pc c) = Some n \<longrightarrow> ct_delivered c = inp \<and> n = of_nat (length inp))
     \<and> shut_after k d c"

lemmas copy_inv_defs = copy_inv_def shut_after_def pc_success_def

lemma copy_step_inv: "copy_step k d c c' \<Longrightarrow> copy_inv k d inp c \<Longrightarrow> copy_inv k d inp c'"
proof (induction rule: copy_step.induct)
  case (ended c r)
  then show ?case by (cases r) (auto simp: copy_inv_defs split: if_splits)
next
  case (panicked c e)
  then show ?case by (cases "ct_pc c") (auto simp: copy_inv_defs)
qed (auto simp: copy_inv_defs split: sum.splits)

definition pc_left :: "copy_pc \<Rightarrow> nat" where
  "pc_left p = (case p of Copying \<Rightarrow> 3 | CopyReturned _ \<Rightarrow> 2 | ShutdownReturned _ \<Rightarrow> 1 | TaskEnded _ \<Rightarrow> 0)"

definition copy_left :: "copy_task \<Rightarrow> nat" where
  "copy_left c = 2 * length (ct_unread c) + length (ct_buffer c) + of_bool (\<not> ct_read_done c) + pc_left (ct_pc c)"

lemma copy_step_left: "copy_step k d c c' \<Longrightarrow> copy_left c' < copy_left c"
proof (induction rule: copy_step.induct)
  case (panicked c e)
  then show ?case by (cases "ct_pc c") (auto simp: copy_left_def pc_left_def)
qed (auto simp: copy_left_def pc_left_def split: if_splits)

text \<open>A step without an error is possible until the task has ended, and it is one towards success.\<close>

lemma copy_goes_on:
  assumes inv: "copy_inv k d inp c" and pc: "ct_pc c = Copying \<or> pc_success (ct_pc c) \<noteq> None" "\<nexists>r. ct_pc c = TaskEnded r"
  shows "\<exists>c'. copy_step k d c c' \<and> (ct_pc c' = Copying \<or> pc_success (ct_pc c') \<noteq> None)"
proof (cases "ct_pc c")
  case Copying
  show ?thesis
  proof (cases "ct_buffer c")
    case (Cons x xs)
    with Copying have "copy_step k d c (c\<lparr>ct_buffer := xs, ct_delivered := ct_delivered c @ [x], ct_amt := ct_amt c + of_nat (length [x])\<rparr>)"
      by (intro copy_step.written) auto
    with Copying show ?thesis by fastforce
  next
    case buf: Nil
    show ?thesis
    proof (cases "ct_unread c")
      case (Cons x xs)
      with Copying buf have "copy_step k d c (c\<lparr>ct_unread := xs, ct_buffer := ct_buffer c @ [x]\<rparr>)"
        by (intro copy_step.read) auto
      with Copying show ?thesis by fastforce
    next
      case Nil
      show ?thesis
      proof (cases "ct_read_done c")
        case True
        from copy_step.finished [OF Copying True buf, of k d] show ?thesis
          by (intro exI [of _ "c\<lparr>ct_pc := CopyReturned (Inr (ct_amt c))\<rparr>"]) (simp add: pc_success_def)
      next
        case False
        from copy_step.read_end [OF Copying Nil False] Copying show ?thesis
          by (intro exI [of _ "c\<lparr>ct_read_done := True\<rparr>"]) simp
      qed
    qed
  qed
next
  case (CopyReturned r)
  show ?thesis
  proof (cases "calls_shutdown k d")
    case True
    from copy_step.shutdown [OF CopyReturned True, of True] pc CopyReturned show ?thesis
      by (intro exI [of _ "c\<lparr>ct_pc := ShutdownReturned r, ct_shutdown := Some True, ct_shut := True\<rparr>"]) (auto simp: pc_success_def)
  next
    case False
    with copy_step.ended [of c k d r] pc CopyReturned show ?thesis
      by (intro exI [of _ "c\<lparr>ct_pc := TaskEnded (Inr r), ct_shut := (ct_shut c \<or> shut_on_drop k d)\<rparr>"])
        (auto simp: pc_success_def split: sum.splits)
  qed
next
  case (ShutdownReturned r)
  then have "calls_shutdown k d" using inv by (simp add: copy_inv_defs)
  with copy_step.ended [of c k d r] pc ShutdownReturned show ?thesis
    by (intro exI [of _ "c\<lparr>ct_pc := TaskEnded (Inr r), ct_shut := (ct_shut c \<or> shut_on_drop k d)\<rparr>"])
      (auto simp: pc_success_def split: sum.splits)
next
  case (TaskEnded r)
  with pc show ?thesis by simp
qed

lemma copy_can_succeed:
  assumes "copy_inv k d inp c" and "ct_pc c = Copying \<or> pc_success (ct_pc c) \<noteq> None"
  shows "\<exists>c'. (copy_step k d)\<^sup>*\<^sup>* c c' \<and> ct_pc c' = TaskEnded (Inr (Inr (of_nat (length inp)))) \<and> ct_delivered c' = inp"
  using assms
proof (induction "copy_left c" arbitrary: c rule: less_induct)
  case less
  show ?case
  proof (cases "\<exists>r. ct_pc c = TaskEnded r")
    case True
    then show ?thesis using less.prems
      by (intro exI [of _ c]) (auto simp: copy_inv_def pc_success_def split: sum.splits)
  next
    case False
    from copy_goes_on [OF less.prems(1,2) False] obtain c' where
      c': "copy_step k d c c'" "ct_pc c' = Copying \<or> pc_success (ct_pc c') \<noteq> None" by blast
    from less.hyps [OF copy_step_left [OF c'(1)] copy_step_inv [OF c'(1) less.prems(1)] c'(2)] obtain u where
      u: "(copy_step k d)\<^sup>*\<^sup>* c' u" "ct_pc u = TaskEnded (Inr (Inr (of_nat (length inp))))" "ct_delivered u = inp" by blast
    from converse_rtranclp_into_rtranclp [of "copy_step k d", OF c'(1) u(1)] u(2,3) show ?thesis by blast
  qed
qed

lemma copy_progress:
  assumes "\<nexists>r. ct_pc c = TaskEnded r"
  shows "\<exists>c'. copy_step k d c c'"
  using copy_step.panicked [OF assms] by blast

section \<open>Both directions\<close>

definition relay_inv :: "server_kind \<Rightarrow> (direction \<Rightarrow> u8 list) \<Rightarrow> relay \<Rightarrow> bool" where
  "relay_inv k input s \<longleftrightarrow>
     (\<forall>d. copy_inv k d (input d) (rl_task s d))
     \<and> (rl_returned s \<noteq> None \<longrightarrow> rl_returned s = Some (Inr ()) \<and> (\<forall>d. \<exists>r. ct_pc (rl_task s d) = TaskEnded r))"

lemma all_directions: "(\<forall>d. Q d) \<longleftrightarrow> Q ClientToBackend \<and> Q BackendToClient"
  by (metis direction.exhaust)

lemma ended_stays: "ct_pc c = TaskEnded r \<Longrightarrow> \<not> copy_step k d c c'"
  by (auto elim: copy_step.cases split: if_splits)

lemma relay_step_inv:
  assumes "relay_step k s t" and "relay_inv k input s"
  shows "relay_inv k input t"
  using assms
proof (cases rule: relay_step.cases)
  case (task d c)
  have "copy_inv k d (input d) c"
    using copy_step_inv [OF task(2)] assms(2) unfolding relay_inv_def by blast
  moreover have "rl_returned s = None"
    using ended_stays task(2) assms(2) unfolding relay_inv_def by metis
  ultimately show ?thesis using task(1) assms(2) by (simp add: relay_inv_def)
next
  case (joined c2b b2c)
  then show ?thesis using assms(2)
    by (auto simp: relay_inv_def proxy_bidirectional_def all_directions)
qed

interpretation relay: step_invariant "relay_step k" "relay_inv k input"
  by unfold_locales (rule relay_step_inv)

definition relay_left :: "relay \<Rightarrow> nat" where
  "relay_left s = copy_left (rl_task s ClientToBackend) + copy_left (rl_task s BackendToClient) + of_bool (rl_returned s = None)"

lemma relay_step_left: "relay_step k s t \<Longrightarrow> relay_left t < relay_left s"
proof (induction rule: relay_step.induct)
  case (task d s c)
  from copy_step_left [OF task] show ?case by (cases d) (simp_all add: relay_left_def)
qed (simp add: relay_left_def)

lemma relay_steps_left: "(relay_step k ^^ n) s t \<Longrightarrow> n + relay_left t \<le> relay_left s"
proof (induction n arbitrary: t)
  case (Suc n)
  then obtain u where "n + relay_left u \<le> relay_left s" "relay_step k u t" by auto
  with relay_step_left [of k u t] show ?case by simp
qed simp

lemma relay_progress:
  assumes "rl_returned s = None"
  shows "\<exists>t. relay_step k s t"
proof (cases "\<exists>d. \<nexists>r. ct_pc (rl_task s d) = TaskEnded r")
  case True
  then show ?thesis using copy_progress relay_step.task by metis
next
  case False
  then obtain c2b b2c where "ct_pc (rl_task s ClientToBackend) = TaskEnded c2b" "ct_pc (rl_task s BackendToClient) = TaskEnded b2c"
    by metis
  with assms show ?thesis by (blast intro: relay_step.joined)
qed

lemma relay_runs_task:
  assumes "(copy_step k d)\<^sup>*\<^sup>* c c'" and "rl_task s d = c"
  shows "(relay_step k)\<^sup>*\<^sup>* s (s\<lparr>rl_task := (rl_task s)(d := c')\<rparr>)"
  using assms
proof (induction rule: rtranclp_induct)
  case base
  then show ?case by (metis (no_types, lifting) fun_upd_triv relay.surjective relay.update_convs(1) rtranclp.rtrancl_refl)
next
  case (step y z)
  have "relay_step k (s\<lparr>rl_task := (rl_task s)(d := y)\<rparr>)
      (s\<lparr>rl_task := (rl_task s)(d := y)\<rparr>\<lparr>rl_task := (rl_task (s\<lparr>rl_task := (rl_task s)(d := y)\<rparr>))(d := z)\<rparr>)"
    by (rule relay_step.task) (simp add: step.hyps)
  then have "relay_step k (s\<lparr>rl_task := (rl_task s)(d := y)\<rparr>) (s\<lparr>rl_task := (rl_task s)(d := z)\<rparr>)"
    by simp
  with step.IH [OF step.prems] show ?case by (rule rtranclp.rtrancl_into_rtrancl)
qed

lemma relay_steps_inv:
  assumes "(relay_step k ^^ n) (relay_start input) s"
  shows "relay_inv k input s"
  by (rule relay.reach [OF relpowp_imp_rtranclp [OF assms]]) (simp add: relay_inv_def relay_start_def copy_start_def copy_inv_defs)

section \<open>Properties\<close>



end
