(* ===== verification/Interleaving.thy ===== *)
theory Interleaving
  imports Prelude
begin

text \<open>
  Tasks that run at the same time over shared state. A system is the shared state and the list of its tasks, each the place where it stands;
  a step starts a task, lets one task do its next atomic operation, or changes the shared state from outside. The locale \<open>owicki_gries\<close> is the proof
  method for such systems: an invariant of the shared state and an assertion for every place of a task, kept by the task's own steps and not interfered
  with by the steps of the others.
\<close>

section \<open>Systems of tasks\<close>

inductive par_step ::
  "('g \<Rightarrow> 'l \<Rightarrow> 'g \<Rightarrow> 'l \<Rightarrow> bool) \<Rightarrow> ('g \<Rightarrow> 'l \<Rightarrow> bool) \<Rightarrow> ('g \<Rightarrow> 'g \<Rightarrow> bool) \<Rightarrow> 'g \<times> 'l list \<Rightarrow> 'g \<times> 'l list \<Rightarrow> bool"
  for tstep starts env where
  spawn: "starts g l \<Longrightarrow> par_step tstep starts env (g, ls) (g, ls @ [l])"
| task: "n < length ls \<Longrightarrow> tstep g (ls ! n) g' l' \<Longrightarrow> par_step tstep starts env (g, ls) (g', ls[n := l'])"
| outside: "env g g' \<Longrightarrow> par_step tstep starts env (g, ls) (g', ls)"

inductive_cases par_stepE: "par_step tstep starts env s t"

lemma run_result: "(case x of Some (s, ls) \<Rightarrow> Q s ls | None \<Rightarrow> False) \<Longrightarrow> \<exists>s ls. x = Some (s, ls) \<and> Q s ls"
  by (auto split: option.splits)

text \<open>How the number of tasks at some places changes with a step of one of them.\<close>

lemma filter_update_length:
  "n < length xs \<Longrightarrow> length (filter Q (xs[n := y])) + of_bool (Q (xs ! n)) = length (filter Q xs) + of_bool (Q y)"
proof (induction xs arbitrary: n)
  case (Cons x xs)
  then show ?case by (cases n) auto
qed simp

lemma filter_hit: "n < length xs \<Longrightarrow> Q (xs ! n) \<Longrightarrow> 0 < length (filter Q xs)"
  by (auto simp: length_greater_0_conv filter_empty_conv)

lemma sum_list_decreases:
  fixes f :: "'a \<Rightarrow> nat"
  shows "n < length xs \<Longrightarrow> f y < f (xs ! n) \<Longrightarrow> sum_list (map f (xs[n := y])) < sum_list (map f xs)"
proof (induction xs arbitrary: n)
  case (Cons x xs)
  then show ?case by (cases n) auto
qed simp

lemma sum_list_update_one:
  fixes f :: "'a \<Rightarrow> 'b :: comm_monoid_add"
  shows "n < length xs \<Longrightarrow> sum_list (map f (xs[n := y])) + f (xs ! n) = sum_list (map f xs) + f y"
proof (induction xs arbitrary: n)
  case (Cons x xs)
  show ?case
  proof (cases n)
    case (Suc k)
    with Cons.prems have "sum_list (map f (xs[k := y])) + f (xs ! k) = sum_list (map f xs) + f y" by (simp add: Cons.IH)
    with Suc show ?thesis by (simp add: add.assoc)
  qed (simp add: ac_simps)
qed simp

text \<open>A total over shared state and tasks, when one task moves: \<open>x\<close> is the part of the state, \<open>t\<close> the part of the task, \<open>f\<close> that of all tasks.\<close>

lemma account_moves:
  fixes x :: "'b :: cancel_comm_monoid_add"
  assumes "x' + t' = x + t + e" and "f' + t = f + t'"
  shows "x' + f' = x + f + e"
proof -
  have "x' + f' + (t + t') = (x' + t') + (f' + t)" by (simp add: ac_simps)
  also have "\<dots> = x + f + e + (t + t')" unfolding assms by (simp add: ac_simps)
  finally show ?thesis by (simp only: add_right_cancel)
qed

section \<open>Assertions that are not interfered with\<close>

locale owicki_gries =
  fixes tstep :: "'g \<Rightarrow> 'l \<Rightarrow> 'g \<Rightarrow> 'l \<Rightarrow> bool"
    and starts :: "'g \<Rightarrow> 'l \<Rightarrow> bool"
    and env :: "'g \<Rightarrow> 'g \<Rightarrow> bool"
    and inv :: "'g \<Rightarrow> bool"
    and assertion :: "'g \<Rightarrow> 'l \<Rightarrow> bool"
  assumes own_step: "tstep g l g' l' \<Longrightarrow> inv g \<Longrightarrow> assertion g l \<Longrightarrow> inv g' \<and> assertion g' l'"
    and not_interfered: "tstep g l g' l' \<Longrightarrow> inv g \<Longrightarrow> assertion g l \<Longrightarrow> assertion g m \<Longrightarrow> assertion g' m"
    and at_start: "starts g l \<Longrightarrow> inv g \<Longrightarrow> assertion g l"
    and outside_inv: "env g g' \<Longrightarrow> inv g \<Longrightarrow> inv g'"
    and outside_stable: "env g g' \<Longrightarrow> inv g \<Longrightarrow> assertion g m \<Longrightarrow> assertion g' m"
begin

definition all_hold :: "'g \<times> 'l list \<Rightarrow> bool" where
  "all_hold s \<longleftrightarrow> inv (fst s) \<and> (\<forall>l \<in> set (snd s). assertion (fst s) l)"

lemma par_step_all: "par_step tstep starts env s t \<Longrightarrow> all_hold s \<Longrightarrow> all_hold t"
proof (induction rule: par_step.induct)
  case (task n ls g g' l')
  then have l: "inv g" "assertion g (ls ! n)" by (auto simp: all_hold_def)
  note own = own_step [OF task(2) l] and others = not_interfered [OF task(2) l]
  have "assertion g' m" if "m \<in> set (ls[n := l'])" for m
    using that set_update_subset_insert [of ls n l'] own others task(3) by (auto simp: all_hold_def)
  with own show ?case by (simp add: all_hold_def)
qed (auto simp: all_hold_def intro: at_start outside_inv outside_stable)

end

sublocale owicki_gries \<subseteq> all: step_invariant "par_step tstep starts env" all_hold
  by unfold_locales (rule par_step_all)

context owicki_gries
begin

lemma reach_inv: "(par_step tstep starts env)\<^sup>*\<^sup>* (g, []) (g', ls) \<Longrightarrow> inv g \<Longrightarrow> inv g'"
  using all.reach [of "(g, [])" "(g', ls)"] by (simp add: all_hold_def)

lemma reach_assertion:
  "(par_step tstep starts env)\<^sup>*\<^sup>* (g, []) (g', ls) \<Longrightarrow> inv g \<Longrightarrow> l \<in> set ls \<Longrightarrow> assertion g' l"
  using all.reach [of "(g, [])" "(g', ls)"] by (simp add: all_hold_def)

end

end
