(* ===== verification/Edge_Servers.thy ===== *)
theory Edge_Servers
  imports Proxy_Service Net_Addr Relay Interleaving
begin

text \<open>
  The two servers that accept client connections, \<^verbatim>\<open>src/adapters/inbound/tcp_server.rs\<close> and
  \<^verbatim>\<open>src/adapters/inbound/tls_server.rs\<close>. What the network does during one connection is the record \<open>conn_env\<close>:
  whether the backend accepts, after what time, how the two copy directions end, and which public address is found (the copy
  itself is in \<open>Relay\<close>, the accept loops in \<open>Listeners\<close>). The
  connection handlers are given whole, and a second time as a step relation, since the tasks of
  different connections interleave at every call of the service.
\<close>

section \<open>Model\<close>

record conn_env =
  ce_now :: instant
  ce_public_ip :: "ip_addr option"
  ce_connect :: "string \<Rightarrow> bool"
  ce_elapsed :: duration
  ce_client_to_backend :: copy_result
  ce_backend_to_client :: copy_result

definition backend_addr :: "backend \<Rightarrow> string" where
  "backend_addr b =
     (if contains_char (bk_wg_ip b) (CHR '':'')
      then ''['' @ bk_wg_ip b @ '']:'' @ show_word (bk_port b)
      else bk_wg_ip b @ '':'' @ show_word (bk_port b))"

text \<open>The location used for local clients, and the cache as it is afterwards. \<open>public_ip\<close> is what \<^verbatim>\<open>fetch_public_ip\<close> gives.\<close>

definition resolve_localhost_geo ::
  "(ip_addr \<Rightarrow> geo_info option) option \<Rightarrow> ip_addr option \<Rightarrow> geo_info option \<Rightarrow> geo_info option \<times> geo_info option" where
  "resolve_localhost_geo geo_resolver public_ip cached =
     (if cached \<noteq> None then (cached, cached)
      else case public_ip of
             Some ip \<Rightarrow>
               (let geo = (case geo_resolver of Some g \<Rightarrow> g ip | None \<Rightarrow> None)
                in (geo, if geo \<noteq> None then geo else cached))
           | None \<Rightarrow> (None, cached))"

text \<open>
  The lookup of the public address. The HTTP client is library code: \<open>build\<close> is the client or nothing, \<open>send\<close> what a GET of a
  URL gives, \<open>text\<close> the body of a response.
\<close>

definition fetch_public_ip ::
  "'client option \<Rightarrow> ('client \<Rightarrow> string \<Rightarrow> 'resp option) \<Rightarrow> ('resp \<Rightarrow> string option) \<Rightarrow> ip_addr option" where
  "fetch_public_ip build send text =
     (case build of
        None \<Rightarrow> None
      | Some client \<Rightarrow>
          (case send client ''https://checkip.amazonaws.com/'' of
             None \<Rightarrow> None
           | Some resp \<Rightarrow> (case text resp of None \<Rightarrow> None | Some t \<Rightarrow> parse_ip_addr (trim t))))"

text \<open>The TLS server has its own copies of the two functions.\<close>

definition tls_fetch_public_ip ::
  "'client option \<Rightarrow> ('client \<Rightarrow> string \<Rightarrow> 'resp option) \<Rightarrow> ('resp \<Rightarrow> string option) \<Rightarrow> ip_addr option" where
  "tls_fetch_public_ip build send text =
     (case build of
        None \<Rightarrow> None
      | Some client \<Rightarrow>
          (case send client ''https://checkip.amazonaws.com/'' of
             None \<Rightarrow> None
           | Some resp \<Rightarrow> (case text resp of None \<Rightarrow> None | Some t \<Rightarrow> parse_ip_addr (trim t))))"

definition tls_resolve_localhost_geo ::
  "(ip_addr \<Rightarrow> geo_info option) option \<Rightarrow> ip_addr option \<Rightarrow> geo_info option \<Rightarrow> geo_info option \<times> geo_info option" where
  "tls_resolve_localhost_geo geo_resolver public_ip cached =
     (if cached \<noteq> None then (cached, cached)
      else case public_ip of
             Some ip \<Rightarrow>
               (let geo = (case geo_resolver of Some g \<Rightarrow> g ip | None \<Rightarrow> None)
                in (geo, if geo \<noteq> None then geo else cached))
           | None \<Rightarrow> (None, cached))"

record ('br, 'bi, 'ms) edge_state =
  ed_service :: "('br, 'bi, 'ms) proxy_service"
  ed_public_ip_geo :: "geo_info option"

definition tcp_handle_connection ::
  "('br, 'bi, 'ms) ports \<Rightarrow> conn_env \<Rightarrow> (ip_addr \<Rightarrow> geo_info option) option \<Rightarrow> ip_addr
     \<Rightarrow> ('br, 'bi, 'ms) edge_state \<Rightarrow> (string + unit) \<times> ('br, 'bi, 'ms) edge_state" where
  "tcp_handle_connection P env geo_resolver client_ip st =
     (let (client_geo, cache) =
            (if is_loopback client_ip then resolve_localhost_geo geo_resolver (ce_public_ip env) (ed_public_ip_geo st)
             else (resolve_geo (ed_service st) client_ip, ed_public_ip_geo st))
      in case resolve_backend_with_geo P (ce_now env) client_ip client_geo (ed_service st) of
           (None, s) \<Rightarrow> (Inr (), \<lparr>ed_service = s, ed_public_ip_geo = cache\<rparr>)
         | (Some backend, s) \<Rightarrow>
             if \<not> ce_connect env (backend_addr backend)
             then (Inr (), \<lparr>ed_service = clear_binding P client_ip s, ed_public_ip_geo = cache\<rparr>)
             else
               (let rtt_ms = as_millis_u64 (ce_elapsed env);
                    s = record_connection_start P (bk_id backend) s;
                    s = proxy_record_rtt P (bk_id backend) rtt_ms s;
                    result = proxy_bidirectional (ce_client_to_backend env) (ce_backend_to_client env);
                    s = record_connection_end P (bk_id backend) s
                in (case result of Inl e \<Rightarrow> Inl (bk_id backend @ '' proxy error: '' @ e) | Inr u \<Rightarrow> Inr u,
                    \<lparr>ed_service = s, ed_public_ip_geo = cache\<rparr>)))"

definition tls_handle_connection ::
  "('br, 'bi, 'ms) ports \<Rightarrow> conn_env \<Rightarrow> (ip_addr \<Rightarrow> geo_info option) option \<Rightarrow> ip_addr
     \<Rightarrow> ('br, 'bi, 'ms) edge_state \<Rightarrow> (string + unit) \<times> ('br, 'bi, 'ms) edge_state" where
  "tls_handle_connection P env geo_resolver client_ip st =
     (let (client_geo, cache) =
            (if is_loopback client_ip then tls_resolve_localhost_geo geo_resolver (ce_public_ip env) (ed_public_ip_geo st)
             else (resolve_geo (ed_service st) client_ip, ed_public_ip_geo st))
      in case resolve_backend_with_geo P (ce_now env) client_ip client_geo (ed_service st) of
           (None, s) \<Rightarrow> (Inr (), \<lparr>ed_service = s, ed_public_ip_geo = cache\<rparr>)
         | (Some backend, s) \<Rightarrow>
             (let addr = (if contains_char (bk_wg_ip backend) (CHR '':'')
                          then ''['' @ bk_wg_ip backend @ '']:'' @ show_word (bk_port backend)
                          else bk_wg_ip backend @ '':'' @ show_word (bk_port backend))
              in if \<not> ce_connect env addr
                 then (Inr (), \<lparr>ed_service = clear_binding P client_ip s, ed_public_ip_geo = cache\<rparr>)
                 else
                   (let rtt_ms = as_millis_u64 (ce_elapsed env);
                        s = record_connection_start P (bk_id backend) s;
                        s = proxy_record_rtt P (bk_id backend) rtt_ms s;
                        result = proxy_bidirectional (ce_client_to_backend env) (ce_backend_to_client env);
                        s = record_connection_end P (bk_id backend) s
                    in (case result of Inl e \<Rightarrow> Inl (''TLS '' @ bk_id backend @ '' proxy error: '' @ e) | Inr u \<Rightarrow> Inr u,
                        \<lparr>ed_service = s, ed_public_ip_geo = cache\<rparr>))))"

text \<open>The task the TLS server spawns per connection: a failed handshake ends it.\<close>

definition tls_accept ::
  "('br, 'bi, 'ms) ports \<Rightarrow> bool \<Rightarrow> conn_env \<Rightarrow> (ip_addr \<Rightarrow> geo_info option) option \<Rightarrow> ip_addr
     \<Rightarrow> ('br, 'bi, 'ms) edge_state \<Rightarrow> ('br, 'bi, 'ms) edge_state" where
  "tls_accept P handshake_ok env geo_resolver client_ip st =
     (if handshake_ok then snd (tls_handle_connection P env geo_resolver client_ip st) else st)"

section \<open>Interleaved connections\<close>

text \<open>
  Where a connection's task stands between two calls of the service: accepted, routed to a backend,
  counted, copying (its round-trip time is recorded), and closed.
\<close>

datatype session_pc = Accepted | Routed backend | Counted backend | Copying backend | Closed

record ('br, 'bi, 'ms) edge_sys =
  es_service :: "('br, 'bi, 'ms) proxy_service"
  es_sessions :: "(ip_addr \<times> session_pc) list"

inductive edge_step ::
  "('br, 'bi, 'ms) ports \<Rightarrow> ('br, 'bi, 'ms) edge_sys \<Rightarrow> ('br, 'bi, 'ms) edge_sys \<Rightarrow> bool" for P where
  accept: "edge_step P s (s\<lparr>es_sessions := es_sessions s @ [(ip, Accepted)]\<rparr>)"
| route: "n < length (es_sessions s) \<Longrightarrow> es_sessions s ! n = (ip, Accepted) \<Longrightarrow>
     resolve_backend_with_geo P now ip geo (es_service s) = (Some b, s') \<Longrightarrow>
     edge_step P s (s\<lparr>es_service := s', es_sessions := (es_sessions s)[n := (ip, Routed b)]\<rparr>)"
| no_backend: "n < length (es_sessions s) \<Longrightarrow> es_sessions s ! n = (ip, Accepted) \<Longrightarrow>
     resolve_backend_with_geo P now ip geo (es_service s) = (None, s') \<Longrightarrow>
     edge_step P s (s\<lparr>es_service := s', es_sessions := (es_sessions s)[n := (ip, Closed)]\<rparr>)"
| refused: "n < length (es_sessions s) \<Longrightarrow> es_sessions s ! n = (ip, Routed b) \<Longrightarrow>
     edge_step P s (s\<lparr>es_service := clear_binding P ip (es_service s),
                      es_sessions := (es_sessions s)[n := (ip, Closed)]\<rparr>)"
| connected: "n < length (es_sessions s) \<Longrightarrow> es_sessions s ! n = (ip, Routed b) \<Longrightarrow>
     edge_step P s (s\<lparr>es_service := record_connection_start P (bk_id b) (es_service s),
                      es_sessions := (es_sessions s)[n := (ip, Counted b)]\<rparr>)"
| measured: "n < length (es_sessions s) \<Longrightarrow> es_sessions s ! n = (ip, Counted b) \<Longrightarrow>
     edge_step P s (s\<lparr>es_service := proxy_record_rtt P (bk_id b) rtt (es_service s),
                      es_sessions := (es_sessions s)[n := (ip, Copying b)]\<rparr>)"
| finished: "n < length (es_sessions s) \<Longrightarrow> es_sessions s ! n = (ip, Copying b) \<Longrightarrow>
     edge_step P s (s\<lparr>es_service := record_connection_end P (bk_id b) (es_service s),
                      es_sessions := (es_sessions s)[n := (ip, Closed)]\<rparr>)"
| dns_query: "edge_step P s (s\<lparr>es_service := snd (resolve_backend_with_geo P now ip geo (es_service s))\<rparr>)"
| cleanup: "edge_step P s (s\<lparr>es_service := binding_cleanup_tick P now ttl (es_service s)\<rparr>)"
| reload: "edge_step P s (s\<lparr>es_service := (es_service s)\<lparr>ps_backend_repo := br\<rparr>\<rparr>)"

inductive edge_reach ::
  "('br, 'bi, 'ms) ports \<Rightarrow> ('br, 'bi, 'ms) edge_sys \<Rightarrow> ('br, 'bi, 'ms) edge_sys \<Rightarrow> bool" for P s0 where
  start: "edge_reach P s0 s0"
| step: "edge_reach P s0 s \<Longrightarrow> edge_step P s t \<Longrightarrow> edge_reach P s0 t"

fun holds_connection :: "string \<Rightarrow> ip_addr \<times> session_pc \<Rightarrow> bool" where
  "holds_connection i (ip, Counted b) = (bk_id b = i)"
| "holds_connection i (ip, Copying b) = (bk_id b = i)"
| "holds_connection i (ip, _) = False"

definition open_connections :: "('br, 'bi, 'ms) edge_sys \<Rightarrow> string \<Rightarrow> nat" where
  "open_connections s i = length (filter (holds_connection i) (es_sessions s))"

section \<open>Lemmas\<close>

lemma tls_localhost_geo_eq: "tls_resolve_localhost_geo = resolve_localhost_geo"
  by (intro ext) (simp add: tls_resolve_localhost_geo_def resolve_localhost_geo_def)

text \<open>
  The location of local clients is looked up until it is found once and is kept from then on, also
  when the public address of the host changes.
\<close>

lemma localhost_geo_sticky:
  assumes "resolve_localhost_geo geo_resolver public_ip cached = (Some g, cached')"
  shows "cached' = Some g \<and> resolve_localhost_geo geo_resolver' public_ip' cached' = (Some g, Some g)"
  using assms by (auto simp: resolve_localhost_geo_def Let_def split: if_splits option.splits)

text \<open>The service's answer, an address on a line of its own, is understood.\<close>

lemma fetch_public_ip_line:
  assumes "send c ''https://checkip.amazonaws.com/'' = Some r" and "text r = Some (s @ [CHR 10])"
    and "s \<noteq> []" "list_all printable s"
  shows "fetch_public_ip (Some c) send text = parse_ip_addr s"
  using assms by (simp add: fetch_public_ip_def trim_line)

lemma open_update:
  "n < length (es_sessions s) \<Longrightarrow> open_connections (s\<lparr>es_service := v, es_sessions := (es_sessions s)[n := y]\<rparr>) i
     + of_bool (holds_connection i (es_sessions s ! n)) = open_connections s i + of_bool (holds_connection i y)"
  by (simp add: open_connections_def filter_update_length)

lemma edge_reach_steps: "edge_reach P s0 s \<Longrightarrow> (edge_step P)\<^sup>*\<^sup>* s0 s"
  by (induction rule: edge_reach.induct) (auto intro: rtranclp.rtrancl_into_rtrancl)

lemma edge_step_length: "edge_step P s t \<Longrightarrow> length (es_sessions s) \<le> length (es_sessions t)"
  by (erule edge_step.cases) auto

lemma open_le_sessions: "open_connections s i \<le> length (es_sessions s)"
  by (simp add: open_connections_def)

context proxy_ports
begin

definition counts_exact :: "('br, 'bi, 'ms) edge_sys \<Rightarrow> bool" where
  "counts_exact s \<longleftrightarrow> (\<forall>i. unat (p_conn_count P (ps_metrics (es_service s)) i) = open_connections s i)"

lemma counts_exact_cong:
  assumes "counts_exact s" and "ps_metrics (es_service t) = ps_metrics (es_service s)"
    and "\<And>i. open_connections t i = open_connections s i"
  shows "counts_exact t"
  using assms by (simp add: counts_exact_def)

lemma counts_exact_connected:
  assumes "counts_exact s" and "length (es_sessions s) < 2 ^ 64"
    and n: "n < length (es_sessions s)" "es_sessions s ! n = (ip, Routed b)"
  shows "counts_exact (s\<lparr>es_service := record_connection_start P (bk_id b) (es_service s),
                         es_sessions := (es_sessions s)[n := (ip, Counted b)]\<rparr>)"
proof -
  let ?t = "s\<lparr>es_service := record_connection_start P (bk_id b) (es_service s),
              es_sessions := (es_sessions s)[n := (ip, Counted b)]\<rparr>"
  have o: "open_connections ?t i = open_connections s i + of_bool (bk_id b = i)" for i
    using open_update [OF n(1), where y = "(ip, Counted b)" and i = i] n(2) by simp
  have "open_connections ?t (bk_id b) \<le> length (es_sessions s)"
    using open_le_sessions [of ?t] by simp
  then have "unat (p_conn_count P (ps_metrics (es_service s)) (bk_id b)) < 2 ^ 64 - 1"
    using assms(1,2) o [of "bk_id b"] by (simp add: counts_exact_def)
  then have "unat (p_conn_count P (ps_metrics (es_service ?t)) i) = open_connections ?t i" for i
    using assms(1) unfolding o
    by (auto simp: counts_exact_def record_connection_start_def metrics.count_increment unat_Suc_word)
  then show ?thesis by (simp add: counts_exact_def)
qed

lemma counts_exact_finished:
  assumes "counts_exact s" and n: "n < length (es_sessions s)" "es_sessions s ! n = (ip, Copying b)"
  shows "counts_exact (s\<lparr>es_service := record_connection_end P (bk_id b) (es_service s),
                         es_sessions := (es_sessions s)[n := (ip, Closed)]\<rparr>)"
proof -
  let ?t = "s\<lparr>es_service := record_connection_end P (bk_id b) (es_service s),
              es_sessions := (es_sessions s)[n := (ip, Closed)]\<rparr>"
  have o: "open_connections ?t i + of_bool (bk_id b = i) = open_connections s i" for i
    using open_update [OF n(1), where y = "(ip, Closed)" and i = i] n(2) by simp
  then have "0 < open_connections s (bk_id b)" using o [of "bk_id b"] by simp
  with assms(1) have c: "0 < p_conn_count P (ps_metrics (es_service s)) (bk_id b)"
    by (metis counts_exact_def unat_gt_0 word_gt_0)
  have "unat (p_conn_count P (ps_metrics (es_service ?t)) i) = open_connections ?t i" for i
    using assms(1) c o [of i] unat_dec_word [OF c]
    by (auto simp: counts_exact_def record_connection_end_def metrics.count_decrement)
  then show ?thesis by (simp add: counts_exact_def)
qed

lemma edge_step_exact:
  assumes "edge_step P s t" and "counts_exact s" and "length (es_sessions t) < 2 ^ 64"
  shows "counts_exact t"
  using assms(1)
proof (cases rule: edge_step.cases)
  case (accept ip)
  then show ?thesis using counts_exact_cong [OF assms(2)] by (simp add: open_connections_def)
next
  case (route n ip now geo b s')
  then show ?thesis
    using counts_exact_cong [OF assms(2)] resolve_frame [OF route(4)] open_update [OF route(2), where y = "(ip, Routed b)"]
    by simp
next
  case (no_backend n ip now geo s')
  then show ?thesis
    using counts_exact_cong [OF assms(2)] resolve_frame [OF no_backend(4)] open_update [OF no_backend(2), where y = "(ip, Closed)"]
    by simp
next
  case (refused n ip b)
  then show ?thesis
    using counts_exact_cong [OF assms(2)] open_update [OF refused(2), where y = "(ip, Closed)"]
    by (simp add: clear_binding_def)
next
  case (connected n ip b)
  with assms(2,3) show ?thesis by (simp add: counts_exact_connected)
next
  case (measured n ip b rtt)
  have "open_connections t i = open_connections s i" for i
    using open_update [OF measured(2), where y = "(ip, Copying b)" and i = i] measured by simp
  with measured assms(2) show ?thesis
    by (simp add: counts_exact_def proxy_record_rtt_def metrics.count_record_rtt)
next
  case (finished n ip b)
  with assms(2) show ?thesis by (simp add: counts_exact_finished)
next
  case (dns_query now ip geo)
  obtain r s' where r: "resolve_backend_with_geo P now ip geo (es_service s) = (r, s')" by fastforce
  with dns_query show ?thesis
    using counts_exact_cong [OF assms(2)] resolve_frame [OF r] by (simp add: open_connections_def)
next
  case (cleanup now ttl)
  then show ?thesis
    using counts_exact_cong [OF assms(2)] by (simp add: open_connections_def binding_cleanup_tick_def)
next
  case (reload br)
  then show ?thesis using counts_exact_cong [OF assms(2)] by (simp add: open_connections_def)
qed

lemma handle_connection_effects:
  assumes "\<forall>i. unat (p_conn_count P (ps_metrics (ed_service st)) i) < 2 ^ 64 - 1"
    and "tcp_handle_connection P env geo ip st = (r, st')"
  shows "r = Inr ()
    \<and> (\<forall>i. p_conn_count P (ps_metrics (ed_service st')) i = p_conn_count P (ps_metrics (ed_service st)) i)
    \<and> (\<forall>k. k \<noteq> client_key_new ip \<longrightarrow>
         p_bind_get P (ps_binding_repo (ed_service st')) k = p_bind_get P (ps_binding_repo (ed_service st)) k)
    \<and> (case p_bind_get P (ps_binding_repo (ed_service st')) (client_key_new ip) of
         Some bd \<Rightarrow> \<exists>b. b \<in> set (p_get_all P (ps_backend_repo (ed_service st))) \<and> bk_healthy b
           \<and> bk_id b = bd_backend_id bd \<and> ce_connect env (backend_addr b)
           \<and> p_last_rtt P (ps_metrics (ed_service st')) (bk_id b) = Some (as_millis_u64 (ce_elapsed env))
       | None \<Rightarrow> ps_metrics (ed_service st') = ps_metrics (ed_service st))"
proof -
  obtain cg cache where g: "(if is_loopback ip then resolve_localhost_geo geo (ce_public_ip env) (ed_public_ip_geo st)
      else (resolve_geo (ed_service st) ip, ed_public_ip_geo st)) = (cg, cache)" by fastforce
  obtain rb s1 where rb: "resolve_backend_with_geo P (ce_now env) ip cg (ed_service st) = (rb, s1)" by fastforce
  note frame = resolve_frame [OF rb]
  show ?thesis
  proof (cases rb)
    case None
    with rb have "resolve_backend_with_geo P (ce_now env) ip cg (ed_service st) = (None, s1)" by simp
    from resolve_None_unbinds [OF this] frame assms(2) None g rb show ?thesis
      by (auto simp: tcp_handle_connection_def)
  next
    case (Some b)
    with rb have r: "resolve_backend_with_geo P (ce_now env) ip cg (ed_service st) = (Some b, s1)" by simp
    show ?thesis
    proof (cases "ce_connect env (backend_addr b)")
      case False
      with assms(2) g r frame show ?thesis
        by (auto simp: tcp_handle_connection_def clear_binding_def bind.get_remove)
    next
      case True
      have c: "p_conn_count P (p_conn_dec P (bk_id b) (p_record_rtt P (bk_id b) t (p_conn_inc P (bk_id b) (ps_metrics s1)))) i
          = p_conn_count P (ps_metrics s1) i" for t i
        using assms(1) frame by (intro metrics.start_end_cancel) simp
      have "r = Inr () \<and> ed_service st' = record_connection_end P (bk_id b)
          (proxy_record_rtt P (bk_id b) (as_millis_u64 (ce_elapsed env)) (record_connection_start P (bk_id b) s1))"
        using True assms(2) g r by (auto simp: tcp_handle_connection_def Let_def proxy_bidirectional_def)
      with c frame True resolve_binds [OF r] resolve_result_healthy [OF r] show ?thesis
        by (auto simp: record_connection_end_def proxy_record_rtt_def record_connection_start_def
            metrics.last_decrement metrics.last_record_rtt intro!: exI [of _ b])
    qed
  qed
qed

end

sublocale proxy_ports \<subseteq> edge: bounded_invariant "edge_step P" counts_exact "\<lambda>s. length (es_sessions s)" "2 ^ 64"
  by unfold_locales (auto dest: edge_step_length intro: edge_step_exact)

lemma edge_reach_1: "edge_step P s t \<Longrightarrow> edge_reach P s t"
  by (blast intro: edge_reach.intros)

lemma edge_reach_trans: "edge_reach P t u \<Longrightarrow> edge_reach P s t \<Longrightarrow> edge_reach P s u"
  by (induction rule: edge_reach.induct) (auto intro: edge_reach.step)

lemma single_session_steps:
  "resolve_backend_with_geo P now ip geo s = (None, s') \<Longrightarrow>
     edge_step P \<lparr>es_service = s, es_sessions = [(ip, Accepted)]\<rparr> \<lparr>es_service = s', es_sessions = [(ip, Closed)]\<rparr>"
  "resolve_backend_with_geo P now ip geo s = (Some b, s') \<Longrightarrow>
     edge_step P \<lparr>es_service = s, es_sessions = [(ip, Accepted)]\<rparr> \<lparr>es_service = s', es_sessions = [(ip, Routed b)]\<rparr>"
  "edge_step P \<lparr>es_service = s, es_sessions = [(ip, Routed b)]\<rparr>
     \<lparr>es_service = clear_binding P ip s, es_sessions = [(ip, Closed)]\<rparr>"
  "edge_step P \<lparr>es_service = s, es_sessions = [(ip, Routed b)]\<rparr>
     \<lparr>es_service = record_connection_start P (bk_id b) s, es_sessions = [(ip, Counted b)]\<rparr>"
  "edge_step P \<lparr>es_service = s, es_sessions = [(ip, Counted b)]\<rparr>
     \<lparr>es_service = proxy_record_rtt P (bk_id b) rtt s, es_sessions = [(ip, Copying b)]\<rparr>"
  "edge_step P \<lparr>es_service = s, es_sessions = [(ip, Copying b)]\<rparr>
     \<lparr>es_service = record_connection_end P (bk_id b) s, es_sessions = [(ip, Closed)]\<rparr>"
  using no_backend [of 0 "\<lparr>es_service = s, es_sessions = [(ip, Accepted)]\<rparr>"]
    route [of 0 "\<lparr>es_service = s, es_sessions = [(ip, Accepted)]\<rparr>"]
    refused [of 0 "\<lparr>es_service = s, es_sessions = [(ip, Routed b)]\<rparr>"]
    connected [of 0 "\<lparr>es_service = s, es_sessions = [(ip, Routed b)]\<rparr>"]
    measured [of 0 "\<lparr>es_service = s, es_sessions = [(ip, Counted b)]\<rparr>"]
    finished [of 0 "\<lparr>es_service = s, es_sessions = [(ip, Copying b)]\<rparr>"]
  by simp_all

section \<open>Properties\<close>

text \<open>
  C5: In every state that any interleaving of connection tasks, DNS queries, binding cleanups and backend reloads
  can reach from the start, the connection count of every backend is exactly the number of
  connections open to it, as long as fewer than \<open>2\<^sup>6\<^sup>4\<close> connections were accepted: no path through a
  connection handler leaks a count or releases one twice.
\<close>

theorem connection_counts_exact:
  fixes svc :: main_service
  assumes "edge_reach main_ports \<lparr>es_service = svc\<lparr>ps_metrics := metrics_store_new\<rparr>, es_sessions = []\<rparr> s"
    and "length (es_sessions s) < 2 ^ 64"
  shows "unat (metrics_get_connection_count (ps_metrics (es_service s)) i) = open_connections s i"
proof -
  have "main.counts_exact \<lparr>es_service = svc\<lparr>ps_metrics := metrics_store_new\<rparr>, es_sessions = []\<rparr>"
    by (simp add: main.counts_exact_def open_connections_def metrics.count_new)
  from main.edge.inv_reach [OF edge_reach_steps [OF assms(1)] this assms(2)] show ?thesis
    by (simp add: main.counts_exact_def)
qed

theorem connection_counts_exact_witness:
  "let b = example_backend ''sa-1'' SouthAmerica ''AR'';
       s = record_connection_start main_ports (bk_id b) example_bound
   in unat (metrics_get_connection_count (ps_metrics s) ''sa-1'')
        = open_connections \<lparr>es_service = s, es_sessions = [(IpV4 7, Counted b)]\<rparr> ''sa-1''"
proof -
  let ?b = "example_backend ''sa-1'' SouthAmerica ''AR''"
  have e: "example_service\<lparr>ps_metrics := metrics_store_new\<rparr> = example_service"
    by (simp add: example_service_def proxy_service_new_def)
  have "edge_step main_ports \<lparr>es_service = example_service, es_sessions = []\<rparr>
      \<lparr>es_service = example_service, es_sessions = [(IpV4 7, Accepted)]\<rparr>"
    using accept [of main_ports "\<lparr>es_service = example_service, es_sessions = []\<rparr>" "IpV4 7"] by simp
  then have "edge_reach main_ports \<lparr>es_service = example_service, es_sessions = []\<rparr>
      \<lparr>es_service = record_connection_start main_ports (bk_id ?b) example_bound, es_sessions = [(IpV4 7, Counted ?b)]\<rparr>"
    by (blast intro: edge_reach.intros single_session_steps example_resolve)
  then show ?thesis
    using connection_counts_exact [of example_service
        "\<lparr>es_service = record_connection_start main_ports (bk_id ?b) example_bound, es_sessions = [(IpV4 7, Counted ?b)]\<rparr>"
        "''sa-1''"]
    unfolding e by (simp add: open_connections_def)
qed

text \<open>
  C18: One TCP connection from start to end, whichever way it goes: the handler returns without an error, all connection counts are
  afterwards what they were before, other clients' bindings are untouched, and the client ends up
  bound only to a healthy backend that accepted the connection, with the measured time recorded for it; if no
  backend was found or it refused, the client has no binding and no metric changed.
\<close>

theorem tcp_connection_effects:
  fixes st :: "(sqlite_repo, binding_repo, metrics_store) edge_state"
  assumes "\<forall>i. unat (metrics_get_connection_count (ps_metrics (ed_service st)) i) < 2 ^ 64 - 1"
    and "tcp_handle_connection main_ports env geo ip st = (r, st')"
  shows "r = Inr ()
    \<and> (\<forall>i. metrics_get_connection_count (ps_metrics (ed_service st')) i
            = metrics_get_connection_count (ps_metrics (ed_service st)) i)
    \<and> (\<forall>k. k \<noteq> client_key_new ip \<longrightarrow>
         binding_repo_get (ps_binding_repo (ed_service st')) k = binding_repo_get (ps_binding_repo (ed_service st)) k)
    \<and> (case binding_repo_get (ps_binding_repo (ed_service st')) (client_key_new ip) of
         Some bd \<Rightarrow> \<exists>b. b \<in> set (sq_backends (ps_backend_repo (ed_service st))) \<and> bk_healthy b
           \<and> bk_id b = bd_backend_id bd \<and> ce_connect env (backend_addr b)
           \<and> metrics_get_last_rtt (ps_metrics (ed_service st')) (bk_id b) = Some (as_millis_u64 (ce_elapsed env))
       | None \<Rightarrow> ps_metrics (ed_service st') = ps_metrics (ed_service st))"
  using main.handle_connection_effects [OF _ assms(2)] assms(1) unfolding sqlite_get_all_def main_ports_simps by blast

theorem tcp_connection_effects_witness:
  "let st = \<lparr>ed_service = example_service, ed_public_ip_geo = None\<rparr>;
       env = \<lparr>ce_now = 5, ce_public_ip = None, ce_connect = (\<lambda>_. True), ce_elapsed = 12, ce_client_to_backend = Inr (Inr 1),
              ce_backend_to_client = Inr (Inl ''reset'')\<rparr>
   in fst (tcp_handle_connection main_ports env None (IpV4 7) st) = Inr ()"
proof -
  let ?st = "\<lparr>ed_service = example_service, ed_public_ip_geo = None\<rparr>"
  have "\<forall>i. unat (metrics_get_connection_count (ps_metrics (ed_service ?st)) i) < 2 ^ 64 - 1"
    by (simp add: example_service_def proxy_service_new_def metrics.count_new)
  note t = tcp_connection_effects [OF this]
  show ?thesis unfolding Let_def by (rule t [THEN conjunct1]) (rule prod.collapse [symmetric])
qed

text \<open>
  C19: The TLS server behaves like the TCP server: after a successful handshake its handler returns and changes exactly what the TCP handler
  does, and after a failed one nothing changes. One TCP connection on its own is a run of the
  interleaved step relation, from its acceptance to its close.
\<close>

theorem tls_handles_like_tcp:
  "tls_handle_connection P env geo ip st = tcp_handle_connection P env geo ip st
   \<and> tls_accept P True env geo ip st = snd (tcp_handle_connection P env geo ip st)
   \<and> tls_accept P False env geo ip st = st
   \<and> edge_reach P \<lparr>es_service = ed_service st, es_sessions = [(ip, Accepted)]\<rparr>
       \<lparr>es_service = ed_service (snd (tcp_handle_connection P env geo ip st)), es_sessions = [(ip, Closed)]\<rparr>"
proof -
  obtain cg cache where g: "(if is_loopback ip then resolve_localhost_geo geo (ce_public_ip env) (ed_public_ip_geo st)
      else (resolve_geo (ed_service st) ip, ed_public_ip_geo st)) = (cg, cache)" by fastforce
  obtain rb s1 where rb: "resolve_backend_with_geo P (ce_now env) ip cg (ed_service st) = (rb, s1)" by fastforce
  have eq: "tls_handle_connection P env geo ip st = tcp_handle_connection P env geo ip st"
    unfolding tls_handle_connection_def tls_localhost_geo_eq
    by (cases rb) (simp_all add: tcp_handle_connection_def g rb backend_addr_def proxy_bidirectional_def Let_def)
  have "edge_reach P \<lparr>es_service = ed_service st, es_sessions = [(ip, Accepted)]\<rparr>
       \<lparr>es_service = ed_service (snd (tcp_handle_connection P env geo ip st)), es_sessions = [(ip, Closed)]\<rparr>"
  proof (cases rb)
    case None
    with g rb show ?thesis
      by (auto simp: tcp_handle_connection_def intro!: edge_reach_1 single_session_steps(1))
  next
    case (Some b)
    with rb have r: "edge_reach P \<lparr>es_service = ed_service st, es_sessions = [(ip, Accepted)]\<rparr>
        \<lparr>es_service = s1, es_sessions = [(ip, Routed b)]\<rparr>"
      by (auto intro!: edge_reach_1 single_session_steps(2))
    show ?thesis
    proof (cases "ce_connect env (backend_addr b)")
      case False
      with g rb Some r show ?thesis
        by (auto simp: tcp_handle_connection_def intro!: edge_reach.step [OF r] single_session_steps(3))
    next
      case True
      with g rb Some show ?thesis
        by (auto simp: tcp_handle_connection_def Let_def intro!: edge_reach.step
            [OF edge_reach.step [OF edge_reach.step [OF r single_session_steps(4)] single_session_steps(5)]]
            single_session_steps(6))
    qed
  qed
  then show ?thesis by (simp add: eq tls_accept_def)
qed

text \<open>
  C21: The address text that both servers connect to denotes the backend's socket address: when the stored address is an IPv4 or IPv6
  address in any of their textual forms, the text printed for it parses to exactly that address with the backend's port. The brackets
  around IPv6 addresses are necessary for this. The DNS server answers with the same address if it is an IPv4 one, and with none otherwise.
\<close>

theorem backend_addr_denotes:
  assumes "parse_ip_addr (bk_wg_ip b) = Some ip"
  shows "parse_socket_addr (backend_addr b) = Some \<lparr>sa_ip = ip, sa_port = bk_port b, sa_scope_id = 0\<rparr>
    \<and> (\<forall>a. ip = IpV6 a \<longrightarrow> parse_socket_addr (bk_wg_ip b @ '':'' @ show_word (bk_port b)) = None)
    \<and> parse_ipv4 (bk_wg_ip b) = (case ip of IpV4 a \<Rightarrow> Some a | IpV6 a \<Rightarrow> None)"
proof (cases ip)
  case (IpV4 a)
  with assms have r: "read_ipv4_addr (bk_wg_ip b) = Some (a, [])" by (simp add: parse_ip_addr_v4)
  with ipv4_no_colon [OF r] show ?thesis
    by (simp add: backend_addr_def contains_char_def parse_socket_addr_v4 parse_ipv4_eq parse_with_Some IpV4)
next
  case (IpV6 a)
  with assms have r: "read_ipv4_addr (bk_wg_ip b) = None" "read_ipv6_addr (bk_wg_ip b) = Some (a, [])"
    by (simp_all add: parse_ip_addr_v6)
  have "parse_ipv4 (bk_wg_ip b) = None" using r(1) by (simp add: parse_ipv4_eq parse_with_def)
  with ipv6_colon [OF r(2)] parse_socket_addr_v6 [OF r(2), of "bk_port b"] parse_socket_addr_unbracketed [OF r] show ?thesis
    by (simp add: backend_addr_def contains_char_def IpV6)
qed

theorem backend_addr_denotes_witness:
  "parse_socket_addr (backend_addr ((example_backend ''eu-1'' Europe ''DE'')\<lparr>bk_wg_ip := ''fd00::5'', bk_port := 8080\<rparr>))
     = Some \<lparr>sa_ip = IpV6 (0xFD00 * 2 ^ 112 + 5), sa_port = 8080, sa_scope_id = 0\<rparr>"
proof -
  have "parse_ip_addr ''fd00::5'' = Some (IpV6 (0xFD00 * 2 ^ 112 + 5))" by code_simp
  then show ?thesis
    using backend_addr_denotes [of "(example_backend ''eu-1'' Europe ''DE'')\<lparr>bk_wg_ip := ''fd00::5'', bk_port := 8080\<rparr>"]
    by simp
qed

text \<open>
  Two sessions on a one-backend service, the second routed before the first is counted.
\<close>

definition race_backend :: backend where
  "race_backend = (example_backend ''sa-1'' SouthAmerica ''AR'')\<lparr>bk_soft_limit := 1, bk_hard_limit := 1\<rparr>"

definition race_service :: main_service where
  "race_service = example_service\<lparr>ps_backend_repo := \<lparr>sq_backends = [race_backend], sq_version = 1\<rparr>\<rparr>"

definition race_bound :: "ip_addr list \<Rightarrow> main_service" where
  "race_bound ips = race_service\<lparr>ps_binding_repo :=
     map (\<lambda>ip. (ClientKey ip, \<lparr>bd_backend_id = ''sa-1'', bd_created_at = 5, bd_last_seen = 5\<rparr>)) ips\<rparr>"

lemma race_resolve:
  "resolve_backend_with_geo main_ports 5 (IpV4 7) None race_service = (Some race_backend, race_bound [IpV4 7])"
  "resolve_backend_with_geo main_ports 5 (IpV4 8) None (race_bound [IpV4 7]) = (Some race_backend, race_bound [IpV4 7, IpV4 8])"
proof -
  have p: "pick_backend [race_backend] SouthAmerica None (metrics_get_connection_count metrics_store_new) = Some race_backend"
    by code_simp
  have b: "bk_healthy race_backend" "bk_id race_backend = ''sa-1''"
    by (simp_all add: race_backend_def example_backend_def)
  show "resolve_backend_with_geo main_ports 5 (IpV4 7) None race_service = (Some race_backend, race_bound [IpV4 7])"
    "resolve_backend_with_geo main_ports 5 (IpV4 8) None (race_bound [IpV4 7]) = (Some race_backend, race_bound [IpV4 7, IpV4 8])"
    using p b
    by (simp_all add: resolve_backend_with_geo_def example_service_def proxy_service_new_def race_service_def
        race_bound_def main_ports_def sqlite_get_healthy_def binding_repo_defs client_key_new_def
        binding_new_def dm_empty_def dm_get_def dm_insert_def)
qed

lemma race_steps:
  "edge_step main_ports \<lparr>es_service = race_service, es_sessions = []\<rparr>
     \<lparr>es_service = race_service, es_sessions = [(IpV4 7, Accepted)]\<rparr>"
  "edge_step main_ports \<lparr>es_service = race_service, es_sessions = [(IpV4 7, Accepted)]\<rparr>
     \<lparr>es_service = race_service, es_sessions = [(IpV4 7, Accepted), (IpV4 8, Accepted)]\<rparr>"
  "edge_step main_ports \<lparr>es_service = race_service, es_sessions = [(IpV4 7, Accepted), (IpV4 8, Accepted)]\<rparr>
     \<lparr>es_service = race_bound [IpV4 7], es_sessions = [(IpV4 7, Routed race_backend), (IpV4 8, Accepted)]\<rparr>"
  "edge_step main_ports \<lparr>es_service = race_bound [IpV4 7], es_sessions = [(IpV4 7, Routed race_backend), (IpV4 8, Accepted)]\<rparr>
     \<lparr>es_service = race_bound [IpV4 7, IpV4 8], es_sessions = [(IpV4 7, Routed race_backend), (IpV4 8, Routed race_backend)]\<rparr>"
  "edge_step main_ports \<lparr>es_service = s, es_sessions = [(IpV4 7, Routed b), (IpV4 8, Routed b)]\<rparr>
     \<lparr>es_service = record_connection_start main_ports (bk_id b) s, es_sessions = [(IpV4 7, Counted b), (IpV4 8, Routed b)]\<rparr>"
  "edge_step main_ports \<lparr>es_service = s, es_sessions = [(IpV4 7, Counted b), (IpV4 8, Routed b)]\<rparr>
     \<lparr>es_service = record_connection_start main_ports (bk_id b) s, es_sessions = [(IpV4 7, Counted b), (IpV4 8, Counted b)]\<rparr>"
  using accept [of main_ports "\<lparr>es_service = race_service, es_sessions = []\<rparr>" "IpV4 7"]
    accept [of main_ports "\<lparr>es_service = race_service, es_sessions = [(IpV4 7, Accepted)]\<rparr>" "IpV4 8"]
    route [of 0 "\<lparr>es_service = race_service, es_sessions = [(IpV4 7, Accepted), (IpV4 8, Accepted)]\<rparr>"
      "IpV4 7" main_ports 5 None race_backend "race_bound [IpV4 7]"]
    route [of 1 "\<lparr>es_service = race_bound [IpV4 7], es_sessions = [(IpV4 7, Routed race_backend), (IpV4 8, Accepted)]\<rparr>"
      "IpV4 8" main_ports 5 None race_backend "race_bound [IpV4 7, IpV4 8]"]
    connected [of 0 "\<lparr>es_service = s, es_sessions = [(IpV4 7, Routed b), (IpV4 8, Routed b)]\<rparr>"]
    connected [of 1 "\<lparr>es_service = s, es_sessions = [(IpV4 7, Counted b), (IpV4 8, Routed b)]\<rparr>"]
  by (simp_all add: race_resolve)

text \<open>
  The hard limit can be overrun by connections that arrive together: from a fresh proxy whose only backend allows one connection, two new clients can
  both be routed to it and counted, because the limit is checked when a client is routed and the
  connection is counted only after the backend accepted it.
\<close>

lemma hard_limit_race:
  "\<exists>s. edge_reach main_ports \<lparr>es_service = race_service, es_sessions = []\<rparr> s
     \<and> ps_metrics race_service = metrics_store_new \<and> ps_binding_repo race_service = binding_repo_new
     \<and> sq_backends (ps_backend_repo (es_service s)) = [race_backend]
     \<and> unat (bk_hard_limit race_backend) < unat (metrics_get_connection_count (ps_metrics (es_service s)) (bk_id race_backend))"
proof -
  let ?s = "record_connection_start main_ports (bk_id race_backend)
    (record_connection_start main_ports (bk_id race_backend) (race_bound [IpV4 7, IpV4 8]))"
  have "edge_reach main_ports \<lparr>es_service = race_service, es_sessions = []\<rparr>
      \<lparr>es_service = ?s, es_sessions = [(IpV4 7, Counted race_backend), (IpV4 8, Counted race_backend)]\<rparr>"
    by (rule edge_reach.step [OF edge_reach.step [OF edge_reach.step [OF edge_reach.step [OF edge_reach.step
          [OF edge_reach_1 [OF race_steps(1)] race_steps(2)] race_steps(3)] race_steps(4)] race_steps(5)] race_steps(6)])
  moreover have "ps_metrics race_service = metrics_store_new" "ps_binding_repo race_service = binding_repo_new"
    "sq_backends (ps_backend_repo ?s) = [race_backend]"
    by code_simp+
  moreover have "unat (bk_hard_limit race_backend) < unat (metrics_get_connection_count (ps_metrics ?s) (bk_id race_backend))"
    by code_simp
  ultimately show ?thesis
    by (intro exI [of _ "\<lparr>es_service = ?s, es_sessions = [(IpV4 7, Counted race_backend), (IpV4 8, Counted race_backend)]\<rparr>"]) simp
qed

end
