(* ===== verification/Tls_Config.thy ===== *)
theory Tls_Config
  imports Strings
begin

text \<open>
  The TLS configuration of \<^verbatim>\<open>src/adapters/inbound/tls_server.rs\<close>: a certificate chain and a key from PEM files, or a generated
  self-signed pair. Reading PEM, building the \<^verbatim>\<open>rustls\<close> server configuration and generating certificates are
  library code, the fields of the record \<open>tls_lib\<close>; \<open>'cert\<close>, \<open>'key\<close> and \<open>'acceptor\<close> are their types.
\<close>

section \<open>Model\<close>

datatype tls_error =
    CannotOpen string
  | BadCertificates string
  | BadPrivateKey string
  | NoPrivateKey string
  | RejectedPair string
  | GenerationFailed string
  | BadGeneratedKey string

record ('cert, 'key, 'acceptor) tls_lib =
  tl_open :: "string \<Rightarrow> string + u8 list"
  tl_certs :: "u8 list \<Rightarrow> (string + 'cert) list"
  tl_private_key :: "u8 list \<Rightarrow> string + 'key option"
  tl_single_cert :: "'cert list \<Rightarrow> 'key \<Rightarrow> string + 'acceptor"
  tl_self_signed :: "string list \<Rightarrow> string + u8 list \<times> u8 list"
  tl_cert_der :: "u8 list \<Rightarrow> 'cert"
  tl_key_der :: "u8 list \<Rightarrow> string + 'key"

record 'acceptor tls_config =
  tc_acceptor :: 'acceptor

definition from_certs_and_key ::
  "('cert, 'key, 'acceptor) tls_lib \<Rightarrow> 'cert list \<Rightarrow> 'key \<Rightarrow> tls_error + 'acceptor tls_config" where
  "from_certs_and_key L certs key =
     and_then (map_err RejectedPair (tl_single_cert L certs key)) (\<lambda>acceptor.
       Inr \<lparr>tc_acceptor = acceptor\<rparr>)"

definition from_pem_files ::
  "('cert, 'key, 'acceptor) tls_lib \<Rightarrow> string \<Rightarrow> string \<Rightarrow> tls_error + 'acceptor tls_config" where
  "from_pem_files L cert_path key_path =
     and_then (map_err CannotOpen (tl_open L cert_path)) (\<lambda>cert_file.
     and_then (map_err CannotOpen (tl_open L key_path)) (\<lambda>key_file.
     and_then (map_err BadCertificates (collect_results (tl_certs L cert_file))) (\<lambda>certs.
     and_then (map_err BadPrivateKey (tl_private_key L key_file)) (\<lambda>found.
       case found of
         None \<Rightarrow> Inl (NoPrivateKey (''no private key found in '' @ key_path))
       | Some key \<Rightarrow> from_certs_and_key L certs key))))"

definition self_signed ::
  "('cert, 'key, 'acceptor) tls_lib \<Rightarrow> string \<Rightarrow> tls_error + 'acceptor tls_config" where
  "self_signed L domain =
     (let subject_alt_names = [domain, ''localhost'', ''127.0.0.1''] in
      and_then (map_err GenerationFailed (tl_self_signed L subject_alt_names)) (\<lambda>(cert, key_pair).
        let cert_der = tl_cert_der L cert in
        and_then (map_err (\<lambda>e. BadGeneratedKey (''failed to serialize key: '' @ e)) (tl_key_der L key_pair)) (\<lambda>key_der.
          from_certs_and_key L [cert_der] key_der)))"

section \<open>Lemmas\<close>

text \<open>PEM files give a configuration exactly when both can be read, all certificates and a key are found, and the library accepts the pair.\<close>

lemma from_pem_files_ok:
  "from_pem_files L cert_path key_path = Inr c \<longleftrightarrow>
     (\<exists>cf kf certs key. tl_open L cert_path = Inr cf \<and> tl_open L key_path = Inr kf \<and> tl_certs L cf = map Inr certs
        \<and> tl_private_key L kf = Inr (Some key) \<and> tl_single_cert L certs key = Inr (tc_acceptor c))"
  by (cases c) (auto simp: from_pem_files_def from_certs_and_key_def and_then_Inr collect_results_Inr split_option_ex)

end
