(* ===== verification/Listeners.thy ===== *)
theory Listeners
  imports Edge_Servers Tls_Config
begin

text \<open>
  The accept loops of the two servers, \<^verbatim>\<open>TcpServer::run\<close> and \<^verbatim>\<open>TlsServer::run\<close>. A listener gives a sequence of accepted clients and
  errors; each client becomes a session of the interleaved system of connection tasks.
  The proxy service is shared with the other servers and is part of the system, not of the server records.
\<close>

section \<open>Model\<close>

record tcp_server =
  ts_listen_addr :: string
  ts_geo_resolver :: "(ip_addr \<Rightarrow> geo_info option) option"
  ts_public_ip_geo :: "geo_info option"

definition tcp_server_new :: "string \<Rightarrow> (ip_addr \<Rightarrow> geo_info option) option \<Rightarrow> tcp_server" where
  "tcp_server_new listen_addr geo_resolver =
     \<lparr>ts_listen_addr = listen_addr, ts_geo_resolver = geo_resolver, ts_public_ip_geo = None\<rparr>"

record 'acceptor tls_server =
  tv_listen_addr :: string
  tv_geo_resolver :: "(ip_addr \<Rightarrow> geo_info option) option"
  tv_public_ip_geo :: "geo_info option"
  tv_tls_config :: "'acceptor tls_config"

definition tls_server_new ::
  "string \<Rightarrow> (ip_addr \<Rightarrow> geo_info option) option \<Rightarrow> 'acceptor tls_config \<Rightarrow> 'acceptor tls_server" where
  "tls_server_new listen_addr geo_resolver config =
     \<lparr>tv_listen_addr = listen_addr, tv_geo_resolver = geo_resolver, tv_public_ip_geo = None, tv_tls_config = config\<rparr>"

text \<open>
  The loop of \<^verbatim>\<open>run\<close> over what \<^verbatim>\<open>accept\<close> returns: it ends with the first error. \<open>None\<close> as the result means that the loop still waits.
\<close>

fun tcp_accept_loop ::
  "(string + ip_addr) list \<Rightarrow> ('br, 'bi, 'ms) edge_sys \<Rightarrow> string option \<times> ('br, 'bi, 'ms) edge_sys" where
  "tcp_accept_loop [] s = (None, s)"
| "tcp_accept_loop (Inl e # as) s = (Some e, s)"
| "tcp_accept_loop (Inr ip # as) s = tcp_accept_loop as (s\<lparr>es_sessions := es_sessions s @ [(ip, Accepted)]\<rparr>)"

definition tcp_run ::
  "(string \<Rightarrow> string option) \<Rightarrow> (string + ip_addr) list \<Rightarrow> tcp_server \<Rightarrow> ('br, 'bi, 'ms) edge_sys
     \<Rightarrow> string option \<times> ('br, 'bi, 'ms) edge_sys" where
  "tcp_run bind_error accepts srv s =
     (case bind_error (ts_listen_addr srv) of Some e \<Rightarrow> (Some e, s) | None \<Rightarrow> tcp_accept_loop accepts s)"

text \<open>
  The TLS server's task does the handshake first (\<open>handshake\<close> is the acceptor's verdict on the connection); when it fails the task ends.
\<close>

fun tls_accept_loop ::
  "('conn \<Rightarrow> bool) \<Rightarrow> (string + ip_addr \<times> 'conn) list \<Rightarrow> ('br, 'bi, 'ms) edge_sys \<Rightarrow> string option \<times> ('br, 'bi, 'ms) edge_sys"
where
  "tls_accept_loop handshake [] s = (None, s)"
| "tls_accept_loop handshake (Inl e # as) s = (Some e, s)"
| "tls_accept_loop handshake (Inr (ip, c) # as) s =
     tls_accept_loop handshake as
       (if handshake c then s\<lparr>es_sessions := es_sessions s @ [(ip, Accepted)]\<rparr> else s)"

definition tls_run ::
  "(string \<Rightarrow> string option) \<Rightarrow> ('acceptor \<Rightarrow> 'conn \<Rightarrow> bool) \<Rightarrow> (string + ip_addr \<times> 'conn) list \<Rightarrow> 'acceptor tls_server
     \<Rightarrow> ('br, 'bi, 'ms) edge_sys \<Rightarrow> string option \<times> ('br, 'bi, 'ms) edge_sys" where
  "tls_run bind_error handshake accepts srv s =
     (case bind_error (tv_listen_addr srv) of
        Some e \<Rightarrow> (Some e, s)
      | None \<Rightarrow> tls_accept_loop (handshake (tc_acceptor (tv_tls_config srv))) accepts s)"

section \<open>Lemmas\<close>

text \<open>Every accepted client becomes a session, in the order of arrival, until the first error, which ends the loop for good.\<close>

definition before_error :: "('e + 'a) list \<Rightarrow> 'a list" where
  "before_error as = map projr (takeWhile (\<lambda>a. case a of Inr _ \<Rightarrow> True | Inl _ \<Rightarrow> False) as)"

definition first_error :: "('e + 'a) list \<Rightarrow> 'e option" where
  "first_error as = (case dropWhile (\<lambda>a. case a of Inr _ \<Rightarrow> True | Inl _ \<Rightarrow> False) as of Inl e # _ \<Rightarrow> Some e | _ \<Rightarrow> None)"

lemma before_error_simps [simp]:
  "before_error [] = []" "before_error (Inl e # as) = []" "before_error (Inr a # as) = a # before_error as"
  by (simp_all add: before_error_def)

lemma first_error_simps [simp]:
  "first_error [] = None" "first_error (Inl e # as) = Some e" "first_error (Inr a # as) = first_error as"
  by (simp_all add: first_error_def)

lemma tcp_accept_loop_spec:
  "tcp_accept_loop as s = (first_error as, s\<lparr>es_sessions := es_sessions s @ map (\<lambda>ip. (ip, Accepted)) (before_error as)\<rparr>)"
  by (induction as s rule: tcp_accept_loop.induct) simp_all

lemma tls_accept_loop_spec:
  "tls_accept_loop h as s =
     (first_error as, s\<lparr>es_sessions := es_sessions s @ map (\<lambda>(ip, c). (ip, Accepted)) (filter (\<lambda>(ip, c). h c) (before_error as))\<rparr>)"
  by (induction h as s rule: tls_accept_loop.induct) simp_all

lemma accepted_reach:
  "edge_reach P s (s\<lparr>es_sessions := es_sessions s @ map (\<lambda>ip. (ip, Accepted)) ips\<rparr>)"
proof (induction ips rule: rev_induct)
  case (snoc ip ips)
  from edge_reach.step [OF snoc edge_step.accept [of P _ ip]] show ?case by simp
qed (simp add: edge_reach.start)

text \<open>What the accept loops do is a run of the interleaved system, so its invariants hold of the servers.\<close>

lemma tcp_run_reach: "edge_reach P s (snd (tcp_run bind_error accepts srv s))"
  using accepted_reach [of P s "before_error accepts"] edge_reach.start [of P s]
  by (simp add: tcp_run_def tcp_accept_loop_spec split: option.split)

text \<open>
  A single error of \<^verbatim>\<open>accept\<close> (out of file descriptors, a connection aborted by the peer) ends the server: no client
  that arrives after it is served, although the listener could go on.
\<close>

lemma accept_error_ends_server:
  assumes "bind_error (ts_listen_addr srv) = None" and "first_error accepts = None"
  shows "tcp_run bind_error (accepts @ Inl e # later) srv s =
    (Some e, s\<lparr>es_sessions := es_sessions s @ map (\<lambda>ip. (ip, Accepted)) (before_error accepts)\<rparr>)"
proof -
  have "first_error (accepts @ Inl e # later) = Some e \<and> before_error (accepts @ Inl e # later) = before_error accepts"
    using assms(2)
  proof (induction accepts)
    case (Cons a as)
    then show ?case by (cases a) auto
  qed simp
  then show ?thesis using assms(1) by (simp add: tcp_run_def tcp_accept_loop_spec)
qed

end
