(* ===== verification/Replication_Types.thy ===== *)
theory Replication_Types
  imports Prelude "HOL-Library.Word"
begin

unbundle bit_operations_syntax

text \<open>
  The types of the replication system, \<^verbatim>\<open>src/replication/types.rs\<close>: hybrid logical clock timestamps with
  their derived lexicographic order, changes, changesets and peer messages. The CRC of \<^verbatim>\<open>crc32fast\<close> and
  the encoding of \<^verbatim>\<open>bincode\<close> are arguments; a reading of the wall clock is an argument.
\<close>

section \<open>Model\<close>

type_synonym node_id = string
type_synonym bytes = "u8 list"
type_synonym crc32 = "bytes \<Rightarrow> u32"

definition node_id_new :: "string \<Rightarrow> node_id" where
  "node_id_new i = i"

definition node_id_as_str :: "node_id \<Rightarrow> string" where
  "node_id_as_str n = n"

definition node_id_display :: "node_id \<Rightarrow> string" where
  "node_id_display n = n"

definition as_bytes :: "string \<Rightarrow> bytes" where
  "as_bytes s = map of_char s"

datatype hlc_timestamp = HLC (wall_time: u64) (counter: u32) (node_hash: u32)

text \<open>The derived order compares the fields in their order of declaration.\<close>

instantiation hlc_timestamp :: linorder
begin

definition less_hlc_timestamp :: "hlc_timestamp \<Rightarrow> hlc_timestamp \<Rightarrow> bool" where
  "less_hlc_timestamp a b \<longleftrightarrow>
     wall_time a < wall_time b
     \<or> wall_time a = wall_time b \<and> (counter a < counter b
        \<or> counter a = counter b \<and> node_hash a < node_hash b)"

definition less_eq_hlc_timestamp :: "hlc_timestamp \<Rightarrow> hlc_timestamp \<Rightarrow> bool" where
  "less_eq_hlc_timestamp a b \<longleftrightarrow> a < b \<or> a = (b :: hlc_timestamp)"

instance
proof
  fix x y z :: hlc_timestamp
  show "(x < y) = (x \<le> y \<and> \<not> y \<le> x)" and "x \<le> x" and "x \<le> y \<or> y \<le> x"
    by (cases x; cases y; auto simp: less_eq_hlc_timestamp_def less_hlc_timestamp_def)+
  show "x \<le> y \<Longrightarrow> y \<le> z \<Longrightarrow> x \<le> z"
    by (cases x; cases y; cases z) (auto simp: less_eq_hlc_timestamp_def less_hlc_timestamp_def)
  show "x \<le> y \<Longrightarrow> y \<le> x \<Longrightarrow> x = y"
    by (cases x; cases y) (auto simp: less_eq_hlc_timestamp_def less_hlc_timestamp_def)
qed

end

definition hlc_now :: "crc32 \<Rightarrow> u64 \<Rightarrow> node_id \<Rightarrow> hlc_timestamp" where
  "hlc_now crc now_us node = HLC now_us 0 (crc (as_bytes node))"

definition hlc_tick :: "crc32 \<Rightarrow> u64 \<Rightarrow> hlc_timestamp \<Rightarrow> hlc_timestamp option \<Rightarrow> node_id \<Rightarrow> hlc_timestamp" where
  "hlc_tick crc now self other node =
     (let h = crc (as_bytes node) in
      case other of
        Some ot \<Rightarrow>
          let max_wall = word_max (word_max now (wall_time self)) (wall_time ot);
              c = (if max_wall = wall_time self \<and> max_wall = wall_time ot
                   then word_max (counter self) (counter ot) + 1
                   else if max_wall = wall_time self then counter self + 1
                   else if max_wall = wall_time ot then counter ot + 1
                   else 0)
          in HLC max_wall c h
      | None \<Rightarrow>
          let max_wall = word_max now (wall_time self);
              c = (if max_wall = wall_time self then counter self + 1 else 0)
          in HLC max_wall c h)"

definition hlc_default :: hlc_timestamp where
  "hlc_default = HLC 0 0 0"

datatype change_kind = Insert | Update | Delete

record change =
  ch_id :: u64
  ch_table :: string
  ch_pk :: string
  ch_kind :: change_kind
  ch_data :: string
  ch_timestamp :: hlc_timestamp
  ch_origin :: node_id

text \<open>\<^verbatim>\<open>rand_u32\<close> and \<^verbatim>\<open>rand_id\<close> on their readings of the clock in nanoseconds.\<close>

definition rand_u32 :: "nat \<Rightarrow> u32" where
  "rand_u32 now_ns = of_nat now_ns * 1664525 + 1013904223"

definition rand_id :: "nat \<Rightarrow> nat \<Rightarrow> u64" where
  "rand_id now_ns now_ns' = of_nat now_ns XOR ucast (rand_u32 now_ns')"

definition change_new ::
  "crc32 \<Rightarrow> u64 \<Rightarrow> u64 \<Rightarrow> string \<Rightarrow> string \<Rightarrow> change_kind \<Rightarrow> string \<Rightarrow> node_id \<Rightarrow> change" where
  "change_new crc rid now_us table pk kind data node =
     \<lparr>ch_id = rid, ch_table = table, ch_pk = pk, ch_kind = kind, ch_data = data,
      ch_timestamp = hlc_now crc now_us node, ch_origin = node\<rparr>"

definition wins_over :: "change \<Rightarrow> change \<Rightarrow> bool" where
  "wins_over a b \<longleftrightarrow> ch_timestamp b < ch_timestamp a"

record changeset =
  cs_source :: node_id
  cs_seq :: u64
  cs_changes :: "change list"
  cs_checksum :: u32

type_synonym serializer = "change list \<Rightarrow> bytes option"

definition compute_checksum :: "crc32 \<Rightarrow> serializer \<Rightarrow> change list \<Rightarrow> u32" where
  "compute_checksum crc ser cs = crc (case ser cs of Some b \<Rightarrow> b | None \<Rightarrow> [])"

definition changeset_new :: "crc32 \<Rightarrow> serializer \<Rightarrow> node_id \<Rightarrow> u64 \<Rightarrow> change list \<Rightarrow> changeset" where
  "changeset_new crc ser src seq cs =
     \<lparr>cs_source = src, cs_seq = seq, cs_changes = cs, cs_checksum = compute_checksum crc ser cs\<rparr>"

definition changeset_verify :: "crc32 \<Rightarrow> serializer \<Rightarrow> changeset \<Rightarrow> bool" where
  "changeset_verify crc ser s \<longleftrightarrow> cs_checksum s = compute_checksum crc ser (cs_changes s)"

datatype message =
    Broadcast changeset
  | SyncRequest u64 "string option"
  | SyncResponse "changeset list"
  | Ack node_id u64
  | Ping
  | Pong

section \<open>Lemmas\<close>

lemma hlc_less_iff [simp]:
  "HLC w c h < HLC w' c' h' \<longleftrightarrow> w < w' \<or> w = w' \<and> (c < c' \<or> c = c' \<and> h < h')"
  by (simp add: less_hlc_timestamp_def)

lemma word_max_ge: "a \<le> word_max a b" "b \<le> word_max a b"
  by (auto simp: word_max_def)

lemma less_Suc_word: "a < (- 1 :: 'a::len word) \<Longrightarrow> a < a + 1"
proof -
  assume "a < - 1"
  then have "unat a < 2 ^ LENGTH('a) - 1"
    by (simp add: word_less_nat_alt unsigned_minus_1_eq_mask mask_eq_exp_minus_1)
  then show ?thesis by (simp add: word_less_nat_alt unat_Suc_word)
qed

lemma wall_less_max: "wall_time a \<le> w \<Longrightarrow> w \<noteq> wall_time a \<Longrightarrow> a < HLC w c h"
  by (cases a) auto

lemma wall_same_max: "w = wall_time a \<Longrightarrow> counter a < c \<Longrightarrow> a < HLC w c h"
  by (cases a) auto

lemma changeset_new_verify [simp]: "changeset_verify crc ser (changeset_new crc ser src seq cs)"
  by (simp add: changeset_verify_def changeset_new_def)

section \<open>Properties\<close>

text \<open>
  A tick of the hybrid logical clock is greater than the local timestamp and than the received one,
  whatever the wall clock reads, as long as neither counter has reached its maximum; and it never
  falls behind the wall clock.
\<close>

lemma hlc_tick_increases:
  assumes "counter self < - 1" "\<forall>o' \<in> set_option other. counter o' < - 1"
  shows "self < hlc_tick crc now self other node
    \<and> (\<forall>o' \<in> set_option other. o' < hlc_tick crc now self other node)
    \<and> now \<le> wall_time (hlc_tick crc now self other node)"
proof (cases other)
  case None
  have "self < hlc_tick crc now self None node"
    using less_Suc_word [OF assms(1)] word_max_ge [where b = "wall_time self"]
    by (auto simp: hlc_tick_def Let_def intro: wall_less_max wall_same_max)
  with None show ?thesis
    by (simp add: hlc_tick_def Let_def word_max_ge)
next
  case (Some ot)
  let ?m = "word_max (word_max now (wall_time self)) (wall_time ot)"
  have ge: "wall_time self \<le> ?m" "wall_time ot \<le> ?m" "now \<le> ?m"
    using word_max_ge order_trans by blast+
  have "word_max (counter self) (counter ot) < - 1"
    using assms Some by (simp add: word_max_def)
  then have c: "counter self < word_max (counter self) (counter ot) + 1"
    "counter ot < word_max (counter self) (counter ot) + 1"
    using less_Suc_word word_max_ge le_less_trans by blast+
  have "self < hlc_tick crc now self other node" "ot < hlc_tick crc now self other node"
    using Some c ge less_Suc_word [OF assms(1)] less_Suc_word [of "counter ot"] assms(2)
    by (auto simp: hlc_tick_def Let_def intro: wall_less_max wall_same_max)
  with Some ge show ?thesis by (simp add: hlc_tick_def Let_def)
qed

lemma hlc_tick_increases_witness:
  "HLC 100 5 1 < hlc_tick (\<lambda>_. 7) 90 (HLC 100 5 1) (Some (HLC 100 9 3)) ''n''"
  using hlc_tick_increases [of "HLC 100 5 1" "Some (HLC 100 9 3)"] by simp

text \<open>
  At the maximal counter the increment wraps (or panics in a build with overflow checks), and the new
  timestamp is below the old one.
\<close>

lemma hlc_tick_counter_overflow:
  assumes "now \<le> w"
  shows "hlc_tick crc now (HLC w (- 1) h) None node < HLC w (- 1) h"
  using assms by (auto simp: hlc_tick_def Let_def word_max_def word_gt_0)

end
