(* ===== verification/Replication_Config.thy ===== *)
theory Replication_Config
  imports Net_Addr
begin

text \<open>
  The configuration of the replication agent, \<^verbatim>\<open>src/replication/config.rs\<close>, with its builder methods and its
  validation.
\<close>

section \<open>Configuration\<close>

record replication_config =
  rc_node_id :: string
  rc_gossip_addr :: socket_addr
  rc_transport_addr :: socket_addr
  rc_bootstrap_peers :: "string list"
  rc_db_path :: string
  rc_cluster_name :: string
  rc_gossip_interval :: duration
  rc_sync_interval :: duration
  rc_max_pending_changes :: usize
  rc_broadcast_rate_limit :: u64
  rc_tls_enabled :: bool

definition replication_config_default :: replication_config where
  "replication_config_default =
     \<lparr>rc_node_id = '''', rc_gossip_addr = socket_v4 0 4001,
      rc_transport_addr = socket_v4 0 4002, rc_bootstrap_peers = [],
      rc_db_path = ''state.db'', rc_cluster_name = ''edgeproxy'', rc_gossip_interval = from_millis 500,
      rc_sync_interval = from_millis 100, rc_max_pending_changes = 1000,
      rc_broadcast_rate_limit = 10 * 1024 * 1024, rc_tls_enabled = True\<rparr>"

definition replication_config_new :: "string \<Rightarrow> replication_config" where
  "replication_config_new n = replication_config_default\<lparr>rc_node_id := n\<rparr>"

definition with_gossip_addr :: "socket_addr \<Rightarrow> replication_config \<Rightarrow> replication_config" where
  "with_gossip_addr a c = c\<lparr>rc_gossip_addr := a\<rparr>"

definition with_transport_addr :: "socket_addr \<Rightarrow> replication_config \<Rightarrow> replication_config" where
  "with_transport_addr a c = c\<lparr>rc_transport_addr := a\<rparr>"

definition with_bootstrap_peers :: "string list \<Rightarrow> replication_config \<Rightarrow> replication_config" where
  "with_bootstrap_peers ps c = c\<lparr>rc_bootstrap_peers := ps\<rparr>"

definition with_db_path :: "string \<Rightarrow> replication_config \<Rightarrow> replication_config" where
  "with_db_path p c = c\<lparr>rc_db_path := p\<rparr>"

definition with_cluster_name :: "string \<Rightarrow> replication_config \<Rightarrow> replication_config" where
  "with_cluster_name n c = c\<lparr>rc_cluster_name := n\<rparr>"

datatype config_error = MissingNodeId | MissingClusterName

definition rc_validate :: "replication_config \<Rightarrow> config_error + unit" where
  "rc_validate c =
     (if rc_node_id c = [] then Inl MissingNodeId
      else if rc_cluster_name c = [] then Inl MissingClusterName
      else Inr ())"

section \<open>Lemmas\<close>

lemma rc_validate_ok [simp]: "rc_validate c = Inr () \<longleftrightarrow> rc_node_id c \<noteq> [] \<and> rc_cluster_name c \<noteq> []"
  by (simp add: rc_validate_def)

end
