(* ===== verification/Gossip.thy ===== *)
theory Gossip
  imports Replication_Types Replication_Config
begin

text \<open>
  Cluster membership, \<^verbatim>\<open>src/replication/gossip.rs\<close>. The message processing of the sources is already free of
  input and output: it updates the member table and returns actions, and it is modelled as such. The
  service executes the actions: datagrams sent and events emitted are lists. (The channel of the events holds 1024, and the loop waits at a send into it while
  it is full and unread; a sequence of inputs is one that the loop gets to.) The datagram codec, the
  clock and the random index are arguments.
\<close>

section \<open>Model\<close>

datatype member_state = Alive | Suspect | Dead

record member =
  mb_node_id :: node_id
  mb_gossip_addr :: socket_addr
  mb_transport_addr :: socket_addr
  mb_state :: member_state
  mb_last_seen :: instant
  mb_incarnation :: u64

text \<open>The hand-written equality, which ignores the time of the last contact.\<close>

definition member_eq :: "member \<Rightarrow> member \<Rightarrow> bool" where
  "member_eq a b \<longleftrightarrow>
     mb_node_id a = mb_node_id b \<and> mb_gossip_addr a = mb_gossip_addr b
     \<and> mb_transport_addr a = mb_transport_addr b \<and> mb_state a = mb_state b
     \<and> mb_incarnation a = mb_incarnation b"

datatype gossip_message =
    GPing node_id socket_addr socket_addr u64
  | GAck node_id socket_addr socket_addr u64
  | GJoin node_id socket_addr socket_addr
  | GMemberList "(node_id \<times> socket_addr \<times> socket_addr \<times> u64) list"

datatype gossip_event =
    MemberJoined member
  | MemberLeft node_id
  | MemberStateChanged node_id member_state member_state

datatype gossip_action = Send socket_addr gossip_message | Emit gossip_event | NoAction

record process_result =
  prs_actions :: "gossip_action list"
  prs_member_discovered :: bool

definition process_result_empty :: process_result where
  "process_result_empty = \<lparr>prs_actions = [], prs_member_discovered = False\<rparr>"

definition process_result_send :: "socket_addr \<Rightarrow> gossip_message \<Rightarrow> process_result" where
  "process_result_send dest m = \<lparr>prs_actions = [Send dest m], prs_member_discovered = False\<rparr>"

definition with_action :: "gossip_action \<Rightarrow> process_result \<Rightarrow> process_result" where
  "with_action a r = r\<lparr>prs_actions := prs_actions r @ [a]\<rparr>"

definition with_member_discovered :: "process_result \<Rightarrow> process_result" where
  "with_member_discovered r = r\<lparr>prs_member_discovered := True\<rparr>"

type_synonym members = "(node_id, member) store"

definition alive_member :: "instant \<Rightarrow> node_id \<Rightarrow> socket_addr \<Rightarrow> socket_addr \<Rightarrow> u64 \<Rightarrow> member" where
  "alive_member now n g t inc =
     \<lparr>mb_node_id = n, mb_gossip_addr = g, mb_transport_addr = t, mb_state = Alive, mb_last_seen = now,
      mb_incarnation = inc\<rparr>"

definition upsert_member :: "member \<Rightarrow> members \<Rightarrow> bool \<times> members" where
  "upsert_member m ms = (\<not> dm_contains ms (mb_node_id m), dm_insert (mb_node_id m) m ms)"

fun process_list ::
  "instant \<Rightarrow> node_id \<Rightarrow> (node_id \<times> socket_addr \<times> socket_addr \<times> u64) list \<Rightarrow> process_result \<Rightarrow> members
     \<Rightarrow> process_result \<times> members" where
  "process_list now self [] r ms = (r, ms)"
| "process_list now self ((n, g, t, inc) # es) r ms =
     (if n = self then process_list now self es r ms
      else
        let m = alive_member now n g t inc; (is_new, ms) = upsert_member m ms;
            r = (if is_new then with_action (Emit (MemberJoined m)) (with_member_discovered r) else r)
        in process_list now self es r ms)"

fun process_message ::
  "instant \<Rightarrow> gossip_message \<Rightarrow> socket_addr \<Rightarrow> node_id \<Rightarrow> socket_addr \<Rightarrow> socket_addr \<Rightarrow> u64 \<Rightarrow> members
     \<Rightarrow> process_result \<times> members" where
  "process_message now (GPing n g t inc) src self sg st sinc ms =
     (let m = alive_member now n g t inc; (is_new, ms) = upsert_member m ms;
          r = process_result_send src (GAck self sg st sinc)
      in (if is_new then with_action (Emit (MemberJoined m)) (with_member_discovered r) else r, ms))"
| "process_message now (GAck n g t inc) src self sg st sinc ms =
     (let m = alive_member now n g t inc; (is_new, ms) = upsert_member m ms
      in (if is_new then with_action (Emit (MemberJoined m)) (with_member_discovered process_result_empty)
          else process_result_empty, ms))"
| "process_message now (GJoin n g t) src self sg st sinc ms =
     (let m = alive_member now n g t 0; (is_new, ms) = upsert_member m ms;
          member_list = map (\<lambda>m. (mb_node_id m, mb_gossip_addr m, mb_transport_addr m, mb_incarnation m)) (dm_values ms);
          r = process_result_send src (GMemberList member_list)
      in (if is_new then with_action (Emit (MemberJoined m)) (with_member_discovered r) else r, ms))"
| "process_message now (GMemberList es) src self sg st sinc ms = process_list now self es process_result_empty ms"

definition overdue :: "instant \<Rightarrow> duration \<Rightarrow> member \<Rightarrow> bool" where
  "overdue now timeout m \<longleftrightarrow> mb_state m = Alive \<and> timeout < duration_since now (mb_last_seen m)"

fun mark_dead :: "instant \<Rightarrow> duration \<Rightarrow> members \<Rightarrow> (node_id \<times> member_state) list \<times> members" where
  "mark_dead now timeout [] = ([], [])"
| "mark_dead now timeout ((k, m) # ms) =
     (let (dead, ms') = mark_dead now timeout ms in
      if overdue now timeout m then ((k, mb_state m) # dead, (k, m\<lparr>mb_state := Dead\<rparr>) # ms')
      else (dead, (k, m) # ms'))"

definition check_member_failures :: "instant \<Rightarrow> duration \<Rightarrow> members \<Rightarrow> gossip_action list \<times> members" where
  "check_member_failures now timeout ms =
     (let (dead, ms) = mark_dead now timeout ms
      in (concat (map (\<lambda>(k, old). [Emit (MemberStateChanged k old Dead), Emit (MemberLeft k)]) dead), ms))"

definition ping_candidates :: "members \<Rightarrow> socket_addr list" where
  "ping_candidates ms = map mb_gossip_addr (filter (\<lambda>m. mb_state m = Alive) (dm_values ms))"

definition select_ping_target :: "usize \<Rightarrow> members \<Rightarrow> socket_addr option" where
  "select_ping_target rnd ms =
     (let addrs = ping_candidates ms
      in if addrs = [] then None else Some (addrs ! (unat rnd mod length addrs)))"

definition create_ping :: "node_id \<Rightarrow> socket_addr \<Rightarrow> socket_addr \<Rightarrow> u64 \<Rightarrow> gossip_message" where
  "create_ping n g t inc = GPing n g t inc"

definition create_join :: "node_id \<Rightarrow> socket_addr \<Rightarrow> socket_addr \<Rightarrow> gossip_message" where
  "create_join n g t = GJoin n g t"

section \<open>The service\<close>

record gossip_service =
  gs_config :: replication_config
  gs_members :: members
  gs_events :: "gossip_event list"
  gs_sent :: "(socket_addr \<times> bytes) list"
  gs_shutdown :: bool

definition gossip_service_new :: "replication_config \<Rightarrow> gossip_service" where
  "gossip_service_new cfg =
     \<lparr>gs_config = cfg, gs_members = dm_empty, gs_events = [], gs_sent = [], gs_shutdown = False\<rparr>"

definition gossip_members :: "gossip_service \<Rightarrow> member list" where
  "gossip_members g = dm_values (gs_members g)"

definition alive_members :: "gossip_service \<Rightarrow> member list" where
  "alive_members g = filter (\<lambda>m. mb_state m = Alive) (dm_values (gs_members g))"

definition get_member :: "gossip_service \<Rightarrow> node_id \<Rightarrow> member option" where
  "get_member g n = dm_get (gs_members g) n"

definition gossip_shutdown :: "gossip_service \<Rightarrow> gossip_service" where
  "gossip_shutdown g = g\<lparr>gs_shutdown := True\<rparr>"

type_synonym gossip_codec = "gossip_message \<Rightarrow> bytes option"

definition send_to :: "gossip_codec \<Rightarrow> socket_addr \<Rightarrow> gossip_message \<Rightarrow> gossip_service \<Rightarrow> gossip_service" where
  "send_to ser dest m g =
     (case ser m of Some data \<Rightarrow> g\<lparr>gs_sent := gs_sent g @ [(dest, data)]\<rparr> | None \<Rightarrow> g)"

fun execute_action :: "gossip_codec \<Rightarrow> gossip_action \<Rightarrow> gossip_service \<Rightarrow> gossip_service" where
  "execute_action ser (Send dest m) g = send_to ser dest m g"
| "execute_action ser (Emit e) g = g\<lparr>gs_events := gs_events g @ [e]\<rparr>"
| "execute_action ser NoAction g = g"

definition execute_actions :: "gossip_codec \<Rightarrow> gossip_action list \<Rightarrow> gossip_service \<Rightarrow> gossip_service" where
  "execute_actions ser as g = fold (execute_action ser) as g"

definition handle_message ::
  "gossip_codec \<Rightarrow> instant \<Rightarrow> gossip_message \<Rightarrow> socket_addr \<Rightarrow> gossip_service \<Rightarrow> gossip_service" where
  "handle_message ser now m src g =
     (let cfg = gs_config g;
          (r, ms) = process_message now m src (rc_node_id cfg) (rc_gossip_addr cfg) (rc_transport_addr cfg) 0 (gs_members g)
      in execute_actions ser (prs_actions r) (g\<lparr>gs_members := ms\<rparr>))"

text \<open>The join messages to the bootstrap peers and the three arms of the loop of \<^verbatim>\<open>start\<close>.\<close>

fun send_joins :: "gossip_codec \<Rightarrow> string list \<Rightarrow> gossip_service \<Rightarrow> gossip_service" where
  "send_joins ser [] g = g"
| "send_joins ser (p # ps) g =
     send_joins ser ps
       (case parse_socket_addr p of
          Some addr \<Rightarrow>
            send_to ser addr (GJoin (rc_node_id (gs_config g)) (rc_gossip_addr (gs_config g)) (rc_transport_addr (gs_config g))) g
        | None \<Rightarrow> g)"

definition gossip_is_shutdown :: "gossip_service \<Rightarrow> bool" where
  "gossip_is_shutdown g = gs_shutdown g"

text \<open>\<^verbatim>\<open>start\<close> up to the loop: the socket is bound, then the join messages go out.\<close>

definition gossip_start ::
  "gossip_codec \<Rightarrow> (socket_addr \<Rightarrow> string option) \<Rightarrow> gossip_service \<Rightarrow> (string + unit) \<times> gossip_service" where
  "gossip_start ser bind_error g =
     (case bind_error (rc_gossip_addr (gs_config g)) of
        Some e \<Rightarrow> (Inl e, g)
      | None \<Rightarrow> (Inr (), send_joins ser (rc_bootstrap_peers (gs_config g)) g))"

definition gossip_receive ::
  "gossip_codec \<Rightarrow> (bytes \<Rightarrow> gossip_message option) \<Rightarrow> instant \<Rightarrow> bytes \<Rightarrow> socket_addr \<Rightarrow> gossip_service \<Rightarrow> gossip_service"
where
  "gossip_receive ser de now data src g =
     (case de data of Some m \<Rightarrow> handle_message ser now m src g | None \<Rightarrow> g)"

definition gossip_ping_tick :: "gossip_codec \<Rightarrow> usize \<Rightarrow> gossip_service \<Rightarrow> gossip_service" where
  "gossip_ping_tick ser rnd g =
     (let addrs = ping_candidates (gs_members g) in
      if addrs = [] then g
      else send_to ser (addrs ! (unat rnd mod length addrs))
             (GPing (rc_node_id (gs_config g)) (rc_gossip_addr (gs_config g)) (rc_transport_addr (gs_config g)) 0) g)"

definition gossip_failure_tick :: "instant \<Rightarrow> gossip_service \<Rightarrow> gossip_service" where
  "gossip_failure_tick now g =
     (let (dead, ms) = mark_dead now (from_secs 30) (gs_members g)
      in g\<lparr>gs_members := ms,
           gs_events := gs_events g @ concat (map (\<lambda>(k, old). [MemberStateChanged k old Dead, MemberLeft k]) dead)\<rparr>)"

datatype gossip_input = Datagram bytes socket_addr | PingTick usize | FailureTick

fun gossip_step ::
  "gossip_codec \<Rightarrow> (bytes \<Rightarrow> gossip_message option) \<Rightarrow> instant \<Rightarrow> gossip_input \<Rightarrow> gossip_service \<Rightarrow> gossip_service" where
  "gossip_step ser de now (Datagram data src) g = gossip_receive ser de now data src g"
| "gossip_step ser de now (PingTick rnd) g = gossip_ping_tick ser rnd g"
| "gossip_step ser de now FailureTick g = gossip_failure_tick now g"

text \<open>The loop: it ends once shutdown is requested, otherwise it takes the next input.\<close>

fun gossip_loop ::
  "gossip_codec \<Rightarrow> (bytes \<Rightarrow> gossip_message option) \<Rightarrow> (instant \<times> gossip_input) list \<Rightarrow> gossip_service \<Rightarrow> gossip_service" where
  "gossip_loop ser de [] g = g"
| "gossip_loop ser de ((now, i) # is) g =
     (if gs_shutdown g then g else gossip_loop ser de is (gossip_step ser de now i g))"

section \<open>Specification\<close>

text \<open>The nodes a message vouches for, at the receiver \<open>self\<close>.\<close>

fun vouched :: "node_id \<Rightarrow> gossip_message \<Rightarrow> node_id set" where
  "vouched self (GPing n _ _ _) = {n}"
| "vouched self (GAck n _ _ _) = {n}"
| "vouched self (GJoin n _ _) = {n}"
| "vouched self (GMemberList es) = fst ` set es - {self}"

definition member_ok :: "node_id \<Rightarrow> member \<Rightarrow> bool" where
  "member_ok k m \<longleftrightarrow> mb_node_id m = k \<and> mb_state m \<noteq> Suspect"

definition members_ok :: "members \<Rightarrow> bool" where
  "members_ok ms \<longleftrightarrow> dm_wf ms \<and> (\<forall>k m. dm_get ms k = Some m \<longrightarrow> member_ok k m)"

section \<open>Lemmas\<close>

lemma alive_member_simps [simp]:
  "mb_node_id (alive_member now n g t inc) = n" "mb_state (alive_member now n g t inc) = Alive"
  "mb_last_seen (alive_member now n g t inc) = now" "mb_gossip_addr (alive_member now n g t inc) = g"
  "mb_transport_addr (alive_member now n g t inc) = t" "mb_incarnation (alive_member now n g t inc) = inc"
  by (simp_all add: alive_member_def)

lemma upsert_eq [simp]:
  "upsert_member m ms = (dm_get ms (mb_node_id m) = None, dm_insert (mb_node_id m) m ms)"
  by (simp add: upsert_member_def dm_contains_def)

lemma members_ok_insert: "members_ok ms \<Longrightarrow> member_ok k m \<Longrightarrow> members_ok (dm_insert k m ms)"
  by (auto simp: members_ok_def)

lemma process_list_members:
  "process_list now self es r ms = (r', ms') \<Longrightarrow>
     (\<forall>k. if k \<in> fst ` set es - {self}
          then \<exists>g t inc. (k, g, t, inc) \<in> set es \<and> dm_get ms' k = Some (alive_member now k g t inc)
          else dm_get ms' k = dm_get ms k)
     \<and> (members_ok ms \<longrightarrow> members_ok ms')"
proof (induction es arbitrary: r ms)
  case (Cons e es)
  obtain n g t inc where e: "e = (n, g, t, inc)" by (cases e)
  show ?case
  proof (cases "n = self")
    case True
    with Cons e show ?thesis by (fastforce split: if_splits)
  next
    case False
    let ?m = "alive_member now n g t inc"
    let ?r = "if dm_get ms n = None then with_action (Emit (MemberJoined ?m)) (with_member_discovered r) else r"
    have "process_list now self es ?r (dm_insert n ?m ms) = (r', ms')"
      using Cons.prems False e by (simp add: Let_def case_prod_unfold)
    note H = Cons.IH [OF this]
    have "members_ok ms \<Longrightarrow> members_ok (dm_insert n ?m ms)"
      by (rule members_ok_insert) (auto simp: member_ok_def)
    moreover have "if k \<in> fst ` set (e # es) - {self}
        then \<exists>g t inc. (k, g, t, inc) \<in> set (e # es) \<and> dm_get ms' k = Some (alive_member now k g t inc)
        else dm_get ms' k = dm_get ms k" for k
    proof (cases "k \<in> fst ` set es - {self}")
      case True
      then have "\<exists>g t inc. (k, g, t, inc) \<in> set es \<and> dm_get ms' k = Some (alive_member now k g t inc)"
        using H [THEN conjunct1, rule_format, of k] by (simp only: if_True)
      with True show ?thesis by auto
    next
      case F: False
      then have "dm_get ms' k = dm_get (dm_insert n ?m ms) k"
        using H [THEN conjunct1, rule_format, of k] by (simp only: if_False)
      moreover have "k \<in> fst ` set (e # es) - {self} \<longleftrightarrow> k = n" using F False e by (cases "k = n") auto
      ultimately show ?thesis using e by (cases "k = n") auto
    qed
    ultimately show ?thesis using H [THEN conjunct2] by (intro conjI allI impI) (assumption | simp only:)+
  qed
qed simp

lemma process_message_members:
  assumes "process_message now m src self sg st sinc ms = (r, ms')"
  shows "(\<forall>k. if k \<in> vouched self m
        then \<exists>x. dm_get ms' k = Some x \<and> mb_node_id x = k \<and> mb_state x = Alive \<and> mb_last_seen x = now
        else dm_get ms' k = dm_get ms k)
    \<and> (members_ok ms \<longrightarrow> members_ok ms')"
proof (cases m)
  case (GMemberList es)
  have "(if k \<in> vouched self m
        then \<exists>x. dm_get ms' k = Some x \<and> mb_node_id x = k \<and> mb_state x = Alive \<and> mb_last_seen x = now
        else dm_get ms' k = dm_get ms k) \<and> (members_ok ms \<longrightarrow> members_ok ms')" for k
    using process_list_members [of now self es process_result_empty ms r ms'] assms GMemberList
    by (auto split: if_splits dest!: spec [of _ k])
  then show ?thesis by blast
qed (use assms in \<open>auto simp: Let_def case_prod_unfold member_ok_def intro!: members_ok_insert\<close>)

lemma mark_dead_spec:
  "fst (mark_dead now to ms) = map (\<lambda>(k, m). (k, Alive)) (filter (\<lambda>(k, m). overdue now to m) ms)"
  "snd (mark_dead now to ms) = dm_map_values (\<lambda>m. if overdue now to m then m\<lparr>mb_state := Dead\<rparr> else m) ms"
  by (induction now to ms rule: mark_dead.induct)
     (auto simp: dm_map_values_def case_prod_unfold Let_def overdue_def)

lemma failure_tick_members:
  "dm_get (gs_members (gossip_failure_tick now g)) k =
     map_option (\<lambda>m. if overdue now (from_secs 30) m then m\<lparr>mb_state := Dead\<rparr> else m) (dm_get (gs_members g) k)"
  by (simp add: gossip_failure_tick_def case_prod_unfold Let_def mark_dead_spec)

lemma execute_actions_members [simp]:
  "gs_members (execute_actions ser as g) = gs_members g" "gs_config (execute_actions ser as g) = gs_config g"
  "gs_shutdown (execute_actions ser as g) = gs_shutdown g"
proof -
  have "gs_members (execute_action ser a g) = gs_members g \<and> gs_config (execute_action ser a g) = gs_config g
      \<and> gs_shutdown (execute_action ser a g) = gs_shutdown g" for a g
    by (cases a) (auto simp: send_to_def split: option.split)
  then show "gs_members (execute_actions ser as g) = gs_members g" "gs_config (execute_actions ser as g) = gs_config g"
    "gs_shutdown (execute_actions ser as g) = gs_shutdown g"
    unfolding execute_actions_def by (induction as arbitrary: g) auto
qed

lemma send_to_members [simp]:
  "gs_members (send_to ser a m g) = gs_members g" "gs_config (send_to ser a m g) = gs_config g"
  "gs_shutdown (send_to ser a m g) = gs_shutdown g" "gs_events (send_to ser a m g) = gs_events g"
  by (simp_all add: send_to_def split: option.split)

lemma ping_tick_members [simp]: "gs_members (gossip_ping_tick ser rnd g) = gs_members g"
  "gs_config (gossip_ping_tick ser rnd g) = gs_config g" "gs_shutdown (gossip_ping_tick ser rnd g) = gs_shutdown g"
  by (simp_all add: gossip_ping_tick_def Let_def)

text \<open>A node last vouched for at a time is alive then and stays so until the timeout.\<close>

definition fresh_since :: "instant \<Rightarrow> node_id \<Rightarrow> gossip_service \<Rightarrow> bool" where
  "fresh_since t k g \<longleftrightarrow> (\<exists>m. get_member g k = Some m \<and> mb_state m = Alive \<and> t \<le> mb_last_seen m)"

lemma gossip_step_fresh:
  assumes "fresh_since t k g" "now \<le> t + from_secs 30" "t \<le> now"
  shows "fresh_since t k (gossip_step ser de now i g)"
proof (cases i)
  case (Datagram data src)
  show ?thesis
  proof (cases "de data")
    case (Some msg)
    let ?c = "gs_config g"
    obtain r ms' where p: "process_message now msg src (rc_node_id ?c) (rc_gossip_addr ?c) (rc_transport_addr ?c) 0
        (gs_members g) = (r, ms')" by (meson surj_pair)
    from process_message_members [OF p] have "if k \<in> vouched (rc_node_id ?c) msg
        then \<exists>x. dm_get ms' k = Some x \<and> mb_node_id x = k \<and> mb_state x = Alive \<and> mb_last_seen x = now
        else dm_get ms' k = dm_get (gs_members g) k" by blast
    with assms p Some Datagram show ?thesis
      by (auto simp: fresh_since_def get_member_def gossip_receive_def handle_message_def Let_def split: if_splits)
  qed (use assms Datagram in \<open>simp add: gossip_receive_def\<close>)
next
  case FailureTick
  from assms(1) obtain m where m: "dm_get (gs_members g) k = Some m" "mb_state m = Alive" "t \<le> mb_last_seen m"
    by (auto simp: fresh_since_def get_member_def)
  then have "\<not> overdue now (from_secs 30) m" using assms(2) by (simp add: overdue_def duration_since_def)
  with FailureTick m show ?thesis by (simp add: fresh_since_def get_member_def failure_tick_members)
qed (use assms in \<open>simp add: fresh_since_def get_member_def\<close>)

fun clock_within :: "instant \<Rightarrow> instant \<Rightarrow> (instant \<times> gossip_input) list \<Rightarrow> bool" where
  "clock_within lo hi [] \<longleftrightarrow> True"
| "clock_within lo hi ((now, i) # is) \<longleftrightarrow> lo \<le> now \<and> now \<le> hi \<and> clock_within lo hi is"

lemma gossip_loop_fresh:
  "fresh_since t k g \<Longrightarrow> clock_within t (t + from_secs 30) is \<Longrightarrow> fresh_since t k (gossip_loop ser de is g)"
proof (induction "is" arbitrary: g)
  case (Cons x xs)
  then show ?case by (cases x) (auto intro!: Cons.IH gossip_step_fresh)
qed simp

text \<open>Inputs that do not vouch for a node.\<close>

fun silent :: "(bytes \<Rightarrow> gossip_message option) \<Rightarrow> node_id \<Rightarrow> node_id \<Rightarrow> gossip_input \<Rightarrow> bool" where
  "silent de self k (Datagram data src) \<longleftrightarrow> (case de data of Some m \<Rightarrow> k \<notin> vouched self m | None \<Rightarrow> True)"
| "silent de self k _ \<longleftrightarrow> True"

definition stale_at :: "instant \<Rightarrow> node_id \<Rightarrow> gossip_service \<Rightarrow> bool" where
  "stale_at t k g \<longleftrightarrow> (\<forall>m. get_member g k = Some m \<longrightarrow> mb_state m = Dead \<or> mb_last_seen m \<le> t)"

lemma gossip_step_config [simp]: "gs_config (gossip_step ser de now i g) = gs_config g"
  "gs_shutdown (gossip_step ser de now i g) = gs_shutdown g"
  by (cases i; simp add: gossip_receive_def handle_message_def gossip_failure_tick_def case_prod_unfold Let_def
      split: option.split)+

lemma gossip_step_silent:
  assumes "silent de (rc_node_id (gs_config g)) k i" "i \<noteq> FailureTick"
  shows "get_member (gossip_step ser de now i g) k = get_member g k"
proof (cases i)
  case (Datagram data src)
  show ?thesis
  proof (cases "de data")
    case (Some msg)
    let ?c = "gs_config g"
    obtain r ms' where p: "process_message now msg src (rc_node_id ?c) (rc_gossip_addr ?c) (rc_transport_addr ?c) 0
        (gs_members g) = (r, ms')" by (meson surj_pair)
    from process_message_members [OF p] have "if k \<in> vouched (rc_node_id ?c) msg
        then \<exists>x. dm_get ms' k = Some x \<and> mb_node_id x = k \<and> mb_state x = Alive \<and> mb_last_seen x = now
        else dm_get ms' k = dm_get (gs_members g) k" by blast
    with assms p Some Datagram show ?thesis
      by (simp add: get_member_def gossip_receive_def handle_message_def Let_def)
  qed (use Datagram in \<open>simp add: gossip_receive_def\<close>)
qed (use assms in \<open>auto simp: get_member_def\<close>)

lemma stale_step:
  assumes "stale_at t k g" "silent de (rc_node_id (gs_config g)) k i"
  shows "stale_at t k (gossip_step ser de now i g)"
proof (cases "i = FailureTick")
  case True
  with assms(1) show ?thesis
    by (auto simp: stale_at_def get_member_def failure_tick_members)
next
  case False
  with assms gossip_step_silent show ?thesis by (simp add: stale_at_def)
qed

lemma stale_loop:
  "stale_at t k g \<Longrightarrow> list_all (\<lambda>(now, i). silent de (rc_node_id (gs_config g)) k i) is \<Longrightarrow>
     stale_at t k (gossip_loop ser de is g)"
proof (induction "is" arbitrary: g)
  case (Cons x xs)
  then show ?case by (cases x) (auto intro!: Cons.IH stale_step)
qed simp

lemma gossip_loop_config [simp]: "gs_config (gossip_loop ser de is g) = gs_config g"
  "gs_shutdown (gossip_loop ser de is g) = gs_shutdown g"
  by (induction ser de "is" g rule: gossip_loop.induct) auto

section \<open>Properties\<close>

text \<open>
  C27: A node heard of is not declared dead: a node that a received message vouches for is alive, and last
  seen no earlier than then, after every later sequence of inputs (datagrams, pings and failure checks)
  read within the next thirty seconds.
\<close>

theorem heard_node_stays_alive:
  assumes "\<not> gs_shutdown g" "de data = Some msg" "k \<in> vouched (rc_node_id (gs_config g)) msg"
    and "clock_within t (t + from_secs 30) is"
  shows "fresh_since t k (gossip_loop ser de ((t, Datagram data src) # is) g)"
proof -
  let ?c = "gs_config g"
  obtain r ms' where p: "process_message t msg src (rc_node_id ?c) (rc_gossip_addr ?c) (rc_transport_addr ?c) 0
      (gs_members g) = (r, ms')" by (meson surj_pair)
  from process_message_members [OF p] assms(3) have
    "\<exists>x. dm_get ms' k = Some x \<and> mb_node_id x = k \<and> mb_state x = Alive \<and> mb_last_seen x = t" by meson
  then have "fresh_since t k (gossip_step ser de t (Datagram data src) g)"
    using assms(2) p by (auto simp: fresh_since_def get_member_def gossip_receive_def handle_message_def Let_def)
  then show ?thesis using assms(1,4) by (simp add: gossip_loop_fresh)
qed

definition example_addr :: "u16 \<Rightarrow> socket_addr" where
  "example_addr p = socket_v4 1 p"

definition example_gossip_de :: "bytes \<Rightarrow> gossip_message option" where
  "example_gossip_de b = (if b = [1] then Some (GPing ''n2'' (example_addr 1) (example_addr 2) 0) else None)"

definition example_gossip :: gossip_service where
  "example_gossip = gossip_service_new (replication_config_new ''n1'')"

theorem heard_node_stays_alive_witness:
  "fresh_since 5 ''n2'' (gossip_loop (\<lambda>_. None) example_gossip_de
     ((5, Datagram [1] (example_addr 9)) # [(30000000000, FailureTick), (30000000005, PingTick 3)]) example_gossip)"
  by (rule heard_node_stays_alive [where msg = "GPing ''n2'' (example_addr 1) (example_addr 2) 0"])
     (simp_all add: example_gossip_def gossip_service_new_def example_gossip_de_def from_secs_def)

text \<open>
  C28: A silent node is declared dead: when the last contact with a node was at or before a time and nothing
  received since vouches for it, a failure check more than thirty seconds after that time leaves it not
  alive, whatever else was received in between. (The check is run by the loop, which waits while 1024 events are unread.)
\<close>

theorem silent_node_declared_dead:
  assumes "stale_at t k g" "t + from_secs 30 < now"
    and "list_all (\<lambda>(_, i). silent de (rc_node_id (gs_config g)) k i) is"
  shows "case get_member (gossip_failure_tick now (gossip_loop ser de is g)) k of
           Some m \<Rightarrow> mb_state m \<noteq> Alive | None \<Rightarrow> True"
proof -
  have "stale_at t k (gossip_loop ser de is g)" using stale_loop [OF assms(1,3)] .
  with assms(2) show ?thesis
    by (auto simp: stale_at_def get_member_def failure_tick_members overdue_def duration_since_def
        split: option.split)
qed

theorem silent_node_declared_dead_witness:
  "case get_member (gossip_failure_tick 40000000000 (gossip_loop (\<lambda>_. None) example_gossip_de [(7, PingTick 1)]
     (gossip_step (\<lambda>_. None) example_gossip_de 5 (Datagram [1] (example_addr 9)) example_gossip))) ''n2'' of
     Some m \<Rightarrow> mb_state m \<noteq> Alive | None \<Rightarrow> True"
  by (rule silent_node_declared_dead [where t = 5])
     (auto simp: stale_at_def get_member_def from_secs_def gossip_receive_def handle_message_def Let_def
        example_gossip_de_def example_gossip_def gossip_service_new_def upsert_member_def)

text \<open>The nodes announced as joined by a list of actions.\<close>

fun joined :: "gossip_action list \<Rightarrow> node_id list" where
  "joined [] = []"
| "joined (Emit (MemberJoined m) # as) = mb_node_id m # joined as"
| "joined (_ # as) = joined as"

lemma joined_append: "joined (as @ bs) = joined as @ joined bs"
  by (induction as rule: joined.induct) auto

lemma process_list_joined:
  assumes "process_list now self es r ms = (r', ms')"
    and "distinct (joined (prs_actions r))" "set (joined (prs_actions r)) \<inter> - dom (dm_get ms) = {}"
  shows "set (joined (prs_actions r')) = set (joined (prs_actions r)) \<union> (fst ` set es - {self} - dom (dm_get ms))
    \<and> distinct (joined (prs_actions r'))"
  using assms
proof (induction es arbitrary: r ms)
  case (Cons e es)
  obtain n g t inc where e: "e = (n, g, t, inc)" by (cases e)
  show ?case
  proof (cases "n = self")
    case True
    with Cons e show ?thesis by auto
  next
    case False
    let ?m = "alive_member now n g t inc"
    define r1 where "r1 = (if dm_get ms n = None
      then with_action (Emit (MemberJoined ?m)) (with_member_discovered r) else r)"
    have p: "process_list now self es r1 (dm_insert n ?m ms) = (r', ms')"
      using Cons.prems(1) False e by (simp add: Let_def r1_def)
    have j: "joined (prs_actions r1) = joined (prs_actions r) @ (if n \<in> dom (dm_get ms) then [] else [n])"
      by (auto simp: r1_def with_action_def with_member_discovered_def joined_append)
    have d: "dom (dm_get (dm_insert n ?m ms)) = insert n (dom (dm_get ms))" by (auto simp: dom_def)
    note IH = Cons.IH [OF p, unfolded j d]
    show ?thesis
    proof (cases "n \<in> dom (dm_get ms)")
      case True
      then have "insert n (dom (dm_get ms)) = dom (dm_get ms)" by auto
      with IH True Cons.prems(2,3) e False show ?thesis by (simp add: image_Un) blast
    next
      case F: False
      with Cons.prems(3) have "n \<notin> set (joined (prs_actions r))" by auto
      with IH F Cons.prems(2,3) e False show ?thesis by (simp add: insert_Diff_if Int_insert_left) blast
    qed
  qed
qed simp

lemmas result_simps =
  Let_def with_action_def with_member_discovered_def process_result_send_def process_result_empty_def

text \<open>
  A received message updates the membership exactly: every node the message vouches for is recorded as
  alive and seen now, no other entry changes, the table keeps one entry per node under its own name, and
  the nodes announced as joined are exactly those that were not known before, each once.
\<close>

lemma process_message_spec:
  assumes "process_message now m src self sg st sinc ms = (r, ms')" "members_ok ms"
  shows "(\<forall>k. if k \<in> vouched self m
        then \<exists>x. dm_get ms' k = Some x \<and> mb_node_id x = k \<and> mb_state x = Alive \<and> mb_last_seen x = now
        else dm_get ms' k = dm_get ms k)
    \<and> members_ok ms'
    \<and> set (joined (prs_actions r)) = vouched self m - dom (dm_get ms) \<and> distinct (joined (prs_actions r))"
proof -
  have "set (joined (prs_actions r)) = vouched self m - dom (dm_get ms) \<and> distinct (joined (prs_actions r))"
  proof (cases m)
    case (GMemberList es)
    with assms(1) process_list_joined [of now self es process_result_empty ms r ms'] show ?thesis
      by (simp add: process_result_empty_def)
  next
    case (GPing n g t inc)
    with assms(1) show ?thesis by (cases "dm_get ms n") (auto simp: result_simps)
  next
    case (GAck n g t inc)
    with assms(1) show ?thesis by (cases "dm_get ms n") (auto simp: result_simps)
  next
    case (GJoin n g t)
    with assms(1) show ?thesis by (cases "dm_get ms n") (auto simp: result_simps)
  qed
  with process_message_members [OF assms(1)] assms(2) show ?thesis by blast
qed

lemma process_message_spec_example:
  "members_ok (snd (process_message 5 (GJoin ''n2'' (example_addr 1) (example_addr 2)) (example_addr 9) ''n1''
     (example_addr 3) (example_addr 4) 0 dm_empty))"
proof -
  obtain r ms' where p: "process_message 5 (GJoin ''n2'' (example_addr 1) (example_addr 2)) (example_addr 9) ''n1''
     (example_addr 3) (example_addr 4) 0 dm_empty = (r, ms')" by (meson surj_pair)
  have "members_ok dm_empty" by (simp add: members_ok_def)
  from process_message_spec [OF p this] show ?thesis unfolding p by simp
qed

text \<open>
  A member declared dead comes back without any event, since it is known: a member list, which also
  carries the dead members of its sender, is enough, and the incarnation number is not compared.
\<close>

lemma dead_member_revived_silently:
  assumes "dm_get ms n = Some m" "mb_state m = Dead" "n \<noteq> self"
  shows "\<exists>x. process_message now (GMemberList [(n, g, t, inc)]) src self sg st sinc ms
      = (process_result_empty, dm_insert n x ms) \<and> mb_state x = Alive"
  using assms by (intro exI [of _ "alive_member now n g t inc"]) (simp add: Let_def)

text \<open>A bootstrap peer given by host name, the documented form, is skipped without a message.\<close>

lemma hostname_bootstrap_skipped:
  assumes "\<not> is_digit c" "c \<noteq> CHR ''[''"
  shows "send_joins ser [c # s] g = g"
  using assms by (simp add: parse_socket_addr_start)

end
