(* ===== verification/Sync_Service.thy ===== *)
theory Sync_Service
  imports Replication_Types Backend_Repo Strings
begin

text \<open>
  Change detection, storage and application, \<^verbatim>\<open>src/replication/sync.rs\<close>. The SQLite file is a record of its four
  tables; \<open>None\<close> stands for a file whose tables do not exist, where every statement fails, and a flag for one
  that refuses writes (locked, read-only, disk full). Statements run outside a transaction, so a failure in the
  middle keeps what was written before, as in the sources. \<^verbatim>\<open>serde_json\<close> is a parser given as an
  argument; the accessors of its values are modelled. The event channel is bounded: a send into a full channel that nobody reads
  waits, and the call that made it does not return (\<open>Pending\<close>).
\<close>

section \<open>Version vectors\<close>

type_synonym version_vector = "(node_id, u64) store"

definition vv_new :: version_vector where
  "vv_new = dm_empty"

definition vv_get :: "version_vector \<Rightarrow> node_id \<Rightarrow> u64" where
  "vv_get v n = (case dm_get v n of Some s \<Rightarrow> s | None \<Rightarrow> 0)"

definition vv_update :: "node_id \<Rightarrow> u64 \<Rightarrow> version_vector \<Rightarrow> version_vector" where
  "vv_update n seq v = dm_modify n (\<lambda>current. if current < seq then seq else current) (dm_entry_or n 0 v)"

definition vv_has_seen :: "version_vector \<Rightarrow> node_id \<Rightarrow> u64 \<Rightarrow> bool" where
  "vv_has_seen v n seq \<longleftrightarrow> seq \<le> vv_get v n"

fun vv_merge_loop :: "(node_id \<times> u64) list \<Rightarrow> version_vector \<Rightarrow> version_vector" where
  "vv_merge_loop [] v = v"
| "vv_merge_loop ((n, seq) # es) v = vv_merge_loop es (vv_update n seq v)"

definition vv_merge :: "version_vector \<Rightarrow> version_vector \<Rightarrow> version_vector" where
  "vv_merge v other = vv_merge_loop other v"

section \<open>JSON values\<close>

datatype json = JNull | JBool bool | JInt int | JFloat | JStr string | JArr "json list" | JObj "(string \<times> json) list"

fun json_get :: "json \<Rightarrow> string \<Rightarrow> json option" where
  "json_get (JObj m) k = map_of m k"
| "json_get _ k = None"

fun json_as_str :: "json \<Rightarrow> string option" where
  "json_as_str (JStr s) = Some s"
| "json_as_str _ = None"

fun json_as_i64 :: "json \<Rightarrow> i64 option" where
  "json_as_i64 (JInt n) = (if - (2 ^ 63) \<le> n \<and> n < 2 ^ 63 then Some (of_int n) else None)"
| "json_as_i64 _ = None"

definition text_or :: "json \<Rightarrow> string \<Rightarrow> string \<Rightarrow> sql_value" where
  "text_or d k def = SqlText (case Option.bind (json_get d k) json_as_str of Some s \<Rightarrow> s | None \<Rightarrow> def)"

definition text_or_null :: "json \<Rightarrow> string \<Rightarrow> sql_value" where
  "text_or_null d k = (case Option.bind (json_get d k) json_as_str of Some s \<Rightarrow> SqlText s | None \<Rightarrow> SqlNull)"

definition int_or :: "json \<Rightarrow> string \<Rightarrow> i64 \<Rightarrow> sql_value" where
  "int_or d k def = SqlInteger (case Option.bind (json_get d k) json_as_i64 of Some n \<Rightarrow> n | None \<Rightarrow> def)"

section \<open>The database\<close>

record lww_row =
  lw_wall :: i64
  lw_counter :: i64
  lw_node :: i64

record log_row =
  lg_change_id :: i64
  lg_table :: string
  lg_pk :: string
  lg_kind :: string
  lg_data :: string
  lg_wall :: i64
  lg_counter :: i64
  lg_node :: i64
  lg_origin :: string
  lg_applied_at :: i64

record replica_db =
  db_log :: "log_row list"
  db_versions :: "(node_id, i64) store"
  db_lww :: "(string, lww_row) store"
  db_backends :: "(string, backend_row) store"

definition empty_db :: replica_db where
  "empty_db = \<lparr>db_log = [], db_versions = dm_empty, db_lww = dm_empty, db_backends = dm_empty\<rparr>"

text \<open>Reading an integer column as \<^verbatim>\<open>u64\<close> or \<^verbatim>\<open>u32\<close> fails out of range.\<close>

definition read_u64 :: "i64 \<Rightarrow> u64 option" where
  "read_u64 n = (if 0 \<le> sint n then Some n else None)"

definition read_u32 :: "i64 \<Rightarrow> u32 option" where
  "read_u32 n = (if 0 \<le> sint n \<and> sint n < 2 ^ 32 then Some (ucast n) else None)"

definition read_lww :: "lww_row \<Rightarrow> hlc_timestamp option" where
  "read_lww r =
     (case (read_u64 (lw_wall r), read_u32 (lw_counter r), read_u32 (lw_node r)) of
        (Some w, Some c, Some n) \<Rightarrow> Some (HLC w c n)
      | _ \<Rightarrow> None)"

definition write_lww :: "hlc_timestamp \<Rightarrow> lww_row" where
  "write_lww t = \<lparr>lw_wall = wall_time t, lw_counter = ucast (counter t), lw_node = ucast (node_hash t)\<rparr>"

section \<open>The service\<close>

datatype sync_event = ChangeApplied change | BroadcastReady changeset | PeerSynced node_id usize

datatype sync_error = ChecksumFailed | DbError | JsonError

text \<open>
  The receiver of the events: with \<open>Unread q\<close> nobody takes events and \<open>q\<close> are in the channel (as long as the service keeps the receiver, this counts from its
  creation); with \<open>Reading\<close> someone took it with \<^verbatim>\<open>take_event_rx\<close> and keeps receiving, so that a send gets its place; \<open>Dropped\<close> is a closed
  channel. \<open>Pending e\<close> is a call that waits for room to send \<open>e\<close>.
\<close>

datatype receiver = Unread nat | Reading | Dropped

datatype 'a poll = Ready 'a | Pending sync_event

record sync_service =
  sy_node_id :: node_id
  sy_sequence :: u64
  sy_version_vector :: version_vector
  sy_pending_changes :: "change list"
  sy_last_timestamps :: "(string, hlc_timestamp) store"
  sy_events :: "sync_event list"
  sy_db :: "replica_db option"
  sy_writable :: bool
  sy_receiver :: receiver

definition sync_service_new :: "node_id \<Rightarrow> replica_db option \<Rightarrow> sync_service" where
  "sync_service_new n db =
     \<lparr>sy_node_id = n, sy_sequence = 0, sy_version_vector = vv_new, sy_pending_changes = [],
      sy_last_timestamps = dm_empty, sy_events = [], sy_db = db, sy_writable = True, sy_receiver = Unread 0\<rparr>"

definition sync_sequence :: "sync_service \<Rightarrow> u64" where
  "sync_sequence s = sy_sequence s"

definition sync_version_vector :: "sync_service \<Rightarrow> version_vector" where
  "sync_version_vector s = sy_version_vector s"

abbreviation event_capacity :: nat where "event_capacity \<equiv> 1024"

text \<open>\<open>sy_events\<close> is the history of the events put into the channel. The result of a send into a closed channel is discarded.\<close>

definition send_event :: "sync_event \<Rightarrow> sync_service \<Rightarrow> unit poll \<times> sync_service" where
  "send_event e s =
     (case sy_receiver s of
        Unread q \<Rightarrow>
          if q < event_capacity then (Ready (), s\<lparr>sy_events := sy_events s @ [e], sy_receiver := Unread (q + 1)\<rparr>)
          else (Pending e, s)
      | Reading \<Rightarrow> (Ready (), s\<lparr>sy_events := sy_events s @ [e]\<rparr>)
      | Dropped \<Rightarrow> (Ready (), s))"

text \<open>\<^verbatim>\<open>init_db\<close>: create what is missing, read the versions row by row, restore the own sequence number. A row
  that cannot be read stops the loop with the rows before it already merged.\<close>

fun load_versions :: "(node_id \<times> i64) list \<Rightarrow> version_vector \<Rightarrow> bool \<times> version_vector" where
  "load_versions [] v = (True, v)"
| "load_versions ((n, x) # rows) v =
     (case read_u64 x of Some seq \<Rightarrow> load_versions rows (vv_update n seq v) | None \<Rightarrow> (False, v))"

definition init_db :: "sync_service \<Rightarrow> (sync_error + unit) \<times> sync_service" where
  "init_db s =
     (if sy_db s = None \<and> \<not> sy_writable s then (Inl DbError, s) else
      let db = (case sy_db s of Some db \<Rightarrow> db | None \<Rightarrow> empty_db);
          (ok, v) = load_versions (db_versions db) (sy_version_vector s);
          s = s\<lparr>sy_db := Some db, sy_version_vector := v\<rparr>
      in if \<not> ok then (Inl DbError, s)
         else (Inr (), case dm_get v (sy_node_id s) of Some seq \<Rightarrow> s\<lparr>sy_sequence := seq\<rparr> | None \<Rightarrow> s))"

definition record_change ::
  "crc32 \<Rightarrow> u64 \<Rightarrow> u64 \<Rightarrow> string \<Rightarrow> string \<Rightarrow> change_kind \<Rightarrow> string \<Rightarrow> sync_service \<Rightarrow> change \<times> sync_service" where
  "record_change crc rid now_us table pk kind data s =
     (let c = change_new crc rid now_us table pk kind data (sy_node_id s)
      in (c, s\<lparr>sy_pending_changes := sy_pending_changes s @ [c]\<rparr>))"

definition persist_version :: "node_id \<Rightarrow> u64 \<Rightarrow> sync_service \<Rightarrow> (sync_error + unit) \<times> sync_service" where
  "persist_version n seq s =
     (case sy_db s of
        None \<Rightarrow> (Inl DbError, s)
      | Some db \<Rightarrow>
          if sy_writable s then (Inr (), s\<lparr>sy_db := Some (db\<lparr>db_versions := dm_insert n seq (db_versions db)\<rparr>)\<rparr>)
          else (Inl DbError, s))"

definition flush :: "crc32 \<Rightarrow> serializer \<Rightarrow> sync_service \<Rightarrow> changeset option poll \<times> sync_service" where
  "flush crc ser s =
     (if sy_pending_changes s = [] then (Ready None, s)
      else
        let changes = sy_pending_changes s;
            seq = sy_sequence s + 1;
            cs = changeset_new crc ser (sy_node_id s) seq changes;
            s = s\<lparr>sy_pending_changes := [], sy_sequence := seq,
                  sy_version_vector := vv_update (sy_node_id s) seq (sy_version_vector s)\<rparr>;
            s = snd (persist_version (sy_node_id s) seq s)
        in (case send_event (BroadcastReady cs) s of
              (Ready _, s) \<Rightarrow> (Ready (Some cs), s)
            | (Pending e, s) \<Rightarrow> (Pending e, s)))"

definition change_key :: "change \<Rightarrow> string" where
  "change_key c = ch_table c @ '':'' @ ch_pk c"

definition stored_timestamp :: "replica_db \<Rightarrow> string \<Rightarrow> hlc_timestamp option" where
  "stored_timestamp db k = Option.bind (dm_get (db_lww db) k) read_lww"

definition should_apply_change :: "change \<Rightarrow> sync_service \<Rightarrow> sync_error + bool" where
  "should_apply_change c s =
     (if (case dm_get (sy_last_timestamps s) (change_key c) of
            Some last_ts \<Rightarrow> ch_timestamp c \<le> last_ts | None \<Rightarrow> False)
      then Inr False
      else
        case sy_db s of
          None \<Rightarrow> Inl DbError
        | Some db \<Rightarrow>
            (case stored_timestamp db (change_key c) of
               Some existing_ts \<Rightarrow> Inr (existing_ts < ch_timestamp c)
             | None \<Rightarrow> Inr True))"

definition change_row :: "json \<Rightarrow> string \<Rightarrow> backend_row" where
  "change_row d pk =
     \<lparr>row_id = SqlText pk, row_app = text_or d ''app'' '''', row_region = text_or d ''region'' ''us'',
      row_country = text_or_null d ''country'', row_wg_ip = text_or d ''wg_ip'' '''',
      row_port = int_or d ''port'' 0, row_healthy = int_or d ''healthy'' 1, row_weight = int_or d ''weight'' 2,
      row_soft_limit = int_or d ''soft_limit'' 100, row_hard_limit = int_or d ''hard_limit'' 150,
      row_deleted = SqlInteger 0\<rparr>"

definition apply_backend_change ::
  "(string \<Rightarrow> json option) \<Rightarrow> change \<Rightarrow> replica_db \<Rightarrow> (sync_error + unit) \<times> replica_db" where
  "apply_backend_change parse c db =
     (case ch_kind c of
        Delete \<Rightarrow>
          (Inr (), db\<lparr>db_backends := dm_modify (ch_pk c) (\<lambda>r. r\<lparr>row_deleted := SqlInteger 1\<rparr>) (db_backends db)\<rparr>)
      | _ \<Rightarrow>
          (case parse (ch_data c) of
             None \<Rightarrow> (Inl JsonError, db)
           | Some d \<Rightarrow> (Inr (), db\<lparr>db_backends := dm_insert (ch_pk c) (change_row d (ch_pk c)) (db_backends db)\<rparr>)))"

fun show_kind :: "change_kind \<Rightarrow> string" where
  "show_kind Insert = ''Insert''"
| "show_kind Update = ''Update''"
| "show_kind Delete = ''Delete''"

definition log_change :: "i64 \<Rightarrow> change \<Rightarrow> replica_db \<Rightarrow> replica_db" where
  "log_change now_secs c db =
     (if \<exists>r \<in> set (db_log db). lg_change_id r = ch_id c then db
      else db\<lparr>db_log := db_log db @
        [\<lparr>lg_change_id = ch_id c, lg_table = ch_table c, lg_pk = ch_pk c, lg_kind = show_kind (ch_kind c),
          lg_data = ch_data c, lg_wall = wall_time (ch_timestamp c), lg_counter = ucast (counter (ch_timestamp c)),
          lg_node = ucast (node_hash (ch_timestamp c)), lg_origin = ch_origin c, lg_applied_at = now_secs\<rparr>]\<rparr>)"

definition apply_single_change ::
  "(string \<Rightarrow> json option) \<Rightarrow> i64 \<Rightarrow> change \<Rightarrow> sync_service \<Rightarrow> (sync_error + unit) \<times> sync_service" where
  "apply_single_change parse now_secs c s =
     (case sy_db s of
        None \<Rightarrow> (Inl DbError, s)
      | Some db \<Rightarrow>
          if \<not> sy_writable s then (Inl DbError, s) else
          let db = db\<lparr>db_lww := dm_insert (change_key c) (write_lww (ch_timestamp c)) (db_lww db)\<rparr>;
              (r, db) = (if ch_table c = ''backends'' then apply_backend_change parse c db else (Inr (), db))
          in (case r of
                Inl e \<Rightarrow> (Inl e, s\<lparr>sy_db := Some db\<rparr>)
              | Inr _ \<Rightarrow>
                  (Inr (), s\<lparr>sy_db := Some (log_change now_secs c db),
                             sy_last_timestamps := dm_insert (change_key c) (ch_timestamp c) (sy_last_timestamps s)\<rparr>)))"

fun apply_changes ::
  "(string \<Rightarrow> json option) \<Rightarrow> i64 \<Rightarrow> change list \<Rightarrow> usize \<Rightarrow> sync_service \<Rightarrow> (sync_error + usize) poll \<times> sync_service" where
  "apply_changes parse now_secs [] applied s = (Ready (Inr applied), s)"
| "apply_changes parse now_secs (c # cs) applied s =
     (case should_apply_change c s of
        Inl e \<Rightarrow> (Ready (Inl e), s)
      | Inr False \<Rightarrow> apply_changes parse now_secs cs applied s
      | Inr True \<Rightarrow>
          (case apply_single_change parse now_secs c s of
             (Inl e, s) \<Rightarrow> (Ready (Inl e), s)
           | (Inr _, s) \<Rightarrow>
               (case send_event (ChangeApplied c) s of
                  (Ready _, s) \<Rightarrow> apply_changes parse now_secs cs (applied + 1) s
                | (Pending e, s) \<Rightarrow> (Pending e, s))))"

definition apply_changeset ::
  "crc32 \<Rightarrow> serializer \<Rightarrow> (string \<Rightarrow> json option) \<Rightarrow> i64 \<Rightarrow> changeset \<Rightarrow> sync_service
     \<Rightarrow> (sync_error + usize) poll \<times> sync_service" where
  "apply_changeset crc ser parse now_secs cs s =
     (if \<not> changeset_verify crc ser cs then (Ready (Inl ChecksumFailed), s)
      else if vv_has_seen (sy_version_vector s) (cs_source cs) (cs_seq cs) then (Ready (Inr 0), s)
      else
        case apply_changes parse now_secs (cs_changes cs) 0 s of
          (Pending e, s) \<Rightarrow> (Pending e, s)
        | (Ready (Inl e), s) \<Rightarrow> (Ready (Inl e), s)
        | (Ready (Inr applied), s) \<Rightarrow>
            let s = s\<lparr>sy_version_vector := vv_update (cs_source cs) (cs_seq cs) (sy_version_vector s)\<rparr>
            in (case persist_version (cs_source cs) (cs_seq cs) s of
                  (Inl e, s) \<Rightarrow> (Ready (Inl e), s)
                | (Inr _, s) \<Rightarrow> (Ready (Inr applied), s)))"

definition get_changes_since :: "node_id \<Rightarrow> u64 \<Rightarrow> sync_service \<Rightarrow> sync_error + changeset list" where
  "get_changes_since n since s = Inr []"

section \<open>Specification\<close>

text \<open>The visible row of a backend in a replica, and the row that a change asks for.\<close>

definition visible_row :: "sync_service \<Rightarrow> string \<Rightarrow> backend_row option" where
  "visible_row s pk =
     (case sy_db s of
        None \<Rightarrow> None
      | Some db \<Rightarrow> (case dm_get (db_backends db) pk of
                      Some r \<Rightarrow> if row_visible r then Some r else None | None \<Rightarrow> None))"

definition wanted_row :: "(string \<Rightarrow> json option) \<Rightarrow> change \<Rightarrow> backend_row option" where
  "wanted_row parse c =
     (if ch_kind c = Delete then None else map_option (\<lambda>d. change_row d (ch_pk c)) (parse (ch_data c)))"

text \<open>The winner among the changes of a key: the one of greatest timestamp, the first of equals.\<close>

fun better :: "string \<Rightarrow> change \<Rightarrow> change option \<Rightarrow> change option" where
  "better k c w =
     (if change_key c = k then (case w of None \<Rightarrow> Some c | Some d \<Rightarrow> if wins_over c d then Some c else Some d)
      else w)"

definition winner :: "string \<Rightarrow> change list \<Rightarrow> change option" where
  "winner k cs = fold (better k) cs None"

text \<open>Changes that can be applied: the table name has no colon, the wall time fits a signed column, and
  the data of an insert or update of a backend is JSON.\<close>

definition applicable :: "(string \<Rightarrow> json option) \<Rightarrow> change \<Rightarrow> bool" where
  "applicable parse c \<longleftrightarrow>
     CHR '':'' \<notin> set (ch_table c) \<and> wall_time (ch_timestamp c) < 2 ^ 63
     \<and> (ch_table c = ''backends'' \<and> ch_kind c \<noteq> Delete \<longrightarrow> parse (ch_data c) \<noteq> None)"

text \<open>The cache of last timestamps agrees with the table where it has an entry.\<close>

definition cache_ok :: "sync_service \<Rightarrow> bool" where
  "cache_ok s \<longleftrightarrow>
     (\<exists>db. sy_db s = Some db \<and> sy_writable s
       \<and> (\<forall>k t. dm_get (sy_last_timestamps s) k = Some t \<longrightarrow> stored_timestamp db k = Some t))"

text \<open>
  A replica that receives changesets one after the other; the result of each call is only logged. A call that waits for the
  event channel is the last one.
\<close>

fun sync_run ::
  "crc32 \<Rightarrow> serializer \<Rightarrow> (string \<Rightarrow> json option) \<Rightarrow> i64 \<Rightarrow> changeset list \<Rightarrow> sync_service \<Rightarrow> sync_service" where
  "sync_run crc ser parse now_secs [] s = s"
| "sync_run crc ser parse now_secs (cs # css) s =
     (case apply_changeset crc ser parse now_secs cs s of
        (Ready _, s) \<Rightarrow> sync_run crc ser parse now_secs css s
      | (Pending e, s) \<Rightarrow> s)"

text \<open>Room for \<open>n\<close> more events.\<close>

fun event_room :: "receiver \<Rightarrow> nat \<Rightarrow> bool" where
  "event_room (Unread q) n \<longleftrightarrow> q + n \<le> event_capacity"
| "event_room Reading n \<longleftrightarrow> True"
| "event_room Dropped n \<longleftrightarrow> True"

text \<open>Deliveries that keep the order of each source, with intact checksums and applicable changes.\<close>

definition fifo :: "changeset list \<Rightarrow> bool" where
  "fifo css \<longleftrightarrow> sorted_wrt (\<lambda>a b. cs_source a = cs_source b \<longrightarrow> cs_seq a < cs_seq b) css \<and> (\<forall>cs \<in> set css. 0 < cs_seq cs)"

definition deliverable :: "crc32 \<Rightarrow> serializer \<Rightarrow> (string \<Rightarrow> json option) \<Rightarrow> changeset \<Rightarrow> bool" where
  "deliverable crc ser parse cs \<longleftrightarrow> changeset_verify crc ser cs \<and> (\<forall>c \<in> set (cs_changes cs). applicable parse c)"

definition all_changes :: "changeset list \<Rightarrow> change list" where
  "all_changes css = concat (map cs_changes css)"

text \<open>No two different changes of a key carry the same timestamp.\<close>

definition unique_stamps :: "change set \<Rightarrow> bool" where
  "unique_stamps C \<longleftrightarrow>
     (\<forall>c \<in> C. \<forall>d \<in> C. change_key c = change_key d \<and> ch_timestamp c = ch_timestamp d \<longrightarrow> c = d)"

section \<open>Lemmas on version vectors\<close>

lemma vv_get_update: "vv_get (vv_update n seq v) m = (if m = n then max (vv_get v n) seq else vv_get v m)"
  by (auto simp: vv_get_def vv_update_def max_def not_less word_gt_0 split: option.split)

lemma vv_get_merge:
  assumes "dm_wf other"
  shows "vv_get (vv_merge v other) n = max (vv_get v n) (vv_get other n)"
proof -
  have "vv_get (vv_merge_loop es v) n = max (vv_get v n) (vv_get es n)" if "dm_wf es" for es
    using that
  proof (induction es arbitrary: v)
    case Nil
    then show ?case by (simp add: vv_get_def dm_get_def)
  next
    case (Cons e es)
    obtain m q where e: "e = (m, q)" by (cases e)
    from Cons.prems e have wf: "dm_wf es" and "dm_get es m = None"
      by (auto simp: dm_wf_def dm_get_def map_of_eq_None_iff)
    then have z: "vv_get es m = 0" by (simp add: vv_get_def)
    have "vv_get (e # es) n = (if n = m then q else vv_get es n)"
      by (simp add: e vv_get_def dm_get_def)
    with Cons.IH [OF wf] e z show ?case by (auto simp: vv_get_update max.assoc)
  qed
  with assms show ?thesis by (simp add: vv_merge_def)
qed

section \<open>Lemmas on last-write-wins\<close>

lemma sint_small: "unat (w :: 64 word) < 2 ^ 63 \<Longrightarrow> sint w = int (unat w)"
proof -
  assume "unat w < 2 ^ 63"
  then have "signed_take_bit 63 (int (unat w)) = int (unat w)"
    by (subst signed_take_bit_int_eq_self_iff) auto
  then show ?thesis by (simp add: sint_uint uint_nat)
qed

lemma unat_ucast_u32: "unat (ucast (w :: u32) :: 64 word) = unat w"
  by transfer (simp add: take_bit_take_bit min_def)

lemma read_u64_write: "unat w < 2 ^ 63 \<Longrightarrow> read_u64 w = Some w"
  by (simp add: read_u64_def sint_small)

lemma read_u32_write: "read_u32 (ucast (w :: u32)) = Some w"
proof -
  have "unat (ucast w :: 64 word) < 2 ^ 32" using unat_lt2p [of w] by (simp add: unat_ucast_u32)
  then have "0 \<le> sint (ucast w :: 64 word) \<and> sint (ucast w :: 64 word) < 2 ^ 32"
    by (simp add: sint_small)
  moreover have "(ucast (ucast w :: 64 word) :: u32) = w"
    by transfer (simp add: take_bit_take_bit min_def)
  ultimately show ?thesis by (simp add: read_u32_def)
qed

lemma read_write_lww: "wall_time t < 2 ^ 63 \<Longrightarrow> read_lww (write_lww t) = Some t"
  by (cases t) (simp add: read_lww_def write_lww_def read_u64_write read_u32_write word_less_nat_alt)

lemma change_key_inj:
  assumes "CHR '':'' \<notin> set (ch_table c)" "CHR '':'' \<notin> set (ch_table d)" "change_key c = change_key d"
  shows "ch_table c = ch_table d \<and> ch_pk c = ch_pk d"
proof -
  have t: "takeWhile (\<lambda>x. x \<noteq> CHR '':'') (change_key e) = ch_table e" if "CHR '':'' \<notin> set (ch_table e)" for e
    using that by (simp add: change_key_def takeWhile_append)
  have "ch_table c = ch_table d" using t [OF assms(1)] t [OF assms(2)] assms(3) by simp
  with assms(3) show ?thesis by (simp add: change_key_def)
qed

definition ts_of :: "sync_service \<Rightarrow> string \<Rightarrow> hlc_timestamp option" where
  "ts_of s k = Option.bind (sy_db s) (\<lambda>db. stored_timestamp db k)"

lemma should_apply_cache_ok:
  assumes "cache_ok s"
  shows "should_apply_change c s =
    Inr (case ts_of s (change_key c) of None \<Rightarrow> True | Some t \<Rightarrow> t < ch_timestamp c)"
  using assms
  by (auto simp: cache_ok_def should_apply_change_def ts_of_def not_le split: option.splits)

lemma log_change_simps [simp]:
  "db_lww (log_change n c db) = db_lww db" "db_backends (log_change n c db) = db_backends db"
  "db_versions (log_change n c db) = db_versions db"
  by (simp_all add: log_change_def)

lemma apply_single_ok:
  assumes "cache_ok s" "applicable parse c"
  obtains s' where "apply_single_change parse now c s = (Inr (), s')" "cache_ok s'"
    "sy_version_vector s' = sy_version_vector s" "sy_node_id s' = sy_node_id s" "sy_receiver s' = sy_receiver s"
    "\<And>k. ts_of s' k = (if k = change_key c then Some (ch_timestamp c) else ts_of s k)"
    "\<And>pk. visible_row s' pk =
       (if ch_table c = ''backends'' \<and> pk = ch_pk c then wanted_row parse c else visible_row s pk)"
proof -
  from assms(1) obtain db where db: "sy_db s = Some db" "sy_writable s"
    and c: "\<And>k t. dm_get (sy_last_timestamps s) k = Some t \<Longrightarrow> stored_timestamp db k = Some t"
    by (auto simp: cache_ok_def)
  let ?db = "db\<lparr>db_lww := dm_insert (change_key c) (write_lww (ch_timestamp c)) (db_lww db)\<rparr>"
  obtain r db' where r: "(if ch_table c = ''backends'' then apply_backend_change parse c ?db else (Inr (), ?db)) = (r, db')"
    by (meson surj_pair)
  have r': "r = Inr ()" "db_lww db' = db_lww ?db"
    using r assms(2)
    by (auto simp: apply_backend_change_def applicable_def split: if_splits change_kind.splits option.splits)
  define s' where "s' = s\<lparr>sy_db := Some (log_change now c db'),
      sy_last_timestamps := dm_insert (change_key c) (ch_timestamp c) (sy_last_timestamps s)\<rparr>"
  have a: "apply_single_change parse now c s = (Inr (), s')"
    using db r r' by (simp add: apply_single_change_def s'_def Let_def)
  have rw: "read_lww (write_lww (ch_timestamp c)) = Some (ch_timestamp c)"
    using assms(2) by (simp add: applicable_def read_write_lww)
  then have st: "stored_timestamp (log_change now c db') k =
      (if k = change_key c then Some (ch_timestamp c) else stored_timestamp db k)" for k
    using r' by (simp add: stored_timestamp_def)
  have "dm_get (db_backends db') pk =
      (if ch_table c = ''backends'' \<and> pk = ch_pk c
       then (if ch_kind c = Delete then map_option (\<lambda>r. r\<lparr>row_deleted := SqlInteger 1\<rparr>) (dm_get (db_backends db) pk)
             else wanted_row parse c)
       else dm_get (db_backends db) pk)" for pk
    using r assms(2)
    by (auto simp: apply_backend_change_def applicable_def wanted_row_def
        split: if_splits change_kind.splits option.splits)
  then have v: "visible_row s' pk =
      (if ch_table c = ''backends'' \<and> pk = ch_pk c then wanted_row parse c else visible_row s pk)" for pk
    using db by (auto simp: visible_row_def s'_def row_visible_def wanted_row_def change_row_def split: option.splits)
  show thesis
  proof (rule that [OF a])
    show "cache_ok s'" using c st db(2) by (auto simp: cache_ok_def s'_def)
    show "ts_of s' k = (if k = change_key c then Some (ch_timestamp c) else ts_of s k)" for k
      using st [of k] db by (simp add: ts_of_def s'_def)
  qed (use v in \<open>simp_all add: s'_def\<close>)
qed

text \<open>What a replica knows after a history of changes, given in the order it received them.\<close>

definition knows :: "(string \<Rightarrow> json option) \<Rightarrow> sync_service \<Rightarrow> change list \<Rightarrow> bool" where
  "knows parse s hist \<longleftrightarrow>
     cache_ok s \<and> (\<forall>k. ts_of s k = map_option ch_timestamp (winner k hist))
     \<and> (\<forall>pk. visible_row s pk = Option.bind (winner (''backends:'' @ pk) hist) (wanted_row parse))"

lemma winner_snoc: "winner k (hist @ [c]) = better k c (winner k hist)"
  by (simp add: winner_def)

lemma winner_in: "winner k cs = Some c \<Longrightarrow> c \<in> set cs \<and> change_key c = k"
proof (induction cs arbitrary: c rule: rev_induct)
  case Nil
  then show ?case by (simp add: winner_def)
next
  case (snoc x cs)
  then show ?case by (auto simp: winner_snoc split: if_splits option.splits)
qed

lemma winner_max: "winner k cs = Some c \<Longrightarrow> d \<in> set cs \<Longrightarrow> change_key d = k \<Longrightarrow> ch_timestamp d \<le> ch_timestamp c"
proof (induction cs arbitrary: c rule: rev_induct)
  case (snoc x cs)
  show ?case
  proof (cases "winner k cs")
    case None
    have "d \<notin> set cs"
    proof
      assume "d \<in> set cs"
      have "fold (better k) ys (Some e) \<noteq> None" for ys e
        by (induction ys arbitrary: e) (auto split: if_splits)
      moreover from \<open>d \<in> set cs\<close> obtain ys zs where "cs = ys @ d # zs" by (meson split_list)
      ultimately have "winner k cs \<noteq> None"
        using snoc.prems(3) by (auto simp: winner_def split: option.split)
      with None show False by simp
    qed
    with None snoc.prems show ?thesis by (auto simp: winner_snoc split: if_splits)
  next
    case (Some e)
    then show ?thesis
      using snoc.IH [OF Some] snoc.prems by (auto simp: winner_snoc wins_over_def split: if_splits)
  qed
qed (simp add: winner_def)

lemma winner_None: "winner k cs = None \<Longrightarrow> d \<in> set cs \<Longrightarrow> change_key d \<noteq> k"
proof (induction cs rule: rev_induct)
  case (snoc x cs)
  then show ?case by (auto simp: winner_snoc split: if_splits option.splits)
qed simp

lemma winner_set_eq:
  assumes "set cs = set ds" "unique_stamps (set cs)"
  shows "winner k cs = winner k ds"
proof (cases "winner k cs")
  case None
  then have "winner k ds \<noteq> Some d" for d
    using winner_in [of k ds d] winner_None [of k cs d] assms(1) by auto
  with None show ?thesis by (cases "winner k ds") auto
next
  case (Some c)
  then have "winner k ds \<noteq> None"
    using winner_in [OF Some] winner_None [of k ds c] assms(1) by auto
  then obtain d where d: "winner k ds = Some d" by auto
  have "ch_timestamp c = ch_timestamp d"
    using winner_max [OF Some, of d] winner_max [OF d, of c] winner_in [OF Some] winner_in [OF d] assms(1)
    by (metis order_antisym)
  then show ?thesis
    using winner_in [OF Some] winner_in [OF d] assms Some d unfolding unique_stamps_def by metis
qed

lemma backends_key: "change_key c = ''backends:'' @ pk \<longleftrightarrow> ch_table c = ''backends'' \<and> ch_pk c = pk"
  if "CHR '':'' \<notin> set (ch_table c)"
proof -
  define d where "d = c\<lparr>ch_table := ''backends'', ch_pk := pk\<rparr>"
  have "change_key d = ''backends:'' @ pk" "CHR '':'' \<notin> set (ch_table d)"
    by (simp_all add: d_def change_key_def)
  then show ?thesis using change_key_inj [OF that, of d] by (auto simp: d_def change_key_def)
qed

lemma send_event_other:
  assumes "send_event e s = (r, s')"
  shows "sy_db s' = sy_db s" "sy_last_timestamps s' = sy_last_timestamps s" "sy_version_vector s' = sy_version_vector s"
    "sy_node_id s' = sy_node_id s" "sy_pending_changes s' = sy_pending_changes s" "sy_sequence s' = sy_sequence s"
    "sy_writable s' = sy_writable s"
  using assms by (auto simp: send_event_def split: receiver.splits if_splits)

lemma ts_of_send:
  assumes "send_event e s = (r, s')"
  shows "ts_of s' k = ts_of s k" "visible_row s' pk = visible_row s pk" "cache_ok s' = cache_ok s"
  by (simp_all add: ts_of_def visible_row_def cache_ok_def send_event_other [OF assms])

lemma event_room_mono: "event_room rx n \<Longrightarrow> m \<le> n \<Longrightarrow> event_room rx m"
  by (cases rx) auto

lemma send_event_room:
  assumes "event_room (sy_receiver s) (Suc n)"
  obtains s' where "send_event e s = (Ready (), s')" "event_room (sy_receiver s') n"
  using assms by (cases "sy_receiver s") (auto simp: send_event_def)

lemma apply_changes_knows:
  assumes "knows parse s hist" "\<forall>c \<in> set cs. applicable parse c" "event_room (sy_receiver s) (length cs + k)"
  shows "\<exists>n s'. apply_changes parse now cs applied s = (Ready (Inr n), s') \<and> knows parse s' (hist @ cs)
    \<and> sy_version_vector s' = sy_version_vector s \<and> sy_node_id s' = sy_node_id s \<and> event_room (sy_receiver s') k"
  using assms
proof (induction cs arbitrary: s hist applied)
  case (Cons c cs)
  have ok: "cache_ok s" and ap: "applicable parse c" using Cons.prems by (auto simp: knows_def)
  have col: "CHR '':'' \<notin> set (ch_table c)" using ap by (simp add: applicable_def)
  let ?w = "winner (change_key c) hist"
  have sa: "should_apply_change c s = Inr (case ?w of None \<Rightarrow> True | Some d \<Rightarrow> wins_over c d)"
    using Cons.prems(1) by (simp add: should_apply_cache_ok [OF ok] knows_def wins_over_def split: option.split)
  show ?case
  proof (cases "case ?w of None \<Rightarrow> True | Some d \<Rightarrow> wins_over c d")
    case True
    obtain s' where s': "apply_single_change parse now c s = (Inr (), s')" "cache_ok s'"
      "sy_version_vector s' = sy_version_vector s" "sy_node_id s' = sy_node_id s" "sy_receiver s' = sy_receiver s"
      "\<And>k. ts_of s' k = (if k = change_key c then Some (ch_timestamp c) else ts_of s k)"
      "\<And>pk. visible_row s' pk =
        (if ch_table c = ''backends'' \<and> pk = ch_pk c then wanted_row parse c else visible_row s pk)"
      using apply_single_ok [OF ok ap] by blast
    have "event_room (sy_receiver s') (Suc (length cs + k))" using Cons.prems(3) s'(5) by simp
    then obtain s'' where s'': "send_event (ChangeApplied c) s' = (Ready (), s'')" "event_room (sy_receiver s'') (length cs + k)"
      by (rule send_event_room)
    have w: "winner k (hist @ [c]) = (if change_key c = k then Some c else winner k hist)" for k
      using True by (auto simp: winner_snoc split: option.splits)
    have "knows parse s'' (hist @ [c])"
      using Cons.prems(1) s'(2,6,7) w backends_key [OF col] by (auto simp: knows_def ts_of_send [OF s''(1)])
    from Cons.IH [OF this _ s''(2), of "applied + 1"] Cons.prems(2) s'(1,3,4) s''(1) send_event_other [OF s''(1)] sa True show ?thesis
      by simp
  next
    case False
    then have w: "winner k (hist @ [c]) = winner k hist" for k
      by (auto simp: winner_snoc split: option.splits)
    then have "knows parse s (hist @ [c])" using Cons.prems(1) by (simp add: knows_def)
    moreover have "event_room (sy_receiver s) (length cs + k)" by (rule event_room_mono [OF Cons.prems(3)]) simp
    ultimately show ?thesis using Cons.IH [of s "hist @ [c]" applied] Cons.prems(2) sa False by simp
  qed
qed simp

lemma knows_bookkeeping:
  assumes "knows parse s hist" "sy_db s = Some db"
  shows "knows parse (s\<lparr>sy_version_vector := v, sy_db := Some (db\<lparr>db_versions := x\<rparr>)\<rparr>) hist"
proof -
  have st: "stored_timestamp (db\<lparr>db_versions := x\<rparr>) k = stored_timestamp db k" for k
    by (simp add: stored_timestamp_def)
  from assms show ?thesis
    by (auto simp: knows_def cache_ok_def ts_of_def visible_row_def st)
qed

lemma apply_changeset_knows:
  assumes "knows parse s hist" "deliverable crc ser parse cs"
    and "vv_get (sy_version_vector s) (cs_source cs) < cs_seq cs" "event_room (sy_receiver s) (length (cs_changes cs) + k)"
  shows "\<exists>n s'. apply_changeset crc ser parse now cs s = (Ready (Inr n), s') \<and> knows parse s' (hist @ cs_changes cs)
    \<and> sy_version_vector s' = vv_update (cs_source cs) (cs_seq cs) (sy_version_vector s) \<and> event_room (sy_receiver s') k"
proof -
  obtain n s1 where s1: "apply_changes parse now (cs_changes cs) 0 s = (Ready (Inr n), s1)"
    "knows parse s1 (hist @ cs_changes cs)" "sy_version_vector s1 = sy_version_vector s" "event_room (sy_receiver s1) k"
    using apply_changes_knows [OF assms(1) _ assms(4), of now 0] assms(2) by (auto simp: deliverable_def)
  from s1(2) obtain db where db: "sy_db s1 = Some db" "sy_writable s1" by (auto simp: knows_def cache_ok_def)
  from assms(2,3) s1(1,3,4) db knows_bookkeeping [OF s1(2) db(1)] show ?thesis
    by (auto simp: apply_changeset_def deliverable_def vv_has_seen_def persist_version_def Let_def not_le)
qed

lemma sync_run_knows:
  assumes "knows parse s hist" "fifo css" "\<forall>cs \<in> set css. deliverable crc ser parse cs"
    and "\<forall>cs \<in> set css. vv_get (sy_version_vector s) (cs_source cs) < cs_seq cs"
    and "event_room (sy_receiver s) (length (all_changes css))"
  shows "knows parse (sync_run crc ser parse now css s) (hist @ all_changes css)"
  using assms
proof (induction css arbitrary: s hist)
  case (Cons cs css)
  have "event_room (sy_receiver s) (length (cs_changes cs) + length (all_changes css))"
    using Cons.prems(5) by (simp add: all_changes_def)
  with Cons.prems obtain n s' where s': "apply_changeset crc ser parse now cs s = (Ready (Inr n), s')"
    "knows parse s' (hist @ cs_changes cs)"
    "sy_version_vector s' = vv_update (cs_source cs) (cs_seq cs) (sy_version_vector s)"
    "event_room (sy_receiver s') (length (all_changes css))"
    using apply_changeset_knows [of parse s hist crc ser cs "length (all_changes css)" now] by auto
  have "\<forall>d \<in> set css. vv_get (sy_version_vector s') (cs_source d) < cs_seq d"
    using Cons.prems(2,4) by (auto simp: s'(3) vv_get_update fifo_def)
  with Cons.IH [OF s'(2) _ _ _ s'(4)] Cons.prems s'(1) show ?case by (simp add: fifo_def all_changes_def)
qed (simp add: all_changes_def)

text \<open>A replica that starts empty, on a file that accepts writes.\<close>

definition empty_replica :: "node_id \<Rightarrow> receiver \<Rightarrow> sync_service" where
  "empty_replica n rx = (sync_service_new n (Some empty_db))\<lparr>sy_receiver := rx\<rparr>"

lemma knows_new: "knows parse (empty_replica n rx) []"
  by (simp add: knows_def empty_replica_def sync_service_new_def cache_ok_def ts_of_def visible_row_def winner_def empty_db_def
      stored_timestamp_def)

lemma empty_replica_unseen: "fifo css \<Longrightarrow> \<forall>cs \<in> set css. vv_get (sy_version_vector (empty_replica n rx)) (cs_source cs) < cs_seq cs"
  by (auto simp: fifo_def vv_get_def empty_replica_def sync_service_new_def vv_new_def)

lemma empty_replica_knows:
  assumes "fifo css" "\<forall>cs \<in> set css. deliverable crc ser parse cs" "event_room rx (length (all_changes css))"
  shows "knows parse (sync_run crc ser parse now css (empty_replica n rx)) (all_changes css)"
  using sync_run_knows [OF knows_new [of parse n rx] assms(1,2) empty_replica_unseen [OF assms(1)], of now] assms(3)
  by (simp add: empty_replica_def)

section \<open>Properties\<close>

text \<open>
  C3: Replicas converge, and to the right value. Two replicas that start empty, on databases that accept writes, and are given the same
  changesets one call of \<^verbatim>\<open>apply_changeset\<close> after the other, each with the order of every source kept but the sources interleaved differently and
  changes of one key in any order, show the same backends; the row each shows is the one the change of greatest timestamp asks for
  (none, if that change is a delete). Provided that different changes of a key have different timestamps (the timestamp ends in a CRC of the
  node's name, which two names can share); that each changeset has a valid checksum and sequence number, and all its changes can be applied: the table name has no colon, the wall time
  is below \<open>2^63\<close>, and the data of an insert or update of a backend is JSON (one that is not stops its changeset, whose later changes are then missing);
  and that each replica's event channel is read, or has room for one event per change.
\<close>

theorem lww_convergence:
  assumes "fifo css" "fifo css'" "set css = set css'"
    and "\<forall>cs \<in> set css. deliverable crc ser parse cs"
    and "unique_stamps (set (all_changes css))"
    and "event_room rx (length (all_changes css))" "event_room rx' (length (all_changes css'))"
  shows "visible_row (sync_run crc ser parse now css (empty_replica n rx)) pk
       = visible_row (sync_run crc ser parse now' css' (empty_replica n' rx')) pk
    \<and> visible_row (sync_run crc ser parse now css (empty_replica n rx)) pk
       = Option.bind (winner (''backends:'' @ pk) (all_changes css)) (wanted_row parse)"
proof -
  have "set (all_changes css) = set (all_changes css')" using assms(3) by (simp add: all_changes_def)
  then have "winner k (all_changes css) = winner k (all_changes css')" for k
    using assms(5) by (rule winner_set_eq)
  moreover have "knows parse (sync_run crc ser parse now css (empty_replica n rx)) (all_changes css)"
    by (rule empty_replica_knows [OF assms(1,4,6)])
  moreover have "knows parse (sync_run crc ser parse now' css' (empty_replica n' rx')) (all_changes css')"
    using empty_replica_knows [OF assms(2) _ assms(7)] assms(3,4) by simp
  ultimately show ?thesis by (simp add: knows_def)
qed

definition example_change :: "u64 \<Rightarrow> change_kind \<Rightarrow> node_id \<Rightarrow> change" where
  "example_change t k n = change_new (\<lambda>_. 0) t t ''backends'' ''b1'' k ''{}'' n"

definition example_set :: "u64 \<Rightarrow> change_kind \<Rightarrow> node_id \<Rightarrow> changeset" where
  "example_set t k n = changeset_new (\<lambda>_. 0) (\<lambda>_. None) n 1 [example_change t k n]"

lemmas example_set_simps = example_set_def example_change_def change_new_def changeset_new_def hlc_now_def

theorem lww_convergence_witness:
  "visible_row (sync_run (\<lambda>_. 0) (\<lambda>_. None) (\<lambda>_. Some JNull) 0
       [example_set 10 Insert ''A'', example_set 20 Delete ''B''] (empty_replica ''X'' (Unread 0))) ''b1''
   = visible_row (sync_run (\<lambda>_. 0) (\<lambda>_. None) (\<lambda>_. Some JNull) 5
       [example_set 20 Delete ''B'', example_set 10 Insert ''A''] (empty_replica ''Y'' Reading)) ''b1''"
proof -
  let ?a = "example_set 10 Insert ''A''" and ?b = "example_set 20 Delete ''B''"
  have "fifo [?a, ?b]" "fifo [?b, ?a]" "set [?a, ?b] = set [?b, ?a]"
    by (auto simp: fifo_def example_set_simps)
  moreover have "\<forall>cs \<in> set [?a, ?b]. deliverable (\<lambda>_. 0) (\<lambda>_. None) (\<lambda>_. Some JNull) cs"
    by (simp add: deliverable_def applicable_def example_set_simps changeset_verify_def compute_checksum_def)
  moreover have "unique_stamps (set (all_changes [?a, ?b]))"
    by (simp add: unique_stamps_def all_changes_def example_set_simps)
  moreover have "event_room (Unread 0) (length (all_changes [?a, ?b]))" "event_room Reading (length (all_changes [?b, ?a]))"
    by (simp_all add: all_changes_def example_set_simps)
  ultimately show ?thesis using lww_convergence by blast
qed

lemma apply_changes_vv: "sy_version_vector (snd (apply_changes parse now cs' k s)) = sy_version_vector s"
proof (induction cs' arbitrary: k s)
  case (Cons c cs')
  have "sy_version_vector s' = sy_version_vector s" if "apply_single_change parse now c s = (r, s')" for r s'
    using that by (auto simp: apply_single_change_def Let_def split: option.splits sum.splits if_splits prod.splits)
  then show ?case
    using Cons by (auto simp: send_event_other(3) split: sum.splits bool.splits prod.splits poll.splits)
qed simp

lemma apply_changeset_seen:
  assumes "apply_changeset crc ser parse now cs s = (Ready (Inr n), s')"
  shows "changeset_verify crc ser cs \<and> vv_has_seen (sy_version_vector s') (cs_source cs) (cs_seq cs)"
  using assms
  by (auto simp: apply_changeset_def persist_version_def vv_has_seen_def vv_get_update Let_def
      split: sum.splits prod.splits option.splits if_splits poll.splits)


text \<open>
  Local use of the service by one caller: changes are recorded and, now and then, flushed, while the reader of the events and the database come and
  go. A flush that waits for room in the event channel keeps its changeset; its caller makes no other flush meanwhile, and the
  flush goes on as soon as there is room.
\<close>

datatype local_call =
    Record u64 u64 string string change_kind string
  | Flush
  | SetReceiver receiver
  | SetWritable bool

type_synonym local_state = "changeset option \<times> sync_service"

definition waiting_sets :: "changeset option \<Rightarrow> changeset list" where
  "waiting_sets w = (case w of None \<Rightarrow> [] | Some cs \<Rightarrow> [cs])"

fun resume_flush :: "local_state \<Rightarrow> changeset list \<times> local_state" where
  "resume_flush (None, s) = ([], None, s)"
| "resume_flush (Some cs, s) =
     (case send_event (BroadcastReady cs) s of
        (Ready _, s) \<Rightarrow> ([cs], None, s)
      | (Pending e, s) \<Rightarrow> ([], Some cs, s))"

fun local_step :: "crc32 \<Rightarrow> serializer \<Rightarrow> local_call \<Rightarrow> local_state \<Rightarrow> change list \<times> changeset list \<times> local_state" where
  "local_step crc ser (Record rid now table pk kind data) (w, s) =
     (case record_change crc rid now table pk kind data s of (c, s) \<Rightarrow> ([c], [], w, s))"
| "local_step crc ser Flush (Some cs, s) = ([], [], Some cs, s)"
| "local_step crc ser Flush (None, s) =
     (case flush crc ser s of
        (Ready r, s) \<Rightarrow> ([], waiting_sets r, None, s)
      | (Pending e, s) \<Rightarrow> ([], [], (case e of BroadcastReady cs \<Rightarrow> Some cs | _ \<Rightarrow> None), s))"
| "local_step crc ser (SetReceiver rx) (w, s) = ([], resume_flush (w, s\<lparr>sy_receiver := rx\<rparr>))"
| "local_step crc ser (SetWritable ok) (w, s) = ([], [], w, s\<lparr>sy_writable := ok\<rparr>)"

fun local_run :: "crc32 \<Rightarrow> serializer \<Rightarrow> local_call list \<Rightarrow> local_state \<Rightarrow> change list \<times> changeset list \<times> local_state" where
  "local_run crc ser [] x = ([], [], x)"
| "local_run crc ser (call # calls) x =
     (let (recorded, out, x) = local_step crc ser call x; (recorded', out', x) = local_run crc ser calls x
      in (recorded @ recorded', out @ out', x))"

fun numbered_from :: "u64 \<Rightarrow> changeset list \<Rightarrow> bool" where
  "numbered_from q [] \<longleftrightarrow> True"
| "numbered_from q (cs # css) \<longleftrightarrow> cs_seq cs = q + 1 \<and> numbered_from (cs_seq cs) css"

fun ready_of :: "sync_event \<Rightarrow> changeset list" where
  "ready_of (BroadcastReady cs) = [cs]"
| "ready_of _ = []"

text \<open>The changesets handed to the event channel.\<close>

definition broadcasts :: "sync_service \<Rightarrow> changeset list" where
  "broadcasts s = concat (map ready_of (sy_events s))"

lemma persist_version_simps [simp]:
  "sy_node_id (snd (persist_version n q s)) = sy_node_id s"
  "sy_sequence (snd (persist_version n q s)) = sy_sequence s"
  "sy_pending_changes (snd (persist_version n q s)) = sy_pending_changes s"
  "sy_version_vector (snd (persist_version n q s)) = sy_version_vector s"
  "sy_events (snd (persist_version n q s)) = sy_events s"
  "sy_receiver (snd (persist_version n q s)) = sy_receiver s"
  "sy_writable (snd (persist_version n q s)) = sy_writable s"
  "sy_last_timestamps (snd (persist_version n q s)) = sy_last_timestamps s"
  by (simp_all add: persist_version_def split: option.split)

lemma send_event_ready:
  assumes "send_event e s = (Ready u, s')"
  shows "(sy_receiver s = Dropped \<and> s' = s) \<or> (sy_receiver s \<noteq> Dropped \<and> sy_events s' = sy_events s @ [e] \<and> sy_receiver s' \<noteq> Dropped)"
  using assms by (auto simp: send_event_def split: receiver.splits if_splits)

lemma send_event_pending:
  assumes "send_event e s = (Pending e', s')"
  shows "e' = e \<and> s' = s \<and> (\<exists>q. sy_receiver s = Unread q \<and> event_capacity \<le> q)"
  using assms by (auto simp: send_event_def not_less split: receiver.splits if_splits)

text \<open>A flush takes the pending changes into a changeset of the next number, persists the number and sends.\<close>

definition flush_prepare :: "crc32 \<Rightarrow> serializer \<Rightarrow> sync_service \<Rightarrow> changeset \<times> sync_service" where
  "flush_prepare crc ser s =
     (changeset_new crc ser (sy_node_id s) (sy_sequence s + 1) (sy_pending_changes s),
      snd (persist_version (sy_node_id s) (sy_sequence s + 1)
        (s\<lparr>sy_pending_changes := [], sy_sequence := sy_sequence s + 1,
           sy_version_vector := vv_update (sy_node_id s) (sy_sequence s + 1) (sy_version_vector s)\<rparr>)))"

lemma flush_sends:
  "flush crc ser s =
     (if sy_pending_changes s = [] then (Ready None, s)
      else case flush_prepare crc ser s of (cs, s) \<Rightarrow>
        (case send_event (BroadcastReady cs) s of (Ready _, s) \<Rightarrow> (Ready (Some cs), s) | (Pending e, s) \<Rightarrow> (Pending e, s)))"
  by (simp add: flush_def flush_prepare_def Let_def)

lemma flush_cases:
  obtains (empty) "sy_pending_changes s = []" "flush crc ser s = (Ready None, s)"
  | (sent) cs t s' where "sy_pending_changes s \<noteq> []" "flush_prepare crc ser s = (cs, t)"
      "send_event (BroadcastReady cs) t = (Ready (), s')" "flush crc ser s = (Ready (Some cs), s')"
  | (waits) cs t where "sy_pending_changes s \<noteq> []" "flush_prepare crc ser s = (cs, t)"
      "send_event (BroadcastReady cs) t = (Pending (BroadcastReady cs), t)" "flush crc ser s = (Pending (BroadcastReady cs), t)"
proof (cases "sy_pending_changes s = []")
  case False
  obtain cs t where t: "flush_prepare crc ser s = (cs, t)" by fastforce
  obtain r s' where e: "send_event (BroadcastReady cs) t = (r, s')" by fastforce
  show thesis
  proof (cases r)
    case (Ready u)
    with False t e sent show thesis by (simp add: flush_sends)
  next
    case (Pending e')
    with send_event_pending [OF e [unfolded Pending]] False t e waits show thesis by (simp add: flush_sends)
  qed
qed (simp add: empty flush_def)

lemma flush_prepare_fields:
  assumes "flush_prepare crc ser s = (cs, t)"
  shows "cs = changeset_new crc ser (sy_node_id s) (sy_sequence s + 1) (sy_pending_changes s)" "sy_pending_changes t = []"
    "sy_sequence t = sy_sequence s + 1" "sy_node_id t = sy_node_id s" "sy_events t = sy_events s" "sy_receiver t = sy_receiver s"
    "sy_writable t = sy_writable s" "sy_last_timestamps t = sy_last_timestamps s"
  using assms by (auto simp: flush_prepare_def)

text \<open>The account of one step.\<close>

definition waits_rightly :: "local_state \<Rightarrow> bool" where
  "waits_rightly x \<longleftrightarrow> (fst x \<noteq> None \<longrightarrow> (\<exists>q. sy_receiver (snd x) = Unread q \<and> event_capacity \<le> q))"

definition step_account :: "crc32 \<Rightarrow> serializer \<Rightarrow> local_state \<Rightarrow> change list \<Rightarrow> changeset list \<Rightarrow> local_state \<Rightarrow> bool" where
  "step_account crc ser x recorded out y \<longleftrightarrow>
     (\<exists>new. waiting_sets (fst x) @ new = out @ waiting_sets (fst y)
        \<and> sy_pending_changes (snd x) @ recorded = all_changes new @ sy_pending_changes (snd y)
        \<and> numbered_from (sy_sequence (snd x)) new \<and> sy_sequence (snd y) = sy_sequence (snd x) + of_nat (length new)
        \<and> list_all (\<lambda>cs. changeset_verify crc ser cs \<and> cs_source cs = sy_node_id (snd x)) new
        \<and> sy_node_id (snd y) = sy_node_id (snd x))"

lemma numbered_append: "numbered_from q xs \<Longrightarrow> numbered_from (q + of_nat (length xs)) ys \<Longrightarrow> numbered_from q (xs @ ys)"
  by (induction xs arbitrary: q) (auto simp: add.assoc)

lemma step_account_trans:
  assumes "step_account crc ser x r1 o1 y" "step_account crc ser y r2 o2 z"
  shows "step_account crc ser x (r1 @ r2) (o1 @ o2) z"
proof -
  from assms(1) obtain n1 where n1: "waiting_sets (fst x) @ n1 = o1 @ waiting_sets (fst y)"
    "sy_pending_changes (snd x) @ r1 = all_changes n1 @ sy_pending_changes (snd y)" "numbered_from (sy_sequence (snd x)) n1"
    "sy_sequence (snd y) = sy_sequence (snd x) + of_nat (length n1)" "sy_node_id (snd y) = sy_node_id (snd x)"
    "list_all (\<lambda>cs. changeset_verify crc ser cs \<and> cs_source cs = sy_node_id (snd x)) n1" unfolding step_account_def by blast
  from assms(2) obtain n2 where n2: "waiting_sets (fst y) @ n2 = o2 @ waiting_sets (fst z)"
    "sy_pending_changes (snd y) @ r2 = all_changes n2 @ sy_pending_changes (snd z)" "numbered_from (sy_sequence (snd y)) n2"
    "sy_sequence (snd z) = sy_sequence (snd y) + of_nat (length n2)" "sy_node_id (snd z) = sy_node_id (snd y)"
    "list_all (\<lambda>cs. changeset_verify crc ser cs \<and> cs_source cs = sy_node_id (snd y)) n2" unfolding step_account_def by blast
  have "waiting_sets (fst x) @ n1 @ n2 = (o1 @ o2) @ waiting_sets (fst z)"
    using n1(1) n2(1) by (metis append.assoc)
  moreover have "sy_pending_changes (snd x) @ r1 @ r2 = all_changes (n1 @ n2) @ sy_pending_changes (snd z)"
    using n1(2) n2(2) by (metis all_changes_def append.assoc concat_append map_append)
  moreover have "numbered_from (sy_sequence (snd x)) (n1 @ n2)" using n1(3,4) n2(3) numbered_append by metis
  ultimately show ?thesis using n1 n2 unfolding step_account_def by (intro exI [of _ "n1 @ n2"]) (simp add: add.assoc)
qed

lemma step_account_local: "local_step crc ser call x = (recorded, out, y) \<Longrightarrow> step_account crc ser x recorded out y"
proof (induction crc ser call x rule: local_step.induct)
  case (1 crc ser rid now table pk kind data w s)
  then show ?case by (auto simp: step_account_def record_change_def Let_def all_changes_def intro!: exI [of _ "[]"])
next
  case (3 crc ser s)
  show ?case
  proof (cases rule: flush_cases [of s crc ser])
    case empty
    with 3 show ?thesis by (auto simp: step_account_def waiting_sets_def all_changes_def intro!: exI [of _ "[]"])
  next
    case (sent cs t s')
    note f = flush_prepare_fields [OF sent(2)] and o = send_event_other [OF sent(3)]
    from 3 sent f o show ?thesis
      by (auto simp: step_account_def waiting_sets_def all_changes_def changeset_new_def [of crc ser] changeset_verify_def intro!: exI [of _ "[cs]"])
  next
    case (waits cs t)
    note f = flush_prepare_fields [OF waits(2)]
    from 3 waits f show ?thesis
      by (auto simp: step_account_def waiting_sets_def all_changes_def changeset_new_def [of crc ser] changeset_verify_def intro!: exI [of _ "[cs]"])
  qed
next
  case (4 crc ser rx w s)
  then show ?case
    by (cases w) (auto simp: step_account_def waiting_sets_def all_changes_def send_event_other intro!: exI [of _ "[]"]
      split: prod.splits poll.splits)
qed (auto simp: step_account_def waiting_sets_def all_changes_def intro!: exI [of _ "[]"])

lemma step_account_refl: "step_account crc ser x [] [] x"
  by (auto simp: step_account_def all_changes_def intro!: exI [of _ "[]"])

lemma local_run_account: "local_run crc ser calls x = (recorded, out, y) \<Longrightarrow> step_account crc ser x recorded out y"
proof (induction calls arbitrary: x recorded out)
  case (Cons call calls)
  obtain r1 o1 z where z: "local_step crc ser call x = (r1, o1, z)" by (cases "local_step crc ser call x")
  obtain r2 o2 where o2: "local_run crc ser calls z = (r2, o2, y)" "recorded = r1 @ r2" "out = o1 @ o2"
    using Cons.prems z by (auto split: prod.splits)
  from step_account_trans [OF step_account_local [OF z] Cons.IH [OF o2(1)]] o2(2,3) show ?case by simp
qed (simp add: step_account_refl)

lemma local_step_waits: "local_step crc ser call x = (recorded, out, y) \<Longrightarrow> waits_rightly x \<Longrightarrow> waits_rightly y"
proof (induction crc ser call x rule: local_step.induct)
  case (3 crc ser s)
  show ?case
  proof (cases rule: flush_cases [of s crc ser])
    case (waits cs t)
    with 3 send_event_pending [OF waits(3)] show ?thesis by (auto simp: waits_rightly_def)
  qed (use 3 in \<open>auto simp: waits_rightly_def\<close>)
next
  case (4 crc ser rx w s)
  then show ?case
    by (cases w) (auto simp: waits_rightly_def dest: send_event_pending split: prod.splits poll.splits)
qed (auto simp: waits_rightly_def record_change_def Let_def)

lemma local_step_broadcasts:
  assumes "local_step crc ser call x = (recorded, out, y)" "call \<noteq> SetReceiver Dropped" "sy_receiver (snd x) \<noteq> Dropped"
  shows "broadcasts (snd y) = broadcasts (snd x) @ out \<and> sy_receiver (snd y) \<noteq> Dropped"
  using assms
proof (induction crc ser call x rule: local_step.induct)
  case (3 crc ser s)
  show ?case
  proof (cases rule: flush_cases [of s crc ser])
    case (sent cs t s')
    with 3 send_event_ready [OF sent(3)] flush_prepare_fields [OF sent(2)] show ?thesis
      by (auto simp: broadcasts_def waiting_sets_def)
  next
    case (waits cs t)
    with 3 flush_prepare_fields [OF waits(2)] show ?thesis by (auto simp: broadcasts_def waiting_sets_def)
  qed (use 3 in \<open>auto simp: broadcasts_def waiting_sets_def\<close>)
next
  case (4 crc ser rx w s)
  then show ?case
    by (cases w) (auto simp: broadcasts_def dest: send_event_pending send_event_ready split: prod.splits poll.splits)
qed (auto simp: broadcasts_def record_change_def Let_def)

lemma local_run_waits:
  assumes "local_run crc ser calls x = (recorded, out, y)" "waits_rightly x"
  shows "waits_rightly y
    \<and> (sy_receiver (snd x) \<noteq> Dropped \<and> SetReceiver Dropped \<notin> set calls \<longrightarrow> broadcasts (snd y) = broadcasts (snd x) @ out)"
  using assms
proof (induction calls arbitrary: x recorded out)
  case (Cons call calls)
  obtain r1 o1 z where z: "local_step crc ser call x = (r1, o1, z)" by (cases "local_step crc ser call x")
  obtain r2 o2 where o2: "local_run crc ser calls z = (r2, o2, y)" "out = o1 @ o2"
    using Cons.prems z by (auto split: prod.splits)
  from Cons.IH [OF o2(1) local_step_waits [OF z Cons.prems(2)]] local_step_broadcasts [OF z] o2(2) show ?case by auto
qed simp

text \<open>
  C23: Every recorded change is flushed exactly once and in order: over any sequence of recordings and
  non-overlapping flushes, while the reader of the events and the database come and go, the changes of the changesets that flushes have returned, followed by those of the
  changeset of a flush that waits and by those still pending, are exactly the changes pending at the start followed by those recorded; these changesets are numbered
  consecutively from the sequence number, carry the node as source, and verify. The changesets returned are those of the BroadcastReady events put into
  the channel, in this order, if its receiver is never dropped. A flush waits only while the channel is full (1024 events) and nobody reads.
\<close>

theorem flush_exactly_once:
  assumes "local_run crc ser calls (None, s) = (recorded, out, waiting, s')"
  shows "sy_pending_changes s @ recorded = all_changes (out @ waiting_sets waiting) @ sy_pending_changes s'
    \<and> numbered_from (sy_sequence s) (out @ waiting_sets waiting)
    \<and> sy_sequence s' = sy_sequence s + of_nat (length (out @ waiting_sets waiting))
    \<and> list_all (\<lambda>cs. changeset_verify crc ser cs \<and> cs_source cs = sy_node_id s) (out @ waiting_sets waiting)
    \<and> (sy_receiver s \<noteq> Dropped \<and> SetReceiver Dropped \<notin> set calls \<longrightarrow> broadcasts s' = broadcasts s @ out)
    \<and> (waiting \<noteq> None \<longrightarrow> (\<exists>q. sy_receiver s' = Unread q \<and> event_capacity \<le> q))"
  using local_run_account [OF assms] local_run_waits [OF assms]
  by (auto simp: step_account_def waits_rightly_def waiting_sets_def [of None])

theorem flush_exactly_once_witness:
  "\<exists>cs s'. local_run (\<lambda>_. 0) (\<lambda>_. None) [Record 10 10 ''backends'' ''b1'' Insert ''{}'', Flush, SetReceiver Reading]
       (None, empty_replica ''A'' (Unread event_capacity)) = ([example_change 10 Insert ''A''], [cs], None, s')
     \<and> broadcasts s' = [cs] \<and> cs_seq cs = 1 \<and> cs_changes cs @ sy_pending_changes s' = [example_change 10 Insert ''A'']"
proof -
  let ?s = "empty_replica ''A'' (Unread event_capacity)"
  let ?calls = "[Record 10 10 ''backends'' ''b1'' Insert ''{}'', Flush, SetReceiver Reading]"
  obtain cs s' where run: "local_run (\<lambda>_. 0) (\<lambda>_. None) ?calls (None, ?s) = ([example_change 10 Insert ''A''], [cs], None, s')"
    by (simp add: record_change_def flush_def Let_def empty_replica_def sync_service_new_def send_event_def persist_version_def example_change_def)
  from flush_exactly_once [OF run] have "broadcasts s' = broadcasts ?s @ [cs]" "cs_seq cs = sy_sequence ?s + 1"
    "sy_pending_changes ?s @ [example_change 10 Insert ''A''] = cs_changes cs @ sy_pending_changes s'"
    by (simp_all add: waiting_sets_def all_changes_def empty_replica_def sync_service_new_def)
  with run show ?thesis by (auto simp: empty_replica_def sync_service_new_def broadcasts_def)
qed

lemma load_versions_ok:
  "\<forall>(n, x) \<in> set rows. unat x < 2 ^ 63 \<Longrightarrow> load_versions rows v = (True, vv_merge_loop rows v)"
  by (induction rows arbitrary: v) (auto simp: read_u64_write)

lemma vv_merge_loop_Some:
  "n \<in> fst ` set rows \<or> dm_get v n \<noteq> None \<Longrightarrow> dm_get (vv_merge_loop rows v) n \<noteq> None"
proof (induction rows arbitrary: v)
  case (Cons e rows)
  obtain m q where "e = (m, q)" by (cases e)
  with Cons.IH [of "vv_update m q v"] Cons.prems show ?case by (auto simp: vv_update_def)
qed simp

text \<open>
  The database holds the number of the last flush, and only numbers that can be read back.
\<close>

definition number_stored :: "sync_service \<Rightarrow> bool" where
  "number_stored s \<longleftrightarrow>
     (\<exists>db. sy_db s = Some db \<and> sy_writable s \<and> dm_wf (db_versions db) \<and> (\<forall>(n, x) \<in> set (db_versions db). unat x < 2 ^ 63)
        \<and> vv_get (db_versions db) (sy_node_id s) = sy_sequence s)"

lemma unat_succ_le: "unat (w + 1 :: u64) \<le> unat w + 1"
  by (simp add: unat_word_ariths(1))

lemma flush_prepare_stored:
  assumes "flush_prepare crc ser s = (cs, t)" "number_stored s" "unat (sy_sequence s) + 1 < 2 ^ 63"
  shows "number_stored t"
proof -
  from assms(2) obtain db where db: "sy_db s = Some db" "sy_writable s" "dm_wf (db_versions db)"
    "\<forall>(n, x) \<in> set (db_versions db). unat x < 2 ^ 63" by (auto simp: number_stored_def)
  let ?rows = "dm_insert (sy_node_id s) (sy_sequence s + 1) (db_versions db)"
  have wf: "dm_wf ?rows" using db(3) by simp
  from unat_succ_le [of "sy_sequence s"] have "\<forall>(n, x) \<in> set ?rows. unat x < 2 ^ 63"
    using db(4) assms(3) dm_in_set_iff [OF wf] dm_in_set_iff [OF db(3)] by (auto split: if_splits) blast
  moreover have "sy_db t = Some (db\<lparr>db_versions := ?rows\<rparr>)"
    using assms(1) db(1,2) by (auto simp: flush_prepare_def persist_version_def)
  ultimately show ?thesis using wf flush_prepare_fields [OF assms(1)] db(2)
    by (simp add: number_stored_def vv_get_def [of ?rows])
qed

lemma number_stored_other:
  assumes "number_stored s" "sy_db t = sy_db s" "sy_writable t = sy_writable s" "sy_node_id t = sy_node_id s" "sy_sequence t = sy_sequence s"
  shows "number_stored t"
  using assms by (simp add: number_stored_def)

lemma local_step_stored:
  assumes "local_step crc ser call x = (recorded, out, y)" "number_stored (snd x)" "call \<noteq> SetWritable False"
    and "unat (sy_sequence (snd x)) + 1 < 2 ^ 63"
  shows "number_stored (snd y)"
  using assms
proof (induction crc ser call x rule: local_step.induct)
  case (3 crc ser s)
  show ?case
  proof (cases rule: flush_cases [of s crc ser])
    case (sent cs t s')
    have "number_stored t" using flush_prepare_stored [OF sent(2)] 3 by simp
    then show ?thesis using 3 sent(4) send_event_other [OF sent(3)] by (auto intro: number_stored_other)
  next
    case (waits cs t)
    with flush_prepare_stored [OF waits(2)] 3 show ?thesis by auto
  qed (use 3 in auto)
next
  case (4 crc ser rx w s)
  then have "number_stored (s\<lparr>sy_receiver := rx\<rparr>)" by (auto intro: number_stored_other)
  then have "number_stored t" if "send_event e (s\<lparr>sy_receiver := rx\<rparr>) = (r, t)" for e r t
    using send_event_other [OF that] by (rule_tac number_stored_other [of "s\<lparr>sy_receiver := rx\<rparr>"]) simp_all
  with \<open>number_stored (s\<lparr>sy_receiver := rx\<rparr>)\<close> 4 show ?case by (cases w) (auto split: prod.splits poll.splits)
qed (auto simp: record_change_def Let_def number_stored_def)

lemma local_step_new: "local_step crc ser call x = (recorded, out, y) \<Longrightarrow>
    length out + length (waiting_sets (fst y)) \<le> length (waiting_sets (fst x)) + 1"
proof (induction crc ser call x rule: local_step.induct)
  case (4 crc ser rx w s)
  then show ?case by (cases w) (auto simp: waiting_sets_def split: prod.splits poll.splits)
qed (auto simp: waiting_sets_def record_change_def Let_def split: prod.splits poll.splits option.splits sync_event.splits)

lemma local_step_sequence:
  assumes "local_step crc ser call x = (recorded, out, y)"
  shows "sy_sequence (snd y) = sy_sequence (snd x) \<or> sy_sequence (snd y) = sy_sequence (snd x) + 1"
proof -
  obtain new where "waiting_sets (fst x) @ new = out @ waiting_sets (fst y)" "sy_sequence (snd y) = sy_sequence (snd x) + of_nat (length new)"
    using step_account_local [OF assms] unfolding step_account_def by blast
  moreover from this(1) local_step_new [OF assms] have "length new \<le> 1"
    by (metis add_le_cancel_left length_append)
  ultimately show ?thesis by (cases new) auto
qed

lemma local_run_new: "local_run crc ser calls x = (recorded, out, y) \<Longrightarrow>
    length out + length (waiting_sets (fst y)) \<le> length (waiting_sets (fst x)) + length calls"
proof (induction calls arbitrary: x recorded out)
  case (Cons call calls)
  obtain r1 o1 z where z: "local_step crc ser call x = (r1, o1, z)" by (cases "local_step crc ser call x")
  obtain r2 o2 where "local_run crc ser calls z = (r2, o2, y)" "out = o1 @ o2" using Cons.prems z by (auto split: prod.splits)
  with Cons.IH local_step_new [OF z] show ?case by fastforce
qed simp

lemma numbered_bounds:
  "numbered_from q xs \<Longrightarrow> unat q + length xs < 2 ^ 64 \<Longrightarrow> cs \<in> set xs \<Longrightarrow> q < cs_seq cs \<and> cs_seq cs \<le> q + of_nat (length xs)"
proof (induction xs arbitrary: q)
  case (Cons x xs)
  have q: "unat (q + 1) = unat q + 1" using Cons.prems(2) by (simp add: unat_plus_if')
  have l: "unat (q + of_nat (length (x # xs))) = unat q + length (x # xs)"
    using Cons.prems(2) by (simp add: unat_word_ariths(1) unat_of_nat)
  show ?case
  proof (cases "cs = x")
    case True
    with Cons.prems q l show ?thesis by (simp add: word_less_nat_alt word_le_nat_alt)
  next
    case False
    with Cons.IH [of "q + 1"] Cons.prems q have "q + 1 < cs_seq cs \<and> cs_seq cs \<le> q + 1 + of_nat (length xs)" by auto
    with q show ?thesis by (simp add: word_less_nat_alt add.assoc)
  qed
qed simp

lemma local_run_stored:
  assumes "local_run crc ser calls x = (recorded, out, y)" "number_stored (snd x)" "SetWritable False \<notin> set calls"
    and "unat (sy_sequence (snd x)) + length calls < 2 ^ 63"
  shows "number_stored (snd y)"
  using assms
proof (induction calls arbitrary: x recorded out)
  case (Cons call calls)
  obtain r1 o1 z where z: "local_step crc ser call x = (r1, o1, z)" by (cases "local_step crc ser call x")
  obtain r2 o2 where o2: "local_run crc ser calls z = (r2, o2, y)" using Cons.prems(1) z by (auto split: prod.splits)
  have "unat (sy_sequence (snd z)) \<le> unat (sy_sequence (snd x)) + 1"
    using local_step_sequence [OF z] unat_succ_le by auto
  then show ?case using Cons.IH [OF o2] local_step_stored [OF z] Cons.prems(2-4) by auto
qed simp

text \<open>A restart: a new service on the database that was left, and its initialisation.\<close>

definition restarted :: "sync_service \<Rightarrow> (sync_error + unit) \<times> sync_service" where
  "restarted s = init_db (sync_service_new (sy_node_id s) (sy_db s))"

lemma restarted_stored:
  assumes "number_stored s"
  shows "fst (restarted s) = Inr () \<and> sy_sequence (snd (restarted s)) = sy_sequence s \<and> number_stored (snd (restarted s))"
proof -
  let ?n = "sy_node_id s"
  from assms obtain db where db: "sy_db s = Some db" "dm_wf (db_versions db)"
    "\<forall>(n, x) \<in> set (db_versions db). unat x < 2 ^ 63" "vv_get (db_versions db) ?n = sy_sequence s" by (auto simp: number_stored_def)
  let ?v = "vv_merge_loop (db_versions db) vv_new"
  have l: "load_versions (db_versions db) vv_new = (True, ?v)" by (rule load_versions_ok [OF db(3)])
  have v: "vv_get ?v ?n = sy_sequence s"
    using vv_get_merge [OF db(2), of vv_new ?n] db(4) by (simp add: vv_merge_def vv_get_def [of vv_new]) (simp add: vv_new_def)
  have "sy_sequence (snd (restarted s)) = sy_sequence s"
    using v l db(1) by (simp add: restarted_def init_db_def sync_service_new_def Let_def vv_get_def split: option.splits)
  moreover have "fst (restarted s) = Inr ()" "sy_db (snd (restarted s)) = Some db" "sy_writable (snd (restarted s))"
    "sy_node_id (snd (restarted s)) = ?n"
    using l db(1) by (simp_all add: restarted_def init_db_def sync_service_new_def Let_def split: option.splits)
  ultimately show ?thesis using db by (simp add: number_stored_def)
qed

text \<open>
  C38: A restart resumes the numbering. A node whose database holds its number, as a new one does, records changes and makes flushes that do not overlap, every write of a
  number succeeding and all numbers below \<open>2^63\<close>. Started again on that database, its initialisation succeeds and it has the sequence number it
  had, which no changeset that it flushed exceeds, also one whose flush was still waiting; so the next one has a new number, and the database holds the
  number again for the next life. (Flushes that overlap, or a write that fails, can lose a number.)
\<close>

theorem restart_resumes_sequence:
  assumes "number_stored s" "local_run crc ser calls (None, s) = (recorded, out, waiting, s')"
    and "SetWritable False \<notin> set calls" "unat (sy_sequence s) + length calls < 2 ^ 63"
  shows "fst (restarted s') = Inr () \<and> sy_sequence (snd (restarted s')) = sy_sequence s' \<and> number_stored (snd (restarted s'))
    \<and> (\<forall>cs \<in> set (out @ waiting_sets waiting). sy_sequence s < cs_seq cs \<and> cs_seq cs \<le> sy_sequence (snd (restarted s')))"
proof -
  have new: "numbered_from (sy_sequence s) (out @ waiting_sets waiting)"
    "sy_sequence s' = sy_sequence s + of_nat (length (out @ waiting_sets waiting))"
    using local_run_account [OF assms(2)] by (auto simp: step_account_def waiting_sets_def [of None])
  have "length (out @ waiting_sets waiting) \<le> length calls"
    using local_run_new [OF assms(2)] by (simp add: waiting_sets_def [of None])
  with assms(4) have "unat (sy_sequence s) + length (out @ waiting_sets waiting) < 2 ^ 64" by simp
  from numbered_bounds [OF new(1) this] new(2)
  have "\<forall>cs \<in> set (out @ waiting_sets waiting). sy_sequence s < cs_seq cs \<and> cs_seq cs \<le> sy_sequence s'" by simp
  moreover have "number_stored s'" using local_run_stored [OF assms(2) _ assms(3)] assms(1,4) by simp
  ultimately show ?thesis using restarted_stored by simp
qed

theorem restart_resumes_sequence_witness:
  "let s' = snd (snd (snd (local_run (\<lambda>_. 0) (\<lambda>_. None) [Record 10 10 ''backends'' ''b1'' Insert ''{}'', Flush]
     (None, empty_replica ''A'' (Unread event_capacity))))) in sy_sequence (snd (restarted s')) = 1 \<and> number_stored (snd (restarted s'))"
proof -
  let ?s = "empty_replica ''A'' (Unread event_capacity)" and ?calls = "[Record 10 10 ''backends'' ''b1'' Insert ''{}'', Flush]"
  have st: "number_stored ?s" "sy_sequence ?s = 0"
    by (simp_all add: number_stored_def empty_replica_def sync_service_new_def empty_db_def vv_get_def) (simp add: dm_empty_def)
  obtain recorded out cs s' where run: "local_run (\<lambda>_. 0) (\<lambda>_. None) ?calls (None, ?s) = (recorded, out, Some cs, s')" "sy_sequence s' = 1"
    by (simp add: record_change_def flush_def Let_def empty_replica_def sync_service_new_def send_event_def persist_version_def)
  from restart_resumes_sequence [OF st(1) run(1)] st(2) run show ?thesis by (simp add: Let_def)
qed

text \<open>
  Version vectors form a lattice of what has been seen: merging is the pointwise maximum, so it is
  commutative, associative and idempotent on every node, and a sequence number is seen after a merge
  exactly when either side had seen it.
\<close>

lemma vv_merge_lattice:
  assumes "dm_wf b" "dm_wf c"
  shows "vv_get (vv_merge a b) n = max (vv_get a n) (vv_get b n)
    \<and> vv_has_seen (vv_merge a b) n q = (vv_has_seen a n q \<or> vv_has_seen b n q)
    \<and> vv_get (vv_merge (vv_merge a b) c) n = vv_get (vv_merge (vv_merge a c) b) n
    \<and> vv_get (vv_merge b b) n = vv_get b n"
  using assms by (simp add: vv_get_merge vv_has_seen_def le_max_iff_disj max.commute max.left_commute)

lemma vv_merge_lattice_witness:
  "vv_get (vv_merge [(''A'', 3)] [(''A'', 5), (''B'', 1)]) ''A'' = 5"
  using vv_merge_lattice [of "[(''A'', 5), (''B'', 1)]" "[]" "[(''A'', 3)]" "''A''"]
  by (simp add: dm_wf_def vv_get_def dm_get_def)

section \<open>What does not hold\<close>

text \<open>
  A node's own changes never enter the timestamps, so an older change of a peer is applied over a newer
  local one, while the peer applies the local one over its own: the two replicas exchange their values.
\<close>

lemma local_change_not_protected:
  assumes "sy_db s = Some db" "dm_get (sy_last_timestamps s) (change_key c) = None"
    and "dm_get (db_lww db) (change_key c) = None"
    and "record_change crc rid now (ch_table c) (ch_pk c) kind data s = (mine, s1)"
    and "flush crc ser s1 = (r, s2)" "ch_timestamp c < ch_timestamp mine"
  shows "should_apply_change c s2 = Inr True"
proof -
  have s1: "s1 = s\<lparr>sy_pending_changes := sy_pending_changes s @ [mine]\<rparr>"
    using assms(4) by (auto simp: record_change_def Let_def)
  have "sy_last_timestamps s2 = sy_last_timestamps s" "\<exists>x. sy_db s2 = Some (db\<lparr>db_versions := x\<rparr>)"
    using assms(1,5) s1 by (cases db; auto simp: flush_def Let_def send_event_def persist_version_def split: receiver.splits if_splits)+
  with assms(2,3) show ?thesis
    by (auto simp: should_apply_change_def stored_timestamp_def)
qed

text \<open>A changeset that arrives after a later one of its source is dropped without being applied.\<close>

lemma late_changeset_dropped:
  assumes "changeset_verify crc ser late" "cs_source late = cs_source first" "cs_seq late < cs_seq first"
    and "apply_changeset crc ser parse now first s = (Ready (Inr n), s')"
  shows "apply_changeset crc ser parse now' late s' = (Ready (Inr 0), s')"
  using assms(1-3) apply_changeset_seen [OF assms(4)] by (auto simp: apply_changeset_def vv_has_seen_def)

text \<open>Malformed data is an error, but the timestamp is already stored: a retry skips the change and succeeds.\<close>

lemma malformed_change_skipped_on_retry:
  assumes "sy_db s = Some db" "sy_writable s" "ch_table c = ''backends''" "ch_kind c = Update" "parse (ch_data c) = None"
    and "should_apply_change c s = Inr True" "wall_time (ch_timestamp c) < 2 ^ 63"
  shows "\<exists>s'. apply_changes parse now [c] 0 s = (Ready (Inl JsonError), s') \<and> should_apply_change c s' = Inr False"
  using assms read_write_lww [OF assms(7)]
  by (auto simp: apply_single_change_def apply_backend_change_def Let_def should_apply_change_def
      stored_timestamp_def split: option.split)

text \<open>
  The agent never takes the receiver of the events (\<^verbatim>\<open>agent.rs\<close>), so that after 1024 events a flush waits for good: its changes are no longer pending, and its
  changeset is neither returned, and so not broadcast, nor in the channel.
\<close>

lemma full_channel_loses_flush:
  assumes "sy_receiver s = Unread q" "event_capacity \<le> q" "sy_pending_changes s \<noteq> []"
  shows "\<exists>cs s'. flush crc ser s = (Pending (BroadcastReady cs), s') \<and> cs_changes cs = sy_pending_changes s
    \<and> sy_pending_changes s' = [] \<and> broadcasts s' = broadcasts s \<and> sy_sequence s' = sy_sequence s + 1"
  using assms by (simp add: flush_def Let_def send_event_def changeset_new_def broadcasts_def)

text \<open>The write of a number that fails is only logged: after a restart the number is used again.\<close>

lemma failed_persist_reuses_number:
  "\<exists>cs s'. flush (\<lambda>_. 0) (\<lambda>_. None) ((empty_replica ''A'' Reading)\<lparr>sy_pending_changes := [example_change 1 Insert ''A''], sy_writable := False\<rparr>)
     = (Ready (Some cs), s') \<and> cs_seq cs = 1 \<and> sy_sequence (snd (restarted s')) = 0"
  by (simp add: flush_def Let_def send_event_def persist_version_def empty_replica_def sync_service_new_def changeset_new_def restarted_def
      init_db_def empty_db_def vv_new_def) (simp add: dm_empty_def dm_get_def)

text \<open>A change without a country stores a null that the SQLite repository cannot read, so the next reload
  of the whole table fails; and a boolean \<^verbatim>\<open>healthy\<close> is not an integer, so \<^verbatim>\<open>false\<close> is stored as 1.\<close>

lemma missing_country_breaks_reload:
  assumes "json_get d ''country'' = None"
  shows "load_from_sqlite (Some [change_row d pk]) = Inl (InvalidColumnType 3)"
  using assms by (simp add: load_from_sqlite_def change_row_def row_visible_def row_to_backend_def text_or_null_def
      text_or_def)

lemma boolean_healthy_ignored:
  "row_healthy (change_row (JObj [(''healthy'', JBool False)]) pk) = SqlInteger 1"
  by (simp add: change_row_def int_or_def)

end
