(* ===== verification/Transport.thy ===== *)
theory Transport
  imports Replication_Types Replication_Config
begin

unbundle bit_operations_syntax

text \<open>
  The peer transport, \<^verbatim>\<open>src/replication/transport.rs\<close>: the certificate setup and start of the endpoint, the
  length-prefixed framing, the helpers on messages, the table of peers, the accept loop, the reading of incoming streams, requests and the
  broadcast. The library calls of the setup are the fields of the record \<open>quic_lib\<close>; a stream is the list of bytes written on it before it is finished,
  whether a connection is alive and accepts a stream is an argument, and so is \<^verbatim>\<open>bincode\<close> (\<open>ser\<close> and \<open>de\<close>). The events are
  the list of those sent, by a task each, into a channel that holds 1024; a task waits there while the channel is full and unread.
\<close>

section \<open>Framing\<close>

definition to_be_bytes :: "u32 \<Rightarrow> bytes" where
  "to_be_bytes w = [ucast (drop_bit 24 w), ucast (drop_bit 16 w), ucast (drop_bit 8 w), ucast w]"

fun from_be_bytes :: "bytes \<Rightarrow> u32" where
  "from_be_bytes [a, b, c, d] =
     (push_bit 24 (ucast a) OR push_bit 16 (ucast b) OR push_bit 8 (ucast c) OR ucast d)"
| "from_be_bytes _ = 0"

definition encode_message :: "(message \<Rightarrow> bytes option) \<Rightarrow> message \<Rightarrow> bytes option" where
  "encode_message ser m =
     map_option (\<lambda>data. to_be_bytes (of_nat (length data)) @ data) (ser m)"

definition decode_length :: "bytes \<Rightarrow> u32" where
  "decode_length buf = from_be_bytes buf"

definition decode_message :: "(bytes \<Rightarrow> message option) \<Rightarrow> bytes \<Rightarrow> message option" where
  "decode_message de data = de data"

text \<open>\<^verbatim>\<open>read_exact\<close> on a stream: the bytes and the rest, or an error when the stream ends before.\<close>

definition read_exact :: "nat \<Rightarrow> bytes \<Rightarrow> (bytes \<times> bytes) option" where
  "read_exact n s = (if n \<le> length s then Some (take n s, drop n s) else None)"

definition max_message :: nat where
  "max_message = 10 * 1024 * 1024"

text \<open>The task that \<^verbatim>\<open>handle_connection\<close> spawns for a stream: the message it reports, if any.\<close>

definition receive_stream :: "(bytes \<Rightarrow> message option) \<Rightarrow> bytes \<Rightarrow> message option" where
  "receive_stream de s =
     (case read_exact 4 s of
        None \<Rightarrow> None
      | Some (len_buf, s) \<Rightarrow>
          let len = unat (from_be_bytes len_buf) in
          if max_message < len then None
          else (case read_exact len s of None \<Rightarrow> None | Some (data, _) \<Rightarrow> de data))"

section \<open>Messages\<close>

definition validate_broadcast :: "crc32 \<Rightarrow> serializer \<Rightarrow> changeset \<Rightarrow> bool" where
  "validate_broadcast crc ser cs = changeset_verify crc ser cs"

definition create_broadcast :: "changeset \<Rightarrow> message" where
  "create_broadcast cs = Broadcast cs"

definition create_sync_request :: "u64 \<Rightarrow> string option \<Rightarrow> message" where
  "create_sync_request from_seq table = SyncRequest from_seq table"

definition create_sync_response :: "changeset list \<Rightarrow> message" where
  "create_sync_response css = SyncResponse css"

fun extract_broadcast :: "message \<Rightarrow> changeset option" where
  "extract_broadcast (Broadcast cs) = Some cs"
| "extract_broadcast _ = None"

fun extract_sync_request :: "message \<Rightarrow> (u64 \<times> string option) option" where
  "extract_sync_request (SyncRequest q t) = Some (q, t)"
| "extract_sync_request _ = None"

fun extract_sync_response :: "message \<Rightarrow> changeset list option" where
  "extract_sync_response (SyncResponse css) = Some css"
| "extract_sync_response _ = None"

fun is_broadcast :: "message \<Rightarrow> bool" where
  "is_broadcast (Broadcast _) = True"
| "is_broadcast _ = False"

fun is_sync_request :: "message \<Rightarrow> bool" where
  "is_sync_request (SyncRequest _ _) = True"
| "is_sync_request _ = False"

fun is_sync_response :: "message \<Rightarrow> bool" where
  "is_sync_response (SyncResponse _) = True"
| "is_sync_response _ = False"

fun message_type_name :: "message \<Rightarrow> string" where
  "message_type_name (Broadcast _) = ''Broadcast''"
| "message_type_name (SyncRequest _ _) = ''SyncRequest''"
| "message_type_name (SyncResponse _) = ''SyncResponse''"
| "message_type_name (Ack _ _) = ''Ack''"
| "message_type_name Ping = ''Ping''"
| "message_type_name Pong = ''Pong''"

definition validate_sync_request :: "u64 \<Rightarrow> bool" where
  "validate_sync_request from_seq = True"

fun count_sync_response_changesets :: "message \<Rightarrow> nat" where
  "count_sync_response_changesets (SyncResponse css) = length css"
| "count_sync_response_changesets _ = 0"

fun count_broadcast_changes :: "message \<Rightarrow> nat" where
  "count_broadcast_changes (Broadcast cs) = length (cs_changes cs)"
| "count_broadcast_changes _ = 0"

fun get_broadcast_seq :: "message \<Rightarrow> u64 option" where
  "get_broadcast_seq (Broadcast cs) = Some (cs_seq cs)"
| "get_broadcast_seq _ = None"

fun get_sync_request_from_seq :: "message \<Rightarrow> u64 option" where
  "get_sync_request_from_seq (SyncRequest q _) = Some q"
| "get_sync_request_from_seq _ = None"

section \<open>The service\<close>

record peer_connection =
  pr_node_id :: node_id
  pr_addr :: socket_addr
  pr_connection :: nat

datatype transport_event = MessageReceived node_id message | PeerConnected node_id | PeerDisconnected node_id

record transport_service =
  tr_config :: replication_config
  tr_endpoint :: bool
  tr_peers :: "(string, peer_connection) store"
  tr_events :: "transport_event list"
  tr_shutdown :: bool

definition transport_service_new :: "replication_config \<Rightarrow> transport_service" where
  "transport_service_new cfg =
     \<lparr>tr_config = cfg, tr_endpoint = False, tr_peers = dm_empty, tr_events = [], tr_shutdown = False\<rparr>"

definition transport_peers :: "transport_service \<Rightarrow> peer_connection list" where
  "transport_peers t = dm_values (tr_peers t)"

definition transport_get_peer :: "transport_service \<Rightarrow> string \<Rightarrow> peer_connection option" where
  "transport_get_peer t n = dm_get (tr_peers t) n"

definition transport_shutdown :: "transport_service \<Rightarrow> transport_service" where
  "transport_shutdown t = t\<lparr>tr_shutdown := True\<rparr>"

definition transport_emit :: "transport_event \<Rightarrow> transport_service \<Rightarrow> transport_service" where
  "transport_emit e t = t\<lparr>tr_events := tr_events t @ [e]\<rparr>"

definition transport_is_shutdown :: "transport_service \<Rightarrow> bool" where
  "transport_is_shutdown t = tr_shutdown t"

text \<open>
  The verifier of the client configuration: any certificate and any signature of a server is accepted.
\<close>

definition verify_server_cert :: "bytes \<Rightarrow> bytes list \<Rightarrow> string \<Rightarrow> bytes \<Rightarrow> nat \<Rightarrow> string + unit" where
  "verify_server_cert end_entity intermediates server_name ocsp_response now = Inr ()"

definition verify_tls12_signature :: "bytes \<Rightarrow> bytes \<Rightarrow> bytes \<Rightarrow> string + unit" where
  "verify_tls12_signature message cert dss = Inr ()"

definition verify_tls13_signature :: "bytes \<Rightarrow> bytes \<Rightarrow> bytes \<Rightarrow> string + unit" where
  "verify_tls13_signature message cert dss = Inr ()"

datatype signature_scheme =
    RSA_PKCS1_SHA256 | RSA_PKCS1_SHA384 | RSA_PKCS1_SHA512 | ECDSA_NISTP256_SHA256 | ECDSA_NISTP384_SHA384
  | ECDSA_NISTP521_SHA512 | RSA_PSS_SHA256 | RSA_PSS_SHA384 | RSA_PSS_SHA512 | ED25519

definition supported_verify_schemes :: "signature_scheme list" where
  "supported_verify_schemes =
     [RSA_PKCS1_SHA256, RSA_PKCS1_SHA384, RSA_PKCS1_SHA512, ECDSA_NISTP256_SHA256, ECDSA_NISTP384_SHA384,
      ECDSA_NISTP521_SHA512, RSA_PSS_SHA256, RSA_PSS_SHA384, RSA_PSS_SHA512, ED25519]"

text \<open>
  \<^verbatim>\<open>start\<close>: a self-signed certificate for the node's id and \<^verbatim>\<open>localhost\<close>, the server and client configurations, the endpoint on the
  transport address; the first failure ends it. The libraries' part in each step is a field of \<open>quic_lib\<close>.
\<close>

record quic_lib =
  ql_self_signed :: "string list \<Rightarrow> string + bytes \<times> bytes"
  ql_private_key :: "bytes \<Rightarrow> string + bytes"
  ql_single_cert :: "bytes list \<Rightarrow> bytes \<Rightarrow> string + unit"
  ql_server_config :: "string + unit"
  ql_client_config :: "string + unit"
  ql_endpoint :: "socket_addr \<Rightarrow> string + unit"

definition transport_setup :: "quic_lib \<Rightarrow> replication_config \<Rightarrow> string + unit" where
  "transport_setup L cfg =
     and_then (ql_self_signed L [rc_node_id cfg, ''localhost'']) (\<lambda>(cert_der, key_der).
     and_then (map_err (\<lambda>e. ''failed to parse private key: '' @ e) (ql_private_key L key_der)) (\<lambda>private_key.
     and_then (ql_single_cert L [cert_der] private_key) (\<lambda>_.
     and_then (ql_server_config L) (\<lambda>_.
     and_then (ql_client_config L) (\<lambda>_.
       ql_endpoint L (rc_transport_addr cfg))))))"

definition transport_start :: "quic_lib \<Rightarrow> transport_service \<Rightarrow> (string + unit) \<times> transport_service" where
  "transport_start L t =
     (case transport_setup L (tr_config t) of Inl e \<Rightarrow> (Inl e, t) | Inr _ \<Rightarrow> (Inr (), t\<lparr>tr_endpoint := True\<rparr>))"

text \<open>The task for an accepted connection, with the text of its remote address: the peer is named after the address.\<close>

definition transport_accept :: "string \<Rightarrow> socket_addr \<Rightarrow> nat \<Rightarrow> transport_service \<Rightarrow> node_id \<times> transport_service" where
  "transport_accept shown addr conn t =
     (let n = ''peer-'' @ shown;
          peer = \<lparr>pr_node_id = n, pr_addr = addr, pr_connection = conn\<rparr>
      in (n, transport_emit (PeerConnected n) (t\<lparr>tr_peers := dm_insert n peer (tr_peers t)\<rparr>)))"

text \<open>
  The accept loop over what the endpoint gives: it ends on shutdown and when the endpoint is closed; a failed handshake is logged.
\<close>

datatype quic_incoming = IncomingConn string socket_addr nat | IncomingFailed string | EndpointClosed

fun transport_accept_loop :: "quic_incoming list \<Rightarrow> transport_service \<Rightarrow> transport_service" where
  "transport_accept_loop [] t = t"
| "transport_accept_loop (i # is) t =
     (if transport_is_shutdown t then t
      else case i of
          IncomingConn shown addr conn \<Rightarrow> transport_accept_loop is (snd (transport_accept shown addr conn t))
        | IncomingFailed e \<Rightarrow> transport_accept_loop is t
        | EndpointClosed \<Rightarrow> t)"

text \<open>The streams of an accepted connection until it closes.\<close>

fun handle_streams ::
  "(bytes \<Rightarrow> message option) \<Rightarrow> node_id \<Rightarrow> bytes list \<Rightarrow> transport_service \<Rightarrow> transport_service" where
  "handle_streams de peer [] t = transport_emit (PeerDisconnected peer) t"
| "handle_streams de peer (s # ss) t =
     handle_streams de peer ss
       (case receive_stream de s of Some m \<Rightarrow> transport_emit (MessageReceived peer m) t | None \<Rightarrow> t)"

definition transport_connect ::
  "nat option \<Rightarrow> socket_addr \<Rightarrow> string \<Rightarrow> transport_service \<Rightarrow> peer_connection option \<times> transport_service" where
  "transport_connect conn addr n t =
     (if \<not> tr_endpoint t then (None, t)
      else
        case conn of
          None \<Rightarrow> (None, t)
        | Some c \<Rightarrow>
            let peer = \<lparr>pr_node_id = n, pr_addr = addr, pr_connection = c\<rparr>
            in (Some peer, transport_emit (PeerConnected n) (t\<lparr>tr_peers := dm_insert n peer (tr_peers t)\<rparr>)))"

text \<open>Sending on a peer: the stream it writes, when a stream can be opened and the message serialised.\<close>

definition peer_send :: "(message \<Rightarrow> bytes option) \<Rightarrow> (nat \<Rightarrow> bool) \<Rightarrow> peer_connection \<Rightarrow> message \<Rightarrow> bytes option" where
  "peer_send ser writable peer m =
     (if \<not> writable (pr_connection peer) then None
      else case ser m of
          None \<Rightarrow> None
        | Some data \<Rightarrow> Some (to_be_bytes (of_nat (length data)) @ data))"

text \<open>
  \<^verbatim>\<open>request\<close>: the request goes out on a new two-way stream and the response is read from it; \<open>reply\<close> is what the peer writes back
  until it finishes or resets the stream. There is no limit on the length of the response.
\<close>

definition peer_request ::
  "(message \<Rightarrow> bytes option) \<Rightarrow> (bytes \<Rightarrow> message option) \<Rightarrow> (nat \<Rightarrow> bool) \<Rightarrow> (bytes \<Rightarrow> bytes) \<Rightarrow> peer_connection \<Rightarrow> message
     \<Rightarrow> message option" where
  "peer_request ser de opens reply peer m =
     (if \<not> opens (pr_connection peer) then None
      else case ser m of
          None \<Rightarrow> None
        | Some data \<Rightarrow>
            (let recv = reply (to_be_bytes (of_nat (length data)) @ data)
             in case read_exact 4 recv of
                  None \<Rightarrow> None
                | Some (len_buf, recv) \<Rightarrow>
                    (case read_exact (unat (from_be_bytes len_buf)) recv of
                       None \<Rightarrow> None
                     | Some (data, _) \<Rightarrow> de data)))"

definition is_alive :: "(nat \<Rightarrow> string option) \<Rightarrow> peer_connection \<Rightarrow> bool" where
  "is_alive close_reason peer = (close_reason (pr_connection peer) = None)"

fun broadcast_loop ::
  "(message \<Rightarrow> bytes option) \<Rightarrow> (nat \<Rightarrow> bool) \<Rightarrow> (nat \<Rightarrow> bool) \<Rightarrow> message \<Rightarrow> peer_connection list
     \<Rightarrow> nat \<times> (node_id \<times> bytes) list" where
  "broadcast_loop ser alive writable m [] = (0, [])"
| "broadcast_loop ser alive writable m (p # ps) =
     (let (sent, out) = broadcast_loop ser alive writable m ps in
      if alive (pr_connection p) then
        (case peer_send ser writable p m of
           Some b \<Rightarrow> (Suc sent, (pr_node_id p, b) # out)
         | None \<Rightarrow> (sent, out))
      else (sent, out))"

definition transport_broadcast ::
  "(message \<Rightarrow> bytes option) \<Rightarrow> (nat \<Rightarrow> bool) \<Rightarrow> (nat \<Rightarrow> bool) \<Rightarrow> message \<Rightarrow> transport_service
     \<Rightarrow> nat \<times> (node_id \<times> bytes) list" where
  "transport_broadcast ser alive writable m t = broadcast_loop ser alive writable m (transport_peers t)"

definition broadcast_changeset ::
  "(message \<Rightarrow> bytes option) \<Rightarrow> (nat \<Rightarrow> bool) \<Rightarrow> (nat \<Rightarrow> bool) \<Rightarrow> changeset \<Rightarrow> transport_service
     \<Rightarrow> nat \<times> (node_id \<times> bytes) list" where
  "broadcast_changeset ser alive writable cs t = transport_broadcast ser alive writable (Broadcast cs) t"

section \<open>Lemmas\<close>

lemma length_to_be_bytes [simp]: "length (to_be_bytes w) = 4"
  by (simp add: to_be_bytes_def)

lemma from_to_be_bytes [simp]: "from_be_bytes (to_be_bytes w) = w"
proof (rule bit_word_eqI)
  fix n
  assume "n < LENGTH(32)"
  then consider "n < 8" | "8 \<le> n" "n < 16" | "16 \<le> n" "n < 24" | "24 \<le> n" "n < 32"
    by fastforce
  then show "bit (from_be_bytes (to_be_bytes w)) n = bit w n"
    by cases (auto simp: to_be_bytes_def bit_simps)
qed

lemma read_exact_append [simp]: "length a = n \<Longrightarrow> read_exact n (a @ s) = Some (a, s)"
  by (simp add: read_exact_def)

lemma receive_frame:
  assumes "length data < 2 ^ 32"
  shows "receive_stream de ((to_be_bytes (of_nat (length data)) @ data) @ rest)
    = (if length data \<le> max_message then de data else None)"
proof -
  have "unat (of_nat (length data) :: u32) = length data"
    using assms by (simp add: unat_of_nat take_bit_nat_eq_self)
  then show ?thesis by (auto simp: receive_stream_def Let_def)
qed

lemma broadcast_loop_spec:
  "broadcast_loop ser alive writable m ps =
     (let out = [(pr_node_id p, b). p \<leftarrow> ps, alive (pr_connection p), b \<leftarrow> (case peer_send ser writable p m of Some b \<Rightarrow> [b] | None \<Rightarrow> [])]
      in (length out, out))"
  by (induction ps) (auto simp: Let_def split: option.splits)

lemma broadcast_received:
  assumes "ser m = Some data" "de data = Some m" "length data \<le> max_message"
  shows "map fst (snd (transport_broadcast ser alive writable m t)) = map pr_node_id
       (filter (\<lambda>p. alive (pr_connection p) \<and> writable (pr_connection p)) (transport_peers t))
    \<and> fst (transport_broadcast ser alive writable m t) = length (snd (transport_broadcast ser alive writable m t))
    \<and> (\<forall>(p, b) \<in> set (snd (transport_broadcast ser alive writable m t)). receive_stream de b = Some m)"
proof -
  let ?f = "to_be_bytes (of_nat (length data)) @ data"
  have s: "peer_send ser writable p m = (if writable (pr_connection p) then Some ?f else None)" for p
    using assms(1) by (simp add: peer_send_def)
  have "broadcast_loop ser alive writable m ps =
      (length (filter (\<lambda>p. alive (pr_connection p) \<and> writable (pr_connection p)) ps),
       map (\<lambda>p. (pr_node_id p, ?f)) (filter (\<lambda>p. alive (pr_connection p) \<and> writable (pr_connection p)) ps))" for ps
    by (induction ps) (auto simp: s)
  moreover have "length data < 2 ^ 32" using assms(3) by (simp add: max_message_def)
  then have "receive_stream de ?f = Some m"
    using receive_frame [of data de "[]"] assms(2,3) by simp
  ultimately show ?thesis by (auto simp: transport_broadcast_def)
qed

text \<open>A request is answered by a peer that reads the request frame and writes the response frame.\<close>

lemma peer_request_answered:
  assumes "ser m = Some data" "length data < 2 ^ 32" "de data = Some m"
    and "ser r = Some rdata" "length rdata < 2 ^ 32" "de rdata = Some r" and "opens (pr_connection p)"
    and "\<And>s. read_exact 4 s \<noteq> None \<Longrightarrow> reply s = to_be_bytes (of_nat (length rdata)) @ rdata"
  shows "peer_request ser de opens reply p m = Some r"
proof -
  have "unat (of_nat (length rdata) :: u32) = length rdata"
    using assms(5) by (simp add: unat_of_nat take_bit_nat_eq_self)
  with assms show ?thesis by (simp add: peer_request_def read_exact_def)
qed

text \<open>
  No node answers: the connection handler accepts one-way streams only, so the request stream is never read and never written
  to, and every request ends in an error (or waits for ever, while the connection lasts).
\<close>

lemma unanswered_request_fails: "peer_request ser de opens (\<lambda>_. []) p m = None"
  by (simp add: peer_request_def read_exact_def split: option.split)

text \<open>A peer whose connection has ended stays in the table of peers.\<close>

lemma disconnected_peer_kept: "tr_peers (handle_streams de peer ss t) = tr_peers t"
  by (induction de peer ss t rule: handle_streams.induct) (simp_all add: transport_emit_def split: option.split)

section \<open>Properties\<close>

text \<open>
  C31: Framing round-trips for every frame shorter than \<open>2^32\<close> bytes: a message that the codec serialises to at most ten megabytes and decodes again is
  received exactly as it was sent, whatever bytes follow it on the stream, and the prefix of the frame is
  its length; the sender accepts a larger message too, but the receiver drops every such frame above ten megabytes. (From \<open>2^32\<close> bytes on the length is cut to
  32 bits, and the receiver takes the first bytes for the message.)
\<close>

theorem framing_roundtrip:
  assumes "encode_message ser m = Some frame"
    and "\<And>data. ser m = Some data \<Longrightarrow> de data = Some m" "length frame < 2 ^ 32"
  shows "receive_stream de (frame @ rest) = (if length frame \<le> max_message + 4 then Some m else None)
    \<and> unat (decode_length (take 4 frame)) + 4 = length frame
    \<and> peer_send ser (\<lambda>_. True) p m = Some frame"
proof -
  obtain data where d: "ser m = Some data" "frame = to_be_bytes (of_nat (length data)) @ data"
    using assms(1) by (auto simp: encode_message_def)
  have l: "length data < 2 ^ 32" using assms(3) d(2) by simp
  then have "unat (of_nat (length data) :: u32) = length data"
    by (simp add: unat_of_nat take_bit_nat_eq_self)
  with d assms(2) [OF d(1)] receive_frame [OF l, of de rest] show ?thesis
    by (auto simp: decode_length_def peer_send_def)
qed

text \<open>The length prefix of a payload of \<open>2^32\<close> bytes or more wraps around, and the receiver reads a short frame.\<close>

lemma frame_length_wraps:
  assumes "ser m = Some data" "2 ^ 32 \<le> length data" "length data mod 2 ^ 32 \<le> max_message"
  shows "\<exists>frame. peer_send ser (\<lambda>_. True) p m = Some frame \<and> receive_stream de frame = de (take (length data mod 2 ^ 32) data)"
proof -
  have l: "unat (of_nat (length data) :: u32) = length data mod 2 ^ 32" by (simp add: unat_of_nat take_bit_eq_mod)
  have "length data mod 2 ^ 32 \<le> length data" by simp
  then have "read_exact (length data mod 2 ^ 32) data = Some (take (length data mod 2 ^ 32) data, drop (length data mod 2 ^ 32) data)"
    unfolding read_exact_def by (simp only: if_True)
  with l assms show ?thesis by (simp add: peer_send_def receive_stream_def Let_def not_less)
qed

definition example_ser :: "message \<Rightarrow> bytes option" where
  "example_ser m = (case m of Ping \<Rightarrow> Some [4, 0] | Pong \<Rightarrow> Some [5] | _ \<Rightarrow> None)"

definition example_de :: "bytes \<Rightarrow> message option" where
  "example_de b = (if b = [4, 0] then Some Ping else if b = [5] then Some Pong else None)"

theorem framing_roundtrip_witness: "receive_stream example_de ([0, 0, 0, 2, 4, 0] @ [9]) = Some Ping"
proof -
  have "encode_message example_ser Ping = Some [0, 0, 0, 2, 4, 0]"
    by (simp add: encode_message_def example_ser_def to_be_bytes_def drop_bit_Suc)
  from framing_roundtrip [OF this, of example_de "[9]"] show ?thesis
    by (simp add: example_ser_def example_de_def max_message_def)
qed

text \<open>
  A broadcast reaches every live peer once: the count it returns is the number of known peers whose
  connection is alive and writable, it writes one frame to each of these and to no other, and each frame
  is received as the message that was sent.
\<close>

lemma broadcast_delivers:
  assumes "ser m = Some data" "de data = Some m" "length data \<le> max_message"
    and "transport_broadcast ser alive writable m t = (sent, out)"
  shows "map fst out = map pr_node_id
       (filter (\<lambda>p. alive (pr_connection p) \<and> writable (pr_connection p)) (transport_peers t))
    \<and> sent = length out \<and> (\<forall>(p, b) \<in> set out. receive_stream de b = Some m)"
  using broadcast_received [where ser = ser and de = de and m = m, OF assms(1-3), of alive writable t] assms(4)
  by simp

lemma broadcast_delivers_witness:
  "fst (transport_broadcast example_ser (\<lambda>c. c \<noteq> 1) (\<lambda>_. True) Ping
     ((transport_service_new (replication_config_new ''n1''))\<lparr>tr_peers :=
        map (\<lambda>c. (''p'', \<lparr>pr_node_id = ''p'', pr_addr = socket_v4 1 1, pr_connection = c\<rparr>)) [0, 1, 2]\<rparr>)) = 2"
proof -
  let ?t = "(transport_service_new (replication_config_new ''n1''))\<lparr>tr_peers :=
        map (\<lambda>c. (''p'', \<lparr>pr_node_id = ''p'', pr_addr = socket_v4 1 1, pr_connection = c\<rparr>)) [0, 1, 2]\<rparr>"
  obtain sent out where o: "transport_broadcast example_ser (\<lambda>c. c \<noteq> 1) (\<lambda>_. True) Ping ?t = (sent, out)"
    by (meson surj_pair)
  from broadcast_delivers [OF _ _ _ o, of "[4, 0]" example_de]
  have "map fst out = map pr_node_id (filter (\<lambda>p. pr_connection p \<noteq> 1) (transport_peers ?t)) \<and> sent = length out"
    by (simp add: example_ser_def example_de_def max_message_def)
  then have "sent = length (filter (\<lambda>p. pr_connection p \<noteq> 1) (transport_peers ?t))"
    by (metis length_map)
  then show ?thesis
    unfolding o by (simp add: transport_peers_def dm_values_def)
qed

end
