(* ===== verification/Replication_Agent.thy ===== *)
theory Replication_Agent
  imports Gossip Sync_Service Transport
begin

text \<open>
  The agent that puts the replication together, \<^verbatim>\<open>src/replication/agent.rs\<close>: it owns the gossip, sync and
  transport services and its two periodic tasks. The codecs, the clock and the outcome of binding the
  sockets are arguments, as in the theories of the services.
\<close>

section \<open>Model\<close>

datatype replication_event =
    ClusterJoined nat
  | PeerJoined node_id
  | PeerLeft node_id
  | AgentChangeApplied change
  | AgentError string

record replication_agent =
  ag_config :: replication_config
  ag_node_id :: node_id
  ag_gossip :: gossip_service
  ag_sync :: sync_service
  ag_transport :: transport_service
  ag_events :: "replication_event list"
  ag_shutdown :: bool

definition agent_new :: "replica_db option \<Rightarrow> replication_config \<Rightarrow> config_error + replication_agent" where
  "agent_new db cfg =
     (case rc_validate cfg of
        Inl e \<Rightarrow> Inl e
      | Inr _ \<Rightarrow>
          Inr \<lparr>ag_config = cfg, ag_node_id = rc_node_id cfg, ag_gossip = gossip_service_new cfg,
               ag_sync = sync_service_new (rc_node_id cfg) db, ag_transport = transport_service_new cfg,
               ag_events = [], ag_shutdown = False\<rparr>)"

definition agent_members :: "replication_agent \<Rightarrow> member list" where
  "agent_members a = gossip_members (ag_gossip a)"

definition agent_node_id :: "replication_agent \<Rightarrow> node_id" where
  "agent_node_id a = ag_node_id a"

definition agent_alive_members :: "replication_agent \<Rightarrow> member list" where
  "agent_alive_members a = alive_members (ag_gossip a)"

definition is_running :: "replication_agent \<Rightarrow> bool" where
  "is_running a = (\<not> ag_shutdown a)"

datatype start_error = StartSync sync_error | StartTransport string | StartGossip string

text \<open>\<^verbatim>\<open>start\<close>: each service in turn; the first failure stops the sequence with what was started before.\<close>

definition agent_start ::
  "gossip_codec \<Rightarrow> quic_lib \<Rightarrow> (socket_addr \<Rightarrow> string option) \<Rightarrow> replication_agent
     \<Rightarrow> (start_error + unit) \<times> replication_agent" where
  "agent_start gser L bind_error a =
     (case init_db (ag_sync a) of
        (Inl e, s) \<Rightarrow> (Inl (StartSync e), a\<lparr>ag_sync := s\<rparr>)
      | (Inr _, s) \<Rightarrow>
          (case transport_start L (ag_transport a) of
             (Inl e, t) \<Rightarrow> (Inl (StartTransport e), a\<lparr>ag_sync := s, ag_transport := t\<rparr>)
           | (Inr _, t) \<Rightarrow>
               (case gossip_start gser bind_error (ag_gossip a) of
                  (Inl e, g) \<Rightarrow> (Inl (StartGossip e), a\<lparr>ag_sync := s, ag_transport := t, ag_gossip := g\<rparr>)
                | (Inr _, g) \<Rightarrow>
                    (Inr (), a\<lparr>ag_sync := s, ag_transport := t, ag_gossip := g,
                               ag_events := ag_events a @ [ClusterJoined (length (alive_members g))]\<rparr>))))"

definition agent_stop :: "replication_agent \<Rightarrow> replication_agent" where
  "agent_stop a =
     a\<lparr>ag_shutdown := True, ag_gossip := gossip_shutdown (ag_gossip a),
       ag_transport := transport_shutdown (ag_transport a)\<rparr>"

definition record_backend_change ::
  "crc32 \<Rightarrow> u64 \<Rightarrow> u64 \<Rightarrow> string \<Rightarrow> change_kind \<Rightarrow> string \<Rightarrow> replication_agent \<Rightarrow> replication_agent" where
  "record_backend_change crc rid now_us i kind data a =
     a\<lparr>ag_sync := snd (record_change crc rid now_us ''backends'' i kind data (ag_sync a))\<rparr>"

text \<open>A flush, with the streams it writes; none while it waits for the event channel of the sync service.\<close>

definition agent_flush ::
  "crc32 \<Rightarrow> serializer \<Rightarrow> (message \<Rightarrow> bytes option) \<Rightarrow> (nat \<Rightarrow> bool) \<Rightarrow> (nat \<Rightarrow> bool) \<Rightarrow> replication_agent
     \<Rightarrow> changeset option poll \<times> (node_id \<times> bytes) list \<times> replication_agent" where
  "agent_flush crc ser mser alive writable a =
     (case flush crc ser (ag_sync a) of
        (Pending e, s) \<Rightarrow> (Pending e, [], a\<lparr>ag_sync := s\<rparr>)
      | (Ready None, s) \<Rightarrow> (Ready None, [], a\<lparr>ag_sync := s\<rparr>)
      | (Ready (Some cs), s) \<Rightarrow> (Ready (Some cs), snd (broadcast_changeset mser alive writable cs (ag_transport a)), a\<lparr>ag_sync := s\<rparr>))"

definition agent_apply_changeset ::
  "crc32 \<Rightarrow> serializer \<Rightarrow> (string \<Rightarrow> json option) \<Rightarrow> i64 \<Rightarrow> changeset \<Rightarrow> replication_agent
     \<Rightarrow> (sync_error + usize) poll \<times> replication_agent" where
  "agent_apply_changeset crc ser parse now_secs cs a =
     (let (r, s) = apply_changeset crc ser parse now_secs cs (ag_sync a) in (r, a\<lparr>ag_sync := s\<rparr>))"

text \<open>One round of the event loop: the live members without a connection, which it only logs; the state of
  the agent does not change. And one round of the flush loop.\<close>

definition event_loop_tick :: "replication_agent \<Rightarrow> node_id list \<times> replication_agent" where
  "event_loop_tick a =
     (if ag_shutdown a then ([], a)
      else
        (map mb_node_id (filter (\<lambda>m. transport_get_peer (ag_transport a) (mb_node_id m) = None \<and> mb_node_id m \<noteq> ''self'')
           (alive_members (ag_gossip a))), a))"

definition flush_loop_tick ::
  "crc32 \<Rightarrow> serializer \<Rightarrow> (message \<Rightarrow> bytes option) \<Rightarrow> (nat \<Rightarrow> bool) \<Rightarrow> (nat \<Rightarrow> bool) \<Rightarrow> replication_agent
     \<Rightarrow> (node_id \<times> bytes) list \<times> replication_agent" where
  "flush_loop_tick crc ser mser alive writable a =
     (if ag_shutdown a then ([], a)
      else let (_, out, a) = agent_flush crc ser mser alive writable a in (out, a))"

text \<open>The builder collects a configuration.\<close>

definition builder_new :: "string \<Rightarrow> replication_config" where
  "builder_new n = replication_config_new n"

definition builder_gossip_addr :: "socket_addr \<Rightarrow> replication_config \<Rightarrow> replication_config" where
  "builder_gossip_addr addr b = with_gossip_addr addr b"

definition builder_transport_addr :: "socket_addr \<Rightarrow> replication_config \<Rightarrow> replication_config" where
  "builder_transport_addr addr b = with_transport_addr addr b"

definition builder_bootstrap_peers :: "string list \<Rightarrow> replication_config \<Rightarrow> replication_config" where
  "builder_bootstrap_peers peers b = with_bootstrap_peers peers b"

definition builder_db_path :: "string \<Rightarrow> replication_config \<Rightarrow> replication_config" where
  "builder_db_path path b = with_db_path path b"

definition builder_cluster_name :: "string \<Rightarrow> replication_config \<Rightarrow> replication_config" where
  "builder_cluster_name name b = with_cluster_name name b"

definition builder_build :: "replica_db option \<Rightarrow> replication_config \<Rightarrow> config_error + replication_agent" where
  "builder_build db cfg = agent_new db cfg"

section \<open>Lemmas\<close>

lemma agent_new_ok: "agent_new db cfg = Inr a \<Longrightarrow> rc_node_id cfg \<noteq> [] \<and> rc_cluster_name cfg \<noteq> [] \<and> ag_node_id a = rc_node_id cfg"
  by (auto simp: agent_new_def rc_validate_def split: if_splits)

lemma winner_single: "change_key c = k \<Longrightarrow> winner k [c] = Some c"
  by (simp add: winner_def)

lemma flush_ready:
  assumes "sy_pending_changes s \<noteq> []" "event_room (sy_receiver s) 1"
  shows "\<exists>s'. flush crc ser s = (Ready (Some (changeset_new crc ser (sy_node_id s) (sy_sequence s + 1) (sy_pending_changes s))), s')"
proof -
  obtain cs t where p: "flush_prepare crc ser s = (cs, t)" by fastforce
  note f = flush_prepare_fields [OF p]
  have "event_room (sy_receiver t) (Suc 0)" using assms(2) f(6) by simp
  then obtain s' where "send_event (BroadcastReady cs) t = (Ready (), s')" by (rule send_event_room)
  with p assms(1) f(1) show ?thesis by (simp add: flush_sends)
qed

section \<open>Properties\<close>

text \<open>
  C13: A change travels from one node to another. An insert or update of a backend with JSON data, recorded on a node with nothing else pending (before the year at which
  the clock in microseconds reaches \<open>2^63\<close>, and not at the wrap-around of the sequence number) whose event channel has room, is flushed as one changeset with that change; each
  peer in the table of connections whose connection is alive and accepts a stream gets one stream, and no other does. The task that a node runs for each stream of a connection it
  accepted reads the changeset, unchanged, from that stream; such nodes are the peers this node connected to. (A peer that connected to this node gets the stream too, but
  reads no streams of that connection.) Applying the changeset on an empty replica succeeds and shows the row the change describes.
  The codec must decode what it encodes, within the size limit. That the agent of the receiver does not itself apply what it
  reads is \<open>event_loop_inert\<close>.
\<close>

theorem change_replicates:
  assumes "sy_pending_changes (ag_sync a) = []" "sy_sequence (ag_sync a) + 1 \<noteq> 0" "event_room (sy_receiver (ag_sync a)) 1"
    and "kind \<noteq> Delete" "parse data = Some d" "unat now_us < 2 ^ 63"
    and "cs = changeset_new crc ser (sy_node_id (ag_sync a)) (sy_sequence (ag_sync a) + 1)
           [change_new crc rid now_us ''backends'' i kind data (sy_node_id (ag_sync a))]"
    and "mser (Broadcast cs) = Some bs" "mde bs = Some (Broadcast cs)" "length bs \<le> max_message"
    and "event_room rx 1"
  shows "\<exists>out a'. agent_flush crc ser mser alive writable (record_backend_change crc rid now_us i kind data a) = (Ready (Some cs), out, a')
    \<and> map fst out = map pr_node_id (filter (\<lambda>p. alive (pr_connection p) \<and> writable (pr_connection p)) (transport_peers (ag_transport a)))
    \<and> (\<forall>(p, stream) \<in> set out. receive_stream mde stream = Some (Broadcast cs))
    \<and> (\<exists>n s'. apply_changeset crc ser parse now_secs cs (empty_replica m rx) = (Ready (Inr n), s')
          \<and> visible_row s' i = Some (change_row d i))"
proof -
  let ?c = "change_new crc rid now_us ''backends'' i kind data (sy_node_id (ag_sync a))"
  let ?s = "(ag_sync a)\<lparr>sy_pending_changes := [?c]\<rparr>"
  have r: "ag_sync (record_backend_change crc rid now_us i kind data a) = ?s"
    "ag_transport (record_backend_change crc rid now_us i kind data a) = ag_transport a"
    using assms(1) by (simp_all add: record_backend_change_def record_change_def Let_def)
  obtain s1 where f1: "flush crc ser ?s = (Ready (Some cs), s1)"
    using flush_ready [of ?s crc ser] assms(3,7) by auto
  define out where "out = snd (transport_broadcast mser alive writable (Broadcast cs) (ag_transport a))"
  have flushed: "\<exists>a'. agent_flush crc ser mser alive writable (record_backend_change crc rid now_us i kind data a) = (Ready (Some cs), out, a')"
    using f1 r by (simp add: agent_flush_def broadcast_changeset_def out_def)
  have k: "change_key ?c = ''backends:'' @ i" by (simp add: change_key_def change_new_def)
  have "applicable parse ?c"
    using assms(4-6) by (simp add: applicable_def change_new_def hlc_now_def word_less_nat_alt)
  then have "deliverable crc ser parse cs"
    by (simp add: deliverable_def assms(7)) (simp add: changeset_new_def)
  moreover have "vv_get (sy_version_vector (empty_replica m rx)) (cs_source cs) < cs_seq cs"
    using assms(2) by (simp add: assms(7) changeset_new_def vv_get_def empty_replica_def sync_service_new_def vv_new_def word_gt_0)
  moreover have "event_room (sy_receiver (empty_replica m rx)) (length (cs_changes cs) + 0)"
    using assms(11) by (simp add: assms(7) changeset_new_def empty_replica_def)
  ultimately obtain n s' where s': "apply_changeset crc ser parse now_secs cs (empty_replica m rx) = (Ready (Inr n), s')"
    "knows parse s' (cs_changes cs)"
    using apply_changeset_knows [OF knows_new] by fastforce
  then have "visible_row s' i = wanted_row parse ?c"
    using k by (simp add: knows_def assms(7) changeset_new_def winner_single)
  then have row: "visible_row s' i = Some (change_row d i)"
    using assms(4,5) by (simp add: wanted_row_def change_new_def)
  have sent: "map fst out = map pr_node_id
       (filter (\<lambda>p. alive (pr_connection p) \<and> writable (pr_connection p)) (transport_peers (ag_transport a)))"
    "\<forall>(p, b) \<in> set out. receive_stream mde b = Some (Broadcast cs)"
    using broadcast_received [where ser = mser and de = mde and m = "Broadcast cs", OF assms(8-10)] by (simp_all add: out_def)
  from flushed sent s'(1) row show ?thesis by blast
qed

definition example_agent :: replication_agent where
  "example_agent =
     \<lparr>ag_config = replication_config_new ''A'', ag_node_id = ''A'',
      ag_gossip = gossip_service_new (replication_config_new ''A''),
      ag_sync = sync_service_new ''A'' (Some empty_db),
      ag_transport = (transport_service_new (replication_config_new ''A''))\<lparr>tr_peers :=
        [(''B'', \<lparr>pr_node_id = ''B'', pr_addr = socket_v4 1 4002, pr_connection = 1\<rparr>)]\<rparr>,
      ag_events = [], ag_shutdown = False\<rparr>"

theorem change_replicates_witness:
  "\<exists>cs out a' n s'. agent_flush (\<lambda>_. 0) (\<lambda>_. None) (\<lambda>_. Some [1]) (\<lambda>_. True) (\<lambda>_. True)
       (record_backend_change (\<lambda>_. 0) 7 1000 ''b1'' Insert ''{}'' example_agent) = (Ready (Some cs), out, a')
     \<and> map fst out = [''B'']
     \<and> apply_changeset (\<lambda>_. 0) (\<lambda>_. None) (\<lambda>_. Some JNull) 0 cs (empty_replica ''B'' (Unread 0)) = (Ready (Inr n), s')
     \<and> visible_row s' ''b1'' = Some (change_row JNull ''b1'')"
proof -
  define cs where "cs = changeset_new (\<lambda>_. 0) (\<lambda>_. None) (sy_node_id (ag_sync example_agent)) (sy_sequence (ag_sync example_agent) + 1)
    [change_new (\<lambda>_. 0) 7 1000 ''backends'' ''b1'' Insert ''{}'' (sy_node_id (ag_sync example_agent))]"
  have p: "transport_peers (ag_transport example_agent) =
      [\<lparr>pr_node_id = ''B'', pr_addr = socket_v4 1 4002, pr_connection = 1\<rparr>]"
    by (simp add: example_agent_def transport_peers_def dm_values_def)
  have "\<exists>out a'. agent_flush (\<lambda>_. 0) (\<lambda>_. None) (\<lambda>_. Some [1]) (\<lambda>_. True) (\<lambda>_. True)
         (record_backend_change (\<lambda>_. 0) 7 1000 ''b1'' Insert ''{}'' example_agent) = (Ready (Some cs), out, a')
     \<and> map fst out = map pr_node_id (filter (\<lambda>p. True \<and> True) (transport_peers (ag_transport example_agent)))
     \<and> (\<forall>(p, stream) \<in> set out. receive_stream (\<lambda>_. Some (Broadcast cs)) stream = Some (Broadcast cs))
     \<and> (\<exists>n s'. apply_changeset (\<lambda>_. 0) (\<lambda>_. None) (\<lambda>_. Some JNull) 0 cs (empty_replica ''B'' (Unread 0)) = (Ready (Inr n), s')
          \<and> visible_row s' ''b1'' = Some (change_row JNull ''b1''))"
    by (rule change_replicates [OF _ _ _ _ _ _ cs_def, where bs = "[1]"])
       (simp_all add: example_agent_def sync_service_new_def max_message_def)
  with p show ?thesis by auto
qed

text \<open>
  The event loop changes nothing: a message the transport has received is neither applied nor answered,
  and no connection is opened to the members that gossip discovers.
\<close>

lemma event_loop_inert: "snd (event_loop_tick a) = a"
  by (simp add: event_loop_tick_def)

end
