(* ===== verification/Composition.thy ===== *)
theory Composition
  imports Config Dns_Server Api_Server Listeners Replication_Agent
begin

text \<open>
  The GeoIP adapter, \<^verbatim>\<open>src/adapters/outbound/maxmind_geo_resolver.rs\<close>, and the composition root, \<^verbatim>\<open>src/main.rs\<close>: which
  components are built from a configuration and what each is given. Files, certificates, databases
  and random names come from the record \<open>surroundings\<close>. The tasks that \<^verbatim>\<open>main\<close> spawns are the tick functions and handlers of the component theories.
\<close>

section \<open>GeoIP\<close>

text \<open>A response of the database; \<open>mm_country\<close> is undefined if the entry has no country, the inner option if the country has no code.\<close>

record country_resp =
  mm_country :: "string option option"

type_synonym mm_reader = "ip_addr \<Rightarrow> country_resp option"

definition maxmind_resolve :: "mm_reader \<Rightarrow> ip_addr \<Rightarrow> geo_info option" where
  "maxmind_resolve reader ip =
     (case reader ip of
        None \<Rightarrow> None
      | Some resp \<Rightarrow>
          (case mm_country resp of
             None \<Rightarrow> None
           | Some c \<Rightarrow> (case c of None \<Rightarrow> None | Some code \<Rightarrow> Some (geo_info_new code (from_country code)))))"

text \<open>Opening the database: \<open>from_source\<close> and \<open>open_readfile\<close> are the constructors of the library's reader.\<close>

definition maxmind_embedded :: "(u8 list \<Rightarrow> string + mm_reader) \<Rightarrow> u8 list \<Rightarrow> string + (ip_addr \<Rightarrow> geo_info option)" where
  "maxmind_embedded from_source embedded_geoip =
     and_then (from_source embedded_geoip) (\<lambda>reader. Inr (maxmind_resolve reader))"

definition maxmind_from_file :: "(string \<Rightarrow> string + mm_reader) \<Rightarrow> string \<Rightarrow> string + (ip_addr \<Rightarrow> geo_info option)" where
  "maxmind_from_file open_readfile path =
     and_then (open_readfile path) (\<lambda>reader. Inr (maxmind_resolve reader))"

section \<open>The composition root\<close>

record ('cert, 'key, 'acceptor) surroundings =
  su_uuid :: string
  su_replica_db :: "replica_db option"
  su_gossip_codec :: gossip_codec
  su_quic_lib :: quic_lib
  su_gossip_bind_error :: "socket_addr \<Rightarrow> string option"
  su_open_geoip :: "string \<Rightarrow> string + mm_reader"
  su_geoip_from_source :: "u8 list \<Rightarrow> string + mm_reader"
  su_embedded_geoip :: "u8 list"
  su_tls_lib :: "('cert, 'key, 'acceptor) tls_lib"

datatype boot_error = BadSocketAddr string | BadReplicationConfig config_error | BadTls tls_error

record 'acceptor wired =
  wd_service :: main_service
  wd_db_sync :: "string \<times> u64"
  wd_binding_gc :: "duration \<times> duration"
  wd_replication :: "((start_error + unit) \<times> replication_agent) option"
  wd_api :: "(api_server \<times> duration) option"
  wd_dns :: "dns_server option"
  wd_tls :: "'acceptor tls_server option"
  wd_tcp :: tcp_server

definition main_replication ::
  "('cert, 'key, 'acceptor) surroundings \<Rightarrow> config \<Rightarrow> boot_error + ((start_error + unit) \<times> replication_agent) option" where
  "main_replication su cfg =
     (if \<not> cf_replication_enabled cfg then Inr None
      else
        (let node_id = (case cf_replication_node_id cfg of
                          Some n \<Rightarrow> n | None \<Rightarrow> cf_region cfg @ ''-'' @ take 8 (su_uuid su))
         in case parse_socket_addr (cf_replication_gossip_addr cfg) of
              None \<Rightarrow> Inl (BadSocketAddr (cf_replication_gossip_addr cfg))
            | Some gossip_addr \<Rightarrow>
                (case parse_socket_addr (cf_replication_transport_addr cfg) of
                   None \<Rightarrow> Inl (BadSocketAddr (cf_replication_transport_addr cfg))
                 | Some transport_addr \<Rightarrow>
                     (let rc = with_cluster_name (cf_replication_cluster_name cfg)
                                 (with_db_path (cf_replication_db_path cfg)
                                   (with_bootstrap_peers (cf_replication_bootstrap_peers cfg)
                                     (with_transport_addr transport_addr
                                       (with_gossip_addr gossip_addr (replication_config_new node_id)))))
                      in case agent_new (su_replica_db su) rc of
                           Inl e \<Rightarrow> Inl (BadReplicationConfig e)
                         | Inr agent \<Rightarrow>
                             Inr (Some (agent_start (su_gossip_codec su) (su_quic_lib su)
                                          (su_gossip_bind_error su) agent))))))"

definition main_geo_resolver :: "('cert, 'key, 'acceptor) surroundings \<Rightarrow> config \<Rightarrow> (ip_addr \<Rightarrow> geo_info option) option" where
  "main_geo_resolver su cfg =
     (case (case cf_geoip_path cfg of
              Some path \<Rightarrow> maxmind_from_file (su_open_geoip su) path
            | None \<Rightarrow> maxmind_embedded (su_geoip_from_source su) (su_embedded_geoip su)) of
        Inr g \<Rightarrow> Some g
      | Inl e \<Rightarrow> None)"

definition main_tls ::
  "('cert, 'key, 'acceptor) surroundings \<Rightarrow> config \<Rightarrow> (ip_addr \<Rightarrow> geo_info option) option
     \<Rightarrow> boot_error + 'acceptor tls_server option" where
  "main_tls su cfg geo_resolver =
     (if \<not> cf_tls_enabled cfg then Inr None
      else
        (let addr = (case cf_tls_listen_addr cfg of Some a \<Rightarrow> a | None \<Rightarrow> ''0.0.0.0:8443'')
         in and_then (map_err BadTls
                       (case (cf_tls_cert_path cfg, cf_tls_key_path cfg) of
                          (Some cert, Some key) \<Rightarrow> from_pem_files (su_tls_lib su) cert key
                        | _ \<Rightarrow> self_signed (su_tls_lib su) ''edgeproxy.internal''))
              (\<lambda>tls_config. Inr (Some (tls_server_new addr geo_resolver tls_config)))))"

definition main_wire :: "('cert, 'key, 'acceptor) surroundings \<Rightarrow> config \<Rightarrow> boot_error + 'acceptor wired" where
  "main_wire su cfg =
     and_then (main_replication su cfg) (\<lambda>replication.
       let geo_resolver = main_geo_resolver su cfg;
           service = proxy_service_new sqlite_repo_new binding_repo_new geo_resolver metrics_store_new
                       (region_from_str (cf_region cfg));
           api = (if cf_api_enabled cfg
                  then Some (api_server_new (cf_api_listen_addr cfg) (cf_heartbeat_ttl_secs cfg), from_secs 30) else None);
           dns = (if cf_dns_enabled cfg
                  then Some (dns_server_new (cf_dns_listen_addr cfg) geo_resolver (cf_dns_domain cfg)) else None)
       in and_then (main_tls su cfg geo_resolver) (\<lambda>tls.
            Inr \<lparr>wd_service = service, wd_db_sync = (cf_db_path cfg, cf_db_reload_secs cfg),
                 wd_binding_gc = (from_secs (unat (cf_binding_ttl_secs cfg)),
                                  from_secs (unat (cf_binding_gc_interval_secs cfg))),
                 wd_replication = replication, wd_api = api, wd_dns = dns, wd_tls = tls,
                 wd_tcp = tcp_server_new (cf_listen_addr cfg) geo_resolver\<rparr>))"

text \<open>
  The whole of \<^verbatim>\<open>main\<close>: the configuration comes from the environment, a boot error or the end of the TCP server's accept loop ends the program, and
  the errors of the other servers, which run in tasks of their own, are logged only. \<open>None\<close> is a program that still runs.
\<close>

datatype log_level = LogDebug | LogInfo

definition main_log_level :: "config \<Rightarrow> log_level" where
  "main_log_level cfg = (if cf_debug cfg then LogDebug else LogInfo)"

definition main_program ::
  "('cert, 'key, 'acceptor) surroundings \<Rightarrow> env \<Rightarrow> (string \<Rightarrow> string option) \<Rightarrow> (string + ip_addr) list
     \<Rightarrow> (boot_error + string) option \<times> (sqlite_repo, binding_repo, metrics_store) edge_sys option" where
  "main_program su e bind_error accepts =
     (case main_wire su (load_config e) of
        Inl err \<Rightarrow> (Some (Inl err), None)
      | Inr w \<Rightarrow>
          (case tcp_run bind_error accepts (wd_tcp w) \<lparr>es_service = wd_service w, es_sessions = []\<rparr> of
             (r, s) \<Rightarrow> (map_option Inr r, Some s)))"

section \<open>Lemmas\<close>

lemma main_wire_service:
  "main_wire su cfg = Inr w \<Longrightarrow>
     wd_service w = proxy_service_new sqlite_repo_new binding_repo_new (main_geo_resolver su cfg) metrics_store_new
       (region_from_str (cf_region cfg))"
  by (auto simp: main_wire_def Let_def and_then_Inr)

lemma maxmind_region: "maxmind_resolve reader ip = Some g \<Longrightarrow> geo_region g = from_country (geo_country g)"
  by (auto simp: maxmind_resolve_def geo_info_new_def split: option.splits)

lemma main_geo_region:
  "main_geo_resolver su cfg = Some r \<Longrightarrow> r ip = Some g \<Longrightarrow> geo_region g = from_country (geo_country g)"
  by (auto simp: main_geo_resolver_def maxmind_embedded_def maxmind_from_file_def and_then_Inr
      intro: maxmind_region split: option.splits sum.splits)

lemma fresh_resolve:
  "fst (resolve_backend_with_geo main_ports now ip geo (proxy_service_new \<lparr>sq_backends = bs, sq_version = v\<rparr> binding_repo_new gr ms lr))
     = pick_backend (filter bk_healthy bs) lr geo (metrics_get_connection_count ms)"
proof -
  have "pick_backend [] lr geo (metrics_get_connection_count ms) = None" by (simp add: pick_backend_def)
  then show ?thesis
    by (auto simp: resolve_backend_with_geo_def proxy_service_new_def binding_repo_defs sqlite_get_healthy_def
        main_ports_def Let_def split: option.split)
qed

text \<open>When the replication part of the boot fails, and with which error.\<close>

lemma main_replication_cases:
  "case main_replication su cfg of
     Inl err \<Rightarrow> cf_replication_enabled cfg \<and>
       err = (if parse_socket_addr (cf_replication_gossip_addr cfg) = None then BadSocketAddr (cf_replication_gossip_addr cfg)
              else if parse_socket_addr (cf_replication_transport_addr cfg) = None
              then BadSocketAddr (cf_replication_transport_addr cfg)
              else if cf_replication_node_id cfg = Some [] then BadReplicationConfig MissingNodeId
              else BadReplicationConfig MissingClusterName)
       \<and> (err = BadReplicationConfig MissingClusterName \<longrightarrow> cf_replication_cluster_name cfg = [])
   | Inr r \<Rightarrow> \<not> cf_replication_enabled cfg \<or>
       parse_socket_addr (cf_replication_gossip_addr cfg) \<noteq> None \<and> parse_socket_addr (cf_replication_transport_addr cfg) \<noteq> None
       \<and> cf_replication_node_id cfg \<noteq> Some [] \<and> cf_replication_cluster_name cfg \<noteq> []"
  by (auto simp: main_replication_def Let_def agent_new_def rc_validate_def replication_config_new_def with_cluster_name_def
      with_db_path_def with_bootstrap_peers_def with_transport_addr_def with_gossip_addr_def
      split: option.splits sum.splits if_splits)

end
