(* ===== verification/Replica_Routing.thy ===== *)
theory Replica_Routing
  imports Composition
begin

text \<open>
  From replication to routing: the table that \<^verbatim>\<open>src/replication/sync.rs\<close> writes is the one that
  \<^verbatim>\<open>src/adapters/outbound/sqlite_backend_repo.rs\<close> reads when both are pointed at the same file. The theory composes the two with the load
  balancer: what a history of replicated changes makes the proxy of another node route to.
\<close>

section \<open>Specification\<close>

text \<open>The data of a change that describes the backend, with the fields that \<^verbatim>\<open>apply_backend_change\<close> looks up; the id is the key of the change.\<close>

definition backend_json :: "backend \<Rightarrow> json" where
  "backend_json b = JObj
     [(''app'', JStr (bk_app b)), (''region'', JStr (region_as_str (bk_region b))), (''country'', JStr (bk_country b)),
      (''wg_ip'', JStr (bk_wg_ip b)), (''port'', JInt (uint (bk_port b))), (''healthy'', JInt (if bk_healthy b then 1 else 0)),
      (''weight'', JInt (uint (bk_weight b))), (''soft_limit'', JInt (uint (bk_soft_limit b))),
      (''hard_limit'', JInt (uint (bk_hard_limit b)))]"

text \<open>The rows of a replica's table as the routing side reads them.\<close>

definition replica_table :: "sync_service \<Rightarrow> backend_row list option" where
  "replica_table s = map_option (\<lambda>db. dm_values (db_backends db)) (sy_db s)"

text \<open>The backends that a history of changes leaves in place: the last writer of the key describes it.\<close>

definition surviving :: "(string \<Rightarrow> json option) \<Rightarrow> change list \<Rightarrow> backend set" where
  "surviving parse hist =
     {b. \<exists>c. winner (''backends:'' @ bk_id b) hist = Some c \<and> ch_kind c \<noteq> Delete \<and> parse (ch_data c) = Some (backend_json b)}"

section \<open>Lemmas\<close>

lemma ucast_ucast_i64: "LENGTH('a::len) \<le> 64 \<Longrightarrow> ucast (ucast (w :: 'a word) :: i64) = w"
  by (rule bit_word_eqI) (simp add: bit_simps)

lemma word_as_i64:
  assumes "LENGTH('a::len) \<le> 32"
  shows "json_as_i64 (JInt (uint (w :: 'a word))) = Some (ucast w)"
proof -
  have "(2::int) ^ LENGTH('a) \<le> 2 ^ 63" using assms by (intro power_increasing) auto
  with uint_lt2p have "uint w < 2 ^ 63" by (rule less_le_trans)
  moreover have "- (2 ^ 63) \<le> uint w" by (rule order_trans [of _ 0]) simp_all
  ultimately show ?thesis by simp
qed

lemma bit_as_i64: "json_as_i64 (JInt 0) = Some 0" "json_as_i64 (JInt 1) = Some 1"
  by simp_all

text \<open>A backend survives the way through JSON and a table row unchanged.\<close>

lemma backend_json_row: "row_to_backend (change_row (backend_json b) (bk_id b)) = Inr b"
  by (cases b) (simp add: backend_json_def row_to_backend_def change_row_def text_or_def text_or_null_def int_or_def
      region_from_str_as_str word_as_i64 ucast_ucast_i64 bit_as_i64 del: json_as_i64.simps(1))

text \<open>The table keeps one row per id.\<close>

definition table_wf :: "sync_service \<Rightarrow> bool" where
  "table_wf s \<longleftrightarrow> (\<forall>db. sy_db s = Some db \<longrightarrow> dm_wf (db_backends db))"

lemma apply_single_wf: "table_wf s \<Longrightarrow> table_wf (snd (apply_single_change parse now c s))"
proof (cases "sy_db s")
  case (Some db)
  moreover assume "table_wf s"
  ultimately have wf: "dm_wf (db_backends db)" by (simp add: table_wf_def)
  then have "dm_wf (db_backends (snd (apply_backend_change parse c (db\<lparr>db_lww := l\<rparr>))))" for l
    by (auto simp: apply_backend_change_def split: change_kind.split option.split)
  then have "dm_wf (db_backends db')"
    if "apply_backend_change parse c (db\<lparr>db_lww := l\<rparr>) = (r, db')" for r db' l
    using that by (metis snd_conv)
  with Some wf show ?thesis
    by (auto simp: table_wf_def apply_single_change_def log_change_def Let_def split: sum.splits prod.splits if_splits)
qed (simp add: table_wf_def apply_single_change_def)

lemma apply_changes_wf: "table_wf s \<Longrightarrow> table_wf (snd (apply_changes parse now cs k s))"
proof (induction cs arbitrary: k s)
  case (Cons c cs)
  have *: "table_wf s'" if "apply_single_change parse now c s = (r, s')" for r s'
    using apply_single_wf [OF Cons.prems, of parse now c] that by simp
  show ?case
  proof (cases "should_apply_change c s = Inr True")
    case True
    obtain r s' where r: "apply_single_change parse now c s = (r, s')" by fastforce
    have "table_wf s''" if "send_event (ChangeApplied c) s' = (v, s'')" for v s''
      using * [OF r] send_event_other(1) [OF that] by (simp add: table_wf_def)
    with Cons.IH * [OF r] r True show ?thesis by (cases r) (auto split: prod.split poll.split)
  next
    case False
    with Cons show ?thesis by (auto split: sum.split bool.split)
  qed
qed simp

lemma apply_changeset_wf:
  assumes wf: "table_wf s" and a: "apply_changeset crc ser parse now cs s = (v, s')"
  shows "table_wf s'"
proof -
  obtain r t where r: "apply_changes parse now (cs_changes cs) 0 s = (r, t)" by fastforce
  with apply_changes_wf [OF wf, of parse now "cs_changes cs" 0] have "table_wf t" by simp
  with wf r a show ?thesis
    by (auto simp: apply_changeset_def persist_version_def table_wf_def Let_def split: option.splits if_splits poll.splits sum.splits)
qed

lemma sync_run_wf: "table_wf s \<Longrightarrow> table_wf (sync_run crc ser parse now css s)"
  by (induction css arbitrary: s) (auto dest: apply_changeset_wf split: prod.split poll.split)

text \<open>The load of a well-formed table whose visible rows are all described.\<close>

lemma load_described:
  assumes "sy_db s = Some db" "dm_wf (db_backends db)"
    and "\<And>k r. visible_row s k = Some r \<Longrightarrow> \<exists>b. bk_id b = k \<and> r = change_row (backend_json b) k"
  shows "\<exists>bs. load_from_sqlite (replica_table s) = Inr bs \<and> distinct (map bk_id bs)
    \<and> (\<forall>b. b \<in> set bs \<longleftrightarrow> visible_row s (bk_id b) = Some (change_row (backend_json b) (bk_id b)))"
proof -
  let ?es = "filter (\<lambda>(k, r). row_visible r) (db_backends db)"
  have vis: "visible_row s k = Some r \<longleftrightarrow> (k, r) \<in> set ?es" for k r
    using assms(1,2) by (auto simp: visible_row_def dm_in_set_iff split: option.split)
  have "\<forall>e \<in> set ?es. \<exists>b. bk_id b = fst e \<and> snd e = change_row (backend_json b) (fst e)"
    using assms(3) vis by (metis prod.collapse)
  then obtain f where f: "\<forall>e \<in> set ?es. bk_id (f e) = fst e \<and> snd e = change_row (backend_json (f e)) (fst e)"
    by metis
  then have conv: "row_to_backend (snd e) = Inr (f e)" if "e \<in> set ?es" for e
    using that backend_json_row [of "f e"] by metis
  let ?bs = "map f ?es"
  have "map row_to_backend (filter row_visible (map snd (db_backends db))) = map Inr ?bs"
    using conv by (simp add: filter_map comp_def case_prod_unfold)
  then have "load_from_sqlite (replica_table s) = Inr ?bs"
    using assms(1) by (simp add: load_from_sqlite_def replica_table_def dm_values_def collect_results_Inr)
  moreover have ids: "map bk_id ?bs = map fst ?es" using f by simp
  have "distinct (map bk_id ?bs)"
    unfolding ids using assms(2) by (simp add: dm_wf_def distinct_map_filter)
  moreover have "b \<in> set ?bs \<longleftrightarrow> visible_row s (bk_id b) = Some (change_row (backend_json b) (bk_id b))" for b
  proof
    assume "b \<in> set ?bs"
    then obtain e where "e \<in> set ?es" "b = f e" by auto
    with f vis [of "fst e" "snd e"] show "visible_row s (bk_id b) = Some (change_row (backend_json b) (bk_id b))" by auto
  next
    assume "visible_row s (bk_id b) = Some (change_row (backend_json b) (bk_id b))"
    with vis have e: "(bk_id b, change_row (backend_json b) (bk_id b)) \<in> set ?es" by blast
    from conv [OF e] backend_json_row [of b] have "f (bk_id b, change_row (backend_json b) (bk_id b)) = b" by simp
    with e show "b \<in> set ?bs" by (metis image_eqI set_map)
  qed
  ultimately show ?thesis by blast
qed


text \<open>A replica that knows a history of described changes shows exactly the surviving backends.\<close>

lemma knows_load:
  assumes "knows parse s hist" "table_wf s" "\<forall>c \<in> set hist. CHR '':'' \<notin> set (ch_table c)"
    and "\<forall>c \<in> set hist. ch_table c = ''backends'' \<and> ch_kind c \<noteq> Delete \<longrightarrow>
           (\<exists>b. bk_id b = ch_pk c \<and> parse (ch_data c) = Some (backend_json b))"
  shows "\<exists>bs. load_from_sqlite (replica_table s) = Inr bs \<and> distinct (map bk_id bs) \<and> set bs = surviving parse hist"
proof -
  obtain db where db: "sy_db s = Some db" using assms(1) by (auto simp: knows_def cache_ok_def)
  have vis: "visible_row s k = Option.bind (winner (''backends:'' @ k) hist) (wanted_row parse)" for k
    using assms(1) by (simp add: knows_def)
  have win: "ch_table c = ''backends'' \<and> ch_pk c = k \<and> c \<in> set hist" if "winner (''backends:'' @ k) hist = Some c" for c k
    using winner_in [OF that] assms(3) backends_key [of c k] by blast
  have desc: "\<exists>b. bk_id b = k \<and> r = change_row (backend_json b) k" if "visible_row s k = Some r" for k r
  proof -
    from that vis [of k] obtain c where c: "winner (''backends:'' @ k) hist = Some c" "wanted_row parse c = Some r"
      by (cases "winner (''backends:'' @ k) hist") auto
    with win [OF c(1)] assms(4) show ?thesis by (force simp: wanted_row_def split: if_splits)
  qed
  from assms(2) db have "dm_wf (db_backends db)" by (simp add: table_wf_def)
  from load_described [OF db this desc] obtain bs where bs: "load_from_sqlite (replica_table s) = Inr bs"
    "distinct (map bk_id bs)"
    "\<forall>b. b \<in> set bs \<longleftrightarrow> visible_row s (bk_id b) = Some (change_row (backend_json b) (bk_id b))" by blast
  have "visible_row s (bk_id b) = Some (change_row (backend_json b) (bk_id b)) \<longleftrightarrow> b \<in> surviving parse hist" for b
  proof
    assume v: "visible_row s (bk_id b) = Some (change_row (backend_json b) (bk_id b))"
    with vis [of "bk_id b"] obtain c where c: "winner (''backends:'' @ bk_id b) hist = Some c"
      "wanted_row parse c = Some (change_row (backend_json b) (bk_id b))"
      by (cases "winner (''backends:'' @ bk_id b) hist") auto
    with win [OF c(1)] assms(4) obtain b' where b': "ch_kind c \<noteq> Delete" "bk_id b' = bk_id b" "parse (ch_data c) = Some (backend_json b')"
      by (force simp: wanted_row_def split: if_splits)
    with c(2) win [OF c(1)] have "change_row (backend_json b') (bk_id b') = change_row (backend_json b) (bk_id b)"
      by (simp add: wanted_row_def)
    with backend_json_row [of b] backend_json_row [of b'] have "b' = b" by simp
    with b' c(1) show "b \<in> surviving parse hist" by (auto simp: surviving_def)
  next
    assume "b \<in> surviving parse hist"
    then obtain c where c: "winner (''backends:'' @ bk_id b) hist = Some c" "ch_kind c \<noteq> Delete"
      "parse (ch_data c) = Some (backend_json b)" by (auto simp: surviving_def)
    with vis [of "bk_id b"] win [OF c(1)] show "visible_row s (bk_id b) = Some (change_row (backend_json b) (bk_id b))"
      by (simp add: wanted_row_def)
  qed
  with bs show ?thesis by auto
qed

lemma unbound_resolve:
  assumes "binding_repo_get (ps_binding_repo svc) (client_key_new ip) = None"
  shows "fst (resolve_backend_with_geo main_ports now ip geo svc)
     = pick_backend (filter bk_healthy (sq_backends (ps_backend_repo svc))) (ps_local_region svc) geo (metrics_get_connection_count (ps_metrics svc))"
proof -
  have "pick_backend [] lr geo (metrics_get_connection_count ms) = None" for lr ms by (simp add: pick_backend_def)
  with assms show ?thesis
    by (auto simp: resolve_backend_with_geo_def sqlite_get_healthy_def Let_def split: option.split)
qed

section \<open>Properties\<close>

text \<open>
  C8: Replicated backends are routed to. Let a replica that starts empty, on a database that accepts writes, be given changesets one call of \<^verbatim>\<open>apply_changeset\<close> after the
  other (a call that the agent itself does not make), the order of each source kept, with valid checksums and applicable changes (table
  names without a colon, wall times below \<open>2^63\<close>), its event channel read or with room for an event per change, and let every insert or update of a backend describe it in full
  (with \<^verbatim>\<open>healthy\<close> as a number). When a proxy, in whatever state, then reloads the table the replica wrote, the load succeeds, it has exactly the backends that the last writers left, each once
  and with every field as it was described on the node that made the change, and a client without a binding is sent to the load balancer's choice among the healthy ones
  for the proxy's region and connection counts.
\<close>

theorem replicated_backends_routed:
  fixes svc :: main_service
  assumes "fifo css" "\<forall>cs \<in> set css. deliverable crc ser parse cs" "event_room rx (length (all_changes css))"
    and "\<forall>c \<in> set (all_changes css). ch_table c = ''backends'' \<and> ch_kind c \<noteq> Delete \<longrightarrow>
           (\<exists>b. bk_id b = ch_pk c \<and> parse (ch_data c) = Some (backend_json b))"
    and "binding_repo_get (ps_binding_repo svc) (client_key_new ip) = None"
  shows "let s = sync_run crc ser parse now_secs css (empty_replica n rx);
             svc' = svc\<lparr>ps_backend_repo := sqlite_sync_tick (replica_table s) (ps_backend_repo svc)\<rparr>
    in \<exists>bs. load_from_sqlite (replica_table s) = Inr bs \<and> distinct (map bk_id bs) \<and> set bs = surviving parse (all_changes css)
         \<and> sq_backends (ps_backend_repo svc') = bs
         \<and> fst (resolve_backend_with_geo main_ports now ip geo svc')
             = pick_backend (filter bk_healthy bs) (ps_local_region svc) geo (metrics_get_connection_count (ps_metrics svc))"
proof -
  define s where "s = sync_run crc ser parse now_secs css (empty_replica n rx)"
  from empty_replica_knows [OF assms(1-3)] have "knows parse s (all_changes css)" by (simp add: s_def)
  moreover have "table_wf s"
    unfolding s_def by (rule sync_run_wf) (simp add: table_wf_def empty_replica_def sync_service_new_def empty_db_def)
  moreover have "\<forall>c \<in> set (all_changes css). CHR '':'' \<notin> set (ch_table c)"
    using assms(2) by (auto simp: all_changes_def deliverable_def applicable_def)
  ultimately obtain bs where bs: "load_from_sqlite (replica_table s) = Inr bs" "distinct (map bk_id bs)"
    "set bs = surviving parse (all_changes css)"
    using knows_load [OF _ _ _ assms(4)] by blast
  let ?svc = "svc\<lparr>ps_backend_repo := sqlite_sync_tick (replica_table s) (ps_backend_repo svc)\<rparr>"
  have l: "sq_backends (ps_backend_repo ?svc) = bs" using bs(1) by (simp add: sqlite_sync_tick_def)
  moreover have "fst (resolve_backend_with_geo main_ports now ip geo ?svc)
      = pick_backend (filter bk_healthy bs) (ps_local_region svc) geo (metrics_get_connection_count (ps_metrics svc))"
    using unbound_resolve [of ?svc ip now geo] assms(5) l by simp
  ultimately show ?thesis using bs unfolding Let_def s_def by blast
qed


theorem replicated_backends_routed_witness:
  "let b = example_backend ''sa-1'' SouthAmerica ''AR'';
       parse = (\<lambda>_. Some (backend_json b));
       c = change_new (\<lambda>_. 0) 10 10 ''backends'' ''sa-1'' Insert ''{}'' ''A'';
       s = sync_run (\<lambda>_. 0) (\<lambda>_. None) parse 0 [changeset_new (\<lambda>_. 0) (\<lambda>_. None) ''A'' 1 [c]] (empty_replica ''B'' (Unread 0))
   in \<exists>bs. load_from_sqlite (replica_table s) = Inr bs \<and> distinct (map bk_id bs) \<and> b \<in> set bs"
proof -
  define b where "b = example_backend ''sa-1'' SouthAmerica ''AR''"
  define c where "c = change_new (\<lambda>_. 0) 10 10 ''backends'' ''sa-1'' Insert ''{}'' ''A''"
  define cs where "cs = changeset_new (\<lambda>_. 0) (\<lambda>_. None) ''A'' 1 [c]"
  let ?parse = "\<lambda>_ :: string. Some (backend_json b)"
  have i: "bk_id b = ''sa-1''" by (simp add: b_def example_backend_def)
  have cf: "ch_table c = ''backends''" "ch_pk c = ''sa-1''" "ch_kind c = Insert" "wall_time (ch_timestamp c) = 10"
    by (simp_all add: c_def change_new_def hlc_now_def)
  have "cs_changes cs = [c]" "cs_seq cs = 1" by (simp_all add: cs_def changeset_new_def)
  then have all: "all_changes [cs] = [c]" and f: "fifo [cs]" by (simp_all add: all_changes_def fifo_def)
  have d: "\<forall>cs \<in> set [cs]. deliverable (\<lambda>_. 0) (\<lambda>_. None) ?parse cs"
    by (simp add: deliverable_def applicable_def cs_def changeset_new_def changeset_verify_def compute_checksum_def cf)
  have j: "\<forall>c \<in> set (all_changes [cs]). ch_table c = ''backends'' \<and> ch_kind c \<noteq> Delete \<longrightarrow>
      (\<exists>b'. bk_id b' = ch_pk c \<and> ?parse (ch_data c) = Some (backend_json b'))"
    using i cf by (auto simp: all intro: exI [of _ b])
  have room: "event_room (Unread 0) (length (all_changes [cs]))" by (simp add: all)
  have fresh: "binding_repo_get (ps_binding_repo example_service) (client_key_new (IpV4 7)) = None"
    by (simp add: example_service_def proxy_service_new_def binding_repo_defs)
  obtain bs where bs: "load_from_sqlite (replica_table (sync_run (\<lambda>_. 0) (\<lambda>_. None) ?parse 0 [cs]
      (empty_replica ''B'' (Unread 0)))) = Inr bs" "distinct (map bk_id bs)" "set bs = surviving ?parse [c]"
    using replicated_backends_routed [OF f d room j fresh, where now_secs = 0 and n = "''B''", unfolded Let_def all] by blast
  have "change_key c = ''backends:'' @ bk_id b" by (simp add: change_key_def cf i)
  from winner_single [OF this] have "b \<in> surviving ?parse [c]" by (simp add: surviving_def cf)
  with bs show ?thesis by (auto simp: Let_def b_def [symmetric] c_def [symmetric] cs_def [symmetric])
qed

end
