(* ===== verification/Adapters.thy ===== *)
theory Adapters
  imports Proxy_Service
begin

text \<open>
  The application service does not depend on which implementations of the ports it is given: over any two sets of adapters that keep the
  contract \<open>proxy_ports\<close>, it answers every sequence of calls in the same way. The locale \<open>adapter_pair\<close> holds the simulation; it is interpreted on the
  adapters of \<^verbatim>\<open>src/main.rs\<close> against the Prometheus store, the PostgreSQL repository (theory \<open>Prometheus_Store\<close>) and the mocks of the unit
  tests (theory \<open>Tests_Application\<close>).
\<close>

locale adapter_pair =
  one: proxy_ports P bind_new bind_wf metrics_new + two: proxy_ports Q bind_new' bind_wf' metrics_new'
  for P :: "('br, 'bi, 'ms) ports" and bind_new bind_wf metrics_new
    and Q :: "('bs, 'bj, 'mt) ports" and bind_new' bind_wf' metrics_new'
begin

definition same :: "('br, 'bi, 'ms) proxy_service \<Rightarrow> ('bs, 'bj, 'mt) proxy_service \<Rightarrow> bool" where
  "same s t \<longleftrightarrow>
     p_get_all P (ps_backend_repo s) = p_get_all Q (ps_backend_repo t)
     \<and> (\<forall>k. p_bind_get P (ps_binding_repo s) k = p_bind_get Q (ps_binding_repo t) k)
     \<and> bind_wf (ps_binding_repo s) \<and> bind_wf' (ps_binding_repo t)
     \<and> (\<forall>i. p_conn_count P (ps_metrics s) i = p_conn_count Q (ps_metrics t) i)
     \<and> ps_local_region s = ps_local_region t"

lemma same_views:
  assumes "same s t"
  shows "p_get_by_id P (ps_backend_repo s) = p_get_by_id Q (ps_backend_repo t)"
    and "p_get_healthy P (ps_backend_repo s) = p_get_healthy Q (ps_backend_repo t)"
    and "p_conn_count P (ps_metrics s) = p_conn_count Q (ps_metrics t)"
    and "one.dead_binding s ip \<longleftrightarrow> two.dead_binding t ip"
  using assms
  by (auto simp: same_def fun_eq_iff one.repo.get_by_id_find two.repo.get_by_id_find one.repo.get_healthy_filter
      two.repo.get_healthy_filter one.dead_binding_def two.dead_binding_def)

lemma same_bindings:
  assumes "same s t" and "\<And>k. p_bind_get P bi k = p_bind_get Q bj k" and "bind_wf bi" "bind_wf' bj"
  shows "same (s\<lparr>ps_binding_repo := bi\<rparr>) (t\<lparr>ps_binding_repo := bj\<rparr>)"
  using assms by (simp add: same_def)

lemma same_metrics:
  assumes "same s t" and "\<And>i. p_conn_count P ms i = p_conn_count Q mt i"
  shows "same (s\<lparr>ps_metrics := ms\<rparr>) (t\<lparr>ps_metrics := mt\<rparr>)"
  using assms by (simp add: same_def)

lemma same_resolve:
  assumes "same s t"
  shows "fst (resolve_backend_with_geo P now ip geo s) = fst (resolve_backend_with_geo Q now ip geo t)
    \<and> same (snd (resolve_backend_with_geo P now ip geo s)) (snd (resolve_backend_with_geo Q now ip geo t))"
proof (cases "one.dead_binding s ip")
  case True
  note wf = assms [unfolded same_def]
  from one.resolve_unbound [OF True, of now geo] obtain bi where bi:
    "\<And>k. p_bind_get P bi k = (if k = client_key_new ip then None else p_bind_get P (ps_binding_repo s) k)" "bind_wf bi"
    "resolve_backend_with_geo P now ip geo s =
       (case pick_backend (p_get_healthy P (ps_backend_repo s)) (ps_local_region s) geo (p_conn_count P (ps_metrics s)) of
          None \<Rightarrow> (None, s\<lparr>ps_binding_repo := bi\<rparr>)
        | Some b \<Rightarrow> (Some b, s\<lparr>ps_binding_repo := p_bind_set P (client_key_new ip) (binding_new now (bk_id b)) bi\<rparr>))"
    using wf by blast
  from True have "two.dead_binding t ip" using same_views(4) [OF assms] by blast
  from two.resolve_unbound [OF this, of now geo] obtain bj where bj:
    "\<And>k. p_bind_get Q bj k = (if k = client_key_new ip then None else p_bind_get Q (ps_binding_repo t) k)" "bind_wf' bj"
    "resolve_backend_with_geo Q now ip geo t =
       (case pick_backend (p_get_healthy Q (ps_backend_repo t)) (ps_local_region t) geo (p_conn_count Q (ps_metrics t)) of
          None \<Rightarrow> (None, t\<lparr>ps_binding_repo := bj\<rparr>)
        | Some b \<Rightarrow> (Some b, t\<lparr>ps_binding_repo := p_bind_set Q (client_key_new ip) (binding_new now (bk_id b)) bj\<rparr>))"
    using wf by blast
  have "ps_local_region s = ps_local_region t" "\<And>k. p_bind_get P bi k = p_bind_get Q bj k" using wf bi(1) bj(1) by simp_all
  with bi(2,3) bj(2,3) same_views(2,3) [OF assms] assms show ?thesis
    by (auto intro!: same_bindings simp: one.bind.get_set two.bind.get_set one.bind.wf_set two.bind.wf_set split: option.split)
next
  case False
  then obtain bd b where b: "p_bind_get P (ps_binding_repo s) (client_key_new ip) = Some bd"
    "p_get_by_id P (ps_backend_repo s) (bd_backend_id bd) = Some b" "bk_healthy b" by (rule one.not_dead_binding)
  moreover from b assms have "p_bind_get Q (ps_binding_repo t) (client_key_new ip) = Some bd"
    "p_get_by_id Q (ps_backend_repo t) (bd_backend_id bd) = Some b" by (simp_all add: same_def same_views(1) [OF assms, symmetric])
  moreover from assms have "same (s\<lparr>ps_binding_repo := p_bind_touch P now (client_key_new ip) (ps_binding_repo s)\<rparr>)
      (t\<lparr>ps_binding_repo := p_bind_touch Q now (client_key_new ip) (ps_binding_repo t)\<rparr>)"
    by (auto simp: same_def one.bind.get_touch two.bind.get_touch one.bind.wf_touch two.bind.wf_touch)
  ultimately show ?thesis by (simp add: one.resolve_bound two.resolve_bound)
qed

lemma same_step: "same s t \<Longrightarrow> same (proxy_step P c s) (proxy_step Q c t)"
proof (cases c)
  case (Pair now call)
  assume st: "same s t"
  note same = st [unfolded same_def]
  show ?thesis
  proof (cases call)
    case (Resolve ip geo)
    with Pair same_resolve [OF st] show ?thesis by simp
  next
    case (Clear ip)
    with Pair st same show ?thesis
      by (auto intro!: same_bindings simp: clear_binding_def one.bind.get_remove two.bind.get_remove one.bind.wf_remove two.bind.wf_remove)
  next
    case (ConnStart i)
    with Pair st same show ?thesis
      by (auto intro!: same_metrics simp: record_connection_start_def one.metrics.count_increment two.metrics.count_increment)
  next
    case (ConnEnd i)
    with Pair st same show ?thesis
      by (auto intro!: same_metrics simp: record_connection_end_def one.metrics.count_decrement two.metrics.count_decrement)
  next
    case (Rtt i r)
    with Pair st same show ?thesis
      by (auto intro!: same_metrics simp: proxy_record_rtt_def one.metrics.count_record_rtt two.metrics.count_record_rtt)
  next
    case (Cleanup ttl)
    with Pair st same show ?thesis
      by (auto intro!: same_bindings simp: binding_cleanup_tick_def one.bind.get_cleanup two.bind.get_cleanup
          one.bind.wf_cleanup two.bind.wf_cleanup)
  qed
qed

lemma same_run: "same s t \<Longrightarrow> same (proxy_run P cs s) (proxy_run Q cs t)"
  by (induction cs arbitrary: s t) (auto intro: same_step)

lemma same_start:
  assumes "p_get_all P br = p_get_all Q bs" and "bind_wf bi" "bind_wf' bj" and "p_bind_get P bi = p_bind_get Q bj"
  shows "same (proxy_service_new br bi geo metrics_new lr) (proxy_service_new bs bj geo' metrics_new' lr)"
  using assms by (simp add: same_def proxy_service_new_def one.metrics.count_new two.metrics.count_new)

lemma interchangeable:
  assumes "p_get_all P br = p_get_all Q bs" and "bind_wf bi" "bind_wf' bj" and "p_bind_get P bi = p_bind_get Q bj"
  shows "let s = proxy_run P calls (proxy_service_new br bi geo metrics_new lr);
             t = proxy_run Q calls (proxy_service_new bs bj geo' metrics_new' lr)
     in fst (resolve_backend_with_geo P now ip g s) = fst (resolve_backend_with_geo Q now ip g t)
        \<and> p_bind_get P (ps_binding_repo s) = p_bind_get Q (ps_binding_repo t)
        \<and> p_conn_count P (ps_metrics s) = p_conn_count Q (ps_metrics t)"
proof -
  have "same (proxy_run P calls (proxy_service_new br bi geo metrics_new lr))
     (proxy_run Q calls (proxy_service_new bs bj geo' metrics_new' lr))" by (intro same_run same_start assms)
  from same_resolve [OF this, of now ip g] this show ?thesis by (simp add: same_def Let_def fun_eq_iff)
qed

lemma interchangeable_new:
  assumes "p_get_all P br = p_get_all Q bs"
  shows "fst (resolve_backend_with_geo P now ip g (proxy_run P calls (proxy_service_new br bind_new geo metrics_new lr)))
    = fst (resolve_backend_with_geo Q now ip g (proxy_run Q calls (proxy_service_new bs bind_new' geo' metrics_new' lr)))"
  using interchangeable [OF assms, of bind_new bind_new', unfolded Let_def]
  by (simp add: one.bind.wf_new two.bind.wf_new one.bind.get_new two.bind.get_new fun_eq_iff)

end

end
