(* ===== verification/Prometheus_Store.thy ===== *)
theory Prometheus_Store
  imports Adapters F64
begin

text \<open>
  The second implementation of the metrics port, \<^verbatim>\<open>src/adapters/outbound/prometheus_metrics_store.rs\<close>, with
  its text export. It satisfies the same locale as the DashMap store, and the proxy service routes in the same way with
  either of them, and with either of the backend repositories.
\<close>

section \<open>Model\<close>

record aggregated_metrics =
  am_total_connections :: u64
  am_bytes_sent :: u64
  am_bytes_received :: u64
  am_connection_errors :: u64

definition aggregated_metrics_default :: aggregated_metrics where
  "aggregated_metrics_default =
     \<lparr>am_total_connections = 0, am_bytes_sent = 0, am_bytes_received = 0, am_connection_errors = 0\<rparr>"

record prom_metrics =
  pm_active_connections :: usize
  pm_total_connections :: u64
  pm_last_rtt_ms :: u64
  pm_rtt_sum_ms :: u64
  pm_rtt_count :: u64
  pm_connection_errors :: u64

definition prom_metrics_new :: prom_metrics where
  "prom_metrics_new =
     \<lparr>pm_active_connections = 0, pm_total_connections = 0, pm_last_rtt_ms = 0, pm_rtt_sum_ms = 0, pm_rtt_count = 0,
      pm_connection_errors = 0\<rparr>"

definition prom_metrics_default :: prom_metrics where
  "prom_metrics_default = prom_metrics_new"

definition avg_rtt_ms :: "prom_metrics \<Rightarrow> f64" where
  "avg_rtt_ms m =
     (if pm_rtt_count m = 0 then Fin 0 else f64_div (f64_of_word (pm_rtt_sum_ms m)) (f64_of_word (pm_rtt_count m)))"

record prometheus_store =
  pr_backends :: "(string, prom_metrics) store"
  pr_global :: aggregated_metrics
  pr_region :: string

definition prom_new :: "string \<Rightarrow> prometheus_store" where
  "prom_new region = \<lparr>pr_backends = dm_empty, pr_global = aggregated_metrics_default, pr_region = region\<rparr>"

definition prom_default :: prometheus_store where
  "prom_default = prom_new ''unknown''"

text \<open>\<^verbatim>\<open>get_or_create\<close> followed by an update of the entry it returns.\<close>

definition prom_update :: "string \<Rightarrow> (prom_metrics \<Rightarrow> prom_metrics) \<Rightarrow> prometheus_store \<Rightarrow> prometheus_store" where
  "prom_update i f s = s\<lparr>pr_backends := dm_modify i f (dm_entry_or i prom_metrics_new (pr_backends s))\<rparr>"

definition prom_record_error :: "string \<Rightarrow> prometheus_store \<Rightarrow> prometheus_store" where
  "prom_record_error i s =
     (let s = prom_update i (\<lambda>m. m\<lparr>pm_connection_errors := pm_connection_errors m + 1\<rparr>) s
      in s\<lparr>pr_global := (pr_global s)\<lparr>am_connection_errors := am_connection_errors (pr_global s) + 1\<rparr>\<rparr>)"

definition prom_record_bytes :: "u64 \<Rightarrow> u64 \<Rightarrow> prometheus_store \<Rightarrow> prometheus_store" where
  "prom_record_bytes sent received s =
     s\<lparr>pr_global := (pr_global s)\<lparr>am_bytes_sent := am_bytes_sent (pr_global s) + sent,
                                  am_bytes_received := am_bytes_received (pr_global s) + received\<rparr>\<rparr>"

definition prom_backend_ids :: "prometheus_store \<Rightarrow> string list" where
  "prom_backend_ids s = dm_keys (pr_backends s)"

definition prom_get_backend_metrics :: "prometheus_store \<Rightarrow> string \<Rightarrow> prom_metrics option" where
  "prom_get_backend_metrics s i = dm_get (pr_backends s) i"

definition prom_global_metrics :: "prometheus_store \<Rightarrow> aggregated_metrics" where
  "prom_global_metrics s = pr_global s"

definition prom_get_connection_count :: "prometheus_store \<Rightarrow> string \<Rightarrow> usize" where
  "prom_get_connection_count s i = (case dm_get (pr_backends s) i of Some m \<Rightarrow> pm_active_connections m | None \<Rightarrow> 0)"

definition prom_increment_connections :: "string \<Rightarrow> prometheus_store \<Rightarrow> prometheus_store" where
  "prom_increment_connections i s =
     (let s = prom_update i (\<lambda>m. m\<lparr>pm_active_connections := pm_active_connections m + 1,
                                   pm_total_connections := pm_total_connections m + 1\<rparr>) s
      in s\<lparr>pr_global := (pr_global s)\<lparr>am_total_connections := am_total_connections (pr_global s) + 1\<rparr>\<rparr>)"

definition prom_decrement_connections :: "string \<Rightarrow> prometheus_store \<Rightarrow> prometheus_store" where
  "prom_decrement_connections i s =
     (case dm_get (pr_backends s) i of
        Some m \<Rightarrow> s\<lparr>pr_backends := dm_insert i (m\<lparr>pm_active_connections :=
                      dec_loop 0 (pm_active_connections m) (pm_active_connections m)\<rparr>) (pr_backends s)\<rparr>
      | None \<Rightarrow> s)"

definition prom_record_rtt :: "string \<Rightarrow> u64 \<Rightarrow> prometheus_store \<Rightarrow> prometheus_store" where
  "prom_record_rtt i rtt_ms s =
     prom_update i (\<lambda>m. m\<lparr>pm_last_rtt_ms := rtt_ms, pm_rtt_sum_ms := pm_rtt_sum_ms m + rtt_ms,
                          pm_rtt_count := pm_rtt_count m + 1\<rparr>) s"

definition prom_get_last_rtt :: "prometheus_store \<Rightarrow> string \<Rightarrow> u64 option" where
  "prom_get_last_rtt s i = map_option pm_last_rtt_ms (dm_get (pr_backends s) i)"

subsection \<open>The text export\<close>

text \<open>\<^verbatim>\<open>{:.2}\<close>: the exact value to two decimals, ties to even.\<close>

fun show_f64_2 :: "f64 \<Rightarrow> string" where
  "show_f64_2 (Fin q) =
     (let n = nat (round_half_even (q * 100))
      in show_nat (n div 100) @ ''.'' @ [digit_char (n div 10 mod 10), digit_char (n mod 10)])"
| "show_f64_2 Inf = ''inf''"
| "show_f64_2 NaN = ''NaN''"

definition prom_header :: "string \<Rightarrow> string \<Rightarrow> string \<Rightarrow> string" where
  "prom_header name descr kind =
     ''# HELP '' @ name @ '' '' @ descr @ [CHR 0x0A] @ ''# TYPE '' @ name @ '' '' @ kind @ [CHR 0x0A]"

definition prom_quote :: "string \<Rightarrow> string" where
  "prom_quote s = [CHR 0x22] @ s @ [CHR 0x22]"

definition prom_global_line :: "string \<Rightarrow> string \<Rightarrow> u64 \<Rightarrow> string" where
  "prom_global_line name region v = name @ ''{region='' @ prom_quote region @ ''} '' @ show_word v @ [CHR 0x0A]"

definition prom_backend_line :: "string \<Rightarrow> string \<Rightarrow> string \<Rightarrow> string \<Rightarrow> string" where
  "prom_backend_line name region i v =
     name @ ''{region='' @ prom_quote region @ '',backend='' @ prom_quote i @ ''} '' @ v @ [CHR 0x0A]"

definition export_backend :: "string \<Rightarrow> string \<times> prom_metrics \<Rightarrow> string" where
  "export_backend region e =
     (let (i, m) = e in
      prom_backend_line ''edgeproxy_backend_connections_active'' region i (show_word (pm_active_connections m))
      @ prom_backend_line ''edgeproxy_backend_connections_total'' region i (show_word (pm_total_connections m))
      @ prom_backend_line ''edgeproxy_backend_rtt_ms'' region i (show_word (pm_last_rtt_ms m))
      @ prom_backend_line ''edgeproxy_backend_rtt_avg_ms'' region i (show_f64_2 (avg_rtt_ms m))
      @ prom_backend_line ''edgeproxy_backend_errors_total'' region i (show_word (pm_connection_errors m)))"

definition export_prometheus :: "prometheus_store \<Rightarrow> string" where
  "export_prometheus s =
     (let r = pr_region s; g = pr_global s in
      prom_header ''edgeproxy_connections_total'' ''Total connections established'' ''counter''
      @ prom_global_line ''edgeproxy_connections_total'' r (am_total_connections g)
      @ prom_header ''edgeproxy_bytes_sent_total'' ''Total bytes sent to backends'' ''counter''
      @ prom_global_line ''edgeproxy_bytes_sent_total'' r (am_bytes_sent g)
      @ prom_header ''edgeproxy_bytes_received_total'' ''Total bytes received from backends'' ''counter''
      @ prom_global_line ''edgeproxy_bytes_received_total'' r (am_bytes_received g)
      @ prom_header ''edgeproxy_connection_errors_total'' ''Total connection errors'' ''counter''
      @ prom_global_line ''edgeproxy_connection_errors_total'' r (am_connection_errors g)
      @ prom_header ''edgeproxy_backend_connections_active'' ''Current active connections per backend'' ''gauge''
      @ prom_header ''edgeproxy_backend_connections_total'' ''Total connections per backend'' ''counter''
      @ prom_header ''edgeproxy_backend_rtt_ms'' ''Last RTT to backend in milliseconds'' ''gauge''
      @ prom_header ''edgeproxy_backend_rtt_avg_ms'' ''Average RTT to backend in milliseconds'' ''gauge''
      @ prom_header ''edgeproxy_backend_errors_total'' ''Total errors per backend'' ''counter''
      @ concat (map (export_backend r) (pr_backends s)))"

section \<open>The store satisfies the port\<close>

lemmas prom_defs =
  prom_new_def prom_get_connection_count_def prom_increment_connections_def prom_decrement_connections_def
  prom_record_rtt_def prom_get_last_rtt_def prom_update_def prom_metrics_new_def

interpretation prom: metrics_store_port
  "prom_new region" prom_get_connection_count prom_increment_connections prom_decrement_connections
  prom_record_rtt prom_get_last_rtt
  by unfold_locales (auto simp: prom_defs Let_def word_gt_0 split: option.splits)

definition prom_ports :: "(sqlite_repo, binding_repo, prometheus_store) ports" where
  "prom_ports =
     \<lparr>p_get_all = sqlite_get_all, p_get_by_id = sqlite_get_by_id, p_get_healthy = sqlite_get_healthy,
      p_get_version = sqlite_get_version,
      p_bind_get = binding_repo_get, p_bind_set = binding_repo_set,
      p_bind_remove = binding_repo_remove, p_bind_touch = binding_repo_touch,
      p_bind_cleanup = binding_repo_cleanup_expired, p_bind_count = binding_repo_count,
      p_conn_count = prom_get_connection_count, p_conn_inc = prom_increment_connections,
      p_conn_dec = prom_decrement_connections, p_record_rtt = prom_record_rtt,
      p_last_rtt = prom_get_last_rtt\<rparr>"

interpretation prom_proxy: proxy_ports prom_ports binding_repo_new dm_wf "prom_new region"
  unfolding proxy_ports_def prom_ports_def ports_simps
  by (intro conjI sqlite.backend_repository_axioms bindings.binding_repository_axioms
      prom.metrics_store_port_axioms)

section \<open>Runs of the store\<close>

datatype prom_op = PromInc string | PromDec string | PromRtt string u64 | PromError string | PromBytes u64 u64

fun prom_step :: "prom_op \<Rightarrow> prometheus_store \<Rightarrow> prometheus_store" where
  "prom_step (PromInc i) s = prom_increment_connections i s"
| "prom_step (PromDec i) s = prom_decrement_connections i s"
| "prom_step (PromRtt i r) s = prom_record_rtt i r s"
| "prom_step (PromError i) s = prom_record_error i s"
| "prom_step (PromBytes a b) s = prom_record_bytes a b s"

definition prom_run :: "prom_op list \<Rightarrow> prometheus_store \<Rightarrow> prometheus_store" where
  "prom_run ops s = fold prom_step ops s"

definition prom_sum :: "(prom_metrics \<Rightarrow> u64) \<Rightarrow> prometheus_store \<Rightarrow> u64" where
  "prom_sum f s = sum_list (map f (dm_values (pr_backends s)))"

lemma sum_insert:
  fixes f :: "'v \<Rightarrow> u64"
  shows "sum_list (map f (dm_values (dm_insert k v m)))
    = sum_list (map f (dm_values m)) + f v - (case dm_get m k of Some w \<Rightarrow> f w | None \<Rightarrow> 0)"
  by (induction m) (auto simp: dm_insert_def dm_values_def dm_get_def)

lemma prom_sum_update:
  assumes "f prom_metrics_new = 0"
  shows "prom_sum f (prom_update i g s) = prom_sum f s
    + (let m = (case dm_get (pr_backends s) i of Some m \<Rightarrow> m | None \<Rightarrow> prom_metrics_new) in f (g m) - f m)"
  using assms
  by (auto simp: prom_sum_def prom_update_def dm_modify_def dm_entry_or_def dm_contains_def sum_insert Let_def
      split: option.splits)

lemma prom_sum_decrement:
  assumes "\<And>m a. f (m\<lparr>pm_active_connections := a\<rparr>) = f m"
  shows "prom_sum f (prom_decrement_connections i s) = prom_sum f s"
  using assms by (auto simp: prom_sum_def prom_decrement_connections_def sum_insert split: option.split)

lemma prom_update_global [simp]:
  "pr_global (prom_update i g s) = pr_global s" "pr_region (prom_update i g s) = pr_region s"
  by (simp_all add: prom_update_def)

lemma prom_sum_global [simp]: "prom_sum f (s\<lparr>pr_global := g\<rparr>) = prom_sum f s"
  by (simp add: prom_sum_def)

definition totals_agree :: "prometheus_store \<Rightarrow> bool" where
  "totals_agree s \<longleftrightarrow> am_total_connections (pr_global s) = prom_sum pm_total_connections s
     \<and> am_connection_errors (pr_global s) = prom_sum pm_connection_errors s"

lemma prom_step_totals: "totals_agree s \<Longrightarrow> totals_agree (prom_step op s)"
proof (cases op)
  case (PromDec i)
  assume "totals_agree s"
  moreover have "pr_global (prom_decrement_connections i s) = pr_global s"
    by (simp add: prom_decrement_connections_def split: option.split)
  ultimately show ?thesis using PromDec by (simp add: totals_agree_def prom_sum_decrement)
qed (auto simp: totals_agree_def prom_increment_connections_def prom_record_rtt_def prom_record_error_def
      prom_record_bytes_def prom_sum_update prom_metrics_new_def Let_def)

lemma prom_run_totals: "totals_agree s \<Longrightarrow> totals_agree (prom_run ops s)"
  unfolding prom_run_def by (induction ops arbitrary: s) (auto intro: prom_step_totals)

section \<open>Properties\<close>

text \<open>
  In every state the store can reach, the exported global number of connections is the sum of the exported numbers per backend, and
  so is the number of errors, also when the 64-bit counters wrap around.
\<close>

lemma prometheus_totals_agree:
  "let s = prom_run ops (prom_new region) in
     am_total_connections (prom_global_metrics s) = sum_list (map pm_total_connections (dm_values (pr_backends s)))
     \<and> am_connection_errors (prom_global_metrics s) = sum_list (map pm_connection_errors (dm_values (pr_backends s)))"
proof -
  have "totals_agree (prom_new region)"
    by (simp add: totals_agree_def prom_new_def prom_sum_def aggregated_metrics_default_def dm_values_def dm_empty_def)
  from prom_run_totals [OF this, of ops] show ?thesis
    by (simp add: totals_agree_def prom_sum_def prom_global_metrics_def Let_def)
qed

section \<open>The adapters are interchangeable\<close>

definition pg_ports :: "(pg_repo, binding_repo, prometheus_store) ports" where
  "pg_ports =
     \<lparr>p_get_all = pg_get_all, p_get_by_id = pg_get_by_id, p_get_healthy = pg_get_healthy, p_get_version = pg_get_version,
      p_bind_get = binding_repo_get, p_bind_set = binding_repo_set,
      p_bind_remove = binding_repo_remove, p_bind_touch = binding_repo_touch,
      p_bind_cleanup = binding_repo_cleanup_expired, p_bind_count = binding_repo_count,
      p_conn_count = prom_get_connection_count, p_conn_inc = prom_increment_connections,
      p_conn_dec = prom_decrement_connections, p_record_rtt = prom_record_rtt,
      p_last_rtt = prom_get_last_rtt\<rparr>"

interpretation pg_proxy: proxy_ports pg_ports binding_repo_new dm_wf "prom_new region"
  unfolding proxy_ports_def pg_ports_def ports_simps
  by (intro conjI pg.backend_repository_axioms bindings.binding_repository_axioms prom.metrics_store_port_axioms)

interpretation prom_pair: adapter_pair main_ports binding_repo_new dm_wf metrics_store_new
  prom_ports binding_repo_new dm_wf "prom_new region" ..

interpretation pg_pair: adapter_pair main_ports binding_repo_new dm_wf metrics_store_new
  pg_ports binding_repo_new dm_wf "prom_new region" ..

text \<open>
  C39: the outbound adapters are interchangeable. Take the service as \<^verbatim>\<open>main\<close> builds it, over the SQLite repository and the DashMap metrics; one that
  uses the Prometheus store instead; and one that uses the PostgreSQL repository as well, with the same backends in its cache. After any sequence of calls
  the three give the same backend to every client, hold the same binding for every client and report the same connection count for every backend.
\<close>

theorem adapters_interchangeable:
  assumes "pg_get_all pr = sqlite_get_all br" and "dm_wf bi"
  shows "let s = proxy_run main_ports calls (proxy_service_new br bi geo metrics_store_new lr);
             t = proxy_run prom_ports calls (proxy_service_new br bi geo (prom_new region) lr);
             u = proxy_run pg_ports calls (proxy_service_new pr bi geo (prom_new region) lr)
    in fst (resolve_backend_with_geo prom_ports now ip g t) = fst (resolve_backend_with_geo main_ports now ip g s)
       \<and> fst (resolve_backend_with_geo pg_ports now ip g u) = fst (resolve_backend_with_geo main_ports now ip g s)
       \<and> binding_repo_get (ps_binding_repo t) = binding_repo_get (ps_binding_repo s)
       \<and> binding_repo_get (ps_binding_repo u) = binding_repo_get (ps_binding_repo s)
       \<and> prom_get_connection_count (ps_metrics t) = metrics_get_connection_count (ps_metrics s)
       \<and> prom_get_connection_count (ps_metrics u) = metrics_get_connection_count (ps_metrics s)"
proof -
  have "p_get_all main_ports br = p_get_all prom_ports br" "p_get_all main_ports br = p_get_all pg_ports pr"
    "p_bind_get main_ports bi = p_bind_get prom_ports bi" "p_bind_get main_ports bi = p_bind_get pg_ports bi"
    using assms by (simp_all add: main_ports_def prom_ports_def pg_ports_def)
  note prem = this
  note prom = prom_pair.interchangeable [OF prem(1) assms(2,2) prem(3), unfolded Let_def, where calls = calls and geo = geo and geo' = geo and lr = lr and region = region
      and now = now and ip = ip and g = g]
  note pg = pg_pair.interchangeable [OF prem(2) assms(2,2) prem(4), unfolded Let_def, where calls = calls and geo = geo and geo' = geo and lr = lr and region = region
      and now = now and ip = ip and g = g]
  have "p_bind_get main_ports = binding_repo_get" "p_bind_get prom_ports = binding_repo_get" "p_bind_get pg_ports = binding_repo_get"
    "p_conn_count main_ports = metrics_get_connection_count" "p_conn_count prom_ports = prom_get_connection_count"
    "p_conn_count pg_ports = prom_get_connection_count"
    by (simp_all add: main_ports_def prom_ports_def pg_ports_def)
  with prom pg show ?thesis by (simp add: Let_def)
qed

definition example_pg_backend :: backend where
  "example_pg_backend = \<lparr>bk_id = ''b1'', bk_app = ''myapp'', bk_region = SouthAmerica, bk_country = ''BR'', bk_wg_ip = ''10.50.1.1'', bk_port = 8080,
     bk_healthy = True, bk_weight = 2, bk_soft_limit = 100, bk_hard_limit = 150\<rparr>"

theorem adapters_interchangeable_witness:
  "let pr = pg_add_backend example_pg_backend pg_repo_default;
       br = \<lparr>sq_backends = [example_pg_backend], sq_version = 1\<rparr>;
       calls = [(5, Resolve (IpV4 1) None), (6, ConnStart ''b1''), (7, Cleanup 1)];
       s = proxy_run main_ports calls (proxy_service_new br binding_repo_new None metrics_store_new SouthAmerica);
       u = proxy_run pg_ports calls (proxy_service_new pr binding_repo_new None (prom_new ''sa'') SouthAmerica)
   in pg_get_all pr = sqlite_get_all br \<and> dm_wf binding_repo_new
      \<and> fst (resolve_backend_with_geo pg_ports 9 (IpV4 1) None u) = fst (resolve_backend_with_geo main_ports 9 (IpV4 1) None s)
      \<and> prom_get_connection_count (ps_metrics u) ''b1'' = 1"
proof -
  have p: "pg_get_all (pg_add_backend example_pg_backend pg_repo_default) = sqlite_get_all \<lparr>sq_backends = [example_pg_backend], sq_version = 1\<rparr>"
    by (simp add: pg_get_all_def pg_add_backend_def sqlite_get_all_def pg_repo_default_def pg_repo_new_def)
  moreover have w: "dm_wf binding_repo_new" by (rule bindings.wf_new)
  moreover have f: "ps_metrics (snd (resolve_backend_with_geo main_ports now ip geo s)) = ps_metrics s" for now ip geo s
    using main.resolve_frame [OF prod.collapse [symmetric], of now ip geo s] by simp
  moreover have c: "p_conn_count main_ports = metrics_get_connection_count" by (simp add: main_ports_def)
  moreover have "metrics_get_connection_count (ps_metrics (proxy_run main_ports [(5, Resolve (IpV4 1) None), (6, ConnStart ''b1''), (7, Cleanup 1)]
      (proxy_service_new \<lparr>sq_backends = [example_pg_backend], sq_version = 1\<rparr> binding_repo_new None metrics_store_new SouthAmerica))) ''b1'' = 1"
    by (simp add: record_connection_start_def binding_cleanup_tick_def metrics.count_increment metrics.count_new f
        proxy_service_new_def main.metrics.count_increment [unfolded c])
  ultimately show ?thesis
    using adapters_interchangeable [OF p w, of "[(5, Resolve (IpV4 1) None), (6, ConnStart ''b1''), (7, Cleanup 1)]" None SouthAmerica "''sa''" 9 "IpV4 1" None]
    by (simp add: Let_def)
qed

end
