(* ===== verification/Circuit_Breaker.thy ===== *)
theory Circuit_Breaker
  imports Prelude
begin

text \<open>
  The circuit breaker, \<^verbatim>\<open>src/infrastructure/circuit_breaker.rs\<close>. A circuit is the record of its atomic
  cells, the state cell keeping the \<^verbatim>\<open>u32\<close> encoding of the sources. The operations on one circuit are
  functions of the configuration, the reading of \<^verbatim>\<open>now_ms\<close> and the circuit; the breaker applies them
  to the entry of a backend. Here each call is one step; the interleaving of calls on one circuit, at
  the granularity of its atomic cells, is in theory \<open>Breaker_Race\<close>.
\<close>

section \<open>Model\<close>

record cb_config =
  cb_failure_threshold :: u32
  cb_reset_timeout :: duration
  cb_success_threshold :: u32
  cb_failure_window :: duration

definition cb_config_default :: cb_config where
  "cb_config_default =
     \<lparr>cb_failure_threshold = 5, cb_reset_timeout = from_secs 30, cb_success_threshold = 3,
      cb_failure_window = from_secs 60\<rparr>"

datatype circuit_state = Closed | Open | HalfOpen

fun circuit_state_display :: "circuit_state \<Rightarrow> string" where
  "circuit_state_display Closed = ''closed''"
| "circuit_state_display Open = ''open''"
| "circuit_state_display HalfOpen = ''half-open''"

record backend_circuit =
  bc_state :: u32
  bc_failures :: u32
  bc_successes :: u32
  bc_opened_at_ms :: u64
  bc_last_failure_ms :: u64

definition backend_circuit_new :: backend_circuit where
  "backend_circuit_new =
     \<lparr>bc_state = 0, bc_failures = 0, bc_successes = 0, bc_opened_at_ms = 0, bc_last_failure_ms = 0\<rparr>"

definition bc_get_state :: "backend_circuit \<Rightarrow> circuit_state" where
  "bc_get_state c = (if bc_state c = 0 then Closed else if bc_state c = 1 then Open else HalfOpen)"

fun encode_state :: "circuit_state \<Rightarrow> u32" where
  "encode_state Closed = 0"
| "encode_state Open = 1"
| "encode_state HalfOpen = 2"

definition bc_set_state :: "circuit_state \<Rightarrow> backend_circuit \<Rightarrow> backend_circuit" where
  "bc_set_state st c = c\<lparr>bc_state := encode_state st\<rparr>"

record circuit_breaker =
  cb_config :: cb_config
  cb_circuits :: "(string, backend_circuit) store"

definition circuit_breaker_new :: "cb_config \<Rightarrow> circuit_breaker" where
  "circuit_breaker_new cfg = \<lparr>cb_config = cfg, cb_circuits = dm_empty\<rparr>"

definition circuit_breaker_default :: circuit_breaker where
  "circuit_breaker_default = circuit_breaker_new cb_config_default"

definition cb_now_ms :: "instant \<Rightarrow> instant \<Rightarrow> u64" where
  "cb_now_ms start now = as_millis_u64 (duration_since now start)"

text \<open>The bodies of \<^verbatim>\<open>allow_request\<close>, \<^verbatim>\<open>record_success\<close>, \<^verbatim>\<open>record_failure\<close> and \<^verbatim>\<open>reset\<close> on one circuit.\<close>

definition circuit_allow :: "cb_config \<Rightarrow> u64 \<Rightarrow> backend_circuit \<Rightarrow> bool \<times> backend_circuit" where
  "circuit_allow cfg now c =
     (case bc_get_state c of
        Closed \<Rightarrow> (True, c)
      | Open \<Rightarrow>
          if as_millis_u64 (cb_reset_timeout cfg) \<le> saturating_sub now (bc_opened_at_ms c)
          then (True, (bc_set_state HalfOpen c)\<lparr>bc_successes := 0\<rparr>)
          else (False, c)
      | HalfOpen \<Rightarrow> (True, c))"

definition circuit_success :: "cb_config \<Rightarrow> backend_circuit \<Rightarrow> backend_circuit" where
  "circuit_success cfg c =
     (case bc_get_state c of
        HalfOpen \<Rightarrow>
          let successes = bc_successes c + 1; c = c\<lparr>bc_successes := successes\<rparr> in
          if cb_success_threshold cfg \<le> successes
          then (bc_set_state Closed c)\<lparr>bc_failures := 0, bc_successes := 0\<rparr>
          else c
      | Closed \<Rightarrow> c\<lparr>bc_failures := 0\<rparr>
      | Open \<Rightarrow> c)"

definition circuit_failure :: "cb_config \<Rightarrow> u64 \<Rightarrow> backend_circuit \<Rightarrow> backend_circuit" where
  "circuit_failure cfg now c =
     (case bc_get_state c of
        Closed \<Rightarrow>
          let c' =
            (if as_millis_u64 (cb_failure_window cfg) < saturating_sub now (bc_last_failure_ms c)
             then c\<lparr>bc_failures := 1\<rparr>
             else let failures = bc_failures c + 1; c = c\<lparr>bc_failures := failures\<rparr> in
               if cb_failure_threshold cfg \<le> failures
               then (bc_set_state Open c)\<lparr>bc_opened_at_ms := now\<rparr>
               else c)
          in c'\<lparr>bc_last_failure_ms := now\<rparr>
      | HalfOpen \<Rightarrow> (bc_set_state Open c)\<lparr>bc_opened_at_ms := now, bc_successes := 0\<rparr>
      | Open \<Rightarrow> c\<lparr>bc_opened_at_ms := now\<rparr>)"

definition circuit_reset :: "backend_circuit \<Rightarrow> backend_circuit" where
  "circuit_reset c = (bc_set_state Closed c)\<lparr>bc_failures := 0, bc_successes := 0\<rparr>"

definition cb_get_or_create :: "string \<Rightarrow> circuit_breaker \<Rightarrow> circuit_breaker \<times> backend_circuit" where
  "cb_get_or_create i b =
     (let m = dm_entry_or i backend_circuit_new (cb_circuits b)
      in (b\<lparr>cb_circuits := m\<rparr>, case dm_get m i of Some c \<Rightarrow> c | None \<Rightarrow> backend_circuit_new))"

definition allow_request :: "u64 \<Rightarrow> string \<Rightarrow> circuit_breaker \<Rightarrow> bool \<times> circuit_breaker" where
  "allow_request now i b =
     (let (b, c) = cb_get_or_create i b; (ok, c') = circuit_allow (cb_config b) now c
      in (ok, b\<lparr>cb_circuits := dm_insert i c' (cb_circuits b)\<rparr>))"

definition record_success :: "string \<Rightarrow> circuit_breaker \<Rightarrow> circuit_breaker" where
  "record_success i b =
     (let (b, c) = cb_get_or_create i b
      in b\<lparr>cb_circuits := dm_insert i (circuit_success (cb_config b) c) (cb_circuits b)\<rparr>)"

definition record_failure :: "u64 \<Rightarrow> string \<Rightarrow> circuit_breaker \<Rightarrow> circuit_breaker" where
  "record_failure now i b =
     (let (b, c) = cb_get_or_create i b
      in b\<lparr>cb_circuits := dm_insert i (circuit_failure (cb_config b) now c) (cb_circuits b)\<rparr>)"

definition cb_get_state :: "circuit_breaker \<Rightarrow> string \<Rightarrow> circuit_state" where
  "cb_get_state b i = (case dm_get (cb_circuits b) i of Some c \<Rightarrow> bc_get_state c | None \<Rightarrow> Closed)"

record circuit_metrics =
  cm_state :: circuit_state
  cm_failures :: u32
  cm_successes :: u32

definition circuit_state_default :: circuit_state where
  "circuit_state_default = Closed"

definition circuit_metrics_default :: circuit_metrics where
  "circuit_metrics_default = \<lparr>cm_state = circuit_state_default, cm_failures = 0, cm_successes = 0\<rparr>"

definition cb_get_metrics :: "circuit_breaker \<Rightarrow> string \<Rightarrow> circuit_metrics" where
  "cb_get_metrics b i =
     (case dm_get (cb_circuits b) i of
        Some c \<Rightarrow> \<lparr>cm_state = bc_get_state c, cm_failures = bc_failures c, cm_successes = bc_successes c\<rparr>
      | None \<Rightarrow> \<lparr>cm_state = Closed, cm_failures = 0, cm_successes = 0\<rparr>)"

definition cb_all_states :: "circuit_breaker \<Rightarrow> (string \<times> circuit_state) list" where
  "cb_all_states b = map (\<lambda>(i, c). (i, bc_get_state c)) (cb_circuits b)"

definition cb_reset :: "string \<Rightarrow> circuit_breaker \<Rightarrow> circuit_breaker" where
  "cb_reset i b = b\<lparr>cb_circuits := dm_modify i circuit_reset (cb_circuits b)\<rparr>"

definition cb_clear_all :: "circuit_breaker \<Rightarrow> circuit_breaker" where
  "cb_clear_all b = b\<lparr>cb_circuits := dm_empty\<rparr>"

text \<open>Calls on the breaker for one backend, with the clock reading of each.\<close>

datatype cb_call = Allow u64 | Success | Failure u64 | Reset

fun circuit_step :: "cb_config \<Rightarrow> cb_call \<Rightarrow> backend_circuit \<Rightarrow> backend_circuit" where
  "circuit_step cfg (Allow now) c = snd (circuit_allow cfg now c)"
| "circuit_step cfg Success c = circuit_success cfg c"
| "circuit_step cfg (Failure now) c = circuit_failure cfg now c"
| "circuit_step cfg Reset c = circuit_reset c"

fun breaker_step :: "string \<times> cb_call \<Rightarrow> circuit_breaker \<Rightarrow> circuit_breaker" where
  "breaker_step (i, Allow now) b = snd (allow_request now i b)"
| "breaker_step (i, Success) b = record_success i b"
| "breaker_step (i, Failure now) b = record_failure now i b"
| "breaker_step (i, Reset) b = cb_reset i b"

fun breaker_run :: "(string \<times> cb_call) list \<Rightarrow> circuit_breaker \<Rightarrow> circuit_breaker" where
  "breaker_run [] b = b"
| "breaker_run (x # xs) b = breaker_run xs (breaker_step x b)"

fun circuit_run :: "cb_config \<Rightarrow> cb_call list \<Rightarrow> backend_circuit \<Rightarrow> backend_circuit" where
  "circuit_run cfg [] c = c"
| "circuit_run cfg (x # xs) c = circuit_run cfg xs (circuit_step cfg x c)"

section \<open>Specification\<close>

text \<open>The edges of the state machine that the documentation of the pattern allows, besides a manual reset.\<close>

inductive circuit_edge :: "circuit_state \<Rightarrow> circuit_state \<Rightarrow> bool" where
  stay: "circuit_edge s s"
| trip: "circuit_edge Closed Open"
| probe: "circuit_edge Open HalfOpen"
| recover: "circuit_edge HalfOpen Closed"
| retrip: "circuit_edge HalfOpen Open"

inductive_simps circuit_edge_simps [simp]:
  "circuit_edge Closed s" "circuit_edge Open s" "circuit_edge HalfOpen s"

text \<open>The circuit the breaker keeps for a backend, an untouched backend having a new one.\<close>

definition circuit_view :: "circuit_breaker \<Rightarrow> string \<Rightarrow> backend_circuit" where
  "circuit_view b i = (case dm_get (cb_circuits b) i of Some c \<Rightarrow> c | None \<Rightarrow> backend_circuit_new)"



definition circuit_inv :: "cb_config \<Rightarrow> backend_circuit \<Rightarrow> bool" where
  "circuit_inv cfg c \<longleftrightarrow>
     bc_state c = encode_state (bc_get_state c)
     \<and> (bc_get_state c = Closed \<longrightarrow> 2 \<le> unat (cb_failure_threshold cfg) \<longrightarrow>
          unat (bc_failures c) < unat (cb_failure_threshold cfg))
     \<and> (bc_get_state c = HalfOpen \<longrightarrow> 1 \<le> unat (cb_success_threshold cfg) \<longrightarrow>
          unat (bc_successes c) < unat (cb_success_threshold cfg))"

text \<open>The calls that may come while a circuit opened at \<open>t0\<close> must block: any but a manual reset and a
  request at or after \<open>t0 + d\<close>; the clock does not run backwards.\<close>

fun while_blocked :: "nat \<Rightarrow> nat \<Rightarrow> cb_call \<Rightarrow> bool" where
  "while_blocked t0 d (Allow now) \<longleftrightarrow> t0 \<le> unat now \<and> unat now < t0 + d"
| "while_blocked t0 d Success \<longleftrightarrow> True"
| "while_blocked t0 d (Failure now) \<longleftrightarrow> t0 \<le> unat now"
| "while_blocked t0 d Reset \<longleftrightarrow> False"

text \<open>Failure times each at most a window after the one before.\<close>

fun within_window :: "nat \<Rightarrow> u64 \<Rightarrow> u64 list \<Rightarrow> bool" where
  "within_window w l [] \<longleftrightarrow> True"
| "within_window w l (t # ts) \<longleftrightarrow> unat t \<le> unat l + w \<and> within_window w t ts"

section \<open>Lemmas on one circuit\<close>

lemma get_set_state [simp]: "bc_get_state (bc_set_state st c) = st"
  by (cases st) (simp_all add: bc_get_state_def bc_set_state_def)

lemma get_state_update [simp]:
  "bc_get_state (c\<lparr>bc_failures := x\<rparr>) = bc_get_state c"
  "bc_get_state (c\<lparr>bc_successes := x\<rparr>) = bc_get_state c"
  "bc_get_state (c\<lparr>bc_opened_at_ms := y\<rparr>) = bc_get_state c"
  "bc_get_state (c\<lparr>bc_last_failure_ms := y\<rparr>) = bc_get_state c"
  by (simp_all add: bc_get_state_def)

lemma set_state_fields [simp]:
  "bc_state (bc_set_state st c) = encode_state st"
  "bc_failures (bc_set_state st c) = bc_failures c"
  "bc_successes (bc_set_state st c) = bc_successes c"
  "bc_opened_at_ms (bc_set_state st c) = bc_opened_at_ms c"
  "bc_last_failure_ms (bc_set_state st c) = bc_last_failure_ms c"
  by (simp_all add: bc_set_state_def)

lemma new_circuit [simp]: "bc_get_state backend_circuit_new = Closed"
  by (simp add: bc_get_state_def backend_circuit_new_def)

lemmas circuit_defs = circuit_allow_def circuit_success_def circuit_failure_def circuit_reset_def

lemma circuit_inv_new: "circuit_inv cfg backend_circuit_new"
  by (auto simp: circuit_inv_def) (auto simp: backend_circuit_new_def)

lemma circuit_failure_inv: "circuit_inv cfg c \<Longrightarrow> circuit_inv cfg (circuit_failure cfg now c)"
  by (cases "bc_get_state c")
     (auto simp: circuit_inv_def circuit_failure_def Let_def not_le word_less_nat_alt)

lemma circuit_step_inv: "circuit_inv cfg c \<Longrightarrow> circuit_inv cfg (circuit_step cfg x c)"
proof (cases x)
  case (Failure now)
  assume "circuit_inv cfg c"
  with Failure show ?thesis by (simp add: circuit_failure_inv)
qed (cases "bc_get_state c";
     auto simp: circuit_inv_def circuit_allow_def circuit_success_def circuit_reset_def Let_def
       not_le word_less_nat_alt)+

lemma circuit_run_inv: "circuit_inv cfg c \<Longrightarrow> circuit_inv cfg (circuit_run cfg xs c)"
  by (induction xs arbitrary: c) (auto intro: circuit_step_inv)

lemma circuit_step_edge:
  "x \<noteq> Reset \<Longrightarrow> circuit_edge (bc_get_state c) (bc_get_state (circuit_step cfg x c))"
  by (cases x; cases "bc_get_state c") (auto simp: circuit_defs Let_def)

lemma circuit_run_append: "circuit_run cfg (xs @ ys) c = circuit_run cfg ys (circuit_run cfg xs c)"
  by (induction xs arbitrary: c) auto

lemma blocked_allow:
  assumes "bc_get_state c = Open" "t0 \<le> unat (bc_opened_at_ms c)"
    and "while_blocked t0 (unat (as_millis_u64 (cb_reset_timeout cfg))) (Allow now)"
  shows "circuit_allow cfg now c = (False, c)"
  using assms by (auto simp: circuit_allow_def word_le_nat_alt unat_saturating_sub)

lemma blocked_run:
  assumes "bc_get_state c = Open" "t0 \<le> unat (bc_opened_at_ms c)"
    and "list_all (while_blocked t0 (unat (as_millis_u64 (cb_reset_timeout cfg)))) xs"
  shows "bc_get_state (circuit_run cfg xs c) = Open \<and> t0 \<le> unat (bc_opened_at_ms (circuit_run cfg xs c))"
  using assms
proof (induction xs arbitrary: c)
  case (Cons x xs)
  then have "bc_get_state (circuit_step cfg x c) = Open
      \<and> t0 \<le> unat (bc_opened_at_ms (circuit_step cfg x c))"
    by (cases x) (auto simp: blocked_allow circuit_success_def circuit_failure_def)
  with Cons show ?case by simp
qed simp

lemma failure_counts:
  assumes "bc_get_state c = Closed" "within_window (unat (as_millis_u64 (cb_failure_window cfg))) (bc_last_failure_ms c) ts"
    and "unat (bc_failures c) + length ts < unat (cb_failure_threshold cfg)"
  shows "bc_get_state (circuit_run cfg (map Failure ts) c) = Closed
       \<and> unat (bc_failures (circuit_run cfg (map Failure ts) c)) = unat (bc_failures c) + length ts
       \<and> bc_last_failure_ms (circuit_run cfg (map Failure ts) c) = last (bc_last_failure_ms c # ts)"
  using assms
proof (induction ts arbitrary: c)
  case (Cons t ts)
  let ?c = "circuit_failure cfg t c"
  have n: "unat (bc_failures c + 1) = Suc (unat (bc_failures c))"
    using Cons.prems(3) unat_lt2p [of "cb_failure_threshold cfg"] by (intro unat_Suc_word) simp
  have "bc_get_state ?c = Closed" "unat (bc_failures ?c) = Suc (unat (bc_failures c))"
    "bc_last_failure_ms ?c = t"
    using Cons.prems n
    by (auto simp: circuit_failure_def Let_def word_less_nat_alt word_le_nat_alt unat_saturating_sub)
  with Cons.IH [of ?c] Cons.prems show ?case by simp
qed simp

lemma failure_trips:
  assumes "bc_get_state c = Closed" "within_window (unat (as_millis_u64 (cb_failure_window cfg))) (bc_last_failure_ms c) [t]"
    and "Suc (unat (bc_failures c)) = unat (cb_failure_threshold cfg)"
  shows "bc_get_state (circuit_failure cfg t c) = Open \<and> bc_opened_at_ms (circuit_failure cfg t c) = t"
proof -
  have "unat (bc_failures c + 1) = Suc (unat (bc_failures c))"
    using assms(3) unat_lt2p [of "cb_failure_threshold cfg"] by (intro unat_Suc_word) simp
  with assms show ?thesis
    by (simp add: circuit_failure_def Let_def word_less_nat_alt word_le_nat_alt unat_saturating_sub)
qed

lemma within_window_append:
  "within_window w l (ts @ us) \<longleftrightarrow> within_window w l ts \<and> within_window w (last (l # ts)) us"
  by (induction ts arbitrary: l) auto

lemma success_counts:
  assumes "bc_get_state c = HalfOpen" "unat (bc_successes c) + n < unat (cb_success_threshold cfg)"
  shows "bc_get_state (circuit_run cfg (replicate n Success) c) = HalfOpen
    \<and> unat (bc_successes (circuit_run cfg (replicate n Success) c)) = unat (bc_successes c) + n"
  using assms
proof (induction n arbitrary: c)
  case (Suc n)
  let ?c = "circuit_success cfg c"
  have "unat (bc_successes c + 1) = Suc (unat (bc_successes c))"
    using Suc.prems(2) unat_lt2p [of "cb_success_threshold cfg"] by (intro unat_Suc_word) simp
  then have "bc_get_state ?c = HalfOpen" "unat (bc_successes ?c) = Suc (unat (bc_successes c))"
    using Suc.prems by (simp_all add: circuit_success_def Let_def word_le_nat_alt)
  with Suc show ?case by simp
qed simp

lemma success_closes:
  assumes "bc_get_state c = HalfOpen" "Suc (unat (bc_successes c)) = unat (cb_success_threshold cfg)"
  shows "bc_get_state (circuit_success cfg c) = Closed \<and> bc_failures (circuit_success cfg c) = 0"
proof -
  have "unat (bc_successes c + 1) = Suc (unat (bc_successes c))"
    using assms(2) unat_lt2p [of "cb_success_threshold cfg"] by (intro unat_Suc_word) simp
  with assms show ?thesis by (simp add: circuit_success_def Let_def word_le_nat_alt)
qed

section \<open>Lemmas on the breaker\<close>

lemma circuit_view_new [simp]: "circuit_view (circuit_breaker_new cfg) i = backend_circuit_new"
  by (simp add: circuit_view_def circuit_breaker_new_def)

lemma reset_new [simp]: "circuit_reset backend_circuit_new = backend_circuit_new"
  by (simp add: circuit_reset_def backend_circuit_new_def bc_set_state_def)

lemma breaker_step_config [simp]: "cb_config (breaker_step x b) = cb_config b"
  by (cases "snd x"; cases x)
     (auto simp: allow_request_def record_success_def record_failure_def cb_reset_def
        cb_get_or_create_def Let_def case_prod_unfold)



lemma circuit_view_step:
  "circuit_view (breaker_step (j, x) b) i =
     (if i = j then circuit_step (cb_config b) x (circuit_view b i) else circuit_view b i)"
  by (cases x)
     (auto simp: allow_request_def record_success_def record_failure_def cb_reset_def
        cb_get_or_create_def Let_def case_prod_unfold circuit_view_def split: option.split)

lemma allow_request_view:
  "fst (allow_request now i b) = fst (circuit_allow (cb_config b) now (circuit_view b i))"
  by (simp add: allow_request_def cb_get_or_create_def Let_def case_prod_unfold circuit_view_def
      split: option.split)

lemma cb_get_state_view: "cb_get_state b i = bc_get_state (circuit_view b i)"
  by (simp add: cb_get_state_def circuit_view_def split: option.split)

interpretation breaker: keyed_machine breaker_step circuit_view cb_config circuit_step
  by unfold_locales (simp_all add: circuit_view_step)

lemma breaker_run_fold: "breaker_run xs b = fold breaker_step xs b"
  by (induction xs arbitrary: b) simp_all

lemma circuit_run_fold: "circuit_run cfg xs c = fold (circuit_step cfg) xs c"
  by (induction xs arbitrary: c) simp_all

lemma breaker_run_config [simp]: "cb_config (breaker_run xs b) = cb_config b"
  by (simp add: breaker_run_fold breaker.param_run)

lemma circuit_view_run: "circuit_view (breaker_run xs b) i = circuit_run (cb_config b) (calls_of i xs) (circuit_view b i)"
  by (simp add: breaker_run_fold circuit_run_fold breaker.view_run)

lemmas breaker_simps = circuit_view_run allow_request_view cb_get_state_view

section \<open>Properties\<close>

lemma circuit_view_cleared: "circuit_view (cb_clear_all b) i = backend_circuit_new"
  by (simp add: circuit_view_def cb_clear_all_def)

lemma cb_clear_all_config [simp]: "cb_config (cb_clear_all b) = cb_config b"
  by (simp add: cb_clear_all_def)

text \<open>
  C14: The breaker keeps one independent state machine per backend. After any sequence of calls on any
  backends, the circuit of a backend is the result of its own calls alone, and after a clearing of the breaker (\<^verbatim>\<open>clear_all\<close>) of its own calls since then; its encoded state is valid;
  with a failure threshold of at least 2 the failure counter is below it while the circuit is closed, and with a success threshold of at least 1 the success counter is below
  it while the circuit is half open; and every call but a manual reset moves it along an edge of the documented machine. (At a failure threshold of 1 the counter can reach it in a closed circuit.)
\<close>

theorem breaker_machine:
  "circuit_view (breaker_run xs (circuit_breaker_new cfg)) i
     = circuit_run cfg (calls_of i xs) backend_circuit_new
   \<and> circuit_inv cfg (circuit_view (breaker_run xs (circuit_breaker_new cfg)) i)
   \<and> (x = Reset \<or> circuit_edge (cb_get_state (breaker_run xs (circuit_breaker_new cfg)) i)
                        (cb_get_state (breaker_run (xs @ [(i, x)]) (circuit_breaker_new cfg)) i))
   \<and> circuit_view (breaker_run ys (cb_clear_all (breaker_run xs (circuit_breaker_new cfg)))) i
       = circuit_run cfg (calls_of i ys) backend_circuit_new"
proof -
  have "cb_config (circuit_breaker_new cfg) = cfg"
    by (simp add: circuit_breaker_new_def)
  then show ?thesis
    by (cases "x = Reset")
       (auto simp: breaker_simps circuit_view_cleared circuit_run_append circuit_run_inv circuit_inv_new calls_of_def
        circuit_step_edge)
qed

text \<open>
  C35: An open circuit blocks: from a breaker whose circuit for \<open>i\<close> is open, whatever calls follow on
  any backend (a manual reset of \<open>i\<close> and a request after the reset timeout apart), a request to
  \<open>i\<close> less than the reset timeout after the circuit opened is refused.
\<close>

theorem open_circuit_blocks:
  assumes "cb_get_state b i = Open"
    and "t0 = unat (bc_opened_at_ms (circuit_view b i))"
    and "d = unat (as_millis_u64 (cb_reset_timeout (cb_config b)))"
    and "list_all (while_blocked t0 d) (calls_of i xs)"
    and "t0 \<le> unat now" "unat now < t0 + d"
  shows "\<not> fst (allow_request now i (breaker_run xs b)) \<and> cb_get_state (breaker_run xs b) i = Open"
proof -
  have "bc_get_state (circuit_view (breaker_run xs b) i) = Open
      \<and> t0 \<le> unat (bc_opened_at_ms (circuit_view (breaker_run xs b) i))"
    unfolding circuit_view_run using assms(1-4) by (intro blocked_run) (auto simp: cb_get_state_view)
  then show ?thesis
    using assms(3,5,6) blocked_allow [of "circuit_view (breaker_run xs b) i" t0 "cb_config b" now]
    by (simp add: allow_request_view cb_get_state_view)
qed

definition example_breaker :: circuit_breaker where
  "example_breaker =
     breaker_run (map (\<lambda>t. (''b1'', Failure t)) [10, 20, 30, 40, 50]) (circuit_breaker_new cb_config_default)"

lemma example_circuit:
  "bc_get_state (circuit_view example_breaker ''b1'') = Open"
  "bc_opened_at_ms (circuit_view example_breaker ''b1'') = 50"
proof -
  let ?c = "circuit_run cb_config_default (map Failure [10, 20, 30, 40]) backend_circuit_new"
  have v: "circuit_view example_breaker ''b1'' = circuit_failure cb_config_default 50 ?c"
    unfolding example_breaker_def circuit_view_run circuit_view_new
    by (simp add: calls_of_def circuit_breaker_new_def)
  have z: "bc_failures backend_circuit_new = 0" "bc_last_failure_ms backend_circuit_new = 0"
    by (simp_all add: backend_circuit_new_def)
  have "bc_get_state ?c = Closed \<and> unat (bc_failures ?c) = unat (bc_failures backend_circuit_new) + length [10, 20, 30, 40 :: u64]
      \<and> bc_last_failure_ms ?c = last (bc_last_failure_ms backend_circuit_new # [10, 20, 30, 40])"
    by (rule failure_counts) (simp_all add: z cb_config_default_def)
  then have "bc_get_state (circuit_failure cb_config_default 50 ?c) = Open
      \<and> bc_opened_at_ms (circuit_failure cb_config_default 50 ?c) = 50"
    by (intro failure_trips) (simp_all add: z cb_config_default_def del: circuit_run.simps)
  with v show "bc_get_state (circuit_view example_breaker ''b1'') = Open"
    "bc_opened_at_ms (circuit_view example_breaker ''b1'') = 50" by simp_all
qed

lemma example_breaker_config: "cb_config example_breaker = cb_config_default"
  unfolding example_breaker_def breaker_run_config by (simp add: circuit_breaker_new_def)

theorem open_circuit_blocks_witness:
  "\<not> fst (allow_request 30000 ''b1'' (breaker_run [(''b2'', Reset), (''b1'', Success), (''b1'', Failure 70)]
     example_breaker))"
proof -
  have "cb_get_state example_breaker ''b1'' = Open
     \<and> 50 = unat (bc_opened_at_ms (circuit_view example_breaker ''b1''))
     \<and> 30000 = unat (as_millis_u64 (cb_reset_timeout (cb_config example_breaker)))
     \<and> list_all (while_blocked 50 30000)
         (calls_of ''b1'' [(''b2'', Reset), (''b1'', Success), (''b1'', Failure 70)])
     \<and> 50 \<le> unat (30000 :: u64) \<and> unat (30000 :: u64) < 50 + 30000"
    by (simp add: cb_get_state_view example_circuit example_breaker_config cb_config_default_def calls_of_def)
  then show ?thesis using open_circuit_blocks [of example_breaker "''b1''" 50 30000 _ 30000] by blast
qed

text \<open>
  A closed circuit with no recorded failures opens at exactly the configured number of
  consecutive failures, each within the failure window of the one before: it is still closed one
  failure earlier, and the time of the last failure is recorded as the time it opened.
\<close>

lemma trips_at_threshold:
  assumes "bc_get_state c = Closed" "bc_failures c = 0"
    and "within_window (unat (as_millis_u64 (cb_failure_window cfg))) (bc_last_failure_ms c) (ts @ [t])"
    and "Suc (length ts) = unat (cb_failure_threshold cfg)"
  shows "bc_get_state (circuit_run cfg (map Failure ts) c) = Closed
    \<and> bc_get_state (circuit_run cfg (map Failure (ts @ [t])) c) = Open
    \<and> bc_opened_at_ms (circuit_run cfg (map Failure (ts @ [t])) c) = t"
  using failure_counts [of c cfg ts] failure_trips [of "circuit_run cfg (map Failure ts) c" cfg t] assms
  by (simp add: within_window_append circuit_run_append)

lemma trips_at_threshold_example:
  "bc_get_state (circuit_run cb_config_default (map Failure ([1, 2, 3, 60003] @ [60004])) backend_circuit_new) = Open"
proof -
  have "bc_get_state backend_circuit_new = Closed \<and> bc_failures backend_circuit_new = 0
     \<and> within_window (unat (as_millis_u64 (cb_failure_window cb_config_default)))
         (bc_last_failure_ms backend_circuit_new) ([1, 2, 3, 60003] @ [60004])
     \<and> Suc (length [1, 2, 3, 60003 :: u64]) = unat (cb_failure_threshold cb_config_default)"
    by (simp add: cb_config_default_def) (simp add: backend_circuit_new_def)
  then show ?thesis using trips_at_threshold by blast
qed

text \<open>
  An open circuit recovers: once the reset timeout has passed the next request is let through and
  the circuit is half open; the configured number of successes then closes it, and one fewer leaves
  it half open.
\<close>

lemma half_open_recovery:
  assumes "bc_get_state c = Open"
    and "unat (bc_opened_at_ms c) + unat (as_millis_u64 (cb_reset_timeout cfg)) \<le> unat now"
    and "Suc n = unat (cb_success_threshold cfg)"
  shows "fst (circuit_allow cfg now c)
    \<and> bc_get_state (circuit_run cfg (Allow now # replicate n Success) c) = HalfOpen
    \<and> bc_get_state (circuit_run cfg (Allow now # replicate (Suc n) Success) c) = Closed"
proof -
  let ?h = "snd (circuit_allow cfg now c)"
  have h: "fst (circuit_allow cfg now c)" "bc_get_state ?h = HalfOpen" "bc_successes ?h = 0"
    using assms(1,2) by (auto simp: circuit_allow_def word_le_nat_alt unat_saturating_sub)
  have "replicate (Suc n) Success = replicate n Success @ [Success]"
    by (simp add: replicate_append_same)
  with h show ?thesis
    using success_counts [of ?h n cfg] success_closes [of "circuit_run cfg (replicate n Success) ?h" cfg]
      assms(3)
    by (simp add: circuit_run_append del: replicate.simps)
qed

lemma half_open_recovery_example:
  "fst (circuit_allow cb_config_default 30050 (circuit_view example_breaker ''b1''))
   \<and> bc_get_state (circuit_run cb_config_default (Allow 30050 # replicate (Suc 2) Success)
       (circuit_view example_breaker ''b1'')) = Closed"
proof -
  have "bc_get_state (circuit_view example_breaker ''b1'') = Open
     \<and> unat (bc_opened_at_ms (circuit_view example_breaker ''b1''))
         + unat (as_millis_u64 (cb_reset_timeout cb_config_default)) \<le> unat (30050 :: u64)
     \<and> Suc 2 = unat (cb_success_threshold cb_config_default)"
    by (simp add: example_circuit cb_config_default_def)
  then show ?thesis using half_open_recovery by blast
qed

text \<open>
  A failure outside the window restarts the count at one without comparing it with the threshold, so a
  breaker configured to open at the first failure does not open at it.
\<close>

lemma threshold_one_missed:
  assumes "bc_get_state c = Closed" "cb_failure_threshold cfg = 1"
    and "unat (bc_last_failure_ms c) + unat (as_millis_u64 (cb_failure_window cfg)) < unat now"
  shows "bc_get_state (circuit_failure cfg now c) = Closed
    \<and> bc_failures (circuit_failure cfg now c) = cb_failure_threshold cfg"
  using assms by (auto simp: circuit_failure_def Let_def word_less_nat_alt unat_saturating_sub)

end
