(* ===== verification/Rate_Limiter.thy ===== *)
theory Rate_Limiter
  imports F64 Domain
begin

text \<open>
  The token-bucket rate limiter, \<^verbatim>\<open>src/infrastructure/rate_limiter.rs\<close>. A check holds the exclusive entry of
  the client in the map for its whole body, so it is one step. The refill is computed in \<^verbatim>\<open>f64\<close> and
  cast to \<^verbatim>\<open>u64\<close>; the addition to the bucket is the wrapping one. The two readings of the clock in a
  check (one when the entry is created, one for the refill) are separate arguments.
\<close>

section \<open>Model\<close>

record rate_limit_config =
  rl_max_requests :: u64
  rl_window :: duration
  rl_burst_size :: u64

definition rate_limit_config_default :: rate_limit_config where
  "rate_limit_config_default = \<lparr>rl_max_requests = 100, rl_window = from_secs 1, rl_burst_size = 10\<rparr>"

record client_state =
  cs_tokens :: u64
  cs_last_refill_ms :: u64

definition client_state_new :: "u64 \<Rightarrow> u64 \<Rightarrow> client_state" where
  "client_state_new now burst = \<lparr>cs_tokens = burst, cs_last_refill_ms = now\<rparr>"

record rate_limiter =
  rl_config :: rate_limit_config
  rl_clients :: "(ip_addr, client_state) store"
  rl_refill_rate_per_ms :: f64

definition as_millis_f64 :: "duration \<Rightarrow> f64" where
  "as_millis_f64 d = Fin (f64_rnd (of_nat (d div 1000000)))"

definition rate_limiter_new :: "rate_limit_config \<Rightarrow> rate_limiter" where
  "rate_limiter_new cfg =
     \<lparr>rl_config = cfg, rl_clients = dm_empty,
      rl_refill_rate_per_ms = f64_div (f64_of_word (rl_max_requests cfg)) (as_millis_f64 (rl_window cfg))\<rparr>"

definition rate_limiter_default :: rate_limiter where
  "rate_limiter_default = rate_limiter_new rate_limit_config_default"

text \<open>The limiter's clock: the milliseconds since its first reading, which is kept in a static cell.\<close>

definition rl_now_ms :: "instant \<Rightarrow> instant \<Rightarrow> u64" where
  "rl_now_ms start now = as_millis_u64 (duration_since now start)"

datatype rate_limit_result = Allowed (rr_remaining: u64) | Limited (rr_retry_after_ms: u64)

definition tokens_to_add :: "f64 \<Rightarrow> u64 \<Rightarrow> u64" where
  "tokens_to_add rate elapsed_ms = f64_to_u64 (f64_mul (f64_of_word elapsed_ms) rate)"

definition refill :: "u64 \<Rightarrow> f64 \<Rightarrow> u64 \<Rightarrow> client_state \<Rightarrow> client_state" where
  "refill burst rate now_ms st =
     (let elapsed_ms = saturating_sub now_ms (cs_last_refill_ms st);
          add = tokens_to_add rate elapsed_ms
      in if 0 < add
         then st\<lparr>cs_tokens := min (cs_tokens st + add) burst, cs_last_refill_ms := now_ms\<rparr>
         else st)"

text \<open>The consuming loop, with the number of spurious failures of the weak compare-exchange.\<close>

fun consume_loop :: "nat \<Rightarrow> u64 \<Rightarrow> u64 \<Rightarrow> u64 \<Rightarrow> bool \<times> u64" where
  "consume_loop n cost cell current =
     (if current < cost then (False, cell)
      else case n of 0 \<Rightarrow> (True, current - cost) | Suc k \<Rightarrow> consume_loop k cost cell cell)"

definition rl_entry :: "u64 \<Rightarrow> ip_addr \<Rightarrow> rate_limiter \<Rightarrow> client_state" where
  "rl_entry t_new ip r =
     (case dm_get (rl_clients r) ip of Some st \<Rightarrow> st
      | None \<Rightarrow> client_state_new t_new (rl_burst_size (rl_config r)))"

definition check_with_cost ::
  "nat \<Rightarrow> u64 \<Rightarrow> u64 \<Rightarrow> ip_addr \<Rightarrow> u64 \<Rightarrow> rate_limiter \<Rightarrow> bool \<times> rate_limiter" where
  "check_with_cost spurious t_new now_ms ip cost r =
     (let st = rl_entry t_new ip r;
          st = refill (rl_burst_size (rl_config r)) (rl_refill_rate_per_ms r) now_ms st;
          (ok, tokens) = consume_loop spurious cost (cs_tokens st) (cs_tokens st)
      in (ok, r\<lparr>rl_clients := dm_insert ip (st\<lparr>cs_tokens := tokens\<rparr>) (rl_clients r)\<rparr>))"

definition rl_check :: "nat \<Rightarrow> u64 \<Rightarrow> u64 \<Rightarrow> ip_addr \<Rightarrow> rate_limiter \<Rightarrow> bool \<times> rate_limiter" where
  "rl_check spurious t_new now_ms ip r = check_with_cost spurious t_new now_ms ip 1 r"

definition rl_remaining :: "rate_limiter \<Rightarrow> ip_addr \<Rightarrow> u64" where
  "rl_remaining r ip =
     (case dm_get (rl_clients r) ip of Some st \<Rightarrow> cs_tokens st | None \<Rightarrow> rl_burst_size (rl_config r))"

definition rl_clear :: "ip_addr \<Rightarrow> rate_limiter \<Rightarrow> rate_limiter" where
  "rl_clear ip r = r\<lparr>rl_clients := dm_remove ip (rl_clients r)\<rparr>"

definition rl_clear_all :: "rate_limiter \<Rightarrow> rate_limiter" where
  "rl_clear_all r = r\<lparr>rl_clients := dm_empty\<rparr>"

definition rl_client_count :: "rate_limiter \<Rightarrow> nat" where
  "rl_client_count r = length (rl_clients r)"

definition rl_cleanup :: "u64 \<Rightarrow> duration \<Rightarrow> rate_limiter \<Rightarrow> rate_limiter" where
  "rl_cleanup now_ms max_age r =
     r\<lparr>rl_clients :=
        dm_retain (\<lambda>_ st. saturating_sub now_ms (cs_last_refill_ms st) < as_millis_u64 max_age) (rl_clients r)\<rparr>"

text \<open>One iteration of the task of \<^verbatim>\<open>start_cleanup_with_arc\<close>; the second component is the count it logs.\<close>

definition rl_cleanup_tick :: "u64 \<Rightarrow> duration \<Rightarrow> rate_limiter \<Rightarrow> rate_limiter \<times> nat" where
  "rl_cleanup_tick now_ms max_age r =
     (let before = length (rl_clients r);
          m = dm_retain (\<lambda>_ st. saturating_sub now_ms (cs_last_refill_ms st) < as_millis_u64 max_age) (rl_clients r)
      in (r\<lparr>rl_clients := m\<rparr>, before - length m))"

section \<open>Runs of checks\<close>

record check_call =
  call_ip :: ip_addr
  call_cost :: u64
  call_new_ms :: u64
  call_now_ms :: u64
  call_spurious :: nat

definition run_check :: "check_call \<Rightarrow> rate_limiter \<Rightarrow> bool \<times> rate_limiter" where
  "run_check x = check_with_cost (call_spurious x) (call_new_ms x) (call_now_ms x) (call_ip x) (call_cost x)"

text \<open>The tokens granted to a client in a run of checks, as an unbounded number.\<close>

fun granted :: "ip_addr \<Rightarrow> check_call list \<Rightarrow> rate_limiter \<Rightarrow> nat" where
  "granted ip [] r = 0"
| "granted ip (x # xs) r =
     (let (ok, r') = run_check x r
      in (if ok \<and> call_ip x = ip then unat (call_cost x) else 0) + granted ip xs r')"

fun run_checks :: "check_call list \<Rightarrow> rate_limiter \<Rightarrow> rate_limiter" where
  "run_checks [] r = r"
| "run_checks (x # xs) r = run_checks xs (snd (run_check x r))"

text \<open>The clock readings of a run, from \<open>t\<close> on, do not decrease.\<close>

fun clock_from :: "nat \<Rightarrow> check_call list \<Rightarrow> bool" where
  "clock_from t [] \<longleftrightarrow> True"
| "clock_from t (x # xs) \<longleftrightarrow>
     t \<le> unat (call_new_ms x) \<and> call_new_ms x \<le> call_now_ms x \<and> clock_from (unat (call_now_ms x)) xs"

section \<open>Specification\<close>

text \<open>Tokens per millisecond, with the two roundings of the implementation, and the configurations
  whose numbers are exact in \<^verbatim>\<open>f64\<close> and whose refills cannot wrap before the time \<open>T\<close>.\<close>

definition window_ms :: "rate_limit_config \<Rightarrow> nat" where
  "window_ms cfg = rl_window cfg div 1000000"

definition rate_hi :: "rate_limit_config \<Rightarrow> rat" where
  "rate_hi cfg = of_nat (unat (rl_max_requests cfg)) / of_nat (window_ms cfg) * (1 + 1 / 2 ^ 53) ^ 2"

definition rate_lo :: "rate_limit_config \<Rightarrow> rat" where
  "rate_lo cfg = of_nat (unat (rl_max_requests cfg)) / of_nat (window_ms cfg) * (1 - 1 / 2 ^ 53) ^ 2"

definition sane_config :: "rate_limit_config \<Rightarrow> nat \<Rightarrow> bool" where
  "sane_config cfg T \<longleftrightarrow>
     1 \<le> window_ms cfg \<and> window_ms cfg \<le> 2 ^ 53 \<and> unat (rl_max_requests cfg) \<le> 2 ^ 53
     \<and> unat (rl_burst_size cfg) < 2 ^ 63 \<and> T \<le> 2 ^ 53 \<and> of_nat T * rate_hi cfg < 2 ^ 63"

definition rate_inv :: "rate_limiter \<Rightarrow> nat \<Rightarrow> bool" where
  "rate_inv r t \<longleftrightarrow>
     rl_refill_rate_per_ms r = rl_refill_rate_per_ms (rate_limiter_new (rl_config r))
     \<and> (\<forall>ip st. dm_get (rl_clients r) ip = Some st \<longrightarrow>
           cs_tokens st \<le> rl_burst_size (rl_config r) \<and> unat (cs_last_refill_ms st) \<le> t)"

section \<open>Lemmas\<close>

declare consume_loop.simps [simp del]

lemma consume_loop_eq:
  "consume_loop n cost cell cell = (if cell < cost then (False, cell) else (True, cell - cost))"
proof (induction n)
  case (Suc n)
  then show ?case by (subst consume_loop.simps) simp
qed (simp add: consume_loop.simps)

lemma f64_of_word_exact: "unat w \<le> 2 ^ 53 \<Longrightarrow> f64_of_word w = Fin (of_nat (unat w))"
  by (simp add: f64_of_word_def rnd.rnd_nat)

lemma refill_rate_exact:
  assumes "sane_config cfg T"
  shows "rl_refill_rate_per_ms (rate_limiter_new cfg) =
    Fin (f64_rnd (of_nat (unat (rl_max_requests cfg)) / of_nat (window_ms cfg)))"
  using assms
  by (simp add: sane_config_def rate_limiter_new_def f64_of_word_exact as_millis_f64_def rnd.rnd_nat
      flip: window_ms_def)

lemma rnd2_upper:
  assumes "0 \<le> e" "0 \<le> q"
  shows "f64_rnd (e * f64_rnd q) \<le> e * (q * (1 + 1 / 2 ^ 53) ^ 2)"
proof -
  have "f64_rnd (e * f64_rnd q) \<le> e * f64_rnd q * (1 + 1 / 2 ^ 53)"
    using assms by (intro rnd.rnd_upper mult_nonneg_nonneg rnd.rnd_nonneg)
  also have "\<dots> \<le> e * (q * (1 + 1 / 2 ^ 53)) * (1 + 1 / 2 ^ 53)"
    using assms by (intro mult_right_mono mult_left_mono rnd.rnd_upper) auto
  finally show ?thesis by (simp add: power2_eq_square mult.assoc)
qed

lemma rnd2_lower:
  assumes "0 \<le> e" "0 \<le> q"
  shows "e * (q * (1 - 1 / 2 ^ 53) ^ 2) \<le> f64_rnd (e * f64_rnd q)"
proof -
  have "e * (q * (1 - 1 / 2 ^ 53)) * (1 - 1 / 2 ^ 53) \<le> e * f64_rnd q * (1 - 1 / 2 ^ 53)"
    using assms by (intro mult_right_mono mult_left_mono rnd.rnd_lower) auto
  also have "\<dots> \<le> f64_rnd (e * f64_rnd q)"
    using assms by (intro rnd.rnd_lower mult_nonneg_nonneg rnd.rnd_nonneg)
  finally show ?thesis by (simp add: power2_eq_square mult.assoc)
qed

lemma f64_to_u64_floor:
  assumes "0 \<le> a" "a < 2 ^ 64"
  shows "int (unat (f64_to_u64 (Fin a))) = \<lfloor>a\<rfloor>"
proof -
  have "0 \<le> \<lfloor>a\<rfloor>" "\<lfloor>a\<rfloor> < 2 ^ 64"
    using assms by (simp_all add: floor_less_iff)
  then show ?thesis
    using assms by (simp add: uint_word_of_int of_nat_unat unsigned_of_int take_bit_eq_mod)
qed


lemma tokens_to_add_bounds:
  assumes "sane_config cfg T" "unat e \<le> T"
  defines "add \<equiv> unat (tokens_to_add (rl_refill_rate_per_ms (rate_limiter_new cfg)) e)"
  shows "of_nat add \<le> of_nat (unat e) * rate_hi cfg"
    and "of_nat (unat e) * rate_lo cfg < of_nat add + 1"
proof -
  let ?q = "of_nat (unat (rl_max_requests cfg)) / of_nat (window_ms cfg) :: rat"
  let ?e = "of_nat (unat e) :: rat"
  let ?x = "f64_rnd (?e * f64_rnd ?q)"
  have s: "T \<le> 2 ^ 53" "of_nat T * rate_hi cfg < 2 ^ 63" "1 \<le> window_ms cfg"
    using assms(1) by (auto simp: sane_config_def)
  have "unat e \<le> 2 ^ 53" using s(1) assms(2) by simp
  then have x: "tokens_to_add (rl_refill_rate_per_ms (rate_limiter_new cfg)) e = f64_to_u64 (Fin ?x)"
    using assms(1) by (simp only: tokens_to_add_def refill_rate_exact f64_of_word_exact f64_mul.simps)
  have pos: "0 \<le> ?x"
    by (intro rnd.rnd_nonneg mult_nonneg_nonneg divide_nonneg_nonneg) auto
  have hi: "?x \<le> ?e * rate_hi cfg"
    unfolding rate_hi_def by (intro rnd2_upper) auto
  also have "\<dots> \<le> of_nat T * rate_hi cfg"
    using assms(2) by (intro mult_right_mono) (auto simp: rate_hi_def)
  also note s(2)
  finally have "?x < 2 ^ 64" by simp
  with pos have fl: "int add = \<lfloor>?x\<rfloor>"
    unfolding add_def x by (rule f64_to_u64_floor)
  then have "(of_nat add :: rat) = of_int \<lfloor>?x\<rfloor>"
    by (metis of_int_of_nat_eq)
  then have le: "of_nat add \<le> ?x" and gt: "?x < of_nat add + 1"
    by linarith+
  from le hi show "of_nat add \<le> ?e * rate_hi cfg" by (rule order_trans)
  have "?e * rate_lo cfg \<le> ?x"
    unfolding rate_lo_def by (intro rnd2_lower) auto
  then show "?e * rate_lo cfg < of_nat add + 1" using gt by (rule le_less_trans)
qed

lemma rate_hi_nonneg: "0 \<le> rate_hi cfg"
  by (simp add: rate_hi_def)

lemma rate_hi_le: "rate_hi cfg \<le> 2 * rate_lo cfg"
proof -
  have "((1 + 1 / 2 ^ 53) ^ 2 :: rat) \<le> 2 * (1 - 1 / 2 ^ 53) ^ 2" by (simp add: power2_eq_square)
  then have "of_nat (unat (rl_max_requests cfg)) / of_nat (window_ms cfg) * (1 + 1 / 2 ^ 53) ^ 2
     \<le> of_nat (unat (rl_max_requests cfg)) / of_nat (window_ms cfg) * (2 * (1 - 1 / 2 ^ 53 :: rat) ^ 2)"
    by (intro mult_left_mono) auto
  then show ?thesis by (simp only: rate_hi_def rate_lo_def mult.left_commute [of 2])
qed

text \<open>What a bucket can still grant, measured against the clock.\<close>

definition pot :: "rate_limit_config \<Rightarrow> client_state \<Rightarrow> rat" where
  "pot cfg st = of_nat (unat (cs_tokens st)) - rate_hi cfg * of_nat (unat (cs_last_refill_ms st))"

definition cfg_refill :: "rate_limit_config \<Rightarrow> u64 \<Rightarrow> client_state \<Rightarrow> client_state" where
  "cfg_refill cfg = refill (rl_burst_size cfg) (rl_refill_rate_per_ms (rate_limiter_new cfg))"

lemma cfg_refill_cases:
  assumes "sane_config cfg T" "cs_tokens st \<le> rl_burst_size cfg"
    and "unat (cs_last_refill_ms st) \<le> unat now" "unat now \<le> T"
  obtains (same) "cfg_refill cfg now st = st"
      "rate_lo cfg * (of_nat (unat now) - of_nat (unat (cs_last_refill_ms st))) < 1"
  | (more) n where "unat (cs_tokens (cfg_refill cfg now st)) = min (unat (cs_tokens st) + n) (unat (rl_burst_size cfg))"
      "cs_last_refill_ms (cfg_refill cfg now st) = now"
      "of_nat n \<le> rate_hi cfg * (of_nat (unat now) - of_nat (unat (cs_last_refill_ms st)))"
      "rate_lo cfg * (of_nat (unat now) - of_nat (unat (cs_last_refill_ms st))) < of_nat n + 1"
proof -
  let ?e = "saturating_sub now (cs_last_refill_ms st)"
  let ?add = "tokens_to_add (rl_refill_rate_per_ms (rate_limiter_new cfg)) ?e"
  have e: "unat ?e = unat now - unat (cs_last_refill_ms st)" by (rule unat_saturating_sub)
  then have eT: "unat ?e \<le> T" using assms(4) by simp
  have er: "(of_nat (unat ?e) :: rat) = of_nat (unat now) - of_nat (unat (cs_last_refill_ms st))"
    using assms(3) e by (simp add: of_nat_diff)
  note b = tokens_to_add_bounds [OF assms(1) eT, unfolded er]
  have "of_nat (unat ?add) \<le> of_nat T * rate_hi cfg"
    using tokens_to_add_bounds(1) [OF assms(1) eT] eT rate_hi_nonneg
    by (meson mult_right_mono of_nat_le_iff order_trans)
  also have "\<dots> < of_nat (2 ^ 63)" using assms(1) by (simp add: sane_config_def)
  finally have "unat ?add < 2 ^ 63" by (simp only: of_nat_less_iff)
  moreover have "unat (cs_tokens st) < 2 ^ 63"
    using assms(1,2) by (simp add: sane_config_def word_le_nat_alt)
  ultimately have "unat (cs_tokens st + ?add) = unat (cs_tokens st) + unat ?add"
    by (simp add: unat_word_ariths)
  then have m: "unat (min (cs_tokens st + ?add) (rl_burst_size cfg))
      = min (unat (cs_tokens st) + unat ?add) (unat (rl_burst_size cfg))"
    by (auto simp: min_def word_le_nat_alt)
  show thesis
  proof (cases "0 < ?add")
    case True
    with m b show thesis
      by (intro more [of "unat ?add"]) (simp_all add: cfg_refill_def refill_def Let_def mult.commute)
  next
    case False
    then have "?add = 0" by (simp add: word_gt_0)
    with b(2) show thesis
      by (intro same) (simp_all add: cfg_refill_def refill_def Let_def mult.commute)
  qed
qed


lemma cfg_refill_bounds:
  assumes "sane_config cfg T" "cs_tokens st \<le> rl_burst_size cfg"
    and "unat (cs_last_refill_ms st) \<le> unat now" "unat now \<le> T"
  shows "cs_tokens (cfg_refill cfg now st) \<le> rl_burst_size cfg
    \<and> unat (cs_last_refill_ms (cfg_refill cfg now st)) \<le> unat now
    \<and> pot cfg (cfg_refill cfg now st) \<le> pot cfg st
    \<and> (t0 \<le> unat now \<longrightarrow>
      pot cfg (cfg_refill cfg now st) \<le> of_nat (unat (rl_burst_size cfg)) + 2 - rate_hi cfg * of_nat t0)"
  using assms
proof (cases rule: cfg_refill_cases)
  case same
  have "pot cfg st \<le> of_nat (unat (rl_burst_size cfg)) + 2 - rate_hi cfg * of_nat t0" if "t0 \<le> unat now"
  proof -
    let ?d = "of_nat (unat now) - of_nat (unat (cs_last_refill_ms st)) :: rat"
    have "rate_hi cfg * ?d \<le> 2 * rate_lo cfg * ?d"
      using assms(3) by (intro mult_right_mono rate_hi_le) simp
    with same(2) have "rate_hi cfg * ?d \<le> 2" by simp
    moreover have "rate_hi cfg * of_nat t0 \<le> rate_hi cfg * of_nat (unat now)"
      using that by (intro mult_left_mono rate_hi_nonneg) simp
    moreover have "(of_nat (unat (cs_tokens st)) :: rat) \<le> of_nat (unat (rl_burst_size cfg))"
      using assms(2) by (simp add: word_le_nat_alt)
    ultimately show ?thesis by (simp add: pot_def right_diff_distrib)
  qed
  with same assms show ?thesis by simp
next
  case (more n)
  have "(of_nat (unat (cs_tokens (cfg_refill cfg now st))) :: rat) \<le> of_nat (unat (cs_tokens st) + n)"
    "(of_nat (unat (cs_tokens (cfg_refill cfg now st))) :: rat) \<le> of_nat (unat (rl_burst_size cfg))"
    using more(1) by (simp_all only: of_nat_le_iff)
  moreover have "rate_hi cfg * of_nat t0 \<le> rate_hi cfg * of_nat (unat now)" if "t0 \<le> unat now"
    using that by (intro mult_left_mono rate_hi_nonneg) simp
  ultimately show ?thesis
    using more by (auto simp: pot_def right_diff_distrib word_le_nat_alt)
qed

lemmas cfg_refill_pot =
  cfg_refill_bounds [THEN conjunct1] cfg_refill_bounds [THEN conjunct2, THEN conjunct1]
  cfg_refill_bounds [THEN conjunct2, THEN conjunct2, THEN conjunct1]
  cfg_refill_bounds [THEN conjunct2, THEN conjunct2, THEN conjunct2, THEN mp]

lemma rate_inv_mono: "rate_inv r t \<Longrightarrow> t \<le> t' \<Longrightarrow> rate_inv r t'"
  by (meson order_trans rate_inv_def)

text \<open>One check of a client, in terms of its bucket.\<close>

lemma run_check_cases:
  assumes "rate_inv r t" "t \<le> unat (call_new_ms x)" "call_new_ms x \<le> call_now_ms x"
    and "run_check x r = (ok, r')"
  defines "st \<equiv> cfg_refill (rl_config r) (call_now_ms x) (rl_entry (call_new_ms x) (call_ip x) r)"
  shows "ok \<longleftrightarrow> call_cost x \<le> cs_tokens st"
    and "rl_config r' = rl_config r" "rl_refill_rate_per_ms r' = rl_refill_rate_per_ms r"
    and "dm_get (rl_clients r') ip =
      (if ip = call_ip x then Some (st\<lparr>cs_tokens := if ok then cs_tokens st - call_cost x else cs_tokens st\<rparr>)
       else dm_get (rl_clients r) ip)"
  using assms
  by (auto simp: run_check_def check_with_cost_def consume_loop_eq Let_def cfg_refill_def rate_inv_def
      split: if_splits)

lemma rl_entry_inv:
  assumes "rate_inv r t" "t \<le> unat (call_new_ms x)" "call_new_ms x \<le> call_now_ms x"
  shows "cs_tokens (rl_entry (call_new_ms x) ip r) \<le> rl_burst_size (rl_config r)"
    and "unat (cs_last_refill_ms (rl_entry (call_new_ms x) ip r)) \<le> unat (call_now_ms x)"
  using assms by (auto simp: rl_entry_def rate_inv_def client_state_new_def word_le_nat_alt split: option.splits)
     (meson order_trans)

lemma run_check_inv:
  assumes "sane_config (rl_config r) T" "rate_inv r t" "t \<le> unat (call_new_ms x)"
    "call_new_ms x \<le> call_now_ms x" "unat (call_now_ms x) \<le> T" "run_check x r = (ok, r')"
  shows "rate_inv r' (unat (call_now_ms x)) \<and> rl_config r' = rl_config r"
proof -
  note c = run_check_cases [OF assms(2,3,4,6)]
  note p = cfg_refill_pot [OF assms(1) rl_entry_inv [OF assms(2,3,4)] assms(5)]
  have "w - v \<le> b" if "w \<le> b" "v \<le> w" for w v b :: u64
    using that by (simp add: word_le_nat_alt unat_sub)
  then have "cs_tokens st \<le> rl_burst_size (rl_config r) \<and> unat (cs_last_refill_ms st) \<le> unat (call_now_ms x)"
    if "dm_get (rl_clients r') ip = Some st" for ip st
    using that p(1,2) [of "call_ip x"] rate_inv_mono [OF assms(2), of "unat (call_now_ms x)"] assms(3,4) c(1)
    by (auto simp: c(4) rate_inv_def word_le_nat_alt split: if_splits)
  with assms(2) show ?thesis by (auto simp: rate_inv_def c(2,3))
qed

lemma granted_tracked:
  assumes "sane_config cfg T" "rl_config r = cfg" "rate_inv r t" "clock_from t xs"
    and "\<forall>x \<in> set xs. unat (call_now_ms x) \<le> T"
    and "dm_get (rl_clients r) ip = Some st" "pot cfg st \<le> k" "t \<le> T"
  shows "of_nat (granted ip xs r) \<le> k + rate_hi cfg * of_nat T"
  using assms
proof (induction xs arbitrary: r t st k)
  case Nil
  have "rate_hi cfg * of_nat (unat (cs_last_refill_ms st)) \<le> rate_hi cfg * of_nat T"
    using Nil.prems by (intro mult_left_mono rate_hi_nonneg) (auto simp: rate_inv_def intro: order_trans)
  then have "0 \<le> pot cfg st + rate_hi cfg * of_nat T" by (simp add: pot_def)
  with Nil.prems(7) show ?case by simp
next
  case (Cons x xs)
  obtain ok r' where r': "run_check x r = (ok, r')" by (cases "run_check x r")
  from Cons.prems have x: "t \<le> unat (call_new_ms x)" "call_new_ms x \<le> call_now_ms x"
    "unat (call_now_ms x) \<le> T" by auto
  note c = run_check_cases [OF Cons.prems(3) x(1,2) r']
  have i: "rate_inv r' (unat (call_now_ms x)) \<and> rl_config r' = cfg"
    using run_check_inv [of r T t x ok r'] Cons.prems(1-3) x r' by simp
  show ?case
  proof (cases "call_ip x = ip")
    case False
    then have "dm_get (rl_clients r') ip = Some st" using c(4) [of ip] Cons.prems(6) by simp
    from Cons.IH [where t = "unat (call_now_ms x)", OF _ _ _ _ _ this Cons.prems(7)] Cons.prems i r' x False show ?thesis by simp
  next
    case True
    define st' where "st' = cfg_refill cfg (call_now_ms x) st"
    define c where "c = (if ok then call_cost x else 0)"
    have e: "rl_entry (call_new_ms x) ip r = st" using Cons.prems(6) by (simp add: rl_entry_def)
    have g: "dm_get (rl_clients r') ip = Some (st'\<lparr>cs_tokens := cs_tokens st' - c\<rparr>)" and "c \<le> cs_tokens st'"
      using c(1) c(4) [of ip] True e Cons.prems(2) by (auto simp: c_def st'_def)
    have "pot cfg st' \<le> pot cfg st"
      using cfg_refill_pot(3) [OF Cons.prems(1)] rl_entry_inv [OF Cons.prems(3) x(1,2), of ip] e Cons.prems(2) x(3)
      by (simp add: st'_def)
    with \<open>c \<le> _\<close> Cons.prems(7) have "pot cfg (st'\<lparr>cs_tokens := cs_tokens st' - c\<rparr>) \<le> k - of_nat (unat c)"
      by (simp add: pot_def unat_sub of_nat_diff word_le_nat_alt)
    from Cons.IH [where t = "unat (call_now_ms x)", OF _ _ _ _ _ g this] Cons.prems i r' x
    have "of_nat (granted ip xs r') \<le> k - of_nat (unat c) + rate_hi cfg * of_nat T" by simp
    with True r' show ?thesis by (auto simp: c_def)
  qed
qed


lemma granted_window:
  assumes "sane_config cfg T" "rl_config r = cfg" "rate_inv r t" "clock_from t xs" "t0 \<le> t" "t \<le> T"
    and "\<forall>x \<in> set xs. unat (call_now_ms x) \<le> T"
  shows "of_nat (granted ip xs r)
    \<le> of_nat (unat (rl_burst_size cfg)) + 2 - rate_hi cfg * of_nat t0 + rate_hi cfg * of_nat T"
  using assms
proof (induction xs arbitrary: r t)
  case Nil
  then have "rate_hi cfg * of_nat t0 \<le> rate_hi cfg * of_nat T"
    by (intro mult_left_mono rate_hi_nonneg) simp
  then show ?case by (simp add: algebra_simps)
next
  case (Cons x xs)
  let ?k = "of_nat (unat (rl_burst_size cfg)) + 2 - rate_hi cfg * of_nat t0"
  obtain ok r' where r': "run_check x r = (ok, r')" by (cases "run_check x r")
  from Cons.prems have x: "t \<le> unat (call_new_ms x)" "call_new_ms x \<le> call_now_ms x"
    "unat (call_now_ms x) \<le> T" by auto
  then have t0: "t0 \<le> unat (call_now_ms x)" using Cons.prems(5) by (simp add: word_le_nat_alt)
  note rc = run_check_cases [OF Cons.prems(3) x(1,2) r']
  have i: "rate_inv r' (unat (call_now_ms x)) \<and> rl_config r' = cfg"
    using run_check_inv [of r T t x ok r'] Cons.prems(1-3) x r' by simp
  show ?case
  proof (cases "call_ip x = ip")
    case False
    with Cons.IH [of r' "unat (call_now_ms x)"] Cons.prems i r' x t0 show ?thesis by simp
  next
    case True
    define st where "st = cfg_refill cfg (call_now_ms x) (rl_entry (call_new_ms x) ip r)"
    define c where "c = (if ok then call_cost x else 0)"
    have g: "dm_get (rl_clients r') ip = Some (st\<lparr>cs_tokens := cs_tokens st - c\<rparr>)" and "c \<le> cs_tokens st"
      using rc(1) rc(4) [of ip] True Cons.prems(2) by (auto simp: c_def st_def)
    have "pot cfg st \<le> ?k"
      using cfg_refill_pot(4) [OF Cons.prems(1) _ _ x(3) t0] rl_entry_inv [OF Cons.prems(3) x(1,2), of ip]
        Cons.prems(2)
      by (simp add: st_def)
    with \<open>c \<le> _\<close> have "pot cfg (st\<lparr>cs_tokens := cs_tokens st - c\<rparr>) \<le> ?k - of_nat (unat c)"
      by (simp add: pot_def unat_sub of_nat_diff word_le_nat_alt)
    with granted_tracked [where t = "unat (call_now_ms x)", OF Cons.prems(1) _ _ _ _ g this] Cons.prems i x
    have "of_nat (granted ip xs r') \<le> ?k - of_nat (unat c) + rate_hi cfg * of_nat T" by simp
    with True r' show ?thesis by (auto simp: c_def)
  qed
qed

lemma run_checks_inv:
  assumes "sane_config (rl_config r) T" "rate_inv r t" "clock_from t xs" "t \<le> t0" "t0 \<le> T"
    and "\<forall>x \<in> set xs. unat (call_now_ms x) \<le> t0"
  shows "rate_inv (run_checks xs r) t0 \<and> rl_config (run_checks xs r) = rl_config r"
  using assms
proof (induction xs arbitrary: r t)
  case Nil
  then show ?case by (auto intro: rate_inv_mono)
next
  case (Cons x xs)
  obtain ok r' where r': "run_check x r = (ok, r')" by (cases "run_check x r")
  then have "rate_inv r' (unat (call_now_ms x)) \<and> rl_config r' = rl_config r"
    using Cons.prems by (intro run_check_inv [of r T t x ok r']) auto
  with Cons.IH [of r' "unat (call_now_ms x)"] Cons.prems r' show ?case by simp
qed

lemma rate_inv_new: "rate_inv (rate_limiter_new cfg) 0"
  by (simp add: rate_inv_def rate_limiter_new_def)

section \<open>Properties\<close>

text \<open>
  C17: The rate limit holds over every interval of every run: whatever checks of whatever clients came
  before, the tokens granted to one client between the times \<open>t0\<close> and \<open>T\<close> are at most the burst size plus
  two plus the configured rate times the length of the interval, up to the two roundings of the
  floating-point refill. The configuration must have a window of at least a millisecond and numbers
  for which the refill cannot wrap before \<open>T\<close>.
\<close>

theorem rate_limit_interval:
  assumes "sane_config cfg T" "t0 \<le> T"
    and "clock_from 0 ys" "\<forall>y \<in> set ys. unat (call_now_ms y) \<le> t0"
    and "clock_from t0 xs" "\<forall>x \<in> set xs. unat (call_now_ms x) \<le> T"
  shows "of_nat (granted ip xs (run_checks ys (rate_limiter_new cfg)))
    \<le> of_nat (unat (rl_burst_size cfg)) + 2 + rate_hi cfg * of_nat (T - t0)"
proof -
  let ?r = "run_checks ys (rate_limiter_new cfg)"
  have "rate_inv ?r t0 \<and> rl_config ?r = cfg"
    using run_checks_inv [OF _ rate_inv_new assms(3) _ assms(2,4)] assms(1)
    by (simp add: rate_limiter_new_def)
  with granted_window [OF assms(1) _ _ assms(5) order_refl assms(2,6), of ?r ip] show ?thesis
    using assms(2) by (simp add: of_nat_diff right_diff_distrib algebra_simps)
qed

definition example_calls :: "u64 list \<Rightarrow> check_call list" where
  "example_calls =
     map (\<lambda>t. \<lparr>call_ip = IpV4 1, call_cost = 1, call_new_ms = t, call_now_ms = t, call_spurious = 0\<rparr>)"

lemma sane_default: "sane_config rate_limit_config_default 1000000"
proof -
  have "window_ms rate_limit_config_default = 1000"
    by (simp add: rate_limit_config_default_def window_ms_def from_secs_def)
  then show ?thesis
    by (simp add: sane_config_def rate_hi_def power2_eq_square) (simp add: rate_limit_config_default_def)
qed

theorem rate_limit_interval_witness:
  "of_nat (granted (IpV4 1) (example_calls [7, 8, 20000])
       (run_checks (example_calls [5, 5, 6]) (rate_limiter_new rate_limit_config_default)))
    \<le> of_nat (unat (rl_burst_size rate_limit_config_default)) + 2
        + rate_hi rate_limit_config_default * of_nat (1000000 - 6)"
  by (rule rate_limit_interval [OF sane_default]) (simp_all add: example_calls_def)

text \<open>A client's bucket was last refilled no later than the client's last check.\<close>

lemma refill_time_bound:
  assumes "sane_config (rl_config r) T" "rate_inv r t" "clock_from t ys" "\<forall>y \<in> set ys. unat (call_now_ms y) \<le> T"
    and "dm_get (rl_clients (run_checks ys r)) ip = Some st"
  shows "(\<exists>y \<in> set ys. call_ip y = ip \<and> unat (cs_last_refill_ms st) \<le> unat (call_now_ms y))
    \<or> (\<exists>st0. dm_get (rl_clients r) ip = Some st0 \<and> cs_last_refill_ms st = cs_last_refill_ms st0)"
  using assms
proof (induction ys arbitrary: r t)
  case (Cons y ys)
  obtain ok r' where r': "run_check y r = (ok, r')" by (cases "run_check y r")
  have clock: "t \<le> unat (call_new_ms y)" "call_new_ms y \<le> call_now_ms y" "clock_from (unat (call_now_ms y)) ys"
    using Cons.prems(3) by simp_all
  note cases = run_check_cases [OF Cons.prems(2) clock(1,2) r']
  note ei = rl_entry_inv [OF Cons.prems(2) clock(1,2), of "call_ip y"]
  have nowT: "unat (call_now_ms y) \<le> T" using Cons.prems(4) by simp
  have own: "unat (cs_last_refill_ms (cfg_refill (rl_config r) (call_now_ms y) (rl_entry (call_new_ms y) (call_ip y) r))) \<le> unat (call_now_ms y)"
    using Cons.prems(1) ei nowT by (cases rule: cfg_refill_cases) (use ei(2) in simp_all)
  have inv: "rate_inv r' (unat (call_now_ms y))" "rl_config r' = rl_config r"
    using run_checks_inv [OF Cons.prems(1,2), of "[y]" "unat (call_now_ms y)"] clock nowT r'
    by (auto simp: word_le_nat_alt)
  from Cons.IH [OF _ inv(1) clock(3)] Cons.prems inv(2) r'
  consider "\<exists>y \<in> set ys. call_ip y = ip \<and> unat (cs_last_refill_ms st) \<le> unat (call_now_ms y)"
    | st0 where "dm_get (rl_clients r') ip = Some st0" "cs_last_refill_ms st = cs_last_refill_ms st0" by auto
  then show ?case
  proof cases
    case 2
    then show ?thesis using cases(4) [of ip] own by (cases "ip = call_ip y") auto
  qed auto
qed auto

lemma rate_lo_nonneg: "0 \<le> rate_lo cfg"
  by (simp add: rate_lo_def)

text \<open>
  C36: A client is served again after a pause. Whatever checks of whatever clients came before, one after the other on a clock that does not run backwards: a check whose cost is
  within the burst size is granted if the time since the client's last check, at the configured rate (less the two roundings), is worth
  the cost, and so is the first check of a client. The configuration must have a window of at least a millisecond and numbers
  for which the refill is exact and cannot wrap up to the time \<open>T\<close>, at which the last of these checks is made at the latest.
\<close>

theorem granted_after_pause:
  assumes "sane_config cfg T"
    and "clock_from 0 ys" "\<forall>y \<in> set ys. unat (call_now_ms y) \<le> unat (call_new_ms x)"
    and "call_new_ms x \<le> call_now_ms x" "unat (call_now_ms x) \<le> T"
    and "call_cost x \<le> rl_burst_size cfg"
    and "\<forall>y \<in> set ys. call_ip y = call_ip x \<longrightarrow>
          of_nat (unat (call_cost x)) \<le> rate_lo cfg * (of_nat (unat (call_now_ms x)) - of_nat (unat (call_now_ms y)))"
  shows "fst (run_check x (run_checks ys (rate_limiter_new cfg)))"
proof -
  let ?r = "run_checks ys (rate_limiter_new cfg)" and ?new = "unat (call_new_ms x)"
  let ?st = "rl_entry (call_new_ms x) (call_ip x) ?r"
  have newT: "?new \<le> T" using assms(4,5) by (simp add: word_le_nat_alt)
  have c: "sane_config (rl_config (rate_limiter_new cfg)) T" using assms(1) by (simp add: rate_limiter_new_def)
  have inv: "rate_inv ?r ?new" "rl_config ?r = cfg"
    using run_checks_inv [OF c rate_inv_new assms(2) _ newT assms(3)] by (simp_all add: rate_limiter_new_def)
  obtain ok r' where r': "run_check x ?r = (ok, r')" by (cases "run_check x ?r")
  note ei = rl_entry_inv [OF inv(1) order_refl assms(4), of "call_ip x", unfolded inv(2)]
  have worth: "cs_tokens ?st = rl_burst_size cfg \<or>
      of_nat (unat (call_cost x)) \<le> rate_lo cfg * (of_nat (unat (call_now_ms x)) - of_nat (unat (cs_last_refill_ms ?st)))"
  proof (cases "dm_get (rl_clients ?r) (call_ip x)")
    case None
    then show ?thesis by (simp add: rl_entry_def client_state_new_def inv(2))
  next
    case (Some st)
    have "\<forall>y \<in> set ys. unat (call_now_ms y) \<le> T" using assms(3) newT by (meson order_trans)
    from refill_time_bound [OF c rate_inv_new assms(2) this Some] obtain y where
      y: "y \<in> set ys" "call_ip y = call_ip x" "unat (cs_last_refill_ms st) \<le> unat (call_now_ms y)"
      by (auto simp: rate_limiter_new_def)
    have "rate_lo cfg * (of_nat (unat (call_now_ms x)) - of_nat (unat (call_now_ms y)))
        \<le> rate_lo cfg * (of_nat (unat (call_now_ms x)) - of_nat (unat (cs_last_refill_ms st)))"
      using y(3) rate_lo_nonneg by (intro mult_left_mono diff_left_mono) simp_all
    with assms(7) y(1,2) have "of_nat (unat (call_cost x)) \<le> rate_lo cfg * (of_nat (unat (call_now_ms x)) - of_nat (unat (cs_last_refill_ms st)))"
      by (meson order_trans)
    with Some show ?thesis by (simp add: rl_entry_def)
  qed
  have "call_cost x \<le> cs_tokens (cfg_refill cfg (call_now_ms x) ?st)"
    using assms(1) ei assms(5)
  proof (cases rule: cfg_refill_cases)
    case same
    show ?thesis
    proof (cases "cs_tokens ?st = rl_burst_size cfg")
      case False
      with worth same(2) have "(of_nat (unat (call_cost x)) :: rat) < of_nat 1" by simp
      then have "unat (call_cost x) < 1" by (simp only: of_nat_less_iff)
      then show ?thesis by (simp add: word_le_nat_alt)
    qed (use same(1) assms(6) in simp)
  next
    case (more n)
    show ?thesis
    proof (cases "cs_tokens ?st = rl_burst_size cfg")
      case False
      with worth more(4) have "(of_nat (unat (call_cost x)) :: rat) < of_nat (n + 1)" by simp
      then have "unat (call_cost x) \<le> n" by (simp only: of_nat_less_iff)
      with more(1) assms(6) show ?thesis by (simp add: word_le_nat_alt)
    qed (use more(1) assms(6) in \<open>simp add: word_le_nat_alt\<close>)
  qed
  with run_check_cases(1) [OF inv(1) order_refl assms(4) r'] r' inv(2) show ?thesis by simp
qed

theorem granted_after_pause_witness:
  "fst (run_check (hd (example_calls [100])) (run_checks (example_calls [5, 5, 6]) (rate_limiter_new rate_limit_config_default)))"
proof (rule granted_after_pause [OF sane_default])
  have w: "window_ms rate_limit_config_default = 1000"
    by (simp add: rate_limit_config_default_def window_ms_def from_secs_def)
  have "rate_lo rate_limit_config_default = 1 / 10 * (1 - 1 / 2 ^ 53) ^ 2"
    unfolding rate_lo_def w by (simp add: rate_limit_config_default_def)
  then show "\<forall>y \<in> set (example_calls [5, 5, 6]). call_ip y = call_ip (hd (example_calls [100])) \<longrightarrow>
      of_nat (unat (call_cost (hd (example_calls [100])))) \<le> rate_lo rate_limit_config_default
        * (of_nat (unat (call_now_ms (hd (example_calls [100])))) - of_nat (unat (call_now_ms y)))"
    by (simp add: example_calls_def power2_eq_square)
  show "call_cost (hd (example_calls [100])) \<le> rl_burst_size rate_limit_config_default"
    by (simp add: example_calls_def rate_limit_config_default_def)
qed (simp_all add: example_calls_def)

text \<open>
  With a window below a millisecond the rate is infinite, the refill is the largest \<^verbatim>\<open>u64\<close> and the
  unchecked addition wraps: a pause of a millisecond takes a token away instead of filling the bucket.
\<close>

lemma short_window_drains:
  assumes "rl_window cfg < 1000000" "0 < rl_max_requests cfg"
    and "cs_last_refill_ms st < now" "0 < cs_tokens st" "cs_tokens st \<le> rl_burst_size cfg"
  shows "cs_tokens (cfg_refill cfg now st) = cs_tokens st - 1"
proof -
  have z: "f64_rnd (of_nat (unat (w::u64))) \<noteq> 0" if "0 < w" for w
    using rnd.rnd_pos [of "of_nat (unat w)"] that by (simp add: word_gt_0 unat_gt_0)
  have "rl_refill_rate_per_ms (rate_limiter_new cfg) = Inf"
    using assms(1) z [OF assms(2)]
    by (simp add: rate_limiter_new_def f64_of_word_def as_millis_f64_def rnd.rnd_0)
  moreover have "0 < saturating_sub now (cs_last_refill_ms st)"
    using assms(3) by (simp add: word_less_nat_alt unat_saturating_sub)
  ultimately have "tokens_to_add (rl_refill_rate_per_ms (rate_limiter_new cfg))
      (saturating_sub now (cs_last_refill_ms st)) = - 1"
    using z by (simp add: tokens_to_add_def f64_of_word_def)
  moreover have "cs_tokens st - 1 \<le> rl_burst_size cfg"
    using assms(4,5) by (simp add: word_le_nat_alt unat_dec_word)
  ultimately show ?thesis
    by (simp add: cfg_refill_def refill_def Let_def min_def word_gt_0)
qed

end
