(* ===== verification/Shutdown.thy ===== *)
theory Shutdown
  imports Prelude
begin

text \<open>
  Graceful shutdown, \<^verbatim>\<open>src/infrastructure/shutdown.rs\<close>. The controller's shared cells are a record; its
  operations are functions on it. Because tasks on several threads share the controller, the theory
  also has the interleaving of their atomic steps: a call of \<^verbatim>\<open>shutdown\<close> first swaps the flag and only then sends the signal, a dropped guard first decrements the counter,
  then looks at the shutdown flag and then notifies, and a task waiting for the drain first reads the
  counter and only then registers with the \<^verbatim>\<open>Notify\<close>. The broadcast channel is the number of signals
  sent on it, and a subscriber receives those sent after it subscribed; \<^verbatim>\<open>notify_waiters\<close> wakes the tasks registered at that moment and stores no permit.
\<close>

section \<open>Model\<close>

record shutdown_controller =
  sd_shutdown_initiated :: bool
  sd_active_connections :: usize
  sd_signals_sent :: nat

definition shutdown_controller_new :: shutdown_controller where
  "shutdown_controller_new =
     \<lparr>sd_shutdown_initiated = False, sd_active_connections = 0, sd_signals_sent = 0\<rparr>"

text \<open>\<^verbatim>\<open>shutdown\<close> in its two atomic parts: the swap of the flag, which tells whether the caller is the first, and the send; then both in sequence.\<close>

definition shutdown_swap :: "shutdown_controller \<Rightarrow> bool \<times> shutdown_controller" where
  "shutdown_swap c = (\<not> sd_shutdown_initiated c, c\<lparr>sd_shutdown_initiated := True\<rparr>)"

definition shutdown_send :: "shutdown_controller \<Rightarrow> shutdown_controller" where
  "shutdown_send c = c\<lparr>sd_signals_sent := sd_signals_sent c + 1\<rparr>"

definition initiate_shutdown :: "shutdown_controller \<Rightarrow> shutdown_controller" where
  "initiate_shutdown c = (let (first, c') = shutdown_swap c in if first then shutdown_send c' else c')"

text \<open>
  A receiver of the broadcast channel gets the signals sent after it was made: it is the number of signals sent before. \<open>sd_received\<close> is what it has got
  when the controller is \<open>c\<close>.
\<close>

definition sd_subscribe :: "shutdown_controller \<Rightarrow> nat" where
  "sd_subscribe c = sd_signals_sent c"

definition sd_received :: "nat \<Rightarrow> shutdown_controller \<Rightarrow> nat" where
  "sd_received pos c = sd_signals_sent c - pos"

text \<open>
  \<^verbatim>\<open>shutdown_signal\<close>: the first of the two handlers to complete. A handler that cannot be installed panics.
\<close>

datatype signal_event = CtrlC "string + unit" | Terminate "string + unit"

fun shutdown_signal :: "signal_event \<Rightarrow> shutdown_controller \<Rightarrow> string + shutdown_controller" where
  "shutdown_signal (CtrlC (Inl e)) c = Inl (''failed to install Ctrl+C handler: '' @ e)"
| "shutdown_signal (Terminate (Inl e)) c = Inl (''failed to install SIGTERM handler: '' @ e)"
| "shutdown_signal (CtrlC (Inr _)) c = Inr (initiate_shutdown c)"
| "shutdown_signal (Terminate (Inr _)) c = Inr (initiate_shutdown c)"

definition is_shutdown :: "shutdown_controller \<Rightarrow> bool" where
  "is_shutdown c = sd_shutdown_initiated c"

definition active_connections :: "shutdown_controller \<Rightarrow> usize" where
  "active_connections c = sd_active_connections c"

definition connection_started :: "shutdown_controller \<Rightarrow> shutdown_controller" where
  "connection_started c = c\<lparr>sd_active_connections := sd_active_connections c + 1\<rparr>"

text \<open>\<^verbatim>\<open>connection_ended\<close> in its two atomic parts: the decrement, which yields the previous value, and
  the test that decides whether the waiters are notified; then both in sequence.\<close>

definition connection_dec :: "shutdown_controller \<Rightarrow> usize \<times> shutdown_controller" where
  "connection_dec c =
     (sd_active_connections c, c\<lparr>sd_active_connections := sd_active_connections c - 1\<rparr>)"

definition ended_notifies :: "usize \<Rightarrow> shutdown_controller \<Rightarrow> bool" where
  "ended_notifies prev c \<longleftrightarrow> prev = 1 \<and> is_shutdown c"

definition connection_ended :: "shutdown_controller \<Rightarrow> bool \<times> shutdown_controller" where
  "connection_ended c = (let (prev, c') = connection_dec c in (ended_notifies prev c', c'))"

text \<open>A guard is acquired by \<^verbatim>\<open>connection_guard\<close> and its drop ends the connection.\<close>

definition connection_guard :: "shutdown_controller \<Rightarrow> shutdown_controller" where
  "connection_guard c = connection_started c"

definition guard_drop :: "shutdown_controller \<Rightarrow> bool \<times> shutdown_controller" where
  "guard_drop c = connection_ended c"

text \<open>A task in \<^verbatim>\<open>wait_for_drain\<close>: past the test of the counter, registered with the \<^verbatim>\<open>Notify\<close>, or returned.
  \<open>wait_start\<close> is the test; \<open>wait_notified\<close> and \<open>wait_timeout\<close> are the two arms of the select.\<close>

datatype drain_wait = Checked | Registered | Returned bool

definition wait_start :: "shutdown_controller \<Rightarrow> drain_wait" where
  "wait_start c = (if active_connections c = 0 then Returned True else Checked)"

fun wait_notified :: "drain_wait \<Rightarrow> drain_wait" where
  "wait_notified Registered = Returned True"
| "wait_notified w = w"

fun wait_timeout :: "drain_wait \<Rightarrow> drain_wait" where
  "wait_timeout Registered = Returned False"
| "wait_timeout w = w"

section \<open>Interleaving\<close>

text \<open>
  Calls of \<^verbatim>\<open>shutdown\<close> between the swap and the send, live guards, guards being dropped before their test (with the value their decrement returned)
  and before they notify, and waiting tasks.
\<close>

record shutdown_sys =
  ss_ctl :: shutdown_controller
  ss_sending :: nat
  ss_guards :: nat
  ss_ending :: "usize list"
  ss_notifying :: nat
  ss_waits :: "drain_wait list"

definition shutdown_init :: shutdown_sys where
  "shutdown_init = \<lparr>ss_ctl = shutdown_controller_new, ss_sending = 0, ss_guards = 0, ss_ending = [], ss_notifying = 0, ss_waits = []\<rparr>"

inductive sd_step :: "shutdown_sys \<Rightarrow> shutdown_sys \<Rightarrow> bool" where
  sd_swap: "shutdown_swap (ss_ctl s) = (first, c) \<Longrightarrow> sd_step s (s\<lparr>ss_ctl := c, ss_sending := ss_sending s + of_bool first\<rparr>)"
| sd_send: "ss_sending s = Suc n \<Longrightarrow> sd_step s (s\<lparr>ss_ctl := shutdown_send (ss_ctl s), ss_sending := n\<rparr>)"
| sd_guard: "sd_step s (s\<lparr>ss_ctl := connection_guard (ss_ctl s), ss_guards := Suc (ss_guards s)\<rparr>)"
| sd_drop: "\<lbrakk>ss_guards s = Suc n; connection_dec (ss_ctl s) = (prev, c)\<rbrakk> \<Longrightarrow>
    sd_step s (s\<lparr>ss_ctl := c, ss_guards := n, ss_ending := prev # ss_ending s\<rparr>)"
| sd_end: "\<lbrakk>i < length (ss_ending s); ended_notifies (ss_ending s ! i) (ss_ctl s) = b\<rbrakk> \<Longrightarrow>
    sd_step s (s\<lparr>ss_ending := take i (ss_ending s) @ drop (Suc i) (ss_ending s), ss_notifying := ss_notifying s + of_bool b\<rparr>)"
| sd_notify: "ss_notifying s = Suc n \<Longrightarrow>
    sd_step s (s\<lparr>ss_notifying := n, ss_waits := map wait_notified (ss_waits s)\<rparr>)"
| sd_wait: "sd_step s (s\<lparr>ss_waits := ss_waits s @ [wait_start (ss_ctl s)]\<rparr>)"
| sd_register: "\<lbrakk>i < length (ss_waits s); ss_waits s ! i = Checked\<rbrakk> \<Longrightarrow>
    sd_step s (s\<lparr>ss_waits := (ss_waits s)[i := Registered]\<rparr>)"
| sd_timeout: "\<lbrakk>i < length (ss_waits s); ss_waits s ! i = Registered\<rbrakk> \<Longrightarrow>
    sd_step s (s\<lparr>ss_waits := (ss_waits s)[i := wait_timeout (ss_waits s ! i)]\<rparr>)"

abbreviation sd_reach :: "shutdown_sys \<Rightarrow> bool" where
  "sd_reach s \<equiv> sd_step\<^sup>*\<^sup>* shutdown_init s"

section \<open>Lemmas\<close>

lemmas shutdown_defs =
  initiate_shutdown_def shutdown_swap_def shutdown_send_def connection_guard_def connection_started_def connection_dec_def wait_start_def
  active_connections_def is_shutdown_def ended_notifies_def shutdown_controller_new_def shutdown_init_def

definition shutdown_inv :: "shutdown_sys \<Rightarrow> bool" where
  "shutdown_inv s \<longleftrightarrow>
     sd_active_connections (ss_ctl s) = of_nat (ss_guards s)
     \<and> sd_signals_sent (ss_ctl s) + ss_sending s = of_bool (sd_shutdown_initiated (ss_ctl s))"

lemma shutdown_inv_step: "sd_step s s' \<Longrightarrow> shutdown_inv s \<Longrightarrow> shutdown_inv s'"
  by (induction rule: sd_step.induct) (auto simp: shutdown_inv_def shutdown_defs)

interpretation shutdown: step_invariant sd_step shutdown_inv
  by unfold_locales (rule shutdown_inv_step)

lemma shutdown_inv_reach: "sd_reach s \<Longrightarrow> shutdown_inv s"
  by (erule shutdown.reach) (simp add: shutdown_inv_def shutdown_defs)

lemma sd_reach_init: "sd_reach shutdown_init"
  by simp

lemma sd_reach_step: "sd_reach s \<Longrightarrow> sd_step s t \<Longrightarrow> t = u \<Longrightarrow> sd_reach u"
  by auto

text \<open>Steps that start no new connection.\<close>

definition sd_quiet :: "shutdown_sys \<Rightarrow> shutdown_sys \<Rightarrow> bool" where
  "sd_quiet s s' \<longleftrightarrow> sd_step s s' \<and> ss_guards s' \<le> ss_guards s"

definition stranded :: "shutdown_sys \<Rightarrow> bool" where
  "stranded s \<longleftrightarrow> ss_guards s = 0 \<and> ss_ending s = [] \<and> ss_notifying s = 0 \<and> ss_waits s \<noteq> []
     \<and> ss_waits s ! 0 \<in> {Registered, Returned False}"

interpretation quiet: step_invariant sd_quiet stranded
  by unfold_locales
     (auto simp: sd_quiet_def stranded_def nth_append nth_list_update neq_Nil_conv elim!: sd_step.cases
       split: if_splits nat.splits)

section \<open>Properties\<close>

text \<open>The signal has been sent: the flag is set and the call that set it is past its send.\<close>

definition signal_sent :: "shutdown_sys \<Rightarrow> bool" where
  "signal_sent s \<longleftrightarrow> is_shutdown (ss_ctl s) \<and> ss_sending s = 0"

lemma initiate_steps: "sd_step\<^sup>*\<^sup>* s (s\<lparr>ss_ctl := initiate_shutdown (ss_ctl s)\<rparr>)"
proof (cases "sd_shutdown_initiated (ss_ctl s)")
  case True
  then have "initiate_shutdown (ss_ctl s) = ss_ctl s" by (simp add: shutdown_defs)
  then show ?thesis by simp
next
  case False
  let ?u = "s\<lparr>ss_ctl := (ss_ctl s)\<lparr>sd_shutdown_initiated := True\<rparr>, ss_sending := ss_sending s + of_bool True\<rparr>"
  have "sd_step s ?u" using False by (intro sd_swap) (simp add: shutdown_swap_def)
  moreover have "sd_step ?u (?u\<lparr>ss_ctl := shutdown_send (ss_ctl ?u), ss_sending := ss_sending s\<rparr>)" by (rule sd_send) simp
  ultimately show ?thesis using False by (auto simp: initiate_shutdown_def shutdown_swap_def intro: converse_rtranclp_into_rtranclp)
qed



text \<open>
  The notification of a drain can be lost: there is an interleaving after which no guard is alive, no
  drop is in progress and shutdown has been initiated, yet a task that began to wait before the last
  guard was dropped is registered and, without a new connection, can only return by its timeout.
\<close>

lemma drain_wakeup_can_be_lost:
  "\<exists>s. sd_reach s \<and> is_shutdown (ss_ctl s) \<and> ss_guards s = 0 \<and> ss_ending s = [] \<and> ss_waits s = [Registered]
     \<and> \<not> (\<exists>s'. sd_quiet\<^sup>*\<^sup>* s s' \<and> ss_waits s' ! 0 = Returned True)"
proof -
  define c where "c = connection_guard (initiate_shutdown shutdown_controller_new)"
  define c' where "c' = snd (connection_dec c)"
  note cs = shutdown_defs c_def c'_def
  let ?s = "\<lparr>ss_ctl = c', ss_sending = 0, ss_guards = 0, ss_ending = [], ss_notifying = 0, ss_waits = [Registered]\<rparr>"
  have "sd_reach (shutdown_init\<lparr>ss_ctl := initiate_shutdown shutdown_controller_new\<rparr>)"
    using initiate_steps [of shutdown_init] by (simp add: shutdown_init_def)
  then have "sd_reach \<lparr>ss_ctl = c, ss_sending = 0, ss_guards = 1, ss_ending = [], ss_notifying = 0, ss_waits = []\<rparr>"
    by (rule sd_reach_step [OF _ sd_guard]) (simp add: cs)
  then have "sd_reach \<lparr>ss_ctl = c, ss_sending = 0, ss_guards = 1, ss_ending = [], ss_notifying = 0, ss_waits = [Checked]\<rparr>"
    by (rule sd_reach_step [OF _ sd_wait]) (simp add: cs)
  then have "sd_reach \<lparr>ss_ctl = c', ss_sending = 0, ss_guards = 0, ss_ending = [1], ss_notifying = 0, ss_waits = [Checked]\<rparr>"
    by (rule sd_reach_step [OF _ sd_drop [of _ 0 1 c']]) (simp_all add: cs)
  then have "sd_reach \<lparr>ss_ctl = c', ss_sending = 0, ss_guards = 0, ss_ending = [], ss_notifying = 1, ss_waits = [Checked]\<rparr>"
    by (rule sd_reach_step [OF _ sd_end [of 0 _ True]]) (simp_all add: cs)
  then have "sd_reach \<lparr>ss_ctl = c', ss_sending = 0, ss_guards = 0, ss_ending = [], ss_notifying = 0, ss_waits = [Checked]\<rparr>"
    by (rule sd_reach_step [OF _ sd_notify [of _ 0]]) simp_all
  then have "sd_reach ?s"
    by (rule sd_reach_step [OF _ sd_register [of 0]]) (simp_all add: cs)
  moreover have "\<not> (\<exists>s'. sd_quiet\<^sup>*\<^sup>* ?s s' \<and> ss_waits s' ! 0 = Returned True)"
    using quiet.reach [of ?s] by (fastforce simp: stranded_def)
  ultimately show ?thesis by (intro exI [of _ ?s]) (simp add: cs)
qed

end
