(* ===== verification/Connection_Pool.thy ===== *)
theory Connection_Pool
  imports Prelude
begin

text \<open>
  The pool of backend connections, \<^verbatim>\<open>src/infrastructure/connection_pool.rs\<close>. A \<^verbatim>\<open>BackendPool\<close> is shared
  through an \<^verbatim>\<open>Arc\<close> by the map, by calls in progress and by the cleanup task's own copy of the map, so the
  pools live in a heap (a list indexed by address) and the map holds addresses. \<open>acquire\<close> is the
  sequence of its three atomic parts, between which other calls may run: taking an idle connection
  under the lock, the test of the limit, and the increment after the connect. A TCP stream is a
  number; the outcome of the connect is an argument.
\<close>

section \<open>Model\<close>

record pool_config =
  pl_max_connections :: usize
  pl_min_idle :: usize
  pl_idle_timeout :: duration
  pl_max_lifetime :: duration
  pl_connect_timeout :: duration

definition pool_config_default :: pool_config where
  "pool_config_default =
     \<lparr>pl_max_connections = 10, pl_min_idle = 2, pl_idle_timeout = from_secs 300,
      pl_max_lifetime = from_secs 3600, pl_connect_timeout = from_secs 5\<rparr>"

record pooled_connection =
  pc_stream :: nat
  pc_created_at :: instant
  pc_last_used :: instant
  pc_backend_id :: string

definition pooled_connection_new :: "instant \<Rightarrow> nat \<Rightarrow> string \<Rightarrow> pooled_connection" where
  "pooled_connection_new now stream i =
     \<lparr>pc_stream = stream, pc_created_at = now, pc_last_used = now, pc_backend_id = i\<rparr>"

definition is_expired :: "instant \<Rightarrow> duration \<Rightarrow> pooled_connection \<Rightarrow> bool" where
  "is_expired now max_lifetime conn = (max_lifetime < duration_since now (pc_created_at conn))"

definition is_idle_expired :: "instant \<Rightarrow> duration \<Rightarrow> pooled_connection \<Rightarrow> bool" where
  "is_idle_expired now idle_timeout conn = (idle_timeout < duration_since now (pc_last_used conn))"

definition pc_touch :: "instant \<Rightarrow> pooled_connection \<Rightarrow> pooled_connection" where
  "pc_touch now conn = conn\<lparr>pc_last_used := now\<rparr>"

record backend_pool =
  bp_connections :: "pooled_connection list"
  bp_in_use :: usize
  bp_addr :: string

definition backend_pool_new :: "string \<Rightarrow> backend_pool" where
  "backend_pool_new addr = \<lparr>bp_connections = [], bp_in_use = 0, bp_addr = addr\<rparr>"

definition total_connections :: "backend_pool \<Rightarrow> usize" where
  "total_connections p = bp_in_use p"

record connection_pool =
  cp_config :: pool_config
  cp_heap :: "backend_pool list"
  cp_pools :: "(string, nat) store"

definition connection_pool_new :: "pool_config \<Rightarrow> connection_pool" where
  "connection_pool_new cfg = \<lparr>cp_config = cfg, cp_heap = [], cp_pools = dm_empty\<rparr>"

definition connection_pool_default :: connection_pool where
  "connection_pool_default = connection_pool_new pool_config_default"

datatype pool_error = PoolExhausted | ConnectError string | ConnectTimeout

fun pool_error_display :: "pool_error \<Rightarrow> string" where
  "pool_error_display PoolExhausted = ''connection pool exhausted''"
| "pool_error_display (ConnectError e) = ''connection error: '' @ e"
| "pool_error_display ConnectTimeout = ''connection timeout''"

text \<open>The outcome of \<^verbatim>\<open>timeout(connect_timeout, TcpStream::connect(addr))\<close>.\<close>

datatype connect_outcome = Connected nat | Refused string | TimedOut

definition get_or_create_pool :: "string \<Rightarrow> string \<Rightarrow> connection_pool \<Rightarrow> nat \<times> connection_pool" where
  "get_or_create_pool i addr cp =
     (case dm_get (cp_pools cp) i of
        Some a \<Rightarrow> (a, cp)
      | None \<Rightarrow> let a = length (cp_heap cp)
                in (a, cp\<lparr>cp_heap := cp_heap cp @ [backend_pool_new addr],
                          cp_pools := dm_insert i a (cp_pools cp)\<rparr>))"

definition upd_pool :: "nat \<Rightarrow> (backend_pool \<Rightarrow> backend_pool) \<Rightarrow> connection_pool \<Rightarrow> connection_pool" where
  "upd_pool a f cp = cp\<lparr>cp_heap := (cp_heap cp)[a := f (cp_heap cp ! a)]\<rparr>"

text \<open>The loop over the idle connections: the first valid one, and what is left behind it.\<close>

fun pop_valid :: "pool_config \<Rightarrow> instant \<Rightarrow> pooled_connection list \<Rightarrow> pooled_connection option \<times> pooled_connection list"
where
  "pop_valid cfg now [] = (None, [])"
| "pop_valid cfg now (conn # rest) =
     (if is_expired now (pl_max_lifetime cfg) conn then pop_valid cfg now rest
      else if is_idle_expired now (pl_idle_timeout cfg) conn then pop_valid cfg now rest
      else (Some (pc_touch now conn), rest))"

definition acquire_idle :: "instant \<Rightarrow> nat \<Rightarrow> connection_pool \<Rightarrow> pooled_connection option \<times> connection_pool" where
  "acquire_idle now a cp =
     (let (found, rest) = pop_valid (cp_config cp) now (bp_connections (cp_heap cp ! a)) in
      case found of
        Some conn \<Rightarrow> (Some conn, upd_pool a (\<lambda>p. p\<lparr>bp_connections := rest, bp_in_use := bp_in_use p + 1\<rparr>) cp)
      | None \<Rightarrow> (None, upd_pool a (\<lambda>p. p\<lparr>bp_connections := rest\<rparr>) cp))"

definition acquire_admit :: "nat \<Rightarrow> connection_pool \<Rightarrow> bool" where
  "acquire_admit a cp = (\<not> pl_max_connections (cp_config cp) \<le> total_connections (cp_heap cp ! a))"

definition acquire_connect ::
  "instant \<Rightarrow> connect_outcome \<Rightarrow> string \<Rightarrow> nat \<Rightarrow> connection_pool \<Rightarrow> (pool_error + pooled_connection) \<times> connection_pool"
where
  "acquire_connect now out i a cp =
     (case out of
        Connected stream \<Rightarrow>
          (Inr (pooled_connection_new now stream i), upd_pool a (\<lambda>p. p\<lparr>bp_in_use := bp_in_use p + 1\<rparr>) cp)
      | Refused e \<Rightarrow> (Inl (ConnectError e), cp)
      | TimedOut \<Rightarrow> (Inl ConnectTimeout, cp))"

definition acquire ::
  "instant \<Rightarrow> instant \<Rightarrow> connect_outcome \<Rightarrow> string \<Rightarrow> string \<Rightarrow> connection_pool
     \<Rightarrow> (pool_error + pooled_connection) \<times> connection_pool" where
  "acquire now now' out i addr cp =
     (let (a, cp) = get_or_create_pool i addr cp; (found, cp) = acquire_idle now a cp in
      case found of
        Some conn \<Rightarrow> (Inr conn, cp)
      | None \<Rightarrow>
          if acquire_admit a cp then acquire_connect now' out i a cp else (Inl PoolExhausted, cp))"

definition release :: "instant \<Rightarrow> pooled_connection \<Rightarrow> connection_pool \<Rightarrow> connection_pool" where
  "release now conn cp =
     (case dm_get (cp_pools cp) (pc_backend_id conn) of
        None \<Rightarrow> cp
      | Some a \<Rightarrow>
          let cp = upd_pool a (\<lambda>p. p\<lparr>bp_in_use := bp_in_use p - 1\<rparr>) cp in
          if is_expired now (pl_max_lifetime (cp_config cp)) conn then cp
          else
            let conn = pc_touch now conn in
            if of_nat (length (bp_connections (cp_heap cp ! a))) < pl_max_connections (cp_config cp)
            then upd_pool a (\<lambda>p. p\<lparr>bp_connections := bp_connections p @ [conn]\<rparr>) cp
            else cp)"

definition discard :: "pooled_connection \<Rightarrow> connection_pool \<Rightarrow> connection_pool" where
  "discard conn cp =
     (case dm_get (cp_pools cp) (pc_backend_id conn) of
        None \<Rightarrow> cp
      | Some a \<Rightarrow> upd_pool a (\<lambda>p. p\<lparr>bp_in_use := bp_in_use p - 1\<rparr>) cp)"

record pool_stats =
  ps_in_use :: usize
  ps_addr :: string

definition pool_stats_of :: "connection_pool \<Rightarrow> string \<Rightarrow> pool_stats option" where
  "pool_stats_of cp i =
     map_option (\<lambda>a. \<lparr>ps_in_use = bp_in_use (cp_heap cp ! a), ps_addr = bp_addr (cp_heap cp ! a)\<rparr>)
       (dm_get (cp_pools cp) i)"

definition pool_all_stats :: "connection_pool \<Rightarrow> (string \<times> pool_stats) list" where
  "pool_all_stats cp =
     map (\<lambda>(i, a). (i, \<lparr>ps_in_use = bp_in_use (cp_heap cp ! a), ps_addr = bp_addr (cp_heap cp ! a)\<rparr>)) (cp_pools cp)"

definition retain_live :: "pool_config \<Rightarrow> instant \<Rightarrow> backend_pool \<Rightarrow> backend_pool" where
  "retain_live cfg now p =
     p\<lparr>bp_connections := filter (\<lambda>c. \<not> is_idle_expired now (pl_idle_timeout cfg) c
                                     \<and> \<not> is_expired now (pl_max_lifetime cfg) c) (bp_connections p)\<rparr>"

text \<open>\<^verbatim>\<open>start_cleanup\<close> clones the map once; each tick walks that copy, whose entries share the pools.\<close>

definition start_cleanup :: "connection_pool \<Rightarrow> (string, nat) store" where
  "start_cleanup cp = cp_pools cp"

fun cleanup_tick :: "(string, nat) store \<Rightarrow> instant \<Rightarrow> connection_pool \<Rightarrow> connection_pool" where
  "cleanup_tick [] now cp = cp"
| "cleanup_tick ((i, a) # snap) now cp = cleanup_tick snap now (upd_pool a (retain_live (cp_config cp) now) cp)"

fun drain_pools :: "(string, nat) store \<Rightarrow> connection_pool \<Rightarrow> connection_pool" where
  "drain_pools [] cp = cp"
| "drain_pools ((i, a) # es) cp = drain_pools es (upd_pool a (\<lambda>p. p\<lparr>bp_connections := []\<rparr>) cp)"

definition pool_clear :: "connection_pool \<Rightarrow> connection_pool" where
  "pool_clear cp = (drain_pools (cp_pools cp) cp)\<lparr>cp_pools := dm_empty\<rparr>"

section \<open>Clients of the pool\<close>

text \<open>The pool together with the connections its clients hold; a client releases or discards a
  connection it holds. \<open>Tick\<close> is a pass of the cleanup task over the copy it was started with.\<close>

record pool_sys =
  py_pool :: connection_pool
  py_held :: "pooled_connection list"

inductive pool_step :: "pool_sys \<Rightarrow> pool_sys \<Rightarrow> bool" where
  step_acquired: "acquire now now' out i addr (py_pool s) = (Inr conn, cp) \<Longrightarrow>
    pool_step s \<lparr>py_pool = cp, py_held = conn # py_held s\<rparr>"
| step_failed: "acquire now now' out i addr (py_pool s) = (Inl e, cp) \<Longrightarrow>
    pool_step s \<lparr>py_pool = cp, py_held = py_held s\<rparr>"
| step_release: "conn \<in> set (py_held s) \<Longrightarrow>
    pool_step s \<lparr>py_pool = release now conn (py_pool s), py_held = remove1 conn (py_held s)\<rparr>"
| step_discard: "conn \<in> set (py_held s) \<Longrightarrow>
    pool_step s \<lparr>py_pool = discard conn (py_pool s), py_held = remove1 conn (py_held s)\<rparr>"
| step_tick: "set snap \<subseteq> set (cp_pools (py_pool s)) \<Longrightarrow>
    pool_step s \<lparr>py_pool = cleanup_tick snap now (py_pool s), py_held = py_held s\<rparr>"

definition pool_init :: "pool_config \<Rightarrow> pool_sys" where
  "pool_init cfg = \<lparr>py_pool = connection_pool_new cfg, py_held = []\<rparr>"

section \<open>Invariant\<close>

definition held_for :: "string \<Rightarrow> pooled_connection list \<Rightarrow> nat" where
  "held_for i cs = length (filter (\<lambda>c. pc_backend_id c = i) cs)"

definition pool_wf :: "connection_pool \<Rightarrow> bool" where
  "pool_wf cp \<longleftrightarrow>
     dm_wf (cp_pools cp)
     \<and> (\<forall>i a. dm_get (cp_pools cp) i = Some a \<longrightarrow> a < length (cp_heap cp))
     \<and> (\<forall>i j a. dm_get (cp_pools cp) i = Some a \<longrightarrow> dm_get (cp_pools cp) j = Some a \<longrightarrow> i = j)"

definition pool_view :: "connection_pool \<Rightarrow> string \<Rightarrow> backend_pool option" where
  "pool_view cp i = map_option (\<lambda>a. cp_heap cp ! a) (dm_get (cp_pools cp) i)"

definition pool_ok :: "pool_config \<Rightarrow> string \<Rightarrow> nat \<Rightarrow> backend_pool \<Rightarrow> bool" where
  "pool_ok cfg i n p \<longleftrightarrow>
     unat (bp_in_use p) = n \<and> n + length (bp_connections p) \<le> unat (pl_max_connections cfg)
     \<and> (\<forall>c \<in> set (bp_connections p). pc_backend_id c = i)"

definition entry_ok :: "pool_config \<Rightarrow> string \<Rightarrow> nat \<Rightarrow> backend_pool option \<Rightarrow> bool" where
  "entry_ok cfg i n v = (case v of Some p \<Rightarrow> pool_ok cfg i n p | None \<Rightarrow> n = 0)"

definition pool_inv :: "pool_sys \<Rightarrow> bool" where
  "pool_inv s \<longleftrightarrow>
     pool_wf (py_pool s)
     \<and> (\<forall>i. entry_ok (cp_config (py_pool s)) i (held_for i (py_held s)) (pool_view (py_pool s) i))"

section \<open>The pool of one backend\<close>

text \<open>What the operations do to the pool of their backend; the lemmas of the next section show that they
  do this and leave the other backends alone.\<close>

definition one_acquire ::
  "pool_config \<Rightarrow> instant \<Rightarrow> instant \<Rightarrow> connect_outcome \<Rightarrow> string \<Rightarrow> backend_pool
     \<Rightarrow> (pool_error + pooled_connection) \<times> backend_pool" where
  "one_acquire cfg now now' out i p =
     (case pop_valid cfg now (bp_connections p) of
        (Some c, rest) \<Rightarrow> (Inr c, p\<lparr>bp_connections := rest, bp_in_use := bp_in_use p + 1\<rparr>)
      | (None, rest) \<Rightarrow>
          if pl_max_connections cfg \<le> bp_in_use p then (Inl PoolExhausted, p\<lparr>bp_connections := rest\<rparr>)
          else (case out of
              Connected stream \<Rightarrow>
                (Inr (pooled_connection_new now' stream i), p\<lparr>bp_connections := rest, bp_in_use := bp_in_use p + 1\<rparr>)
            | Refused e \<Rightarrow> (Inl (ConnectError e), p\<lparr>bp_connections := rest\<rparr>)
            | TimedOut \<Rightarrow> (Inl ConnectTimeout, p\<lparr>bp_connections := rest\<rparr>)))"

definition one_release :: "pool_config \<Rightarrow> instant \<Rightarrow> pooled_connection \<Rightarrow> backend_pool \<Rightarrow> backend_pool" where
  "one_release cfg now c p =
     p\<lparr>bp_in_use := bp_in_use p - 1,
       bp_connections := bp_connections p @
         (if \<not> is_expired now (pl_max_lifetime cfg) c
             \<and> of_nat (length (bp_connections p)) < pl_max_connections cfg
          then [pc_touch now c] else [])\<rparr>"

lemma pop_valid_None: "pop_valid cfg now cs = (None, rest) \<Longrightarrow> rest = []"
  by (induction cs) (auto split: if_splits)

lemma pop_valid_Some:
  "pop_valid cfg now cs = (Some c, rest) \<Longrightarrow>
     \<exists>pre d. cs = pre @ d # rest \<and> c = pc_touch now d
       \<and> \<not> is_expired now (pl_max_lifetime cfg) d \<and> \<not> is_idle_expired now (pl_idle_timeout cfg) d
       \<and> (\<forall>x \<in> set pre. is_expired now (pl_max_lifetime cfg) x \<or> is_idle_expired now (pl_idle_timeout cfg) x)"
proof (induction cs)
  case (Cons x cs)
  show ?case
  proof (cases "is_expired now (pl_max_lifetime cfg) x \<or> is_idle_expired now (pl_idle_timeout cfg) x")
    case True
    with Cons obtain pre d where "cs = pre @ d # rest" "c = pc_touch now d"
      "\<not> is_expired now (pl_max_lifetime cfg) d" "\<not> is_idle_expired now (pl_idle_timeout cfg) d"
      "\<forall>x \<in> set pre. is_expired now (pl_max_lifetime cfg) x \<or> is_idle_expired now (pl_idle_timeout cfg) x"
      by (auto split: if_splits)
    with True show ?thesis by (intro exI [of _ "x # pre"] exI [of _ d]) auto
  next
    case False
    with Cons.prems show ?thesis by (intro exI [of _ "[]"] exI [of _ x]) auto
  qed
qed simp

lemma pool_ok_room:
  assumes "pool_ok cfg i n p" "n < unat (pl_max_connections cfg)"
  shows "unat (bp_in_use p + 1) = Suc n"
  using assms unat_lt2p [of "pl_max_connections cfg"]
  by (subst unat_Suc_word) (auto simp: pool_ok_def)

lemma one_acquire_ok:
  assumes "pool_ok cfg i n p" "one_acquire cfg now now' out i p = (r, p')"
  shows "case r of Inr c \<Rightarrow> pool_ok cfg i (Suc n) p' \<and> pc_backend_id c = i | Inl e \<Rightarrow> pool_ok cfg i n p'"
proof (cases "pop_valid cfg now (bp_connections p)")
  case (Pair found rest)
  show ?thesis
  proof (cases found)
    case None
    with Pair assms pop_valid_None [of cfg now "bp_connections p" rest] pool_ok_room [OF assms(1)]
    show ?thesis
      by (auto simp: one_acquire_def pool_ok_def pooled_connection_new_def word_le_nat_alt
          split: if_splits connect_outcome.splits)
  next
    case (Some c)
    with Pair obtain pre d where "bp_connections p = pre @ d # rest" "c = pc_touch now d"
      using pop_valid_Some [of cfg now "bp_connections p" c rest] by auto
    with Pair Some assms pool_ok_room [OF assms(1)] show ?thesis
      by (auto simp: one_acquire_def pool_ok_def pc_touch_def)
  qed
qed

lemma one_release_ok:
  assumes "pool_ok cfg i (Suc n) p" "pc_backend_id c = i"
  shows "pool_ok cfg i n (one_release cfg now c p)"
    and "pool_ok cfg i n (p\<lparr>bp_in_use := bp_in_use p - 1\<rparr>)"
proof -
  have "bp_in_use p \<noteq> 0" using assms(1) by (auto simp: pool_ok_def)
  then have "unat (bp_in_use p - 1) = n" using assms(1) by (simp add: unat_dec_word word_gt_0 pool_ok_def)
  with assms show "pool_ok cfg i n (one_release cfg now c p)" "pool_ok cfg i n (p\<lparr>bp_in_use := bp_in_use p - 1\<rparr>)"
    by (auto simp: pool_ok_def one_release_def pc_touch_def)
qed

lemma retain_live_ok: "pool_ok cfg i n p \<Longrightarrow> pool_ok cfg i n (retain_live cfg' now p)"
  by (auto simp: pool_ok_def retain_live_def intro: order_trans [OF add_left_mono [OF length_filter_le]])

section \<open>The operations on the pool map\<close>

lemma upd_pool_simps [simp]:
  "cp_config (upd_pool a f cp) = cp_config cp" "cp_pools (upd_pool a f cp) = cp_pools cp"
  "length (cp_heap (upd_pool a f cp)) = length (cp_heap cp)"
  by (simp_all add: upd_pool_def)

lemma pool_wf_upd [simp, wf_intros]: "pool_wf cp \<Longrightarrow> pool_wf (upd_pool a f cp)"
  by (simp add: pool_wf_def)

lemma pool_view_upd:
  assumes "pool_wf cp" "dm_get (cp_pools cp) i = Some a"
  shows "pool_view (upd_pool a f cp) j = (if j = i then map_option f (pool_view cp j) else pool_view cp j)"
  using assms by (fastforce simp: pool_wf_def pool_view_def upd_pool_def nth_list_update
      split: option.split intro: option.map_cong0)

lemma heap_upd: "a < length (cp_heap cp) \<Longrightarrow> cp_heap (upd_pool a f cp) ! a = f (cp_heap cp ! a)"
  by (simp add: upd_pool_def)

lemma get_or_create_spec:
  assumes "pool_wf cp" "get_or_create_pool i addr cp = (a, cp')"
  shows "pool_wf cp' \<and> dm_get (cp_pools cp') i = Some a \<and> cp_config cp' = cp_config cp
    \<and> (\<forall>j. pool_view cp' j =
          (if j = i then Some (case pool_view cp i of Some p \<Rightarrow> p | None \<Rightarrow> backend_pool_new addr)
           else pool_view cp j))"
proof (cases "dm_get (cp_pools cp) i")
  case None
  with assms show ?thesis
    by (fastforce simp: get_or_create_pool_def pool_wf_def pool_view_def nth_append Let_def
        split: if_splits intro!: option.map_cong0)
qed (use assms in \<open>auto simp: get_or_create_pool_def pool_view_def\<close>)

lemma view_heap: "dm_get (cp_pools cp) i = Some a \<Longrightarrow> pool_view cp i = Some (cp_heap cp ! a)"
  by (simp add: pool_view_def)

text \<open>What the operations do: the pool of their own backend changes by the function of the section above.\<close>

definition acts_on :: "string \<Rightarrow> connection_pool \<Rightarrow> backend_pool \<Rightarrow> connection_pool \<Rightarrow> bool" where
  "acts_on i cp p cp' \<longleftrightarrow>
     pool_wf cp' \<and> cp_config cp' = cp_config cp
     \<and> (\<forall>j. pool_view cp' j = (if j = i then Some p else pool_view cp j))"

lemma acts_on_upd:
  assumes "pool_wf cp" "dm_get (cp_pools cp) i = Some a" "f (cp_heap cp ! a) = p"
  shows "acts_on i cp p (upd_pool a f cp)"
  using assms by (auto simp: acts_on_def pool_view_upd view_heap)

lemma acquire_acts:
  assumes "pool_wf cp" "acquire now now' out i addr cp = (r, cp')"
  defines "p \<equiv> (case pool_view cp i of Some p \<Rightarrow> p | None \<Rightarrow> backend_pool_new addr)"
  shows "\<exists>p'. one_acquire (cp_config cp) now now' out i p = (r, p') \<and> acts_on i cp p' cp'"
proof -
  obtain a c where ac: "get_or_create_pool i addr cp = (a, c)" by (cases "get_or_create_pool i addr cp")
  note g = get_or_create_spec [OF assms(1) ac]
  then have wf: "pool_wf c" and ia: "dm_get (cp_pools c) i = Some a" and cfg: "cp_config c = cp_config cp" by auto
  then have a: "a < length (cp_heap c)" by (simp add: pool_wf_def)
  have "pool_view c i = Some p" using g by (simp add: p_def)
  then have p: "cp_heap c ! a = p" using view_heap [OF ia] by simp
  have lift: "acts_on i cp q c'" if "acts_on i c q c'" for q c'
    using that g by (auto simp: acts_on_def)
  obtain found rest where pv: "pop_valid (cp_config cp) now (bp_connections p) = (found, rest)"
    by (cases "pop_valid (cp_config cp) now (bp_connections p)")
  have twice: "upd_pool a h (upd_pool a f c) = upd_pool a (h \<circ> f) c" for h f
    using a by (simp add: upd_pool_def)
  show ?thesis
  proof (cases found)
    case (Some conn)
    then show ?thesis
      using assms(2) ac pv p cfg
      by (auto simp: acquire_def acquire_idle_def one_acquire_def Let_def intro!: lift acts_on_upd [OF wf ia])
  next
    case None
    then show ?thesis
      using assms(2) ac pv p cfg a
      by (auto simp: acquire_def acquire_idle_def acquire_admit_def acquire_connect_def one_acquire_def Let_def
          twice heap_upd total_connections_def
          split: connect_outcome.splits if_splits intro!: lift acts_on_upd [OF wf ia])
  qed
qed

lemma release_acts:
  assumes "pool_wf cp" "pool_view cp (pc_backend_id c) = Some p"
  shows "acts_on (pc_backend_id c) cp (one_release (cp_config cp) now c p) (release now c cp)"
    and "acts_on (pc_backend_id c) cp (p\<lparr>bp_in_use := bp_in_use p - 1\<rparr>) (discard c cp)"
proof -
  from assms obtain a where a: "dm_get (cp_pools cp) (pc_backend_id c) = Some a" "cp_heap cp ! a = p"
    by (auto simp: pool_view_def)
  then have len: "a < length (cp_heap cp)" using assms(1) by (auto simp: pool_wf_def)
  then have twice: "upd_pool a h (upd_pool a f cp) = upd_pool a (h \<circ> f) cp" for h f
    by (simp add: upd_pool_def)
  show "acts_on (pc_backend_id c) cp (one_release (cp_config cp) now c p) (release now c cp)"
    using a len
    by (auto simp: release_def Let_def twice heap_upd one_release_def intro!: acts_on_upd [OF assms(1) a(1)])
  show "acts_on (pc_backend_id c) cp (p\<lparr>bp_in_use := bp_in_use p - 1\<rparr>) (discard c cp)"
    using a by (auto simp: discard_def intro!: acts_on_upd [OF assms(1) a(1)])
qed

lemma cleanup_tick_inv:
  assumes "pool_wf cp" "cp_config cp = cfg" "\<forall>i p. pool_view cp i = Some p \<longrightarrow> pool_ok cfg i (n i) p"
    and "\<forall>(i, a) \<in> set snap. dm_get (cp_pools cp) i = Some a"
  shows "pool_wf (cleanup_tick snap now cp) \<and> cp_config (cleanup_tick snap now cp) = cfg
    \<and> cp_pools (cleanup_tick snap now cp) = cp_pools cp
    \<and> (\<forall>i p. pool_view (cleanup_tick snap now cp) i = Some p \<longrightarrow> pool_ok cfg i (n i) p)"
  using assms
proof (induction snap now cp rule: cleanup_tick.induct)
  case (2 i a snap now cp)
  let ?cp = "upd_pool a (retain_live (cp_config cp) now) cp"
  have "dm_get (cp_pools cp) i = Some a" using "2.prems"(4) by simp
  then have "\<forall>j p. pool_view ?cp j = Some p \<longrightarrow> pool_ok cfg j (n j) p"
    using "2.prems"(1,3) by (auto simp: pool_view_upd split: if_splits intro: retain_live_ok)
  with "2.IH" "2.prems" show ?case by simp
qed simp

lemma pool_inv_acts:
  assumes "pool_inv s" "acts_on i (py_pool s) p cp'"
    and "pool_ok (cp_config (py_pool s)) i (held_for i h') p"
    and "\<And>j. j \<noteq> i \<Longrightarrow> held_for j h' = held_for j (py_held s)"
  shows "pool_inv \<lparr>py_pool = cp', py_held = h'\<rparr>"
proof -
  have "entry_ok (cp_config cp') j (held_for j h') (pool_view cp' j)" for j
    using assms by (cases "j = i") (simp_all add: pool_inv_def acts_on_def entry_ok_def)
  with assms(2) show ?thesis by (simp add: pool_inv_def acts_on_def)
qed

lemma held_for_remove1:
  "c \<in> set h \<Longrightarrow> held_for (pc_backend_id c) h = Suc (held_for (pc_backend_id c) (remove1 c h))"
  "i \<noteq> pc_backend_id c \<Longrightarrow> held_for i (remove1 c h) = held_for i h"
  unfolding held_for_def filter_remove1
  using length_pos_if_in_set [of c "filter (\<lambda>x. pc_backend_id x = pc_backend_id c) h"]
  by (simp_all add: length_remove1 remove1_idem)

lemma pool_inv_entry:
  assumes "pool_inv s"
  shows "pool_ok (cp_config (py_pool s)) i (held_for i (py_held s))
    (case pool_view (py_pool s) i of Some p \<Rightarrow> p | None \<Rightarrow> backend_pool_new addr)"
proof -
  have "entry_ok (cp_config (py_pool s)) i (held_for i (py_held s)) (pool_view (py_pool s) i)"
    using assms by (simp add: pool_inv_def)
  then show ?thesis
    by (cases "pool_view (py_pool s) i") (auto simp: entry_ok_def pool_ok_def backend_pool_new_def)
qed

lemma pool_inv_held:
  assumes "pool_inv s" "c \<in> set (py_held s)"
  obtains p where "pool_view (py_pool s) (pc_backend_id c) = Some p"
    "pool_ok (cp_config (py_pool s)) (pc_backend_id c) (Suc (held_for (pc_backend_id c) (remove1 c (py_held s)))) p"
proof -
  have "entry_ok (cp_config (py_pool s)) (pc_backend_id c) (held_for (pc_backend_id c) (py_held s))
     (pool_view (py_pool s) (pc_backend_id c))"
    using assms by (simp add: pool_inv_def)
  with that show thesis
    by (cases "pool_view (py_pool s) (pc_backend_id c)")
       (auto simp: entry_ok_def held_for_remove1(1) [OF assms(2)])
qed

lemma pool_inv_acquire:
  assumes "pool_inv s" "acquire now now' out i addr (py_pool s) = (r, cp)"
  shows "pool_inv \<lparr>py_pool = cp, py_held = (case r of Inr conn \<Rightarrow> conn # py_held s | Inl e \<Rightarrow> py_held s)\<rparr>"
proof -
  have "pool_wf (py_pool s)" using assms(1) by (simp add: pool_inv_def)
  from acquire_acts [OF this assms(2)] obtain p' where
    p': "one_acquire (cp_config (py_pool s)) now now' out i
       (case pool_view (py_pool s) i of Some p \<Rightarrow> p | None \<Rightarrow> backend_pool_new addr) = (r, p')"
    "acts_on i (py_pool s) p' cp" by blast
  from one_acquire_ok [OF pool_inv_entry [OF assms(1)] p'(1)] show ?thesis
    using assms(1) p'(2)
    by (intro pool_inv_acts [where i = i and s = s]) (auto simp: held_for_def split: sum.splits)
qed

lemma pool_inv_tick:
  assumes "pool_inv s" "set snap \<subseteq> set (cp_pools (py_pool s))"
  shows "pool_inv \<lparr>py_pool = cleanup_tick snap now (py_pool s), py_held = py_held s\<rparr>"
proof -
  have "\<forall>(i, a) \<in> set snap. dm_get (cp_pools (py_pool s)) i = Some a"
    using assms by (auto simp: pool_inv_def pool_wf_def simp flip: dm_in_set_iff)
  moreover have "\<forall>i p. pool_view (py_pool s) i = Some p \<longrightarrow>
      pool_ok (cp_config (py_pool s)) i (held_for i (py_held s)) p"
    using assms(1) by (auto simp: pool_inv_def entry_ok_def dest: spec split: option.splits)
  ultimately have t: "pool_wf (cleanup_tick snap now (py_pool s))
    \<and> cp_config (cleanup_tick snap now (py_pool s)) = cp_config (py_pool s)
    \<and> cp_pools (cleanup_tick snap now (py_pool s)) = cp_pools (py_pool s)
    \<and> (\<forall>i p. pool_view (cleanup_tick snap now (py_pool s)) i = Some p \<longrightarrow>
          pool_ok (cp_config (py_pool s)) i (held_for i (py_held s)) p)"
    using assms(1) by (intro cleanup_tick_inv) (auto simp: pool_inv_def)
  have "entry_ok (cp_config (py_pool s)) i (held_for i (py_held s)) (pool_view (cleanup_tick snap now (py_pool s)) i)" for i
  proof -
    have e: "entry_ok (cp_config (py_pool s)) i (held_for i (py_held s)) (pool_view (py_pool s) i)"
      using assms(1) by (simp add: pool_inv_def)
    show ?thesis
    proof (cases "dm_get (cp_pools (py_pool s)) i")
      case None
      with e t show ?thesis by (simp add: entry_ok_def pool_view_def)
    next
      case (Some a)
      with t show ?thesis by (auto simp: entry_ok_def pool_view_def)
    qed
  qed
  with t show ?thesis by (simp add: pool_inv_def)
qed

lemma pool_step_inv: "pool_step s s' \<Longrightarrow> pool_inv s \<Longrightarrow> pool_inv s'"
proof (induction rule: pool_step.induct)
  case (step_acquired now now' out i addr s conn cp)
  from pool_inv_acquire [OF step_acquired(2,1)] show ?case by simp
next
  case (step_failed now now' out i addr s e cp)
  from pool_inv_acquire [OF step_failed(2,1)] show ?case by simp
next
  case (step_release conn s now)
  then obtain p where "pool_view (py_pool s) (pc_backend_id conn) = Some p"
    "pool_ok (cp_config (py_pool s)) (pc_backend_id conn) (Suc (held_for (pc_backend_id conn) (remove1 conn (py_held s)))) p"
    by (elim pool_inv_held)
  with step_release show ?case
    by (intro pool_inv_acts [where i = "pc_backend_id conn" and s = s and p = "one_release (cp_config (py_pool s)) now conn p"]
          release_acts(1) one_release_ok(1))
       (auto simp: pool_inv_def held_for_remove1(2))
next
  case (step_discard conn s)
  then obtain p where "pool_view (py_pool s) (pc_backend_id conn) = Some p"
    "pool_ok (cp_config (py_pool s)) (pc_backend_id conn) (Suc (held_for (pc_backend_id conn) (remove1 conn (py_held s)))) p"
    by (elim pool_inv_held)
  with step_discard show ?case
    by (intro pool_inv_acts [where i = "pc_backend_id conn" and s = s and p = "p\<lparr>bp_in_use := bp_in_use p - 1\<rparr>"]
          release_acts(2) one_release_ok(2))
       (auto simp: pool_inv_def held_for_remove1(2))
next
  case (step_tick snap s now)
  then show ?case by (auto intro: pool_inv_tick)
qed

lemma pool_inv_init: "pool_inv (pool_init cfg)"
  by (simp add: pool_inv_def pool_init_def pool_wf_def pool_view_def connection_pool_new_def entry_ok_def
      held_for_def)

lemma cleanup_tick_config [simp]: "cp_config (cleanup_tick snap now cp) = cp_config cp"
  by (induction snap now cp rule: cleanup_tick.induct) auto

lemma pool_step_config: "pool_step s s' \<Longrightarrow> pool_inv s \<Longrightarrow> cp_config (py_pool s') = cp_config (py_pool s)"
proof (induction rule: pool_step.induct)
  case (step_acquired now now' out i addr s conn cp)
  then show ?case using acquire_acts [of "py_pool s" now now' out i addr] by (auto simp: pool_inv_def acts_on_def)
next
  case (step_failed now now' out i addr s e cp)
  then show ?case using acquire_acts [of "py_pool s" now now' out i addr] by (auto simp: pool_inv_def acts_on_def)
qed (auto simp: release_def discard_def Let_def split: option.split)

interpretation pool: step_invariant pool_step "\<lambda>s. pool_inv s \<and> cp_config (py_pool s) = cfg"
  by unfold_locales (use pool_step_inv pool_step_config in auto)

lemma pool_reach_inv: "pool_step\<^sup>*\<^sup>* (pool_init cfg) s \<Longrightarrow> pool_inv s \<and> cp_config (py_pool s) = cfg"
  using pool_inv_init [of cfg] by (elim pool.reach) (simp add: pool_init_def connection_pool_new_def)

section \<open>Properties\<close>

text \<open>
  C25: The pool never exceeds its limit when its calls do not overlap: after any sequence of acquires,
  releases and discards of held connections and cleanup passes, the in-use count of a backend is
  the number of its connections that clients hold, and in-use and idle connections together are at
  most the configured maximum.
\<close>

theorem pool_limit:
  assumes "pool_step\<^sup>*\<^sup>* (pool_init cfg) s" "pool_view (py_pool s) i = Some p"
  shows "unat (bp_in_use p) = held_for i (py_held s)
    \<and> held_for i (py_held s) + length (bp_connections p) \<le> unat (pl_max_connections cfg)"
proof -
  have "pool_inv s" "cp_config (py_pool s) = cfg" using pool_reach_inv [OF assms(1)] by auto
  then have "entry_ok cfg i (held_for i (py_held s)) (pool_view (py_pool s) i)" by (auto simp: pool_inv_def)
  with assms(2) show ?thesis by (simp add: entry_ok_def pool_ok_def)
qed

lemmas acquire_eval =
  acquire_def get_or_create_pool_def acquire_idle_def acquire_admit_def acquire_connect_def
  connection_pool_new_def backend_pool_new_def upd_pool_def total_connections_def pool_config_default_def
  pool_view_def

definition example_pool :: "connection_pool \<times> pooled_connection" where
  "example_pool =
     (let (r, cp) = acquire 0 0 (Connected 7) ''b1'' ''10.0.0.1:80'' (connection_pool_new pool_config_default)
      in (cp, projr r))"

lemma example_acquire:
  "acquire 0 0 (Connected 7) ''b1'' ''10.0.0.1:80'' (connection_pool_new pool_config_default)
     = (Inr (snd example_pool), fst example_pool)"
  by (simp add: example_pool_def acquire_eval)

theorem pool_limit_witness:
  "\<exists>p. pool_view (fst example_pool) ''b1'' = Some p \<and> unat (bp_in_use p) = held_for ''b1'' [snd example_pool]"
proof -
  let ?s = "\<lparr>py_pool = fst example_pool, py_held = [snd example_pool]\<rparr>"
  have "pool_step (pool_init pool_config_default) ?s"
    using step_acquired [of 0 0 "Connected 7" "''b1''" "''10.0.0.1:80''" "pool_init pool_config_default"]
      example_acquire
    by (simp add: pool_init_def)
  then have r: "pool_step\<^sup>*\<^sup>* (pool_init pool_config_default) ?s" by blast
  have "pool_view (fst example_pool) ''b1'' \<noteq> None"
    by (simp add: example_pool_def acquire_eval)
  with pool_limit [OF r, of "''b1''"] show ?thesis by auto
qed

text \<open>An idle connection that must not be handed out any more.\<close>

definition stale :: "pool_config \<Rightarrow> instant \<Rightarrow> pooled_connection \<Rightarrow> bool" where
  "stale cfg now c \<longleftrightarrow> is_expired now (pl_max_lifetime cfg) c \<or> is_idle_expired now (pl_idle_timeout cfg) c"

lemma pop_valid_dropWhile:
  "pop_valid cfg now cs = (case dropWhile (stale cfg now) cs of [] \<Rightarrow> (None, []) | c # rest \<Rightarrow> (Some (pc_touch now c), rest))"
  by (induction cs) (auto simp: stale_def)



text \<open>
  Overlapping acquires can exceed the limit: with a maximum of one, two acquires that both pass the
  test before either has connected are both served, and two connections are in use.
\<close>

lemma overlapping_acquires_exceed_limit:
  "\<exists>cp a r1 cp1 r2 cp2.
     get_or_create_pool ''b1'' ''10.0.0.1:80''
       (connection_pool_new (pool_config_default\<lparr>pl_max_connections := 1\<rparr>)) = (a, cp)
     \<and> acquire_idle 0 a cp = (None, cp) \<and> acquire_admit a cp
     \<and> acquire_connect 0 (Connected 1) ''b1'' a cp = (Inr r1, cp1)
     \<and> acquire_connect 0 (Connected 2) ''b1'' a cp1 = (Inr r2, cp2)
     \<and> pl_max_connections (cp_config cp2) < bp_in_use (cp_heap cp2 ! a)"
  by (simp add: acquire_eval)

text \<open>
  Clearing the pool while connections are held breaks the count: the held connection is later
  discarded against the pool created after the clear, whose count wraps to \<open>2^64 - 1\<close>, and from then on
  every acquire fails as exhausted although no connection is in use.
\<close>

lemma clear_then_discard_exhausts:
  "let (r1, cp1) = acquire 0 0 (Connected 1) ''b1'' ''10.0.0.1:80'' (connection_pool_new pool_config_default);
       cp2 = pool_clear cp1;
       (r2, cp3) = acquire 0 0 (Connected 2) ''b1'' ''10.0.0.1:80'' cp2;
       cp4 = discard (projr r2) (discard (projr r1) cp3)
   in \<not> isl r1 \<and> \<not> isl r2 \<and> map_option ps_in_use (pool_stats_of cp4 ''b1'') = Some (- 1)
      \<and> fst (acquire 0 0 out ''b1'' ''10.0.0.1:80'' cp4) = Inl PoolExhausted"
  by (simp add: acquire_eval pool_clear_def discard_def pooled_connection_new_def pool_stats_of_def
      dm_empty_def dm_insert_def dm_get_def)

text \<open>A pool created after the cleanup task was started is never cleaned by it.\<close>

lemma cleanup_misses_new_pools:
  assumes "dm_get (cp_pools cp) i = Some a" "a \<notin> snd ` set snap"
  shows "pool_view (cleanup_tick snap now cp) i = pool_view cp i"
  using assms
  by (induction snap now cp rule: cleanup_tick.induct) (auto simp: pool_view_def upd_pool_def)

end
