(* ===== verification/Health_Checker.thy ===== *)
theory Health_Checker
  imports Net_Addr
begin

text \<open>
  The active health checker, \<^verbatim>\<open>src/infrastructure/health_checker.rs\<close>. The outcome of a network probe is a
  function of the address or URL, given as an argument; the callback is the list of its invocations.
\<close>

section \<open>Model\<close>

datatype health_check_type = Tcp | Http string

record health_check_config =
  hc_interval :: duration
  hc_timeout :: duration
  hc_unhealthy_threshold :: u32
  hc_healthy_threshold :: u32
  hc_check_type :: health_check_type

definition health_check_config_default :: health_check_config where
  "health_check_config_default =
     \<lparr>hc_interval = from_secs 10, hc_timeout = from_secs 5, hc_unhealthy_threshold = 3,
      hc_healthy_threshold = 2, hc_check_type = Tcp\<rparr>"

record health_status =
  hs_healthy :: bool
  hs_last_check :: instant
  hs_latency_ms :: "u64 option"
  hs_consecutive_failures :: u32
  hs_consecutive_successes :: u32
  hs_last_error :: "string option"

definition health_status_default :: "instant \<Rightarrow> health_status" where
  "health_status_default now =
     \<lparr>hs_healthy = True, hs_last_check = now, hs_latency_ms = None, hs_consecutive_failures = 0,
      hs_consecutive_successes = 0, hs_last_error = None\<rparr>"

datatype health_check_result = CheckSuccess u64 | CheckFailure string u64

fun hcr_is_success :: "health_check_result \<Rightarrow> bool" where
  "hcr_is_success (CheckSuccess _) = True"
| "hcr_is_success (CheckFailure _ _) = False"

fun hcr_latency_ms :: "health_check_result \<Rightarrow> u64" where
  "hcr_latency_ms (CheckSuccess l) = l"
| "hcr_latency_ms (CheckFailure _ l) = l"

fun hcr_error :: "health_check_result \<Rightarrow> string option" where
  "hcr_error (CheckSuccess _) = None"
| "hcr_error (CheckFailure e _) = Some e"

record health_checker =
  hk_config :: health_check_config
  hk_status :: "(string, health_status) store"
  hk_on_health_change :: bool

definition health_checker_new :: "health_check_config \<Rightarrow> health_checker" where
  "health_checker_new cfg = \<lparr>hk_config = cfg, hk_status = dm_empty, hk_on_health_change = False\<rparr>"

definition hk_set_callback :: "health_checker \<Rightarrow> health_checker" where
  "hk_set_callback h = h\<lparr>hk_on_health_change := True\<rparr>"

definition hk_get_status :: "health_checker \<Rightarrow> string \<Rightarrow> health_status option" where
  "hk_get_status h i = dm_get (hk_status h) i"

definition hk_is_healthy :: "health_checker \<Rightarrow> string \<Rightarrow> bool" where
  "hk_is_healthy h i = (case dm_get (hk_status h) i of Some s \<Rightarrow> hs_healthy s | None \<Rightarrow> True)"

definition hk_all_statuses :: "health_checker \<Rightarrow> (string, health_status) store" where
  "hk_all_statuses h = hk_status h"

text \<open>The probes: what the connect and the HTTP client return.\<close>

datatype tcp_probe = TcpConnected | TcpError string | TcpTimeout
datatype http_probe = ClientError string | Response bool string | RequestError string

definition tcp_check :: "(string \<Rightarrow> tcp_probe) \<Rightarrow> string \<Rightarrow> string + unit" where
  "tcp_check tcp addr =
     (case tcp addr of
        TcpConnected \<Rightarrow> Inr ()
      | TcpError e \<Rightarrow> Inl (''connection failed: '' @ e)
      | TcpTimeout \<Rightarrow> Inl ''connection timeout'')"

definition http_check :: "(string \<Rightarrow> http_probe) \<Rightarrow> string \<Rightarrow> string \<Rightarrow> string + unit" where
  "http_check http addr path =
     (case http (''http://'' @ addr @ path) of
        ClientError e \<Rightarrow> Inl (''client error: '' @ e)
      | Response ok status \<Rightarrow> if ok then Inr () else Inl (''unhealthy status: '' @ status)
      | RequestError e \<Rightarrow> Inl (''request failed: '' @ e))"

definition check_backend ::
  "(string \<Rightarrow> tcp_probe) \<Rightarrow> (string \<Rightarrow> http_probe) \<Rightarrow> u64 \<Rightarrow> backend \<Rightarrow> health_check_config \<Rightarrow> health_check_result"
where
  "check_backend tcp http latency b cfg =
     (let addr = bk_wg_ip b @ '':'' @ show_word (bk_port b);
          result = (case hc_check_type cfg of Tcp \<Rightarrow> tcp_check tcp addr | Http path \<Rightarrow> http_check http addr path)
      in case result of Inr _ \<Rightarrow> CheckSuccess latency | Inl e \<Rightarrow> CheckFailure e latency)"

definition check_once ::
  "(string \<Rightarrow> tcp_probe) \<Rightarrow> (string \<Rightarrow> http_probe) \<Rightarrow> u64 \<Rightarrow> backend \<Rightarrow> health_checker \<Rightarrow> health_check_result"
where
  "check_once tcp http latency b h = check_backend tcp http latency b (hk_config h)"

fun apply_result :: "health_check_config \<Rightarrow> health_check_result \<Rightarrow> health_status \<Rightarrow> health_status" where
  "apply_result cfg (CheckSuccess latency) s =
     (let s = s\<lparr>hs_consecutive_successes := hs_consecutive_successes s + 1, hs_consecutive_failures := 0,
                hs_latency_ms := Some latency, hs_last_error := None\<rparr>
      in if \<not> hs_healthy s \<and> hc_healthy_threshold cfg \<le> hs_consecutive_successes s
         then s\<lparr>hs_healthy := True\<rparr> else s)"
| "apply_result cfg (CheckFailure e latency) s =
     (let s = s\<lparr>hs_consecutive_failures := hs_consecutive_failures s + 1, hs_consecutive_successes := 0,
                hs_latency_ms := Some latency, hs_last_error := Some e\<rparr>
      in if hs_healthy s \<and> hc_unhealthy_threshold cfg \<le> hs_consecutive_failures s
         then s\<lparr>hs_healthy := False\<rparr> else s)"

text \<open>\<^verbatim>\<open>update_status\<close>: the new statuses and the invocations of the callback. The clock is read when the
  entry is created and again at the end.\<close>

definition update_status ::
  "instant \<Rightarrow> instant \<Rightarrow> string \<Rightarrow> health_check_result \<Rightarrow> health_check_config \<Rightarrow> bool
     \<Rightarrow> (string, health_status) store \<Rightarrow> (string, health_status) store \<times> (string \<times> bool) list" where
  "update_status t_new now i result cfg on_change statuses =
     (let entry = (case dm_get statuses i of Some s \<Rightarrow> s | None \<Rightarrow> health_status_default t_new);
          was_healthy = hs_healthy entry;
          entry' = (apply_result cfg result entry)\<lparr>hs_last_check := now\<rparr>
      in (dm_insert i entry' statuses,
          if was_healthy \<noteq> hs_healthy entry' \<and> on_change then [(i, hs_healthy entry')] else []))"

text \<open>One round of the loop of \<^verbatim>\<open>start\<close> over the backends of the repository.\<close>

fun health_round ::
  "(string \<Rightarrow> tcp_probe) \<Rightarrow> (string \<Rightarrow> http_probe) \<Rightarrow> (string \<Rightarrow> u64) \<Rightarrow> (string \<Rightarrow> instant) \<Rightarrow> backend list
     \<Rightarrow> health_checker \<Rightarrow> health_checker \<times> (string \<times> bool) list" where
  "health_round tcp http latency clock [] h = (h, [])"
| "health_round tcp http latency clock (b # bs) h =
     (let result = check_backend tcp http (latency (bk_id b)) b (hk_config h);
          now = clock (bk_id b);
          (statuses, ev) = update_status now now (bk_id b) result (hk_config h) (hk_on_health_change h) (hk_status h);
          (h', evs) = health_round tcp http latency clock bs (h\<lparr>hk_status := statuses\<rparr>)
      in (h', ev @ evs))"

datatype health_action = HealthChanged string bool | NoChange

definition calculate_health_transition ::
  "health_status \<Rightarrow> health_check_result \<Rightarrow> health_check_config \<Rightarrow> health_status \<times> health_action" where
  "calculate_health_transition current result cfg =
     (let new_status =
        (case result of
           CheckSuccess latency \<Rightarrow>
             let s = current\<lparr>hs_consecutive_successes := hs_consecutive_successes current + 1,
                             hs_consecutive_failures := 0, hs_latency_ms := Some latency, hs_last_error := None\<rparr>
             in if \<not> hs_healthy s \<and> hc_healthy_threshold cfg \<le> hs_consecutive_successes s
                then s\<lparr>hs_healthy := True\<rparr> else s
         | CheckFailure e latency \<Rightarrow>
             let s = current\<lparr>hs_consecutive_failures := hs_consecutive_failures current + 1,
                             hs_consecutive_successes := 0, hs_latency_ms := Some latency, hs_last_error := Some e\<rparr>
             in if hs_healthy s \<and> hc_unhealthy_threshold cfg \<le> hs_consecutive_failures s
                then s\<lparr>hs_healthy := False\<rparr> else s)
      in (new_status,
          if hs_healthy current \<noteq> hs_healthy new_status
          then HealthChanged '''' (hs_healthy new_status) else NoChange))"

definition build_backend_addr :: "backend \<Rightarrow> string" where
  "build_backend_addr b = bk_wg_ip b @ '':'' @ show_word (bk_port b)"

definition should_mark_unhealthy :: "health_status \<Rightarrow> u32 \<Rightarrow> bool" where
  "should_mark_unhealthy s threshold \<longleftrightarrow> hs_healthy s \<and> threshold \<le> hs_consecutive_failures s"

definition should_mark_healthy :: "health_status \<Rightarrow> u32 \<Rightarrow> bool" where
  "should_mark_healthy s threshold \<longleftrightarrow> \<not> hs_healthy s \<and> threshold \<le> hs_consecutive_successes s"

section \<open>Specification\<close>

text \<open>Health as a function of the history of results, most recent first: down after the configured number
  of consecutive failures, up after the configured number of consecutive successes, otherwise as it was.\<close>

definition streak :: "bool \<Rightarrow> health_check_result list \<Rightarrow> nat" where
  "streak ok hist = length (takeWhile (\<lambda>r. hcr_is_success r = ok) hist)"

fun healthy_spec :: "nat \<Rightarrow> nat \<Rightarrow> health_check_result list \<Rightarrow> bool" where
  "healthy_spec down up [] = True"
| "healthy_spec down up (r # hist) =
     (if hcr_is_success r then healthy_spec down up hist \<or> up \<le> streak True (r # hist)
      else healthy_spec down up hist \<and> streak False (r # hist) < down)"

text \<open>Updates of any backends, oldest first, with the callback invocations so far.\<close>

fun health_step ::
  "health_check_config \<Rightarrow> bool \<Rightarrow> string \<times> instant \<times> health_check_result
     \<Rightarrow> (string, health_status) store \<times> (string \<times> bool) list \<Rightarrow> (string, health_status) store \<times> (string \<times> bool) list" where
  "health_step cfg cb (i, now, r) (m, evs) =
     (let (m', ev) = update_status now now i r cfg cb m in (m', evs @ ev))"

definition update_run ::
  "health_check_config \<Rightarrow> bool \<Rightarrow> (string \<times> instant \<times> health_check_result) list
     \<Rightarrow> (string, health_status) store \<times> (string \<times> bool) list" where
  "update_run cfg cb xs = fold (health_step cfg cb) xs (dm_empty, [])"

fun alternates :: "bool \<Rightarrow> bool list \<Rightarrow> bool" where
  "alternates b [] \<longleftrightarrow> True"
| "alternates b (c # cs) \<longleftrightarrow> c = (\<not> b) \<and> alternates c cs"

section \<open>Lemmas\<close>

lemma streak_Cons: "streak ok (r # hist) = (if hcr_is_success r = ok then Suc (streak ok hist) else 0)"
  by (simp add: streak_def)

lemma streak_le: "streak ok hist \<le> length hist"
  unfolding streak_def by (rule length_takeWhile_le)

text \<open>A status that agrees with a history.\<close>

definition agrees :: "health_check_config \<Rightarrow> health_status \<Rightarrow> health_check_result list \<Rightarrow> bool" where
  "agrees cfg s hist \<longleftrightarrow>
     unat (hs_consecutive_failures s) = streak False hist
     \<and> unat (hs_consecutive_successes s) = streak True hist
     \<and> hs_healthy s = healthy_spec (unat (hc_unhealthy_threshold cfg)) (unat (hc_healthy_threshold cfg)) hist"

lemma apply_result_agrees:
  assumes "agrees cfg s hist" "length hist < 2 ^ 32 - 1"
  shows "agrees cfg (apply_result cfg r s) (r # hist)"
proof -
  have "streak ok hist < 2 ^ 32 - 1" for ok
    using streak_le [of ok hist] assms(2) by simp
  then have "unat (hs_consecutive_failures s + 1) = Suc (streak False hist)"
    "unat (hs_consecutive_successes s + 1) = Suc (streak True hist)"
    using assms(1) by (subst unat_Suc_word; simp add: agrees_def)+
  with assms(1) show ?thesis
    by (cases r) (auto simp: agrees_def Let_def streak_Cons word_le_nat_alt)
qed

definition status_of :: "(string, health_status) store \<Rightarrow> string \<Rightarrow> health_status" where
  "status_of m i = (case dm_get m i of Some s \<Rightarrow> s | None \<Rightarrow> health_status_default 0)"

lemma agrees_last_check [simp]: "agrees cfg (s\<lparr>hs_last_check := t\<rparr>) hist = agrees cfg s hist"
  by (simp add: agrees_def)

lemma agrees_default: "agrees cfg (health_status_default t) []"
  by (simp add: agrees_def health_status_default_def streak_def)

lemma update_status_fst:
  "dm_get (fst (update_status t now i r cfg cb m)) j =
     (if j = i then Some ((apply_result cfg r (case dm_get m i of Some s \<Rightarrow> s | None \<Rightarrow> health_status_default t))
        \<lparr>hs_last_check := now\<rparr>)
      else dm_get m j)"
  by (simp add: update_status_def Let_def)

lemma calculate_apply:
  "fst (calculate_health_transition s r cfg) = apply_result cfg r s"
  "snd (calculate_health_transition s r cfg) =
     (if hs_healthy s \<noteq> hs_healthy (apply_result cfg r s)
      then HealthChanged '''' (hs_healthy (apply_result cfg r s)) else NoChange)"
  by (cases r; simp add: calculate_health_transition_def Let_def)+

text \<open>One backend on its own: its record and the reports about it.\<close>

fun health_local ::
  "health_check_config \<Rightarrow> instant \<times> health_check_result \<Rightarrow> health_status \<times> bool list \<Rightarrow> health_status \<times> bool list" where
  "health_local cfg (now, r) (s, evs) =
     (let s' = (apply_result cfg r s)\<lparr>hs_last_check := now\<rparr>
      in (s', evs @ (if hs_healthy s \<noteq> hs_healthy s' then [hs_healthy s'] else [])))"

definition health_view :: "(string, health_status) store \<times> (string \<times> bool) list \<Rightarrow> string \<Rightarrow> health_status \<times> bool list" where
  "health_view st i = (status_of (fst st) i, calls_of i (snd st))"

lemma apply_result_last_check:
  "(apply_result cfg r (s\<lparr>hs_last_check := t\<rparr>))\<lparr>hs_last_check := now\<rparr> = (apply_result cfg r s)\<lparr>hs_last_check := now\<rparr>"
  by (cases r) (simp_all add: Let_def)

lemma apply_result_default:
  "(apply_result cfg r (health_status_default t))\<lparr>hs_last_check := now\<rparr>
     = (apply_result cfg r (health_status_default 0))\<lparr>hs_last_check := now\<rparr>"
  using apply_result_last_check [where cfg = cfg and r = r and s = "health_status_default 0" and t = t and now = now] by (simp add: health_status_default_def)

lemma health_step_view:
  "health_view (health_step cfg True (j, x) st) i =
     (if i = j then health_local cfg x (health_view st i) else health_view st i)"
proof -
  obtain now r m evs where [simp]: "x = (now, r)" "st = (m, evs)" by (cases x; cases st)
  have d: "hs_healthy (health_status_default t)" for t by (simp add: health_status_default_def)
  note a = apply_result_default [where cfg = cfg and r = r and t = now and now = now]
  have h: "hs_healthy (apply_result cfg r (health_status_default now)) = hs_healthy (apply_result cfg r (health_status_default 0))"
    using arg_cong [OF a, of hs_healthy] by simp
  show ?thesis
    by (cases "dm_get m j")
       (auto simp: health_view_def update_status_def status_of_def Let_def a d h)
qed

interpretation health: keyed_machine "health_step cfg True" health_view "\<lambda>_. ()" "\<lambda>_. health_local cfg"
  by unfold_locales (simp_all add: health_step_view)

lemma alternates_snoc: "alternates b (bs @ [c]) \<longleftrightarrow> alternates b bs \<and> c = (\<not> last (b # bs))"
  by (induction bs arbitrary: b) auto

lemma health_local_run:
  assumes "agrees cfg s hist" "alternates b evs" "last (b # evs) = hs_healthy s"
    and "length hist + length rs < 2 ^ 32" "fold (health_local cfg) rs (s, evs) = (s', evs')"
  shows "agrees cfg s' (rev (map snd rs) @ hist) \<and> alternates b evs' \<and> last (b # evs') = hs_healthy s'"
  using assms
proof (induction rs arbitrary: s hist evs)
  case (Cons x rs)
  obtain now r where x: "x = (now, r)" by (cases x)
  let ?s = "(apply_result cfg r s)\<lparr>hs_last_check := now\<rparr>"
  let ?evs = "evs @ (if hs_healthy s \<noteq> hs_healthy ?s then [hs_healthy ?s] else [])"
  have "agrees cfg ?s (r # hist)"
    using apply_result_agrees [OF Cons.prems(1)] Cons.prems(4) by simp
  moreover have "alternates b ?evs" "last (b # ?evs) = hs_healthy ?s"
    using Cons.prems(2,3) by (auto simp: alternates_snoc split: if_splits)
  ultimately have "agrees cfg s' (rev (map snd rs) @ r # hist) \<and> alternates b evs' \<and> last (b # evs') = hs_healthy s'"
    using Cons.prems(4,5) x by (intro Cons.IH) (auto simp: Let_def)
  with x show ?case by simp
qed simp

section \<open>Properties\<close>

text \<open>
  C29: Health follows the history of checks with hysteresis: after any sequence of results for any backends, with
  fewer than \<open>2^32\<close> for the backend considered, its counters are the lengths of its current streaks, it is healthy exactly
  when the specification by its history says so (down after the configured run of failures, up again
  after the configured run of successes, otherwise unchanged), and the callback was called for it
  exactly at the changes, alternating between down and up and ending at the current state.
\<close>

theorem health_follows_history:
  assumes "length (calls_of i xs) < 2 ^ 32" "update_run cfg True xs = (m, evs)"
  shows "agrees cfg (status_of m i) (rev (map snd (calls_of i xs)))
    \<and> alternates True (calls_of i evs) \<and> last (True # calls_of i evs) = hs_healthy (status_of m i)"
proof -
  have "fold (health_local cfg) (calls_of i xs) (health_status_default 0, []) = (status_of m i, calls_of i evs)"
    using health.view_run [of cfg xs "(dm_empty, [])" i] assms(2)
    by (simp add: update_run_def health_view_def status_of_def)
  from health_local_run [OF agrees_default _ _ _ this, of True] assms(1) show ?thesis
    by (simp add: health_status_default_def)
qed

definition example_results :: "(string \<times> instant \<times> health_check_result) list" where
  "example_results =
     [(''b1'', 1, CheckFailure ''e'' 5), (''b2'', 1, CheckSuccess 4), (''b1'', 2, CheckFailure ''e'' 5),
      (''b1'', 3, CheckFailure ''e'' 5), (''b1'', 4, CheckSuccess 5)]"

theorem health_follows_history_witness:
  "agrees health_check_config_default
     (status_of (fst (update_run health_check_config_default True example_results)) ''b1'')
     [CheckSuccess 5, CheckFailure ''e'' 5, CheckFailure ''e'' 5, CheckFailure ''e'' 5]"
proof -
  have c: "calls_of ''b1'' example_results = [(1, CheckFailure ''e'' 5), (2, CheckFailure ''e'' 5), (3, CheckFailure ''e'' 5), (4, CheckSuccess 5)]"
    by (simp add: example_results_def)
  show ?thesis
    using health_follows_history [of "''b1''" example_results health_check_config_default]
    by (cases "update_run health_check_config_default True example_results") (simp add: c)
qed

text \<open>
  The transition function without input and output and the updating loop agree: \<^verbatim>\<open>update_status\<close> stores the
  status that \<^verbatim>\<open>calculate_health_transition\<close> computes from the previous one, with the time of the check
  filled in, reports a change exactly when that function does, and touches no other backend.
\<close>

lemma update_status_is_transition:
  "update_status t_new now i r cfg cb m =
     (let s = (case dm_get m i of Some s \<Rightarrow> s | None \<Rightarrow> health_status_default t_new);
          (s', action) = calculate_health_transition s r cfg
      in (dm_insert i (s'\<lparr>hs_last_check := now\<rparr>) m,
          case action of HealthChanged _ h \<Rightarrow> if cb then [(i, h)] else [] | NoChange \<Rightarrow> []))"
  by (auto simp: update_status_def Let_def calculate_apply case_prod_unfold split: option.split)

text \<open>
  The probe address of an IPv6 backend is printed without brackets, unlike the servers' connection address, and
  is not a socket address: the probe depends on a name lookup of the text before the last colon, and the URL of an HTTP probe is malformed.
\<close>

lemma ipv6_probe_address:
  assumes "parse_ip_addr (bk_wg_ip b) = Some (IpV6 a)"
  shows "parse_socket_addr (build_backend_addr b) = None"
  using assms parse_socket_addr_unbracketed [of "bk_wg_ip b" a]
  by (simp add: build_backend_addr_def parse_ip_addr_v6)

end
