(* ===== verification/Config_Watcher.thy ===== *)
theory Config_Watcher
  imports Prelude
begin

text \<open>
  Configuration hot reload, \<^verbatim>\<open>src/infrastructure/config_watcher.rs\<close>. The broadcast channel is the list of
  the events sent on it, oldest first, of which it keeps the last 64; a receiver is its position in that list, and one that is further behind
  loses the events in between. The file system is an argument that gives for a path the
  error of \<^verbatim>\<open>metadata\<close>, the error of \<^verbatim>\<open>modified\<close>, or the modification time. \<open>set\<close> is the sequence
  of its two parts: the insertion under the write lock and the notification after it is released.
\<close>

section \<open>Model\<close>

type_synonym path = string
type_synonym system_time = nat

datatype config_change = FileModified path | ValueChanged string "string option" string | FullReload

datatype config_watch_error = FileError path string | ParseError string

text \<open>The argument renders a path as \<^verbatim>\<open>{:?}\<close> does.\<close>

fun config_watch_error_display :: "(path \<Rightarrow> string) \<Rightarrow> config_watch_error \<Rightarrow> string" where
  "config_watch_error_display dbg (FileError p e) = ''file error for '' @ dbg p @ '': '' @ e"
| "config_watch_error_display dbg (ParseError e) = ''parse error: '' @ e"

record config_watcher =
  cw_watched_files :: "(path, system_time) store"
  cw_config_values :: "(string, string) store"
  cw_change_tx :: "config_change list"
  cw_poll_interval :: duration

definition config_watcher_new :: "duration \<Rightarrow> config_watcher" where
  "config_watcher_new poll =
     \<lparr>cw_watched_files = dm_empty, cw_config_values = dm_empty, cw_change_tx = [], cw_poll_interval = poll\<rparr>"

definition config_watcher_default :: config_watcher where
  "config_watcher_default = config_watcher_new (from_secs 5)"

text \<open>
  A receiver gets the changes sent after it was made, as far as the channel keeps them: \<open>recv\<close> gives the next one, or reports how many are gone
  and goes on with the oldest that is left. \<open>cw_received\<close> are the changes a receiver gets that reads all there is when the watcher is \<open>w\<close>.
\<close>

abbreviation change_capacity :: nat where "change_capacity \<equiv> 64"

definition cw_subscribe :: "config_watcher \<Rightarrow> nat" where
  "cw_subscribe w = length (cw_change_tx w)"

datatype recv_result = Received config_change | Lagged nat | Empty

definition cw_recv :: "nat \<Rightarrow> config_watcher \<Rightarrow> recv_result \<times> nat" where
  "cw_recv pos w =
     (let n = length (cw_change_tx w) in
      if n \<le> pos then (Empty, pos)
      else if pos + change_capacity < n then (Lagged (n - change_capacity - pos), n - change_capacity)
      else (Received (cw_change_tx w ! pos), pos + 1))"

definition cw_received :: "nat \<Rightarrow> config_watcher \<Rightarrow> config_change list" where
  "cw_received pos w = drop (max pos (length (cw_change_tx w) - change_capacity)) (cw_change_tx w)"

type_synonym file_system = "path \<Rightarrow> string + (string + system_time)"

definition cw_send :: "config_change \<Rightarrow> config_watcher \<Rightarrow> config_watcher" where
  "cw_send e w = w\<lparr>cw_change_tx := cw_change_tx w @ [e]\<rparr>"

definition watch_file :: "file_system \<Rightarrow> path \<Rightarrow> config_watcher \<Rightarrow> (config_watch_error + unit) \<times> config_watcher" where
  "watch_file fs p w =
     (case fs p of
        Inl e \<Rightarrow> (Inl (FileError p e), w)
      | Inr (Inl e) \<Rightarrow> (Inl (FileError p e), w)
      | Inr (Inr mtime) \<Rightarrow> (Inr (), w\<lparr>cw_watched_files := dm_insert p mtime (cw_watched_files w)\<rparr>))"

definition unwatch_file :: "path \<Rightarrow> config_watcher \<Rightarrow> config_watcher" where
  "unwatch_file p w = w\<lparr>cw_watched_files := dm_remove p (cw_watched_files w)\<rparr>"

definition cw_set_insert :: "string \<Rightarrow> string \<Rightarrow> config_watcher \<Rightarrow> string option \<times> config_watcher" where
  "cw_set_insert k v w =
     (dm_get (cw_config_values w) k, w\<lparr>cw_config_values := dm_insert k v (cw_config_values w)\<rparr>)"

definition cw_set_notify :: "string \<Rightarrow> string \<Rightarrow> string option \<Rightarrow> config_watcher \<Rightarrow> config_watcher" where
  "cw_set_notify k v old w = (if old \<noteq> Some v then cw_send (ValueChanged k old v) w else w)"

definition cw_set :: "string \<Rightarrow> string \<Rightarrow> config_watcher \<Rightarrow> config_watcher" where
  "cw_set k v w = (let (old, w) = cw_set_insert k v w in cw_set_notify k v old w)"

definition cw_get :: "config_watcher \<Rightarrow> string \<Rightarrow> string option" where
  "cw_get w k = dm_get (cw_config_values w) k"

definition cw_get_or :: "config_watcher \<Rightarrow> string \<Rightarrow> string \<Rightarrow> string" where
  "cw_get_or w k d = (case dm_get (cw_config_values w) k of Some v \<Rightarrow> v | None \<Rightarrow> d)"

definition cw_get_all :: "config_watcher \<Rightarrow> (string, string) store" where
  "cw_get_all w = cw_config_values w"

definition notify_reload :: "config_watcher \<Rightarrow> config_watcher" where
  "notify_reload w = cw_send FullReload w"

fun check_entries :: "file_system \<Rightarrow> (path, system_time) store \<Rightarrow> path list \<times> (path, system_time) store" where
  "check_entries fs [] = ([], [])"
| "check_entries fs ((p, last_mtime) # files) =
     (let (modified, files') = check_entries fs files in
      case fs p of
        Inr (Inr mtime) \<Rightarrow>
          if last_mtime < mtime then (p # modified, (p, mtime) # files') else (modified, (p, last_mtime) # files')
      | _ \<Rightarrow> (modified, (p, last_mtime) # files'))"

definition check_files :: "file_system \<Rightarrow> config_watcher \<Rightarrow> path list \<times> config_watcher" where
  "check_files fs w =
     (let (modified, files) = check_entries fs (cw_watched_files w) in (modified, w\<lparr>cw_watched_files := files\<rparr>))"

text \<open>One iteration of the task of \<^verbatim>\<open>start\<close>.\<close>

definition watcher_tick :: "file_system \<Rightarrow> config_watcher \<Rightarrow> config_watcher" where
  "watcher_tick fs w =
     (let (modified, w) = check_files fs w in fold (\<lambda>p w. cw_send (FileModified p) w) modified w)"

definition watched_count :: "config_watcher \<Rightarrow> nat" where
  "watched_count w = length (cw_watched_files w)"

record 'a hot_value =
  hv_value :: 'a
  hv_key :: string

definition hot_value_new :: "string \<Rightarrow> 'a \<Rightarrow> 'a hot_value" where
  "hot_value_new k initial = \<lparr>hv_value = initial, hv_key = k\<rparr>"

definition hot_value_set :: "'a \<Rightarrow> 'a hot_value \<Rightarrow> 'a hot_value" where
  "hot_value_set v h = h\<lparr>hv_value := v\<rparr>"

definition hot_value_get :: "'a hot_value \<Rightarrow> 'a" where
  "hot_value_get h = hv_value h"

definition hot_value_key :: "'a hot_value \<Rightarrow> string" where
  "hot_value_key h = hv_key h"

section \<open>Specification\<close>

text \<open>What a subscriber that applies every event knows, and calls on the watcher.\<close>

fun replay :: "config_change list \<Rightarrow> (string \<rightharpoonup> string) \<Rightarrow> (string \<rightharpoonup> string)" where
  "replay [] m = m"
| "replay (ValueChanged k old v # es) m = replay es (m(k \<mapsto> v))"
| "replay (_ # es) m = replay es m"

datatype watcher_call =
    SetValue string string | WatchFile path | UnwatchFile path | NotifyReload | Poll

fun watcher_step :: "file_system \<Rightarrow> watcher_call \<Rightarrow> config_watcher \<Rightarrow> config_watcher" where
  "watcher_step fs (SetValue k v) w = cw_set k v w"
| "watcher_step fs (WatchFile p) w = snd (watch_file fs p w)"
| "watcher_step fs (UnwatchFile p) w = unwatch_file p w"
| "watcher_step fs NotifyReload w = notify_reload w"
| "watcher_step fs Poll w = watcher_tick fs w"

text \<open>A subscriber with its position, the changes it got and the number of those it lost; a run of calls, between which the file system may change and the subscriber receives.\<close>

record subscriber =
  sb_pos :: nat
  sb_got :: "config_change list"
  sb_lost :: nat

definition subscriber_new :: "config_watcher \<Rightarrow> subscriber" where
  "subscriber_new w = \<lparr>sb_pos = cw_subscribe w, sb_got = [], sb_lost = 0\<rparr>"

definition subscriber_recv :: "config_watcher \<Rightarrow> subscriber \<Rightarrow> subscriber" where
  "subscriber_recv w sb =
     (case cw_recv (sb_pos sb) w of
        (Received e, pos) \<Rightarrow> sb\<lparr>sb_pos := pos, sb_got := sb_got sb @ [e]\<rparr>
      | (Lagged n, pos) \<Rightarrow> sb\<lparr>sb_pos := pos, sb_lost := sb_lost sb + n\<rparr>
      | (Empty, pos) \<Rightarrow> sb)"

datatype watcher_event = WatcherCall file_system watcher_call | Receive

fun watcher_event_step :: "watcher_event \<Rightarrow> config_watcher \<times> subscriber \<Rightarrow> config_watcher \<times> subscriber" where
  "watcher_event_step (WatcherCall fs c) (w, sb) = (watcher_step fs c w, sb)"
| "watcher_event_step Receive (w, sb) = (w, subscriber_recv w sb)"

definition watcher_run :: "watcher_event list \<Rightarrow> config_watcher \<times> subscriber \<Rightarrow> config_watcher \<times> subscriber" where
  "watcher_run es x = fold watcher_event_step es x"

text \<open>The subscriber keeps up: it is at most the capacity of the channel behind whenever it receives.\<close>

fun keeps_up :: "watcher_event list \<Rightarrow> config_watcher \<times> subscriber \<Rightarrow> bool" where
  "keeps_up [] x \<longleftrightarrow> True"
| "keeps_up (e # es) x \<longleftrightarrow>
     (e = Receive \<longrightarrow> length (cw_change_tx (fst x)) \<le> sb_pos (snd x) + change_capacity) \<and> keeps_up es (watcher_event_step e x)"

text \<open>The watched files that have a later modification time than the one recorded.\<close>

definition advanced :: "file_system \<Rightarrow> config_watcher \<Rightarrow> path set" where
  "advanced fs w = {p. \<exists>t m. dm_get (cw_watched_files w) p = Some t \<and> fs p = Inr (Inr m) \<and> t < m}"

section \<open>Lemmas\<close>

lemma replay_append: "replay (xs @ ys) m = replay ys (replay xs m)"
proof (induction xs arbitrary: m)
  case (Cons e xs)
  then show ?case by (cases e) (simp_all del: fun_upd_apply)
qed simp

lemma fold_send:
  "cw_change_tx (fold (\<lambda>p w. cw_send (FileModified p) w) ps w) = cw_change_tx w @ map FileModified ps"
  "cw_config_values (fold (\<lambda>p w. cw_send (FileModified p) w) ps w) = cw_config_values w"
  "cw_watched_files (fold (\<lambda>p w. cw_send (FileModified p) w) ps w) = cw_watched_files w"
  by (induction ps arbitrary: w) (auto simp: cw_send_def)

lemma replay_files [simp]: "replay (map FileModified ps) m = m"
  by (induction ps) auto

lemma watcher_step_replay:
  assumes "dm_get (cw_config_values w) = replay (cw_change_tx w) Map.empty"
  shows "dm_get (cw_config_values (watcher_step fs c w)) = replay (cw_change_tx (watcher_step fs c w)) Map.empty"
proof (cases c)
  case (SetValue k v)
  show ?thesis
  proof (cases "dm_get (cw_config_values w) k = Some v")
    case True
    then have "dm_get (cw_config_values w) = (dm_get (cw_config_values w))(k \<mapsto> v)" by auto
    with True SetValue assms show ?thesis
      by (auto simp: cw_set_def cw_set_insert_def cw_set_notify_def)
  next
    case False
    with SetValue assms show ?thesis
      by (auto simp: cw_set_def cw_set_insert_def cw_set_notify_def cw_send_def replay_append)
  qed
next
  case (WatchFile p)
  with assms show ?thesis by (auto simp: watch_file_def split: sum.splits)
next
  case Poll
  with assms show ?thesis
    by (simp add: watcher_tick_def check_files_def case_prod_unfold Let_def fold_send replay_append)
qed (use assms in \<open>auto simp: unwatch_file_def notify_reload_def cw_send_def replay_append\<close>)

lemma check_entries_spec:
  "fst (check_entries fs files) = map fst (filter (\<lambda>(p, t). \<exists>m. fs p = Inr (Inr m) \<and> t < m) files)"
  "snd (check_entries fs files) = map (\<lambda>(p, t). (p, case fs p of Inr (Inr m) \<Rightarrow> max t m | _ \<Rightarrow> t)) files"
  by (induction fs files rule: check_entries.induct) (auto simp: case_prod_unfold Let_def split: sum.splits)

lemma tick_fields:
  "cw_change_tx (watcher_tick fs w) = cw_change_tx w @ map FileModified (fst (check_entries fs (cw_watched_files w)))"
  "cw_watched_files (watcher_tick fs w) = snd (check_entries fs (cw_watched_files w))"
  by (simp_all add: watcher_tick_def check_files_def case_prod_unfold Let_def fold_send)

lemma watcher_step_tx: "\<exists>es. cw_change_tx (watcher_step fs c w) = cw_change_tx w @ es"
  by (cases c) (auto simp: cw_set_def cw_set_insert_def cw_set_notify_def cw_send_def watch_file_def unwatch_file_def notify_reload_def
      tick_fields split: sum.splits)

lemma check_entries_wf: "dm_wf files \<Longrightarrow> dm_wf (snd (check_entries fs files))"
  by (simp add: dm_wf_def check_entries_spec(2) comp_def case_prod_unfold)

lemma watcher_step_wf: "dm_wf (cw_watched_files w) \<Longrightarrow> dm_wf (cw_watched_files (watcher_step fs c w))"
  by (cases c) (auto simp: cw_set_def cw_set_insert_def cw_set_notify_def cw_send_def watch_file_def unwatch_file_def notify_reload_def
      tick_fields check_entries_wf split: sum.splits)

text \<open>What the subscriber got is what was sent, up to its position, unless it lost some.\<close>

definition watch_inv :: "config_watcher \<times> subscriber \<Rightarrow> bool" where
  "watch_inv x \<longleftrightarrow> (case x of (w, sb) \<Rightarrow>
     dm_get (cw_config_values w) = replay (cw_change_tx w) Map.empty \<and> dm_wf (cw_watched_files w)
     \<and> sb_pos sb \<le> length (cw_change_tx w) \<and> length (sb_got sb) + sb_lost sb = sb_pos sb
     \<and> (sb_lost sb = 0 \<longrightarrow> sb_got sb = take (sb_pos sb) (cw_change_tx w)))"

lemma watch_inv_step: "watch_inv x \<Longrightarrow> watch_inv (watcher_event_step e x)"
proof (induction e x rule: watcher_event_step.induct)
  case (1 fs c w sb)
  obtain es where "cw_change_tx (watcher_step fs c w) = cw_change_tx w @ es" using watcher_step_tx by blast
  with 1 watcher_step_replay [of w fs c] watcher_step_wf [of w fs c] show ?case by (auto simp: watch_inv_def)
next
  case (2 w sb)
  then show ?case
    by (auto simp: watch_inv_def subscriber_recv_def cw_recv_def Let_def take_Suc_conv_app_nth)
qed

lemma watch_inv_run: "watch_inv x \<Longrightarrow> watch_inv (watcher_run es x)"
  unfolding watcher_run_def by (induction es arbitrary: x) (simp_all add: watch_inv_step)

lemma keeps_up_lost: "keeps_up es x \<Longrightarrow> sb_lost (snd (watcher_run es x)) = sb_lost (snd x)"
proof (induction es arbitrary: x)
  case (Cons e es)
  then have "sb_lost (snd (watcher_event_step e x)) = sb_lost (snd x)"
    by (cases e; cases x) (auto simp: subscriber_recv_def cw_recv_def Let_def)
  with Cons show ?case by (simp add: watcher_run_def)
qed (simp add: watcher_run_def)

lemma watch_inv_start: "watch_inv (config_watcher_new poll, subscriber_new (config_watcher_new poll))"
  by (auto simp: watch_inv_def config_watcher_new_def subscriber_new_def cw_subscribe_def)

text \<open>One poll: it reports the files that advanced, each once, and records their new times.\<close>

lemma poll_reports:
  assumes "dm_wf (cw_watched_files w)"
  shows "\<exists>ps. distinct ps \<and> set ps = advanced fs w \<and> cw_change_tx (watcher_tick fs w) = cw_change_tx w @ map FileModified ps
    \<and> advanced fs (watcher_tick fs w) = {}"
proof -
  let ?es = "filter (\<lambda>(p, t). \<exists>m. fs p = Inr (Inr m) \<and> t < m) (cw_watched_files w)"
  let ?files = "snd (check_entries fs (cw_watched_files w))"
  have wf: "dm_wf ?files" using assms by (rule check_entries_wf)
  have "distinct (map fst ?es)" using assms by (simp add: dm_wf_def distinct_map_filter)
  moreover have "set (map fst ?es) = advanced fs w"
    by (force simp: advanced_def dm_in_set_iff [OF assms, symmetric])
  moreover have "cw_change_tx (watcher_tick fs w) = cw_change_tx w @ map FileModified (map fst ?es)"
    by (simp add: tick_fields check_entries_spec(1))
  moreover have "cw_watched_files (watcher_tick fs w) = ?files"
    by (rule tick_fields)
  then have "advanced fs (watcher_tick fs w) = {}"
    by (auto simp: advanced_def dm_in_set_iff [OF wf, symmetric]) (auto simp: check_entries_spec(2))
  ultimately show ?thesis by blast
qed

section \<open>Properties\<close>

text \<open>
  C40: The events are a faithful journal. After any sequence of calls on a new watcher that do not overlap, with the file
  system changing in between, and of receives of a subscriber made at the start: the subscriber has got or lost every event up to its position, each once; it loses none if it is
  at most 64 events behind whenever it receives; and if it lost none and there is nothing to receive, applying the events it got gives exactly the
  current configuration values. A poll sends one event for each watched file whose modification time is later than the one recorded, and for no
  other file, and records the new time, so that a second poll of an unchanged file system sends nothing.
\<close>

theorem events_replay_to_values:
  assumes "watcher_run es (config_watcher_new poll, subscriber_new (config_watcher_new poll)) = (w, sb)"
  shows "length (sb_got sb) + sb_lost sb = sb_pos sb \<and> sb_pos sb \<le> length (cw_change_tx w)
    \<and> (keeps_up es (config_watcher_new poll, subscriber_new (config_watcher_new poll)) \<longrightarrow> sb_lost sb = 0)
    \<and> (sb_lost sb = 0 \<longrightarrow> sb_got sb = take (sb_pos sb) (cw_change_tx w))
    \<and> (sb_lost sb = 0 \<and> fst (cw_recv (sb_pos sb) w) = Empty \<longrightarrow> replay (sb_got sb) Map.empty = cw_get w)
    \<and> (\<exists>ps. distinct ps \<and> set ps = advanced fs w \<and> cw_change_tx (watcher_tick fs w) = cw_change_tx w @ map FileModified ps
         \<and> cw_change_tx (watcher_tick fs (watcher_tick fs w)) = cw_change_tx (watcher_tick fs w))"
proof -
  have inv: "watch_inv (w, sb)" using watch_inv_run [OF watch_inv_start] assms by metis
  then have wf: "dm_wf (cw_watched_files w)" by (simp add: watch_inv_def)
  have "dm_wf (cw_watched_files (watcher_tick fs w))" using watcher_step_wf [OF wf, of fs Poll] by simp
  from poll_reports [OF this, of fs] poll_reports [OF wf, of fs]
  have "\<exists>ps. distinct ps \<and> set ps = advanced fs w \<and> cw_change_tx (watcher_tick fs w) = cw_change_tx w @ map FileModified ps
         \<and> cw_change_tx (watcher_tick fs (watcher_tick fs w)) = cw_change_tx (watcher_tick fs w)" by fastforce
  moreover have "keeps_up es (config_watcher_new poll, subscriber_new (config_watcher_new poll)) \<Longrightarrow> sb_lost sb = 0"
    using keeps_up_lost [of es] assms by (fastforce simp: subscriber_new_def)
  moreover have "length (cw_change_tx w) \<le> sb_pos sb" if "fst (cw_recv (sb_pos sb) w) = Empty"
    using that by (auto simp: cw_recv_def Let_def split: if_splits)
  ultimately show ?thesis using inv by (auto simp: watch_inv_def cw_get_def [abs_def])
qed

definition example_events :: "watcher_event list" where
  "example_events = [WatcherCall (\<lambda>_. Inr (Inr 1)) (SetValue ''k'' ''v''), WatcherCall (\<lambda>_. Inr (Inr 1)) (WatchFile ''f''),
     WatcherCall (\<lambda>_. Inr (Inr 2)) Poll, Receive, Receive]"

theorem events_replay_to_values_witness:
  "\<exists>w sb. watcher_run example_events (config_watcher_new 0, subscriber_new (config_watcher_new 0)) = (w, sb)
     \<and> sb_got sb = [ValueChanged ''k'' None ''v'', FileModified ''f''] \<and> replay (sb_got sb) Map.empty = cw_get w
     \<and> (\<exists>ps. set ps = advanced (\<lambda>_. Inr (Inr 3)) w \<and> cw_change_tx (watcher_tick (\<lambda>_. Inr (Inr 3)) w) = cw_change_tx w @ map FileModified ps)"
proof -
  let ?start = "(config_watcher_new 0, subscriber_new (config_watcher_new 0))"
  let ?f = "\<lambda>_. Inr (Inr 3) :: string + (string + system_time)"
  obtain w sb where run: "watcher_run example_events ?start = (w, sb)" by fastforce
  have e: "map_prod (\<lambda>w. length (cw_change_tx w)) (\<lambda>sb. (sb_got sb, sb_lost sb, sb_pos sb)) (watcher_run example_events ?start)
      = (2, [ValueChanged ''k'' None ''v'', FileModified ''f''], 0, 2)"
    by code_simp
  then have s: "length (cw_change_tx w) = 2" "sb_got sb = [ValueChanged ''k'' None ''v'', FileModified ''f'']" "sb_lost sb = 0" "sb_pos sb = 2"
    using run by simp_all
  then have "fst (cw_recv (sb_pos sb) w) = Empty" by (simp add: cw_recv_def)
  with events_replay_to_values [OF run, of ?f] run s(2,3) show ?thesis by blast
qed

text \<open>A subscriber that is further behind loses the changes that the channel no longer keeps.\<close>

lemma lagging_subscriber_loses:
  assumes "length (cw_change_tx w) = sb_pos sb + change_capacity + k" "0 < k"
  shows "sb_lost (subscriber_recv w sb) = sb_lost sb + k \<and> sb_got (subscriber_recv w sb) = sb_got sb"
  using assms by (simp add: subscriber_recv_def cw_recv_def Let_def)

text \<open>
  Two overlapping \<open>set\<close> calls may notify in the opposite order of their insertions, and a subscriber is
  then left with the older value.
\<close>

lemma overlapping_sets_mislead:
  "\<exists>w. cw_get w ''k'' = Some ''new'' \<and> replay (cw_change_tx w) Map.empty ''k'' = Some ''old''
     \<and> (let w0 = config_watcher_new 0; (o1, w1) = cw_set_insert ''k'' ''old'' w0;
            (o2, w2) = cw_set_insert ''k'' ''new'' w1
        in w = cw_set_notify ''k'' ''old'' o1 (cw_set_notify ''k'' ''new'' o2 w2))"
  by (simp add: cw_set_insert_def cw_set_notify_def cw_send_def config_watcher_new_def cw_get_def)

end
