(* ===== verification/Balance.thy ===== *)
theory Balance
  imports Proxy_Service
begin

text \<open>
  How the load balancer, the binding repository and the metrics store together spread new clients over replicas: backends that differ in
  their names and addresses only. A new connection is handled as the servers do it, a resolution followed by
  \<^verbatim>\<open>record_connection_start\<close> when it found a backend.
\<close>

definition admit :: "instant \<times> ip_addr \<times> geo_info option \<Rightarrow> main_service \<Rightarrow> main_service" where
  "admit c s =
     (case c of (now, ip, geo) \<Rightarrow>
        (case resolve_backend_with_geo main_ports now ip geo s of
           (None, s') \<Rightarrow> s'
         | (Some b, s') \<Rightarrow> record_connection_start main_ports (bk_id b) s'))"

definition replica_of :: "backend \<Rightarrow> backend \<Rightarrow> bool" where
  "replica_of a b \<longleftrightarrow> bk_healthy b \<and> bk_region b = bk_region a \<and> bk_country b = bk_country a \<and> bk_weight b = bk_weight a
     \<and> bk_soft_limit b = bk_soft_limit a \<and> bk_hard_limit b = bk_hard_limit a"

definition conns :: "main_service \<Rightarrow> backend \<Rightarrow> nat" where
  "conns s b = unat (metrics_get_connection_count (ps_metrics s) (bk_id b))"

section \<open>The choice among replicas\<close>

lemma pick_among_replicas:
  assumes "\<forall>b \<in> set bs. replica_of a b" and "\<forall>b \<in> set bs. unat (cnt (bk_id b)) \<le> 2 ^ 50"
    and "pick_backend bs lr geo cnt = Some b" and "c \<in> set bs"
  shows "b \<in> set bs \<and> \<not> at_hard_limit cnt b \<and> unat (cnt (bk_id b)) \<le> unat (cnt (bk_id c))"
proof -
  from first_min_Some [OF assms(3) [unfolded pick_backend_first_min]]
  have b: "b \<in> set bs" "eligible cnt b"
    and least: "eligible cnt c \<Longrightarrow> score_val lr geo cnt b \<le> score_val lr geo cnt c" using assms(4) by auto
  have "replica_of a b" "replica_of a c" using assms(1,4) b(1) by auto
  then have same: "soft_val c = soft_val b" "weight_val c = weight_val b" "geo_tier lr geo c = geo_tier lr geo b"
      "bk_hard_limit c = bk_hard_limit b" "bk_healthy c"
    by (auto simp: replica_of_def soft_val_def weight_val_def geo_tier_def)
  show ?thesis
  proof (cases "eligible cnt c")
    case True
    with least score_val_strict_load [of cnt c b lr geo] same assms(2) b show ?thesis
      by (auto simp: eligible_def not_less [symmetric])
  next
    case False
    with b same show ?thesis by (auto simp: eligible_def at_hard_limit_def)
  qed
qed

lemma no_pick_among_replicas:
  assumes "\<forall>b \<in> set bs. replica_of a b" and "pick_backend bs lr geo cnt = None" and "c \<in> set bs"
  shows "bk_hard_limit a \<noteq> 0 \<and> unat (bk_hard_limit a) \<le> unat (cnt (bk_id c))"
proof -
  have "\<not> eligible cnt c" using pick_backend_total [of bs lr geo cnt] assms(2,3) by auto
  with assms(1,3) show ?thesis by (auto simp: replica_of_def eligible_def at_hard_limit_def)
qed

section \<open>The state after some clients\<close>

text \<open>How many connections the replicas hold together when \<open>n\<close> clients have asked.\<close>

definition admitted :: "backend \<Rightarrow> nat \<Rightarrow> nat \<Rightarrow> nat" where
  "admitted a k n = (if bk_hard_limit a = 0 then n else min n (unat (bk_hard_limit a) * k))"

definition spread :: "backend \<Rightarrow> backend list \<Rightarrow> ip_addr list \<Rightarrow> main_service \<Rightarrow> bool" where
  "spread a bs ips s \<longleftrightarrow>
     sq_backends (ps_backend_repo s) = bs
     \<and> dom (binding_repo_get (ps_binding_repo s)) \<subseteq> client_key_new ` set ips
     \<and> (\<forall>b \<in> set bs. \<forall>c \<in> set bs. conns s b \<le> conns s c + 1)
     \<and> (\<forall>b \<in> set bs. bk_hard_limit a \<noteq> 0 \<longrightarrow> conns s b \<le> unat (bk_hard_limit a))
     \<and> sum_list (map (conns s) bs) = admitted a (length bs) (length ips)"

lemma sum_list_bump:
  assumes "distinct (map f bs)" and "b \<in> set bs" and "\<And>c. c \<in> set bs \<Longrightarrow> g c = (if f c = f b then h c + 1 else (h c :: nat))"
  shows "sum_list (map g bs) = sum_list (map h bs) + 1"
  using assms
proof (induction bs)
  case (Cons x xs)
  show ?case
  proof (cases "x = b")
    case True
    with Cons.prems(1) have "\<forall>c \<in> set xs. f c \<noteq> f b" by (auto simp: image_iff)
    with Cons.prems(3) have "sum_list (map g xs) = sum_list (map h xs)" by (intro arg_cong [of _ _ sum_list] map_cong) simp_all
    with True Cons.prems(3) [of b] show ?thesis by simp
  next
    case False
    with Cons.prems have "b \<in> set xs" "f x \<noteq> f b" by (auto simp: image_iff)
    with Cons.prems(3) [of x] Cons.IH Cons.prems show ?thesis by simp
  qed
qed simp

lemma conns_le_sum: "b \<in> set bs \<Longrightarrow> conns s b \<le> sum_list (map (conns s) bs)"
  by (simp add: member_le_sum_list)

lemma conns_started:
  assumes "conns s b < 2 ^ 50"
  shows "conns (record_connection_start main_ports (bk_id b) s) c = (if bk_id c = bk_id b then conns s c + 1 else conns s c)"
proof -
  have "unat (metrics_get_connection_count (ps_metrics s) (bk_id b) + 1)
      = unat (metrics_get_connection_count (ps_metrics s) (bk_id b)) + 1"
    using assms by (subst unat_word_ariths) (simp add: conns_def)
  then show ?thesis
    by (simp add: conns_def record_connection_start_def main_ports_def metrics.count_increment)
qed

lemma spread_served:
  assumes "spread a bs ips s" and "distinct (map bk_id bs)" and "b \<in> set bs" and "\<forall>c \<in> set bs. conns s b \<le> conns s c"
    and "bk_hard_limit a \<noteq> 0 \<Longrightarrow> conns s b < unat (bk_hard_limit a)" and "length ips < 2 ^ 50"
    and "ps_backend_repo t = ps_backend_repo s" and "ps_metrics t = ps_metrics s"
    and "dom (binding_repo_get (ps_binding_repo t)) \<subseteq> client_key_new ` set (ip # ips)"
  shows "spread a bs (ip # ips) (record_connection_start main_ports (bk_id b) t)"
proof -
  let ?t = "record_connection_start main_ports (bk_id b) t"
  have total: "sum_list (map (conns s) bs) = admitted a (length bs) (length ips)" using assms(1) by (simp add: spread_def)
  moreover have "conns t = conns s" using assms(8) by (simp add: conns_def fun_eq_iff)
  moreover have "conns s b < 2 ^ 50"
    using conns_le_sum [OF assms(3), of s] total assms(6) by (simp add: admitted_def split: if_splits)
  ultimately have bump: "conns ?t c = (if bk_id c = bk_id b then conns s c + 1 else conns s c)" for c
    using conns_started [of t b c] by simp
  have new: "conns ?t c = (if c = b then conns s b + 1 else conns s c)" if "c \<in> set bs" for c
    using assms(2,3) that bump [of c] by (auto simp: distinct_map dest: inj_onD)
  have even: "\<forall>x \<in> set bs. \<forall>y \<in> set bs. conns ?t x \<le> conns ?t y + 1"
    using assms(1,4) by (auto simp: spread_def new le_SucI)
  have limit: "\<forall>x \<in> set bs. bk_hard_limit a \<noteq> 0 \<longrightarrow> conns ?t x \<le> unat (bk_hard_limit a)"
    using assms(1,5) by (auto simp: spread_def new)
  have "sum_list (map (conns ?t) bs) = admitted a (length bs) (length ips) + 1"
    using sum_list_bump [OF assms(2,3), of "conns ?t" "conns s"] bump total by simp
  moreover have "admitted a (length bs) (length ips) + 1 = admitted a (length bs) (length (ip # ips))"
  proof -
    have "bk_hard_limit a \<noteq> 0 \<longrightarrow> sum_list (map (conns s) bs) < unat (bk_hard_limit a) * length bs"
    proof
      assume h: "bk_hard_limit a \<noteq> 0"
      have d: "distinct bs" using assms(2) by (simp add: distinct_map)
      have "sum (conns s) (set bs) < sum (\<lambda>_. unat (bk_hard_limit a)) (set bs)"
        using assms(3) assms(5) [OF h] assms(1) h
        by (intro sum_strict_mono_ex1) (auto simp: spread_def)
      then show "sum_list (map (conns s) bs) < unat (bk_hard_limit a) * length bs"
        by (simp add: sum_list_distinct_conv_sum_set [OF d] distinct_card [OF d] mult.commute)
    qed
    with total show ?thesis by (auto simp: admitted_def)
  qed
  ultimately show ?thesis
    using assms(1,7,9) even limit unfolding spread_def
    by (simp add: record_connection_start_def)
qed

lemma spread_refused:
  assumes "spread a bs ips s" and "\<forall>c \<in> set bs. unat (bk_hard_limit a) \<le> conns s c" and "bk_hard_limit a \<noteq> 0"
    and "ps_backend_repo t = ps_backend_repo s" and "ps_metrics t = ps_metrics s"
    and "dom (binding_repo_get (ps_binding_repo t)) \<subseteq> client_key_new ` set (ip # ips)"
  shows "spread a bs (ip # ips) t"
proof -
  have c: "conns t = conns s" using assms(5) by (simp add: conns_def fun_eq_iff)
  have "map (conns s) bs = map (\<lambda>_. unat (bk_hard_limit a)) bs"
    using assms(1-3) by (auto simp: spread_def intro: antisym)
  then have "sum_list (map (conns s) bs) = unat (bk_hard_limit a) * length bs" by (simp only: sum_list_triv) simp
  with assms c show ?thesis by (auto simp: spread_def admitted_def)
qed

lemma admit_spread:
  assumes "spread a bs ips s" and "\<forall>b \<in> set bs. replica_of a b" and "distinct (map bk_id bs)"
    and "ip \<notin> set ips" and "length ips < 2 ^ 50" and "bs \<noteq> []"
  shows "spread a bs (ip # ips) (admit (now, ip, geo) s)"
proof -
  let ?cnt = "metrics_get_connection_count (ps_metrics s)" and ?k = "client_key_new ip"
  have "?k \<notin> client_key_new ` set ips" using assms(4) by (auto simp: client_key_new_def)
  then have free: "binding_repo_get (ps_binding_repo s) ?k = None" using assms(1) by (auto simp: spread_def dom_def)
  have healthy: "sqlite_get_healthy (ps_backend_repo s) = bs"
    using assms(1,2) by (auto simp: sqlite_get_healthy_def spread_def replica_of_def)
  have le: "\<forall>b \<in> set bs. unat (?cnt (bk_id b)) \<le> 2 ^ 50"
    using conns_le_sum [of _ bs s] assms(1,5) by (force simp: spread_def admitted_def conns_def split: if_splits)
  obtain r t where t: "resolve_backend_with_geo main_ports now ip geo s = (r, t)" by fastforce
  have "main.dead_binding s ip" using free by (simp add: main.dead_binding_def)
  from main.resolve_unbound [OF this, of now geo] t
  have pick: "pick_backend bs (ps_local_region s) geo ?cnt = r" by (auto simp: healthy split: option.splits)
  from main.resolve_frame [OF t] have frame: "ps_backend_repo t = ps_backend_repo s" "ps_metrics t = ps_metrics s"
    and "dom (binding_repo_get (ps_binding_repo t)) \<subseteq> insert ?k (dom (binding_repo_get (ps_binding_repo s)))" by auto
  with assms(1) have dom: "dom (binding_repo_get (ps_binding_repo t)) \<subseteq> client_key_new ` set (ip # ips)" by (auto simp: spread_def)
  show ?thesis
  proof (cases r)
    case None
    with no_pick_among_replicas [OF assms(2)] pick assms(1) have "\<forall>c \<in> set bs. unat (bk_hard_limit a) \<le> conns s c"
      by (simp add: conns_def)
    moreover have "bk_hard_limit a \<noteq> 0"
      using no_pick_among_replicas [OF assms(2), of "ps_local_region s" geo ?cnt "hd bs"] pick None assms(6) by simp
    ultimately show ?thesis
      using spread_refused [OF assms(1) _ _ frame dom] t None by (simp add: admit_def)
  next
    case (Some b)
    note picked = pick_among_replicas [OF assms(2) le pick [unfolded Some]]
    then have "b \<in> set bs" using pick Some first_min_Some pick_backend_first_min by fastforce
    moreover from this picked have "\<forall>c \<in> set bs. conns s b \<le> conns s c"
      and "bk_hard_limit a \<noteq> 0 \<Longrightarrow> conns s b < unat (bk_hard_limit a)"
      using assms(2) by (auto simp: conns_def at_hard_limit_def replica_of_def not_le)
    ultimately show ?thesis
      using spread_served [OF assms(1,3) _ _ _ assms(5) frame dom] t Some by (simp add: admit_def)
  qed
qed

lemma fold_admit_spread:
  assumes "\<forall>b \<in> set bs. replica_of a b" and "distinct (map bk_id bs)" and "bs \<noteq> []"
  shows "spread a bs ips s \<Longrightarrow> distinct (ips @ map (fst \<circ> snd) clients) \<Longrightarrow> length ips + length clients \<le> 2 ^ 50 \<Longrightarrow>
    spread a bs (rev (map (fst \<circ> snd) clients) @ ips) (fold admit clients s)"
proof (induction clients arbitrary: ips s)
  case (Cons c clients)
  obtain now ip geo where c: "c = (now, ip, geo)" by (cases c)
  with Cons.prems have "spread a bs (ip # ips) (admit c s)"
    using admit_spread [OF Cons.prems(1) assms(1,2) _ _ assms(3), of ip] by simp
  from Cons.IH [OF this] Cons.prems c show ?case by simp
qed simp

section \<open>Property\<close>

text \<open>
  C10: New clients are spread evenly over replicas. Let a new proxy have healthy backends that agree in region, country, weight and limits, and
  let different clients connect one after the other, from anywhere and fewer than \<open>2\<^sup>5\<^sup>0\<close> of them. Then the connections of two
  replicas never differ by more than one, no replica exceeds its hard limit, and together they hold a connection of every client, or, with a hard limit,
  of as many clients as the limits allow. In particular no rounding of a score ever hides a connection.
\<close>

theorem replicas_balanced:
  assumes "bs \<noteq> []" and "distinct (map bk_id bs)" and "\<forall>b \<in> set bs. replica_of (hd bs) b"
    and "distinct (map (fst \<circ> snd) clients)" and "length clients \<le> 2 ^ 50"
  shows "let s = fold admit clients (proxy_service_new \<lparr>sq_backends = bs, sq_version = v\<rparr> binding_repo_new geo metrics_store_new region);
             hard = unat (bk_hard_limit (hd bs))
         in (\<forall>b \<in> set bs. \<forall>c \<in> set bs. conns s b \<le> conns s c + 1)
            \<and> (\<forall>b \<in> set bs. hard \<noteq> 0 \<longrightarrow> conns s b \<le> hard)
            \<and> sum_list (map (conns s) bs) = (if hard = 0 then length clients else min (length clients) (hard * length bs))"
proof -
  let ?s = "proxy_service_new \<lparr>sq_backends = bs, sq_version = v\<rparr> binding_repo_new geo metrics_store_new region"
  have "conns ?s b = 0" for b by (simp add: conns_def proxy_service_new_def metrics.count_new)
  moreover have "dom (binding_repo_get (ps_binding_repo ?s)) = {}"
    by (auto simp: proxy_service_new_def bindings.get_new)
  ultimately have "spread (hd bs) bs [] ?s"
    by (auto simp: spread_def admitted_def proxy_service_new_def)
  from fold_admit_spread [OF assms(3,2,1) this, of clients] assms(4,5) show ?thesis
    by (simp add: spread_def admitted_def Let_def unat_eq_zero unat_gt_0)
qed

definition example_replicas :: "backend list" where
  "example_replicas = map (\<lambda>i. (example_backend i Europe ''DE'')\<lparr>bk_hard_limit := 2\<rparr>) [''eu-1'', ''eu-2'']"

theorem replicas_balanced_witness:
  "let s = fold admit [(1, IpV4 1, None), (2, IpV4 2, Some example_geo), (3, IpV4 3, None)]
             (proxy_service_new \<lparr>sq_backends = example_replicas, sq_version = 1\<rparr> binding_repo_new None metrics_store_new Europe)
   in sum_list (map (conns s) example_replicas) = 3 \<and> (\<forall>b \<in> set example_replicas. conns s b \<le> 2)"
  using replicas_balanced [of example_replicas "[(1, IpV4 1, None), (2, IpV4 2, Some example_geo), (3, IpV4 3, None)]" 1 None Europe]
  by (simp add: example_replicas_def example_backend_def replica_of_def Let_def)

end
