(* ===== verification/Cluster.thy ===== *)
theory Cluster
  imports Gossip
begin

text \<open>
  A cluster of gossip services (\<^verbatim>\<open>src/replication/gossip.rs\<close>) over a network that may lose, delay, duplicate and reorder
  datagrams: whatever a node has ever sent to an address may arrive at the node bound to it, any number of times or never. A datagram's source is the
  address its sender is bound to. Nodes start, tick and stop at any time.
\<close>

section \<open>The system\<close>

type_synonym cluster = "node_id \<rightharpoonup> gossip_service"

inductive cluster_step :: "gossip_codec \<Rightarrow> (bytes \<Rightarrow> gossip_message option) \<Rightarrow> cluster \<Rightarrow> cluster \<Rightarrow> bool"
  for ser de where
  starts: "c i = Some g \<Longrightarrow> gossip_start ser bind_error g = (r, g') \<Longrightarrow> cluster_step ser de c (c(i \<mapsto> g'))"
| receives: "c i = Some g \<Longrightarrow> \<not> gs_shutdown g \<Longrightarrow> c j = Some h \<Longrightarrow> (rc_gossip_addr (gs_config g), data) \<in> set (gs_sent h) \<Longrightarrow>
     cluster_step ser de c (c(i \<mapsto> gossip_step ser de now (Datagram data (rc_gossip_addr (gs_config h))) g))"
| pings: "c i = Some g \<Longrightarrow> \<not> gs_shutdown g \<Longrightarrow> cluster_step ser de c (c(i \<mapsto> gossip_step ser de now (PingTick rnd) g))"
| checks: "c i = Some g \<Longrightarrow> \<not> gs_shutdown g \<Longrightarrow> cluster_step ser de c (c(i \<mapsto> gossip_step ser de now FailureTick g))"
| stops: "c i = Some g \<Longrightarrow> cluster_step ser de c (c(i \<mapsto> gossip_shutdown g))"

definition cluster_start :: "(node_id \<rightharpoonup> replication_config) \<Rightarrow> cluster" where
  "cluster_start C = map_option gossip_service_new \<circ> C"

section \<open>What the nodes claim\<close>

fun claims :: "gossip_message \<Rightarrow> (node_id \<times> socket_addr \<times> socket_addr) set" where
  "claims (GPing n g t _) = {(n, g, t)}"
| "claims (GAck n g t _) = {(n, g, t)}"
| "claims (GJoin n g t) = {(n, g, t)}"
| "claims (GMemberList es) = (\<lambda>(n, g, t, _). (n, g, t)) ` set es"

fun is_list :: "gossip_message \<Rightarrow> bool" where
  "is_list (GMemberList _) = True"
| "is_list _ = False"

definition known :: "(node_id \<rightharpoonup> replication_config) \<Rightarrow> node_id \<times> socket_addr \<times> socket_addr \<Rightarrow> bool" where
  "known C e \<longleftrightarrow> (case e of (n, g, t) \<Rightarrow> \<exists>cfg. C n = Some cfg \<and> rc_gossip_addr cfg = g \<and> rc_transport_addr cfg = t)"

definition entries :: "(node_id \<times> socket_addr \<times> socket_addr \<Rightarrow> bool) \<Rightarrow> members \<Rightarrow> bool" where
  "entries P ms \<longleftrightarrow> members_ok ms
     \<and> (\<forall>k m. dm_get ms k = Some m \<longrightarrow> P (k, mb_gossip_addr m, mb_transport_addr m))"

lemma entries_insert: "entries P ms \<Longrightarrow> P (n, g, t) \<Longrightarrow> entries P (dm_insert n (alive_member now n g t inc) ms)"
  by (simp add: entries_def members_ok_insert member_ok_def)

lemma process_list_entries:
  "entries P ms \<Longrightarrow> (\<And>e. e \<in> claims (GMemberList es) \<Longrightarrow> fst e \<noteq> self \<Longrightarrow> P e) \<Longrightarrow> entries P (snd (process_list now self es r ms))"
proof (induction now self es r ms rule: process_list.induct)
  case (2 now self n g t inc es r ms)
  show ?case
  proof (cases "n = self")
    case True
    with 2 show ?thesis by simp
  next
    case False
    with 2(4) have "P (n, g, t)" by force
    with 2 False show ?thesis by (simp add: Let_def entries_insert)
  qed
qed simp

lemma process_message_entries:
  assumes "entries P ms" and "\<And>e. e \<in> claims m \<Longrightarrow> is_list m \<Longrightarrow> fst e \<noteq> self \<Longrightarrow> P e" and "\<And>e. e \<in> claims m \<Longrightarrow> \<not> is_list m \<Longrightarrow> P e"
  shows "entries P (snd (process_message now m src self sg st sinc ms))"
proof (cases m)
  case (GMemberList es)
  with assms process_list_entries [OF assms(1), of es self] show ?thesis by simp
qed (use assms in \<open>simp_all add: Let_def entries_insert\<close>)

text \<open>A node answers only the sender, with its own name or with its table.\<close>

lemma process_list_sends: "Send dest m' \<in> set (prs_actions (fst (process_list now self es r ms))) \<Longrightarrow> Send dest m' \<in> set (prs_actions r)"
  by (induction now self es r ms rule: process_list.induct) (auto simp: result_simps split: if_splits)

lemma process_message_sends:
  assumes "process_message now m src self sg st sinc ms = (r, ms')" and "Send dest m' \<in> set (prs_actions r)"
  shows "dest = src \<and> (m' = GAck self sg st sinc
    \<or> m' = GMemberList (map (\<lambda>m. (mb_node_id m, mb_gossip_addr m, mb_transport_addr m, mb_incarnation m)) (dm_values ms')))"
proof (cases m)
  case (GMemberList es)
  with assms process_list_sends [of dest m' now self es process_result_empty ms] show ?thesis
    by (simp add: process_result_empty_def)
qed (use assms in \<open>auto simp: result_simps split: if_splits\<close>)

lemma list_claims:
  assumes "entries P ms"
  shows "e \<in> claims (GMemberList (map (\<lambda>m. (mb_node_id m, mb_gossip_addr m, mb_transport_addr m, mb_incarnation m)) (dm_values ms)))
    \<Longrightarrow> P e"
  using assms by (auto simp: entries_def members_ok_def member_ok_def dm_values_iff)

lemma execute_actions_sent:
  "x \<in> set (gs_sent (execute_actions ser as g)) \<Longrightarrow>
     x \<in> set (gs_sent g) \<or> (\<exists>dest m data. x = (dest, data) \<and> Send dest m \<in> set as \<and> ser m = Some data)"
  unfolding execute_actions_def
proof (induction as arbitrary: g)
  case (Cons a as)
  from Cons.IH [of "execute_action ser a g"] Cons.prems show ?case
    by (cases a) (auto simp: send_to_def split: option.splits)
qed simp

section \<open>The invariant\<close>

definition sound_msg :: "(node_id \<rightharpoonup> replication_config) \<Rightarrow> node_id \<Rightarrow> gossip_message \<Rightarrow> bool" where
  "sound_msg C i m \<longleftrightarrow> (\<forall>e \<in> claims m. known C e \<and> (is_list m \<or> fst e = i))"

text \<open>Whether no node is told to join itself.\<close>

definition no_self_join :: "(node_id \<rightharpoonup> replication_config) \<Rightarrow> bool" where
  "no_self_join C \<longleftrightarrow>
     (\<forall>i cfg. C i = Some cfg \<longrightarrow> (\<forall>p \<in> set (rc_bootstrap_peers cfg). parse_socket_addr p \<noteq> Some (rc_gossip_addr cfg)))"

definition node_ok :: "gossip_codec \<Rightarrow> (node_id \<rightharpoonup> replication_config) \<Rightarrow> node_id \<Rightarrow> gossip_service \<Rightarrow> bool" where
  "node_ok ser C i g \<longleftrightarrow>
     C i = Some (gs_config g)
     \<and> entries (\<lambda>e. known C e \<and> (no_self_join C \<longrightarrow> fst e \<noteq> i)) (gs_members g)
     \<and> (\<forall>(dest, data) \<in> set (gs_sent g).
          (no_self_join C \<longrightarrow> dest \<noteq> rc_gossip_addr (gs_config g)) \<and> (\<exists>m. ser m = Some data \<and> sound_msg C i m))"

definition cluster_ok :: "gossip_codec \<Rightarrow> (node_id \<rightharpoonup> replication_config) \<Rightarrow> cluster \<Rightarrow> bool" where
  "cluster_ok ser C c \<longleftrightarrow> (\<forall>i g. c i = Some g \<longrightarrow> node_ok ser C i g)"

lemma node_ok_send:
  assumes "node_ok ser C i g" and "sound_msg C i m" and "no_self_join C \<Longrightarrow> dest \<noteq> rc_gossip_addr (gs_config g)"
  shows "node_ok ser C i (send_to ser dest m g)"
  using assms by (auto simp: node_ok_def send_to_def split: option.splits)

text \<open>The configurations name their nodes, and no two nodes share a gossip address.\<close>

definition addressed :: "(node_id \<rightharpoonup> replication_config) \<Rightarrow> bool" where
  "addressed C \<longleftrightarrow> (\<forall>i cfg. C i = Some cfg \<longrightarrow> rc_node_id cfg = i)
     \<and> (\<forall>i j a b. C i = Some a \<longrightarrow> C j = Some b \<longrightarrow> rc_gossip_addr a = rc_gossip_addr b \<longrightarrow> i = j)"

lemma own_claim:
  assumes "addressed C" and "node_ok ser C i g"
  shows "known C (rc_node_id (gs_config g), rc_gossip_addr (gs_config g), rc_transport_addr (gs_config g))" and "rc_node_id (gs_config g) = i"
  using assms by (auto simp: addressed_def node_ok_def known_def)

lemma joins_ok:
  assumes "addressed C"
  shows "node_ok ser C i g \<Longrightarrow> \<forall>p \<in> set ps. no_self_join C \<longrightarrow> parse_socket_addr p \<noteq> Some (rc_gossip_addr (gs_config g)) \<Longrightarrow>
    node_ok ser C i (send_joins ser ps g)"
proof (induction ser ps g rule: send_joins.induct)
  case (2 ser p ps g)
  have "node_ok ser C i (case parse_socket_addr p of
      Some addr \<Rightarrow> send_to ser addr (GJoin (rc_node_id (gs_config g)) (rc_gossip_addr (gs_config g)) (rc_transport_addr (gs_config g))) g
    | None \<Rightarrow> g)"
    using 2 own_claim [OF assms 2(2)] by (auto simp: sound_msg_def intro!: node_ok_send split: option.split)
  moreover have "gs_config (case parse_socket_addr p of
      Some addr \<Rightarrow> send_to ser addr (GJoin (rc_node_id (gs_config g)) (rc_gossip_addr (gs_config g)) (rc_transport_addr (gs_config g))) g
    | None \<Rightarrow> g) = gs_config g" by (simp split: option.split)
  ultimately show ?case using 2(1) 2(3) by simp
qed simp

text \<open>What the codec (\<^verbatim>\<open>bincode\<close>) promises.\<close>

definition decodes :: "gossip_codec \<Rightarrow> (bytes \<Rightarrow> gossip_message option) \<Rightarrow> bool" where
  "decodes ser de \<longleftrightarrow> (\<forall>m data. ser m = Some data \<longrightarrow> de data = Some m)"

lemma handle_message_ok:
  assumes "addressed C" and "node_ok ser C i g" and "sound_msg C j m"
    and "no_self_join C \<Longrightarrow> i \<noteq> j \<and> src \<noteq> rc_gossip_addr (gs_config g)"
  shows "node_ok ser C i (handle_message ser now m src g)"
proof -
  let ?cfg = "gs_config g" and ?P = "\<lambda>e. known C e \<and> (no_self_join C \<longrightarrow> fst e \<noteq> i)"
  note own = own_claim [OF assms(1,2)]
  obtain r ms where p: "process_message now m src (rc_node_id ?cfg) (rc_gossip_addr ?cfg) (rc_transport_addr ?cfg) 0 (gs_members g) = (r, ms)"
    by (meson surj_pair)
  have "entries ?P (snd (process_message now m src (rc_node_id ?cfg) (rc_gossip_addr ?cfg) (rc_transport_addr ?cfg) 0 (gs_members g)))"
    using assms(2-4) own(2) by (intro process_message_entries) (auto simp: node_ok_def sound_msg_def)
  then have ent: "entries ?P ms" by (simp add: p)
  have "sound_msg C i m'" if "Send dest m' \<in> set (prs_actions r)" for dest m'
    using process_message_sends [OF p that] own list_claims [OF ent] by (auto simp: sound_msg_def)
  moreover have "dest = src" if "Send dest m' \<in> set (prs_actions r)" for dest m'
    using process_message_sends [OF p that] by simp
  ultimately show ?thesis
    using assms(2,4) ent unfolding node_ok_def handle_message_def Let_def p
    by (fastforce dest!: execute_actions_sent)
qed

lemma gossip_step_ok:
  assumes "addressed C" and "node_ok ser C i g" and "decodes ser de"
    and "\<And>data src. inp = Datagram data src \<Longrightarrow>
      \<exists>j h. node_ok ser C j h \<and> src = rc_gossip_addr (gs_config h) \<and> (rc_gossip_addr (gs_config g), data) \<in> set (gs_sent h)"
  shows "node_ok ser C i (gossip_step ser de now inp g)"
proof (cases inp)
  case (Datagram data src)
  with assms(4) obtain j h where h: "node_ok ser C j h" "src = rc_gossip_addr (gs_config h)"
    "(rc_gossip_addr (gs_config g), data) \<in> set (gs_sent h)" by blast
  then obtain m where m: "ser m = Some data" "sound_msg C j m"
    and away: "no_self_join C \<Longrightarrow> rc_gossip_addr (gs_config g) \<noteq> rc_gossip_addr (gs_config h)" by (auto simp: node_ok_def)
  have "no_self_join C \<Longrightarrow> i \<noteq> j \<and> src \<noteq> rc_gossip_addr (gs_config g)"
    using away h(1,2) assms(2) by (auto simp: node_ok_def)
  from handle_message_ok [OF assms(1,2) m(2) this] assms(3) m(1) Datagram show ?thesis
    by (simp add: gossip_receive_def decodes_def)
next
  case (PingTick rnd)
  let ?addrs = "ping_candidates (gs_members g)"
  have "?addrs ! (unat rnd mod length ?addrs) \<in> set ?addrs" if "?addrs \<noteq> []"
    using that by (intro nth_mem) simp
  then have "\<exists>k m. dm_get (gs_members g) k = Some m \<and> mb_gossip_addr m = ?addrs ! (unat rnd mod length ?addrs)" if "?addrs \<noteq> []"
    using that assms(2) by (force simp: ping_candidates_def node_ok_def entries_def members_ok_def dm_values_iff)
  then have "no_self_join C \<Longrightarrow> ?addrs \<noteq> [] \<Longrightarrow> ?addrs ! (unat rnd mod length ?addrs) \<noteq> rc_gossip_addr (gs_config g)"
    using assms(1,2) by (fastforce simp: node_ok_def entries_def known_def addressed_def)
  with PingTick assms(2) own_claim [OF assms(1,2)] show ?thesis
    by (auto simp: gossip_ping_tick_def Let_def sound_msg_def intro!: node_ok_send)
next
  case FailureTick
  let ?P = "\<lambda>e. known C e \<and> (no_self_join C \<longrightarrow> fst e \<noteq> i)"
  have "entries ?P (snd (mark_dead now (from_secs 30) (gs_members g)))"
    using assms(2) by (auto simp: node_ok_def entries_def members_ok_def member_ok_def mark_dead_spec)
  with FailureTick assms(2) show ?thesis
    by (simp add: gossip_failure_tick_def case_prod_unfold Let_def node_ok_def)
qed

lemma cluster_step_ok:
  assumes "cluster_step ser de c d" and "cluster_ok ser C c" and "addressed C" and "decodes ser de"
  shows "cluster_ok ser C d"
  using assms(1)
proof cases
  case (starts i g bind_error r g')
  then have g: "node_ok ser C i g" using assms(2) by (auto simp: cluster_ok_def)
  then have "\<forall>p \<in> set (rc_bootstrap_peers (gs_config g)). no_self_join C \<longrightarrow> parse_socket_addr p \<noteq> Some (rc_gossip_addr (gs_config g))"
    by (auto simp: node_ok_def no_self_join_def)
  from joins_ok [OF assms(3) g this] g starts assms(2) show ?thesis
    by (auto simp: cluster_ok_def gossip_start_def split: option.splits)
next
  case (receives i g j h data now)
  then have ok: "node_ok ser C i g" "node_ok ser C j h" using assms(2) by (auto simp: cluster_ok_def)
  have "node_ok ser C i (gossip_step ser de now (Datagram data (rc_gossip_addr (gs_config h))) g)"
    using gossip_step_ok [OF assms(3) ok(1) assms(4)] ok(2) receives by blast
  with receives(1) assms(2) show ?thesis by (simp add: cluster_ok_def)
next
  case (pings i g now rnd)
  then have "node_ok ser C i (gossip_step ser de now (PingTick rnd) g)"
    using assms(2) by (intro gossip_step_ok [OF assms(3) _ assms(4)]) (auto simp: cluster_ok_def)
  with pings(1) assms(2) show ?thesis by (simp add: cluster_ok_def)
next
  case (checks i g now)
  then have "node_ok ser C i (gossip_step ser de now FailureTick g)"
    using assms(2) by (intro gossip_step_ok [OF assms(3) _ assms(4)]) (auto simp: cluster_ok_def)
  with checks(1) assms(2) show ?thesis by (simp add: cluster_ok_def)
next
  case (stops i g)
  with assms(2) show ?thesis by (auto simp: cluster_ok_def node_ok_def gossip_shutdown_def)
qed

lemma cluster_reach_ok:
  assumes "(cluster_step ser de)\<^sup>*\<^sup>* (cluster_start C) c" and "addressed C" and "decodes ser de"
  shows "cluster_ok ser C c"
  using assms(1)
proof (induction rule: rtranclp_induct)
  case base
  show ?case
    by (auto simp: cluster_ok_def cluster_start_def node_ok_def entries_def members_ok_def gossip_service_new_def)
qed (use assms cluster_step_ok in blast)

section \<open>Property\<close>

text \<open>
  C26: The membership of a cluster is sound. Let nodes with different gossip addresses start, exchange messages, fail and stop in any
  order over a network that loses, duplicates and reorders datagrams. Then at all times every member in the table of a node
  is a node of the cluster, recorded under its own name with the gossip and the transport address that it was configured with; and if no
  node is told to join itself, no node ever takes itself for a member or sends itself a message.
\<close>

theorem membership_sound:
  assumes "addressed C" and "decodes ser de"
    and "(cluster_step ser de)\<^sup>*\<^sup>* (cluster_start C) c" and "c i = Some g"
  shows "(\<forall>k m. get_member g k = Some m \<longrightarrow>
            mb_node_id m = k
            \<and> (\<exists>cfg. C k = Some cfg \<and> mb_gossip_addr m = rc_gossip_addr cfg \<and> mb_transport_addr m = rc_transport_addr cfg))
    \<and> (no_self_join C \<longrightarrow> get_member g i = None \<and> (\<forall>(dest, data) \<in> set (gs_sent g). dest \<noteq> rc_gossip_addr (gs_config g)))"
proof -
  let ?P = "\<lambda>e. known C e \<and> (no_self_join C \<longrightarrow> fst e \<noteq> i)"
  from cluster_reach_ok [OF assms(3,1,2)] assms(4) have ok: "node_ok ser C i g" by (simp add: cluster_ok_def)
  have entry: "mb_node_id m = k \<and> known C (k, mb_gossip_addr m, mb_transport_addr m) \<and> (no_self_join C \<longrightarrow> k \<noteq> i)"
    if "get_member g k = Some m" for k m
    using that ok by (auto simp: node_ok_def entries_def members_ok_def member_ok_def get_member_def)
  then have "no_self_join C \<Longrightarrow> get_member g i = None" by (cases "get_member g i") auto
  moreover have "\<forall>(dest, data) \<in> set (gs_sent g). dest \<noteq> rc_gossip_addr (gs_config g)" if "no_self_join C"
    using that ok by (auto simp: node_ok_def)
  ultimately show ?thesis using entry by (simp add: known_def) metis
qed

definition example_config :: "string \<Rightarrow> u16 \<Rightarrow> string list \<Rightarrow> replication_config" where
  "example_config n p peers =
     (replication_config_new n)\<lparr>rc_gossip_addr := example_addr p, rc_transport_addr := example_addr (p + 1), rc_bootstrap_peers := peers\<rparr>"

definition example_cluster :: "node_id \<rightharpoonup> replication_config" where
  "example_cluster = [''n1'' \<mapsto> example_config ''n1'' 1 [], ''n2'' \<mapsto> example_config ''n2'' 3 [''0.0.0.1:1'']]"

definition example_join :: gossip_message where
  "example_join = GJoin ''n2'' (example_addr 3) (example_addr 4)"

definition example_ser :: gossip_codec where
  "example_ser m = (if m = example_join then Some [1] else None)"

definition example_de :: "bytes \<Rightarrow> gossip_message option" where
  "example_de data = (if data = [1] then Some example_join else None)"

lemma example_peer: "parse_socket_addr ''0.0.0.1:1'' = Some (example_addr 1)"
  by code_simp

theorem membership_sound_witness:
  "\<exists>c g m. (cluster_step example_ser example_de)\<^sup>*\<^sup>* (cluster_start example_cluster) c \<and> c ''n1'' = Some g
     \<and> get_member g ''n2'' = Some m \<and> mb_transport_addr m = example_addr 4 \<and> get_member g ''n1'' = None"
proof -
  let ?g1 = "gossip_service_new (example_config ''n1'' 1 [])" and ?g2 = "gossip_service_new (example_config ''n2'' 3 [''0.0.0.1:1''])"
  let ?h2 = "?g2\<lparr>gs_sent := [(example_addr 1, [1])]\<rparr>"
  let ?h1 = "gossip_step example_ser example_de 5 (Datagram [1] (example_addr 3)) ?g1"
  let ?c0 = "cluster_start example_cluster"
  have "gossip_start example_ser (\<lambda>_. None) ?g2 = (Inr (), ?h2)"
    by (simp add: gossip_start_def gossip_service_new_def example_config_def example_peer send_to_def example_ser_def example_join_def
        replication_config_new_def)
  then have "cluster_step example_ser example_de ?c0 (?c0(''n2'' \<mapsto> ?h2))"
    by (intro cluster_step.starts) (simp add: cluster_start_def example_cluster_def)
  moreover have "cluster_step example_ser example_de (?c0(''n2'' \<mapsto> ?h2)) (?c0(''n2'' \<mapsto> ?h2, ''n1'' \<mapsto> ?h1))"
    using cluster_step.receives [of "?c0(''n2'' \<mapsto> ?h2)" "''n1''" ?g1 "''n2''" ?h2 "[1]" example_ser example_de 5]
    by (simp add: cluster_start_def example_cluster_def gossip_service_new_def example_config_def)
  ultimately have reach: "(cluster_step example_ser example_de)\<^sup>*\<^sup>* ?c0 (?c0(''n2'' \<mapsto> ?h2, ''n1'' \<mapsto> ?h1))"
    by (blast intro: rtranclp.rtrancl_into_rtrancl)
  have C: "addressed example_cluster" "no_self_join example_cluster"
    by (auto simp: addressed_def no_self_join_def example_cluster_def example_config_def replication_config_new_def example_addr_def example_peer
        split: if_splits)
  have "decodes example_ser example_de" by (auto simp: decodes_def example_ser_def example_de_def split: if_splits)
  note sound = membership_sound [OF C(1) this reach, of "''n1''" ?h1]
  have "\<exists>m. get_member ?h1 ''n2'' = Some m"
    by (simp add: get_member_def gossip_receive_def example_de_def example_join_def handle_message_def Let_def gossip_service_new_def)
  then obtain m where m: "get_member ?h1 ''n2'' = Some m" by blast
  with sound C(2) have "mb_transport_addr m = example_addr 4 \<and> get_member ?h1 ''n1'' = None"
    by (force simp: example_cluster_def example_config_def)
  with reach m show ?thesis by (intro exI [of _ "?c0(''n2'' \<mapsto> ?h2, ''n1'' \<mapsto> ?h1)"] exI [of _ ?h1] exI [of _ m]) simp
qed

text \<open>
  The answer to a join lists the members of the answering node, which is not one of them: the node that joins
  does not learn from it whom it has joined, and knows that node only once it pings.
\<close>

lemma join_reply_omits_sender:
  assumes "process_message now (GJoin n g t) src self sg st sinc ms = (r, ms')" and "members_ok ms"
    and "dm_get ms self = None" and "n \<noteq> self" and "Send dest (GMemberList es) \<in> set (prs_actions r)"
  shows "self \<notin> fst ` set es"
proof -
  from process_message_sends [OF assms(1,5)] process_message_members [OF assms(1)] assms(2-4)
  have es: "es = map (\<lambda>m. (mb_node_id m, mb_gossip_addr m, mb_transport_addr m, mb_incarnation m)) (dm_values ms')"
    and ok: "members_ok ms'" and "dm_get ms' self = None" by (auto split: if_splits)
  then show ?thesis by (auto simp: members_ok_def member_ok_def dm_values_iff)
qed

text \<open>
  The address that a node advertises is the one it binds. With the default configuration this is the unspecified address, so that the
  pings for every such member go to the address \<^verbatim>\<open>0.0.0.0:4001\<close>.
\<close>

lemma default_address_advertised:
  assumes "gs_config g = replication_config_new n" and "gs_members g = dm_empty" and "ser (GJoin n (socket_v4 0 4001) (socket_v4 0 4002)) = Some data"
    and "de data = Some (GJoin n (socket_v4 0 4001) (socket_v4 0 4002))" and "gs_members h = dm_empty"
  shows "gs_sent (send_joins ser [''10.0.0.2:4001''] g) = gs_sent g @ [(socket_v4 0x0A000002 4001, data)]
    \<and> ping_candidates (gs_members (gossip_receive ser' de now data src h)) = [socket_v4 0 4001]"
proof -
  have "parse_socket_addr ''10.0.0.2:4001'' = Some (socket_v4 0x0A000002 4001)" by code_simp
  with assms show ?thesis
    by (simp add: send_to_def replication_config_new_def replication_config_default_def gossip_receive_def handle_message_def Let_def
        ping_candidates_def dm_values_def dm_empty_def dm_insert_def)
qed

end
