(* ===== verification/Breaker_Race.thy ===== *)
theory Breaker_Race
  imports Circuit_Breaker Interleaving "HOL-Library.Code_Target_Nat"
begin

text \<open>
  The circuit breaker under concurrent calls (\<^verbatim>\<open>src/infrastructure/circuit_breaker.rs\<close>). A call that has looked up a circuit holds a shared guard of its
  map entry and works on the atomic cells one by one, so that calls on one backend interleave between any two loads and stores. The model is the entry of
  one backend: the cells, the number of guards held (the lock of the map shard, which an insertion and \<^verbatim>\<open>clear_all\<close> need free), and an
  auxiliary log of the writes to the failure counter. Cell operations take effect in program order, one after the other. The circuits of other backends
  are left out; those in the same map shard share its lock, so that their calls can make an insertion or \<^verbatim>\<open>clear_all\<close> wait longer, and nothing else.
\<close>

section \<open>Model\<close>

datatype cb_op = AllowOp | SuccessOp | FailureOp

record breaker_mem =
  bm_circuit :: "backend_circuit option"
  bm_guards :: nat
  bm_log :: "bool list"

definition breaker_mem_new :: breaker_mem where
  "breaker_mem_new = \<lparr>bm_circuit = None, bm_guards = 0, bm_log = []\<rparr>"

text \<open>The stores that a branch does without looking at a cell again, in their order.\<close>

datatype cell_store =
    StState circuit_state | StFailures u32 | StSuccesses u32 | StOpenedAt u64 | StLastFailure u64

fun apply_store :: "cell_store \<Rightarrow> backend_circuit \<Rightarrow> backend_circuit" where
  "apply_store (StState st) c = bc_set_state st c"
| "apply_store (StFailures n) c = c\<lparr>bc_failures := n\<rparr>"
| "apply_store (StSuccesses n) c = c\<lparr>bc_successes := n\<rparr>"
| "apply_store (StOpenedAt t) c = c\<lparr>bc_opened_at_ms := t\<rparr>"
| "apply_store (StLastFailure t) c = c\<lparr>bc_last_failure_ms := t\<rparr>"

text \<open>The log records for each write to the failure counter, latest first, whether it counts a failure or sets the counter to zero.\<close>

fun log_store :: "cell_store \<Rightarrow> bool list \<Rightarrow> bool list" where
  "log_store (StFailures n) l = (n \<noteq> 0) # l"
| "log_store _ l = l"

text \<open>
  The places of a call: in \<^verbatim>\<open>get_or_create\<close> (three accesses to the map), at a load or a read-modify-write of a cell on which a branch depends, with stores left to
  do, returned, or panicked at the \<^verbatim>\<open>unwrap\<close> of a lookup. \<open>ResetGet\<close> and \<open>ClearAll\<close> start \<^verbatim>\<open>reset\<close> and \<^verbatim>\<open>clear_all\<close>.
\<close>

datatype breaker_pc =
    ContainsKey cb_op | InsertNew cb_op | GetRef cb_op | LoadState cb_op
  | LoadOpenedAt | AddSuccess | LoadLastFailure u64 | AddFailure u64
  | Stores "cell_store list" bool | ResetGet | ClearAll | Returned bool | Panicked

text \<open>What follows the load of the state; a failure reads the clock right after it.\<close>

fun after_state :: "cb_op \<Rightarrow> u64 \<Rightarrow> circuit_state \<Rightarrow> breaker_pc" where
  "after_state AllowOp now Closed = Stores [] True"
| "after_state AllowOp now Open = LoadOpenedAt"
| "after_state AllowOp now HalfOpen = Stores [] True"
| "after_state SuccessOp now HalfOpen = AddSuccess"
| "after_state SuccessOp now Closed = Stores [StFailures 0] True"
| "after_state SuccessOp now Open = Stores [] True"
| "after_state FailureOp now Closed = LoadLastFailure now"
| "after_state FailureOp now HalfOpen = Stores [StState Open, StOpenedAt now, StSuccesses 0] True"
| "after_state FailureOp now Open = Stores [StOpenedAt now] True"

text \<open>An access to the cells of a circuit whose guard is held.\<close>

fun on_circuit :: "cb_config \<Rightarrow> u64 \<Rightarrow> breaker_pc \<Rightarrow> backend_circuit \<Rightarrow> bool list \<Rightarrow> (backend_circuit \<times> bool list) \<times> breaker_pc" where
  "on_circuit cfg now (LoadState op) c l = ((c, l), after_state op now (bc_get_state c))"
| "on_circuit cfg now LoadOpenedAt c l =
     ((c, l), if as_millis_u64 (cb_reset_timeout cfg) \<le> saturating_sub now (bc_opened_at_ms c)
              then Stores [StState HalfOpen, StSuccesses 0] True else Stores [] False)"
| "on_circuit cfg now AddSuccess c l =
     (let n = bc_successes c + 1
      in ((c\<lparr>bc_successes := n\<rparr>, l),
          Stores (if cb_success_threshold cfg \<le> n then [StState Closed, StFailures 0, StSuccesses 0] else []) True))"
| "on_circuit cfg now (LoadLastFailure t) c l =
     ((c, l), if as_millis_u64 (cb_failure_window cfg) < saturating_sub t (bc_last_failure_ms c)
              then Stores [StFailures 1, StLastFailure t] True else AddFailure t)"
| "on_circuit cfg now (AddFailure t) c l =
     (let n = bc_failures c + 1
      in ((c\<lparr>bc_failures := n\<rparr>, True # l),
          Stores (if cb_failure_threshold cfg \<le> n then [StState Open, StOpenedAt t, StLastFailure t] else [StLastFailure t]) True))"
| "on_circuit cfg now (Stores (x # xs) r) c l = ((apply_store x c, log_store x l), Stores xs r)"
| "on_circuit cfg now pc c l = ((c, l), pc)"

text \<open>One atomic operation of a call at clock reading \<open>now\<close>; \<open>None\<close> when it waits for the lock or has ended.\<close>

fun pc_step :: "cb_config \<Rightarrow> u64 \<Rightarrow> breaker_pc \<Rightarrow> breaker_mem \<Rightarrow> (breaker_mem \<times> breaker_pc) option" where
  "pc_step cfg now (ContainsKey op) m = Some (m, if bm_circuit m = None then InsertNew op else GetRef op)"
| "pc_step cfg now (InsertNew op) m =
     (if bm_guards m = 0 then Some (m\<lparr>bm_circuit := Some backend_circuit_new, bm_log := False # bm_log m\<rparr>, GetRef op) else None)"
| "pc_step cfg now (GetRef op) m =
     Some (case bm_circuit m of
             None \<Rightarrow> (m, Panicked)
           | Some _ \<Rightarrow> (m\<lparr>bm_guards := Suc (bm_guards m)\<rparr>, LoadState op))"
| "pc_step cfg now ResetGet m =
     Some (case bm_circuit m of
             None \<Rightarrow> (m, Returned True)
           | Some _ \<Rightarrow> (m\<lparr>bm_guards := Suc (bm_guards m)\<rparr>, Stores [StState Closed, StFailures 0, StSuccesses 0] True))"
| "pc_step cfg now ClearAll m = (if bm_guards m = 0 then Some (m\<lparr>bm_circuit := None, bm_log := False # bm_log m\<rparr>, Returned True) else None)"
| "pc_step cfg now (Stores [] r) m = Some (m\<lparr>bm_guards := bm_guards m - 1\<rparr>, Returned r)"
| "pc_step cfg now (Returned r) m = None"
| "pc_step cfg now Panicked m = None"
| "pc_step cfg now pc m =
     (case bm_circuit m of
        None \<Rightarrow> None
      | Some c \<Rightarrow> (case on_circuit cfg now pc c (bm_log m) of
                    ((c', l'), pc') \<Rightarrow> Some (m\<lparr>bm_circuit := Some c', bm_log := l'\<rparr>, pc')))"

fun starting :: "breaker_pc \<Rightarrow> bool" where
  "starting (ContainsKey op) = True"
| "starting ResetGet = True"
| "starting ClearAll = True"
| "starting _ = False"

definition breaker_tstep :: "cb_config \<Rightarrow> breaker_mem \<Rightarrow> breaker_pc \<Rightarrow> breaker_mem \<Rightarrow> breaker_pc \<Rightarrow> bool" where
  "breaker_tstep cfg m pc m' pc' \<longleftrightarrow> (\<exists>now. pc_step cfg now pc m = Some (m', pc'))"

abbreviation breaker_par :: "cb_config \<Rightarrow> breaker_mem \<times> breaker_pc list \<Rightarrow> breaker_mem \<times> breaker_pc list \<Rightarrow> bool" where
  "breaker_par cfg \<equiv> par_step (breaker_tstep cfg) (\<lambda>_. starting) (\<lambda>_ _. False)"

text \<open>A schedule: which call moves next and what its clock shows.\<close>

fun breaker_sched :: "cb_config \<Rightarrow> (nat \<times> u64) list \<Rightarrow> breaker_mem \<times> breaker_pc list \<Rightarrow> (breaker_mem \<times> breaker_pc list) option" where
  "breaker_sched cfg [] s = Some s"
| "breaker_sched cfg ((n, now) # xs) (m, ls) =
     (if n < length ls
      then (case pc_step cfg now (ls ! n) m of
              Some (m', pc') \<Rightarrow> breaker_sched cfg xs (m', ls[n := pc'])
            | None \<Rightarrow> None)
      else None)"

text \<open>A call that is not interrupted.\<close>

fun run_alone :: "nat \<Rightarrow> cb_config \<Rightarrow> u64 \<Rightarrow> breaker_pc \<Rightarrow> breaker_mem \<Rightarrow> breaker_mem \<times> breaker_pc" where
  "run_alone 0 cfg now pc m = (m, pc)"
| "run_alone (Suc n) cfg now pc m =
     (case pc_step cfg now pc m of Some (m', pc') \<Rightarrow> run_alone n cfg now pc' m' | None \<Rightarrow> (m, pc))"

section \<open>A call that is not interrupted is one step of the sequential breaker\<close>

fun start_of :: "cb_call \<Rightarrow> breaker_pc" where
  "start_of (Allow now) = ContainsKey AllowOp"
| "start_of Success = ContainsKey SuccessOp"
| "start_of (Failure now) = ContainsKey FailureOp"
| "start_of Reset = ResetGet"

fun clock_of :: "cb_call \<Rightarrow> u64" where
  "clock_of (Allow now) = now"
| "clock_of (Failure now) = now"
| "clock_of _ = 0"

definition mem_view :: "breaker_mem \<Rightarrow> backend_circuit" where
  "mem_view m = (case bm_circuit m of Some c \<Rightarrow> c | None \<Rightarrow> backend_circuit_new)"

lemma run_stores:
  assumes "bm_circuit m = Some c" "length xs < n"
  shows "run_alone n cfg now (Stores xs r) m =
    (m\<lparr>bm_circuit := Some (fold apply_store xs c), bm_guards := bm_guards m - 1, bm_log := fold log_store xs (bm_log m)\<rparr>, Returned r)"
  using assms
proof (induction xs arbitrary: m c n)
  case Nil
  then obtain k where "n = Suc k" by (cases n) auto
  then show ?case using Nil by (cases k) (simp_all)
next
  case (Cons x xs)
  then obtain k where "n = Suc k" by (cases n) auto
  with Cons show ?case by simp
qed

lemma run_circuit_step:
  assumes "bm_circuit m = Some c" "pc_step cfg now pc m = (case on_circuit cfg now pc c (bm_log m) of
      ((c', l'), pc') \<Rightarrow> Some (m\<lparr>bm_circuit := Some c', bm_log := l'\<rparr>, pc'))"
  shows "run_alone (Suc n) cfg now pc m =
    (let ((c', l'), pc') = on_circuit cfg now pc c (bm_log m) in run_alone n cfg now pc' (m\<lparr>bm_circuit := Some c', bm_log := l'\<rparr>))"
  using assms by (simp split: prod.split)

definition returns :: "backend_circuit \<Rightarrow> nat \<Rightarrow> bool \<Rightarrow> breaker_mem \<times> breaker_pc \<Rightarrow> bool" where
  "returns c g r s \<longleftrightarrow> bm_circuit (fst s) = Some c \<and> bm_guards (fst s) = g \<and> snd s = Returned r"

lemma run_body:
  assumes "bm_circuit m = Some c" "7 \<le> n"
  shows "returns (snd (circuit_allow cfg now c)) (bm_guards m - 1) (fst (circuit_allow cfg now c)) (run_alone n cfg now (LoadState AllowOp) m)"
    and "returns (circuit_success cfg c) (bm_guards m - 1) True (run_alone n cfg now (LoadState SuccessOp) m)"
    and "returns (circuit_failure cfg now c) (bm_guards m - 1) True (run_alone n cfg now (LoadState FailureOp) m)"
proof -
  obtain k where n: "n = Suc (Suc (Suc k))" and k: "4 \<le> k"
    using assms(2) that [of "n - 3"] by (simp add: numeral_3_eq_3 Suc_diff_Suc)
  note eval = run_stores run_circuit_step Let_def circuit_defs returns_def
  show "returns (snd (circuit_allow cfg now c)) (bm_guards m - 1) (fst (circuit_allow cfg now c)) (run_alone n cfg now (LoadState AllowOp) m)"
    unfolding n using assms(1) k by (cases "bc_get_state c") (simp_all add: eval del: run_alone.simps)
  show "returns (circuit_success cfg c) (bm_guards m - 1) True (run_alone n cfg now (LoadState SuccessOp) m)"
    unfolding n using assms(1) k by (cases "bc_get_state c") (simp_all add: eval del: run_alone.simps)
  show "returns (circuit_failure cfg now c) (bm_guards m - 1) True (run_alone n cfg now (LoadState FailureOp) m)"
    unfolding n using assms(1) k by (cases "bc_get_state c") (simp_all add: eval del: run_alone.simps)
qed

lemma run_entry:
  assumes "bm_guards m = 0"
  obtains n m' where "7 \<le> n" "run_alone 10 cfg now (ContainsKey op) m = run_alone n cfg now (LoadState op) m'"
    "bm_circuit m' = Some (mem_view m)" "bm_guards m' = 1"
proof (cases "bm_circuit m")
  case None
  have "run_alone 10 cfg now (ContainsKey op) m = run_alone 7 cfg now (LoadState op)
     (m\<lparr>bm_circuit := Some backend_circuit_new, bm_guards := 1, bm_log := False # bm_log m\<rparr>)"
    using None assms by (simp add: numeral_Bit0 numeral_Bit1)
  from that [OF _ this] None show ?thesis by (simp add: mem_view_def)
next
  case (Some c)
  have "run_alone 10 cfg now (ContainsKey op) m = run_alone 8 cfg now (LoadState op) (m\<lparr>bm_guards := 1\<rparr>)"
    using Some assms by (simp add: numeral_Bit0 numeral_Bit1)
  from that [OF _ this] Some show ?thesis by (simp add: mem_view_def)
qed

text \<open>
  A call that no other call interrupts does what the sequential model of the breaker says, returns its answer and leaves no guard behind.
\<close>

lemma uninterrupted_call:
  assumes "bm_guards m = 0" and "run_alone 10 cfg (clock_of x) (start_of x) m = (m', pc)"
  shows "mem_view m' = circuit_step cfg x (mem_view m) \<and> bm_guards m' = 0
    \<and> pc = Returned (case x of Allow now \<Rightarrow> fst (circuit_allow cfg now (mem_view m)) | _ \<Rightarrow> True)"
proof (cases "x = Reset")
  case True
  have "run_alone 10 cfg 0 ResetGet m = (m, Returned True)" if "bm_circuit m = None"
    using that by (simp add: numeral_Bit0 numeral_Bit1)
  moreover have "run_alone 10 cfg 0 ResetGet m
      = run_alone 9 cfg 0 (Stores [StState Closed, StFailures 0, StSuccesses 0] True) (m\<lparr>bm_guards := 1\<rparr>)" if "bm_circuit m = Some c" for c
    using that assms(1) by (simp add: numeral_Bit0 numeral_Bit1)
  ultimately show ?thesis
    using True assms
    by (cases "bm_circuit m") (auto simp: run_stores mem_view_def circuit_reset_def backend_circuit_new_def bc_set_state_def)
next
  case False
  then obtain op where op: "start_of x = ContainsKey op" by (cases x) auto
  obtain n k where n: "7 \<le> n" and r: "run_alone n cfg (clock_of x) (LoadState op) k = (m', pc)"
    and k: "bm_circuit k = Some (mem_view m)" "bm_guards k = 1"
    using assms(2) unfolding op by (metis run_entry [OF assms(1), of cfg "clock_of x" op])
  show ?thesis
    using run_body [OF k(1) n, of cfg "clock_of x"] False op r k(2)
    by (cases x) (auto simp: returns_def mem_view_def [of m'])
qed

section \<open>Evidence of failures\<close>

text \<open>The length of the present run of counted failures, and that there has been a run as long as the threshold.\<close>

definition failure_run :: "bool list \<Rightarrow> nat" where
  "failure_run l = length (takeWhile (\<lambda>b. b) l)"

definition evidence :: "cb_config \<Rightarrow> bool list \<Rightarrow> bool" where
  "evidence cfg l \<longleftrightarrow> (\<exists>xs n ys. l = xs @ replicate n True @ ys \<and> unat (cb_failure_threshold cfg) \<le> n)"

lemma evidence_Cons: "evidence cfg l \<Longrightarrow> evidence cfg (b # l)"
  unfolding evidence_def by (metis append_Cons)

lemma failure_run_simps [simp]:
  "failure_run [] = 0" "failure_run (True # l) = Suc (failure_run l)" "failure_run (False # l) = 0"
  by (simp_all add: failure_run_def)

lemma failure_run_split: "l = replicate (failure_run l) True @ dropWhile (\<lambda>b. b) l"
proof (induction l)
  case (Cons b l)
  then show ?case by (cases b) simp_all
qed simp

lemma failure_run_evidence: "unat (cb_failure_threshold cfg) \<le> failure_run l \<Longrightarrow> evidence cfg l"
  unfolding evidence_def using failure_run_split [of l] by (metis append_Nil)

fun store_ok :: "cb_config \<Rightarrow> bool list \<Rightarrow> cell_store \<Rightarrow> bool" where
  "store_ok cfg l (StState st) = (st = Closed \<or> evidence cfg l)"
| "store_ok cfg l (StFailures n) = (n = 0 \<or> n = 1)"
| "store_ok cfg l _ = True"

definition mem_inv :: "cb_config \<Rightarrow> breaker_mem \<Rightarrow> bool" where
  "mem_inv cfg m \<longleftrightarrow> (\<forall>c. bm_circuit m = Some c \<longrightarrow>
     unat (bc_failures c) \<le> failure_run (bm_log m) \<and> (bc_get_state c = Closed \<or> evidence cfg (bm_log m)))"

fun pc_ok :: "cb_config \<Rightarrow> bool list \<Rightarrow> breaker_pc \<Rightarrow> bool" where
  "pc_ok cfg l LoadOpenedAt = evidence cfg l"
| "pc_ok cfg l (Stores xs r) = (list_all (store_ok cfg l) xs \<and> (r \<or> evidence cfg l))"
| "pc_ok cfg l (Returned r) = (r \<or> evidence cfg l)"
| "pc_ok cfg l _ = True"

lemma store_ok_Cons: "store_ok cfg l x \<Longrightarrow> store_ok cfg (b # l) x"
  by (cases x) (auto intro: evidence_Cons)

lemma pc_ok_Cons: "pc_ok cfg l pc \<Longrightarrow> pc_ok cfg (b # l) pc"
  by (cases pc) (auto intro: evidence_Cons store_ok_Cons elim!: list.pred_mono_strong)

definition circuit_ok :: "cb_config \<Rightarrow> bool list \<Rightarrow> backend_circuit \<Rightarrow> bool" where
  "circuit_ok cfg l c \<longleftrightarrow> unat (bc_failures c) \<le> failure_run l \<and> (bc_get_state c = Closed \<or> evidence cfg l)"

lemma mem_inv_ok: "mem_inv cfg m \<longleftrightarrow> (\<forall>c. bm_circuit m = Some c \<longrightarrow> circuit_ok cfg (bm_log m) c)"
  by (simp add: mem_inv_def circuit_ok_def)

lemma circuit_ok_new: "circuit_ok cfg l backend_circuit_new"
  by (simp add: circuit_ok_def) (simp add: backend_circuit_new_def)

lemma store_circuit_ok:
  assumes "circuit_ok cfg l c" "store_ok cfg l x"
  shows "circuit_ok cfg (log_store x l) (apply_store x c)"
  using assms by (cases x) (auto simp: circuit_ok_def intro: evidence_Cons)

lemma log_store_cases: "log_store x l = l \<or> (\<exists>b. log_store x l = b # l)"
  by (cases x) auto

lemma after_state_ok: "st = Closed \<or> evidence cfg l \<Longrightarrow> pc_ok cfg l (after_state op now st)"
  by (cases op; cases st) auto

lemma add_failure_ok:
  assumes "circuit_ok cfg l c"
  shows "circuit_ok cfg (True # l) (c\<lparr>bc_failures := bc_failures c + 1\<rparr>)"
    and "cb_failure_threshold cfg \<le> bc_failures c + 1 \<Longrightarrow> evidence cfg (True # l)"
proof -
  have "unat (bc_failures c + 1) \<le> Suc (unat (bc_failures c))"
    by (simp add: unat_word_ariths)
  with assms have run: "unat (bc_failures c + 1) \<le> failure_run (True # l)" by (simp add: circuit_ok_def)
  with assms show "circuit_ok cfg (True # l) (c\<lparr>bc_failures := bc_failures c + 1\<rparr>)"
    by (auto simp: circuit_ok_def intro: evidence_Cons)
  assume "cb_failure_threshold cfg \<le> bc_failures c + 1"
  with run show "evidence cfg (True # l)"
    by (intro failure_run_evidence) (simp add: word_le_nat_alt)
qed

lemma on_circuit_ok:
  assumes "on_circuit cfg now pc c l = ((c', l'), pc')" "pc_ok cfg l pc" "circuit_ok cfg l c"
  shows "circuit_ok cfg l' c' \<and> pc_ok cfg l' pc' \<and> (l' = l \<or> (\<exists>b. l' = b # l))"
proof (cases pc)
  case (LoadState op)
  with assms show ?thesis by (auto simp: circuit_ok_def intro: after_state_ok)
next
  case (AddFailure t)
  with assms add_failure_ok [OF assms(3)] show ?thesis by (auto simp: Let_def split: if_splits)
next
  case (Stores xs r)
  show ?thesis
  proof (cases xs)
    case (Cons y ys)
    with Stores assms(1,2) have s: "c' = apply_store y c" "l' = log_store y l" "pc' = Stores ys r" "pc_ok cfg l pc'" "store_ok cfg l y"
      by auto
    moreover have "pc_ok cfg l' pc'" using s(2,4) log_store_cases [of y l] by (auto intro: pc_ok_Cons simp del: pc_ok.simps)
    ultimately show ?thesis using assms(3) log_store_cases [of y l] by (simp add: store_circuit_ok)
  qed (use Stores assms in auto)
qed (use assms in \<open>auto simp: Let_def circuit_ok_def split: if_splits\<close>)

lemma pc_step_ok:
  assumes "pc_step cfg now pc m = Some (m', pc')" "mem_inv cfg m" "pc_ok cfg (bm_log m) pc"
  shows "mem_inv cfg m' \<and> pc_ok cfg (bm_log m') pc' \<and> (bm_log m' = bm_log m \<or> (\<exists>b. bm_log m' = b # bm_log m))"
proof (cases "\<exists>c. bm_circuit m = Some c \<and> pc_step cfg now pc m = (case on_circuit cfg now pc c (bm_log m) of
      ((c', l'), pc') \<Rightarrow> Some (m\<lparr>bm_circuit := Some c', bm_log := l'\<rparr>, pc'))")
  case True
  then obtain c where c: "bm_circuit m = Some c" "pc_step cfg now pc m = (case on_circuit cfg now pc c (bm_log m) of
      ((c', l'), pc') \<Rightarrow> Some (m\<lparr>bm_circuit := Some c', bm_log := l'\<rparr>, pc'))" by blast
  obtain c' l' pc2 where o: "on_circuit cfg now pc c (bm_log m) = ((c', l'), pc2)" by (metis surj_pair)
  with c assms(1) have m': "m' = m\<lparr>bm_circuit := Some c', bm_log := l'\<rparr>" "pc2 = pc'" by simp_all
  with on_circuit_ok [OF o assms(3)] assms(2) c(1) show ?thesis by (auto simp: mem_inv_ok)
next
  case False
  with assms show ?thesis
    by (cases "(cfg, now, pc, m)" rule: pc_step.cases) (auto simp: mem_inv_ok circuit_ok_new split: if_splits option.splits prod.splits)
qed

interpretation breaker_og: owicki_gries "breaker_tstep cfg" "\<lambda>_. starting" "\<lambda>_ _. False" "mem_inv cfg" "\<lambda>m. pc_ok cfg (bm_log m)"
proof unfold_locales
  fix m pc m' pc'
  assume "breaker_tstep cfg m pc m' pc'"
  then obtain now where step: "pc_step cfg now pc m = Some (m', pc')" by (auto simp: breaker_tstep_def)
  assume inv: "mem_inv cfg m" "pc_ok cfg (bm_log m) pc"
  note ok = pc_step_ok [OF step inv]
  then show "mem_inv cfg m' \<and> pc_ok cfg (bm_log m') pc'" by blast
  fix pc2
  assume "pc_ok cfg (bm_log m) pc2"
  with ok show "pc_ok cfg (bm_log m') pc2" by (metis pc_ok_Cons)
next
  fix pc and m :: breaker_mem
  assume "starting pc"
  then show "pc_ok cfg (bm_log m) pc" by (cases pc) auto
qed simp_all

section \<open>The lock of the entry\<close>

fun holds_guard :: "breaker_pc \<Rightarrow> bool" where
  "holds_guard (LoadState op) = True"
| "holds_guard LoadOpenedAt = True"
| "holds_guard AddSuccess = True"
| "holds_guard (LoadLastFailure t) = True"
| "holds_guard (AddFailure t) = True"
| "holds_guard (Stores xs r) = True"
| "holds_guard _ = False"

fun ended :: "breaker_pc \<Rightarrow> bool" where
  "ended (Returned r) = True"
| "ended Panicked = True"
| "ended _ = False"

text \<open>An upper bound on the operations a call still has to do.\<close>

fun pc_left :: "breaker_pc \<Rightarrow> nat" where
  "pc_left (ContainsKey op) = 10"
| "pc_left (InsertNew op) = 9"
| "pc_left (GetRef op) = 8"
| "pc_left (LoadState op) = 7"
| "pc_left (LoadLastFailure t) = 6"
| "pc_left (AddFailure t) = 5"
| "pc_left LoadOpenedAt = 5"
| "pc_left AddSuccess = 5"
| "pc_left (Stores xs r) = Suc (length xs)"
| "pc_left ResetGet = 10"
| "pc_left ClearAll = 1"
| "pc_left (Returned r) = 0"
| "pc_left Panicked = 0"

lemma after_state_holds: "holds_guard (after_state op now st) \<and> pc_left (after_state op now st) < 7"
  by (cases op; cases st) simp_all

lemma pc_step_guards:
  assumes "pc_step cfg now pc m = Some (m', pc')"
  shows "holds_guard pc \<Longrightarrow> 0 < bm_guards m \<Longrightarrow> bm_guards m' + of_bool (holds_guard pc) = bm_guards m + of_bool (holds_guard pc')"
    and "\<not> holds_guard pc \<Longrightarrow> bm_guards m' = bm_guards m + of_bool (holds_guard pc')"
    and "bm_guards m = 0 \<or> bm_circuit m \<noteq> None \<Longrightarrow> bm_guards m' = 0 \<or> bm_circuit m' \<noteq> None"
    and "pc_left pc' < pc_left pc"
  using assms after_state_holds
  by (cases "(cfg, now, pc, m)" rule: pc_step.cases; auto simp: Let_def split: if_splits option.splits)+

definition guards_exact :: "breaker_mem \<times> breaker_pc list \<Rightarrow> bool" where
  "guards_exact s \<longleftrightarrow> bm_guards (fst s) = length (filter holds_guard (snd s)) \<and> (bm_guards (fst s) = 0 \<or> bm_circuit (fst s) \<noteq> None)"

lemma guards_exact_task:
  assumes "guards_exact (m, ls)" "n < length ls" "pc_step cfg now (ls ! n) m = Some (m', pc')"
  shows "guards_exact (m', ls[n := pc'])"
proof -
  note g = pc_step_guards [OF assms(3)]
  have "bm_guards m' + of_bool (holds_guard (ls ! n)) = bm_guards m + of_bool (holds_guard pc')"
  proof (cases "holds_guard (ls ! n)")
    case True
    with assms(1,2) filter_hit [of n ls holds_guard] g(1) show ?thesis by (simp add: guards_exact_def)
  qed (use g(2) in simp)
  moreover have "bm_guards m' = 0 \<or> bm_circuit m' \<noteq> None" using g(3) assms(1) unfolding guards_exact_def fst_conv by blast
  ultimately show ?thesis
    using assms(1) filter_update_length [OF assms(2), of holds_guard pc'] by (simp add: guards_exact_def)
qed

interpretation guards: step_invariant "breaker_par cfg" guards_exact
proof unfold_locales
  fix s t
  assume "breaker_par cfg s t" "guards_exact s"
  then show "guards_exact t"
  proof (induction rule: par_step.induct)
    case (spawn m pc ls)
    then show ?case by (cases pc) (auto simp: guards_exact_def)
  qed (auto simp: breaker_tstep_def intro: guards_exact_task)
qed

text \<open>A call that holds a guard is never blocked, and with no guard held none is.\<close>

lemma pc_step_enabled:
  assumes "\<not> ended pc" and "if holds_guard pc then bm_circuit m \<noteq> None else bm_guards m = 0"
  shows "\<exists>m' pc'. pc_step cfg now pc m = Some (m', pc')"
  using assms
  by (cases "(cfg, now, pc, m)" rule: pc_step.cases) (auto split: option.split prod.split)

abbreviation breaker_tasks :: "cb_config \<Rightarrow> breaker_mem \<times> breaker_pc list \<Rightarrow> breaker_mem \<times> breaker_pc list \<Rightarrow> bool" where
  "breaker_tasks cfg \<equiv> par_step (breaker_tstep cfg) (\<lambda>_ _. False) (\<lambda>_ _. False)"

lemma tasks_par: "breaker_tasks cfg s t \<Longrightarrow> breaker_par cfg s t"
  by (induction rule: par_step.induct) (auto intro: par_step.intros)

lemma not_deadlocked:
  assumes "guards_exact (m, ls)" "pc \<in> set ls" "\<not> ended pc"
  shows "\<exists>t. breaker_tasks cfg (m, ls) t"
proof -
  obtain n where n: "n < length ls" "\<not> ended (ls ! n)" "if holds_guard (ls ! n) then bm_circuit m \<noteq> None else bm_guards m = 0"
  proof (cases "bm_guards m = 0")
    case True
    with assms(1) have "\<not> holds_guard l" if "l \<in> set ls" for l using that by (auto simp: guards_exact_def filter_empty_conv)
    with assms(2) obtain i where "i < length ls" "ls ! i = pc" "\<not> holds_guard (ls ! i)" by (metis in_set_conv_nth)
    with True assms(3) that [of i] show ?thesis by simp
  next
    case False
    with assms(1) obtain l where "l \<in> set ls" "holds_guard l" by (auto simp: guards_exact_def) (metis filter_False length_0_conv)
    moreover from this(2) have "\<not> ended l" by (cases l) auto
    ultimately show ?thesis using False assms(1) that by (auto simp: in_set_conv_nth guards_exact_def)
  qed
  from pc_step_enabled [OF n(2,3), of cfg 0] obtain m' pc' where "breaker_tstep cfg m (ls ! n) m' pc'"
    by (auto simp: breaker_tstep_def)
  with n(1) show ?thesis by (blast intro: par_step.task)
qed

lemma task_decreases:
  "breaker_tasks cfg s t \<Longrightarrow> sum_list (map pc_left (snd t)) < sum_list (map pc_left (snd s))"
  by (induction rule: par_step.induct) (auto simp: breaker_tstep_def intro!: sum_list_decreases pc_step_guards(4))

lemma tasks_bounded: "(breaker_tasks cfg ^^ k) s t \<Longrightarrow> k + sum_list (map pc_left (snd t)) \<le> sum_list (map pc_left (snd s))"
proof (induction k arbitrary: t)
  case (Suc k)
  then obtain u where "(breaker_tasks cfg ^^ k) s u" "breaker_tasks cfg u t" by auto
  with Suc.IH [of u] task_decreases [of cfg u t] show ?case by simp
qed simp

lemma pc_left_le: "starting pc \<Longrightarrow> pc_left pc \<le> 10"
  by (cases pc) auto

interpretation left: step_invariant "breaker_par cfg" "\<lambda>s. list_all (\<lambda>pc. pc_left pc \<le> 10) (snd s)"
proof unfold_locales
  fix s t
  assume "breaker_par cfg s t" "list_all (\<lambda>pc. pc_left pc \<le> 10) (snd s)"
  then show "list_all (\<lambda>pc. pc_left pc \<le> 10) (snd t)"
  proof (induction rule: par_step.induct)
    case (task n ls m m' pc')
    then obtain now where "pc_step cfg now (ls ! n) m = Some (m', pc')" by (auto simp: breaker_tstep_def)
    from pc_step_guards(4) [OF this] task show ?case
      by (auto simp: list_all_length nth_list_update)
  qed (auto simp: pc_left_le)
qed

lemma sum_left_le: "list_all (\<lambda>pc. pc_left pc \<le> 10) ls \<Longrightarrow> sum_list (map pc_left ls) \<le> 10 * length ls"
  by (induction ls) auto

text \<open>Without \<^verbatim>\<open>clear_all\<close> a circuit that was found or created stays, so that the lookup in \<^verbatim>\<open>get_or_create\<close> cannot panic.\<close>

fun no_panic :: "breaker_mem \<Rightarrow> breaker_pc \<Rightarrow> bool" where
  "no_panic m (GetRef op) = (bm_circuit m \<noteq> None)"
| "no_panic m ClearAll = False"
| "no_panic m Panicked = False"
| "no_panic m _ = True"

lemma no_panic_after [simp]: "no_panic m (after_state op now st)"
  by (cases op; cases st) auto

lemma pc_step_no_panic:
  assumes "pc_step cfg now pc m = Some (m', pc')" "no_panic m pc"
  shows "no_panic m' pc'" "bm_circuit m \<noteq> None \<Longrightarrow> bm_circuit m' \<noteq> None"
  using assms by (cases "(cfg, now, pc, m)" rule: pc_step.cases; auto simp: Let_def split: if_splits option.splits)+

lemma no_panic_mono: "no_panic m pc \<Longrightarrow> (bm_circuit m \<noteq> None \<Longrightarrow> bm_circuit m' \<noteq> None) \<Longrightarrow> no_panic m' pc"
  by (cases pc) auto

interpretation panic_og: owicki_gries "breaker_tstep cfg" "\<lambda>_ pc. starting pc \<and> pc \<noteq> ClearAll" "\<lambda>_ _. False" "\<lambda>_. True" no_panic
proof unfold_locales
  fix m pc
  assume "starting pc \<and> pc \<noteq> ClearAll"
  then show "no_panic m pc" by (cases pc) auto
next
  fix m pc m' pc' pc2
  assume "breaker_tstep cfg m pc m' pc'" "no_panic m pc" "no_panic m pc2"
  then show "no_panic m' pc2" unfolding breaker_tstep_def by (metis no_panic_mono pc_step_no_panic(2))
qed (auto simp: breaker_tstep_def intro: pc_step_no_panic)

lemma panics_only_with_clear_all:
  "(par_step (breaker_tstep cfg) (\<lambda>_ pc. starting pc \<and> pc \<noteq> ClearAll) (\<lambda>_ _. False))\<^sup>*\<^sup>* (breaker_mem_new, []) (m, ls) \<Longrightarrow> Panicked \<notin> set ls"
  using panic_og.reach_assertion by fastforce

section \<open>Schedules\<close>

lemma sched_reach: "breaker_sched cfg xs (m, ls) = Some s \<Longrightarrow> (breaker_tasks cfg)\<^sup>*\<^sup>* (m, ls) s"
proof (induction xs arbitrary: m ls)
  case (Cons x xs)
  obtain n now where x: "x = (n, now)" by (cases x)
  with Cons.prems obtain m' pc' where "n < length ls" "pc_step cfg now (ls ! n) m = Some (m', pc')"
    "breaker_sched cfg xs (m', ls[n := pc']) = Some s" by (auto split: if_splits option.splits)
  moreover from this have "breaker_tasks cfg (m, ls) (m', ls[n := pc'])" by (intro par_step.task) (auto simp: breaker_tstep_def)
  ultimately show ?case using Cons.IH [of m' "ls[n := pc']"] by (auto intro: converse_rtranclp_into_rtranclp)
qed simp

lemma spawn_all: "list_all starting ys \<Longrightarrow> (breaker_par cfg)\<^sup>*\<^sup>* (m, xs) (m, xs @ ys)"
proof (induction ys arbitrary: xs)
  case (Cons y ys)
  then have "breaker_par cfg (m, xs) (m, xs @ [y])" by (auto intro: par_step.spawn)
  moreover have "(breaker_par cfg)\<^sup>*\<^sup>* (m, xs @ [y]) (m, (xs @ [y]) @ ys)" using Cons by (intro Cons.IH) simp
  ultimately show ?case by (simp add: converse_rtranclp_into_rtranclp)
qed simp

lemma sched_par:
  assumes "list_all starting calls" "breaker_sched cfg xs (breaker_mem_new, calls) = Some s"
  shows "(breaker_par cfg)\<^sup>*\<^sup>* (breaker_mem_new, []) s"
proof -
  have "(breaker_par cfg)\<^sup>*\<^sup>* (breaker_mem_new, calls) s"
    using sched_reach [OF assms(2)] by (induction rule: rtranclp_induct) (auto dest: tasks_par)
  with spawn_all [OF assms(1), of cfg breaker_mem_new "[]"] show ?thesis by simp
qed

text \<open>Two failures with a threshold of two, the second interleaved with a request.\<close>

definition race_config :: cb_config where
  "race_config = \<lparr>cb_failure_threshold = 2, cb_reset_timeout = from_secs 30, cb_success_threshold = 3, cb_failure_window = from_secs 60\<rparr>"

definition race_calls :: "breaker_pc list" where
  "race_calls = [ContainsKey FailureOp, ContainsKey FailureOp, ContainsKey AllowOp]"

definition race_schedule :: "(nat \<times> u64) list" where
  "race_schedule = replicate 8 (0, 50000) @ replicate 6 (1, 50001) @ replicate 7 (2, 50002) @ replicate 3 (1, 50003)"

lemma race_result:
  "breaker_sched race_config race_schedule (breaker_mem_new, race_calls) =
     Some (\<lparr>bm_circuit = Some \<lparr>bc_state = 2, bc_failures = 2, bc_successes = 0, bc_opened_at_ms = 50001, bc_last_failure_ms = 50001\<rparr>,
            bm_guards = 0, bm_log = [True, True, False]\<rparr>, [Returned True, Returned True, Returned True])"
  by code_simp

lemma race_reachable:
  "(breaker_par race_config)\<^sup>*\<^sup>* (breaker_mem_new, [])
     (\<lparr>bm_circuit = Some \<lparr>bc_state = 2, bc_failures = 2, bc_successes = 0, bc_opened_at_ms = 50001, bc_last_failure_ms = 50001\<rparr>,
       bm_guards = 0, bm_log = [True, True, False]\<rparr>, [Returned True, Returned True, Returned True])"
  by (rule sched_par [OF _ race_result]) (simp add: race_calls_def)

section \<open>Properties\<close>

text \<open>
  C15: No interleaving opens a circuit without cause. Whatever calls of \<^verbatim>\<open>allow_request\<close>, \<^verbatim>\<open>record_success\<close>, \<^verbatim>\<open>record_failure\<close>, \<^verbatim>\<open>reset\<close> and \<^verbatim>\<open>clear_all\<close> run
  at the same time, with their loads and stores interleaved in any order: if the circuit of a backend is open or half open, or a request has been
  refused, then at some moment at least as many failures as the threshold had been counted in a row, with no success or reset in between that set the
  counter back.
\<close>

theorem opens_only_on_failures:
  assumes "(breaker_par cfg)\<^sup>*\<^sup>* (breaker_mem_new, []) (m, calls)"
    and "bc_get_state (mem_view m) \<noteq> Closed \<or> Returned False \<in> set calls"
  shows "\<exists>later n earlier. bm_log m = later @ replicate n True @ earlier \<and> unat (cb_failure_threshold cfg) \<le> n"
proof -
  have new: "mem_inv cfg breaker_mem_new" by (simp add: mem_inv_def breaker_mem_new_def)
  have "evidence cfg (bm_log m)" if "bc_get_state (mem_view m) \<noteq> Closed"
    using breaker_og.reach_inv [OF assms(1) new] that by (auto simp: mem_inv_def mem_view_def split: option.splits)
  moreover have "evidence cfg (bm_log m)" if "Returned False \<in> set calls"
    using breaker_og.reach_assertion [OF assms(1) new that] by simp
  ultimately show ?thesis using assms(2) by (auto simp: evidence_def)
qed

theorem opens_only_on_failures_witness:
  "\<exists>later n earlier. [True, True, False] = later @ replicate n True @ earlier \<and> unat (cb_failure_threshold race_config) \<le> n"
  using opens_only_on_failures [OF race_reachable] by (simp add: mem_view_def bc_get_state_def)

text \<open>
  C16: Concurrent calls of the breaker end. From every reachable state, with any number of calls under way, the calls can do at most ten more operations each,
  in whatever order they are scheduled, and as long as one of them has neither returned nor panicked some call can move: the lock of the map never deadlocks them.
\<close>

theorem breaker_calls_end:
  assumes "(breaker_par cfg)\<^sup>*\<^sup>* (breaker_mem_new, []) (m, calls)" and "(breaker_tasks cfg ^^ k) (m, calls) (m', calls')"
  shows "k \<le> 10 * length calls \<and> (list_all ended calls' \<or> (\<exists>t. breaker_tasks cfg (m', calls') t))"
proof
  have "list_all (\<lambda>pc. pc_left pc \<le> 10) calls" using left.reach [OF assms(1)] by simp
  with tasks_bounded [OF assms(2)] sum_left_le [of calls] show "k \<le> 10 * length calls" by simp
  have "(breaker_tasks cfg)\<^sup>*\<^sup>* (m, calls) (m', calls')" using assms(2) by (rule relpowp_imp_rtranclp)
  then have "(breaker_par cfg)\<^sup>*\<^sup>* (m, calls) (m', calls')" by (induction rule: rtranclp_induct) (auto dest: tasks_par)
  with assms(1) have "(breaker_par cfg)\<^sup>*\<^sup>* (breaker_mem_new, []) (m', calls')" by (rule rtranclp_trans)
  moreover have "guards_exact (breaker_mem_new, [])" by (simp add: guards_exact_def breaker_mem_new_def)
  ultimately have "guards_exact (m', calls')" by (rule guards.reach)
  then show "list_all ended calls' \<or> (\<exists>t. breaker_tasks cfg (m', calls') t)"
    using not_deadlocked [of m' calls'] by (auto simp: list_all_iff)
qed

theorem breaker_calls_end_witness:
  "\<exists>m' calls'. (breaker_tasks race_config ^^ 1) (breaker_mem_new, race_calls) (m', calls')
     \<and> (list_all ended calls' \<or> (\<exists>t. breaker_tasks race_config (m', calls') t))"
proof -
  have "(breaker_par race_config)\<^sup>*\<^sup>* (breaker_mem_new, []) (breaker_mem_new, race_calls)"
    using spawn_all [of race_calls race_config breaker_mem_new "[]"] by (simp add: race_calls_def)
  moreover have "breaker_tstep race_config breaker_mem_new (race_calls ! 0) breaker_mem_new (InsertNew FailureOp)"
    by (simp add: breaker_tstep_def race_calls_def breaker_mem_new_def)
  then have "breaker_tasks race_config (breaker_mem_new, race_calls) (breaker_mem_new, race_calls[0 := InsertNew FailureOp])"
    by (intro par_step.task) (simp_all add: race_calls_def)
  then have "(breaker_tasks race_config ^^ 1) (breaker_mem_new, race_calls) (breaker_mem_new, race_calls[0 := InsertNew FailureOp])"
    by (simp only: relpowp_1)
  ultimately show ?thesis using breaker_calls_end by blast
qed

text \<open>
  The state is stored before the time at which the circuit opened. A request that comes in between compares with the old time: here a circuit that opened at
  50001 ms with a timeout of 30 s is half open, and a request was let through, at 50002 ms.
\<close>

lemma opening_bypassed:
  "\<exists>m calls. breaker_sched race_config race_schedule (breaker_mem_new, race_calls) = Some (m, calls)
     \<and> race_calls ! 2 = ContainsKey AllowOp \<and> calls ! 2 = Returned True
     \<and> bc_get_state (mem_view m) = HalfOpen \<and> bc_opened_at_ms (mem_view m) = 50001
     \<and> unat (as_millis_u64 (cb_reset_timeout race_config)) = 30000"
  unfolding race_result by (simp add: race_calls_def mem_view_def bc_get_state_def race_config_def from_secs_def as_millis_u64_def)

text \<open>
  \<^verbatim>\<open>get_or_create\<close> looks and inserts in two operations, so that a call may put a new circuit in the place of one that another call has just made and used: of
  two failures one is forgotten, and the circuit stays closed although the threshold is two.
\<close>

lemma failure_forgotten:
  "\<exists>m. breaker_sched race_config (replicate 1 (0, 50000) @ replicate 8 (1, 50001) @ replicate 7 (0, 50002))
         (breaker_mem_new, [ContainsKey FailureOp, ContainsKey FailureOp]) = Some (m, [Returned True, Returned True])
     \<and> bc_failures (mem_view m) = 1 \<and> bc_get_state (mem_view m) = Closed"
proof -
  have "(case breaker_sched race_config (replicate 1 (0, 50000) @ replicate 8 (1, 50001) @ replicate 7 (0, 50002))
         (breaker_mem_new, [ContainsKey FailureOp, ContainsKey FailureOp]) of
       Some (m, calls) \<Rightarrow> calls = [Returned True, Returned True] \<and> bc_failures (mem_view m) = 1 \<and> bc_get_state (mem_view m) = Closed
     | None \<Rightarrow> False)" by code_simp
  then show ?thesis by (auto split: option.splits)
qed

text \<open>A \<^verbatim>\<open>clear_all\<close> between the two lookups of \<^verbatim>\<open>get_or_create\<close> makes the request panic.\<close>

lemma clear_all_panics:
  "\<exists>m. breaker_sched race_config (replicate 5 (0, 1) @ [(1, 2), (2, 3), (1, 4)])
         (breaker_mem_new, [ContainsKey AllowOp, ContainsKey AllowOp, ClearAll]) = Some (m, [Returned True, Panicked, Returned True])"
proof -
  have "map_option snd (breaker_sched race_config (replicate 5 (0, 1) @ [(1, 2), (2, 3), (1, 4)])
         (breaker_mem_new, [ContainsKey AllowOp, ContainsKey AllowOp, ClearAll])) = Some [Returned True, Panicked, Returned True]" by code_simp
  then show ?thesis by auto
qed

end
