(* ===== verification/Service_Race.thy ===== *)
theory Service_Race
  imports Proxy_Service Interleaving "HOL-Library.Code_Target_Nat"
begin

text \<open>
  The application service under concurrent calls (\<^verbatim>\<open>src/application/proxy_service.rs\<close> over the adapters of \<^verbatim>\<open>src/main.rs\<close>). A resolution awaits
  its repositories one after the other, and the garbage collection of the bindings (\<^verbatim>\<open>src/adapters/outbound/dashmap_binding_repo.rs\<close>) first collects the
  expired keys and then removes them; other calls run in between. A task is the place where such a call stands; one step is one access to a repository. What
  the selection reads from the metrics store while other connections come and go is an argument of its step.
\<close>

section \<open>Model\<close>

datatype service_pc =
    RGet ip_addr "geo_info option"
  | RTouch ip_addr "geo_info option" binding
  | RById ip_addr "geo_info option" binding
  | RRemove ip_addr "geo_info option"
  | RHealthy ip_addr "geo_info option"
  | RPick ip_addr "geo_info option" "backend list"
  | RSet ip_addr backend
  | RDone ip_addr "backend option"
  | ClearStart ip_addr
  | ClearDone
  | GcStart duration
  | GcScan instant duration "client_key list" "client_key list"
  | GcRemove "client_key list"

fun service_step :: "instant \<Rightarrow> (string \<Rightarrow> usize) \<Rightarrow> service_pc \<Rightarrow> main_service \<Rightarrow> (main_service \<times> service_pc) option" where
  "service_step now cnt (RGet ip geo) s =
     Some (s, case binding_repo_get (ps_binding_repo s) (client_key_new ip) of
                Some bd \<Rightarrow> RTouch ip geo bd | None \<Rightarrow> RHealthy ip geo)"
| "service_step now cnt (RTouch ip geo bd) s =
     Some (s\<lparr>ps_binding_repo := binding_repo_touch now (client_key_new ip) (ps_binding_repo s)\<rparr>, RById ip geo bd)"
| "service_step now cnt (RById ip geo bd) s =
     Some (s, case sqlite_get_by_id (ps_backend_repo s) (bd_backend_id bd) of
                Some b \<Rightarrow> if bk_healthy b then RDone ip (Some b) else RRemove ip geo
              | None \<Rightarrow> RRemove ip geo)"
| "service_step now cnt (RRemove ip geo) s =
     Some (s\<lparr>ps_binding_repo := binding_repo_remove (client_key_new ip) (ps_binding_repo s)\<rparr>, RHealthy ip geo)"
| "service_step now cnt (RHealthy ip geo) s =
     Some (s, let backends = sqlite_get_healthy (ps_backend_repo s)
              in if backends = [] then RDone ip None else RPick ip geo backends)"
| "service_step now cnt (RPick ip geo backends) s =
     Some (s, case pick_backend backends (ps_local_region s) geo cnt of None \<Rightarrow> RDone ip None | Some b \<Rightarrow> RSet ip b)"
| "service_step now cnt (RSet ip b) s =
     Some (s\<lparr>ps_binding_repo := binding_repo_set (client_key_new ip) (binding_new now (bk_id b)) (ps_binding_repo s)\<rparr>, RDone ip (Some b))"
| "service_step now cnt (ClearStart ip) s = Some (clear_binding main_ports ip s, ClearDone)"
| "service_step now cnt (GcStart ttl) s = Some (s, GcScan now ttl (dm_keys (ps_binding_repo s)) [])"
| "service_step now cnt (GcScan t ttl (k # ks) to_remove) s =
     Some (s, GcScan t ttl ks
                (case binding_repo_get (ps_binding_repo s) k of
                   Some b \<Rightarrow> if binding_expired t ttl b then to_remove @ [k] else to_remove
                 | None \<Rightarrow> to_remove))"
| "service_step now cnt (GcScan t ttl [] to_remove) s = Some (s, GcRemove to_remove)"
| "service_step now cnt (GcRemove (k # ks)) s =
     Some (s\<lparr>ps_binding_repo := binding_repo_remove k (ps_binding_repo s)\<rparr>, GcRemove ks)"
| "service_step now cnt (GcRemove []) s = None"
| "service_step now cnt (RDone ip r) s = None"
| "service_step now cnt ClearDone s = None"

fun service_starts :: "service_pc \<Rightarrow> bool" where
  "service_starts (RGet ip geo) = True"
| "service_starts (ClearStart ip) = True"
| "service_starts (GcStart ttl) = True"
| "service_starts _ = False"

text \<open>What else happens to the service: a reload of the backends and the recording of metrics.\<close>

inductive service_env :: "main_service \<Rightarrow> main_service \<Rightarrow> bool" where
  reload: "service_env s (s\<lparr>ps_backend_repo := br\<rparr>)"
| conn_start: "service_env s (record_connection_start main_ports i s)"
| conn_end: "service_env s (record_connection_end main_ports i s)"
| rtt: "service_env s (proxy_record_rtt main_ports i r s)"

definition service_tstep :: "main_service \<Rightarrow> service_pc \<Rightarrow> main_service \<Rightarrow> service_pc \<Rightarrow> bool" where
  "service_tstep s pc s' pc' \<longleftrightarrow> (\<exists>now cnt. service_step now cnt pc s = Some (s', pc'))"

fun service_sched :: "(nat \<times> instant \<times> (string \<Rightarrow> usize)) list \<Rightarrow> main_service \<times> service_pc list \<Rightarrow> (main_service \<times> service_pc list) option" where
  "service_sched [] s = Some s"
| "service_sched ((n, now, cnt) # xs) (s, ls) =
     (if n < length ls
      then (case service_step now cnt (ls ! n) s of
              Some (s', pc') \<Rightarrow> service_sched xs (s', ls[n := pc'])
            | None \<Rightarrow> None)
      else None)"

text \<open>A call that is not interrupted.\<close>

fun service_alone :: "nat \<Rightarrow> instant \<Rightarrow> (string \<Rightarrow> usize) \<Rightarrow> service_pc \<Rightarrow> main_service \<Rightarrow> main_service \<times> service_pc" where
  "service_alone 0 now cnt pc s = (s, pc)"
| "service_alone (Suc n) now cnt pc s =
     (case service_step now cnt pc s of Some (s', pc') \<Rightarrow> service_alone n now cnt pc' s' | None \<Rightarrow> (s, pc))"

section \<open>Calls that are not interrupted\<close>

lemma resolve_alone:
  "service_alone 7 now (metrics_get_connection_count (ps_metrics s)) (RGet ip geo) s =
     (case resolve_backend_with_geo main_ports now ip geo s of (r, s') \<Rightarrow> (s', RDone ip r))"
  by (auto simp: eval_nat_numeral resolve_backend_with_geo_def main_ports_def Let_def split: option.split)

lemma scan_alone:
  "service_alone (Suc (length ks + n)) now cnt (GcScan t ttl ks acc) s =
     service_alone n now cnt (GcRemove (acc @ filter (\<lambda>k. case binding_repo_get (ps_binding_repo s) k of
        Some b \<Rightarrow> binding_expired t ttl b | None \<Rightarrow> False) ks)) s"
  by (induction ks arbitrary: acc) (auto split: option.split)

lemma remove_alone:
  "service_alone (length ks) now cnt (GcRemove ks) s = (s\<lparr>ps_binding_repo := dm_remove_all ks (ps_binding_repo s)\<rparr>, GcRemove [])"
  by (induction ks arbitrary: s) (auto simp: binding_repo_remove_def)

lemma expired_keys:
  assumes "dm_wf m"
  shows "filter (\<lambda>k. case dm_get m k of Some b \<Rightarrow> binding_expired now ttl b | None \<Rightarrow> False) (dm_keys m)
    = map fst (filter (\<lambda>(k, b). binding_expired now ttl b) m)"
proof -
  have "dm_get m k = Some b" if "(k, b) \<in> set m" for k b
    using that assms by (simp add: dm_get_def dm_wf_def map_of_is_SomeI)
  then show ?thesis by (force simp: dm_keys_def filter_map comp_def intro!: arg_cong [where f = "map fst"] filter_cong)
qed

lemma gc_alone:
  assumes "dm_wf (ps_binding_repo s)"
  shows "\<exists>n. service_alone n now cnt (GcStart ttl) s = (binding_cleanup_tick main_ports now ttl s, GcRemove [])"
proof -
  let ?m = "ps_binding_repo s"
  let ?ks = "map fst (filter (\<lambda>(k, b). binding_expired now ttl b) ?m)"
  have "service_alone (Suc (Suc (length (dm_keys ?m) + length ?ks))) now cnt (GcStart ttl) s
      = service_alone (length ?ks) now cnt (GcRemove ?ks) s"
    using scan_alone [of "dm_keys ?m" "length ?ks" now cnt now ttl "[]" s] expired_keys [OF assms]
    by (simp add: binding_repo_get_def)
  also have "\<dots> = (binding_cleanup_tick main_ports now ttl s, GcRemove [])"
    using remove_alone [of ?ks now cnt s] by (simp add: binding_cleanup_tick_def main_ports_def binding_repo_cleanup_expired_def Let_def)
  finally show ?thesis by blast
qed

section \<open>Affinity\<close>

text \<open>The client a task works for, and the tasks that leave the binding of a client alone.\<close>

fun task_of :: "ip_addr \<Rightarrow> service_pc \<Rightarrow> bool" where
  "task_of ip (RGet a geo) \<longleftrightarrow> a = ip"
| "task_of ip (RTouch a geo bd) \<longleftrightarrow> a = ip"
| "task_of ip (RById a geo bd) \<longleftrightarrow> a = ip"
| "task_of ip (RRemove a geo) \<longleftrightarrow> a = ip"
| "task_of ip (RHealthy a geo) \<longleftrightarrow> a = ip"
| "task_of ip (RPick a geo bs) \<longleftrightarrow> a = ip"
| "task_of ip (RSet a b) \<longleftrightarrow> a = ip"
| "task_of ip (RDone a r) \<longleftrightarrow> a = ip"
| "task_of ip (ClearStart a) \<longleftrightarrow> a = ip"
| "task_of ip ClearDone \<longleftrightarrow> False"
| "task_of ip (GcStart ttl) \<longleftrightarrow> False"
| "task_of ip (GcScan t ttl ks to_remove) \<longleftrightarrow> client_key_new ip \<in> set to_remove"
| "task_of ip (GcRemove ks) \<longleftrightarrow> client_key_new ip \<in> set ks"

text \<open>The places at which a task of a client bound to \<open>i\<close> can be.\<close>

fun sticks_to :: "ip_addr \<Rightarrow> string \<Rightarrow> service_pc \<Rightarrow> bool" where
  "sticks_to ip i (RGet a geo) \<longleftrightarrow> True"
| "sticks_to ip i (RTouch a geo bd) \<longleftrightarrow> a \<noteq> ip \<or> bd_backend_id bd = i"
| "sticks_to ip i (RById a geo bd) \<longleftrightarrow> a \<noteq> ip \<or> bd_backend_id bd = i"
| "sticks_to ip i (RDone a r) \<longleftrightarrow> a \<noteq> ip \<or> (\<exists>b. r = Some b \<and> bk_id b = i \<and> bk_healthy b)"
| "sticks_to ip i pc \<longleftrightarrow> \<not> task_of ip pc"

text \<open>The client is bound to \<open>i\<close>, which is there and healthy.\<close>

definition bound_healthy :: "ip_addr \<Rightarrow> string \<Rightarrow> main_service \<Rightarrow> bool" where
  "bound_healthy ip i s \<longleftrightarrow>
     map_option bd_backend_id (binding_repo_get (ps_binding_repo s) (client_key_new ip)) = Some i
     \<and> (\<exists>b. sqlite_get_by_id (ps_backend_repo s) i = Some b \<and> bk_healthy b)"

text \<open>The garbage collection finds the client active when it looks at its entry.\<close>

fun seen_active :: "ip_addr \<Rightarrow> main_service \<Rightarrow> service_pc \<Rightarrow> bool" where
  "seen_active ip s (GcScan t ttl (k # ks) to_remove) \<longleftrightarrow>
     k \<noteq> client_key_new ip \<or> (\<forall>b. binding_repo_get (ps_binding_repo s) k = Some b \<longrightarrow> \<not> binding_expired t ttl b)"
| "seen_active ip s pc \<longleftrightarrow> True"

definition active_tstep :: "ip_addr \<Rightarrow> main_service \<Rightarrow> service_pc \<Rightarrow> main_service \<Rightarrow> service_pc \<Rightarrow> bool" where
  "active_tstep ip s pc s' pc' \<longleftrightarrow> service_tstep s pc s' pc' \<and> seen_active ip s pc"

definition healthy_env :: "string \<Rightarrow> main_service \<Rightarrow> main_service \<Rightarrow> bool" where
  "healthy_env i s s' \<longleftrightarrow> service_env s s' \<and> (\<exists>b. sqlite_get_by_id (ps_backend_repo s') i = Some b \<and> bk_healthy b)"

lemma client_key_eq [simp]: "client_key_new a = client_key_new b \<longleftrightarrow> a = b"
  by (simp add: client_key_new_def)

lemma sqlite_get_by_id_id: "sqlite_get_by_id r i = Some b \<Longrightarrow> bk_id b = i"
  using sqlite.get_by_id_Some by blast

lemma service_step_bound:
  assumes "service_step now cnt pc s = Some (s', pc')" "seen_active ip s pc" "bound_healthy ip i s" "sticks_to ip i pc"
  shows "bound_healthy ip i s'" "sticks_to ip i pc'"
  using assms
  by (cases "(now, cnt, pc, s)" rule: service_step.cases;
      auto simp: bound_healthy_def clear_binding_def main_ports_def bindings.get_touch bindings.get_set bindings.get_remove binding_touch_def
        Let_def sqlite_get_by_id_id split: option.splits if_splits)+

lemma service_env_bindings: "service_env s s' \<Longrightarrow> ps_binding_repo s' = ps_binding_repo s"
  by (erule service_env.cases) (simp_all add: record_connection_start_def record_connection_end_def proxy_record_rtt_def)

interpretation affinity_og: owicki_gries "active_tstep ip" "\<lambda>_ pc. service_starts pc \<and> pc \<noteq> ClearStart ip" "healthy_env i"
  "bound_healthy ip i" "\<lambda>_. sticks_to ip i"
proof unfold_locales
  fix s :: main_service and pc
  assume "service_starts pc \<and> pc \<noteq> ClearStart ip"
  then show "sticks_to ip i pc" by (cases pc) auto
next
  fix s s'
  assume "healthy_env i s s'" "bound_healthy ip i s"
  then show "bound_healthy ip i s'" by (auto simp: healthy_env_def bound_healthy_def service_env_bindings)
qed (auto simp: active_tstep_def service_tstep_def intro: service_step_bound)

lemma not_task_sticks: "\<not> task_of ip pc \<Longrightarrow> sticks_to ip i pc"
  by (cases pc) auto

section \<open>Properties\<close>

text \<open>
  C4: Session affinity under concurrency. Let a client be bound to a healthy backend, with no call for this client under way, whatever calls for others are. From
  then on resolutions for any clients, removals of other clients' bindings, garbage collections, reloads and connections of all clients may
  run at the same time, with their accesses to the repositories interleaved in any order: as long as every reload keeps the backend healthy and a garbage
  collection that looks at the client's binding finds it used within the time to live, the client stays bound to that
  backend, and each resolution for it that completes gives a healthy backend with that name.
\<close>

theorem affinity_concurrent:
  assumes "bound_healthy ip i s" and "list_all (\<lambda>pc. \<not> task_of ip pc) tasks"
    and "(par_step (active_tstep ip) (\<lambda>_ pc. service_starts pc \<and> pc \<noteq> ClearStart ip) (healthy_env i))\<^sup>*\<^sup>* (s, tasks) (s', tasks')"
  shows "bound_healthy ip i s' \<and> (\<forall>r. RDone ip r \<in> set tasks' \<longrightarrow> (\<exists>b. r = Some b \<and> bk_id b = i \<and> bk_healthy b))"
proof -
  have "affinity_og.all_hold ip i (s, tasks)"
    using assms(1,2) by (auto simp: affinity_og.all_hold_def list_all_iff not_task_sticks)
  from affinity_og.all.reach [OF assms(3) this] show ?thesis by (auto simp: affinity_og.all_hold_def)
qed

text \<open>A client bound to the first of two backends, and the steps of its next resolution.\<close>

definition race_backend :: "string \<Rightarrow> backend" where
  "race_backend i = example_backend i SouthAmerica ''AR''"

definition race_service :: main_service where
  "race_service = proxy_service_new \<lparr>sq_backends = [race_backend ''b1'', race_backend ''b2''], sq_version = 1\<rparr>
     [(client_key_new (IpV4 7), \<lparr>bd_backend_id = ''b1'', bd_created_at = 0, bd_last_seen = 0\<rparr>)] None metrics_store_new SouthAmerica"

text \<open>Schedules without garbage collection are runs of the system.\<close>

fun is_gc :: "service_pc \<Rightarrow> bool" where
  "is_gc (GcStart ttl) = True"
| "is_gc (GcScan t ttl ks to_remove) = True"
| "is_gc (GcRemove ks) = True"
| "is_gc _ = False"

lemma not_gc_step:
  assumes "service_step now cnt pc s = Some (s', pc')" "\<not> is_gc pc"
  shows "active_tstep ip s pc s' pc' \<and> \<not> is_gc pc'"
proof -
  have "seen_active ip s pc" using assms(2) by (cases pc) auto
  moreover have "\<not> is_gc pc'"
    using assms by (cases "(now, cnt, pc, s)" rule: service_step.cases) (auto simp: Let_def split: option.splits if_splits)
  ultimately show ?thesis using assms(1) by (auto simp: active_tstep_def service_tstep_def)
qed

lemma sched_active:
  "service_sched xs (s, ls) = Some t \<Longrightarrow> list_all (\<lambda>pc. \<not> is_gc pc) ls \<Longrightarrow> (par_step (active_tstep ip) starts env)\<^sup>*\<^sup>* (s, ls) t"
proof (induction xs arbitrary: s ls)
  case (Cons x xs)
  obtain n now cnt where x: "x = (n, now, cnt)" by (cases x)
  with Cons.prems(1) obtain s' pc' where step: "n < length ls" "service_step now cnt (ls ! n) s = Some (s', pc')"
    "service_sched xs (s', ls[n := pc']) = Some t" by (auto split: if_splits option.splits)
  from Cons.prems(2) step(1) have "\<not> is_gc (ls ! n)" by (simp add: list_all_length)
  note ok = not_gc_step [OF step(2) this, of ip]
  then have "par_step (active_tstep ip) starts env (s, ls) (s', ls[n := pc'])" by (intro par_step.task step(1)) blast
  moreover have "list_all (\<lambda>pc. \<not> is_gc pc) (ls[n := pc'])"
    using Cons.prems(2) ok by (auto simp: list_all_iff dest!: set_update_subset_insert [THEN subsetD])
  ultimately show ?case using Cons.IH [OF step(3)] by (auto intro: converse_rtranclp_into_rtranclp)
qed simp

definition no_connections :: "string \<Rightarrow> usize" where
  "no_connections i = 0"

definition witness_schedule :: "(nat \<times> instant \<times> (string \<Rightarrow> usize)) list" where
  "witness_schedule = [(1, 5, no_connections), (0, 6, no_connections), (1, 7, no_connections), (1, 8, no_connections)]"

lemma witness_result:
  "map_option snd (service_sched witness_schedule (race_service, [RSet (IpV4 8) (race_backend ''b2''), RGet (IpV4 7) None]))
     = Some [RDone (IpV4 8) (Some (race_backend ''b2'')), RDone (IpV4 7) (Some (race_backend ''b1''))]"
  by code_simp

theorem affinity_concurrent_witness:
  "bound_healthy (IpV4 7) ''b1'' race_service
   \<and> (\<exists>s' b. (par_step (active_tstep (IpV4 7)) (\<lambda>_ pc. service_starts pc \<and> pc \<noteq> ClearStart (IpV4 7)) (healthy_env ''b1''))\<^sup>*\<^sup>*
         (race_service, [RSet (IpV4 8) (race_backend ''b2'')]) (s', [RDone (IpV4 8) (Some (race_backend ''b2'')), RDone (IpV4 7) (Some b)])
       \<and> bound_healthy (IpV4 7) ''b1'' s' \<and> bk_id b = ''b1'')"
proof -
  let ?R = "par_step (active_tstep (IpV4 7)) (\<lambda>_ pc. service_starts pc \<and> pc \<noteq> ClearStart (IpV4 7)) (healthy_env ''b1'')"
  let ?ls = "[RSet (IpV4 8) (race_backend ''b2'')]"
  let ?done = "[RDone (IpV4 8) (Some (race_backend ''b2'')), RDone (IpV4 7) (Some (race_backend ''b1''))]"
  have b: "bound_healthy (IpV4 7) ''b1'' race_service"
    by (simp add: bound_healthy_def race_service_def proxy_service_new_def binding_repo_get_def dm_get_def sqlite_get_by_id_def
        race_backend_def example_backend_def)
  obtain s' where "service_sched witness_schedule (race_service, ?ls @ [RGet (IpV4 7) None]) = Some (s', ?done)"
    using witness_result by auto
  then have "?R\<^sup>*\<^sup>* (race_service, ?ls @ [RGet (IpV4 7) None]) (s', ?done)" by (rule sched_active) simp
  moreover have "?R (race_service, ?ls) (race_service, ?ls @ [RGet (IpV4 7) None])" by (rule par_step.spawn) simp
  ultimately have reach: "?R\<^sup>*\<^sup>* (race_service, ?ls) (s', ?done)" by (rule converse_rtranclp_into_rtranclp [rotated])
  have "list_all (\<lambda>pc. \<not> task_of (IpV4 7) pc) ?ls" by simp
  from affinity_concurrent [OF b this reach] b reach show ?thesis by auto
qed

text \<open>
  Two first connections of a client that overlap may go to different backends: both find no binding, and when a connection of somebody else is counted between their
  selections they choose differently. The client is then bound to the one whose binding was stored last.
\<close>

lemma first_connections_diverge:
  "\<exists>s'. service_sched
       [(0, 1, no_connections), (0, 2, no_connections), (0, 3, no_connections),
        (1, 4, no_connections(''b1'' := 1)), (1, 5, no_connections(''b1'' := 1)), (1, 6, no_connections(''b1'' := 1)),
        (1, 7, no_connections(''b1'' := 1)), (0, 8, no_connections)]
       (race_service\<lparr>ps_binding_repo := binding_repo_new\<rparr>, [RGet (IpV4 7) None, RGet (IpV4 7) None])
     = Some (s', [RDone (IpV4 7) (Some (race_backend ''b1'')), RDone (IpV4 7) (Some (race_backend ''b2''))])
     \<and> map_option bd_backend_id (binding_repo_get (ps_binding_repo s') (client_key_new (IpV4 7))) = Some ''b1''"
proof -
  have "map_option (\<lambda>(s', ls). (ls, map_option bd_backend_id (binding_repo_get (ps_binding_repo s') (client_key_new (IpV4 7)))))
     (service_sched
       [(0, 1, no_connections), (0, 2, no_connections), (0, 3, no_connections),
        (1, 4, no_connections(''b1'' := 1)), (1, 5, no_connections(''b1'' := 1)), (1, 6, no_connections(''b1'' := 1)),
        (1, 7, no_connections(''b1'' := 1)), (0, 8, no_connections)]
       (race_service\<lparr>ps_binding_repo := binding_repo_new\<rparr>, [RGet (IpV4 7) None, RGet (IpV4 7) None]))
     = Some ([RDone (IpV4 7) (Some (race_backend ''b1'')), RDone (IpV4 7) (Some (race_backend ''b2''))], Some ''b1'')"
    by code_simp
  then show ?thesis by auto
qed

text \<open>
  The garbage collection removes what it has found expired without looking again: a client that comes back between the two loops is served, its binding is
  refreshed, and then removed.
\<close>

lemma gc_removes_active_binding:
  "\<exists>s'. service_sched
       [(0, 20, no_connections), (0, 20, no_connections), (0, 20, no_connections),
        (1, 21, no_connections), (1, 22, no_connections), (1, 23, no_connections), (0, 24, no_connections)]
       (race_service, [GcStart 10, RGet (IpV4 7) None])
     = Some (s', [GcRemove [], RDone (IpV4 7) (Some (race_backend ''b1''))])
     \<and> binding_repo_get (ps_binding_repo s') (client_key_new (IpV4 7)) = None"
proof -
  have "map_option (\<lambda>(s', ls). (ls, binding_repo_get (ps_binding_repo s') (client_key_new (IpV4 7))))
     (service_sched
       [(0, 20, no_connections), (0, 20, no_connections), (0, 20, no_connections),
        (1, 21, no_connections), (1, 22, no_connections), (1, 23, no_connections), (0, 24, no_connections)]
       (race_service, [GcStart 10, RGet (IpV4 7) None]))
     = Some ([GcRemove [], RDone (IpV4 7) (Some (race_backend ''b1''))], None)"
    by code_simp
  then show ?thesis by auto
qed

end
