(* ===== verification/Sync_Race.thy ===== *)
theory Sync_Race
  imports Sync_Service Interleaving "HOL-Library.Multiset" "HOL-Library.Code_Target_Nat"
begin

text \<open>
  The replication sync service under concurrent calls (\<^verbatim>\<open>src/replication/sync.rs\<close>). Its methods take \<^verbatim>\<open>&self\<close> and lock one field at a time: \<^verbatim>\<open>flush\<close> drains the
  pending changes, draws a sequence number, updates the version vector, persists it and sends the changeset in five operations, and \<^verbatim>\<open>apply_changeset\<close> decides on each
  change and then applies it. A task is the place where a call stands between two of them. The changes recorded so far are kept in an auxiliary variable.
\<close>

section \<open>Model\<close>

record sync_mem =
  sm_service :: sync_service
  sm_recorded :: "change list"

datatype sync_pc =
    RecordStart u64 u64 string string change_kind string
  | RecordDone change
  | FlushDrain
  | FlushNumber "change list"
  | FlushVersion changeset
  | FlushPersist changeset
  | FlushSend changeset
  | FlushDone "changeset option"
  | ApplyCheck changeset
  | ApplyNext changeset "change list" usize
  | ApplyOne changeset change "change list" usize
  | ApplySend changeset change "change list" usize
  | ApplyVersion changeset usize
  | ApplyPersist changeset usize
  | ApplyDone "sync_error + usize"

text \<open>One operation of a call on the service; none when the call is over, or when it waits for room in the event channel.\<close>

fun sync_op ::
  "crc32 \<Rightarrow> serializer \<Rightarrow> (string \<Rightarrow> json option) \<Rightarrow> i64 \<Rightarrow> sync_pc \<Rightarrow> sync_service \<Rightarrow> (sync_service \<times> sync_pc) option" where
  "sync_op crc ser parse now (RecordStart rid now_us table pk kind data) s =
     (case record_change crc rid now_us table pk kind data s of (c, s') \<Rightarrow> Some (s', RecordDone c))"
| "sync_op crc ser parse now FlushDrain s =
     Some (if sy_pending_changes s = [] then (s, FlushDone None)
           else (s\<lparr>sy_pending_changes := []\<rparr>, FlushNumber (sy_pending_changes s)))"
| "sync_op crc ser parse now (FlushNumber changes) s =
     (let seq = sy_sequence s + 1
      in Some (s\<lparr>sy_sequence := seq\<rparr>, FlushVersion (changeset_new crc ser (sy_node_id s) seq changes)))"
| "sync_op crc ser parse now (FlushVersion cs) s =
     Some (s\<lparr>sy_version_vector := vv_update (sy_node_id s) (cs_seq cs) (sy_version_vector s)\<rparr>, FlushPersist cs)"
| "sync_op crc ser parse now (FlushPersist cs) s = Some (snd (persist_version (sy_node_id s) (cs_seq cs) s), FlushSend cs)"
| "sync_op crc ser parse now (FlushSend cs) s =
     (case send_event (BroadcastReady cs) s of (Ready _, s') \<Rightarrow> Some (s', FlushDone (Some cs)) | (Pending _, s') \<Rightarrow> None)"
| "sync_op crc ser parse now (ApplyCheck cs) s =
     Some (s, if \<not> changeset_verify crc ser cs then ApplyDone (Inl ChecksumFailed)
              else if vv_has_seen (sy_version_vector s) (cs_source cs) (cs_seq cs) then ApplyDone (Inr 0)
              else ApplyNext cs (cs_changes cs) 0)"
| "sync_op crc ser parse now (ApplyNext cs (c # rest) applied) s =
     Some (s, case should_apply_change c s of
                Inl e \<Rightarrow> ApplyDone (Inl e)
              | Inr False \<Rightarrow> ApplyNext cs rest applied
              | Inr True \<Rightarrow> ApplyOne cs c rest applied)"
| "sync_op crc ser parse now (ApplyNext cs [] applied) s = Some (s, ApplyVersion cs applied)"
| "sync_op crc ser parse now (ApplyOne cs c rest applied) s =
     Some (case apply_single_change parse now c s of
             (Inl e, s') \<Rightarrow> (s', ApplyDone (Inl e))
           | (Inr _, s') \<Rightarrow> (s', ApplySend cs c rest (applied + 1)))"
| "sync_op crc ser parse now (ApplySend cs c rest applied) s =
     (case send_event (ChangeApplied c) s of (Ready _, s') \<Rightarrow> Some (s', ApplyNext cs rest applied) | (Pending _, s') \<Rightarrow> None)"
| "sync_op crc ser parse now (ApplyVersion cs applied) s =
     Some (s\<lparr>sy_version_vector := vv_update (cs_source cs) (cs_seq cs) (sy_version_vector s)\<rparr>, ApplyPersist cs applied)"
| "sync_op crc ser parse now (ApplyPersist cs applied) s =
     Some (case persist_version (cs_source cs) (cs_seq cs) s of
             (Inl e, s') \<Rightarrow> (s', ApplyDone (Inl e))
           | (Inr _, s') \<Rightarrow> (s', ApplyDone (Inr applied)))"
| "sync_op crc ser parse now (RecordDone c) s = None"
| "sync_op crc ser parse now (FlushDone r) s = None"
| "sync_op crc ser parse now (ApplyDone r) s = None"

fun recorded_by :: "sync_pc \<Rightarrow> change list" where
  "recorded_by (RecordDone c) = [c]"
| "recorded_by _ = []"

definition sync_tstep :: "crc32 \<Rightarrow> serializer \<Rightarrow> (string \<Rightarrow> json option) \<Rightarrow> sync_mem \<Rightarrow> sync_pc \<Rightarrow> sync_mem \<Rightarrow> sync_pc \<Rightarrow> bool" where
  "sync_tstep crc ser parse m pc m' pc' \<longleftrightarrow>
     (\<exists>now s'. sync_op crc ser parse now pc (sm_service m) = Some (s', pc')
        \<and> m' = \<lparr>sm_service = s', sm_recorded = sm_recorded m @ recorded_by pc'\<rparr>)"

fun sync_starts :: "sync_pc \<Rightarrow> bool" where
  "sync_starts (RecordStart rid now_us table pk kind data) = True"
| "sync_starts FlushDrain = True"
| "sync_starts (ApplyCheck cs) = True"
| "sync_starts _ = False"

fun sync_sched ::
  "crc32 \<Rightarrow> serializer \<Rightarrow> (string \<Rightarrow> json option) \<Rightarrow> nat list \<Rightarrow> sync_service \<times> sync_pc list \<Rightarrow> (sync_service \<times> sync_pc list) option" where
  "sync_sched crc ser parse [] s = Some s"
| "sync_sched crc ser parse (n # xs) (s, ls) =
     (if n < length ls
      then (case sync_op crc ser parse 0 (ls ! n) s of
              Some (s', pc') \<Rightarrow> sync_sched crc ser parse xs (s', ls[n := pc'])
            | None \<Rightarrow> None)
      else None)"

section \<open>Calls that are not interrupted\<close>

fun sync_alone ::
  "nat \<Rightarrow> crc32 \<Rightarrow> serializer \<Rightarrow> (string \<Rightarrow> json option) \<Rightarrow> i64 \<Rightarrow> sync_pc \<Rightarrow> sync_service \<Rightarrow> sync_service \<times> sync_pc" where
  "sync_alone 0 crc ser parse now pc s = (s, pc)"
| "sync_alone (Suc n) crc ser parse now pc s =
     (case sync_op crc ser parse now pc s of Some (s', pc') \<Rightarrow> sync_alone n crc ser parse now pc' s' | None \<Rightarrow> (s, pc))"

lemma flush_alone:
  "sync_alone 5 crc ser parse now FlushDrain s =
     (case flush crc ser s of
        (Ready r, s') \<Rightarrow> (s', FlushDone r)
      | (Pending e, s') \<Rightarrow> (s', FlushSend (hd (ready_of e))))"
proof (cases rule: flush_cases [of s crc ser])
  case (sent cs t s')
  then show ?thesis by (auto simp: eval_nat_numeral flush_prepare_def changeset_new_def Let_def)
next
  case (waits cs t)
  then show ?thesis by (auto simp: eval_nat_numeral flush_prepare_def changeset_new_def Let_def)
qed (simp add: eval_nat_numeral)

definition ends_in :: "crc32 \<Rightarrow> serializer \<Rightarrow> (string \<Rightarrow> json option) \<Rightarrow> i64 \<Rightarrow> sync_pc \<Rightarrow> sync_service \<Rightarrow> sync_service \<times> sync_pc \<Rightarrow> bool" where
  "ends_in crc ser parse now pc s t \<longleftrightarrow> (\<exists>n. sync_alone n crc ser parse now pc s = t)"

lemma ends_refl: "ends_in crc ser parse now pc s (s, pc)"
  unfolding ends_in_def by (rule exI [of _ 0]) simp

lemma ends_step:
  "sync_op crc ser parse now pc s = Some (s', pc') \<Longrightarrow> ends_in crc ser parse now pc' s' t \<Longrightarrow> ends_in crc ser parse now pc s t"
  unfolding ends_in_def by (elim exE, rule_tac x = "Suc n" in exI) simp

text \<open>Where an application of changes stands when it is not interrupted: at its end, or at a send that waits.\<close>

definition applied_to :: "changeset \<Rightarrow> (sync_error + usize) poll \<times> sync_service \<Rightarrow> sync_service \<times> sync_pc \<Rightarrow> bool" where
  "applied_to cs x y \<longleftrightarrow>
     (case x of
        (Ready r, s) \<Rightarrow> y = (s, ApplyDone r)
      | (Pending e, s) \<Rightarrow> (\<exists>c rest k. e = ChangeApplied c \<and> y = (s, ApplySend cs c rest k)))"

definition apply_tail :: "changeset \<Rightarrow> (sync_error + usize) poll \<times> sync_service \<Rightarrow> (sync_error + usize) poll \<times> sync_service" where
  "apply_tail cs x =
     (case x of
        (Ready (Inr applied), s) \<Rightarrow>
          (case persist_version (cs_source cs) (cs_seq cs)
                  (s\<lparr>sy_version_vector := vv_update (cs_source cs) (cs_seq cs) (sy_version_vector s)\<rparr>) of
             (Inl e, s) \<Rightarrow> (Ready (Inl e), s) | (Inr _, s) \<Rightarrow> (Ready (Inr applied), s))
      | _ \<Rightarrow> x)"

lemma apply_tail_alone:
  "\<exists>y. ends_in crc ser parse now (ApplyNext cs cl applied) s y \<and> applied_to cs (apply_tail cs (apply_changes parse now cl applied s)) y"
proof (induction cl arbitrary: applied s)
  case Nil
  let ?s = "s\<lparr>sy_version_vector := vv_update (cs_source cs) (cs_seq cs) (sy_version_vector s)\<rparr>"
  obtain r s' where p: "persist_version (cs_source cs) (cs_seq cs) ?s = (r, s')" by fastforce
  have "sync_alone 3 crc ser parse now (ApplyNext cs [] applied) s =
      (s', ApplyDone (case r of Inl e \<Rightarrow> Inl e | Inr _ \<Rightarrow> Inr applied))"
    using p by (cases r) (simp_all add: numeral_3_eq_3)
  then show ?case
    unfolding ends_in_def using p by (cases r) (auto simp: apply_tail_def applied_to_def)
next
  case (Cons c cl)
  show ?case
  proof (cases "should_apply_change c s")
    case (Inl e)
    have "ends_in crc ser parse now (ApplyNext cs (c # cl) applied) s (s, ApplyDone (Inl e))"
      by (rule ends_step [where s' = s and pc' = "ApplyDone (Inl e)"]) (use Inl in \<open>simp_all add: ends_refl\<close>)
    with Inl show ?thesis by (auto simp: apply_tail_def applied_to_def)
  next
    case (Inr yes)
    show ?thesis
    proof (cases yes)
      case False
      from Cons.IH [of applied s] obtain y where y: "ends_in crc ser parse now (ApplyNext cs cl applied) s y"
        "applied_to cs (apply_tail cs (apply_changes parse now cl applied s)) y" by blast
      have "ends_in crc ser parse now (ApplyNext cs (c # cl) applied) s y"
        by (rule ends_step [where s' = s and pc' = "ApplyNext cs cl applied"]) (use Inr False y in simp_all)
      with y(2) Inr False show ?thesis by (intro exI [of _ y]) simp
    next
      case True
      note sa = Inr [unfolded True [THEN eqTrueI]]
      obtain r s' where a: "apply_single_change parse now c s = (r, s')" by fastforce
      have one: "ends_in crc ser parse now (ApplyNext cs (c # cl) applied) s y"
        if "ends_in crc ser parse now (ApplyOne cs c cl applied) s y" for y
        by (rule ends_step [where s' = s and pc' = "ApplyOne cs c cl applied"]) (use sa that in simp_all)
      show ?thesis
      proof (cases r)
        case (Inl e)
        have "ends_in crc ser parse now (ApplyOne cs c cl applied) s (s', ApplyDone (Inl e))"
          by (rule ends_step [where s' = s' and pc' = "ApplyDone (Inl e)"]) (use a Inl in \<open>simp_all add: ends_refl\<close>)
        from one [OF this] sa a Inl show ?thesis by (auto simp: apply_tail_def applied_to_def)
      next
        case r: (Inr u)
        have snd: "ends_in crc ser parse now (ApplyOne cs c cl applied) s y"
          if "ends_in crc ser parse now (ApplySend cs c cl (applied + 1)) s' y" for y
          by (rule ends_step [where s' = s' and pc' = "ApplySend cs c cl (applied + 1)"]) (use a r that in simp_all)
        obtain v s'' where e: "send_event (ChangeApplied c) s' = (v, s'')" by fastforce
        show ?thesis
        proof (cases v)
          case (Ready w)
          from Cons.IH [of "applied + 1" s''] obtain y where y: "ends_in crc ser parse now (ApplyNext cs cl (applied + 1)) s'' y"
            "applied_to cs (apply_tail cs (apply_changes parse now cl (applied + 1) s'')) y" by blast
          have "ends_in crc ser parse now (ApplySend cs c cl (applied + 1)) s' y"
            by (rule ends_step [where s' = s'' and pc' = "ApplyNext cs cl (applied + 1)"]) (use e Ready y in simp_all)
          from one [OF snd [OF this]] y(2) sa a r e Ready show ?thesis by (intro exI [of _ y]) simp
        next
          case (Pending e')
          with send_event_pending [of "ChangeApplied c" s' e' s''] e have p: "e' = ChangeApplied c" "s'' = s'" by simp_all
          from one [OF snd [OF ends_refl]] sa a r e Pending p show ?thesis
            by (intro exI [of _ "(s', ApplySend cs c cl (applied + 1))"]) (auto simp: apply_tail_def applied_to_def)
        qed
      qed
    qed
  qed
qed

lemma apply_alone:
  "\<exists>y. ends_in crc ser parse now (ApplyCheck cs) s y \<and> applied_to cs (apply_changeset crc ser parse now cs s) y"
proof -
  let ?pc = "if \<not> changeset_verify crc ser cs then ApplyDone (Inl ChecksumFailed)
      else if vv_has_seen (sy_version_vector s) (cs_source cs) (cs_seq cs) then ApplyDone (Inr 0) else ApplyNext cs (cs_changes cs) 0"
  have start: "ends_in crc ser parse now (ApplyCheck cs) s y" if "ends_in crc ser parse now ?pc s y" for y
    by (rule ends_step [where s' = s and pc' = ?pc]) (use that in simp_all)
  have tail: "apply_changeset crc ser parse now cs s = apply_tail cs (apply_changes parse now (cs_changes cs) 0 s)"
    if "changeset_verify crc ser cs" "\<not> vv_has_seen (sy_version_vector s) (cs_source cs) (cs_seq cs)"
    using that by (auto simp: apply_changeset_def apply_tail_def Let_def split: prod.splits poll.splits sum.splits)
  show ?thesis
  proof (cases "changeset_verify crc ser cs \<and> \<not> vv_has_seen (sy_version_vector s) (cs_source cs) (cs_seq cs)")
    case True
    with apply_tail_alone [of crc ser parse now cs "cs_changes cs" 0 s] start tail show ?thesis by auto
  next
    case False
    then have "\<exists>r. ?pc = ApplyDone r \<and> apply_changeset crc ser parse now cs s = (Ready r, s)"
      by (auto simp: apply_changeset_def)
    with start [OF ends_refl] show ?thesis by (auto simp: applied_to_def simp del: if_split)
  qed
qed

section \<open>Accounts\<close>

lemma sent_op [simp]:
  "(case send_event e s of (Ready u, s') \<Rightarrow> Some (s', pc') | (Pending v, s') \<Rightarrow> None) = Some (t, pc)
     \<longleftrightarrow> pc' = pc \<and> send_event e s = (Ready (), t)"
  by (auto split: prod.splits poll.splits)

text \<open>The changes a task has taken from the pending ones and not sent yet, and the number it has drawn for them.\<close>

fun drawn_of :: "sync_pc \<Rightarrow> changeset list" where
  "drawn_of (FlushVersion cs) = [cs]"
| "drawn_of (FlushPersist cs) = [cs]"
| "drawn_of (FlushSend cs) = [cs]"
| "drawn_of _ = []"

fun taken_by :: "sync_pc \<Rightarrow> change list" where
  "taken_by (FlushNumber changes) = changes"
| "taken_by pc = all_changes (drawn_of pc)"

definition in_flight :: "sync_pc list \<Rightarrow> change multiset" where
  "in_flight ls = sum_list (map (\<lambda>pc. mset (taken_by pc)) ls)"

definition drawn :: "sync_pc list \<Rightarrow> u64 multiset" where
  "drawn ls = sum_list (map (\<lambda>pc. mset (map cs_seq (drawn_of pc))) ls)"

definition own_changeset :: "crc32 \<Rightarrow> serializer \<Rightarrow> node_id \<Rightarrow> changeset \<Rightarrow> bool" where
  "own_changeset crc ser node cs \<longleftrightarrow> changeset_verify crc ser cs \<and> cs_source cs = node"

lemma broadcasts_send: "send_event e s = (Ready u, s') \<Longrightarrow> sy_receiver s \<noteq> Dropped \<Longrightarrow> broadcasts s' = broadcasts s @ ready_of e"
  by (auto simp: broadcasts_def dest: send_event_ready)

lemma broadcasts_update [simp]:
  "broadcasts (s\<lparr>sy_pending_changes := cl\<rparr>) = broadcasts s" "broadcasts (s\<lparr>sy_sequence := q\<rparr>) = broadcasts s"
  "broadcasts (s\<lparr>sy_version_vector := v\<rparr>) = broadcasts s"
  by (simp_all add: broadcasts_def)

lemma persist_broadcasts [simp]: "broadcasts (snd (persist_version n seq s)) = broadcasts s"
  by (simp add: broadcasts_def)

text \<open>The fields of the service that applying received changesets leaves alone.\<close>

definition same_outgoing :: "sync_service \<Rightarrow> sync_service \<Rightarrow> bool" where
  "same_outgoing s s' \<longleftrightarrow> sy_pending_changes s' = sy_pending_changes s \<and> sy_sequence s' = sy_sequence s
     \<and> sy_node_id s' = sy_node_id s \<and> broadcasts s' = broadcasts s"

lemma send_applied_outgoing:
  "send_event (ChangeApplied c) s = (Ready (), s') \<Longrightarrow> sy_receiver s \<noteq> Dropped \<Longrightarrow>
    same_outgoing s s'"
  using send_event_ready [of "ChangeApplied c" s "()" s'] by (auto simp: same_outgoing_def send_event_other broadcasts_def)

lemma persist_outgoing: "same_outgoing s (snd (persist_version n seq s))"
  by (simp add: same_outgoing_def)

lemma apply_single_outgoing: "same_outgoing s (snd (apply_single_change parse now c s))"
  by (auto simp: same_outgoing_def broadcasts_def apply_single_change_def Let_def split: option.split prod.split sum.split)

fun applies :: "sync_pc \<Rightarrow> bool" where
  "applies (ApplyCheck cs) = True"
| "applies (ApplyNext cs cl k) = True"
| "applies (ApplyOne cs c cl k) = True"
| "applies (ApplySend cs c cl k) = True"
| "applies (ApplyVersion cs k) = True"
| "applies (ApplyPersist cs k) = True"
| "applies (ApplyDone r) = True"
| "applies _ = False"

lemma apply_op:
  assumes "sync_op crc ser parse now pc s = Some (s', pc')" "applies pc" "sy_receiver s \<noteq> Dropped"
  shows "same_outgoing s s' \<and> applies pc'"
proof (cases "(crc, ser, parse, now, pc, s)" rule: sync_op.cases)
  case (10 crc ser parse now cs c rest applied s)
  with assms apply_single_outgoing [of s parse now c] show ?thesis
    by (auto simp: same_outgoing_def split: prod.splits sum.splits)
next
  case (11 crc ser parse now cs c rest applied s)
  with assms send_applied_outgoing show ?thesis by auto
next
  case (13 crc ser parse now cs applied s)
  with assms persist_outgoing [of s "cs_source cs" "cs_seq cs"] show ?thesis by (auto split: prod.splits sum.splits)
qed (use assms in \<open>auto simp: same_outgoing_def split: if_splits sum.splits bool.splits\<close>)

lemma apply_single_receiver: "sy_receiver (snd (apply_single_change parse now c s)) = sy_receiver s"
  by (auto simp: apply_single_change_def Let_def split: option.split prod.split sum.split)

lemma persist_receiver: "persist_version n q s = (r, s') \<Longrightarrow> sy_receiver s' = sy_receiver s"
  using persist_version_simps(6) [of n q s] by simp

lemma sync_op_receiver:
  assumes "sync_op crc ser parse now pc s = Some (s', pc')" "sy_receiver s \<noteq> Dropped"
  shows "sy_receiver s' \<noteq> Dropped"
proof (cases "(crc, ser, parse, now, pc, s)" rule: sync_op.cases)
  case (10 crc ser parse now cs c rest applied s)
  with assms apply_single_receiver [of parse now c s] show ?thesis by (auto split: prod.splits sum.splits)
next
  case (13 crc ser parse now cs applied s)
  with assms persist_receiver [of "cs_source cs" "cs_seq cs" s] show ?thesis by (auto split: prod.splits sum.splits)
qed (use assms in \<open>auto simp: record_change_def Let_def dest: send_event_ready split: if_splits\<close>)

lemma applies_nothing: "applies pc \<Longrightarrow> drawn_of pc = [] \<and> taken_by pc = [] \<and> recorded_by pc = []"
  by (cases pc) (auto simp: all_changes_def)

text \<open>What each operation does to the accounts.\<close>

lemma sync_op_account:
  assumes "sync_op crc ser parse now pc s = Some (s', pc')" "sy_receiver s \<noteq> Dropped"
  shows "mset (sy_pending_changes s') + mset (taken_by pc') + mset (all_changes (broadcasts s'))
    = mset (sy_pending_changes s) + mset (taken_by pc) + mset (all_changes (broadcasts s)) + mset (recorded_by pc')"
proof (cases "applies pc")
  case True
  with apply_op [OF assms(1) True assms(2)] show ?thesis by (auto simp: same_outgoing_def applies_nothing)
next
  case False
  with assms show ?thesis
    by (cases "(crc, ser, parse, now, pc, s)" rule: sync_op.cases)
       (auto simp: record_change_def Let_def all_changes_def changeset_new_def broadcasts_send send_event_other split: if_splits)
qed

lemma sync_op_numbers:
  assumes "sync_op crc ser parse now pc s = Some (s', pc')" "sy_receiver s \<noteq> Dropped"
  obtains (same) "sy_sequence s' = sy_sequence s"
      "mset (map cs_seq (broadcasts s')) + mset (map cs_seq (drawn_of pc')) = mset (map cs_seq (broadcasts s)) + mset (map cs_seq (drawn_of pc))"
  | (fresh) "sy_sequence s' = sy_sequence s + 1"
      "mset (map cs_seq (broadcasts s')) + mset (map cs_seq (drawn_of pc'))
         = mset (map cs_seq (broadcasts s)) + mset (map cs_seq (drawn_of pc)) + {#sy_sequence s + 1#}"
proof (cases "applies pc")
  case True
  with apply_op [OF assms(1) True assms(2)] same show ?thesis by (auto simp: same_outgoing_def applies_nothing)
next
  case False
  with assms same fresh show ?thesis
    by (cases "(crc, ser, parse, now, pc, s)" rule: sync_op.cases)
       (auto simp: record_change_def Let_def changeset_new_def broadcasts_send send_event_other split: if_splits)
qed

lemma sync_op_own:
  assumes "sync_op crc ser parse now pc s = Some (s', pc')" "sy_receiver s \<noteq> Dropped"
    and "list_all (own_changeset crc ser (sy_node_id s)) (broadcasts s @ drawn_of pc)"
  shows "sy_node_id s' = sy_node_id s \<and> list_all (own_changeset crc ser (sy_node_id s)) (broadcasts s' @ drawn_of pc')"
proof (cases "applies pc")
  case True
  with apply_op [OF assms(1) True assms(2)] assms(3) show ?thesis by (auto simp: same_outgoing_def applies_nothing)
next
  case False
  with assms show ?thesis
    by (cases "(crc, ser, parse, now, pc, s)" rule: sync_op.cases)
       (auto simp: record_change_def Let_def own_changeset_def changeset_new_def changeset_verify_def broadcasts_send send_event_other
          split: if_splits)
qed

section \<open>The accounts of the whole system\<close>

definition accounts_ok :: "crc32 \<Rightarrow> serializer \<Rightarrow> node_id \<Rightarrow> sync_mem \<times> sync_pc list \<Rightarrow> bool" where
  "accounts_ok crc ser node x \<longleftrightarrow> (case x of (m, ls) \<Rightarrow> let s = sm_service m in
     mset (sm_recorded m) = mset (sy_pending_changes s) + in_flight ls + mset (all_changes (broadcasts s))
     \<and> (\<exists>n. sy_sequence s = of_nat n \<and> mset (map cs_seq (broadcasts s)) + drawn ls = mset (map of_nat [1..<Suc n]))
     \<and> sy_receiver s \<noteq> Dropped \<and> sy_node_id s = node \<and> list_all (own_changeset crc ser node) (broadcasts s)
     \<and> list_all (\<lambda>pc. list_all (own_changeset crc ser node) (drawn_of pc)) ls)"

lemma accounts_task:
  assumes ok: "accounts_ok crc ser node (m, ls)" and n: "n < length ls"
    and step: "sync_op crc ser parse now (ls ! n) (sm_service m) = Some (s', pc')"
  shows "accounts_ok crc ser node (\<lparr>sm_service = s', sm_recorded = sm_recorded m @ recorded_by pc'\<rparr>, ls[n := pc'])"
proof -
  let ?s = "sm_service m"
  have live: "sy_receiver ?s \<noteq> Dropped" using ok by (simp add: accounts_ok_def Let_def)
  have flight: "in_flight (ls[n := pc']) + mset (taken_by (ls ! n)) = in_flight ls + mset (taken_by pc')"
    and dr: "drawn (ls[n := pc']) + mset (map cs_seq (drawn_of (ls ! n))) = drawn ls + mset (map cs_seq (drawn_of pc'))"
    unfolding in_flight_def drawn_def by (rule sum_list_update_one [OF n])+
  have "(mset (sy_pending_changes s') + mset (all_changes (broadcasts s'))) + in_flight (ls[n := pc'])
      = (mset (sy_pending_changes ?s) + mset (all_changes (broadcasts ?s))) + in_flight ls + mset (recorded_by pc')"
    by (rule account_moves [OF _ flight]) (use sync_op_account [OF step live] in \<open>simp add: ac_simps\<close>)
  then have a: "mset (sm_recorded m @ recorded_by pc') = mset (sy_pending_changes s') + in_flight (ls[n := pc']) + mset (all_changes (broadcasts s'))"
    using ok by (simp add: accounts_ok_def Let_def ac_simps)
  obtain k where k: "sy_sequence ?s = of_nat k" "mset (map cs_seq (broadcasts ?s)) + drawn ls = mset (map of_nat [1..<Suc k])"
    using ok by (auto simp: accounts_ok_def Let_def)
  have b: "\<exists>k. sy_sequence s' = of_nat k \<and> mset (map cs_seq (broadcasts s')) + drawn (ls[n := pc']) = mset (map of_nat [1..<Suc k])"
    using step live
  proof (cases rule: sync_op_numbers)
    case same
    have "mset (map cs_seq (broadcasts s')) + drawn (ls[n := pc']) = mset (map cs_seq (broadcasts ?s)) + drawn ls + {#}"
      by (rule account_moves [OF _ dr]) (simp only: same(2) add_0_right)
    with same(1) k show ?thesis by (intro exI [of _ k]) (simp only: add_0_right)
  next
    case fresh
    have "mset (map cs_seq (broadcasts s')) + drawn (ls[n := pc']) = mset (map cs_seq (broadcasts ?s)) + drawn ls + {#sy_sequence ?s + 1#}"
      by (rule account_moves [OF _ dr]) (rule fresh(2))
    also have "\<dots> = mset (map of_nat [1..<Suc (Suc k)])" using k by simp
    finally show ?thesis using fresh(1) k(1) by (intro exI [of _ "Suc k"]) simp
  qed
  have own: "list_all (own_changeset crc ser node) (drawn_of (ls ! n))" "list_all (own_changeset crc ser node) (broadcasts ?s)" "sy_node_id ?s = node"
    using ok n by (auto simp: accounts_ok_def Let_def list_all_length)
  with sync_op_own [OF step live] have c: "sy_node_id s' = node" "list_all (own_changeset crc ser node) (broadcasts s')" "list_all (own_changeset crc ser node) (drawn_of pc')"
    by simp_all
  moreover have "list_all (\<lambda>pc. list_all (own_changeset crc ser node) (drawn_of pc)) (ls[n := pc'])"
    using ok c(3) by (auto simp: accounts_ok_def Let_def list_all_iff dest!: set_update_subset_insert [THEN subsetD])
  ultimately show ?thesis using a b sync_op_receiver [OF step live] by (simp add: accounts_ok_def Let_def)
qed

lemma starting_empty: "sync_starts pc \<Longrightarrow> taken_by pc = [] \<and> drawn_of pc = []"
  by (cases pc) (auto simp: all_changes_def)

text \<open>
  The rest of the world: a reader of the events starts or stops, with at most a full channel left behind, and the database refuses writes or
  accepts them again. The receiver itself stays with the service or its reader.
\<close>

definition sync_env :: "sync_mem \<Rightarrow> sync_mem \<Rightarrow> bool" where
  "sync_env m m' \<longleftrightarrow>
     (\<exists>rx ok. (rx = Reading \<or> (\<exists>q \<le> event_capacity. rx = Unread q))
        \<and> m' = m\<lparr>sm_service := (sm_service m)\<lparr>sy_receiver := rx, sy_writable := ok\<rparr>\<rparr>)"

abbreviation sync_par ::
  "crc32 \<Rightarrow> serializer \<Rightarrow> (string \<Rightarrow> json option) \<Rightarrow> sync_mem \<times> sync_pc list \<Rightarrow> sync_mem \<times> sync_pc list \<Rightarrow> bool" where
  "sync_par crc ser parse \<equiv> par_step (sync_tstep crc ser parse) (\<lambda>_. sync_starts) sync_env"

interpretation accounts: step_invariant "sync_par crc ser parse" "accounts_ok crc ser node"
proof unfold_locales
  fix x y
  assume "sync_par crc ser parse x y" "accounts_ok crc ser node x"
  then show "accounts_ok crc ser node y"
  proof (induction rule: par_step.induct)
    case (spawn m pc ls)
    with starting_empty [of pc] show ?case by (simp add: accounts_ok_def in_flight_def drawn_def Let_def)
  next
    case (outside m m' ls)
    then show ?case by (auto simp: accounts_ok_def sync_env_def broadcasts_def Let_def)
  qed (auto simp: sync_tstep_def intro: accounts_task)
qed

definition sync_mem_new :: "node_id \<Rightarrow> replica_db option \<Rightarrow> sync_mem" where
  "sync_mem_new node db = \<lparr>sm_service = sync_service_new node db, sm_recorded = []\<rparr>"

lemma accounts_start: "accounts_ok crc ser node (sync_mem_new node db, [])"
  by (auto simp: accounts_ok_def sync_mem_new_def sync_service_new_def in_flight_def drawn_def broadcasts_def all_changes_def intro!: exI [of _ 0])

section \<open>Schedules\<close>

lemma sync_sched_reach:
  "sync_sched crc ser parse xs (s, ls) = Some (s', ls')
     \<Longrightarrow> \<exists>rs'. (sync_par crc ser parse)\<^sup>*\<^sup>* (\<lparr>sm_service = s, sm_recorded = rs\<rparr>, ls) (\<lparr>sm_service = s', sm_recorded = rs'\<rparr>, ls')"
proof (induction xs arbitrary: s ls rs)
  case (Cons n xs)
  then obtain s1 pc1 where op: "n < length ls" "sync_op crc ser parse 0 (ls ! n) s = Some (s1, pc1)"
    "sync_sched crc ser parse xs (s1, ls[n := pc1]) = Some (s', ls')" by (auto split: if_splits option.splits)
  have "sync_par crc ser parse (\<lparr>sm_service = s, sm_recorded = rs\<rparr>, ls) (\<lparr>sm_service = s1, sm_recorded = rs @ recorded_by pc1\<rparr>, ls[n := pc1])"
    using op(2) by (intro par_step.task op(1)) (auto simp: sync_tstep_def)
  with Cons.IH [OF op(3), of "rs @ recorded_by pc1"] show ?case by (meson converse_rtranclp_into_rtranclp)
qed auto

lemma sync_spawn_all: "list_all sync_starts ys \<Longrightarrow> (sync_par crc ser parse)\<^sup>*\<^sup>* (m, xs) (m, xs @ ys)"
proof (induction ys arbitrary: xs)
  case (Cons y ys)
  then have "sync_par crc ser parse (m, xs) (m, xs @ [y])" by (auto intro: par_step.spawn)
  moreover have "(sync_par crc ser parse)\<^sup>*\<^sup>* (m, xs @ [y]) (m, (xs @ [y]) @ ys)" using Cons by (intro Cons.IH) simp
  ultimately show ?case by (simp add: converse_rtranclp_into_rtranclp)
qed simp

text \<open>Two changes are recorded and flushed by two tasks, the second of which overtakes the first after it has drawn its number.\<close>

definition overtaking :: "(sync_service \<times> sync_pc list) option" where
  "overtaking = sync_sched (\<lambda>_. 0) (\<lambda>_. None) (\<lambda>_. Some JNull) [0, 1, 1, 2, 3, 3, 3, 3, 3, 1, 1, 1]
     (sync_service_new ''A'' (Some empty_db),
      [RecordStart 1 10 ''backends'' ''b1'' Insert ''{}'', FlushDrain, RecordStart 2 20 ''backends'' ''b2'' Insert ''{}'', FlushDrain])"

section \<open>Properties\<close>

text \<open>
  C24: No change is lost or sent twice, and no number is used twice, under any interleaving. Whatever calls of \<^verbatim>\<open>record_change\<close>, \<^verbatim>\<open>flush\<close> and \<^verbatim>\<open>apply_changeset\<close> run
  on a node at the same time: the changes recorded are exactly those still pending, those that a flush under way has taken, and those in the changesets handed to the
  channel, each once; the numbers of the changesets handed over, with those drawn by flushes under way, are exactly \<open>1\<close> to the number of
  draws (modulo \<open>2^64\<close>), which is the value of the counter; and each changeset carries the node as its source and verifies.
  A reader of the event channel may start and stop, a send waits while the channel is full and unread, and the database may refuse a write at any time; the receiver is not
  dropped.
\<close>

theorem flush_concurrent:
  assumes "(sync_par crc ser parse)\<^sup>*\<^sup>* (sync_mem_new node db, []) (m, calls)"
  shows "mset (sm_recorded m) = mset (sy_pending_changes (sm_service m)) + in_flight calls + mset (all_changes (broadcasts (sm_service m)))
    \<and> (\<exists>n. sy_sequence (sm_service m) = of_nat n
           \<and> mset (map cs_seq (broadcasts (sm_service m))) + drawn calls = mset (map of_nat [1..<Suc n]))
    \<and> list_all (\<lambda>cs. changeset_verify crc ser cs \<and> cs_source cs = node) (broadcasts (sm_service m))"
  using accounts.reach [OF assms accounts_start] unfolding accounts_ok_def Let_def own_changeset_def [abs_def] by simp

lemma overtaking_sent:
  "map_option (\<lambda>(s, ls). (map (\<lambda>cs. (cs_seq cs, map ch_pk (cs_changes cs))) (broadcasts s), in_flight ls = {#})) overtaking
     = Some ([(2, [''b2'']), (1, [''b1''])], True)"
  by code_simp

theorem flush_concurrent_witness:
  "\<exists>m calls. (sync_par (\<lambda>_. 0) (\<lambda>_. None) (\<lambda>_. Some JNull))\<^sup>*\<^sup>* (sync_mem_new ''A'' (Some empty_db), []) (m, calls)
     \<and> map cs_seq (broadcasts (sm_service m)) = [2, 1]
     \<and> mset (sm_recorded m) = mset (sy_pending_changes (sm_service m)) + in_flight calls + mset (all_changes (broadcasts (sm_service m)))"
proof -
  obtain s ls where o: "overtaking = Some (s, ls)" and seqs: "map cs_seq (broadcasts s) = [2, 1]"
    using overtaking_sent by (auto simp: map_eq_Cons_conv)
  obtain rs where "(sync_par (\<lambda>_. 0) (\<lambda>_. None) (\<lambda>_. Some JNull))\<^sup>*\<^sup>* (sync_mem_new ''A'' (Some empty_db),
      [RecordStart 1 10 ''backends'' ''b1'' Insert ''{}'', FlushDrain, RecordStart 2 20 ''backends'' ''b2'' Insert ''{}'', FlushDrain])
      (\<lparr>sm_service = s, sm_recorded = rs\<rparr>, ls)"
    using sync_sched_reach [OF o [unfolded overtaking_def], of "[]"] by (auto simp: sync_mem_new_def)
  with sync_spawn_all [of "[RecordStart 1 10 ''backends'' ''b1'' Insert ''{}'', FlushDrain, RecordStart 2 20 ''backends'' ''b2'' Insert ''{}'', FlushDrain]"
      "\<lambda>_. 0" "\<lambda>_. None" "\<lambda>_. Some JNull" "sync_mem_new ''A'' (Some empty_db)" "[]"]
  have reach: "(sync_par (\<lambda>_. 0) (\<lambda>_. None) (\<lambda>_. Some JNull))\<^sup>*\<^sup>* (sync_mem_new ''A'' (Some empty_db), []) (\<lparr>sm_service = s, sm_recorded = rs\<rparr>, ls)"
    by (simp add: rtranclp_trans)
  from flush_concurrent [OF reach] reach seqs show ?thesis by (intro exI conjI) auto
qed

text \<open>
  A flush draws its number before it sends, so that another flush can overtake it. The peer, which receives changeset 2 first, takes changeset 1 for
  seen and drops its change.
\<close>

lemma overtaken_changeset_lost:
  "\<exists>s ls. overtaking = Some (s, ls)
     \<and> (let peer = sync_run (\<lambda>_. 0) (\<lambda>_. None) (\<lambda>_. Some JNull) 0 (broadcasts s) (sync_service_new ''B'' (Some empty_db))
        in visible_row peer ''b2'' \<noteq> None \<and> visible_row peer ''b1'' = None)"
  by (rule run_result) code_simp

text \<open>The overtaken flush also persists its number last: after a restart the node counts from 1 and uses the number 2 again.\<close>

lemma overtaken_number_reused:
  "\<exists>s ls. overtaking = Some (s, ls) \<and> sy_sequence s = 2
     \<and> sy_sequence (snd (init_db (sync_service_new ''A'' (sy_db s)))) = 1"
  by (rule run_result) code_simp

text \<open>
  \<^verbatim>\<open>apply_changeset\<close> decides on a change before it applies it. Two of them that overlap can leave the older change in place, although in either order, one after
  the other, the newer one wins.
\<close>

lemma older_change_wins:
  "\<exists>s ls. sync_sched (\<lambda>_. 0) (\<lambda>_. None) (\<lambda>_. Some JNull) [0, 0, 1, 1, 1, 1, 1, 1, 1, 0, 0, 0, 0, 0]
       (sync_service_new ''X'' (Some empty_db), [ApplyCheck (example_set 10 Insert ''A''), ApplyCheck (example_set 20 Delete ''B'')]) = Some (s, ls)
     \<and> ls = [ApplyDone (Inr 1), ApplyDone (Inr 1)] \<and> visible_row s ''b1'' \<noteq> None
     \<and> visible_row (sync_run (\<lambda>_. 0) (\<lambda>_. None) (\<lambda>_. Some JNull) 0 [example_set 10 Insert ''A'', example_set 20 Delete ''B'']
          (sync_service_new ''X'' (Some empty_db))) ''b1'' = None"
  by (rule run_result) code_simp

end
