(* ===== verification/Tests_Domain.thy ===== *)
theory Tests_Domain
  imports Load_Balancer "HOL-Library.Code_Target_Nat"
begin

text \<open>
  The unit tests of the domain (\<^verbatim>\<open>src/domain\<close>), run on the model: each definition is the body of the test of the same name, its
  assertions in conjunction, and the lemmas evaluate them. A pause of a test advances the clock by its length.
\<close>

text \<open>\<^verbatim>\<open>Ipv4Addr::new\<close> and \<^verbatim>\<open>IpAddr::V4\<close>.\<close>

definition ipv4 :: "u8 \<Rightarrow> u8 \<Rightarrow> u8 \<Rightarrow> u8 \<Rightarrow> ip_addr" where
  "ipv4 a b c d = IpV4 (((ucast a * 256 + ucast b) * 256 + ucast c) * 256 + ucast d)"

section \<open>\<^verbatim>\<open>src/domain/entities.rs\<close>\<close>

definition entity_test_client_key_equality_ipv4 :: bool where
  "entity_test_client_key_equality_ipv4 \<longleftrightarrow>
     (let key1 = client_key_new (ipv4 192 168 1 1); key2 = client_key_new (ipv4 192 168 1 1); key3 = client_key_new (ipv4 192 168 1 2)
      in client_key_eq key1 key2 \<and> \<not> client_key_eq key1 key3)"

definition entity_test_client_key_equality_ipv6 :: bool where
  "entity_test_client_key_equality_ipv6 \<longleftrightarrow>
     (let key1 = client_key_new (IpV6 1); key2 = client_key_new (IpV6 1); key3 = client_key_new (IpV6 2)
      in client_key_eq key1 key2 \<and> \<not> client_key_eq key1 key3)"

definition entity_test_client_key_hash_consistency :: bool where
  "entity_test_client_key_hash_consistency \<longleftrightarrow>
     client_key_new (ipv4 10 0 0 1) \<in> set [client_key_new (ipv4 10 0 0 1)]"

definition entity_test_client_key_ipv4_vs_ipv6 :: bool where
  "entity_test_client_key_ipv4_vs_ipv6 \<longleftrightarrow>
     \<not> client_key_eq (client_key_new (ipv4 127 0 0 1)) (client_key_new (IpV6 1))"

definition entity_test_binding_new :: bool where
  "entity_test_binding_new \<longleftrightarrow>
     (let binding = binding_new 5 ''backend-1''
      in bd_backend_id binding = ''backend-1'' \<and> bd_created_at binding \<le> 5 \<and> bd_last_seen binding \<le> 5)"

definition entity_test_binding_created_at_equals_last_seen_on_new :: bool where
  "entity_test_binding_created_at_equals_last_seen_on_new \<longleftrightarrow>
     (let binding = binding_new 5 ''backend-1'' in bd_created_at binding = bd_last_seen binding)"

definition entity_test_binding_touch_updates_last_seen :: bool where
  "entity_test_binding_touch_updates_last_seen \<longleftrightarrow>
     (let binding = binding_new 5 ''backend-1''; initial_seen = bd_last_seen binding
      in initial_seen < bd_last_seen (binding_touch (5 + from_millis 10) binding))"

definition entity_test_binding_touch_does_not_update_created_at :: bool where
  "entity_test_binding_touch_does_not_update_created_at \<longleftrightarrow>
     (let binding = binding_new 5 ''backend-1''; initial_created = bd_created_at binding
      in bd_created_at (binding_touch (5 + from_millis 10) binding) = initial_created)"

definition entity_test_geo_info_new :: bool where
  "entity_test_geo_info_new \<longleftrightarrow>
     (let geo = geo_info_new ''BR'' SouthAmerica in geo_country geo = ''BR'' \<and> geo_region geo = SouthAmerica)"

definition entity_test_geo_info_different_regions :: bool where
  "entity_test_geo_info_different_regions \<longleftrightarrow>
     list_all (\<lambda>(country, expected_region). let geo = geo_info_new country expected_region
                                            in geo_country geo = country \<and> geo_region geo = expected_region)
       [(''US'', NorthAmerica), (''FR'', Europe), (''JP'', AsiaPacific), (''BR'', SouthAmerica)]"

lemma entity_tests:
  "entity_test_client_key_equality_ipv4" "entity_test_client_key_equality_ipv6" "entity_test_client_key_hash_consistency"
  "entity_test_client_key_ipv4_vs_ipv6" "entity_test_binding_new" "entity_test_binding_created_at_equals_last_seen_on_new"
  by code_simp+

lemma entity_tests_2:
  "entity_test_binding_touch_updates_last_seen" "entity_test_binding_touch_does_not_update_created_at" "entity_test_geo_info_new"
  "entity_test_geo_info_different_regions"
  by code_simp+

section \<open>\<^verbatim>\<open>src/domain/value_objects.rs\<close>\<close>

definition region_test_region_from_str_lowercase :: bool where
  "region_test_region_from_str_lowercase \<longleftrightarrow>
     list_all (\<lambda>(input, expected). region_from_str input = expected)
       [(''sa'', SouthAmerica), (''us'', NorthAmerica), (''eu'', Europe), (''ap'', AsiaPacific)]"

definition region_test_region_from_str_uppercase :: bool where
  "region_test_region_from_str_uppercase \<longleftrightarrow>
     list_all (\<lambda>(input, expected). region_from_str input = expected)
       [(''SA'', SouthAmerica), (''US'', NorthAmerica), (''EU'', Europe), (''AP'', AsiaPacific)]"

definition region_test_region_from_str_mixed_case :: bool where
  "region_test_region_from_str_mixed_case \<longleftrightarrow>
     region_from_str ''Sa'' = SouthAmerica \<and> region_from_str ''Us'' = NorthAmerica
     \<and> region_from_str ''Eu'' = Europe \<and> region_from_str ''Ap'' = AsiaPacific"

definition region_test_region_from_str_fallback :: bool where
  "region_test_region_from_str_fallback \<longleftrightarrow>
     list_all (\<lambda>input. region_from_str input = NorthAmerica) [''invalid'', ''xx'', '''', ''north'', ''south'', ''asia'']"

definition region_test_region_from_country_south_america :: bool where
  "region_test_region_from_country_south_america \<longleftrightarrow>
     list_all (\<lambda>country. from_country country = SouthAmerica) [''BR'', ''AR'', ''CL'', ''PE'', ''CO'', ''UY'', ''PY'', ''BO'', ''EC'', ''VE'']"

definition region_test_region_from_country_north_america :: bool where
  "region_test_region_from_country_north_america \<longleftrightarrow>
     list_all (\<lambda>country. from_country country = NorthAmerica) [''US'', ''CA'', ''MX'']"

definition region_test_region_from_country_europe :: bool where
  "region_test_region_from_country_europe \<longleftrightarrow>
     list_all (\<lambda>country. from_country country = Europe)
       [''PT'', ''ES'', ''FR'', ''DE'', ''NL'', ''IT'', ''GB'', ''IE'', ''BE'', ''CH'', ''AT'', ''PL'', ''CZ'', ''SE'', ''NO'', ''DK'', ''FI'', ''RU'', ''UA'']"

definition region_test_region_from_country_asia_pacific :: bool where
  "region_test_region_from_country_asia_pacific \<longleftrightarrow>
     list_all (\<lambda>country. from_country country = AsiaPacific)
       [''JP'', ''KR'', ''TW'', ''HK'', ''SG'', ''MY'', ''TH'', ''VN'', ''ID'', ''PH'', ''AU'', ''NZ'', ''CN'', ''IN'']"

definition region_test_region_from_country_lowercase :: bool where
  "region_test_region_from_country_lowercase \<longleftrightarrow>
     from_country ''br'' = SouthAmerica \<and> from_country ''us'' = NorthAmerica \<and> from_country ''fr'' = Europe \<and> from_country ''jp'' = AsiaPacific"

definition region_test_region_from_country_unknown_fallback :: bool where
  "region_test_region_from_country_unknown_fallback \<longleftrightarrow>
     list_all (\<lambda>country. from_country country = NorthAmerica) [''XX'', ''ZZ'', ''??'', '''']"

definition region_test_region_as_str :: bool where
  "region_test_region_as_str \<longleftrightarrow>
     region_as_str SouthAmerica = ''sa'' \<and> region_as_str NorthAmerica = ''us'' \<and> region_as_str Europe = ''eu'' \<and> region_as_str AsiaPacific = ''ap''"

definition region_test_region_display :: bool where
  "region_test_region_display \<longleftrightarrow>
     region_display SouthAmerica = ''sa'' \<and> region_display NorthAmerica = ''us'' \<and> region_display Europe = ''eu'' \<and> region_display AsiaPacific = ''ap''"

definition region_test_region_equality :: bool where
  "region_test_region_equality \<longleftrightarrow>
     SouthAmerica = SouthAmerica \<and> SouthAmerica \<noteq> NorthAmerica"

definition region_test_region_default_country :: bool where
  "region_test_region_default_country \<longleftrightarrow>
     default_country SouthAmerica = ''BR'' \<and> default_country NorthAmerica = ''US'' \<and> default_country Europe = ''DE'' \<and> default_country AsiaPacific = ''JP''"

definition region_test_region_hash :: bool where
  "region_test_region_hash \<longleftrightarrow>
     (let rs = remdups [SouthAmerica, NorthAmerica, Europe, AsiaPacific]
      in length rs = 4 \<and> SouthAmerica \<in> set rs \<and> NorthAmerica \<in> set rs \<and> Europe \<in> set rs \<and> AsiaPacific \<in> set rs)"

definition region_test_region_duplicate_hash :: bool where
  "region_test_region_duplicate_hash \<longleftrightarrow>
     length (remdups [Europe, Europe]) = 1"

definition region_test_region_roundtrip :: bool where
  "region_test_region_roundtrip \<longleftrightarrow>
     list_all (\<lambda>region. region_from_str (region_as_str region) = region) [SouthAmerica, NorthAmerica, Europe, AsiaPacific]"

lemma region_tests:
  "region_test_region_from_str_lowercase" "region_test_region_from_str_uppercase" "region_test_region_from_str_mixed_case"
  "region_test_region_from_str_fallback" "region_test_region_from_country_south_america" "region_test_region_from_country_north_america"
  by code_simp+

lemma region_tests_2:
  "region_test_region_from_country_europe" "region_test_region_from_country_asia_pacific" "region_test_region_from_country_lowercase"
  "region_test_region_from_country_unknown_fallback" "region_test_region_as_str" "region_test_region_display"
  by code_simp+

lemma region_tests_3:
  "region_test_region_equality" "region_test_region_default_country" "region_test_region_hash" "region_test_region_duplicate_hash"
  "region_test_region_roundtrip"
  by code_simp+

section \<open>\<^verbatim>\<open>src/domain/services/load_balancer.rs\<close>\<close>

definition lb_create_backend :: "string \<Rightarrow> string \<Rightarrow> string \<Rightarrow> bool \<Rightarrow> backend" where
  "lb_create_backend i region country healthy =
     \<lparr>bk_id = i, bk_app = ''test'', bk_region = region_from_str region, bk_country = country, bk_wg_ip = ''10.0.0.1'', bk_port = 8080,
      bk_healthy = healthy, bk_weight = 1, bk_soft_limit = 100, bk_hard_limit = 200\<rparr>"

definition lb_create_backend_with_limits :: "string \<Rightarrow> string \<Rightarrow> string \<Rightarrow> u8 \<Rightarrow> u32 \<Rightarrow> u32 \<Rightarrow> backend" where
  "lb_create_backend_with_limits i region country weight soft_limit hard_limit =
     \<lparr>bk_id = i, bk_app = ''test'', bk_region = region_from_str region, bk_country = country, bk_wg_ip = ''10.0.0.1'', bk_port = 8080,
      bk_healthy = True, bk_weight = weight, bk_soft_limit = soft_limit, bk_hard_limit = hard_limit\<rparr>"

abbreviation picked :: "backend option \<Rightarrow> string option" where
  "picked \<equiv> map_option bk_id"

abbreviation brazil :: geo_info where
  "brazil \<equiv> geo_info_new ''BR'' SouthAmerica"

lemma lb_regions:
  "region_from_str ''sa'' = SouthAmerica" "region_from_str ''us'' = NorthAmerica" "region_from_str ''eu'' = Europe" "region_from_str ''ap'' = AsiaPacific"
  by code_simp+

lemmas lb_eval = pick_backend_first_min eligible_def at_hard_limit_def lb_create_backend_def lb_create_backend_with_limits_def geo_tier_def
  geo_info_new_def score_val_idle lb_score_idle calculate_all_scores_def lb_regions

definition lb_test_pick_backend_same_country_priority :: bool where
  "lb_test_pick_backend_same_country_priority \<longleftrightarrow>
     picked (pick_backend [lb_create_backend ''br-1'' ''sa'' ''BR'' True, lb_create_backend ''ar-1'' ''sa'' ''AR'' True,
                           lb_create_backend ''us-1'' ''us'' ''US'' True] NorthAmerica (Some brazil) (\<lambda>_. 0)) = Some ''br-1''"

definition lb_test_pick_backend_same_region_when_no_country_match :: bool where
  "lb_test_pick_backend_same_region_when_no_country_match \<longleftrightarrow>
     picked (pick_backend [lb_create_backend ''ar-1'' ''sa'' ''AR'' True, lb_create_backend ''cl-1'' ''sa'' ''CL'' True,
                           lb_create_backend ''us-1'' ''us'' ''US'' True] NorthAmerica (Some brazil) (\<lambda>_. 0)) \<in> {Some ''ar-1'', Some ''cl-1''}"

definition lb_test_pick_backend_local_region_fallback :: bool where
  "lb_test_pick_backend_local_region_fallback \<longleftrightarrow>
     picked (pick_backend [lb_create_backend ''sa-1'' ''sa'' ''BR'' True, lb_create_backend ''us-1'' ''us'' ''US'' True]
               NorthAmerica None (\<lambda>_. 0)) = Some ''us-1''"

definition lb_test_pick_backend_global_fallback :: bool where
  "lb_test_pick_backend_global_fallback \<longleftrightarrow>
     picked (pick_backend [lb_create_backend ''jp-1'' ''ap'' ''JP'' True] NorthAmerica (Some brazil) (\<lambda>_. 0)) = Some ''jp-1''"

definition lb_test_pick_backend_respects_hard_limit :: bool where
  "lb_test_pick_backend_respects_hard_limit \<longleftrightarrow>
     picked (pick_backend [lb_create_backend ''br-1'' ''sa'' ''BR'' True, lb_create_backend ''us-1'' ''us'' ''US'' True]
               NorthAmerica (Some brazil) (\<lambda>i. if i = ''br-1'' then 200 else 0)) = Some ''us-1''"

definition lb_test_pick_backend_all_at_hard_limit :: bool where
  "lb_test_pick_backend_all_at_hard_limit \<longleftrightarrow>
     pick_backend [lb_create_backend ''br-1'' ''sa'' ''BR'' True, lb_create_backend ''us-1'' ''us'' ''US'' True]
       SouthAmerica None (\<lambda>_. 200) = None"

definition lb_test_pick_backend_zero_hard_limit_means_unlimited :: bool where
  "lb_test_pick_backend_zero_hard_limit_means_unlimited \<longleftrightarrow>
     pick_backend [(lb_create_backend ''br-1'' ''sa'' ''BR'' True)\<lparr>bk_hard_limit := 0\<rparr>] SouthAmerica None (\<lambda>_. 1000) \<noteq> None"

definition lb_test_pick_backend_skips_unhealthy :: bool where
  "lb_test_pick_backend_skips_unhealthy \<longleftrightarrow>
     picked (pick_backend [lb_create_backend ''br-1'' ''sa'' ''BR'' False, lb_create_backend ''us-1'' ''us'' ''US'' True]
               NorthAmerica (Some brazil) (\<lambda>_. 0)) = Some ''us-1''"

definition lb_test_pick_backend_all_unhealthy :: bool where
  "lb_test_pick_backend_all_unhealthy \<longleftrightarrow>
     pick_backend [lb_create_backend ''br-1'' ''sa'' ''BR'' False, lb_create_backend ''us-1'' ''us'' ''US'' False] SouthAmerica None (\<lambda>_. 0) = None"

definition lb_test_pick_backend_prefers_lower_load :: bool where
  "lb_test_pick_backend_prefers_lower_load \<longleftrightarrow>
     picked (pick_backend [lb_create_backend_with_limits ''br-1'' ''sa'' ''BR'' 1 100 200, lb_create_backend_with_limits ''br-2'' ''sa'' ''BR'' 1 100 200]
               SouthAmerica (Some brazil) (\<lambda>i. if i = ''br-1'' then 50 else 10)) = Some ''br-2''"

definition lb_test_pick_backend_weight_affects_preference :: bool where
  "lb_test_pick_backend_weight_affects_preference \<longleftrightarrow>
     picked (pick_backend [lb_create_backend_with_limits ''br-1'' ''sa'' ''BR'' 1 100 200, lb_create_backend_with_limits ''br-2'' ''sa'' ''BR'' 3 100 200]
               SouthAmerica (Some brazil) (\<lambda>_. 50)) = Some ''br-2''"

definition lb_test_pick_backend_zero_weight_treated_as_one :: bool where
  "lb_test_pick_backend_zero_weight_treated_as_one \<longleftrightarrow>
     pick_backend [(lb_create_backend ''br-1'' ''sa'' ''BR'' True)\<lparr>bk_weight := 0\<rparr>] SouthAmerica None (\<lambda>_. 50) \<noteq> None"

definition lb_test_pick_backend_zero_soft_limit_treated_as_one :: bool where
  "lb_test_pick_backend_zero_soft_limit_treated_as_one \<longleftrightarrow>
     pick_backend [(lb_create_backend ''br-1'' ''sa'' ''BR'' True)\<lparr>bk_soft_limit := 0\<rparr>] SouthAmerica None (\<lambda>_. 0) \<noteq> None"

definition lb_test_pick_backend_no_backends :: bool where
  "lb_test_pick_backend_no_backends \<longleftrightarrow>
     pick_backend [] SouthAmerica (Some brazil) (\<lambda>_. 0) = None"

definition lb_test_pick_backend_single_backend :: bool where
  "lb_test_pick_backend_single_backend \<longleftrightarrow>
     picked (pick_backend [lb_create_backend ''only-1'' ''ap'' ''JP'' True] SouthAmerica None (\<lambda>_. 0)) = Some ''only-1''"

definition lb_test_pick_backend_no_client_geo :: bool where
  "lb_test_pick_backend_no_client_geo \<longleftrightarrow>
     picked (pick_backend [lb_create_backend ''br-1'' ''sa'' ''BR'' True, lb_create_backend ''us-1'' ''us'' ''US'' True]
               SouthAmerica None (\<lambda>_. 0)) = Some ''br-1''"

definition lb_test_geo_priority_over_load :: bool where
  "lb_test_geo_priority_over_load \<longleftrightarrow>
     picked (pick_backend [lb_create_backend_with_limits ''br-1'' ''sa'' ''BR'' 1 100 200, lb_create_backend_with_limits ''us-1'' ''us'' ''US'' 1 100 200]
               NorthAmerica (Some brazil) (\<lambda>i. if i = ''br-1'' then 90 else 0)) = Some ''br-1''"

definition lb_test_calculate_all_scores :: bool where
  "lb_test_calculate_all_scores \<longleftrightarrow>
     (let scores = calculate_all_scores [lb_create_backend ''br-1'' ''sa'' ''BR'' True, lb_create_backend ''us-1'' ''us'' ''US'' True,
                                         lb_create_backend ''jp-1'' ''ap'' ''JP'' False] NorthAmerica (Some brazil) (\<lambda>_. 0)
      in length scores = 2
         \<and> (case (map_of scores ''br-1'', map_of scores ''us-1'') of (Some br_score, Some us_score) \<Rightarrow> f64_less br_score us_score | _ \<Rightarrow> False))"

definition lb_test_calculate_all_scores_empty_backends :: bool where
  "lb_test_calculate_all_scores_empty_backends \<longleftrightarrow>
     calculate_all_scores [] SouthAmerica None (\<lambda>_. 0) = []"

definition lb_test_calculate_all_scores_with_zero_weight :: bool where
  "lb_test_calculate_all_scores_with_zero_weight \<longleftrightarrow>
     map fst (calculate_all_scores [(lb_create_backend ''br-1'' ''sa'' ''BR'' True)\<lparr>bk_weight := 0\<rparr>] SouthAmerica None (\<lambda>_. 50)) = [''br-1'']"

definition lb_test_calculate_all_scores_with_zero_soft_limit :: bool where
  "lb_test_calculate_all_scores_with_zero_soft_limit \<longleftrightarrow>
     map fst (calculate_all_scores [(lb_create_backend ''br-1'' ''sa'' ''BR'' True)\<lparr>bk_soft_limit := 0\<rparr>] SouthAmerica None (\<lambda>_. 0)) = [''br-1'']"

definition lb_test_calculate_all_scores_with_client_geo :: bool where
  "lb_test_calculate_all_scores_with_client_geo \<longleftrightarrow>
     (let scores = calculate_all_scores [lb_create_backend ''br-1'' ''sa'' ''BR'' True, lb_create_backend ''ar-1'' ''sa'' ''AR'' True,
                                         lb_create_backend ''jp-1'' ''ap'' ''JP'' True] Europe (Some brazil) (\<lambda>_. 0)
      in length scores = 3
         \<and> (case (map_of scores ''br-1'', map_of scores ''ar-1'', map_of scores ''jp-1'') of
               (Some br_score, Some ar_score, Some jp_score) \<Rightarrow>
                 f64_less br_score (Fin 100) \<and> f64_ge ar_score (Fin 100) \<and> f64_less ar_score (Fin 200) \<and> f64_ge jp_score (Fin 300)
             | _ \<Rightarrow> False))"

definition lb_test_calculate_all_scores_local_region_fallback :: bool where
  "lb_test_calculate_all_scores_local_region_fallback \<longleftrightarrow>
     (let scores = calculate_all_scores [lb_create_backend ''eu-1'' ''eu'' ''DE'' True, lb_create_backend ''jp-1'' ''ap'' ''JP'' True] Europe None (\<lambda>_. 0)
      in length scores = 2
         \<and> (case (map_of scores ''eu-1'', map_of scores ''jp-1'') of
               (Some eu_score, Some jp_score) \<Rightarrow> f64_ge eu_score (Fin 200) \<and> f64_less eu_score (Fin 300) \<and> f64_ge jp_score (Fin 300)
             | _ \<Rightarrow> False))"

definition lb_test_pick_backend_keeps_best_when_second_is_worse :: bool where
  "lb_test_pick_backend_keeps_best_when_second_is_worse \<longleftrightarrow>
     picked (pick_backend [lb_create_backend ''br-1'' ''sa'' ''BR'' True, lb_create_backend ''jp-1'' ''ap'' ''JP'' True]
               Europe (Some brazil) (\<lambda>_. 0)) = Some ''br-1''"

definition lb_test_pick_backend_multiple_same_score :: bool where
  "lb_test_pick_backend_multiple_same_score \<longleftrightarrow>
     picked (pick_backend [lb_create_backend ''br-1'' ''sa'' ''BR'' True, lb_create_backend ''br-2'' ''sa'' ''BR'' True,
                           lb_create_backend ''br-3'' ''sa'' ''BR'' True] SouthAmerica (Some brazil) (\<lambda>_. 0)) = Some ''br-1''"

lemma lb_tests_by_specification:
  "lb_test_pick_backend_zero_hard_limit_means_unlimited" "lb_test_pick_backend_prefers_lower_load"
  "lb_test_geo_priority_over_load"
proof -
  show "lb_test_pick_backend_zero_hard_limit_means_unlimited"
    by (simp add: lb_test_pick_backend_zero_hard_limit_means_unlimited_def pick_backend_first_min eligible_def at_hard_limit_def
        lb_create_backend_def)
  let ?b1 = "lb_create_backend_with_limits ''br-1'' ''sa'' ''BR'' 1 100 200"
  let ?b2 = "lb_create_backend_with_limits ''br-2'' ''sa'' ''BR'' 1 100 200"
  let ?cnt = "\<lambda>i. if i = ''br-1'' then 50 else 10"
  have "score_val SouthAmerica (Some brazil) ?cnt ?b2 < score_val SouthAmerica (Some brazil) ?cnt ?b1"
    by (rule score_val_strict_load) (simp_all add: lb_create_backend_with_limits_def soft_val_def weight_val_def geo_tier_def)
  then show "lb_test_pick_backend_prefers_lower_load"
    unfolding lb_test_pick_backend_prefers_lower_load_def pick_backend_first_min
    by (simp add: eligible_def at_hard_limit_def) (simp add: lb_create_backend_with_limits_def)
  let ?u1 = "lb_create_backend_with_limits ''us-1'' ''us'' ''US'' 1 100 200"
  let ?load = "\<lambda>i. if i = ''br-1'' then 90 else 0"
  have "score_val NorthAmerica (Some brazil) ?load ?b1 \<le> 1"
    using score_val_upper [of ?load ?b1 1 NorthAmerica "Some brazil"]
    by (simp add: lb_create_backend_with_limits_def soft_val_def weight_val_def geo_tier_def geo_info_new_def)
  moreover have "score_val NorthAmerica (Some brazil) ?load ?u1 = 200"
    by (simp add: score_val_idle lb_create_backend_with_limits_def geo_tier_def geo_info_new_def lb_regions)
  ultimately show "lb_test_geo_priority_over_load"
    unfolding lb_test_geo_priority_over_load_def pick_backend_first_min
    by (simp add: eligible_def at_hard_limit_def) (simp add: lb_create_backend_with_limits_def)
qed

lemma lb_tests:
  "lb_test_pick_backend_same_country_priority" "lb_test_pick_backend_same_region_when_no_country_match"
  "lb_test_pick_backend_local_region_fallback" "lb_test_pick_backend_global_fallback" "lb_test_pick_backend_respects_hard_limit"
  "lb_test_pick_backend_all_at_hard_limit"
  by (simp_all add: lb_eval
      lb_test_pick_backend_same_country_priority_def lb_test_pick_backend_same_region_when_no_country_match_def lb_test_pick_backend_local_region_fallback_def
      lb_test_pick_backend_global_fallback_def lb_test_pick_backend_respects_hard_limit_def lb_test_pick_backend_all_at_hard_limit_def)

lemma lb_tests_2:
  "lb_test_pick_backend_skips_unhealthy" "lb_test_pick_backend_all_unhealthy" "lb_test_pick_backend_zero_weight_treated_as_one"
  "lb_test_pick_backend_zero_soft_limit_treated_as_one" "lb_test_pick_backend_no_backends" "lb_test_pick_backend_single_backend"
  by (simp_all add: lb_eval
      lb_test_pick_backend_skips_unhealthy_def lb_test_pick_backend_all_unhealthy_def lb_test_pick_backend_zero_weight_treated_as_one_def
      lb_test_pick_backend_zero_soft_limit_treated_as_one_def lb_test_pick_backend_no_backends_def lb_test_pick_backend_single_backend_def)

lemma lb_tests_3:
  "lb_test_pick_backend_no_client_geo" "lb_test_calculate_all_scores" "lb_test_calculate_all_scores_empty_backends"
  "lb_test_calculate_all_scores_with_zero_weight" "lb_test_calculate_all_scores_with_zero_soft_limit"
  "lb_test_calculate_all_scores_with_client_geo"
  by (simp_all add: lb_eval
      lb_test_pick_backend_no_client_geo_def lb_test_calculate_all_scores_def lb_test_calculate_all_scores_empty_backends_def
      lb_test_calculate_all_scores_with_zero_weight_def lb_test_calculate_all_scores_with_zero_soft_limit_def lb_test_calculate_all_scores_with_client_geo_def)

lemma lb_tests_4:
  "lb_test_calculate_all_scores_local_region_fallback" "lb_test_pick_backend_keeps_best_when_second_is_worse"
  "lb_test_pick_backend_multiple_same_score"
  by (simp_all add: lb_eval
      lb_test_calculate_all_scores_local_region_fallback_def lb_test_pick_backend_keeps_best_when_second_is_worse_def lb_test_pick_backend_multiple_same_score_def)

lemma lb_tests_5:
  "lb_test_pick_backend_weight_affects_preference"
  by code_simp+

end
