(* ===== verification/Tests_Resilience.thy ===== *)
theory Tests_Resilience
  imports Circuit_Breaker Rate_Limiter Shutdown Tests_Domain
begin

text \<open>
  The unit tests of the circuit breaker, the rate limiter and the shutdown controller (\<^verbatim>\<open>src/infrastructure\<close>), run on the model. The clock of a test
  stands still but for its pauses.
\<close>

section \<open>\<^verbatim>\<open>src/infrastructure/circuit_breaker.rs\<close>\<close>

abbreviation cb_with :: "u32 \<Rightarrow> duration \<Rightarrow> circuit_breaker" where
  "cb_with threshold timeout \<equiv>
     circuit_breaker_new (cb_config_default\<lparr>cb_failure_threshold := threshold, cb_reset_timeout := timeout\<rparr>)"

definition circuit_test_circuit_state_display :: bool where
  "circuit_test_circuit_state_display \<longleftrightarrow>
     circuit_state_display Closed = ''closed'' \<and> circuit_state_display Open = ''open'' \<and> circuit_state_display HalfOpen = ''half-open''"

definition circuit_test_circuit_state_default :: bool where
  "circuit_test_circuit_state_default \<longleftrightarrow>
     circuit_state_default = Closed"

definition circuit_test_config_default :: bool where
  "circuit_test_config_default \<longleftrightarrow>
     cb_failure_threshold cb_config_default = 5 \<and> cb_reset_timeout cb_config_default = from_secs 30 \<and> cb_success_threshold cb_config_default = 3"

definition circuit_test_circuit_breaker_new :: bool where
  "circuit_test_circuit_breaker_new \<longleftrightarrow>
     cb_circuits (circuit_breaker_new cb_config_default) = []"

definition circuit_test_circuit_breaker_default :: bool where
  "circuit_test_circuit_breaker_default \<longleftrightarrow>
     cb_circuits circuit_breaker_default = []"

definition circuit_test_allow_request_initial :: bool where
  "circuit_test_allow_request_initial \<longleftrightarrow>
     (let (ok, cb) = allow_request 0 ''backend-1'' circuit_breaker_default in ok \<and> cb_get_state cb ''backend-1'' = Closed)"

definition circuit_test_allow_request_unknown_backend :: bool where
  "circuit_test_allow_request_unknown_backend \<longleftrightarrow>
     cb_get_state circuit_breaker_default ''unknown'' = Closed"

definition circuit_test_record_success_resets_failures :: bool where
  "circuit_test_record_success_resets_failures \<longleftrightarrow>
     (let cb = circuit_breaker_new (cb_config_default\<lparr>cb_failure_threshold := 5\<rparr>);
          cb = record_failure 0 ''b1'' (record_failure 0 ''b1'' cb)
      in cm_failures (cb_get_metrics cb ''b1'') = 2 \<and> cm_failures (cb_get_metrics (record_success ''b1'' cb) ''b1'') = 0)"

definition circuit_test_circuit_opens_after_threshold :: bool where
  "circuit_test_circuit_opens_after_threshold \<longleftrightarrow>
     (let cb = circuit_breaker_new (cb_config_default\<lparr>cb_failure_threshold := 3, cb_failure_window := from_secs 60\<rparr>);
          cb1 = record_failure 0 ''b1'' cb; cb2 = record_failure 0 ''b1'' cb1; cb3 = record_failure 0 ''b1'' cb2
      in cb_get_state cb1 ''b1'' = Closed \<and> cb_get_state cb2 ''b1'' = Closed \<and> cb_get_state cb3 ''b1'' = Open)"

definition circuit_test_circuit_open_blocks_requests :: bool where
  "circuit_test_circuit_open_blocks_requests \<longleftrightarrow>
     (let cb = record_failure 0 ''b1'' (cb_with 1 (from_secs 60))
      in cb_get_state cb ''b1'' = Open \<and> \<not> fst (allow_request 0 ''b1'' cb))"

definition circuit_test_circuit_transitions_to_half_open :: bool where
  "circuit_test_circuit_transitions_to_half_open \<longleftrightarrow>
     (let cb = record_failure 0 ''b1'' (cb_with 1 (from_millis 10)); (ok, cb') = allow_request 20 ''b1'' cb
      in cb_get_state cb ''b1'' = Open \<and> ok \<and> cb_get_state cb' ''b1'' = HalfOpen)"

definition circuit_test_half_open_closes_on_successes :: bool where
  "circuit_test_half_open_closes_on_successes \<longleftrightarrow>
     (let cb = circuit_breaker_new (cb_config_default\<lparr>cb_failure_threshold := 1, cb_reset_timeout := from_millis 1, cb_success_threshold := 2\<rparr>);
          cb = snd (allow_request 5 ''b1'' (record_failure 0 ''b1'' cb));
          cb1 = record_success ''b1'' cb; cb2 = record_success ''b1'' cb1
      in cb_get_state cb1 ''b1'' = HalfOpen \<and> cb_get_state cb2 ''b1'' = Closed)"

definition circuit_test_half_open_reopens_on_failure :: bool where
  "circuit_test_half_open_reopens_on_failure \<longleftrightarrow>
     (let cb = snd (allow_request 5 ''b1'' (record_failure 0 ''b1'' (cb_with 1 (from_millis 1))))
      in cb_get_state (record_failure 5 ''b1'' cb) ''b1'' = Open)"

definition circuit_test_get_metrics :: bool where
  "circuit_test_get_metrics \<longleftrightarrow>
     (let m = cb_get_metrics (record_failure 0 ''b1'' (record_failure 0 ''b1'' circuit_breaker_default)) ''b1''
      in cm_failures m = 2 \<and> cm_state m = Closed)"

definition circuit_test_get_metrics_unknown :: bool where
  "circuit_test_get_metrics_unknown \<longleftrightarrow>
     (let m = cb_get_metrics circuit_breaker_default ''unknown'' in cm_failures m = 0 \<and> cm_state m = Closed)"

definition circuit_test_all_states :: bool where
  "circuit_test_all_states \<longleftrightarrow>
     (let cb = circuit_breaker_new (cb_config_default\<lparr>cb_failure_threshold := 1\<rparr>)
      in length (cb_all_states (record_failure 0 ''b2'' (snd (allow_request 0 ''b1'' cb)))) = 2)"

definition circuit_test_reset :: bool where
  "circuit_test_reset \<longleftrightarrow>
     (let cb = record_failure 0 ''b1'' (circuit_breaker_new (cb_config_default\<lparr>cb_failure_threshold := 1\<rparr>)); cb' = cb_reset ''b1'' cb
      in cb_get_state cb ''b1'' = Open \<and> cb_get_state cb' ''b1'' = Closed \<and> cm_failures (cb_get_metrics cb' ''b1'') = 0)"

definition circuit_test_clear_all :: bool where
  "circuit_test_clear_all \<longleftrightarrow>
     (let cb = fold (\<lambda>i cb. snd (allow_request 0 i cb)) [''b1'', ''b2'', ''b3''] circuit_breaker_default
      in length (cb_circuits cb) = 3 \<and> length (cb_circuits (cb_clear_all cb)) = 0)"

definition circuit_test_failure_window_resets :: bool where
  "circuit_test_failure_window_resets \<longleftrightarrow>
     (let cb = circuit_breaker_new (cb_config_default\<lparr>cb_failure_threshold := 3, cb_failure_window := from_millis 10\<rparr>);
          cb = record_failure 0 ''b1'' (record_failure 0 ''b1'' cb)
      in cm_failures (cb_get_metrics cb ''b1'') = 2 \<and> cm_failures (cb_get_metrics (record_failure 20 ''b1'' cb) ''b1'') = 1)"

definition circuit_test_record_failure_when_open :: bool where
  "circuit_test_record_failure_when_open \<longleftrightarrow>
     (let cb = record_failure 0 ''b1'' (cb_with 1 (from_secs 60))
      in cb_get_state cb ''b1'' = Open \<and> cb_get_state (record_failure 0 ''b1'' cb) ''b1'' = Open)"

definition circuit_test_allow_request_when_already_half_open :: bool where
  "circuit_test_allow_request_when_already_half_open \<longleftrightarrow>
     (let cb = record_failure 0 ''b1'' (cb_with 1 (from_millis 1));
          (ok, cb1) = allow_request 5 ''b1'' cb; (ok', cb2) = allow_request 5 ''b1'' cb1
      in ok \<and> cb_get_state cb1 ''b1'' = HalfOpen \<and> ok' \<and> cb_get_state cb2 ''b1'' = HalfOpen)"

definition circuit_test_record_success_when_open :: bool where
  "circuit_test_record_success_when_open \<longleftrightarrow>
     (let cb = record_failure 0 ''b1'' (cb_with 1 (from_secs 60))
      in cb_get_state cb ''b1'' = Open \<and> cb_get_state (record_success ''b1'' cb) ''b1'' = Open)"

lemma circuit_tests:
  "circuit_test_circuit_state_display" "circuit_test_circuit_state_default" "circuit_test_config_default"
  "circuit_test_circuit_breaker_new" "circuit_test_circuit_breaker_default" "circuit_test_allow_request_initial"
  by code_simp+

lemma circuit_tests_2:
  "circuit_test_allow_request_unknown_backend" "circuit_test_record_success_resets_failures" "circuit_test_circuit_opens_after_threshold"
  "circuit_test_circuit_open_blocks_requests" "circuit_test_circuit_transitions_to_half_open" "circuit_test_half_open_closes_on_successes"
  by code_simp+

lemma circuit_tests_3:
  "circuit_test_half_open_reopens_on_failure" "circuit_test_get_metrics" "circuit_test_get_metrics_unknown" "circuit_test_all_states"
  "circuit_test_reset" "circuit_test_clear_all"
  by code_simp+

lemma circuit_tests_4:
  "circuit_test_failure_window_resets" "circuit_test_record_failure_when_open" "circuit_test_allow_request_when_already_half_open"
  "circuit_test_record_success_when_open"
  by code_simp+

section \<open>\<^verbatim>\<open>src/infrastructure/rate_limiter.rs\<close>\<close>

definition limiter_test_ip :: "u8 \<Rightarrow> ip_addr" where
  "limiter_test_ip n = ipv4 192 168 1 n"

text \<open>The answers to a sequence of checks at one time, and the limiter after them.\<close>

fun checks :: "u64 \<Rightarrow> ip_addr list \<Rightarrow> rate_limiter \<Rightarrow> bool list \<times> rate_limiter" where
  "checks now [] r = ([], r)"
| "checks now (ip # ips) r = (let (ok, r) = rl_check 0 now now ip r; (oks, r) = checks now ips r in (ok # oks, r))"

abbreviation limiter_with :: "u64 \<Rightarrow> rate_limiter" where
  "limiter_with burst \<equiv> rate_limiter_new (rate_limit_config_default\<lparr>rl_burst_size := burst\<rparr>)"

abbreviation limiter_of :: "u64 \<Rightarrow> u64 \<Rightarrow> duration \<Rightarrow> rate_limiter" where
  "limiter_of burst requests window \<equiv> rate_limiter_new \<lparr>rl_max_requests = requests, rl_window = window, rl_burst_size = burst\<rparr>"

lemma limiter_ip_eq: "limiter_test_ip a = limiter_test_ip b \<longleftrightarrow> a = b"
proof -
  have "(ucast a :: u32) = ucast b \<longleftrightarrow> a = b" by transfer (simp add: take_bit_take_bit min_def)
  then show ?thesis by (simp add: limiter_test_ip_def ipv4_def)
qed

text \<open>While the clock stands still, or when it is read before an entry was made, nothing is added.\<close>

lemma no_refill:
  assumes "1000000 \<le> w"
  shows "refill burst (f64_div (f64_of_word m) (as_millis_f64 w)) 0 st = st"
proof -
  have "f64_rnd (of_nat (w div 1000000)) \<noteq> 0"
    using assms rnd.rnd_pos [of "of_nat (w div 1000000)"] by (simp add: div_greater_zero_iff)
  then show ?thesis
    by (simp add: refill_def tokens_to_add_def saturating_sub_def f64_of_word_def as_millis_f64_def rnd.rnd_0)
qed

text \<open>The two refills after a pause: at ten and at a thousand tokens per millisecond.\<close>

lemma refills:
  "refill 2 (f64_div (f64_of_word (1000 :: u64)) (as_millis_f64 100000000)) 50 \<lparr>cs_tokens = 0, cs_last_refill_ms = 0\<rparr>
     = \<lparr>cs_tokens = 2, cs_last_refill_ms = 50\<rparr>"
  "refill 1 (f64_div (f64_of_word (1000000 :: u64)) (as_millis_f64 1000000000)) 10 \<lparr>cs_tokens = 0, cs_last_refill_ms = 0\<rparr>
     = \<lparr>cs_tokens = 1, cs_last_refill_ms = 10\<rparr>"
proof -
  have n: "f64_rnd (numeral n) = numeral n" if "numeral n \<le> (2 :: nat) ^ 53" for n
    using rnd.rnd_nat [OF that] by simp
  show "refill 2 (f64_div (f64_of_word (1000 :: u64)) (as_millis_f64 100000000)) 50 \<lparr>cs_tokens = 0, cs_last_refill_ms = 0\<rparr>
     = \<lparr>cs_tokens = 2, cs_last_refill_ms = 50\<rparr>"
    "refill 1 (f64_div (f64_of_word (1000000 :: u64)) (as_millis_f64 1000000000)) 10 \<lparr>cs_tokens = 0, cs_last_refill_ms = 0\<rparr>
     = \<lparr>cs_tokens = 1, cs_last_refill_ms = 10\<rparr>"
    by (simp_all add: refill_def tokens_to_add_def saturating_sub_def f64_of_word_def as_millis_f64_def n Let_def)
qed

lemmas limiter_eval = refills consume_loop.simps [of 0] rate_limiter_default_def rate_limiter_new_def rate_limit_config_default_def rl_check_def check_with_cost_def rl_entry_def no_refill
  client_state_new_def rl_remaining_def rl_clear_def rl_clear_all_def rl_client_count_def rl_cleanup_def limiter_ip_eq Let_def from_secs_def from_millis_def
  dm_empty_def dm_get_def dm_insert_def dm_remove_def dm_retain_def as_millis_u64_def saturating_sub_def

definition limiter_test_rate_limit_config_default :: bool where
  "limiter_test_rate_limit_config_default \<longleftrightarrow>
     rl_max_requests rate_limit_config_default = 100 \<and> rl_window rate_limit_config_default = from_secs 1 \<and> rl_burst_size rate_limit_config_default = 10"

definition limiter_test_rate_limiter_new :: bool where
  "limiter_test_rate_limiter_new \<longleftrightarrow>
     rl_client_count (rate_limiter_new rate_limit_config_default) = 0"

definition limiter_test_rate_limiter_default :: bool where
  "limiter_test_rate_limiter_default \<longleftrightarrow>
     rl_client_count rate_limiter_default = 0"

definition limiter_test_check_allows_initial_burst :: bool where
  "limiter_test_check_allows_initial_burst \<longleftrightarrow>
     fst (checks 0 (let ip = limiter_test_ip 1 in [ip, ip, ip, ip, ip, ip]) (limiter_of 5 10 (from_secs 1))) = [True, True, True, True, True, False]"

definition limiter_test_check_different_clients_isolated :: bool where
  "limiter_test_check_different_clients_isolated \<longleftrightarrow>
     (let ip1 = limiter_test_ip 1; ip2 = limiter_test_ip 2
      in fst (checks 0 [ip1, ip1, ip1, ip2, ip2] (limiter_of 2 10 (from_secs 1))) = [True, True, False, True, True])"

definition limiter_test_remaining :: bool where
  "limiter_test_remaining \<longleftrightarrow>
     (let ip = limiter_test_ip 1; r = limiter_with 5; r1 = snd (checks 0 [ip] r); r3 = snd (checks 0 [ip, ip] r1)
      in rl_remaining r ip = 5 \<and> rl_remaining r1 ip = 4 \<and> rl_remaining r3 ip = 2)"

definition limiter_test_clear_client :: bool where
  "limiter_test_clear_client \<longleftrightarrow>
     (let ip = limiter_test_ip 1; (oks, r) = checks 0 [ip, ip, ip] (limiter_with 2)
      in oks = [True, True, False] \<and> fst (checks 0 [ip, ip] (rl_clear ip r)) = [True, True])"

definition limiter_test_clear_all :: bool where
  "limiter_test_clear_all \<longleftrightarrow>
     (let r = snd (checks 0 (map limiter_test_ip [0, 1, 2, 3, 4]) (limiter_with 1))
      in rl_client_count r = 5 \<and> rl_client_count (rl_clear_all r) = 0)"

definition limiter_test_check_with_cost :: bool where
  "limiter_test_check_with_cost \<longleftrightarrow>
     (let ip = limiter_test_ip 1; (ok1, r1) = check_with_cost 0 0 0 ip 5 (limiter_with 10); (ok2, r2) = check_with_cost 0 0 0 ip 5 r1
      in ok1 \<and> rl_remaining r1 ip = 5 \<and> ok2 \<and> rl_remaining r2 ip = 0 \<and> \<not> fst (check_with_cost 0 0 0 ip 1 r2))"

definition limiter_test_check_with_cost_too_high :: bool where
  "limiter_test_check_with_cost_too_high \<longleftrightarrow>
     (let ip = limiter_test_ip 1; (ok, r) = check_with_cost 0 0 0 ip 10 (limiter_with 5) in \<not> ok \<and> rl_remaining r ip = 5)"

definition limiter_test_cleanup_removes_stale :: bool where
  "limiter_test_cleanup_removes_stale \<longleftrightarrow>
     (let r = snd (checks 0 (map limiter_test_ip [0, 1, 2, 3, 4]) rate_limiter_default)
      in rl_client_count r = 5 \<and> rl_client_count (rl_cleanup 10 (from_millis 1) r) = 0)"

definition limiter_test_cleanup_keeps_recent :: bool where
  "limiter_test_cleanup_keeps_recent \<longleftrightarrow>
     rl_client_count (rl_cleanup 0 (from_secs 60) (snd (checks 0 [limiter_test_ip 1] rate_limiter_default))) = 1"

definition limiter_test_refill_over_time :: bool where
  "limiter_test_refill_over_time \<longleftrightarrow>
     (let ip = limiter_test_ip 1; (oks, r) = checks 0 [ip, ip, ip] (limiter_of 2 1000 (from_millis 100))
      in oks = [True, True, False] \<and> fst (checks 50 [ip] r) = [True])"

definition limiter_test_rate_limit_result_eq :: bool where
  "limiter_test_rate_limit_result_eq \<longleftrightarrow>
     Allowed 5 = Allowed 5 \<and> Allowed 5 \<noteq> Allowed 10 \<and> Allowed 5 \<noteq> Limited 100"

definition limiter_test_remaining_unknown_client :: bool where
  "limiter_test_remaining_unknown_client \<longleftrightarrow>
     rl_remaining (limiter_with 42) (limiter_test_ip 99) = 42"

definition limiter_test_ipv6_client :: bool where
  "limiter_test_ipv6_client \<longleftrightarrow>
     fst (checks 0 [IpV6 1, IpV6 1, IpV6 1, IpV6 1] (limiter_with 3)) = [True, True, True, False]"

definition limiter_test_zero_cost_check :: bool where
  "limiter_test_zero_cost_check \<longleftrightarrow>
     (let ip = limiter_test_ip 1; (ok1, r1) = check_with_cost 0 0 0 ip 0 (limiter_with 1); (ok2, r2) = check_with_cost 0 0 0 ip 0 r1
      in ok1 \<and> ok2 \<and> rl_remaining r2 ip = 1)"

definition limiter_test_clear_nonexistent_client :: bool where
  "limiter_test_clear_nonexistent_client \<longleftrightarrow>
     rl_client_count (rl_clear (limiter_test_ip 99) rate_limiter_default) = 0"

definition limiter_test_high_refill_rate :: bool where
  "limiter_test_high_refill_rate \<longleftrightarrow>
     (let ip = limiter_test_ip 1; (oks, r) = checks 0 [ip, ip] (limiter_of 1 1000000 (from_secs 1))
      in oks = [True, False] \<and> fst (checks 10 [ip] r) = [True])"

lemma limiter_tests:
  "limiter_test_rate_limit_config_default" "limiter_test_rate_limit_result_eq"
  by code_simp+

lemma limiter_tests_2:
  "limiter_test_rate_limiter_new" "limiter_test_rate_limiter_default" "limiter_test_check_allows_initial_burst"
  "limiter_test_check_different_clients_isolated" "limiter_test_remaining" "limiter_test_clear_client"
  by (simp_all add: limiter_eval
      limiter_test_rate_limiter_new_def limiter_test_rate_limiter_default_def limiter_test_check_allows_initial_burst_def
      limiter_test_check_different_clients_isolated_def limiter_test_remaining_def limiter_test_clear_client_def)

lemma limiter_tests_3:
  "limiter_test_clear_all" "limiter_test_check_with_cost" "limiter_test_check_with_cost_too_high" "limiter_test_cleanup_removes_stale"
  "limiter_test_cleanup_keeps_recent" "limiter_test_refill_over_time"
  by (simp_all add: limiter_eval
      limiter_test_clear_all_def limiter_test_check_with_cost_def limiter_test_check_with_cost_too_high_def
      limiter_test_cleanup_removes_stale_def limiter_test_cleanup_keeps_recent_def limiter_test_refill_over_time_def)

lemma limiter_tests_4:
  "limiter_test_remaining_unknown_client" "limiter_test_ipv6_client" "limiter_test_zero_cost_check" "limiter_test_clear_nonexistent_client"
  "limiter_test_high_refill_rate"
  by (simp_all add: limiter_eval
      limiter_test_remaining_unknown_client_def limiter_test_ipv6_client_def limiter_test_zero_cost_check_def
      limiter_test_clear_nonexistent_client_def limiter_test_high_refill_rate_def)

section \<open>\<^verbatim>\<open>src/infrastructure/shutdown.rs\<close>\<close>

definition drain_test_shutdown_controller_new :: bool where
  "drain_test_shutdown_controller_new \<longleftrightarrow>
     \<not> is_shutdown shutdown_controller_new \<and> active_connections shutdown_controller_new = 0"

definition drain_test_shutdown_initiates_once :: bool where
  "drain_test_shutdown_initiates_once \<longleftrightarrow>
     (let c = initiate_shutdown shutdown_controller_new in is_shutdown c \<and> is_shutdown (initiate_shutdown c))"

definition drain_test_connection_tracking :: bool where
  "drain_test_connection_tracking \<longleftrightarrow>
     (let c1 = connection_started shutdown_controller_new; c2 = connection_started c1; c3 = snd (connection_ended c2); c4 = snd (connection_ended c3)
      in map active_connections [c1, c2, c3, c4] = [1, 2, 1, 0])"

definition drain_test_connection_guard :: bool where
  "drain_test_connection_guard \<longleftrightarrow>
     (let c = connection_guard shutdown_controller_new
      in active_connections shutdown_controller_new = 0 \<and> active_connections c = 1 \<and> active_connections (snd (guard_drop c)) = 0)"

definition drain_test_multiple_connection_guards :: bool where
  "drain_test_multiple_connection_guards \<longleftrightarrow>
     (let c3 = (connection_guard ^^ 3) shutdown_controller_new; c2 = snd (guard_drop c3); c0 = snd (guard_drop (snd (guard_drop c2)))
      in map active_connections [c3, c2, c0] = [3, 2, 0])"

definition drain_test_subscribe_receives_shutdown :: bool where
  "drain_test_subscribe_receives_shutdown \<longleftrightarrow>
     (let rx = sd_subscribe shutdown_controller_new in 0 < sd_received rx (initiate_shutdown shutdown_controller_new))"

definition drain_test_wait_for_drain_immediate :: bool where
  "drain_test_wait_for_drain_immediate \<longleftrightarrow>
     wait_start (initiate_shutdown shutdown_controller_new) = Returned True"

definition drain_test_wait_for_drain_with_connections :: bool where
  "drain_test_wait_for_drain_with_connections \<longleftrightarrow>
     (let c = initiate_shutdown (connection_guard shutdown_controller_new); (notifies, c') = guard_drop c
      in wait_start c = Checked \<and> notifies \<and> wait_notified Registered = Returned True)"

definition drain_test_wait_for_drain_timeout :: bool where
  "drain_test_wait_for_drain_timeout \<longleftrightarrow>
     (let c = initiate_shutdown (connection_guard shutdown_controller_new)
      in wait_start c = Checked \<and> wait_timeout Registered = Returned False)"

definition drain_test_clone :: bool where
  "drain_test_clone \<longleftrightarrow>
     (let c = connection_started shutdown_controller_new in active_connections c = 1 \<and> is_shutdown (initiate_shutdown c))"

definition drain_test_connection_ended_without_shutdown :: bool where
  "drain_test_connection_ended_without_shutdown \<longleftrightarrow>
     (let c = connection_started shutdown_controller_new; (notifies, c') = connection_ended c
      in active_connections c = 1 \<and> \<not> notifies \<and> active_connections c' = 0)"

definition drain_test_connection_ended_not_last_connection :: bool where
  "drain_test_connection_ended_not_last_connection \<longleftrightarrow>
     (let c = initiate_shutdown (connection_started (connection_started shutdown_controller_new)); (n1, c1) = connection_ended c; (n2, c2) = connection_ended c1
      in \<not> n1 \<and> active_connections c1 = 1 \<and> n2 \<and> active_connections c2 = 0)"

definition drain_test_multiple_subscribers :: bool where
  "drain_test_multiple_subscribers \<longleftrightarrow>
     (let rx1 = sd_subscribe shutdown_controller_new; rx2 = sd_subscribe shutdown_controller_new; rx3 = sd_subscribe shutdown_controller_new;
          c = initiate_shutdown shutdown_controller_new
      in 0 < sd_received rx1 c \<and> 0 < sd_received rx2 c \<and> 0 < sd_received rx3 c)"

definition drain_test_wait_for_drain_no_connections_no_shutdown :: bool where
  "drain_test_wait_for_drain_no_connections_no_shutdown \<longleftrightarrow>
     wait_start shutdown_controller_new = Returned True"

definition drain_test_connection_guard_with_clone :: bool where
  "drain_test_connection_guard_with_clone \<longleftrightarrow>
     (let c = connection_guard (connection_guard shutdown_controller_new)
      in active_connections c = 2 \<and> active_connections (snd (guard_drop (snd (guard_drop c)))) = 0)"

definition drain_test_shutdown_broadcast_no_receivers :: bool where
  "drain_test_shutdown_broadcast_no_receivers \<longleftrightarrow>
     is_shutdown (initiate_shutdown shutdown_controller_new)"

definition drain_test_active_connections_atomic :: bool where
  "drain_test_active_connections_atomic \<longleftrightarrow>
     (let c = (connection_started ^^ 100) shutdown_controller_new
      in active_connections c = 100 \<and> active_connections (((\<lambda>c. snd (connection_ended c)) ^^ 100) c) = 0)"

definition drain_test_drain_with_guard_drop_during_wait :: bool where
  "drain_test_drain_with_guard_drop_during_wait \<longleftrightarrow>
     (let c = initiate_shutdown (connection_guard shutdown_controller_new); (notifies, c') = guard_drop c
      in wait_start c = Checked \<and> notifies \<and> wait_notified Registered = Returned True)"

lemma drain_tests_counted: "drain_test_active_connections_atomic"
proof -
  have started: "sd_active_connections ((connection_started ^^ n) c) = sd_active_connections c + of_nat n" for n c
    by (induction n) (simp_all add: connection_started_def)
  have ended: "sd_active_connections (((\<lambda>c. snd (connection_ended c)) ^^ n) c) = sd_active_connections c - of_nat n" for n c
    by (induction n) (simp_all add: connection_ended_def connection_dec_def)
  show ?thesis
    unfolding drain_test_active_connections_atomic_def Let_def active_connections_def started ended
    by (simp add: shutdown_controller_new_def)
qed

lemma drain_tests:
  "drain_test_shutdown_controller_new" "drain_test_shutdown_initiates_once" "drain_test_connection_tracking" "drain_test_connection_guard"
  "drain_test_multiple_connection_guards" "drain_test_subscribe_receives_shutdown"
  by code_simp+

lemma drain_tests_2:
  "drain_test_wait_for_drain_immediate" "drain_test_wait_for_drain_with_connections" "drain_test_wait_for_drain_timeout" "drain_test_clone"
  "drain_test_connection_ended_without_shutdown" "drain_test_connection_ended_not_last_connection"
  by code_simp+

lemma drain_tests_3:
  "drain_test_multiple_subscribers" "drain_test_wait_for_drain_no_connections_no_shutdown" "drain_test_connection_guard_with_clone"
  "drain_test_shutdown_broadcast_no_receivers" "drain_test_drain_with_guard_drop_during_wait"
  by code_simp+

end
