(* ===== verification/Tests_Services.thy ===== *)
theory Tests_Services
  imports Health_Checker Connection_Pool Config_Watcher "HOL-Library.Code_Target_Nat"
begin

text \<open>
  The unit tests of the health checker, the connection pool and the configuration watcher (\<^verbatim>\<open>src/infrastructure\<close>), run on the model. What a test sets up on
  the network or in the file system is the argument that stands for it in the model.
\<close>

text \<open>\<^verbatim>\<open>str::contains\<close>.\<close>

fun str_contains :: "string \<Rightarrow> string \<Rightarrow> bool" where
  "str_contains [] t \<longleftrightarrow> t = []"
| "str_contains (c # s) t \<longleftrightarrow> take (length t) (c # s) = t \<or> str_contains s t"

section \<open>\<^verbatim>\<open>src/infrastructure/health_checker.rs\<close>\<close>

definition health_create_test_backend :: "u16 \<Rightarrow> backend" where
  "health_create_test_backend port =
     \<lparr>bk_id = ''test-'' @ show_word port, bk_app = ''test'', bk_region = Europe, bk_country = ''DE'', bk_wg_ip = ''127.0.0.1'', bk_port = port,
      bk_healthy = True, bk_weight = 2, bk_soft_limit = 100, bk_hard_limit = 150\<rparr>"

definition listening_only :: "string \<Rightarrow> string \<Rightarrow> tcp_probe" where
  "listening_only l addr = (if addr = l then TcpConnected else if addr = ''10.255.255.1:80'' then TcpTimeout else TcpError ''refused'')"

definition no_http :: "string \<Rightarrow> http_probe" where
  "no_http url = RequestError ''none''"

text \<open>The statuses after a sequence of results for the backend \<^verbatim>\<open>b1\<close>.\<close>

definition after_results :: "health_check_config \<Rightarrow> health_check_result list \<Rightarrow> health_status option" where
  "after_results cfg rs = dm_get (fold (\<lambda>r m. fst (update_status 0 0 ''b1'' r cfg False m)) rs dm_empty) ''b1''"

definition health_test_health_check_config_default :: bool where
  "health_test_health_check_config_default \<longleftrightarrow>
     (let config = health_check_config_default
      in hc_interval config = from_secs 10 \<and> hc_timeout config = from_secs 5 \<and> hc_unhealthy_threshold config = 3 \<and> hc_healthy_threshold config = 2)"

definition health_test_health_status_default :: bool where
  "health_test_health_status_default \<longleftrightarrow>
     (let status = health_status_default 0
      in hs_healthy status \<and> hs_consecutive_failures status = 0 \<and> hs_consecutive_successes status = 0)"

definition health_test_health_check_result_is_success :: bool where
  "health_test_health_check_result_is_success \<longleftrightarrow>
     hcr_is_success (CheckSuccess 10) \<and> \<not> hcr_is_success (CheckFailure ''test'' 10)"

definition health_test_tcp_check_success :: bool where
  "health_test_tcp_check_success \<longleftrightarrow>
     tcp_check (listening_only ''127.0.0.1:4000'') ''127.0.0.1:4000'' = Inr ()"

definition health_test_tcp_check_failure :: bool where
  "health_test_tcp_check_failure \<longleftrightarrow>
     isl (tcp_check (listening_only '''') ''127.0.0.1:59999'')"

definition health_test_tcp_check_timeout :: bool where
  "health_test_tcp_check_timeout \<longleftrightarrow>
     (case tcp_check (listening_only '''') ''10.255.255.1:80'' of Inl e \<Rightarrow> str_contains e ''timeout'' | Inr _ \<Rightarrow> False)"

definition health_test_check_backend_success :: bool where
  "health_test_check_backend_success \<longleftrightarrow>
     hcr_is_success (check_backend (listening_only ''127.0.0.1:4000'') no_http 1 (health_create_test_backend 4000) health_check_config_default)"

definition health_test_check_backend_failure :: bool where
  "health_test_check_backend_failure \<longleftrightarrow>
     \<not> hcr_is_success (check_backend (listening_only '''') no_http 1 (health_create_test_backend 59999)
         (health_check_config_default\<lparr>hc_timeout := from_millis 100\<rparr>))"

definition health_test_health_checker_new :: bool where
  "health_test_health_checker_new \<longleftrightarrow>
     hk_all_statuses (health_checker_new health_check_config_default) = []"

definition health_test_is_healthy_default :: bool where
  "health_test_is_healthy_default \<longleftrightarrow>
     hk_is_healthy (health_checker_new health_check_config_default) ''unknown''"

definition health_test_get_status_none :: bool where
  "health_test_get_status_none \<longleftrightarrow>
     hk_get_status (health_checker_new health_check_config_default) ''unknown'' = None"

definition health_test_update_status_success :: bool where
  "health_test_update_status_success \<longleftrightarrow>
     (case after_results health_check_config_default [CheckSuccess 10] of
        Some s \<Rightarrow> hs_healthy s \<and> hs_consecutive_successes s = 1 \<and> hs_consecutive_failures s = 0 \<and> hs_latency_ms s = Some 10
      | None \<Rightarrow> False)"

definition health_test_update_status_failure :: bool where
  "health_test_update_status_failure \<longleftrightarrow>
     (case after_results health_check_config_default [CheckFailure ''conn refused'' 5] of
        Some s \<Rightarrow> hs_healthy s \<and> hs_consecutive_failures s = 1 \<and> hs_last_error s = Some ''conn refused''
      | None \<Rightarrow> False)"

definition health_test_update_status_becomes_unhealthy :: bool where
  "health_test_update_status_becomes_unhealthy \<longleftrightarrow>
     (let config = health_check_config_default\<lparr>hc_unhealthy_threshold := 2\<rparr>; failure = CheckFailure ''error'' 5
      in map_option hs_healthy (after_results config [failure]) = Some True
         \<and> map_option hs_healthy (after_results config [failure, failure]) = Some False)"

definition health_test_update_status_becomes_healthy :: bool where
  "health_test_update_status_becomes_healthy \<longleftrightarrow>
     (let config = health_check_config_default\<lparr>hc_unhealthy_threshold := 1, hc_healthy_threshold := 2\<rparr>;
          failure = CheckFailure ''error'' 5; success = CheckSuccess 10
      in map_option hs_healthy (after_results config [failure]) = Some False
         \<and> map_option hs_healthy (after_results config [failure, success]) = Some False
         \<and> map_option hs_healthy (after_results config [failure, success, success]) = Some True)"

definition health_test_on_health_change_callback :: bool where
  "health_test_on_health_change_callback \<longleftrightarrow>
     (let checker = hk_set_callback (health_checker_new (health_check_config_default\<lparr>hc_unhealthy_threshold := 1\<rparr>))
      in snd (update_status 0 0 ''b1'' (CheckFailure ''error'' 5) (hk_config checker) (hk_on_health_change checker) (hk_status checker)) \<noteq> [])"

definition health_test_check_once :: bool where
  "health_test_check_once \<longleftrightarrow>
     hcr_is_success (check_once (listening_only ''127.0.0.1:4000'') no_http 1 (health_create_test_backend 4000) (health_checker_new health_check_config_default))"

definition health_test_health_check_result_latency_ms :: bool where
  "health_test_health_check_result_latency_ms \<longleftrightarrow>
     hcr_latency_ms (CheckSuccess 42) = 42 \<and> hcr_latency_ms (CheckFailure ''error'' 100) = 100"

definition health_test_health_check_result_error :: bool where
  "health_test_health_check_result_error \<longleftrightarrow>
     hcr_error (CheckSuccess 10) = None \<and> hcr_error (CheckFailure ''connection refused'' 10) = Some ''connection refused''"

definition health_test_health_action_eq :: bool where
  "health_test_health_action_eq \<longleftrightarrow>
     NoChange = NoChange \<and> HealthChanged ''b1'' True = HealthChanged ''b1'' True \<and> NoChange \<noteq> HealthChanged ''b1'' True"

definition health_test_calculate_health_transition_success_stays_healthy :: bool where
  "health_test_calculate_health_transition_success_stays_healthy \<longleftrightarrow>
     (let (s, action) = calculate_health_transition (health_status_default 0) (CheckSuccess 10) health_check_config_default
      in hs_healthy s \<and> hs_consecutive_successes s = 1 \<and> hs_consecutive_failures s = 0 \<and> hs_latency_ms s = Some 10 \<and> hs_last_error s = None
         \<and> action = NoChange)"

definition health_test_calculate_health_transition_failure_stays_healthy :: bool where
  "health_test_calculate_health_transition_failure_stays_healthy \<longleftrightarrow>
     (let (s, action) = calculate_health_transition (health_status_default 0) (CheckFailure ''timeout'' 5000)
                          (health_check_config_default\<lparr>hc_unhealthy_threshold := 3\<rparr>)
      in hs_healthy s \<and> hs_consecutive_failures s = 1 \<and> hs_consecutive_successes s = 0 \<and> hs_last_error s = Some ''timeout'' \<and> action = NoChange)"

definition health_test_calculate_health_transition_becomes_unhealthy :: bool where
  "health_test_calculate_health_transition_becomes_unhealthy \<longleftrightarrow>
     (let status = (health_status_default 0)\<lparr>hs_consecutive_failures := 2, hs_healthy := True\<rparr>;
          (s, action) = calculate_health_transition status (CheckFailure ''error'' 100) (health_check_config_default\<lparr>hc_unhealthy_threshold := 3\<rparr>)
      in \<not> hs_healthy s \<and> hs_consecutive_failures s = 3 \<and> (case action of HealthChanged _ healthy \<Rightarrow> \<not> healthy | NoChange \<Rightarrow> False))"

definition health_test_calculate_health_transition_becomes_healthy :: bool where
  "health_test_calculate_health_transition_becomes_healthy \<longleftrightarrow>
     (let status = (health_status_default 0)\<lparr>hs_healthy := False, hs_consecutive_successes := 1\<rparr>;
          (s, action) = calculate_health_transition status (CheckSuccess 50) (health_check_config_default\<lparr>hc_healthy_threshold := 2\<rparr>)
      in hs_healthy s \<and> hs_consecutive_successes s = 2 \<and> (case action of HealthChanged _ healthy \<Rightarrow> healthy | NoChange \<Rightarrow> False))"

definition health_test_calculate_health_transition_success_clears_error :: bool where
  "health_test_calculate_health_transition_success_clears_error \<longleftrightarrow>
     (let status = (health_status_default 0)\<lparr>hs_last_error := Some ''previous error'', hs_consecutive_failures := 5\<rparr>;
          (s, action) = calculate_health_transition status (CheckSuccess 10) health_check_config_default
      in hs_last_error s = None \<and> hs_consecutive_failures s = 0)"

definition health_test_build_backend_addr :: bool where
  "health_test_build_backend_addr \<longleftrightarrow>
     build_backend_addr (health_create_test_backend 8080) = ''127.0.0.1:8080''"

definition health_test_should_mark_unhealthy :: bool where
  "health_test_should_mark_unhealthy \<longleftrightarrow>
     (let status = (health_status_default 0)\<lparr>hs_healthy := True, hs_consecutive_failures := 2\<rparr>
      in \<not> should_mark_unhealthy status 3 \<and> should_mark_unhealthy (status\<lparr>hs_consecutive_failures := 3\<rparr>) 3
         \<and> \<not> should_mark_unhealthy (status\<lparr>hs_consecutive_failures := 3, hs_healthy := False\<rparr>) 3)"

definition health_test_should_mark_healthy :: bool where
  "health_test_should_mark_healthy \<longleftrightarrow>
     (let status = (health_status_default 0)\<lparr>hs_healthy := False, hs_consecutive_successes := 1\<rparr>
      in \<not> should_mark_healthy status 2 \<and> should_mark_healthy (status\<lparr>hs_consecutive_successes := 2\<rparr>) 2
         \<and> \<not> should_mark_healthy (status\<lparr>hs_consecutive_successes := 2, hs_healthy := True\<rparr>) 2)"

definition health_test_health_check_config_custom :: bool where
  "health_test_health_check_config_custom \<longleftrightarrow>
     (let config = \<lparr>hc_interval = from_secs 30, hc_timeout = from_secs 10, hc_unhealthy_threshold = 5, hc_healthy_threshold = 3,
                    hc_check_type = Http ''/health''\<rparr>
      in hc_interval config = from_secs 30 \<and> hc_timeout config = from_secs 10 \<and> hc_unhealthy_threshold config = 5 \<and> hc_healthy_threshold config = 3)"

lemma health_tests:
  "health_test_health_check_config_default" "health_test_health_status_default" "health_test_health_check_result_is_success"
  "health_test_tcp_check_success" "health_test_tcp_check_failure" "health_test_tcp_check_timeout"
  by code_simp+

lemma health_tests_2:
  "health_test_check_backend_success" "health_test_check_backend_failure" "health_test_health_checker_new" "health_test_is_healthy_default"
  "health_test_get_status_none" "health_test_update_status_success"
  by code_simp+

lemma health_tests_3:
  "health_test_update_status_failure" "health_test_update_status_becomes_unhealthy" "health_test_update_status_becomes_healthy"
  "health_test_on_health_change_callback" "health_test_check_once" "health_test_health_check_result_latency_ms"
  by code_simp+

lemma health_tests_4:
  "health_test_health_check_result_error" "health_test_health_action_eq" "health_test_calculate_health_transition_success_stays_healthy"
  "health_test_calculate_health_transition_failure_stays_healthy" "health_test_calculate_health_transition_becomes_unhealthy"
  "health_test_calculate_health_transition_becomes_healthy"
  by code_simp+

lemma health_tests_5:
  "health_test_calculate_health_transition_success_clears_error" "health_test_build_backend_addr" "health_test_should_mark_unhealthy"
  "health_test_should_mark_healthy" "health_test_health_check_config_custom"
  by code_simp+

section \<open>\<^verbatim>\<open>src/infrastructure/connection_pool.rs\<close>\<close>

text \<open>\<open>unwrap\<close> of an acquired connection.\<close>

fun unwrap_conn :: "(pool_error + pooled_connection) \<times> connection_pool \<Rightarrow> (pooled_connection \<Rightarrow> connection_pool \<Rightarrow> bool) \<Rightarrow> bool" where
  "unwrap_conn (Inr conn, cp) k = k conn cp"
| "unwrap_conn (Inl _, cp) k = False"

abbreviation pool_of :: connection_pool where
  "pool_of \<equiv> connection_pool_new pool_config_default"

abbreviation acquire_at :: "instant \<Rightarrow> nat \<Rightarrow> string \<Rightarrow> string \<Rightarrow> connection_pool \<Rightarrow> (pool_error + pooled_connection) \<times> connection_pool" where
  "acquire_at now stream \<equiv> acquire now now (Connected stream)"

abbreviation in_use_of :: "connection_pool \<Rightarrow> string \<Rightarrow> usize option" where
  "in_use_of cp i \<equiv> map_option ps_in_use (pool_stats_of cp i)"

definition pool_test_pool_config_default :: bool where
  "pool_test_pool_config_default \<longleftrightarrow>
     pl_max_connections pool_config_default = 10 \<and> pl_min_idle pool_config_default = 2 \<and> pl_idle_timeout pool_config_default = from_secs 300"

definition pool_test_pool_error_display :: bool where
  "pool_test_pool_error_display \<longleftrightarrow>
     pool_error_display PoolExhausted = ''connection pool exhausted'' \<and> pool_error_display (ConnectError ''test'') = ''connection error: test''
     \<and> pool_error_display ConnectTimeout = ''connection timeout''"

definition pool_test_connection_pool_new :: bool where
  "pool_test_connection_pool_new \<longleftrightarrow>
     cp_pools pool_of = []"

definition pool_test_connection_pool_default :: bool where
  "pool_test_connection_pool_default \<longleftrightarrow>
     cp_pools connection_pool_default = []"

definition pool_test_acquire_creates_connection :: bool where
  "pool_test_acquire_creates_connection \<longleftrightarrow>
     unwrap_conn (acquire_at 0 1 ''b1'' ''127.0.0.1:4000'' pool_of) (\<lambda>conn cp. True)"

definition pool_test_acquire_connect_error :: bool where
  "pool_test_acquire_connect_error \<longleftrightarrow>
     (let pool = connection_pool_new (pool_config_default\<lparr>pl_connect_timeout := from_millis 100\<rparr>)
      in case fst (acquire 0 0 (Refused ''refused'') ''b1'' ''127.0.0.1:59999'' pool) of Inl (ConnectError _) \<Rightarrow> True | _ \<Rightarrow> False)"

definition pool_test_acquire_timeout :: bool where
  "pool_test_acquire_timeout \<longleftrightarrow>
     (let pool = connection_pool_new (pool_config_default\<lparr>pl_connect_timeout := from_millis 50\<rparr>)
      in fst (acquire 0 0 TimedOut ''b1'' ''10.255.255.1:80'' pool) = Inl ConnectTimeout)"

definition pool_test_release_returns_connection :: bool where
  "pool_test_release_returns_connection \<longleftrightarrow>
     unwrap_conn (acquire_at 0 1 ''b1'' ''127.0.0.1:4000'' pool_of) (\<lambda>conn1 cp.
       unwrap_conn (acquire_at 0 2 ''b1'' ''127.0.0.1:4000'' (release 0 conn1 cp)) (\<lambda>conn2 cp. pc_stream conn2 = pc_stream conn1))"

definition pool_test_discard_closes_connection :: bool where
  "pool_test_discard_closes_connection \<longleftrightarrow>
     unwrap_conn (acquire_at 0 1 ''b1'' ''127.0.0.1:4000'' pool_of) (\<lambda>conn cp. in_use_of (discard conn cp) ''b1'' = Some 0)"

definition pool_test_stats :: bool where
  "pool_test_stats \<longleftrightarrow>
     unwrap_conn (acquire_at 0 1 ''b1'' ''127.0.0.1:4000'' pool_of) (\<lambda>conn cp. in_use_of cp ''b1'' = Some 1)"

definition pool_test_stats_unknown :: bool where
  "pool_test_stats_unknown \<longleftrightarrow>
     pool_stats_of connection_pool_default ''unknown'' = None"

definition pool_test_all_stats :: bool where
  "pool_test_all_stats \<longleftrightarrow>
     unwrap_conn (acquire_at 0 1 ''b1'' ''127.0.0.1:4000'' pool_of) (\<lambda>conn1 cp.
       unwrap_conn (acquire_at 0 2 ''b2'' ''127.0.0.1:4001'' cp) (\<lambda>conn2 cp. length (pool_all_stats cp) = 2))"

definition pool_test_clear :: bool where
  "pool_test_clear \<longleftrightarrow>
     unwrap_conn (acquire_at 0 1 ''b1'' ''127.0.0.1:4000'' pool_of) (\<lambda>conn cp. cp_pools (pool_clear (release 0 conn cp)) = [])"

definition pool_test_pooled_connection_is_expired :: bool where
  "pool_test_pooled_connection_is_expired \<longleftrightarrow>
     (let conn = pooled_connection_new 0 1 ''b1'' in \<not> is_expired 2 (from_secs 60) conn \<and> is_expired 2 1 conn)"

definition pool_test_pooled_connection_is_idle_expired :: bool where
  "pool_test_pooled_connection_is_idle_expired \<longleftrightarrow>
     (let conn = pooled_connection_new 0 1 ''b1''
      in \<not> is_idle_expired 0 (from_secs 60) conn \<and> is_idle_expired (from_millis 10) (from_millis 1) conn)"

definition pool_test_pooled_connection_touch :: bool where
  "pool_test_pooled_connection_touch \<longleftrightarrow>
     (let conn = pc_touch (from_millis 10) (pooled_connection_new 0 1 ''b1'') in \<not> is_idle_expired (from_millis 10) (from_millis 5) conn)"

definition pool_test_pool_exhausted :: bool where
  "pool_test_pool_exhausted \<longleftrightarrow>
     (let pool = connection_pool_new (pool_config_default\<lparr>pl_max_connections := 2\<rparr>)
      in unwrap_conn (acquire_at 0 1 ''b1'' ''127.0.0.1:4000'' pool) (\<lambda>conn1 cp.
           unwrap_conn (acquire_at 0 2 ''b1'' ''127.0.0.1:4000'' cp) (\<lambda>conn2 cp.
             fst (acquire_at 0 3 ''b1'' ''127.0.0.1:4000'' cp) = Inl PoolExhausted)))"

definition pool_test_release_expired_connection :: bool where
  "pool_test_release_expired_connection \<longleftrightarrow>
     (let pool = connection_pool_new (pool_config_default\<lparr>pl_max_lifetime := from_millis 1\<rparr>)
      in unwrap_conn (acquire_at 0 1 ''b1'' ''127.0.0.1:4000'' pool) (\<lambda>conn cp. in_use_of (release (from_millis 10) conn cp) ''b1'' = Some 0))"

definition pool_test_release_to_full_pool :: bool where
  "pool_test_release_to_full_pool \<longleftrightarrow>
     (let pool = connection_pool_new (pool_config_default\<lparr>pl_max_connections := 1\<rparr>)
      in unwrap_conn (acquire_at 0 1 ''b1'' ''127.0.0.1:4000'' pool) (\<lambda>conn1 cp.
           unwrap_conn (acquire_at 0 2 ''b1'' ''127.0.0.1:4000'' (release 0 conn1 cp)) (\<lambda>conn2 cp. in_use_of (release 0 conn2 cp) ''b1'' = Some 0)))"

definition pool_test_acquire_discards_expired_pool_connections :: bool where
  "pool_test_acquire_discards_expired_pool_connections \<longleftrightarrow>
     (let pool = connection_pool_new (pool_config_default\<lparr>pl_max_lifetime := from_millis 50\<rparr>)
      in unwrap_conn (acquire_at 0 1 ''b1'' ''127.0.0.1:4000'' pool) (\<lambda>conn cp.
           unwrap_conn (acquire_at (from_millis 100) 2 ''b1'' ''127.0.0.1:4000'' (release 0 conn cp)) (\<lambda>conn2 cp. pc_stream conn2 = 2)))"

definition pool_test_acquire_discards_idle_pool_connections :: bool where
  "pool_test_acquire_discards_idle_pool_connections \<longleftrightarrow>
     (let pool = connection_pool_new (pool_config_default\<lparr>pl_idle_timeout := from_millis 50, pl_max_lifetime := from_secs 60\<rparr>)
      in unwrap_conn (acquire_at 0 1 ''b1'' ''127.0.0.1:4000'' pool) (\<lambda>conn cp.
           unwrap_conn (acquire_at (from_millis 100) 2 ''b1'' ''127.0.0.1:4000'' (release 0 conn cp)) (\<lambda>conn2 cp. pc_stream conn2 = 2)))"

definition pool_test_pool_error_eq :: bool where
  "pool_test_pool_error_eq \<longleftrightarrow>
     PoolExhausted = PoolExhausted \<and> ConnectError ''test'' = ConnectError ''test'' \<and> PoolExhausted \<noteq> ConnectTimeout"

definition pool_test_discard_unknown_backend :: bool where
  "pool_test_discard_unknown_backend \<longleftrightarrow>
     unwrap_conn (acquire_at 0 1 ''b1'' ''127.0.0.1:4000'' pool_of) (\<lambda>conn cp. cp_pools (discard conn (cp\<lparr>cp_pools := dm_empty\<rparr>)) = [])"

definition pool_test_release_unknown_backend :: bool where
  "pool_test_release_unknown_backend \<longleftrightarrow>
     unwrap_conn (acquire_at 0 1 ''b1'' ''127.0.0.1:4000'' pool_of) (\<lambda>conn cp. cp_pools (release 0 conn (cp\<lparr>cp_pools := dm_empty\<rparr>)) = [])"

definition pool_test_multiple_acquires_releases :: bool where
  "pool_test_multiple_acquires_releases \<longleftrightarrow>
     (let pool = connection_pool_new (pool_config_default\<lparr>pl_max_connections := 5\<rparr>)
      in unwrap_conn (acquire_at 0 1 ''b1'' ''127.0.0.1:4000'' pool) (\<lambda>conn1 cp.
           unwrap_conn (acquire_at 0 2 ''b1'' ''127.0.0.1:4000'' cp) (\<lambda>conn2 cp.
             unwrap_conn (acquire_at 0 3 ''b1'' ''127.0.0.1:4000'' cp) (\<lambda>conn3 cp.
               in_use_of (fold (release 0) [conn1, conn2, conn3] cp) ''b1'' = Some 0))))"

definition pool_test_get_or_create_pool_multiple_backends :: bool where
  "pool_test_get_or_create_pool_multiple_backends \<longleftrightarrow>
     (let (p1, cp) = get_or_create_pool ''b1'' ''127.0.0.1:8081'' connection_pool_default; (p2, cp) = get_or_create_pool ''b2'' ''127.0.0.1:8082'' cp;
          (p3, cp) = get_or_create_pool ''b1'' ''127.0.0.1:8081'' cp
      in length (cp_pools cp) = 2 \<and> bp_addr (cp_heap cp ! p1) = bp_addr (cp_heap cp ! p3) \<and> bp_addr (cp_heap cp ! p1) \<noteq> bp_addr (cp_heap cp ! p2))"

definition pool_test_backend_pool_total_connections :: bool where
  "pool_test_backend_pool_total_connections \<longleftrightarrow>
     (let bp = backend_pool_new ''127.0.0.1:8080''
      in total_connections bp = 0 \<and> total_connections (bp\<lparr>bp_in_use := bp_in_use bp + 5\<rparr>) = 5)"

definition pool_test_clear_with_multiple_backends :: bool where
  "pool_test_clear_with_multiple_backends \<longleftrightarrow>
     unwrap_conn (acquire_at 0 1 ''b1'' ''127.0.0.1:4000'' pool_of) (\<lambda>conn1 cp.
       unwrap_conn (acquire_at 0 2 ''b2'' ''127.0.0.1:4001'' cp) (\<lambda>conn2 cp.
         let cp = release 0 conn2 (release 0 conn1 cp) in length (cp_pools cp) = 2 \<and> cp_pools (pool_clear cp) = []))"

definition pool_test_pool_stats_addr :: bool where
  "pool_test_pool_stats_addr \<longleftrightarrow>
     unwrap_conn (acquire_at 0 1 ''b1'' ''127.0.0.1:4000'' pool_of) (\<lambda>conn cp. map_option ps_addr (pool_stats_of cp ''b1'') = Some ''127.0.0.1:4000'')"

lemma pool_tests:
  "pool_test_pool_config_default" "pool_test_pool_error_display" "pool_test_connection_pool_new" "pool_test_connection_pool_default"
  "pool_test_acquire_creates_connection" "pool_test_acquire_connect_error"
  by code_simp+

lemma pool_tests_2:
  "pool_test_acquire_timeout" "pool_test_release_returns_connection" "pool_test_discard_closes_connection" "pool_test_stats"
  "pool_test_stats_unknown" "pool_test_all_stats"
  by code_simp+

lemma pool_tests_3:
  "pool_test_clear" "pool_test_pooled_connection_is_expired" "pool_test_pooled_connection_is_idle_expired"
  "pool_test_pooled_connection_touch" "pool_test_pool_exhausted" "pool_test_release_expired_connection"
  by code_simp+

lemma pool_tests_4:
  "pool_test_release_to_full_pool" "pool_test_acquire_discards_expired_pool_connections" "pool_test_acquire_discards_idle_pool_connections"
  "pool_test_pool_error_eq" "pool_test_discard_unknown_backend" "pool_test_release_unknown_backend"
  by code_simp+

lemma pool_tests_5:
  "pool_test_multiple_acquires_releases" "pool_test_get_or_create_pool_multiple_backends" "pool_test_backend_pool_total_connections"
  "pool_test_clear_with_multiple_backends" "pool_test_pool_stats_addr"
  by code_simp+

section \<open>\<^verbatim>\<open>src/infrastructure/config_watcher.rs\<close>\<close>

definition files_at :: "(path \<times> nat) list \<Rightarrow> file_system" where
  "files_at files p = (case map_of files p of Some mtime \<Rightarrow> Inr (Inr mtime) | None \<Rightarrow> Inl ''not found'')"

definition watcher_test_config_watcher_new :: bool where
  "watcher_test_config_watcher_new \<longleftrightarrow>
     cw_poll_interval (config_watcher_new (from_secs 10)) = from_secs 10"

definition watcher_test_config_watcher_default :: bool where
  "watcher_test_config_watcher_default \<longleftrightarrow>
     cw_poll_interval config_watcher_default = from_secs 5"

definition watcher_test_watch_file :: bool where
  "watcher_test_watch_file \<longleftrightarrow>
     (let (result, w) = watch_file (files_at [(''/tmp/a'', 1)]) ''/tmp/a'' config_watcher_default in result = Inr () \<and> watched_count w = 1)"

definition watcher_test_watch_nonexistent_file :: bool where
  "watcher_test_watch_nonexistent_file \<longleftrightarrow>
     (case fst (watch_file (files_at []) ''/nonexistent/file.conf'' config_watcher_default) of Inl (FileError _ _) \<Rightarrow> True | _ \<Rightarrow> False)"

definition watcher_test_unwatch_file :: bool where
  "watcher_test_unwatch_file \<longleftrightarrow>
     (let w = snd (watch_file (files_at [(''/tmp/a'', 1)]) ''/tmp/a'' config_watcher_default)
      in watched_count w = 1 \<and> watched_count (unwatch_file ''/tmp/a'' w) = 0)"

definition watcher_test_set_and_get :: bool where
  "watcher_test_set_and_get \<longleftrightarrow>
     (let w = cw_set ''key1'' ''value1'' config_watcher_default in cw_get w ''key1'' = Some ''value1'' \<and> cw_get w ''nonexistent'' = None)"

definition watcher_test_get_or :: bool where
  "watcher_test_get_or \<longleftrightarrow>
     (let w = cw_set ''key1'' ''value1'' config_watcher_default
      in cw_get_or w ''key1'' ''default'' = ''value1'' \<and> cw_get_or w ''nonexistent'' ''default'' = ''default'')"

definition watcher_test_get_all :: bool where
  "watcher_test_get_all \<longleftrightarrow>
     (let all = cw_get_all (cw_set ''key2'' ''value2'' (cw_set ''key1'' ''value1'' config_watcher_default))
      in length all = 2 \<and> dm_get all ''key1'' = Some ''value1'' \<and> dm_get all ''key2'' = Some ''value2'')"

definition watcher_test_subscribe_value_change :: bool where
  "watcher_test_subscribe_value_change \<longleftrightarrow>
     (let rx = cw_subscribe config_watcher_default; w = cw_set ''key1'' ''value1'' config_watcher_default
      in cw_received rx w = [ValueChanged ''key1'' None ''value1''])"

definition watcher_test_subscribe_value_update :: bool where
  "watcher_test_subscribe_value_update \<longleftrightarrow>
     (let rx = cw_subscribe config_watcher_default; w = cw_set ''key1'' ''value2'' (cw_set ''key1'' ''value1'' config_watcher_default)
      in tl (cw_received rx w) = [ValueChanged ''key1'' (Some ''value1'') ''value2''])"

definition watcher_test_no_change_on_same_value :: bool where
  "watcher_test_no_change_on_same_value \<longleftrightarrow>
     (let rx = cw_subscribe config_watcher_default; w = cw_set ''key1'' ''value1'' (cw_set ''key1'' ''value1'' config_watcher_default)
      in tl (cw_received rx w) = [])"

definition watcher_test_notify_reload :: bool where
  "watcher_test_notify_reload \<longleftrightarrow>
     (let rx = cw_subscribe config_watcher_default in cw_received rx (notify_reload config_watcher_default) = [FullReload])"

definition watcher_test_check_files_detects_modification :: bool where
  "watcher_test_check_files_detects_modification \<longleftrightarrow>
     (let w = snd (watch_file (files_at [(''/tmp/a'', 1)]) ''/tmp/a'' config_watcher_default);
          (modified, w) = check_files (files_at [(''/tmp/a'', 1)]) w
      in modified = [] \<and> fst (check_files (files_at [(''/tmp/a'', 11)]) w) = [''/tmp/a''])"

definition watcher_test_hot_value_new :: bool where
  "watcher_test_hot_value_new \<longleftrightarrow>
     hot_value_key (hot_value_new ''test_key'' (42 :: int)) = ''test_key''"

definition watcher_test_hot_value_get_set :: bool where
  "watcher_test_hot_value_get_set \<longleftrightarrow>
     (let value = hot_value_new ''key'' ''initial''
      in hot_value_get value = ''initial'' \<and> hot_value_get (hot_value_set ''updated'' value) = ''updated'')"

definition watcher_test_config_watch_error_display :: bool where
  "watcher_test_config_watch_error_display \<longleftrightarrow>
     (let err = config_watch_error_display (\<lambda>p. p) (FileError ''/test'' ''not found'')
      in str_contains err ''file error'' \<and> str_contains err ''/test'') \<and> str_contains (config_watch_error_display (\<lambda>p. p) (ParseError ''invalid'')) ''parse error''"

definition watcher_test_config_watch_error_eq :: bool where
  "watcher_test_config_watch_error_eq \<longleftrightarrow>
     FileError ''/a'' ''err'' = FileError ''/a'' ''err'' \<and> FileError ''/a'' ''err'' \<noteq> FileError ''/b'' ''err'' \<and> FileError ''/a'' ''err'' \<noteq> ParseError ''parse''"

definition watcher_test_multiple_watchers_same_file :: bool where
  "watcher_test_multiple_watchers_same_file \<longleftrightarrow>
     (let fs = files_at [(''/tmp/a'', 1)];
          w1 = snd (watch_file fs ''/tmp/a'' config_watcher_default); w2 = snd (watch_file fs ''/tmp/a'' config_watcher_default)
      in watched_count w1 = 1 \<and> watched_count w2 = 1)"

definition watcher_test_unwatch_nonexistent_file :: bool where
  "watcher_test_unwatch_nonexistent_file \<longleftrightarrow>
     watched_count (unwatch_file ''/nonexistent/file'' config_watcher_default) = 0"

definition watcher_test_check_files_handles_deleted_file :: bool where
  "watcher_test_check_files_handles_deleted_file \<longleftrightarrow>
     (let w = snd (watch_file (files_at [(''/tmp/a'', 1)]) ''/tmp/a'' config_watcher_default)
      in watched_count w = 1 \<and> fst (check_files (files_at []) w) = [])"

definition watcher_test_hot_value_multiple_updates :: bool where
  "watcher_test_hot_value_multiple_updates \<longleftrightarrow>
     fst (fold (\<lambda>i (ok, value). let value = hot_value_set i value in (ok \<and> hot_value_get value = i, value)) [1, 2, 3, 4, 5, 6, 7, 8, 9, 10]
            (True, hot_value_new ''counter'' (0 :: int)))"

definition watcher_test_hot_value_key :: bool where
  "watcher_test_hot_value_key \<longleftrightarrow>
     hot_value_key (hot_value_new ''config.database.url'' ''localhost'') = ''config.database.url''"

definition watcher_test_config_value_with_special_characters :: bool where
  "watcher_test_config_value_with_special_characters \<longleftrightarrow>
     (let w = fold (\<lambda>(k, v). cw_set k v) [(''key-with-dashes'', ''value-with-dashes''), (''key.with.dots'', ''value.with.dots''),
                    (''key_with_underscores'', ''value_with_underscores'')] config_watcher_default
      in cw_get w ''key-with-dashes'' = Some ''value-with-dashes'' \<and> cw_get w ''key.with.dots'' = Some ''value.with.dots''
         \<and> cw_get w ''key_with_underscores'' = Some ''value_with_underscores'')"

definition watcher_test_watch_multiple_files :: bool where
  "watcher_test_watch_multiple_files \<longleftrightarrow>
     watched_count (fold (\<lambda>p w. snd (watch_file (files_at [(''/tmp/1'', 1), (''/tmp/2'', 1), (''/tmp/3'', 1)]) p w))
                      [''/tmp/1'', ''/tmp/2'', ''/tmp/3''] config_watcher_default) = 3"

lemma watcher_tests:
  "watcher_test_config_watcher_new" "watcher_test_config_watcher_default" "watcher_test_watch_file" "watcher_test_watch_nonexistent_file"
  "watcher_test_unwatch_file" "watcher_test_set_and_get"
  by code_simp+

lemma watcher_tests_2:
  "watcher_test_get_or" "watcher_test_get_all" "watcher_test_subscribe_value_change" "watcher_test_subscribe_value_update"
  "watcher_test_no_change_on_same_value" "watcher_test_notify_reload"
  by code_simp+

lemma watcher_tests_3:
  "watcher_test_check_files_detects_modification" "watcher_test_hot_value_new" "watcher_test_hot_value_get_set"
  "watcher_test_config_watch_error_display" "watcher_test_config_watch_error_eq" "watcher_test_multiple_watchers_same_file"
  by code_simp+

lemma watcher_tests_4:
  "watcher_test_unwatch_nonexistent_file" "watcher_test_check_files_handles_deleted_file" "watcher_test_hot_value_multiple_updates"
  "watcher_test_hot_value_key" "watcher_test_config_value_with_special_characters" "watcher_test_watch_multiple_files"
  by code_simp+

end
