(* ===== verification/Tests_Adapters.thy ===== *)
theory Tests_Adapters
  imports Prometheus_Store Tests_Domain Tests_Services "HOL-Library.Sublist"
begin

text \<open>
  The unit tests of the outbound adapters (\<^verbatim>\<open>src/adapters/outbound\<close>), run on the model: the DashMap repositories, the Prometheus store, the SQLite and
  the PostgreSQL repository. A database that a test creates is the list of the rows it inserts; a background task that a test starts is the ticks
  that fall into the time it waits.
\<close>

section \<open>\<^verbatim>\<open>src/adapters/outbound/dashmap_binding_repo.rs\<close>\<close>

abbreviation host :: "u8 \<Rightarrow> client_key" where
  "host n \<equiv> client_key_new (ipv4 192 168 1 n)"

definition old_binding :: "string \<Rightarrow> instant \<Rightarrow> duration \<Rightarrow> binding" where
  "old_binding i now age = (binding_new now i)\<lparr>bd_last_seen := now - age\<rparr>"

abbreviation backend_id_at :: "binding_repo \<Rightarrow> client_key \<Rightarrow> string option" where
  "backend_id_at r k \<equiv> map_option bd_backend_id (binding_repo_get r k)"

definition bindrepo_test_set_and_get :: bool where
  "bindrepo_test_set_and_get \<longleftrightarrow>
     backend_id_at (binding_repo_set (host 1) (binding_new 0 ''backend-1'') binding_repo_new) (host 1) = Some ''backend-1''"

definition bindrepo_test_get_nonexistent :: bool where
  "bindrepo_test_get_nonexistent \<longleftrightarrow>
     binding_repo_get binding_repo_new (host 1) = None"

definition bindrepo_test_set_overwrites :: bool where
  "bindrepo_test_set_overwrites \<longleftrightarrow>
     backend_id_at (binding_repo_set (host 1) (binding_new 1 ''backend-2'') (binding_repo_set (host 1) (binding_new 0 ''backend-1'') binding_repo_new)) (host 1)
       = Some ''backend-2''"

definition bindrepo_test_ipv6_key :: bool where
  "bindrepo_test_ipv6_key \<longleftrightarrow>
     backend_id_at (binding_repo_set (client_key_new (IpV6 1)) (binding_new 0 ''backend-v6'') binding_repo_new) (client_key_new (IpV6 1)) = Some ''backend-v6''"

definition bindrepo_test_remove :: bool where
  "bindrepo_test_remove \<longleftrightarrow>
     (let repo = binding_repo_set (host 1) (binding_new 0 ''backend-1'') binding_repo_new
      in binding_repo_get repo (host 1) \<noteq> None \<and> binding_repo_get (binding_repo_remove (host 1) repo) (host 1) = None)"

definition bindrepo_test_remove_nonexistent_does_not_panic :: bool where
  "bindrepo_test_remove_nonexistent_does_not_panic \<longleftrightarrow>
     binding_repo_remove (host 1) binding_repo_new = binding_repo_new"

definition bindrepo_test_touch_updates_last_seen :: bool where
  "bindrepo_test_touch_updates_last_seen \<longleftrightarrow>
     (let now = from_secs 1000; binding = old_binding ''backend-1'' now (from_secs 100);
          repo = binding_repo_touch now (host 1) (binding_repo_set (host 1) binding binding_repo_new)
      in (case binding_repo_get repo (host 1) of Some result \<Rightarrow> bd_last_seen binding < bd_last_seen result | None \<Rightarrow> False))"

definition bindrepo_test_touch_nonexistent_does_not_panic :: bool where
  "bindrepo_test_touch_nonexistent_does_not_panic \<longleftrightarrow>
     binding_repo_touch 5 (host 1) binding_repo_new = binding_repo_new"

definition bindrepo_test_cleanup_expired :: bool where
  "bindrepo_test_cleanup_expired \<longleftrightarrow>
     (let now = from_secs 1000;
          (repo, removed) = binding_repo_cleanup_expired now (from_secs 50)
            (binding_repo_set (host 1) (old_binding ''backend-1'' now (from_secs 100)) binding_repo_new)
      in removed = 1 \<and> binding_repo_get repo (host 1) = None)"

definition bindrepo_test_cleanup_keeps_fresh_bindings :: bool where
  "bindrepo_test_cleanup_keeps_fresh_bindings \<longleftrightarrow>
     (let now = from_secs 1000;
          (repo, removed) = binding_repo_cleanup_expired now (from_secs 100) (binding_repo_set (host 1) (binding_new now ''backend-1'') binding_repo_new)
      in removed = 0 \<and> binding_repo_get repo (host 1) \<noteq> None)"

definition bindrepo_test_cleanup_mixed_bindings :: bool where
  "bindrepo_test_cleanup_mixed_bindings \<longleftrightarrow>
     (let now = from_secs 1000;
          repo = binding_repo_set (host 2) (binding_new now ''backend-2'')
            (binding_repo_set (host 1) (old_binding ''backend-1'' now (from_secs 100)) binding_repo_new);
          (repo, removed) = binding_repo_cleanup_expired now (from_secs 50) repo
      in removed = 1 \<and> binding_repo_get repo (host 1) = None \<and> binding_repo_get repo (host 2) \<noteq> None)"

definition bindrepo_test_count_empty :: bool where
  "bindrepo_test_count_empty \<longleftrightarrow>
     binding_repo_count binding_repo_new = 0"

definition bindrepo_test_count_after_additions :: bool where
  "bindrepo_test_count_after_additions \<longleftrightarrow>
     binding_repo_count (fold (\<lambda>i. binding_repo_set (host i) (binding_new 0 (''backend-'' @ show_word i))) [0, 1, 2, 3, 4] binding_repo_new) = 5"

definition bindrepo_test_count_after_removal :: bool where
  "bindrepo_test_count_after_removal \<longleftrightarrow>
     (let repo = binding_repo_set (host 2) (binding_new 0 ''backend-2'') (binding_repo_set (host 1) (binding_new 0 ''backend-1'') binding_repo_new)
      in binding_repo_count repo = 2 \<and> binding_repo_count (binding_repo_remove (host 1) repo) = 1)"

definition bindrepo_test_inner_access :: bool where
  "bindrepo_test_inner_access \<longleftrightarrow>
     length (binding_repo_inner (binding_repo_set (host 1) (binding_new 0 ''backend-1'') binding_repo_new)) = 1"

definition bindrepo_test_default :: bool where
  "bindrepo_test_default \<longleftrightarrow>
     binding_repo_count binding_repo_default = 0"

definition bindrepo_test_multiple_clients_isolated :: bool where
  "bindrepo_test_multiple_clients_isolated \<longleftrightarrow>
     (let key1 = client_key_new (ipv4 10 0 0 1); key2 = client_key_new (ipv4 10 0 0 2); key3 = client_key_new (ipv4 10 0 0 3);
          repo = binding_repo_set key3 (binding_new 0 ''backend-1'')
            (binding_repo_set key2 (binding_new 0 ''backend-2'') (binding_repo_set key1 (binding_new 0 ''backend-1'') binding_repo_new))
      in backend_id_at repo key1 = Some ''backend-1'' \<and> backend_id_at repo key2 = Some ''backend-2'' \<and> backend_id_at repo key3 = Some ''backend-1'')"

definition bindrepo_test_start_gc_removes_expired_bindings :: bool where
  "bindrepo_test_start_gc_removes_expired_bindings \<longleftrightarrow>
     (let now = from_secs 10; repo = binding_repo_set (host 1) (old_binding ''backend-1'' now (from_millis 200)) binding_repo_new
      in binding_repo_get repo (host 1) \<noteq> None
         \<and> binding_repo_get (binding_gc (from_millis 100) [now, now + from_millis 50] repo) (host 1) = None)"

definition bindrepo_test_start_gc_keeps_fresh_bindings :: bool where
  "bindrepo_test_start_gc_keeps_fresh_bindings \<longleftrightarrow>
     (let now = from_secs 10; repo = binding_repo_set (host 2) (binding_new now ''backend-2'') binding_repo_new
      in binding_repo_get (binding_gc (from_secs 10) [now, now + from_millis 50] repo) (host 2) \<noteq> None)"

definition bindrepo_test_start_gc_multiple_iterations :: bool where
  "bindrepo_test_start_gc_multiple_iterations \<longleftrightarrow>
     (let now = from_secs 10; repo = binding_repo_set (host 1) (old_binding ''backend-1'' now (from_millis 200)) binding_repo_new;
          repo1 = binding_gc (from_millis 100) [now, now + from_millis 30] repo; later = now + from_millis 50;
          repo2 = binding_repo_set (host 2) (old_binding ''backend-2'' later (from_millis 200)) repo1;
          repo3 = binding_gc (from_millis 100) [now + from_millis 60, now + from_millis 90] repo2
      in binding_repo_get repo1 (host 1) = None \<and> binding_repo_get repo3 (host 2) = None)"

definition bindrepo_test_start_gc_mixed_expiry :: bool where
  "bindrepo_test_start_gc_mixed_expiry \<longleftrightarrow>
     (let now = from_secs 10;
          repo = binding_repo_set (host 2) (binding_new now ''fresh-backend'')
            (binding_repo_set (host 1) (old_binding ''old-backend'' now (from_millis 200)) binding_repo_new);
          repo = binding_gc (from_millis 100) [now, now + from_millis 50] repo
      in binding_repo_get repo (host 1) = None \<and> binding_repo_get repo (host 2) \<noteq> None)"

lemma bindrepo_tests:
  "bindrepo_test_set_and_get" "bindrepo_test_get_nonexistent" "bindrepo_test_set_overwrites" "bindrepo_test_ipv6_key"
  "bindrepo_test_remove" "bindrepo_test_remove_nonexistent_does_not_panic"
  by code_simp+

lemma bindrepo_tests_2:
  "bindrepo_test_touch_updates_last_seen" "bindrepo_test_touch_nonexistent_does_not_panic" "bindrepo_test_cleanup_expired"
  "bindrepo_test_cleanup_keeps_fresh_bindings" "bindrepo_test_cleanup_mixed_bindings" "bindrepo_test_count_empty"
  by code_simp+

lemma bindrepo_tests_3:
  "bindrepo_test_count_after_additions" "bindrepo_test_count_after_removal" "bindrepo_test_inner_access" "bindrepo_test_default"
  "bindrepo_test_multiple_clients_isolated" "bindrepo_test_start_gc_removes_expired_bindings"
  by code_simp+

lemma bindrepo_tests_4:
  "bindrepo_test_start_gc_keeps_fresh_bindings" "bindrepo_test_start_gc_multiple_iterations" "bindrepo_test_start_gc_mixed_expiry"
  by code_simp+

section \<open>\<^verbatim>\<open>src/adapters/outbound/dashmap_metrics_store.rs\<close>\<close>

abbreviation inc :: "string \<Rightarrow> metrics_store \<Rightarrow> metrics_store" where
  "inc \<equiv> metrics_increment_connections"

abbreviation dec :: "string \<Rightarrow> metrics_store \<Rightarrow> metrics_store" where
  "dec \<equiv> metrics_decrement_connections"

definition dashmetrics_test_connection_count_starts_at_zero :: bool where
  "dashmetrics_test_connection_count_starts_at_zero \<longleftrightarrow>
     metrics_get_connection_count metrics_store_new ''backend-1'' = 0"

definition dashmetrics_test_connection_count_increment :: bool where
  "dashmetrics_test_connection_count_increment \<longleftrightarrow>
     (let s1 = inc ''backend-1'' metrics_store_new; s2 = inc ''backend-1'' s1; s3 = inc ''backend-1'' s2
      in metrics_get_connection_count s1 ''backend-1'' = 1 \<and> metrics_get_connection_count s2 ''backend-1'' = 2
         \<and> metrics_get_connection_count s3 ''backend-1'' = 3)"

definition dashmetrics_test_connection_count_decrement :: bool where
  "dashmetrics_test_connection_count_decrement \<longleftrightarrow>
     (let s2 = inc ''backend-1'' (inc ''backend-1'' metrics_store_new); s1 = dec ''backend-1'' s2; s0 = dec ''backend-1'' s1
      in metrics_get_connection_count s2 ''backend-1'' = 2 \<and> metrics_get_connection_count s1 ''backend-1'' = 1
         \<and> metrics_get_connection_count s0 ''backend-1'' = 0)"

definition dashmetrics_test_decrement_nonexistent_backend :: bool where
  "dashmetrics_test_decrement_nonexistent_backend \<longleftrightarrow>
     metrics_get_connection_count (dec ''nonexistent'' metrics_store_new) ''nonexistent'' = 0"

definition dashmetrics_test_decrement_at_zero_saturates :: bool where
  "dashmetrics_test_decrement_at_zero_saturates \<longleftrightarrow>
     metrics_get_connection_count (dec ''backend-1'' (dec ''backend-1'' (inc ''backend-1'' metrics_store_new))) ''backend-1'' = 0"

definition dashmetrics_test_rtt_starts_as_none :: bool where
  "dashmetrics_test_rtt_starts_as_none \<longleftrightarrow>
     metrics_get_last_rtt metrics_store_new ''backend-1'' = None"

definition dashmetrics_test_rtt_recording :: bool where
  "dashmetrics_test_rtt_recording \<longleftrightarrow>
     metrics_get_last_rtt (metrics_record_rtt ''backend-1'' 50 metrics_store_new) ''backend-1'' = Some 50"

definition dashmetrics_test_rtt_overwrites_previous :: bool where
  "dashmetrics_test_rtt_overwrites_previous \<longleftrightarrow>
     metrics_get_last_rtt (fold (metrics_record_rtt ''backend-1'') [50, 75, 100] metrics_store_new) ''backend-1'' = Some 100"

definition dashmetrics_test_rtt_zero_value :: bool where
  "dashmetrics_test_rtt_zero_value \<longleftrightarrow>
     metrics_get_last_rtt (metrics_record_rtt ''backend-1'' 0 metrics_store_new) ''backend-1'' = Some 0"

definition dashmetrics_test_multiple_backends_isolated :: bool where
  "dashmetrics_test_multiple_backends_isolated \<longleftrightarrow>
     (let s = fold inc [''backend-1'', ''backend-1'', ''backend-2''] metrics_store_new
      in metrics_get_connection_count s ''backend-1'' = 2 \<and> metrics_get_connection_count s ''backend-2'' = 1
         \<and> metrics_get_connection_count s ''backend-3'' = 0)"

definition dashmetrics_test_multiple_backends_rtt_isolated :: bool where
  "dashmetrics_test_multiple_backends_rtt_isolated \<longleftrightarrow>
     (let s = metrics_record_rtt ''backend-2'' 100 (metrics_record_rtt ''backend-1'' 50 metrics_store_new)
      in metrics_get_last_rtt s ''backend-1'' = Some 50 \<and> metrics_get_last_rtt s ''backend-2'' = Some 100 \<and> metrics_get_last_rtt s ''backend-3'' = None)"

definition dashmetrics_test_backend_ids_empty :: bool where
  "dashmetrics_test_backend_ids_empty \<longleftrightarrow>
     metrics_backend_ids metrics_store_new = []"

definition dashmetrics_test_backend_ids_after_increment :: bool where
  "dashmetrics_test_backend_ids_after_increment \<longleftrightarrow>
     (let ids = metrics_backend_ids (fold inc [''backend-1'', ''backend-2'', ''backend-3''] metrics_store_new)
      in length ids = 3 \<and> ''backend-1'' \<in> set ids \<and> ''backend-2'' \<in> set ids \<and> ''backend-3'' \<in> set ids)"

definition dashmetrics_test_get_metrics :: bool where
  "dashmetrics_test_get_metrics \<longleftrightarrow>
     metrics_get_metrics (metrics_record_rtt ''backend-1'' 42 (inc ''backend-1'' (inc ''backend-1'' metrics_store_new))) ''backend-1'' = Some (2, 42)"

definition dashmetrics_test_get_metrics_nonexistent :: bool where
  "dashmetrics_test_get_metrics_nonexistent \<longleftrightarrow>
     metrics_get_metrics metrics_store_new ''nonexistent'' = None"

definition dashmetrics_test_default :: bool where
  "dashmetrics_test_default \<longleftrightarrow>
     metrics_get_connection_count metrics_store_default ''test'' = 0"

definition dashmetrics_test_backend_metrics_default :: bool where
  "dashmetrics_test_backend_metrics_default \<longleftrightarrow>
     bm_current_conns backend_metrics_default = 0 \<and> bm_last_rtt_ms backend_metrics_default = 0"

text \<open>
  The increments of a counter are atomic, so that every interleaving of ten threads with a hundred of them each is a run of a thousand; so are the decrements, whose
  compare-exchange loops are followed step by step in \<open>concurrent_decrements_terminate\<close>.
\<close>

definition dashmetrics_test_concurrent_increments :: bool where
  "dashmetrics_test_concurrent_increments \<longleftrightarrow>
     metrics_get_connection_count ((inc ''backend-1'' ^^ (10 * 100)) metrics_store_new) ''backend-1'' = 1000"

definition dashmetrics_test_concurrent_decrements :: bool where
  "dashmetrics_test_concurrent_decrements \<longleftrightarrow>
     metrics_get_connection_count ((dec ''backend-1'' ^^ (10 * 100)) ((inc ''backend-1'' ^^ 1000) metrics_store_new)) ''backend-1'' = 0"

lemma inc_many: "metrics_get_connection_count ((inc i ^^ n) s) i = metrics_get_connection_count s i + of_nat n"
  by (induction n) (simp_all add: metrics.count_increment)

lemma dec_many:
  "n \<le> unat (metrics_get_connection_count s i)
     \<Longrightarrow> unat (metrics_get_connection_count ((dec i ^^ n) s) i) = unat (metrics_get_connection_count s i) - n"
  by (induction n) (auto simp: metrics.count_decrement unat_dec_word word_gt_0 unat_gt_0)

lemma concurrent_metrics_tests: "dashmetrics_test_concurrent_increments" "dashmetrics_test_concurrent_decrements"
  using dec_many [of "10 * 100" "(inc ''backend-1'' ^^ 1000) metrics_store_new" "''backend-1''"]
  by (simp_all add: dashmetrics_test_concurrent_increments_def dashmetrics_test_concurrent_decrements_def inc_many metrics.count_new unsigned_eq_0_iff)

lemma dashmetrics_tests:
  "dashmetrics_test_connection_count_starts_at_zero" "dashmetrics_test_connection_count_increment"
  "dashmetrics_test_connection_count_decrement" "dashmetrics_test_decrement_nonexistent_backend"
  "dashmetrics_test_decrement_at_zero_saturates" "dashmetrics_test_rtt_starts_as_none"
  by code_simp+

lemma dashmetrics_tests_2:
  "dashmetrics_test_rtt_recording" "dashmetrics_test_rtt_overwrites_previous" "dashmetrics_test_rtt_zero_value"
  "dashmetrics_test_multiple_backends_isolated" "dashmetrics_test_multiple_backends_rtt_isolated" "dashmetrics_test_backend_ids_empty"
  by code_simp+

lemma dashmetrics_tests_3:
  "dashmetrics_test_backend_ids_after_increment" "dashmetrics_test_get_metrics" "dashmetrics_test_get_metrics_nonexistent"
  "dashmetrics_test_default" "dashmetrics_test_backend_metrics_default"
  by code_simp+

section \<open>\<^verbatim>\<open>src/adapters/outbound/prometheus_metrics_store.rs\<close>\<close>

definition prom_test_new :: bool where
  "prom_test_new \<longleftrightarrow>
     (let store = prom_new ''eu'' in pr_region store = ''eu'' \<and> prom_backend_ids store = [])"

definition prom_test_default :: bool where
  "prom_test_default \<longleftrightarrow>
     pr_region prom_default = ''unknown''"

definition prom_test_connection_tracking :: bool where
  "prom_test_connection_tracking \<longleftrightarrow>
     (let s1 = prom_increment_connections ''backend-1'' (prom_new ''us''); s2 = prom_increment_connections ''backend-1'' s1;
          s3 = prom_decrement_connections ''backend-1'' s2
      in prom_get_connection_count s1 ''backend-1'' = 1 \<and> prom_get_connection_count s2 ''backend-1'' = 2 \<and> prom_get_connection_count s3 ''backend-1'' = 1)"

definition prom_test_total_connections :: bool where
  "prom_test_total_connections \<longleftrightarrow>
     am_total_connections (pr_global (fold prom_increment_connections [''b1'', ''b2'', ''b1''] (prom_new ''sa''))) = 3"

definition prom_test_rtt_recording :: bool where
  "prom_test_rtt_recording \<longleftrightarrow>
     (let s1 = prom_record_rtt ''backend-1'' 50 (prom_new ''ap''); s2 = prom_record_rtt ''backend-1'' 100 s1
      in prom_get_last_rtt s1 ''backend-1'' = Some 50 \<and> prom_get_last_rtt s2 ''backend-1'' = Some 100)"

definition prom_test_avg_rtt :: bool where
  "prom_test_avg_rtt \<longleftrightarrow>
     (let store = fold (prom_record_rtt ''backend-1'') [50, 100, 150] (prom_new ''eu'')
      in (case prom_get_backend_metrics store ''backend-1'' of
            Some metrics \<Rightarrow> (case avg_rtt_ms metrics of Fin q \<Rightarrow> \<bar>q - 100\<bar> < 1 / 100 | _ \<Rightarrow> False)
          | None \<Rightarrow> False))"

definition prom_test_avg_rtt_zero_count :: bool where
  "prom_test_avg_rtt_zero_count \<longleftrightarrow>
     avg_rtt_ms prom_metrics_new = Fin 0"

definition prom_test_error_recording :: bool where
  "prom_test_error_recording \<longleftrightarrow>
     (let store = fold prom_record_error [''backend-1'', ''backend-1'', ''backend-2''] (prom_new ''eu'')
      in am_connection_errors (pr_global store) = 3
         \<and> map_option pm_connection_errors (prom_get_backend_metrics store ''backend-1'') = Some 2)"

definition prom_test_bytes_recording :: bool where
  "prom_test_bytes_recording \<longleftrightarrow>
     (let store = prom_record_bytes 500 250 (prom_record_bytes 1000 500 (prom_new ''us''))
      in am_bytes_sent (pr_global store) = 1500 \<and> am_bytes_received (pr_global store) = 750)"

definition prom_test_decrement_at_zero :: bool where
  "prom_test_decrement_at_zero \<longleftrightarrow>
     prom_get_connection_count (prom_decrement_connections ''b1'' (prom_decrement_connections ''b1'' (prom_increment_connections ''b1'' (prom_new ''eu'')))) ''b1'' = 0"

definition prom_test_decrement_nonexistent :: bool where
  "prom_test_decrement_nonexistent \<longleftrightarrow>
     prom_get_connection_count (prom_decrement_connections ''nonexistent'' (prom_new ''eu'')) ''nonexistent'' = 0"

definition prom_test_get_last_rtt_nonexistent :: bool where
  "prom_test_get_last_rtt_nonexistent \<longleftrightarrow>
     prom_get_last_rtt (prom_new ''eu'') ''nonexistent'' = None"

definition prom_test_backend_ids :: bool where
  "prom_test_backend_ids \<longleftrightarrow>
     (let ids = prom_backend_ids (fold prom_increment_connections [''b1'', ''b2'', ''b3''] (prom_new ''eu''))
      in length ids = 3 \<and> ''b1'' \<in> set ids \<and> ''b2'' \<in> set ids \<and> ''b3'' \<in> set ids)"

definition prom_test_export_prometheus :: bool where
  "prom_test_export_prometheus \<longleftrightarrow>
     (let store = prom_record_bytes 1000 500 (prom_record_error ''backend-1'' (prom_record_rtt ''backend-1'' 42
            (prom_increment_connections ''backend-1'' (prom_new ''eu''))));
          output = export_prometheus store
      in list_all (str_contains output)
           [''edgeproxy_connections_total'', ''edgeproxy_bytes_sent_total'', ''edgeproxy_bytes_received_total'',
            ''edgeproxy_backend_connections_active'', ''backend='' @ prom_quote ''backend-1'', ''region='' @ prom_quote ''eu''])"

definition prom_test_backend_metrics_default :: bool where
  "prom_test_backend_metrics_default \<longleftrightarrow>
     pm_active_connections prom_metrics_default = 0 \<and> pm_total_connections prom_metrics_default = 0"

definition prom_test_global_metrics :: bool where
  "prom_test_global_metrics \<longleftrightarrow>
     (let global = prom_global_metrics (prom_record_bytes 100 50 (prom_record_error ''b1'' (prom_increment_connections ''b1'' (prom_new ''eu''))))
      in am_total_connections global = 1 \<and> am_connection_errors global = 1 \<and> am_bytes_sent global = 100 \<and> am_bytes_received global = 50)"

text \<open>What the export contains, from the lines it is made of.\<close>

lemma prefix_take: "prefix t s \<longleftrightarrow> take (length t) s = t"
  by (metis append_eq_conv_conj prefix_def take_is_prefix)

lemma str_contains_sublist: "str_contains s t \<longleftrightarrow> sublist t s"
proof (induction s)
  case (Cons c s)
  then show ?case by (simp only: str_contains.simps sublist_Cons_right prefix_take)
qed simp

lemma in_left: "sublist t xs \<Longrightarrow> sublist t (xs @ ys)"
  unfolding sublist_def by (metis append.assoc)

lemma in_right: "sublist t ys \<Longrightarrow> sublist t (xs @ ys)"
  unfolding sublist_def by (metis append.assoc)

lemma header_contains: "sublist name (prom_header name descr kind)"
  unfolding prom_header_def by (intro in_right in_left sublist_order.order_refl)

lemma line_contains_region: "sublist (''region='' @ prom_quote region) (prom_global_line name region v)"
proof -
  have "sublist (''region='' @ prom_quote region) (name @ ''{'' @ (''region='' @ prom_quote region) @ ''} '' @ show_word v @ [CHR 0x0A])"
    by (intro in_right in_left sublist_order.order_refl)
  then show ?thesis by (simp add: prom_global_line_def)
qed

lemma export_contains_backend: "sublist (''backend='' @ prom_quote i) (export_backend region (i, m))"
proof -
  have "sublist (''backend='' @ prom_quote i)
      (name @ ''{region='' @ prom_quote region @ '','' @ (''backend='' @ prom_quote i) @ ''} '' @ v @ [CHR 0x0A])" for name v
    by (rule in_right, rule in_right, rule in_right, rule in_right, rule in_left, rule sublist_order.order_refl)
  then have "sublist (''backend='' @ prom_quote i) (prom_backend_line name region i v)" for name v by (simp add: prom_backend_line_def)
  then show ?thesis unfolding export_backend_def by (simp only: Let_def prod.case in_left)
qed

lemma prom_update_single:
  "pr_backends (prom_update i f (prom_new r)) = [(i, f prom_metrics_new)]"
  "pr_backends s = [(i, m)] \<Longrightarrow> pr_backends (prom_update i f s) = [(i, f m)]"
  by (simp_all add: prom_update_def prom_new_def dm_entry_or_def dm_modify_def dm_insert_def dm_get_def dm_empty_def dm_contains_def)

lemma export_contains_header:
  "sublist ''edgeproxy_connections_total'' (export_prometheus s)"
  "sublist ''edgeproxy_bytes_sent_total'' (export_prometheus s)"
  "sublist ''edgeproxy_bytes_received_total'' (export_prometheus s)"
  "sublist ''edgeproxy_backend_connections_active'' (export_prometheus s)"
  unfolding export_prometheus_def Let_def
  subgoal by (rule in_left, rule header_contains)
  subgoal by (rule in_right, rule in_right, rule in_left, rule header_contains)
  subgoal by (rule in_right, rule in_right, rule in_right, rule in_right, rule in_left, rule header_contains)
  subgoal by (rule in_right, rule in_right, rule in_right, rule in_right, rule in_right, rule in_right, rule in_right, rule in_right, rule in_left, rule header_contains)
  done

lemma export_contains_region: "sublist (''region='' @ prom_quote (pr_region s)) (export_prometheus s)"
  unfolding export_prometheus_def Let_def by (rule in_right, rule in_left, rule line_contains_region)

lemma export_contains_entry:
  assumes "pr_backends s = [(i, m)]"
  shows "sublist (''backend='' @ prom_quote i) (export_prometheus s)"
  unfolding export_prometheus_def Let_def assms list.map concat.simps append_Nil2
  by (rule in_right, rule in_right, rule in_right, rule in_right, rule in_right, rule in_right, rule in_right, rule in_right, rule in_right, rule in_right, rule in_right, rule in_right, rule in_right, rule export_contains_backend)

lemma prom_export_test: prom_test_export_prometheus
proof -
  let ?s = "prom_record_bytes 1000 500 (prom_record_error ''backend-1'' (prom_record_rtt ''backend-1'' 42
       (prom_increment_connections ''backend-1'' (prom_new ''eu''))))"
  obtain m where "pr_backends ?s = [(''backend-1'', m)]"
    by (simp add: prom_record_bytes_def prom_record_error_def prom_record_rtt_def prom_increment_connections_def Let_def prom_update_single)
  note entry = export_contains_entry [OF this]
  have region: "pr_region ?s = ''eu''"
    by (simp add: prom_record_bytes_def prom_record_error_def prom_record_rtt_def prom_increment_connections_def prom_update_def prom_new_def Let_def)
  show ?thesis
    unfolding prom_test_export_prometheus_def Let_def str_contains_sublist list.pred_inject(2)
    by (intro conjI list.pred_inject(1) export_contains_header entry export_contains_region [of ?s, unfolded region])
qed

definition prom_test_concurrent_access :: bool where
  "prom_test_concurrent_access \<longleftrightarrow>
     (let s = (prom_increment_connections ''b1'' ^^ (10 * 100)) (prom_new ''eu'')
      in prom_get_connection_count s ''b1'' = 1000 \<and> am_total_connections (pr_global s) = 1000)"

definition prom_test_concurrent_decrement :: bool where
  "prom_test_concurrent_decrement \<longleftrightarrow>
     (let s = (prom_increment_connections ''b1'' ^^ 1000) (prom_new ''eu'')
      in prom_get_connection_count s ''b1'' = 1000 \<and> prom_get_connection_count ((prom_decrement_connections ''b1'' ^^ (10 * 100)) s) ''b1'' = 0)"

lemma prom_inc_many:
  "prom_get_connection_count ((prom_increment_connections i ^^ n) s) i = prom_get_connection_count s i + of_nat n"
  "am_total_connections (pr_global ((prom_increment_connections i ^^ n) s)) = am_total_connections (pr_global s) + of_nat n"
  by (induction n) (simp_all add: prom.count_increment, simp_all add: prom_increment_connections_def Let_def)

lemma prom_dec_many:
  "n \<le> unat (prom_get_connection_count s i)
     \<Longrightarrow> unat (prom_get_connection_count ((prom_decrement_connections i ^^ n) s) i) = unat (prom_get_connection_count s i) - n"
  by (induction n) (auto simp: prom.count_decrement unat_dec_word word_gt_0 unat_gt_0)

lemma concurrent_prometheus_tests: "prom_test_concurrent_access" "prom_test_concurrent_decrement"
proof -
  have "am_total_connections (pr_global (prom_new r)) = 0" for r by (simp add: prom_new_def aggregated_metrics_default_def)
  then show "prom_test_concurrent_access" by (simp add: prom_test_concurrent_access_def prom_inc_many prom.count_new Let_def)
  show "prom_test_concurrent_decrement"
    using prom_dec_many [of "10 * 100" "(prom_increment_connections ''b1'' ^^ 1000) (prom_new ''eu'')" "''b1''"]
    by (simp add: prom_test_concurrent_decrement_def prom_inc_many prom.count_new Let_def unsigned_eq_0_iff)
qed

lemma prom_tests:
  "prom_test_new" "prom_test_default" "prom_test_connection_tracking" "prom_test_total_connections" "prom_test_rtt_recording"
  "prom_test_avg_rtt"
  by code_simp+

lemma prom_tests_2:
  "prom_test_avg_rtt_zero_count" "prom_test_error_recording" "prom_test_bytes_recording" "prom_test_decrement_at_zero"
  "prom_test_decrement_nonexistent" "prom_test_get_last_rtt_nonexistent"
  by code_simp+

lemma prom_tests_3:
  "prom_test_backend_ids" "prom_test_backend_metrics_default" "prom_test_global_metrics"
  by code_simp+

section \<open>\<^verbatim>\<open>src/adapters/outbound/sqlite_backend_repo.rs\<close>\<close>

definition sqlite_with_backends :: "backend list \<Rightarrow> sqlite_repo" where
  "sqlite_with_backends backends = \<lparr>sq_backends = backends, sq_version = 1\<rparr>"

definition sqlite_create_test_backend :: "string \<Rightarrow> bool \<Rightarrow> backend" where
  "sqlite_create_test_backend i healthy =
     \<lparr>bk_id = i, bk_app = ''testapp'', bk_region = Europe, bk_country = ''DE'', bk_wg_ip = ''10.50.1.1'', bk_port = 8080,
      bk_healthy = healthy, bk_weight = 2, bk_soft_limit = 100, bk_hard_limit = 150\<rparr>"

text \<open>The row of an \<^verbatim>\<open>INSERT INTO backends VALUES (...)\<close> of the tests.\<close>

definition inserted :: "string \<Rightarrow> string \<Rightarrow> string \<Rightarrow> string \<Rightarrow> string \<Rightarrow> i64 \<Rightarrow> i64 \<Rightarrow> i64 \<Rightarrow> i64 \<Rightarrow> i64 \<Rightarrow> sql_value \<Rightarrow> backend_row" where
  "inserted i app region country wg_ip port healthy weight soft hard deleted =
     \<lparr>row_id = SqlText i, row_app = SqlText app, row_region = SqlText region, row_country = SqlText country, row_wg_ip = SqlText wg_ip,
      row_port = SqlInteger port, row_healthy = SqlInteger healthy, row_weight = SqlInteger weight, row_soft_limit = SqlInteger soft,
      row_hard_limit = SqlInteger hard, row_deleted = deleted\<rparr>"

definition sqlite_test_new_repository :: bool where
  "sqlite_test_new_repository \<longleftrightarrow>
     sq_version sqlite_repo_new = 0"

definition sqlite_test_default_repository :: bool where
  "sqlite_test_default_repository \<longleftrightarrow>
     sq_version sqlite_repo_default = 0"

definition sqlite_test_with_backends :: bool where
  "sqlite_test_with_backends \<longleftrightarrow>
     sq_version (sqlite_with_backends [sqlite_create_test_backend ''backend-1'' True, sqlite_create_test_backend ''backend-2'' False]) = 1"

definition sqlite_test_get_all_empty :: bool where
  "sqlite_test_get_all_empty \<longleftrightarrow>
     sqlite_get_all sqlite_repo_new = []"

definition sqlite_test_get_all_with_backends :: bool where
  "sqlite_test_get_all_with_backends \<longleftrightarrow>
     length (sqlite_get_all (sqlite_with_backends [sqlite_create_test_backend ''eu-1'' True, sqlite_create_test_backend ''us-1'' True])) = 2"

definition sqlite_test_get_by_id_found :: bool where
  "sqlite_test_get_by_id_found \<longleftrightarrow>
     map_option bk_id (sqlite_get_by_id
       (sqlite_with_backends [sqlite_create_test_backend ''eu-1'' True, sqlite_create_test_backend ''us-1'' True]) ''eu-1'') = Some ''eu-1''"

definition sqlite_test_get_by_id_not_found :: bool where
  "sqlite_test_get_by_id_not_found \<longleftrightarrow>
     sqlite_get_by_id (sqlite_with_backends [sqlite_create_test_backend ''eu-1'' True]) ''nonexistent'' = None"

definition sqlite_test_get_healthy_filters_unhealthy :: bool where
  "sqlite_test_get_healthy_filters_unhealthy \<longleftrightarrow>
     (let healthy = sqlite_get_healthy (sqlite_with_backends [sqlite_create_test_backend ''healthy-1'' True,
            sqlite_create_test_backend ''unhealthy-1'' False, sqlite_create_test_backend ''healthy-2'' True])
      in length healthy = 2 \<and> list_all bk_healthy healthy)"

definition sqlite_test_get_healthy_empty_when_all_unhealthy :: bool where
  "sqlite_test_get_healthy_empty_when_all_unhealthy \<longleftrightarrow>
     sqlite_get_healthy (sqlite_with_backends [sqlite_create_test_backend ''unhealthy-1'' False, sqlite_create_test_backend ''unhealthy-2'' False]) = []"

definition sqlite_test_get_version_initial :: bool where
  "sqlite_test_get_version_initial \<longleftrightarrow>
     sqlite_get_version sqlite_repo_new = 0"

definition sqlite_test_get_version_after_with_backends :: bool where
  "sqlite_test_get_version_after_with_backends \<longleftrightarrow>
     sqlite_get_version (sqlite_with_backends [sqlite_create_test_backend ''eu-1'' True]) = 1"

definition sqlite_test_load_from_sqlite_nonexistent_file :: bool where
  "sqlite_test_load_from_sqlite_nonexistent_file \<longleftrightarrow>
     isl (load_from_sqlite None)"

definition sqlite_test_load_from_sqlite_with_temp_db :: bool where
  "sqlite_test_load_from_sqlite_with_temp_db \<longleftrightarrow>
     (case load_from_sqlite (Some [inserted ''test-1'' ''myapp'' ''eu'' ''DE'' ''10.50.1.1'' 8080 1 2 100 150 (SqlInteger 0),
                                   inserted ''test-2'' ''myapp'' ''us'' ''US'' ''10.50.2.1'' 8080 0 1 50 100 (SqlInteger 0)]) of
        Inl _ \<Rightarrow> False
      | Inr backends \<Rightarrow> length backends = 2
          \<and> (case find (\<lambda>b. bk_id b = ''test-1'') backends of
               Some eu \<Rightarrow> bk_app eu = ''myapp'' \<and> bk_region eu = Europe \<and> bk_country eu = ''DE'' \<and> bk_healthy eu
             | None \<Rightarrow> False)
          \<and> (case find (\<lambda>b. bk_id b = ''test-2'') backends of Some us \<Rightarrow> \<not> bk_healthy us | None \<Rightarrow> False))"

definition sqlite_test_load_from_sqlite_excludes_deleted :: bool where
  "sqlite_test_load_from_sqlite_excludes_deleted \<longleftrightarrow>
     (case load_from_sqlite (Some [inserted ''active'' ''myapp'' ''eu'' ''DE'' ''10.50.1.1'' 8080 1 2 100 150 (SqlInteger 0),
                                   inserted ''deleted'' ''myapp'' ''eu'' ''DE'' ''10.50.1.2'' 8080 1 2 100 150 (SqlInteger 1)]) of
        Inl _ \<Rightarrow> False
      | Inr backends \<Rightarrow> map bk_id backends = [''active''])"

definition sqlite_test_row_to_backend_mapping :: bool where
  "sqlite_test_row_to_backend_mapping \<longleftrightarrow>
     row_to_backend (inserted ''b1'' ''app1'' ''sa'' ''BR'' ''10.1.1.1'' 9000 1 5 200 300 SqlNull)
       = Inr \<lparr>bk_id = ''b1'', bk_app = ''app1'', bk_region = SouthAmerica, bk_country = ''BR'', bk_wg_ip = ''10.1.1.1'', bk_port = 9000,
              bk_healthy = True, bk_weight = 5, bk_soft_limit = 200, bk_hard_limit = 300\<rparr>"

definition sqlite_test_start_sync_loads_backends :: bool where
  "sqlite_test_start_sync_loads_backends \<longleftrightarrow>
     (let db = Some [inserted ''sync-test-1'' ''myapp'' ''eu'' ''DE'' ''10.50.1.1'' 8080 1 2 100 150 (SqlInteger 0)]
      in sqlite_get_all sqlite_repo_new = [] \<and> map bk_id (sqlite_get_all (sqlite_sync_tick db sqlite_repo_new)) = [''sync-test-1''])"

definition sqlite_test_start_sync_updates_version :: bool where
  "sqlite_test_start_sync_updates_version \<longleftrightarrow>
     (let db = Some [inserted ''v-test'' ''app'' ''eu'' ''DE'' ''10.0.0.1'' 80 1 1 10 20 (SqlInteger 0)]
      in sqlite_get_version sqlite_repo_new = 0 \<and> 1 \<le> sqlite_get_version (sqlite_sync_tick db sqlite_repo_new))"

definition sqlite_test_start_sync_handles_missing_file :: bool where
  "sqlite_test_start_sync_handles_missing_file \<longleftrightarrow>
     (let repo = sqlite_sync_tick None sqlite_repo_new in sqlite_get_all repo = [] \<and> sqlite_get_version repo = 0)"

definition sqlite_test_start_sync_multiple_iterations :: bool where
  "sqlite_test_start_sync_multiple_iterations \<longleftrightarrow>
     (let row1 = inserted ''iter-1'' ''app'' ''eu'' ''DE'' ''10.0.0.1'' 80 1 1 10 20 (SqlInteger 0);
          row2 = inserted ''iter-2'' ''app'' ''eu'' ''DE'' ''10.0.0.2'' 80 1 1 10 20 (SqlInteger 0);
          repo1 = sqlite_sync_tick (Some [row1]) sqlite_repo_new; repo2 = sqlite_sync_tick (Some [row1, row2]) repo1
      in length (sqlite_get_all repo1) = 1 \<and> length (sqlite_get_all repo2) = 2 \<and> sqlite_get_version repo1 < sqlite_get_version repo2)"

definition sqlite_test_load_from_sqlite_includes_null_deleted :: bool where
  "sqlite_test_load_from_sqlite_includes_null_deleted \<longleftrightarrow>
     (case load_from_sqlite (Some [inserted ''null-deleted'' ''app'' ''eu'' ''DE'' ''10.0.0.1'' 80 1 1 10 20 SqlNull]) of
        Inl _ \<Rightarrow> False
      | Inr backends \<Rightarrow> map bk_id backends = [''null-deleted''])"

lemma sqlite_tests:
  "sqlite_test_new_repository" "sqlite_test_default_repository" "sqlite_test_with_backends" "sqlite_test_get_all_empty"
  "sqlite_test_get_all_with_backends" "sqlite_test_get_by_id_found"
  by code_simp+

lemma sqlite_tests_2:
  "sqlite_test_get_by_id_not_found" "sqlite_test_get_healthy_filters_unhealthy" "sqlite_test_get_healthy_empty_when_all_unhealthy"
  "sqlite_test_get_version_initial" "sqlite_test_get_version_after_with_backends" "sqlite_test_load_from_sqlite_nonexistent_file"
  by code_simp+

lemma sqlite_tests_3:
  "sqlite_test_load_from_sqlite_with_temp_db" "sqlite_test_load_from_sqlite_excludes_deleted" "sqlite_test_row_to_backend_mapping"
  "sqlite_test_start_sync_loads_backends" "sqlite_test_start_sync_updates_version" "sqlite_test_start_sync_handles_missing_file"
  by code_simp+

lemma sqlite_tests_4:
  "sqlite_test_start_sync_multiple_iterations" "sqlite_test_load_from_sqlite_includes_null_deleted"
  by code_simp+

section \<open>\<^verbatim>\<open>src/adapters/outbound/postgres_backend_repo.rs\<close>\<close>

definition pg_create_test_backend :: "string \<Rightarrow> backend" where
  "pg_create_test_backend i =
     \<lparr>bk_id = i, bk_app = ''test'', bk_region = Europe, bk_country = ''DE'', bk_wg_ip = ''10.0.0.1'', bk_port = 8080,
      bk_healthy = True, bk_weight = 2, bk_soft_limit = 100, bk_hard_limit = 150\<rparr>"

definition postgres_test_postgres_config_default :: bool where
  "postgres_test_postgres_config_default \<longleftrightarrow>
     pc_max_connections postgres_config_default = 10 \<and> pc_reload_interval postgres_config_default = from_secs 5"

definition postgres_test_postgres_error_display :: bool where
  "postgres_test_postgres_error_display \<longleftrightarrow>
     str_contains (postgres_error_display (ConnectionError ''test'')) ''connection error''
     \<and> str_contains (postgres_error_display (QueryError ''test'')) ''query error''
     \<and> str_contains (postgres_error_display (DataError ''test'')) ''data error''
     \<and> postgres_error_display NotInitialized = ''repository not initialized''"

definition postgres_test_postgres_repo_new :: bool where
  "postgres_test_postgres_repo_new \<longleftrightarrow>
     pg_get_all (pg_repo_new postgres_config_default) = []"

definition postgres_test_postgres_repo_default :: bool where
  "postgres_test_postgres_repo_default \<longleftrightarrow>
     pg_get_all pg_repo_default = []"

definition postgres_test_initialize :: bool where
  "postgres_test_initialize \<longleftrightarrow>
     pg_initialized (pg_initialize pg_repo_default)"

definition postgres_test_add_backend :: bool where
  "postgres_test_add_backend \<longleftrightarrow>
     map bk_id (pg_get_all (pg_add_backend (pg_create_test_backend ''b1'') (pg_initialize pg_repo_default))) = [''b1'']"

definition postgres_test_remove_backend :: bool where
  "postgres_test_remove_backend \<longleftrightarrow>
     (let repo = pg_add_backend (pg_create_test_backend ''b2'') (pg_add_backend (pg_create_test_backend ''b1'') (pg_initialize pg_repo_default))
      in map bk_id (pg_get_all (pg_remove_backend ''b1'' repo)) = [''b2''])"

definition postgres_test_update_health :: bool where
  "postgres_test_update_health \<longleftrightarrow>
     (let repo = pg_add_backend (pg_create_test_backend ''b1'') (pg_initialize pg_repo_default)
      in map_option bk_healthy (pg_get_by_id repo ''b1'') = Some True
         \<and> map_option bk_healthy (pg_get_by_id (pg_update_health ''b1'' False repo) ''b1'') = Some False)"

definition postgres_test_get_by_id :: bool where
  "postgres_test_get_by_id \<longleftrightarrow>
     (let repo = pg_add_backend (pg_create_test_backend ''b1'') (pg_initialize pg_repo_default)
      in pg_get_by_id repo ''b1'' \<noteq> None \<and> pg_get_by_id repo ''b999'' = None)"

definition postgres_test_get_healthy :: bool where
  "postgres_test_get_healthy \<longleftrightarrow>
     (let b1 = (pg_create_test_backend ''b1'')\<lparr>bk_healthy := True\<rparr>; b2 = (pg_create_test_backend ''b2'')\<lparr>bk_healthy := False\<rparr>
      in map bk_id (pg_get_healthy (pg_add_backend b2 (pg_add_backend b1 (pg_initialize pg_repo_default)))) = [''b1''])"

definition postgres_test_get_version :: bool where
  "postgres_test_get_version \<longleftrightarrow>
     (let repo = pg_initialize pg_repo_default
      in pg_get_version repo < pg_get_version (pg_add_backend (pg_create_test_backend ''b1'') repo))"

definition postgres_test_update_health_unknown_backend :: bool where
  "postgres_test_update_health_unknown_backend \<longleftrightarrow>
     pg_update_health ''unknown'' False (pg_initialize pg_repo_default) = pg_initialize pg_repo_default"

lemma postgres_tests:
  "postgres_test_postgres_config_default" "postgres_test_postgres_error_display" "postgres_test_postgres_repo_new"
  "postgres_test_postgres_repo_default" "postgres_test_initialize" "postgres_test_add_backend"
  by code_simp+

lemma postgres_tests_2:
  "postgres_test_remove_backend" "postgres_test_update_health" "postgres_test_get_by_id" "postgres_test_get_healthy"
  "postgres_test_get_version" "postgres_test_update_health_unknown_backend"
  by code_simp+

end
