(* ===== verification/Tests_Application.thy ===== *)
theory Tests_Application
  imports Adapters Tests_Domain
begin

text \<open>
  The unit tests of the application service (\<^verbatim>\<open>src/application/proxy_service.rs\<close>). They run the service on mock implementations of the ports;
  the mocks are a further interpretation of the contract \<open>proxy_ports\<close>, so what the tests show of the service on the mocks is what the
  adapters of the program do as well (\<open>mocks_faithful\<close>). The lemmas at the end evaluate the tests on the model.
\<close>

section \<open>\<^verbatim>\<open>src/application/proxy_service.rs\<close>\<close>

subsection \<open>The mocks\<close>

record mock_backend_repo =
  mb_backends :: "backend list"

definition mock_get_all :: "mock_backend_repo \<Rightarrow> backend list" where
  "mock_get_all r = mb_backends r"

definition mock_get_by_id :: "mock_backend_repo \<Rightarrow> string \<Rightarrow> backend option" where
  "mock_get_by_id r i = find (\<lambda>b. bk_id b = i) (mb_backends r)"

definition mock_get_healthy :: "mock_backend_repo \<Rightarrow> backend list" where
  "mock_get_healthy r = filter bk_healthy (mb_backends r)"

definition mock_get_version :: "mock_backend_repo \<Rightarrow> u64" where
  "mock_get_version r = 1"

type_synonym mock_bindings = "(ip_addr, binding) store"

definition mock_bindings_new :: mock_bindings where
  "mock_bindings_new = dm_empty"

definition mock_bind_get :: "mock_bindings \<Rightarrow> client_key \<Rightarrow> binding option" where
  "mock_bind_get r key = dm_get r (ck_client_ip key)"

definition mock_bind_set :: "client_key \<Rightarrow> binding \<Rightarrow> mock_bindings \<Rightarrow> mock_bindings" where
  "mock_bind_set key b r = dm_insert (ck_client_ip key) b r"

definition mock_bind_remove :: "client_key \<Rightarrow> mock_bindings \<Rightarrow> mock_bindings" where
  "mock_bind_remove key r = dm_remove (ck_client_ip key) r"

definition mock_bind_touch :: "instant \<Rightarrow> client_key \<Rightarrow> mock_bindings \<Rightarrow> mock_bindings" where
  "mock_bind_touch now key r =
     (case dm_get r (ck_client_ip key) of
        Some b \<Rightarrow> dm_insert (ck_client_ip key) (b\<lparr>bd_last_seen := now\<rparr>) r
      | None \<Rightarrow> r)"

definition mock_bind_cleanup :: "instant \<Rightarrow> duration \<Rightarrow> mock_bindings \<Rightarrow> mock_bindings \<times> nat" where
  "mock_bind_cleanup now ttl r =
     (let before = length r; r = dm_retain (\<lambda>_ b. duration_since now (bd_last_seen b) \<le> ttl) r
      in (r, before - length r))"

definition mock_bind_count :: "mock_bindings \<Rightarrow> nat" where
  "mock_bind_count r = length r"

record mock_metrics =
  mm_counts :: "(string, usize) store"
  mm_rtts :: "(string, u64) store"

definition mock_metrics_new :: mock_metrics where
  "mock_metrics_new = \<lparr>mm_counts = dm_empty, mm_rtts = dm_empty\<rparr>"

definition mock_get_connection_count :: "mock_metrics \<Rightarrow> string \<Rightarrow> usize" where
  "mock_get_connection_count m i = (case dm_get (mm_counts m) i of Some c \<Rightarrow> c | None \<Rightarrow> 0)"

definition mock_increment_connections :: "string \<Rightarrow> mock_metrics \<Rightarrow> mock_metrics" where
  "mock_increment_connections i m = m\<lparr>mm_counts := dm_modify i (\<lambda>c. c + 1) (dm_entry_or i 0 (mm_counts m))\<rparr>"

definition mock_decrement_connections :: "string \<Rightarrow> mock_metrics \<Rightarrow> mock_metrics" where
  "mock_decrement_connections i m = m\<lparr>mm_counts := dm_modify i (\<lambda>c. saturating_sub c 1) (mm_counts m)\<rparr>"

definition mock_record_rtt :: "string \<Rightarrow> u64 \<Rightarrow> mock_metrics \<Rightarrow> mock_metrics" where
  "mock_record_rtt i rtt_ms m = m\<lparr>mm_rtts := dm_insert i rtt_ms (mm_rtts m)\<rparr>"

definition mock_get_last_rtt :: "mock_metrics \<Rightarrow> string \<Rightarrow> u64 option" where
  "mock_get_last_rtt m i = dm_get (mm_rtts m) i"

type_synonym mock_geo = "(ip_addr, geo_info) store"

definition mock_geo_new :: mock_geo where
  "mock_geo_new = dm_empty"

definition with_geo :: "ip_addr \<Rightarrow> string \<Rightarrow> region_code \<Rightarrow> mock_geo \<Rightarrow> mock_geo" where
  "with_geo ip country region g = dm_insert ip (geo_info_new country region) g"

definition mock_resolve :: "mock_geo \<Rightarrow> ip_addr \<Rightarrow> geo_info option" where
  "mock_resolve g ip = dm_get g ip"

definition mock_ports :: "(mock_backend_repo, mock_bindings, mock_metrics) ports" where
  "mock_ports =
     \<lparr>p_get_all = mock_get_all, p_get_by_id = mock_get_by_id, p_get_healthy = mock_get_healthy, p_get_version = mock_get_version,
      p_bind_get = mock_bind_get, p_bind_set = mock_bind_set, p_bind_remove = mock_bind_remove, p_bind_touch = mock_bind_touch,
      p_bind_cleanup = mock_bind_cleanup, p_bind_count = mock_bind_count, p_conn_count = mock_get_connection_count,
      p_conn_inc = mock_increment_connections, p_conn_dec = mock_decrement_connections, p_record_rtt = mock_record_rtt,
      p_last_rtt = mock_get_last_rtt\<rparr>"

subsection \<open>The mocks keep the contract of the ports\<close>

interpretation mock_backends: backend_repository mock_get_all mock_get_by_id mock_get_healthy
  by unfold_locales (simp_all add: mock_get_all_def mock_get_by_id_def mock_get_healthy_def)

lemma mock_dom: "dom (mock_bind_get r) = ClientKey ` dom (dm_get r)"
proof -
  have "k \<in> dom (mock_bind_get r) \<longleftrightarrow> k \<in> ClientKey ` dom (dm_get r)" for k
    by (cases k) (auto simp: mock_bind_get_def dom_def)
  then show ?thesis by blast
qed

lemma length_retain: "length (dm_retain P r) \<le> length r"
  by (simp add: dm_retain_def)

lemma saturating_dec: "saturating_sub c 1 = (if 0 < c then c - 1 else 0)"
  by (auto simp: saturating_sub_def word_le_nat_alt word_gt_0 unat_gt_0 Suc_le_eq)

lemma mock_expired: "duration_since now (bd_last_seen b) \<le> ttl \<longleftrightarrow> \<not> binding_expired now ttl b"
  by (simp add: binding_expired_def not_less)

interpretation mock_bindings: binding_repository
  mock_bindings_new mock_bind_get mock_bind_set mock_bind_remove mock_bind_touch mock_bind_cleanup mock_bind_count dm_wf
proof unfold_locales
  fix s :: mock_bindings
  assume "dm_wf s"
  then have "card (dom (mock_bind_get s)) = card (dom (dm_get s))"
    unfolding mock_dom by (intro card_image) (simp add: inj_on_def)
  with \<open>dm_wf s\<close> show "mock_bind_count s = card (dom (mock_bind_get s))" by (simp add: dm_card_dom mock_bind_count_def)
qed (auto simp: mock_bindings_new_def mock_bind_get_def mock_bind_set_def mock_bind_remove_def mock_bind_touch_def
      mock_bind_cleanup_def mock_bind_count_def mock_expired dm_get_retain length_retain binding_touch_def client_key.expand Let_def
      split: option.splits)

interpretation mock_metrics: metrics_store_port
  mock_metrics_new mock_get_connection_count mock_increment_connections mock_decrement_connections mock_record_rtt mock_get_last_rtt
  by unfold_locales
    (auto simp: mock_metrics_new_def mock_get_connection_count_def mock_increment_connections_def mock_decrement_connections_def
      mock_record_rtt_def mock_get_last_rtt_def saturating_dec word_gt_0 split: option.splits)

interpretation mock: proxy_ports mock_ports mock_bindings_new dm_wf mock_metrics_new
  unfolding proxy_ports_def mock_ports_def ports_simps
  by (intro conjI mock_backends.backend_repository_axioms mock_bindings.binding_repository_axioms
      mock_metrics.metrics_store_port_axioms)

interpretation mock_pair: adapter_pair mock_ports mock_bindings_new dm_wf mock_metrics_new
  main_ports binding_repo_new dm_wf metrics_store_new ..

text \<open>
  What a test observes on the mocks, the program does on its adapters: with the same backends, the answer to a client after any sequence of
  calls is the same.
\<close>

lemma mocks_faithful:
  "fst (resolve_backend_with_geo mock_ports now ip g
          (proxy_run mock_ports calls (proxy_service_new \<lparr>mb_backends = bs\<rparr> mock_bindings_new geo mock_metrics_new lr)))
   = fst (resolve_backend_with_geo main_ports now ip g
          (proxy_run main_ports calls (proxy_service_new \<lparr>sq_backends = bs, sq_version = v\<rparr> binding_repo_new geo metrics_store_new lr)))"
  by (rule mock_pair.interchangeable_new) (simp add: mock_ports_def main_ports_def mock_get_all_def sqlite_get_all_def)

subsection \<open>The tests\<close>

definition proxy_create_test_backend :: "string \<Rightarrow> string \<Rightarrow> string \<Rightarrow> backend" where
  "proxy_create_test_backend i region country =
     \<lparr>bk_id = i, bk_app = ''test'', bk_region = region_from_str region, bk_country = country, bk_wg_ip = ''10.0.0.1'', bk_port = 8080,
      bk_healthy = True, bk_weight = 1, bk_soft_limit = 100, bk_hard_limit = 200\<rparr>"

definition create_unhealthy_backend :: "string \<Rightarrow> string \<Rightarrow> string \<Rightarrow> backend" where
  "create_unhealthy_backend i region country = (proxy_create_test_backend i region country)\<lparr>bk_healthy := False\<rparr>"

type_synonym mock_service = "(mock_backend_repo, mock_bindings, mock_metrics) proxy_service"

text \<open>The service of a test over its backends, bindings, GeoIP resolver and metrics.\<close>

abbreviation service :: "backend list \<Rightarrow> mock_bindings \<Rightarrow> mock_geo option \<Rightarrow> mock_metrics \<Rightarrow> region_code \<Rightarrow> mock_service" where
  "service backends bindings geo metrics region \<equiv>
     proxy_service_new \<lparr>mb_backends = backends\<rparr> bindings (map_option mock_resolve geo) metrics region"

definition client_ip :: ip_addr where
  "client_ip = ipv4 192 168 1 1"

definition client_ip_us :: ip_addr where
  "client_ip_us = ipv4 192 168 1 2"

definition bound_at_start :: "string \<Rightarrow> mock_bindings" where
  "bound_at_start i = mock_bind_set (client_key_new client_ip) (binding_new 0 i) mock_bindings_new"

abbreviation binding_of :: "mock_service \<Rightarrow> ip_addr \<Rightarrow> string option" where
  "binding_of s ip \<equiv> map_option bd_backend_id (mock_bind_get (ps_binding_repo s) (client_key_new ip))"

abbreviation br_1 :: backend where "br_1 \<equiv> proxy_create_test_backend ''br-1'' ''sa'' ''BR''"
abbreviation br_2 :: backend where "br_2 \<equiv> proxy_create_test_backend ''br-2'' ''sa'' ''BR''"
abbreviation us_1 :: backend where "us_1 \<equiv> proxy_create_test_backend ''us-1'' ''us'' ''US''"

lemma client_ips: "client_ip_us \<noteq> client_ip"
  by code_simp

lemmas proxy_eval =
  resolve_backend_def resolve_backend_with_geo_def Let_def proxy_service_new_def resolve_geo_def clear_binding_def
  record_connection_start_def record_connection_end_def proxy_record_rtt_def proxy_get_connection_count_def proxy_local_region_def
  binding_cleanup_tick_def mock_ports_def mock_get_all_def mock_get_by_id_def mock_get_healthy_def mock_get_version_def mock_bindings_new_def
  mock_bind_get_def mock_bind_set_def mock_bind_remove_def mock_bind_touch_def mock_bind_cleanup_def mock_bind_count_def
  mock_metrics_new_def mock_get_connection_count_def mock_increment_connections_def mock_decrement_connections_def mock_record_rtt_def
  mock_get_last_rtt_def mock_geo_new_def with_geo_def mock_resolve_def client_key_new_def binding_new_def bound_at_start_def
  proxy_create_test_backend_def create_unhealthy_backend_def client_ips client_ips [symmetric]

lemmas proxy_pick_eval = proxy_eval lb_eval

definition proxy_test_resolve_backend_creates_binding :: bool where
  "proxy_test_resolve_backend_creates_binding \<longleftrightarrow>
     (case resolve_backend mock_ports 1 client_ip (service [br_1] mock_bindings_new None mock_metrics_new SouthAmerica) of
        (result, s) \<Rightarrow> picked result = Some ''br-1'' \<and> binding_of s client_ip = Some ''br-1'')"

definition proxy_test_resolve_backend_uses_existing_binding :: bool where
  "proxy_test_resolve_backend_uses_existing_binding \<longleftrightarrow>
     picked (fst (resolve_backend mock_ports 1 client_ip (service [br_1, br_2] (bound_at_start ''br-2'') None mock_metrics_new SouthAmerica)))
       = Some ''br-2''"

definition proxy_test_resolve_backend_removes_stale_binding_for_unhealthy :: bool where
  "proxy_test_resolve_backend_removes_stale_binding_for_unhealthy \<longleftrightarrow>
     (case resolve_backend mock_ports 1 client_ip
             (service [create_unhealthy_backend ''br-1'' ''sa'' ''BR'', br_2] (bound_at_start ''br-1'') None mock_metrics_new SouthAmerica) of
        (result, s) \<Rightarrow> picked result = Some ''br-2'' \<and> binding_of s client_ip = Some ''br-2'')"

definition proxy_test_resolve_backend_no_healthy_backends :: bool where
  "proxy_test_resolve_backend_no_healthy_backends \<longleftrightarrow>
     fst (resolve_backend mock_ports 1 client_ip
       (service [create_unhealthy_backend ''br-1'' ''sa'' ''BR'', create_unhealthy_backend ''br-2'' ''sa'' ''BR''] mock_bindings_new None
          mock_metrics_new SouthAmerica)) = None"

definition proxy_test_resolve_backend_empty_backends :: bool where
  "proxy_test_resolve_backend_empty_backends \<longleftrightarrow>
     fst (resolve_backend mock_ports 1 client_ip (service [] mock_bindings_new None mock_metrics_new SouthAmerica)) = None"

definition proxy_test_resolve_backend_with_geo :: bool where
  "proxy_test_resolve_backend_with_geo \<longleftrightarrow>
     picked (fst (resolve_backend_with_geo mock_ports 1 client_ip (Some brazil)
       (service [br_1, us_1] mock_bindings_new None mock_metrics_new NorthAmerica))) = Some ''br-1''"

definition proxy_test_resolve_backend_with_geo_respects_existing_binding :: bool where
  "proxy_test_resolve_backend_with_geo_respects_existing_binding \<longleftrightarrow>
     picked (fst (resolve_backend_with_geo mock_ports 1 client_ip (Some brazil)
       (service [br_1, us_1] (bound_at_start ''us-1'') None mock_metrics_new NorthAmerica))) = Some ''us-1''"

definition proxy_test_clear_binding :: bool where
  "proxy_test_clear_binding \<longleftrightarrow>
     mock_bind_get (ps_binding_repo (clear_binding mock_ports client_ip
       (service [br_1] (bound_at_start ''br-1'') None mock_metrics_new SouthAmerica))) (client_key_new client_ip) = None"

definition proxy_test_resolve_geo_with_resolver :: bool where
  "proxy_test_resolve_geo_with_resolver \<longleftrightarrow>
     map_option geo_country (resolve_geo
       (service [br_1] mock_bindings_new (Some (with_geo client_ip ''FR'' Europe mock_geo_new)) mock_metrics_new SouthAmerica) client_ip) = Some ''FR''"

definition proxy_test_resolve_geo_without_resolver :: bool where
  "proxy_test_resolve_geo_without_resolver \<longleftrightarrow>
     resolve_geo (service [br_1] mock_bindings_new None mock_metrics_new SouthAmerica) client_ip = None"

definition proxy_test_record_connection_start :: bool where
  "proxy_test_record_connection_start \<longleftrightarrow>
     (let s = service [br_1] mock_bindings_new None mock_metrics_new SouthAmerica;
          s = record_connection_start mock_ports ''br-1'' s; s = record_connection_start mock_ports ''br-1'' s
      in mock_get_connection_count (ps_metrics s) ''br-1'' = 2)"

definition proxy_test_record_connection_end :: bool where
  "proxy_test_record_connection_end \<longleftrightarrow>
     (let s = service [br_1] mock_bindings_new None mock_metrics_new SouthAmerica;
          s = record_connection_start mock_ports ''br-1'' s; s = record_connection_start mock_ports ''br-1'' s;
          s = record_connection_end mock_ports ''br-1'' s
      in mock_get_connection_count (ps_metrics s) ''br-1'' = 1)"

definition proxy_test_record_rtt :: bool where
  "proxy_test_record_rtt \<longleftrightarrow>
     mock_get_last_rtt (ps_metrics (proxy_record_rtt mock_ports ''br-1'' 42 (service [br_1] mock_bindings_new None mock_metrics_new SouthAmerica))) ''br-1''
       = Some 42"

definition proxy_test_get_connection_count :: bool where
  "proxy_test_get_connection_count \<longleftrightarrow>
     (let metrics = mock_increment_connections ''br-1'' (mock_increment_connections ''br-1'' mock_metrics_new);
          s = service [br_1] mock_bindings_new None metrics SouthAmerica
      in proxy_get_connection_count mock_ports s ''br-1'' = 2 \<and> proxy_get_connection_count mock_ports s ''nonexistent'' = 0)"

definition proxy_test_local_region :: bool where
  "proxy_test_local_region \<longleftrightarrow>
     proxy_local_region (service [br_1] mock_bindings_new None mock_metrics_new Europe) = Europe"

definition proxy_test_resolve_backend_removes_stale_binding_for_missing :: bool where
  "proxy_test_resolve_backend_removes_stale_binding_for_missing \<longleftrightarrow>
     (case resolve_backend mock_ports 1 client_ip (service [br_2] (bound_at_start ''deleted-backend'') None mock_metrics_new SouthAmerica) of
        (result, s) \<Rightarrow> picked result = Some ''br-2'' \<and> binding_of s client_ip = Some ''br-2'')"

definition proxy_test_resolve_backend_with_geo_removes_stale_for_unhealthy :: bool where
  "proxy_test_resolve_backend_with_geo_removes_stale_for_unhealthy \<longleftrightarrow>
     picked (fst (resolve_backend_with_geo mock_ports 1 client_ip (Some brazil)
       (service [create_unhealthy_backend ''br-1'' ''sa'' ''BR'', br_2] (bound_at_start ''br-1'') None mock_metrics_new SouthAmerica))) = Some ''br-2''"

definition proxy_test_resolve_backend_with_geo_removes_stale_for_missing :: bool where
  "proxy_test_resolve_backend_with_geo_removes_stale_for_missing \<longleftrightarrow>
     picked (fst (resolve_backend_with_geo mock_ports 1 client_ip (Some brazil)
       (service [br_2] (bound_at_start ''deleted-backend'') None mock_metrics_new SouthAmerica))) = Some ''br-2''"

definition proxy_test_resolve_backend_with_geo_no_healthy_backends :: bool where
  "proxy_test_resolve_backend_with_geo_no_healthy_backends \<longleftrightarrow>
     fst (resolve_backend_with_geo mock_ports 1 client_ip (Some brazil)
       (service [create_unhealthy_backend ''br-1'' ''sa'' ''BR'', create_unhealthy_backend ''br-2'' ''sa'' ''BR''] mock_bindings_new None
          mock_metrics_new SouthAmerica)) = None"

definition proxy_test_multiple_clients_different_backends :: bool where
  "proxy_test_multiple_clients_different_backends \<longleftrightarrow>
     (let geo = with_geo client_ip_us ''US'' NorthAmerica (with_geo client_ip ''BR'' SouthAmerica mock_geo_new);
          s = service [br_1, us_1] mock_bindings_new (Some geo) mock_metrics_new Europe;
          (result_br, s) = resolve_backend mock_ports 1 client_ip s;
          (result_us, s) = resolve_backend mock_ports 2 client_ip_us s
      in picked result_br = Some ''br-1'' \<and> picked result_us = Some ''us-1''
         \<and> binding_of s client_ip = Some ''br-1'' \<and> binding_of s client_ip_us = Some ''us-1'')"

definition proxy_test_run_binding_cleanup :: bool where
  "proxy_test_run_binding_cleanup \<longleftrightarrow>
     (let bindings = bound_at_start ''br-1''; s = service [br_1] bindings None mock_metrics_new SouthAmerica
      in mock_bind_count bindings = 1
         \<and> mock_bind_count (ps_binding_repo (binding_cleanup_tick mock_ports (from_millis 100) (from_millis 0) s)) = 0)"

definition proxy_test_run_binding_cleanup_keeps_fresh :: bool where
  "proxy_test_run_binding_cleanup_keeps_fresh \<longleftrightarrow>
     (let s = service [br_1] (bound_at_start ''br-1'') None mock_metrics_new SouthAmerica
      in mock_bind_count (ps_binding_repo (binding_cleanup_tick mock_ports (from_millis 100) (from_secs 3600)
           (binding_cleanup_tick mock_ports (from_millis 50) (from_secs 3600) s))) = 1)"

definition proxy_test_mock_backend_repo_get_all :: bool where
  "proxy_test_mock_backend_repo_get_all \<longleftrightarrow>
     map bk_id (mock_get_all \<lparr>mb_backends = [br_1, br_2]\<rparr>) = [''br-1'', ''br-2'']"

definition proxy_test_mock_backend_repo_get_version :: bool where
  "proxy_test_mock_backend_repo_get_version \<longleftrightarrow>
     mock_get_version \<lparr>mb_backends = [br_1]\<rparr> = 1"

definition proxy_test_resolve_backend_all_at_hard_limit :: bool where
  "proxy_test_resolve_backend_all_at_hard_limit \<longleftrightarrow>
     fst (resolve_backend mock_ports 1 client_ip
       (service [br_1\<lparr>bk_hard_limit := 1\<rparr>] mock_bindings_new None (mock_increment_connections ''br-1'' mock_metrics_new) SouthAmerica)) = None"

definition proxy_test_resolve_backend_with_geo_all_at_hard_limit :: bool where
  "proxy_test_resolve_backend_with_geo_all_at_hard_limit \<longleftrightarrow>
     fst (resolve_backend_with_geo mock_ports 1 client_ip (Some brazil)
       (service [br_1\<lparr>bk_hard_limit := 1\<rparr>] mock_bindings_new None (mock_increment_connections ''br-1'' mock_metrics_new) SouthAmerica)) = None"

lemma proxy_tests:
  "proxy_test_resolve_backend_creates_binding" "proxy_test_resolve_backend_uses_existing_binding"
  "proxy_test_resolve_backend_removes_stale_binding_for_unhealthy" "proxy_test_resolve_backend_no_healthy_backends"
  "proxy_test_resolve_backend_empty_backends" "proxy_test_resolve_backend_with_geo"
  by (simp_all add: proxy_pick_eval
      proxy_test_resolve_backend_creates_binding_def proxy_test_resolve_backend_uses_existing_binding_def proxy_test_resolve_backend_removes_stale_binding_for_unhealthy_def
      proxy_test_resolve_backend_no_healthy_backends_def proxy_test_resolve_backend_empty_backends_def proxy_test_resolve_backend_with_geo_def)

lemma proxy_tests_2:
  "proxy_test_resolve_backend_with_geo_respects_existing_binding" "proxy_test_resolve_backend_removes_stale_binding_for_missing"
  "proxy_test_resolve_backend_with_geo_removes_stale_for_unhealthy" "proxy_test_resolve_backend_with_geo_removes_stale_for_missing"
  "proxy_test_resolve_backend_with_geo_no_healthy_backends" "proxy_test_multiple_clients_different_backends"
  by (simp_all add: proxy_pick_eval
      proxy_test_resolve_backend_with_geo_respects_existing_binding_def proxy_test_resolve_backend_removes_stale_binding_for_missing_def proxy_test_resolve_backend_with_geo_removes_stale_for_unhealthy_def
      proxy_test_resolve_backend_with_geo_removes_stale_for_missing_def proxy_test_resolve_backend_with_geo_no_healthy_backends_def proxy_test_multiple_clients_different_backends_def)

lemma proxy_tests_3:
  "proxy_test_resolve_backend_all_at_hard_limit" "proxy_test_resolve_backend_with_geo_all_at_hard_limit"
  by (simp_all add: proxy_pick_eval
      proxy_test_resolve_backend_all_at_hard_limit_def proxy_test_resolve_backend_with_geo_all_at_hard_limit_def)

lemma proxy_tests_4:
  "proxy_test_clear_binding" "proxy_test_resolve_geo_without_resolver" "proxy_test_record_connection_start" "proxy_test_record_rtt"
  "proxy_test_get_connection_count" "proxy_test_local_region"
  by (simp_all add: proxy_eval
      proxy_test_clear_binding_def proxy_test_resolve_geo_without_resolver_def proxy_test_record_connection_start_def
      proxy_test_record_rtt_def proxy_test_get_connection_count_def proxy_test_local_region_def)

lemma proxy_tests_5:
  "proxy_test_resolve_geo_with_resolver"
  by (simp_all add: proxy_eval geo_info_new_def
      proxy_test_resolve_geo_with_resolver_def)

lemma proxy_tests_6:
  "proxy_test_record_connection_end"
  by (simp_all add: proxy_eval saturating_sub_def
      proxy_test_record_connection_end_def)

lemma proxy_tests_7:
  "proxy_test_run_binding_cleanup" "proxy_test_run_binding_cleanup_keeps_fresh" "proxy_test_mock_backend_repo_get_all"
  "proxy_test_mock_backend_repo_get_version"
  by code_simp+

end
