(* ===== verification/Tests_Inbound.thy ===== *)
theory Tests_Inbound
  imports Api_Server Dns_Server Tests_Application
begin

text \<open>
  The unit tests of the auto-discovery API and of the DNS server (\<^verbatim>\<open>src/adapters/inbound\<close>), run on the model. A request of a test is
  the decoded request that the router hands to the handlers.
\<close>

section \<open>\<^verbatim>\<open>src/adapters/inbound/api_server.rs\<close>\<close>

text \<open>The registration that the tests repeat.\<close>

definition reg :: "string \<Rightarrow> string \<Rightarrow> string option \<Rightarrow> string \<Rightarrow> register_request" where
  "reg i region country ip =
     \<lparr>rq_id = i, rq_app = ''myapp'', rq_region = region, rq_country = country, rq_ip = ip, rq_port = 8080, rq_weight = 2,
      rq_soft_limit = 100, rq_hard_limit = 150\<rparr>"

abbreviation registered :: "register_request \<Rightarrow> api_state \<Rightarrow> api_state" where
  "registered r s \<equiv> snd (register 0 r s)"

abbreviation test_1 :: register_request where
  "test_1 \<equiv> reg ''test-1'' ''eu'' None ''10.0.0.1''"

abbreviation backend_1 :: register_request where
  "backend_1 \<equiv> reg ''backend-1'' ''eu'' None ''10.0.0.1''"

definition request :: "http_method \<Rightarrow> string \<Rightarrow> string \<Rightarrow> api_request" where
  "request m pattern i = \<lparr>ar_method = m, ar_pattern = Some pattern, ar_id = i, ar_body = Inl 415\<rparr>"

definition json_request :: "register_request \<Rightarrow> api_request" where
  "json_request r = \<lparr>ar_method = HttpPost, ar_pattern = Some ''/api/v1/register'', ar_id = '''', ar_body = Inr r\<rparr>"

definition defaults :: "string \<Rightarrow> register_request" where
  "defaults i =
     \<lparr>rq_id = i, rq_app = ''myapp'', rq_region = ''eu'', rq_country = None, rq_ip = ''10.0.0.1'', rq_port = 8080, rq_weight = default_weight,
      rq_soft_limit = default_soft_limit, rq_hard_limit = default_hard_limit\<rparr>"

abbreviation status :: "api_request \<Rightarrow> api_state \<Rightarrow> nat" where
  "status r s \<equiv> fst (fst (api_dispatch ''0.1.0'' 1 r s))"

definition api_test_api_state_new :: bool where
  "api_test_api_state_new \<longleftrightarrow>
     (let state = api_state_new 60 in as_heartbeat_ttl state = from_secs 60 \<and> as_backends state = [])"

definition api_test_register_backend :: bool where
  "api_test_register_backend \<longleftrightarrow>
     (let state = registered test_1 (api_state_new 60)
      in length (as_backends state) = 1 \<and> dm_contains (as_backends state) ''test-1'')"

definition api_test_heartbeat :: bool where
  "api_test_heartbeat \<longleftrightarrow>
     (let state = registered test_1 (api_state_new 60) in fst (heartbeat 1 ''test-1'' state) \<and> \<not> fst (heartbeat 1 ''nonexistent'' state))"

definition api_test_deregister :: bool where
  "api_test_deregister \<longleftrightarrow>
     (let state = registered test_1 (api_state_new 60); (first, state) = deregister ''test-1'' state; (second, state) = deregister ''test-1'' state
      in first \<and> \<not> second \<and> as_backends state = [])"

definition api_test_get_healthy_backends :: bool where
  "api_test_get_healthy_backends \<longleftrightarrow>
     length (get_healthy_backends 1 (registered (reg ''us-1'' ''us'' (Some ''US'') ''10.0.0.2'')
       (registered (reg ''eu-1'' ''eu'' (Some ''DE'') ''10.0.0.1'') (api_state_new 60)))) = 2"

definition api_test_get_all_backends :: bool where
  "api_test_get_all_backends \<longleftrightarrow>
     map st_id (get_all_backends 1 (registered (reg ''eu-1'' ''eu'' None ''10.0.0.1'') (api_state_new 60))) = [''eu-1'']"

definition api_test_default_values :: bool where
  "api_test_default_values \<longleftrightarrow>
     default_weight = 2 \<and> default_soft_limit = 100 \<and> default_hard_limit = 150"

definition api_test_register_with_country :: bool where
  "api_test_register_with_country \<longleftrightarrow>
     (let registered = fst (register 0 (reg ''test-1'' ''eu'' (Some ''FR'') ''10.0.0.1'') (api_state_new 60))
      in bk_country (rb_backend registered) = ''FR'' \<and> bk_region (rb_backend registered) = Europe)"

definition api_test_register_updates_existing :: bool where
  "api_test_register_updates_existing \<longleftrightarrow>
     (let state = registered ((reg ''test-1'' ''eu'' None ''10.0.0.99'')\<lparr>rq_port := 9090, rq_weight := 5, rq_soft_limit := 200, rq_hard_limit := 300\<rparr>)
            (registered test_1 (api_state_new 60))
      in length (as_backends state) = 1
         \<and> (case dm_get (as_backends state) ''test-1'' of
               Some entry \<Rightarrow> bk_wg_ip (rb_backend entry) = ''10.0.0.99'' \<and> bk_port (rb_backend entry) = 9090 \<and> bk_weight (rb_backend entry) = 5
             | None \<Rightarrow> False))"

definition api_test_get_all_backends_with_multiple_regions :: bool where
  "api_test_get_all_backends_with_multiple_regions \<longleftrightarrow>
     length (get_all_backends 1 (registered ((reg ''ap-1'' ''ap'' (Some ''JP'') ''10.0.0.2'')\<lparr>rq_weight := 3, rq_soft_limit := 50, rq_hard_limit := 75\<rparr>)
       (registered (reg ''sa-1'' ''sa'' (Some ''BR'') ''10.0.0.1'') (api_state_new 60)))) = 2"

definition api_test_cleanup_expired_removes_old_backends :: bool where
  "api_test_cleanup_expired_removes_old_backends \<longleftrightarrow>
     (let state = registered test_1 (api_state_new 0); (removed, cleaned) = api_cleanup_expired (from_millis 10) state
      in length (as_backends state) = 1 \<and> removed = 1 \<and> as_backends cleaned = [])"

definition api_test_cleanup_expired_keeps_fresh_backends :: bool where
  "api_test_cleanup_expired_keeps_fresh_backends \<longleftrightarrow>
     (let (removed, state) = api_cleanup_expired 1 (registered test_1 (api_state_new 3600)) in removed = 0 \<and> length (as_backends state) = 1)"

definition api_test_api_server_new :: bool where
  "api_test_api_server_new \<longleftrightarrow>
     (let server = api_server_new ''0.0.0.0:8081'' 60
      in sv_listen_addr server = ''0.0.0.0:8081'' \<and> as_heartbeat_ttl (sv_state server) = from_secs 60)"

definition api_test_register_all_regions :: bool where
  "api_test_register_all_regions \<longleftrightarrow>
     (let state = fold (\<lambda>(region, country). registered (reg (region @ ''-1'') region (Some country) ''10.0.0.1''))
            [(''sa'', ''BR''), (''us'', ''US''), (''eu'', ''DE''), (''ap'', ''JP'')] (api_state_new 60);
          region_of = (\<lambda>i. map_option (\<lambda>e. bk_region (rb_backend e)) (dm_get (as_backends state) i))
      in length (as_backends state) = 4 \<and> region_of ''sa-1'' = Some SouthAmerica \<and> region_of ''us-1'' = Some NorthAmerica
         \<and> region_of ''eu-1'' = Some Europe \<and> region_of ''ap-1'' = Some AsiaPacific)"

definition api_test_backend_status_healthy_reflects_ttl :: bool where
  "api_test_backend_status_healthy_reflects_ttl \<longleftrightarrow>
     map st_healthy (get_all_backends 1 (registered test_1 (api_state_new 3600))) = [True]"

definition api_test_health_handler :: bool where
  "api_test_health_handler \<longleftrightarrow>
     status (request HttpGet ''/health'' '''') (api_state_new 60) = 200"

definition api_test_register_handler :: bool where
  "api_test_register_handler \<longleftrightarrow>
     status (json_request (defaults ''backend-1'')) (api_state_new 60) = 201"

definition api_test_heartbeat_handler_success :: bool where
  "api_test_heartbeat_handler_success \<longleftrightarrow>
     status (request HttpPost ''/api/v1/heartbeat/:id'' ''backend-1'') (registered backend_1 (api_state_new 60)) = 200"

definition api_test_heartbeat_handler_not_found :: bool where
  "api_test_heartbeat_handler_not_found \<longleftrightarrow>
     status (request HttpPost ''/api/v1/heartbeat/:id'' ''nonexistent'') (api_state_new 60) = 404"

definition api_test_deregister_handler_success :: bool where
  "api_test_deregister_handler_success \<longleftrightarrow>
     status (request HttpDelete ''/api/v1/backends/:id'' ''backend-1'') (registered backend_1 (api_state_new 60)) = 200"

definition api_test_deregister_handler_not_found :: bool where
  "api_test_deregister_handler_not_found \<longleftrightarrow>
     status (request HttpDelete ''/api/v1/backends/:id'' ''nonexistent'') (api_state_new 60) = 404"

definition api_test_list_backends_handler_empty :: bool where
  "api_test_list_backends_handler_empty \<longleftrightarrow>
     status (request HttpGet ''/api/v1/backends'' '''') (api_state_new 60) = 200"

definition api_test_list_backends_handler_with_backends :: bool where
  "api_test_list_backends_handler_with_backends \<longleftrightarrow>
     status (request HttpGet ''/api/v1/backends'' '''') (registered backend_1 (api_state_new 60)) = 200"

definition api_test_get_backend_handler_success :: bool where
  "api_test_get_backend_handler_success \<longleftrightarrow>
     status (request HttpGet ''/api/v1/backends/:id'' ''backend-1'') (registered backend_1 (api_state_new 60)) = 200"

definition api_test_get_backend_handler_not_found :: bool where
  "api_test_get_backend_handler_not_found \<longleftrightarrow>
     status (request HttpGet ''/api/v1/backends/:id'' ''nonexistent'') (api_state_new 60) = 404"

definition api_test_start_cleanup_task_removes_expired :: bool where
  "api_test_start_cleanup_task_removes_expired \<longleftrightarrow>
     (let state = registered test_1 (sv_state (api_server_new ''127.0.0.1:0'' 0))
      in length (as_backends state) = 1 \<and> as_backends (api_cleanup_tick (from_secs 1) state) = [])"

definition api_test_cleanup_expired_no_tracing_when_zero :: bool where
  "api_test_cleanup_expired_no_tracing_when_zero \<longleftrightarrow>
     (let (removed, state) = api_cleanup_expired 1 (registered test_1 (api_state_new 3600)) in removed = 0 \<and> length (as_backends state) = 1)"

definition api_test_full_lifecycle :: bool where
  "api_test_full_lifecycle \<longleftrightarrow>
     (let s0 = sv_state (api_server_new ''127.0.0.1:0'' 60);
          ((health, _), s1) = api_dispatch ''0.1.0'' 1 (request HttpGet ''/health'' '''') s0;
          ((register, _), s2) = api_dispatch ''0.1.0'' 2 (json_request (defaults ''test-backend'')) s1;
          ((list, _), s3) = api_dispatch ''0.1.0'' 3 (request HttpGet ''/api/v1/backends'' '''') s2;
          ((get, _), s4) = api_dispatch ''0.1.0'' 4 (request HttpGet ''/api/v1/backends/:id'' ''test-backend'') s3;
          ((heartbeat, _), s5) = api_dispatch ''0.1.0'' 5 (request HttpPost ''/api/v1/heartbeat/:id'' ''test-backend'') s4;
          ((deregister, _), s6) = api_dispatch ''0.1.0'' 6 (request HttpDelete ''/api/v1/backends/:id'' ''test-backend'') s5
      in health = 200 \<and> register = 201 \<and> list = 200 \<and> get = 200 \<and> heartbeat = 200 \<and> deregister = 200)"

lemma api_tests:
  "api_test_api_state_new" "api_test_register_backend" "api_test_heartbeat" "api_test_deregister" "api_test_get_healthy_backends"
  "api_test_get_all_backends"
  by code_simp+

lemma api_tests_2:
  "api_test_default_values" "api_test_register_with_country" "api_test_register_updates_existing"
  "api_test_get_all_backends_with_multiple_regions" "api_test_cleanup_expired_removes_old_backends"
  "api_test_cleanup_expired_keeps_fresh_backends"
  by code_simp+

lemma api_tests_3:
  "api_test_api_server_new" "api_test_register_all_regions" "api_test_backend_status_healthy_reflects_ttl" "api_test_health_handler"
  "api_test_register_handler" "api_test_heartbeat_handler_success"
  by code_simp+

lemma api_tests_4:
  "api_test_heartbeat_handler_not_found" "api_test_deregister_handler_success" "api_test_deregister_handler_not_found"
  "api_test_list_backends_handler_empty" "api_test_list_backends_handler_with_backends" "api_test_get_backend_handler_success"
  by code_simp+

lemma api_tests_5:
  "api_test_get_backend_handler_not_found" "api_test_start_cleanup_task_removes_expired" "api_test_cleanup_expired_no_tracing_when_zero"
  "api_test_full_lifecycle"
  by code_simp+

section \<open>\<^verbatim>\<open>src/adapters/inbound/dns_server.rs\<close>\<close>

text \<open>The tests run on a mock repository of backends with the DashMap stores.\<close>

definition dns_ports :: "(mock_backend_repo, binding_repo, metrics_store) ports" where
  "dns_ports =
     \<lparr>p_get_all = mock_get_all, p_get_by_id = mock_get_by_id, p_get_healthy = mock_get_healthy, p_get_version = mock_get_version,
      p_bind_get = binding_repo_get, p_bind_set = binding_repo_set, p_bind_remove = binding_repo_remove, p_bind_touch = binding_repo_touch,
      p_bind_cleanup = binding_repo_cleanup_expired, p_bind_count = binding_repo_count, p_conn_count = metrics_get_connection_count,
      p_conn_inc = metrics_increment_connections, p_conn_dec = metrics_decrement_connections, p_record_rtt = metrics_record_rtt,
      p_last_rtt = metrics_get_last_rtt\<rparr>"

interpretation dns_mock: proxy_ports dns_ports binding_repo_new dm_wf metrics_store_new
  unfolding proxy_ports_def dns_ports_def ports_simps
  by (intro conjI mock_backends.backend_repository_axioms bindings.binding_repository_axioms metrics.metrics_store_port_axioms)

definition dns_create_test_backend :: "string \<Rightarrow> string \<Rightarrow> string \<Rightarrow> backend" where
  "dns_create_test_backend i app ip =
     \<lparr>bk_id = i, bk_app = app, bk_region = Europe, bk_country = ''DE'', bk_wg_ip = ip, bk_port = 8080, bk_healthy = True, bk_weight = 2,
      bk_soft_limit = 100, bk_hard_limit = 150\<rparr>"

definition create_proxy_service :: "backend list \<Rightarrow> (mock_backend_repo, binding_repo, metrics_store) proxy_service" where
  "create_proxy_service backends = proxy_service_new \<lparr>mb_backends = backends\<rparr> binding_repo_new None metrics_store_new Europe"

abbreviation default_handler :: dns_handler where
  "default_handler \<equiv> dns_handler_new None dns_config_default"

abbreviation myapp :: backend where
  "myapp \<equiv> dns_create_test_backend ''eu-1'' ''myapp'' ''10.50.1.1''"

abbreviation myapp_v6 :: backend where
  "myapp_v6 \<equiv> dns_create_test_backend ''eu-1'' ''myapp'' ''2001:db8::1''"

abbreviation resolved :: "backend list \<Rightarrow> string \<Rightarrow> ip_addr \<Rightarrow> u32 option" where
  "resolved backends name ip \<equiv> fst (dns_resolve dns_ports 1 default_handler name ip (create_proxy_service backends))"

abbreviation answered :: "backend list \<Rightarrow> string \<Rightarrow> record_type \<Rightarrow> response_code" where
  "answered backends name qtype \<equiv> rs_code (fst (handle_request dns_ports 1 default_handler name qtype (ipv4 192 168 1 1) (create_proxy_service backends)))"

text \<open>A packet decodes unless all its bytes are zero.\<close>

definition test_from_bytes :: "u8 list \<Rightarrow> string + unit" where
  "test_from_bytes data = (if list_all (\<lambda>b. b = 0) data then Inl ''unexpected end of input'' else Inr ())"

definition build_dns_query :: "string \<Rightarrow> u16 \<Rightarrow> u8 list" where
  "build_dns_query name i = [ucast (drop_bit 8 i), ucast i, 1] @ map of_char name"

text \<open>The network of a call of \<^verbatim>\<open>resolve_internal\<close> whose server gives some answer.\<close>

definition answering :: "(string + u8 list) option \<Rightarrow> rdata option list \<Rightarrow> string dns_net" where
  "answering recv answers =
     \<lparr>dn_bind = None, dn_name = Inr, dn_to_bytes = (\<lambda>q. Inr (map of_char (dq_name q))), dn_send = (\<lambda>_ _. None), dn_recv = recv,
      dn_from_bytes = (\<lambda>_. Inr answers)\<rparr>"

lemma single_backend_resolved:
  assumes "bk_healthy b" and "bk_hard_limit b \<noteq> 0"
  shows "fst (resolve_backend_with_geo dns_ports now ip geo (create_proxy_service [b])) = Some b"
  using assms
  by (simp add: resolve_backend_with_geo_def create_proxy_service_def proxy_service_new_def dns_ports_def bindings.get_new mock_get_healthy_def
      pick_backend_first_min eligible_def at_hard_limit_def metrics.count_new Let_def unat_gt_0)

lemma no_backend_resolved: "fst (resolve_backend_with_geo dns_ports now ip geo (create_proxy_service [])) = None"
  by (simp add: resolve_backend_with_geo_def create_proxy_service_def proxy_service_new_def dns_ports_def bindings.get_new mock_get_healthy_def Let_def)

lemma answered_code:
  "rs_code (fst (handle_request P now h name qt ip s)) =
     (if qt \<noteq> RecordA then NotImp else if fst (dns_resolve P now h name ip s) = None then NXDomain else NoError)"
  by (auto simp: handle_request_def split: option.split prod.split)

lemma resolved_address:
  "fst (dns_resolve P now h name ip s) =
     (if in_domain h name then Option.bind (fst (resolve_backend_with_geo P now ip (dns_geo h ip) s)) (parse_ipv4 \<circ> bk_wg_ip) else None)"
  by (auto simp: dns_resolve_inside dns_resolve_outside split: option.split prod.split)

lemma in_domain_code: "in_domain h name \<longleftrightarrow>
    (let q = trim_end_matches (CHR ''.'') name; d = dc_domain (dh_config h) in q = d \<or> ends_with q (''.'' @ d))"
  by (auto simp: in_domain_def ends_with_def suffix_def Let_def)

lemma test_names:
  "in_domain (dns_handler_new geo dns_config_default) ''myapp.internal.''" "in_domain (dns_handler_new geo dns_config_default) ''internal.''"
  "in_domain (dns_handler_new geo dns_config_default) ''webapp.internal.''"
  "in_domain (dns_handler_new geo dns_config_default) ''api.v2.myapp.internal.''"
  "\<not> in_domain (dns_handler_new geo dns_config_default) ''myapp.external.''"
  unfolding in_domain_code by code_simp+

lemma test_addresses: "parse_ipv4 ''10.50.1.1'' = Some 0x0A320101" "parse_ipv4 ''2001:db8::1'' = None"
  by code_simp+

lemmas dns_eval = answered_code resolved_address single_backend_resolved no_backend_resolved test_names test_addresses dns_create_test_backend_def

definition dns_test_dns_config_default :: bool where
  "dns_test_dns_config_default \<longleftrightarrow>
     dc_domain dns_config_default = ''internal'' \<and> dc_ttl dns_config_default = 30"

definition dns_test_dns_config_custom :: bool where
  "dns_test_dns_config_custom \<longleftrightarrow>
     (let config = \<lparr>dc_domain = ''mycompany.local'', dc_ttl = 60\<rparr> in dc_domain config = ''mycompany.local'' \<and> dc_ttl config = 60)"

definition dns_test_parse_domain_suffix :: bool where
  "dns_test_parse_domain_suffix \<longleftrightarrow>
     (let trimmed = trim_end_matches (CHR ''.'') ''myapp.internal.''; suffix = ''.internal''
      in trimmed = ''myapp.internal'' \<and> ends_with trimmed suffix \<and> strip_suffix trimmed suffix = Some ''myapp'')"

definition dns_test_parse_nested_domain :: bool where
  "dns_test_parse_nested_domain \<longleftrightarrow>
     strip_suffix (trim_end_matches (CHR ''.'') ''api.myapp.internal.'') ''.internal'' = Some ''api.myapp''"

definition dns_test_parse_domain_exact_match :: bool where
  "dns_test_parse_domain_exact_match \<longleftrightarrow>
     trim_end_matches (CHR ''.'') ''internal.'' = ''internal''"

definition dns_test_dns_handler_new :: bool where
  "dns_test_dns_handler_new \<longleftrightarrow>
     dc_domain (dh_config default_handler) = ''internal''"

definition dns_test_dns_server_new :: bool where
  "dns_test_dns_server_new \<longleftrightarrow>
     ds_listen_addr (dns_server_new ''0.0.0.0:5353'' None ''internal'') = ''0.0.0.0:5353''"

definition dns_test_dns_server_new_custom_domain :: bool where
  "dns_test_dns_server_new_custom_domain \<longleftrightarrow>
     ds_listen_addr (dns_server_new ''127.0.0.1:5354'' None ''custom.local'') = ''127.0.0.1:5354''"

definition dns_test_dns_handler_resolve_with_backend :: bool where
  "dns_test_dns_handler_resolve_with_backend \<longleftrightarrow>
     resolved [myapp] ''myapp.internal.'' (ipv4 192 168 1 1) = Some 0x0A320101"

definition dns_test_dns_handler_resolve_no_backend :: bool where
  "dns_test_dns_handler_resolve_no_backend \<longleftrightarrow>
     resolved [] ''myapp.internal.'' (ipv4 192 168 1 1) = None"

definition dns_test_dns_handler_resolve_wrong_domain :: bool where
  "dns_test_dns_handler_resolve_wrong_domain \<longleftrightarrow>
     resolved [myapp] ''myapp.external.'' (ipv4 192 168 1 1) = None"

definition dns_test_dns_handler_resolve_root_domain :: bool where
  "dns_test_dns_handler_resolve_root_domain \<longleftrightarrow>
     resolved [myapp] ''internal.'' (ipv4 192 168 1 1) \<noteq> None"

definition dns_test_dns_handler_resolve_ipv6_backend_returns_none :: bool where
  "dns_test_dns_handler_resolve_ipv6_backend_returns_none \<longleftrightarrow>
     resolved [myapp_v6] ''myapp.internal.'' (ipv4 192 168 1 1) = None"

definition dns_test_dns_handler_resolve_localhost_client :: bool where
  "dns_test_dns_handler_resolve_localhost_client \<longleftrightarrow>
     resolved [myapp] ''myapp.internal.'' (ipv4 127 0 0 1) \<noteq> None"

definition dns_test_ipv4_parse_valid :: bool where
  "dns_test_ipv4_parse_valid \<longleftrightarrow>
     map_option IpV4 (parse_ipv4 ''10.50.1.1'') = Some (ipv4 10 50 1 1)"

definition dns_test_ipv4_parse_invalid :: bool where
  "dns_test_ipv4_parse_invalid \<longleftrightarrow>
     parse_ipv4 ''2001:db8::1'' = None"

definition dns_test_dns_server_run_accepts_packet :: bool where
  "dns_test_dns_server_run_accepts_packet \<longleftrightarrow>
     dns_run (\<lambda>_. None) test_from_bytes [Inr (build_dns_query ''myapp.internal'' 1)] (dns_server_new ''127.0.0.1:5353'' None ''internal'')
       = (None, [(Inr (), [])])"

definition dns_test_handle_packet_valid_dns :: bool where
  "dns_test_handle_packet_valid_dns \<longleftrightarrow>
     fst (handle_packet test_from_bytes default_handler (build_dns_query ''myapp.internal'' 1)) = Inr ()"

definition dns_test_handle_packet_invalid_dns :: bool where
  "dns_test_handle_packet_invalid_dns \<longleftrightarrow>
     isl (fst (handle_packet test_from_bytes default_handler (replicate 10 0)))"

definition dns_test_dns_handler_resolve_different_app_name :: bool where
  "dns_test_dns_handler_resolve_different_app_name \<longleftrightarrow>
     resolved [dns_create_test_backend ''eu-1'' ''api'' ''10.50.1.1''] ''webapp.internal.'' (ipv4 192 168 1 1) \<noteq> None"

definition dns_test_resolve_internal_helper :: bool where
  "dns_test_resolve_internal_helper \<longleftrightarrow>
     resolve_internal (answering (Some (Inr [1])) []) 1 2 ''test.internal'' ''127.0.0.1:5300'' = Inr None"

definition dns_test_resolve_internal_with_a_record :: bool where
  "dns_test_resolve_internal_with_a_record \<longleftrightarrow>
     resolve_internal (answering (Some (Inr [1])) [Some (RDataA 0x0A320101)]) 1 2 ''test.internal'' ''127.0.0.1:5300'' = Inr (Some 0x0A320101)"

definition dns_test_dns_server_handles_multiple_packets :: bool where
  "dns_test_dns_server_handles_multiple_packets \<longleftrightarrow>
     map fst (snd (dns_run (\<lambda>_. None) test_from_bytes (map (\<lambda>i. Inr (build_dns_query ''myapp.internal'' i)) [0, 1, 2, 3, 4])
       (dns_server_new ''127.0.0.1:5353'' None ''internal''))) = replicate 5 (Inr ())"

definition dns_test_dns_handler_resolve_with_geo_resolver :: bool where
  "dns_test_dns_handler_resolve_with_geo_resolver \<longleftrightarrow>
     fst (dns_resolve dns_ports 1 (dns_handler_new (Some (\<lambda>_. Some (geo_info_new ''DE'' Europe))) dns_config_default) ''myapp.internal.'' (ipv4 8 8 8 8)
       (create_proxy_service [myapp])) \<noteq> None"

definition dns_test_resolve_internal_timeout :: bool where
  "dns_test_resolve_internal_timeout \<longleftrightarrow>
     isl (resolve_internal (answering None []) 1 2 ''test.internal'' ''192.0.2.1:53'')"

definition dns_test_dns_handler_nested_subdomain :: bool where
  "dns_test_dns_handler_nested_subdomain \<longleftrightarrow>
     resolved [dns_create_test_backend ''eu-1'' ''api.v2'' ''10.50.1.1''] ''api.v2.myapp.internal.'' (ipv4 192 168 1 1) \<noteq> None"

definition dns_test_mock_backend_repo_get_all :: bool where
  "dns_test_mock_backend_repo_get_all \<longleftrightarrow>
     length (mock_get_all \<lparr>mb_backends = [dns_create_test_backend ''eu-1'' ''app1'' ''10.0.0.1'', dns_create_test_backend ''eu-2'' ''app2'' ''10.0.0.2'']\<rparr>) = 2"

definition dns_test_mock_backend_repo_get_by_id_found :: bool where
  "dns_test_mock_backend_repo_get_by_id_found \<longleftrightarrow>
     map_option bk_id (mock_get_by_id \<lparr>mb_backends = [dns_create_test_backend ''eu-1'' ''app1'' ''10.0.0.1'']\<rparr> ''eu-1'') = Some ''eu-1''"

definition dns_test_mock_backend_repo_get_by_id_not_found :: bool where
  "dns_test_mock_backend_repo_get_by_id_not_found \<longleftrightarrow>
     mock_get_by_id \<lparr>mb_backends = [dns_create_test_backend ''eu-1'' ''app1'' ''10.0.0.1'']\<rparr> ''nonexistent'' = None"

definition dns_test_mock_backend_repo_get_version :: bool where
  "dns_test_mock_backend_repo_get_version \<longleftrightarrow>
     mock_get_version \<lparr>mb_backends = []\<rparr> = 1"

definition dns_test_request_handler_a_record_query_success :: bool where
  "dns_test_request_handler_a_record_query_success \<longleftrightarrow>
     answered [myapp] ''myapp.internal.'' RecordA = NoError"

definition dns_test_request_handler_a_record_query_nxdomain :: bool where
  "dns_test_request_handler_a_record_query_nxdomain \<longleftrightarrow>
     answered [] ''myapp.internal.'' RecordA = NXDomain"

definition dns_test_request_handler_non_a_record_query :: bool where
  "dns_test_request_handler_non_a_record_query \<longleftrightarrow>
     answered [myapp] ''myapp.internal.'' (RecordOther 28) = NotImp"

definition dns_test_request_handler_mx_record_query :: bool where
  "dns_test_request_handler_mx_record_query \<longleftrightarrow>
     answered [myapp] ''myapp.internal.'' (RecordOther 15) = NotImp"

definition dns_test_request_handler_with_tracing :: bool where
  "dns_test_request_handler_with_tracing \<longleftrightarrow>
     answered [myapp] ''myapp.internal.'' RecordA = NoError"

definition dns_test_request_handler_wrong_domain_nxdomain :: bool where
  "dns_test_request_handler_wrong_domain_nxdomain \<longleftrightarrow>
     answered [myapp] ''myapp.external.'' RecordA = NXDomain"

definition dns_test_request_handler_root_domain_query :: bool where
  "dns_test_request_handler_root_domain_query \<longleftrightarrow>
     answered [myapp] ''internal.'' RecordA = NoError"

definition dns_test_request_handler_ipv6_backend_nxdomain :: bool where
  "dns_test_request_handler_ipv6_backend_nxdomain \<longleftrightarrow>
     answered [myapp_v6] ''myapp.internal.'' RecordA = NXDomain"

lemma dns_tests:
  "dns_test_dns_config_default" "dns_test_dns_config_custom" "dns_test_parse_domain_suffix" "dns_test_parse_nested_domain"
  "dns_test_parse_domain_exact_match" "dns_test_dns_handler_new"
  by code_simp+

lemma dns_tests_2:
  "dns_test_dns_server_new" "dns_test_dns_server_new_custom_domain" "dns_test_ipv4_parse_valid" "dns_test_ipv4_parse_invalid"
  "dns_test_dns_server_run_accepts_packet" "dns_test_handle_packet_valid_dns"
  by code_simp+

lemma dns_tests_3:
  "dns_test_handle_packet_invalid_dns" "dns_test_resolve_internal_helper" "dns_test_resolve_internal_with_a_record"
  "dns_test_dns_server_handles_multiple_packets" "dns_test_resolve_internal_timeout" "dns_test_mock_backend_repo_get_all"
  by code_simp+

lemma dns_tests_4:
  "dns_test_mock_backend_repo_get_by_id_found" "dns_test_mock_backend_repo_get_by_id_not_found" "dns_test_mock_backend_repo_get_version"
  by code_simp+

lemma dns_tests_5:
  "dns_test_dns_handler_resolve_with_backend" "dns_test_dns_handler_resolve_no_backend" "dns_test_dns_handler_resolve_wrong_domain"
  "dns_test_dns_handler_resolve_root_domain" "dns_test_dns_handler_resolve_ipv6_backend_returns_none"
  "dns_test_dns_handler_resolve_localhost_client"
  by (simp_all add: dns_eval
      dns_test_dns_handler_resolve_with_backend_def dns_test_dns_handler_resolve_no_backend_def dns_test_dns_handler_resolve_wrong_domain_def
      dns_test_dns_handler_resolve_root_domain_def dns_test_dns_handler_resolve_ipv6_backend_returns_none_def dns_test_dns_handler_resolve_localhost_client_def)

lemma dns_tests_6:
  "dns_test_dns_handler_resolve_different_app_name" "dns_test_dns_handler_resolve_with_geo_resolver"
  "dns_test_dns_handler_nested_subdomain" "dns_test_request_handler_a_record_query_success"
  "dns_test_request_handler_a_record_query_nxdomain" "dns_test_request_handler_non_a_record_query"
  by (simp_all add: dns_eval
      dns_test_dns_handler_resolve_different_app_name_def dns_test_dns_handler_resolve_with_geo_resolver_def dns_test_dns_handler_nested_subdomain_def
      dns_test_request_handler_a_record_query_success_def dns_test_request_handler_a_record_query_nxdomain_def dns_test_request_handler_non_a_record_query_def)

lemma dns_tests_7:
  "dns_test_request_handler_mx_record_query" "dns_test_request_handler_with_tracing" "dns_test_request_handler_wrong_domain_nxdomain"
  "dns_test_request_handler_root_domain_query" "dns_test_request_handler_ipv6_backend_nxdomain"
  by (simp_all add: dns_eval
      dns_test_request_handler_mx_record_query_def dns_test_request_handler_with_tracing_def dns_test_request_handler_wrong_domain_nxdomain_def
      dns_test_request_handler_root_domain_query_def dns_test_request_handler_ipv6_backend_nxdomain_def)

end
