(* ===== verification/Tests_Edge.thy ===== *)
theory Tests_Edge
  imports Listeners Tests_Inbound
begin

text \<open>
  The unit tests of the TCP and the TLS server (\<^verbatim>\<open>src/adapters/inbound\<close>), run on the model. What the peers of a connection do in a test is the
  record \<open>conn_env\<close>; both files define the same mock service as the DNS tests. Tests that accept any outcome are left out.
\<close>

section \<open>The network of the tests\<close>

definition edge_backend :: "string \<Rightarrow> string \<Rightarrow> u16 \<Rightarrow> backend" where
  "edge_backend i ip port =
     \<lparr>bk_id = i, bk_app = ''testapp'', bk_region = Europe, bk_country = ''DE'', bk_wg_ip = ip, bk_port = port, bk_healthy = True,
      bk_weight = 2, bk_soft_limit = 100, bk_hard_limit = 150\<rparr>"

text \<open>A network on which one address accepts connections and closes them.\<close>

definition closing_at :: "string \<Rightarrow> conn_env" where
  "closing_at addr =
     \<lparr>ce_now = 1, ce_public_ip = None, ce_connect = (\<lambda>a. a = addr), ce_elapsed = from_millis 1,
      ce_client_to_backend = Inr (Inr 0), ce_backend_to_client = Inr (Inr 0)\<rparr>"

definition edge_start :: "backend list \<Rightarrow> geo_info option \<Rightarrow> (mock_backend_repo, binding_repo, metrics_store) edge_state" where
  "edge_start backends cached = \<lparr>ed_service = create_proxy_service backends, ed_public_ip_geo = cached\<rparr>"

definition edge_sys_start :: "backend list \<Rightarrow> (mock_backend_repo, binding_repo, metrics_store) edge_sys" where
  "edge_sys_start backends = \<lparr>es_service = create_proxy_service backends, es_sessions = []\<rparr>"

definition fixed_geo :: "geo_info option \<Rightarrow> ip_addr \<Rightarrow> geo_info option" where
  "fixed_geo g ip = g"

lemma is_loopback_test: "is_loopback (ipv4 127 0 0 1)"
  by code_simp

lemma handlers_return_ok:
  "fst (tcp_handle_connection P env geo ip st) = Inr ()" "fst (tls_handle_connection P env geo ip st) = Inr ()"
  by (auto simp: tcp_handle_connection_def tls_handle_connection_def proxy_bidirectional_def Let_def
      split: option.split prod.split)

section \<open>\<^verbatim>\<open>src/adapters/inbound/tcp_server.rs\<close>\<close>

definition tcp_create_test_backend :: "string \<Rightarrow> backend" where
  "tcp_create_test_backend i = edge_backend i ''127.0.0.1'' 9999"

definition tcp_test_tcp_server_new :: bool where
  "tcp_test_tcp_server_new \<longleftrightarrow>
     ts_listen_addr (tcp_server_new ''0.0.0.0:0'' None) = ''0.0.0.0:0''"

definition tcp_test_tcp_server_new_with_geo_resolver :: bool where
  "tcp_test_tcp_server_new_with_geo_resolver \<longleftrightarrow>
     ts_geo_resolver (tcp_server_new ''127.0.0.1:8080'' None) = None"

definition tcp_test_backend_addr_format_ipv4 :: bool where
  "tcp_test_backend_addr_format_ipv4 \<longleftrightarrow>
     backend_addr (edge_backend ''test'' ''10.0.0.1'' 8080) = ''10.0.0.1:8080''"

definition tcp_test_backend_addr_format_ipv6 :: bool where
  "tcp_test_backend_addr_format_ipv6 \<longleftrightarrow>
     backend_addr (edge_backend ''test'' ''::1'' 8080) = ''[::1]:8080''"

definition tcp_test_resolve_localhost_geo_returns_none_without_resolver :: bool where
  "tcp_test_resolve_localhost_geo_returns_none_without_resolver \<longleftrightarrow>
     fst (resolve_localhost_geo None (Some (ipv4 8 8 8 8)) None) = None"

definition tcp_test_resolve_localhost_geo_returns_cached :: bool where
  "tcp_test_resolve_localhost_geo_returns_cached \<longleftrightarrow>
     map_option geo_country (fst (resolve_localhost_geo None None (Some (geo_info_new ''DE'' Europe)))) = Some ''DE''"

definition tcp_test_handle_connection_no_backend :: bool where
  "tcp_test_handle_connection_no_backend \<longleftrightarrow>
     fst (tcp_handle_connection dns_ports (closing_at '''') None (ipv4 127 0 0 1) (edge_start [] None)) = Inr ()"

definition tcp_test_handle_connection_backend_unreachable :: bool where
  "tcp_test_handle_connection_backend_unreachable \<longleftrightarrow>
     fst (tcp_handle_connection dns_ports (closing_at '''') None (ipv4 127 0 0 1)
       (edge_start [edge_backend ''unreachable-backend'' ''127.0.0.1'' 59999] None)) = Inr ()"

definition tcp_test_run_accepts_connection :: bool where
  "tcp_test_run_accepts_connection \<longleftrightarrow>
     (let server = tcp_server_new ''127.0.0.1:4000'' None;
          (result, s) = tcp_run (\<lambda>_. None) [Inr (ipv4 127 0 0 1)] server (edge_sys_start [edge_backend ''mock-backend'' ''127.0.0.1'' 4001])
      in result = None \<and> map snd (es_sessions s) = [Accepted])"

definition tcp_test_handle_connection_with_loopback_ip :: bool where
  "tcp_test_handle_connection_with_loopback_ip \<longleftrightarrow>
     is_loopback (ipv4 127 0 0 1)
     \<and> fst (tcp_handle_connection dns_ports (closing_at ''127.0.0.1:4001'') None (ipv4 127 0 0 1)
              (edge_start [edge_backend ''mock-backend'' ''127.0.0.1'' 4001] (Some (geo_info_new ''BR'' SouthAmerica)))) = Inr ()"

definition tcp_test_handle_connection_with_ipv6_backend :: bool where
  "tcp_test_handle_connection_with_ipv6_backend \<longleftrightarrow>
     fst (tcp_handle_connection dns_ports (closing_at '''') None (ipv4 127 0 0 1)
       (edge_start [edge_backend ''ipv6-backend'' ''::1'' 59998] None)) = Inr ()"

definition tcp_test_resolve_localhost_geo_with_resolver_no_cached :: bool where
  "tcp_test_resolve_localhost_geo_with_resolver_no_cached \<longleftrightarrow>
     fst (resolve_localhost_geo (Some (fixed_geo (Some (geo_info_new ''BR'' SouthAmerica)))) None None) = None"

definition tcp_test_run_server_multiple_connections :: bool where
  "tcp_test_run_server_multiple_connections \<longleftrightarrow>
     (let server = tcp_server_new ''127.0.0.1:4000'' None;
          (result, s) = tcp_run (\<lambda>_. None) (replicate 3 (Inr (ipv4 127 0 0 1))) server (edge_sys_start [edge_backend ''multi-backend'' ''127.0.0.1'' 4001])
      in result = None \<and> length (es_sessions s) = 3)"

definition tcp_test_mock_backend_repo_get_all :: bool where
  "tcp_test_mock_backend_repo_get_all \<longleftrightarrow>
     length (mock_get_all \<lparr>mb_backends = [tcp_create_test_backend ''b-1'', tcp_create_test_backend ''b-2'']\<rparr>) = 2"

definition tcp_test_mock_backend_repo_get_by_id_found :: bool where
  "tcp_test_mock_backend_repo_get_by_id_found \<longleftrightarrow>
     map_option bk_id (mock_get_by_id \<lparr>mb_backends = [tcp_create_test_backend ''b-1'']\<rparr> ''b-1'') = Some ''b-1''"

definition tcp_test_mock_backend_repo_get_by_id_not_found :: bool where
  "tcp_test_mock_backend_repo_get_by_id_not_found \<longleftrightarrow>
     mock_get_by_id \<lparr>mb_backends = [tcp_create_test_backend ''b-1'']\<rparr> ''b-999'' = None"

definition tcp_test_mock_backend_repo_get_version :: bool where
  "tcp_test_mock_backend_repo_get_version \<longleftrightarrow>
     mock_get_version \<lparr>mb_backends = []\<rparr> = 1"

definition tcp_test_mock_geo_resolver :: bool where
  "tcp_test_mock_geo_resolver \<longleftrightarrow>
     map_option geo_country (fixed_geo (Some (geo_info_new ''US'' NorthAmerica)) (ipv4 8 8 8 8)) = Some ''US''"

definition tcp_test_mock_geo_resolver_none :: bool where
  "tcp_test_mock_geo_resolver_none \<longleftrightarrow>
     fixed_geo None (ipv4 8 8 8 8) = None"

definition tcp_test_proxy_bidirectional_closes_gracefully :: bool where
  "tcp_test_proxy_bidirectional_closes_gracefully \<longleftrightarrow>
     proxy_bidirectional (Inr (Inr 0)) (Inr (Inr 0)) = Inr ()"

definition tcp_test_resolve_localhost_geo_caches_result :: bool where
  "tcp_test_resolve_localhost_geo_caches_result \<longleftrightarrow>
     (case resolve_localhost_geo (Some (fixed_geo (Some (geo_info_new ''JP'' AsiaPacific)))) None (Some (geo_info_new ''JP'' AsiaPacific)) of
        (result, cached) \<Rightarrow> map_option geo_country result = Some ''JP'' \<and> cached \<noteq> None)"

lemma tcp_tests:
  "tcp_test_tcp_server_new" "tcp_test_backend_addr_format_ipv4" "tcp_test_backend_addr_format_ipv6"
  "tcp_test_resolve_localhost_geo_returns_none_without_resolver" "tcp_test_resolve_localhost_geo_returns_cached"
  "tcp_test_run_accepts_connection"
  by code_simp+

lemma tcp_tests_2:
  "tcp_test_resolve_localhost_geo_with_resolver_no_cached" "tcp_test_run_server_multiple_connections" "tcp_test_mock_backend_repo_get_all"
  "tcp_test_mock_backend_repo_get_by_id_found" "tcp_test_mock_backend_repo_get_by_id_not_found" "tcp_test_mock_backend_repo_get_version"
  by code_simp+

lemma tcp_tests_3:
  "tcp_test_mock_geo_resolver" "tcp_test_mock_geo_resolver_none" "tcp_test_proxy_bidirectional_closes_gracefully"
  "tcp_test_resolve_localhost_geo_caches_result"
  by code_simp+

lemma tcp_tests_4:
  "tcp_test_tcp_server_new_with_geo_resolver"
  by (simp_all add: tcp_server_new_def
      tcp_test_tcp_server_new_with_geo_resolver_def)

lemma tcp_tests_5:
  "tcp_test_handle_connection_no_backend" "tcp_test_handle_connection_backend_unreachable" "tcp_test_handle_connection_with_ipv6_backend"
  by (simp_all add: handlers_return_ok
      tcp_test_handle_connection_no_backend_def tcp_test_handle_connection_backend_unreachable_def tcp_test_handle_connection_with_ipv6_backend_def)

lemma tcp_tests_6:
  "tcp_test_handle_connection_with_loopback_ip"
  by (simp_all add: handlers_return_ok is_loopback_test
      tcp_test_handle_connection_with_loopback_ip_def)

section \<open>\<^verbatim>\<open>src/adapters/inbound/tls_server.rs\<close>\<close>

text \<open>A library that reads the two files of a test and accepts every pair.\<close>

definition test_tls_lib :: "string list \<Rightarrow> (u8 list, u8 list, unit) tls_lib" where
  "test_tls_lib files =
     \<lparr>tl_open = (\<lambda>p. if p \<in> set files then Inr (map of_char p) else Inl p), tl_certs = (\<lambda>f. [Inr f]), tl_private_key = (\<lambda>f. Inr (Some f)),
      tl_single_cert = (\<lambda>_ _. Inr ()), tl_self_signed = (\<lambda>_. Inr ([1], [2])), tl_cert_der = (\<lambda>c. c), tl_key_der = Inr\<rparr>"

definition tls_create_test_backend :: "string \<Rightarrow> backend" where
  "tls_create_test_backend i = edge_backend i ''127.0.0.1'' 9999"

abbreviation tls_test_server :: "string \<Rightarrow> unit tls_server" where
  "tls_test_server addr \<equiv> tls_server_new addr None \<lparr>tc_acceptor = ()\<rparr>"

definition tls_test_self_signed_certificate_generation :: bool where
  "tls_test_self_signed_certificate_generation \<longleftrightarrow>
     \<not> isl (self_signed (test_tls_lib []) ''test.internal'')"

definition tls_test_self_signed_with_custom_domain :: bool where
  "tls_test_self_signed_with_custom_domain \<longleftrightarrow>
     \<not> isl (self_signed (test_tls_lib []) ''myapp.internal'')"

definition tls_test_self_signed_with_localhost :: bool where
  "tls_test_self_signed_with_localhost \<longleftrightarrow>
     \<not> isl (self_signed (test_tls_lib []) ''localhost'')"

definition tls_test_self_signed_with_ip_address :: bool where
  "tls_test_self_signed_with_ip_address \<longleftrightarrow>
     \<not> isl (self_signed (test_tls_lib []) ''192.168.1.1'')"

definition tls_test_from_pem_files_nonexistent :: bool where
  "tls_test_from_pem_files_nonexistent \<longleftrightarrow>
     isl (from_pem_files (test_tls_lib []) ''/nonexistent/cert.pem'' ''/nonexistent/key.pem'')"

definition tls_test_tls_server_new :: bool where
  "tls_test_tls_server_new \<longleftrightarrow>
     tv_listen_addr (tls_test_server ''0.0.0.0:8443'') = ''0.0.0.0:8443''"

definition tls_test_tls_server_new_with_custom_config :: bool where
  "tls_test_tls_server_new_with_custom_config \<longleftrightarrow>
     tv_listen_addr (tls_test_server ''127.0.0.1:9443'') = ''127.0.0.1:9443'' \<and> tv_geo_resolver (tls_test_server ''127.0.0.1:9443'') = None"

definition tls_test_resolve_localhost_geo_returns_none_without_resolver :: bool where
  "tls_test_resolve_localhost_geo_returns_none_without_resolver \<longleftrightarrow>
     fst (tls_resolve_localhost_geo None (Some (ipv4 8 8 8 8)) None) = None"

definition tls_test_resolve_localhost_geo_returns_cached :: bool where
  "tls_test_resolve_localhost_geo_returns_cached \<longleftrightarrow>
     map_option geo_country (fst (tls_resolve_localhost_geo None None (Some (geo_info_new ''DE'' Europe)))) = Some ''DE''"

definition tls_test_backend_addr_format_ipv4 :: bool where
  "tls_test_backend_addr_format_ipv4 \<longleftrightarrow>
     backend_addr (edge_backend ''test'' ''10.0.0.1'' 8080) = ''10.0.0.1:8080''"

definition tls_test_backend_addr_format_ipv6 :: bool where
  "tls_test_backend_addr_format_ipv6 \<longleftrightarrow>
     backend_addr (edge_backend ''test'' ''2001:db8::1'' 8080) = ''[2001:db8::1]:8080''"

definition tls_test_run_accepts_tls_connection :: bool where
  "tls_test_run_accepts_tls_connection \<longleftrightarrow>
     (case tls_run (\<lambda>_. None) (\<lambda>_ ok. ok) [Inr (ipv4 127 0 0 1, True)] (tls_test_server ''127.0.0.1:4000'')
             (edge_sys_start [edge_backend ''test-1'' ''127.0.0.1'' 4001]) of
        (result, s) \<Rightarrow> result = None \<and> map snd (es_sessions s) = [Accepted])"

definition tls_test_run_handles_tls_handshake_failure :: bool where
  "tls_test_run_handles_tls_handshake_failure \<longleftrightarrow>
     (case tls_run (\<lambda>_. None) (\<lambda>_ ok. ok) [Inr (ipv4 127 0 0 1, False)] (tls_test_server ''127.0.0.1:4000'')
             (edge_sys_start [tls_create_test_backend ''test-1'']) of
        (result, s) \<Rightarrow> result = None \<and> es_sessions s = [])"

definition tls_test_resolve_localhost_geo_with_resolver :: bool where
  "tls_test_resolve_localhost_geo_with_resolver \<longleftrightarrow>
     fst (tls_resolve_localhost_geo (Some (fixed_geo (Some (geo_info_new ''BR'' SouthAmerica)))) None None) = None"

definition tls_test_run_multiple_connections :: bool where
  "tls_test_run_multiple_connections \<longleftrightarrow>
     (case tls_run (\<lambda>_. None) (\<lambda>_ ok. ok) (replicate 3 (Inr (ipv4 127 0 0 1, True))) (tls_test_server ''127.0.0.1:4000'')
             (edge_sys_start [edge_backend ''test-1'' ''127.0.0.1'' 4001]) of
        (result, s) \<Rightarrow> result = None \<and> length (es_sessions s) = 3)"

definition tls_test_from_pem_files_success :: bool where
  "tls_test_from_pem_files_success \<longleftrightarrow>
     \<not> isl (from_pem_files (test_tls_lib [''cert'', ''key'']) ''cert'' ''key'')"

definition tls_test_mock_backend_repo_get_all :: bool where
  "tls_test_mock_backend_repo_get_all \<longleftrightarrow>
     length (mock_get_all \<lparr>mb_backends = [tls_create_test_backend ''eu-1'', tls_create_test_backend ''eu-2'']\<rparr>) = 2"

definition tls_test_mock_backend_repo_get_by_id :: bool where
  "tls_test_mock_backend_repo_get_by_id \<longleftrightarrow>
     (let repo = \<lparr>mb_backends = [tls_create_test_backend ''eu-1'']\<rparr> in mock_get_by_id repo ''eu-1'' \<noteq> None \<and> mock_get_by_id repo ''nope'' = None)"

definition tls_test_mock_backend_repo_get_version :: bool where
  "tls_test_mock_backend_repo_get_version \<longleftrightarrow>
     mock_get_version \<lparr>mb_backends = []\<rparr> = 1"

definition tls_test_mock_geo_resolver :: bool where
  "tls_test_mock_geo_resolver \<longleftrightarrow>
     map_option geo_country (fixed_geo (Some (geo_info_new ''BR'' SouthAmerica)) (ipv4 8 8 8 8)) = Some ''BR'' \<and> fixed_geo None (ipv4 8 8 8 8) = None"

definition tls_test_backend_addr_format_ipv6_in_handle_connection :: bool where
  "tls_test_backend_addr_format_ipv6_in_handle_connection \<longleftrightarrow>
     backend_addr (edge_backend ''ipv6-test'' ''2001:db8::1'' 8080) = ''[2001:db8::1]:8080''"

lemma tls_tests:
  "tls_test_self_signed_certificate_generation" "tls_test_self_signed_with_custom_domain" "tls_test_self_signed_with_localhost"
  "tls_test_self_signed_with_ip_address" "tls_test_from_pem_files_nonexistent" "tls_test_tls_server_new"
  by code_simp+

lemma tls_tests_2:
  "tls_test_resolve_localhost_geo_returns_none_without_resolver" "tls_test_resolve_localhost_geo_returns_cached"
  "tls_test_backend_addr_format_ipv4" "tls_test_backend_addr_format_ipv6" "tls_test_run_accepts_tls_connection"
  "tls_test_run_handles_tls_handshake_failure"
  by code_simp+

lemma tls_tests_3:
  "tls_test_resolve_localhost_geo_with_resolver" "tls_test_run_multiple_connections" "tls_test_from_pem_files_success"
  "tls_test_mock_backend_repo_get_all" "tls_test_mock_backend_repo_get_by_id" "tls_test_mock_backend_repo_get_version"
  by code_simp+

lemma tls_tests_4:
  "tls_test_mock_geo_resolver" "tls_test_backend_addr_format_ipv6_in_handle_connection"
  by code_simp+

lemma tls_tests_5:
  "tls_test_tls_server_new_with_custom_config"
  by (simp_all add: tls_server_new_def
      tls_test_tls_server_new_with_custom_config_def)

end
