(* ===== verification/Tests_Gossip.thy ===== *)
theory Tests_Gossip
  imports Gossip "HOL-Library.Code_Target_Nat"
begin

text \<open>
  The unit tests of the replication types, of the replication configuration and of the gossip service (\<^verbatim>\<open>src/replication\<close>), run on the model. Where a test uses the checksum
  or the serialiser of a library, the model's argument is a simple one of the same kind; tests that only exercise such a library are left out.
\<close>

definition sum_crc :: crc32 where
  "sum_crc bs = fold (\<lambda>b h. h * 31 + ucast b) bs 7"

definition data_ser :: serializer where
  "data_ser cs = Some (concat (map (\<lambda>c. as_bytes (ch_pk c) @ [0] @ as_bytes (ch_data c) @ [0]) cs))"

section \<open>\<^verbatim>\<open>src/replication/types.rs\<close>\<close>

abbreviation change_at :: "u64 \<Rightarrow> string \<Rightarrow> change_kind \<Rightarrow> string \<Rightarrow> change" where
  "change_at now pk kind node \<equiv> change_new sum_crc 1 now ''backends'' pk kind ''{}'' (node_id_new node)"

definition types_test_node_id :: bool where
  "types_test_node_id \<longleftrightarrow>
     (let i = node_id_new ''pop-sa-1'' in node_id_as_str i = ''pop-sa-1'' \<and> node_id_display i = ''pop-sa-1'')"

definition types_test_hlc_timestamp_ordering :: bool where
  "types_test_hlc_timestamp_ordering \<longleftrightarrow>
     (let node = node_id_new ''node-1'' in hlc_now sum_crc 5 node < hlc_now sum_crc (5 + 1000) node)"

definition types_test_hlc_timestamp_tick :: bool where
  "types_test_hlc_timestamp_tick \<longleftrightarrow>
     (let node = node_id_new ''node-1''; t1 = hlc_now sum_crc 5 node; t2 = hlc_tick sum_crc 5 t1 None node; t3 = hlc_tick sum_crc 5 t2 (Some t1) node
      in t1 < t2 \<and> t2 < t3)"

definition types_test_change_wins_over :: bool where
  "types_test_change_wins_over \<longleftrightarrow>
     (let c1 = change_at 5 ''pk1'' Insert ''node-1''; c2 = change_at (5 + 1000) ''pk1'' Update ''node-2'' in wins_over c2 c1 \<and> \<not> wins_over c1 c2)"

definition types_test_changeset_checksum :: bool where
  "types_test_changeset_checksum \<longleftrightarrow>
     changeset_verify sum_crc data_ser (changeset_new sum_crc data_ser (node_id_new ''node-1'') 1 [change_at 5 ''pk1'' Insert ''node-1''])"

definition types_test_changeset_checksum_fails_on_tamper :: bool where
  "types_test_changeset_checksum_fails_on_tamper \<longleftrightarrow>
     (let cs = changeset_new sum_crc data_ser (node_id_new ''node-1'') 1 [change_at 5 ''pk1'' Insert ''node-1'']
      in \<not> changeset_verify sum_crc data_ser (cs\<lparr>cs_changes := map (\<lambda>c. c\<lparr>ch_data := ''tampered''\<rparr>) (cs_changes cs)\<rparr>))"

definition types_test_hlc_timestamp_default :: bool where
  "types_test_hlc_timestamp_default \<longleftrightarrow>
     wall_time hlc_default = 0 \<and> counter hlc_default = 0 \<and> node_hash hlc_default = 0"

definition types_test_hlc_timestamp_eq :: bool where
  "types_test_hlc_timestamp_eq \<longleftrightarrow>
     HLC 100 1 42 = HLC 100 1 42 \<and> HLC 100 1 42 \<noteq> HLC 101 1 42"

definition types_test_hlc_tick_with_older_other :: bool where
  "types_test_hlc_tick_with_older_other \<longleftrightarrow>
     (let node = node_id_new ''node-1''; old_ts = HLC 1000 5 42; current = hlc_now sum_crc 1700000000000000 node;
          ticked = hlc_tick sum_crc 1700000000000000 current (Some old_ts) node
      in current < ticked \<and> old_ts < ticked)"

definition types_test_hlc_tick_same_wall_time_both :: bool where
  "types_test_hlc_tick_same_wall_time_both \<longleftrightarrow>
     (let wall = - 1 - 1000; result = hlc_tick sum_crc 1700000000000000 (HLC wall 5 42) (Some (HLC wall 3 43)) (node_id_new ''node-1'')
      in counter result = 6 \<and> wall_time result = wall)"

definition types_test_node_id_eq_hash :: bool where
  "types_test_node_id_eq_hash \<longleftrightarrow>
     (let id1 = node_id_new ''node-1''; id2 = node_id_new ''node-1''; id3 = node_id_new ''node-2''
      in id1 = id2 \<and> id1 \<noteq> id3 \<and> id2 \<in> set [id1] \<and> id3 \<notin> set [id1])"

definition types_test_change_kind_variants :: bool where
  "types_test_change_kind_variants \<longleftrightarrow>
     Insert \<noteq> Update \<and> Update \<noteq> Delete \<and> Delete \<noteq> Insert"

definition types_test_change_delete :: bool where
  "types_test_change_delete \<longleftrightarrow>
     ch_kind (change_at 5 ''pk1'' Delete ''node-1'') = Delete"

definition types_test_changeset_empty :: bool where
  "types_test_changeset_empty \<longleftrightarrow>
     (let cs = changeset_new sum_crc data_ser (node_id_new ''node-1'') 0 [] in changeset_verify sum_crc data_ser cs \<and> length (cs_changes cs) = 0)"

definition types_test_change_has_id :: bool where
  "types_test_change_has_id \<longleftrightarrow>
     0 < ch_id (change_new sum_crc (rand_id 1700000000000000001 1700000000000000002) 5 ''backends'' ''pk1'' Insert ''{}'' ''node-1'')"

definition types_test_changeset_with_multiple_changes :: bool where
  "types_test_changeset_with_multiple_changes \<longleftrightarrow>
     (let cs = changeset_new sum_crc data_ser (node_id_new ''node-1'') 1
                 [change_at 5 ''pk1'' Insert ''node-1'', change_at 5 ''pk2'' Update ''node-1'', change_at 5 ''pk3'' Delete ''node-1'']
      in changeset_verify sum_crc data_ser cs \<and> length (cs_changes cs) = 3)"

definition types_test_hlc_tick_counter_reset_on_new_wall_time :: bool where
  "types_test_hlc_tick_counter_reset_on_new_wall_time \<longleftrightarrow>
     wall_time (HLC 1 100 42) < wall_time (hlc_tick sum_crc 1700000000000000 (HLC 1 100 42) None (node_id_new ''node-1''))"

definition types_test_hlc_tick_other_has_higher_wall_time :: bool where
  "types_test_hlc_tick_other_has_higher_wall_time \<longleftrightarrow>
     (let far_future = - 1 - 100; result = hlc_tick sum_crc 1700000000000000 (HLC 1000 5 42) (Some (HLC far_future 10 43)) (node_id_new ''node-1'')
      in wall_time result = far_future \<and> counter result = 11)"

definition types_test_hlc_tick_none_self_wall_time_is_max :: bool where
  "types_test_hlc_tick_none_self_wall_time_is_max \<longleftrightarrow>
     (let far_future = - 1 - 100; result = hlc_tick sum_crc 1700000000000000 (HLC far_future 7 42) None (node_id_new ''node-1'')
      in wall_time result = far_future \<and> counter result = 8)"

lemma types_tests:
  "types_test_node_id" "types_test_hlc_timestamp_ordering" "types_test_hlc_timestamp_tick" "types_test_change_wins_over"
  "types_test_changeset_checksum" "types_test_changeset_checksum_fails_on_tamper"
  by code_simp+

lemma types_tests_2:
  "types_test_hlc_timestamp_default" "types_test_hlc_timestamp_eq" "types_test_hlc_tick_with_older_other"
  "types_test_hlc_tick_same_wall_time_both" "types_test_node_id_eq_hash" "types_test_change_kind_variants"
  by code_simp+

lemma types_tests_3:
  "types_test_change_delete" "types_test_changeset_empty" "types_test_change_has_id" "types_test_changeset_with_multiple_changes"
  "types_test_hlc_tick_counter_reset_on_new_wall_time" "types_test_hlc_tick_other_has_higher_wall_time"
  by code_simp+

lemma types_tests_4:
  "types_test_hlc_tick_none_self_wall_time_is_max"
  by code_simp+

section \<open>\<^verbatim>\<open>src/replication/gossip.rs\<close>\<close>

definition addr :: "string \<Rightarrow> socket_addr" where
  "addr s = (case parse_socket_addr s of Some a \<Rightarrow> a | None \<Rightarrow> socket_v4 0 0)"

abbreviation member_of :: "string \<Rightarrow> string \<Rightarrow> string \<Rightarrow> member_state \<Rightarrow> instant \<Rightarrow> u64 \<Rightarrow> member" where
  "member_of n g t st seen inc \<equiv>
     \<lparr>mb_node_id = n, mb_gossip_addr = addr g, mb_transport_addr = addr t, mb_state = st, mb_last_seen = seen, mb_incarnation = inc\<rparr>"

abbreviation test_member :: "string \<Rightarrow> member_state \<Rightarrow> instant \<Rightarrow> member" where
  "test_member n st seen \<equiv> member_of n ''127.0.0.1:4001'' ''127.0.0.1:4002'' st seen 1"

text \<open>The messages in the tests of \<^verbatim>\<open>process_message\<close> arrive at the node \<^verbatim>\<open>local-node\<close>.\<close>

abbreviation process_at :: "gossip_message \<Rightarrow> string \<Rightarrow> members \<Rightarrow> process_result \<times> members" where
  "process_at msg src ms \<equiv> process_message 0 msg (addr src) ''local-node'' (addr ''127.0.0.1:4001'') (addr ''127.0.0.1:4002'') 1 ms"

abbreviation gossip_of :: "string \<Rightarrow> gossip_service" where
  "gossip_of n \<equiv> gossip_service_new (replication_config_new n)"

abbreviation with_member :: "string \<Rightarrow> member \<Rightarrow> gossip_service \<Rightarrow> gossip_service" where
  "with_member k m g \<equiv> g\<lparr>gs_members := dm_insert k m (gs_members g)\<rparr>"

definition gossip_test_member_state :: bool where
  "gossip_test_member_state \<longleftrightarrow>
     Alive = Alive \<and> Alive \<noteq> Dead \<and> Alive \<noteq> Suspect \<and> Dead \<noteq> Suspect"

definition gossip_test_member_creation :: bool where
  "gossip_test_member_creation \<longleftrightarrow>
     (let member = member_of ''node-1'' ''127.0.0.1:4001'' ''127.0.0.1:4002'' Alive 0 0
      in mb_node_id member = ''node-1'' \<and> mb_state member = Alive \<and> mb_incarnation member = 0)"

definition gossip_test_gossip_service_creation :: bool where
  "gossip_test_gossip_service_creation \<longleftrightarrow>
     (let service = gossip_service_new (with_gossip_addr (addr ''127.0.0.1:4001'') (replication_config_new ''test-node''))
      in gossip_members service = [] \<and> \<not> gossip_is_shutdown service)"

definition gossip_test_gossip_service_shutdown :: bool where
  "gossip_test_gossip_service_shutdown \<longleftrightarrow>
     (let service = gossip_of ''test-node'' in \<not> gossip_is_shutdown service \<and> gossip_is_shutdown (gossip_shutdown service))"

definition gossip_test_gossip_service_get_member_none :: bool where
  "gossip_test_gossip_service_get_member_none \<longleftrightarrow>
     get_member (gossip_of ''test-node'') ''nonexistent'' = None"

definition gossip_test_gossip_service_alive_members_empty :: bool where
  "gossip_test_gossip_service_alive_members_empty \<longleftrightarrow>
     alive_members (gossip_of ''test-node'') = []"

definition gossip_test_gossip_service_members_with_data :: bool where
  "gossip_test_gossip_service_members_with_data \<longleftrightarrow>
     (let service = with_member ''peer-1'' (member_of ''peer-1'' ''127.0.0.1:5001'' ''127.0.0.1:5002'' Alive 0 1) (gossip_of ''test-node'')
      in length (gossip_members service) = 1 \<and> length (alive_members service) = 1 \<and> map_option mb_node_id (get_member service ''peer-1'') = Some ''peer-1'')"

definition gossip_test_gossip_service_alive_members_filters_dead :: bool where
  "gossip_test_gossip_service_alive_members_filters_dead \<longleftrightarrow>
     (let service = with_member ''suspect-node'' (member_of ''suspect-node'' ''127.0.0.1:7001'' ''127.0.0.1:7002'' Suspect 0 1)
                      (with_member ''dead-node'' (member_of ''dead-node'' ''127.0.0.1:6001'' ''127.0.0.1:6002'' Dead 0 1)
                        (with_member ''alive-node'' (member_of ''alive-node'' ''127.0.0.1:5001'' ''127.0.0.1:5002'' Alive 0 1) (gossip_of ''test-node'')))
      in length (gossip_members service) = 3 \<and> map mb_node_id (alive_members service) = [''alive-node''])"

definition gossip_test_gossip_service_start_and_shutdown :: bool where
  "gossip_test_gossip_service_start_and_shutdown \<longleftrightarrow>
     (let service = gossip_service_new (with_gossip_addr (addr ''127.0.0.1:0'') (replication_config_new ''test-node''));
          (result, service) = gossip_start (\<lambda>_. None) (\<lambda>_. None) service
      in result = Inr () \<and> gossip_is_shutdown (gossip_shutdown service))"

definition gossip_test_gossip_service_start_with_bootstrap_peers :: bool where
  "gossip_test_gossip_service_start_with_bootstrap_peers \<longleftrightarrow>
     (let service = gossip_service_new (with_bootstrap_peers [''127.0.0.1:9999''] (with_gossip_addr (addr ''127.0.0.1:0'') (replication_config_new ''test-node'')));
          (result, service) = gossip_start (\<lambda>_. Some [1]) (\<lambda>_. None) service
      in result = Inr () \<and> map fst (gs_sent service) = [addr ''127.0.0.1:9999''])"

definition gossip_test_gossip_service_add_member_directly :: bool where
  "gossip_test_gossip_service_add_member_directly \<longleftrightarrow>
     (let service = with_member ''direct-member'' (member_of ''direct-member'' ''127.0.0.1:5001'' ''127.0.0.1:5002'' Alive 0 10) (gossip_of ''test-node'')
      in map_option mb_incarnation (get_member service ''direct-member'') = Some 10)"

definition gossip_test_gossip_service_member_state_transitions :: bool where
  "gossip_test_gossip_service_member_state_transitions \<longleftrightarrow>
     (let service = with_member ''state-member'' (member_of ''state-member'' ''127.0.0.1:5001'' ''127.0.0.1:5002'' Alive 0 1) (gossip_of ''test-node'');
          suspect = service\<lparr>gs_members := dm_modify ''state-member'' (\<lambda>m. m\<lparr>mb_state := Suspect\<rparr>) (gs_members service)\<rparr>;
          dead = suspect\<lparr>gs_members := dm_modify ''state-member'' (\<lambda>m. m\<lparr>mb_state := Dead\<rparr>) (gs_members suspect)\<rparr>
      in length (alive_members service) = 1 \<and> length (alive_members suspect) = 0 \<and> length (gossip_members dead) = 1 \<and> length (alive_members dead) = 0)"

definition gossip_test_gossip_service_multiple_members_states :: bool where
  "gossip_test_gossip_service_multiple_members_states \<longleftrightarrow>
     (let service = fold (\<lambda>(i, st). with_member i (member_of i ''127.0.0.1:5001'' ''127.0.0.1:5002'' st 0 1))
                      [(''alive-1'', Alive), (''alive-2'', Alive), (''suspect-1'', Suspect), (''dead-1'', Dead)] (gossip_of ''test-node'')
      in length (gossip_members service) = 4 \<and> length (alive_members service) = 2)"

definition gossip_test_gossip_service_start_binds_socket :: bool where
  "gossip_test_gossip_service_start_binds_socket \<longleftrightarrow>
     (let service = gossip_service_new (with_gossip_addr (addr ''127.0.0.1:0'') (replication_config_new ''bind-test''));
          (result, service) = gossip_start (\<lambda>_. None) (\<lambda>_. None) service
      in result = Inr () \<and> gossip_is_shutdown (gossip_shutdown service))"

definition gossip_test_gossip_service_shutdown_idempotent :: bool where
  "gossip_test_gossip_service_shutdown_idempotent \<longleftrightarrow>
     (let service = gossip_of ''test-node''; s1 = gossip_shutdown service; s2 = gossip_shutdown s1
      in \<not> gossip_is_shutdown service \<and> gossip_is_shutdown s1 \<and> gossip_is_shutdown s2)"

definition gossip_test_process_result_empty :: bool where
  "gossip_test_process_result_empty \<longleftrightarrow>
     prs_actions process_result_empty = [] \<and> \<not> prs_member_discovered process_result_empty"

definition gossip_test_process_result_send :: bool where
  "gossip_test_process_result_send \<longleftrightarrow>
     (let a = addr ''127.0.0.1:4001''; result = process_result_send a (GPing ''test'' a a 1)
      in length (prs_actions result) = 1 \<and> (case prs_actions result of [Send dest _] \<Rightarrow> dest = a | _ \<Rightarrow> False))"

definition gossip_test_process_result_with_action :: bool where
  "gossip_test_process_result_with_action \<longleftrightarrow>
     prs_actions (with_action NoAction process_result_empty) = [NoAction]"

definition gossip_test_process_result_with_member_discovered :: bool where
  "gossip_test_process_result_with_member_discovered \<longleftrightarrow>
     prs_member_discovered (with_member_discovered process_result_empty)"

definition gossip_test_process_result_chaining :: bool where
  "gossip_test_process_result_chaining \<longleftrightarrow>
     (let a = addr ''127.0.0.1:4001'';
          result = with_action (Send a (create_ping ''test'' a a 1)) (with_member_discovered (with_action NoAction process_result_empty))
      in length (prs_actions result) = 2 \<and> prs_member_discovered result)"

definition gossip_test_process_message_ping_new_member :: bool where
  "gossip_test_process_message_ping_new_member \<longleftrightarrow>
     (let (result, members) = process_at (GPing ''peer-1'' (addr ''10.0.0.1:4001'') (addr ''10.0.0.1:4002'') 5) ''10.0.0.5:5000'' dm_empty
      in prs_member_discovered result
         \<and> (case prs_actions result of
              [Send dest (GAck sender_id _ _ _), Emit (MemberJoined member)] \<Rightarrow>
                dest = addr ''10.0.0.5:5000'' \<and> sender_id = ''local-node'' \<and> mb_node_id member = ''peer-1'' \<and> mb_incarnation member = 5
            | _ \<Rightarrow> False)
         \<and> dm_contains members ''peer-1'')"

definition gossip_test_process_message_ping_existing_member :: bool where
  "gossip_test_process_message_ping_existing_member \<longleftrightarrow>
     (let members = dm_insert ''peer-1'' (member_of ''peer-1'' ''10.0.0.1:4001'' ''10.0.0.1:4002'' Alive 0 1) dm_empty;
          (result, _) = process_at (GPing ''peer-1'' (addr ''10.0.0.1:4001'') (addr ''10.0.0.1:4002'') 5) ''10.0.0.5:5000'' members
      in \<not> prs_member_discovered result \<and> (case prs_actions result of [Send _ _] \<Rightarrow> True | _ \<Rightarrow> False))"

definition gossip_test_process_message_ack_new_member :: bool where
  "gossip_test_process_message_ack_new_member \<longleftrightarrow>
     (let (result, _) = process_at (GAck ''peer-2'' (addr ''10.0.0.2:4001'') (addr ''10.0.0.2:4002'') 10) ''10.0.0.5:5000'' dm_empty
      in prs_member_discovered result
         \<and> (case prs_actions result of
              [Emit (MemberJoined member)] \<Rightarrow> mb_node_id member = ''peer-2'' \<and> mb_incarnation member = 10
            | _ \<Rightarrow> False))"

definition gossip_test_process_message_ack_existing_member :: bool where
  "gossip_test_process_message_ack_existing_member \<longleftrightarrow>
     (let members = dm_insert ''peer-2'' (member_of ''peer-2'' ''10.0.0.2:4001'' ''10.0.0.2:4002'' Alive 0 5) dm_empty;
          (result, _) = process_at (GAck ''peer-2'' (addr ''10.0.0.2:4001'') (addr ''10.0.0.2:4002'') 10) ''10.0.0.5:5000'' members
      in \<not> prs_member_discovered result \<and> prs_actions result = [])"

definition gossip_test_process_message_join_new_member :: bool where
  "gossip_test_process_message_join_new_member \<longleftrightarrow>
     (let (result, _) = process_at (GJoin ''new-peer'' (addr ''10.0.0.3:4001'') (addr ''10.0.0.3:4002'')) ''10.0.0.3:5000'' dm_empty
      in prs_member_discovered result
         \<and> (case prs_actions result of
              [Send dest (GMemberList list), Emit (MemberJoined member)] \<Rightarrow>
                dest = addr ''10.0.0.3:5000'' \<and> list \<noteq> [] \<and> mb_node_id member = ''new-peer''
            | _ \<Rightarrow> False))"

definition gossip_test_process_message_member_list :: bool where
  "gossip_test_process_message_member_list \<longleftrightarrow>
     (let (result, members) = process_at (GMemberList
             [(''peer-1'', addr ''10.0.0.1:4001'', addr ''10.0.0.1:4002'', 1), (''peer-2'', addr ''10.0.0.2:4001'', addr ''10.0.0.2:4002'', 2),
              (''local-node'', addr ''127.0.0.1:4001'', addr ''127.0.0.1:4002'', 1)]) ''10.0.0.5:5000'' dm_empty
      in prs_member_discovered result \<and> length (prs_actions result) = 2
         \<and> list_all (\<lambda>action. case action of Emit (MemberJoined _) \<Rightarrow> True | _ \<Rightarrow> False) (prs_actions result)
         \<and> length members = 2 \<and> dm_contains members ''peer-1'' \<and> dm_contains members ''peer-2'' \<and> \<not> dm_contains members ''local-node'')"

definition gossip_test_process_message_member_list_empty :: bool where
  "gossip_test_process_message_member_list_empty \<longleftrightarrow>
     (let (result, _) = process_at (GMemberList []) ''10.0.0.5:5000'' dm_empty in \<not> prs_member_discovered result \<and> prs_actions result = [])"

definition gossip_test_check_member_failures_no_failures :: bool where
  "gossip_test_check_member_failures_no_failures \<longleftrightarrow>
     fst (check_member_failures 5 (from_secs 30) [(''alive'', test_member ''alive'' Alive 5)]) = []"

definition gossip_test_check_member_failures_with_failure :: bool where
  "gossip_test_check_member_failures_with_failure \<longleftrightarrow>
     (let (actions, members) = check_member_failures (from_secs 60) (from_secs 30) [(''stale'', test_member ''stale'' Alive 0)]
      in actions = [Emit (MemberStateChanged ''stale'' Alive Dead), Emit (MemberLeft ''stale'')]
         \<and> map_option mb_state (dm_get members ''stale'') = Some Dead)"

definition gossip_test_check_member_failures_already_dead :: bool where
  "gossip_test_check_member_failures_already_dead \<longleftrightarrow>
     fst (check_member_failures (from_secs 60) (from_secs 30) [(''dead'', test_member ''dead'' Dead 0)]) = []"

definition gossip_test_select_ping_target_empty :: bool where
  "gossip_test_select_ping_target_empty \<longleftrightarrow>
     select_ping_target 3 dm_empty = None"

definition gossip_test_select_ping_target_with_members :: bool where
  "gossip_test_select_ping_target_with_members \<longleftrightarrow>
     select_ping_target 3 [(''peer-1'', member_of ''peer-1'' ''10.0.0.1:4001'' ''10.0.0.1:4002'' Alive 0 1)] = Some (addr ''10.0.0.1:4001'')"

definition gossip_test_select_ping_target_skips_dead :: bool where
  "gossip_test_select_ping_target_skips_dead \<longleftrightarrow>
     select_ping_target 3 [(''dead'', member_of ''dead'' ''10.0.0.1:4001'' ''10.0.0.1:4002'' Dead 0 1),
       (''alive'', member_of ''alive'' ''10.0.0.2:4001'' ''10.0.0.2:4002'' Alive 0 1)] = Some (addr ''10.0.0.2:4001'')"

definition gossip_test_create_ping :: bool where
  "gossip_test_create_ping \<longleftrightarrow>
     (case create_ping ''my-node'' (addr ''127.0.0.1:4001'') (addr ''127.0.0.1:4002'') 42 of
        GPing sender_id g t incarnation \<Rightarrow> sender_id = ''my-node'' \<and> g = addr ''127.0.0.1:4001'' \<and> t = addr ''127.0.0.1:4002'' \<and> incarnation = 42
      | _ \<Rightarrow> False)"

definition gossip_test_create_join :: bool where
  "gossip_test_create_join \<longleftrightarrow>
     (case create_join ''joining-node'' (addr ''127.0.0.1:4001'') (addr ''127.0.0.1:4002'') of
        GJoin node_id g t \<Rightarrow> node_id = ''joining-node'' \<and> g = addr ''127.0.0.1:4001'' \<and> t = addr ''127.0.0.1:4002''
      | _ \<Rightarrow> False)"

definition gossip_test_member_partial_eq :: bool where
  "gossip_test_member_partial_eq \<longleftrightarrow>
     member_eq (test_member ''test'' Alive (from_secs 10)) (test_member ''test'' Alive 0)"

definition gossip_test_member_partial_eq_different :: bool where
  "gossip_test_member_partial_eq_different \<longleftrightarrow>
     \<not> member_eq (test_member ''test-1'' Alive 0) (test_member ''test-2'' Alive 0)"

definition gossip_test_gossip_event_partial_eq :: bool where
  "gossip_test_gossip_event_partial_eq \<longleftrightarrow>
     MemberJoined (test_member ''test'' Alive 0) = MemberJoined (test_member ''test'' Alive 0) \<and> MemberJoined (test_member ''test'' Alive 0) \<noteq> MemberLeft ''test''"

definition gossip_test_gossip_service_get_member_not_found :: bool where
  "gossip_test_gossip_service_get_member_not_found \<longleftrightarrow>
     (let service = gossip_service_new replication_config_default;
          service' = with_member ''found'' (member_of ''found'' ''127.0.0.1:4001'' ''127.0.0.1:4002'' Alive 0 5) service
      in get_member service ''unknown'' = None \<and> map_option mb_incarnation (get_member service' ''found'') = Some 5)"

definition gossip_test_member_state_eq_variants :: bool where
  "gossip_test_member_state_eq_variants \<longleftrightarrow>
     Alive \<noteq> Suspect \<and> Suspect \<noteq> Dead"

definition gossip_test_process_result_chain_builder :: bool where
  "gossip_test_process_result_chain_builder \<longleftrightarrow>
     (let a = addr ''127.0.0.1:4001'';
          result = with_member_discovered (with_action (Send a (create_ping ''test'' a a 1)) (with_action NoAction process_result_empty))
      in prs_member_discovered result \<and> length (prs_actions result) = 2)"

definition gossip_test_select_ping_target_all_members_dead :: bool where
  "gossip_test_select_ping_target_all_members_dead \<longleftrightarrow>
     select_ping_target 3 [(''dead1'', member_of ''dead1'' ''10.0.0.1:4001'' ''10.0.0.1:4002'' Dead 0 1),
       (''dead2'', member_of ''dead2'' ''10.0.0.2:4001'' ''10.0.0.2:4002'' Dead 0 1)] = None"

definition gossip_test_check_member_failures_suspect_not_transitioned :: bool where
  "gossip_test_check_member_failures_suspect_not_transitioned \<longleftrightarrow>
     fst (check_member_failures (from_secs 60) (from_secs 30) [(''suspect'', test_member ''suspect'' Suspect 0)]) = []"

lemma gossip_tests:
  "gossip_test_member_state" "gossip_test_member_creation" "gossip_test_gossip_service_creation" "gossip_test_gossip_service_shutdown"
  "gossip_test_gossip_service_get_member_none" "gossip_test_gossip_service_alive_members_empty"
  by code_simp+

lemma gossip_tests_2:
  "gossip_test_gossip_service_members_with_data" "gossip_test_gossip_service_alive_members_filters_dead"
  "gossip_test_gossip_service_start_and_shutdown" "gossip_test_gossip_service_start_with_bootstrap_peers"
  "gossip_test_gossip_service_add_member_directly" "gossip_test_gossip_service_member_state_transitions"
  by code_simp+

lemma gossip_tests_3:
  "gossip_test_gossip_service_multiple_members_states" "gossip_test_gossip_service_start_binds_socket"
  "gossip_test_gossip_service_shutdown_idempotent" "gossip_test_process_result_empty" "gossip_test_process_result_send"
  "gossip_test_process_result_with_action"
  by code_simp+

lemma gossip_tests_4:
  "gossip_test_process_result_with_member_discovered" "gossip_test_process_result_chaining" "gossip_test_process_message_ping_new_member"
  "gossip_test_process_message_ping_existing_member" "gossip_test_process_message_ack_new_member"
  "gossip_test_process_message_ack_existing_member"
  by code_simp+

lemma gossip_tests_5:
  "gossip_test_process_message_join_new_member" "gossip_test_process_message_member_list" "gossip_test_process_message_member_list_empty"
  "gossip_test_check_member_failures_no_failures" "gossip_test_check_member_failures_with_failure"
  "gossip_test_check_member_failures_already_dead"
  by code_simp+

lemma gossip_tests_6:
  "gossip_test_select_ping_target_empty" "gossip_test_select_ping_target_with_members" "gossip_test_select_ping_target_skips_dead"
  "gossip_test_create_ping" "gossip_test_create_join" "gossip_test_member_partial_eq"
  by code_simp+

lemma gossip_tests_7:
  "gossip_test_member_partial_eq_different" "gossip_test_gossip_event_partial_eq" "gossip_test_gossip_service_get_member_not_found"
  "gossip_test_member_state_eq_variants" "gossip_test_process_result_chain_builder" "gossip_test_select_ping_target_all_members_dead"
  by code_simp+

lemma gossip_tests_8:
  "gossip_test_check_member_failures_suspect_not_transitioned"
  by code_simp+

end
