(* ===== verification/Tests_Replication.thy ===== *)
theory Tests_Replication
  imports Sync_Service Replication_Config "HOL-Library.Code_Target_Nat"
begin

text \<open>
  The unit tests of the sync service and of the replication configuration (\<^verbatim>\<open>src/replication\<close>), run on the model. The checksum and the serialiser
  are simple functions; the JSON parser knows the objects that the tests write, by their texts.
\<close>

definition len_crc :: crc32 where
  "len_crc bs = of_nat (length bs)"

definition key_ser :: serializer where
  "key_ser cs = Some (concat (map (\<lambda>c. as_bytes (ch_pk c)) cs))"

section \<open>\<^verbatim>\<open>src/replication/sync.rs\<close>\<close>

subsection \<open>Version vectors\<close>

definition sync_test_version_vector_new :: bool where
  "sync_test_version_vector_new \<longleftrightarrow>
     vv_get vv_new ''any-node'' = 0"

definition sync_test_version_vector_default :: bool where
  "sync_test_version_vector_default \<longleftrightarrow>
     vv_get vv_new ''any-node'' = 0"

definition sync_test_version_vector_clone :: bool where
  "sync_test_version_vector_clone \<longleftrightarrow>
     vv_get (vv_update ''node-1'' 5 vv_new) ''node-1'' = 5"

definition sync_test_version_vector_get_update :: bool where
  "sync_test_version_vector_get_update \<longleftrightarrow>
     (let vv = vv_update ''node-1'' 5 vv_new
      in vv_get vv_new ''node-1'' = 0 \<and> \<not> vv_has_seen vv_new ''node-1'' 1
         \<and> vv_get vv ''node-1'' = 5 \<and> vv_has_seen vv ''node-1'' 5 \<and> vv_has_seen vv ''node-1'' 3 \<and> \<not> vv_has_seen vv ''node-1'' 6)"

definition sync_test_version_vector_update_only_increases :: bool where
  "sync_test_version_vector_update_only_increases \<longleftrightarrow>
     (let vv1 = vv_update ''node-1'' 10 vv_new; vv2 = vv_update ''node-1'' 5 vv1; vv3 = vv_update ''node-1'' 15 vv2
      in vv_get vv1 ''node-1'' = 10 \<and> vv_get vv2 ''node-1'' = 10 \<and> vv_get vv3 ''node-1'' = 15)"

definition sync_test_version_vector_has_seen :: bool where
  "sync_test_version_vector_has_seen \<longleftrightarrow>
     (let vv = vv_update ''node-1'' 5 vv_new
      in \<not> vv_has_seen vv_new ''unknown'' 1 \<and> vv_has_seen vv_new ''unknown'' 0
         \<and> vv_has_seen vv ''node-1'' 0 \<and> vv_has_seen vv ''node-1'' 1 \<and> vv_has_seen vv ''node-1'' 5
         \<and> \<not> vv_has_seen vv ''node-1'' 6 \<and> \<not> vv_has_seen vv ''node-1'' 100)"

definition sync_test_version_vector_merge :: bool where
  "sync_test_version_vector_merge \<longleftrightarrow>
     (let vv1 = vv_update ''node-2'' 3 (vv_update ''node-1'' 5 vv_new); vv2 = vv_update ''node-3'' 7 (vv_update ''node-1'' 3 vv_new);
          vv = vv_merge vv1 vv2
      in vv_get vv ''node-1'' = 5 \<and> vv_get vv ''node-2'' = 3 \<and> vv_get vv ''node-3'' = 7)"

definition sync_test_version_vector_merge_empty :: bool where
  "sync_test_version_vector_merge_empty \<longleftrightarrow>
     vv_get (vv_merge (vv_update ''node-1'' 5 vv_new) vv_new) ''node-1'' = 5"

subsection \<open>The service\<close>

text \<open>The text of a flat JSON object, and the parser of the tests.\<close>

definition quoted :: "string \<Rightarrow> string" where
  "quoted s = [CHR 0x22] @ s @ [CHR 0x22]"

fun json_text :: "json \<Rightarrow> string" where
  "json_text (JStr s) = quoted s"
| "json_text (JInt n) = show_nat (nat n)"
| "json_text _ = ''null''"

fun fields_text :: "(string \<times> json) list \<Rightarrow> string" where
  "fields_text [] = ''''"
| "fields_text [(k, v)] = quoted k @ '':'' @ json_text v"
| "fields_text ((k, v) # fs) = quoted k @ '':'' @ json_text v @ '','' @ fields_text fs"

definition object_text :: "(string \<times> json) list \<Rightarrow> string" where
  "object_text fs = ''{'' @ fields_text fs @ ''}''"

definition fields :: "string \<Rightarrow> string \<Rightarrow> string \<Rightarrow> int \<Rightarrow> (string \<times> json) list" where
  "fields app region wg_ip port = [(''app'', JStr app), (''region'', JStr region), (''wg_ip'', JStr wg_ip), (''port'', JInt port)]"

definition full_fields :: "(string \<times> json) list" where
  "full_fields = [(''app'', JStr ''fullapp''), (''region'', JStr ''eu''), (''country'', JStr ''DE''), (''wg_ip'', JStr ''10.50.1.1''),
     (''port'', JInt 9999), (''healthy'', JInt 1), (''weight'', JInt 5), (''soft_limit'', JInt 200), (''hard_limit'', JInt 300)]"

definition test_objects :: "(string \<times> json) list list" where
  "test_objects = [[], fields ''myapp'' ''sa'' ''10.0.0.1'' 8080, fields ''myapp'' ''us'' ''10.0.0.2'' 9000,
     fields ''old'' ''sa'' ''10.0.0.1'' 8080, fields ''new'' ''us'' ''10.0.0.2'' 9000, fields ''first'' ''sa'' ''10.0.0.1'' 8080,
     fields ''old'' ''us'' ''10.0.0.2'' 9000, fields ''app1'' ''sa'' ''10.0.0.1'' 8080, fields ''app2'' ''us'' ''10.0.0.2'' 8081,
     fields ''app3'' ''eu'' ''10.0.0.3'' 8082, full_fields, [(''app'', JStr ''minapp'')],
     fields ''remote-app'' ''us'' ''10.0.0.5'' 9000]"

definition test_parse :: "string \<Rightarrow> json option" where
  "test_parse s = map_option JObj (find (\<lambda>fs. object_text fs = s) test_objects)"

abbreviation data :: "string \<Rightarrow> string \<Rightarrow> string \<Rightarrow> int \<Rightarrow> string" where
  "data app region wg_ip port \<equiv> object_text (fields app region wg_ip port)"

text \<open>The service of a test on its temporary file, before and after \<^verbatim>\<open>init_db\<close>; a change and a changeset of the other node.\<close>

definition test_sync :: sync_service where
  "test_sync = sync_service_new (node_id_new ''test-node'') None"

definition ready :: sync_service where
  "ready = snd (init_db test_sync)"

abbreviation other_change :: "u64 \<Rightarrow> string \<Rightarrow> change_kind \<Rightarrow> string \<Rightarrow> change" where
  "other_change now pk kind d \<equiv> change_new len_crc now now ''backends'' pk kind d (node_id_new ''other-node'')"

abbreviation other_set :: "u64 \<Rightarrow> change list \<Rightarrow> changeset" where
  "other_set seq cs \<equiv> changeset_new len_crc key_ser (node_id_new ''other-node'') seq cs"

abbreviation apply_set :: "changeset \<Rightarrow> sync_service \<Rightarrow> (sync_error + usize) poll \<times> sync_service" where
  "apply_set cs s \<equiv> apply_changeset len_crc key_ser test_parse 0 cs s"

abbreviation record_local :: "string \<Rightarrow> change_kind \<Rightarrow> sync_service \<Rightarrow> sync_service" where
  "record_local pk kind s \<equiv> snd (record_change len_crc 1 5 ''backends'' pk kind ''{}'' s)"

definition column :: "(backend_row \<Rightarrow> sql_value) \<Rightarrow> string \<Rightarrow> sync_service \<Rightarrow> sql_value option" where
  "column f pk s = (case sy_db s of None \<Rightarrow> None | Some db \<Rightarrow> map_option f (dm_get (db_backends db) pk))"

definition sync_test_sync_service_creation :: bool where
  "sync_test_sync_service_creation \<longleftrightarrow>
     sync_sequence test_sync = 0"

definition sync_test_sync_service_version_vector :: bool where
  "sync_test_sync_service_version_vector \<longleftrightarrow>
     vv_get (sync_version_vector test_sync) ''test-node'' = 0"

definition sync_test_sync_service_init_db :: bool where
  "sync_test_sync_service_init_db \<longleftrightarrow>
     (case init_db test_sync of (r, s) \<Rightarrow> r = Inr () \<and> sy_db s = Some empty_db)"

definition sync_test_sync_service_init_db_loads_version_vector :: bool where
  "sync_test_sync_service_init_db_loads_version_vector \<longleftrightarrow>
     (let first = snd (init_db (sync_service_new (node_id_new ''node-1'') None));
          file = map_option (\<lambda>db. db\<lparr>db_versions := dm_insert ''node-1'' 10 (db_versions db)\<rparr>) (sy_db first);
          service = snd (init_db (sync_service_new (node_id_new ''node-1'') file))
      in sync_sequence service = 10 \<and> vv_has_seen (sync_version_vector service) ''node-1'' 10)"

definition sync_test_record_change :: bool where
  "sync_test_record_change \<longleftrightarrow>
     (let change = fst (record_change len_crc 1 5 ''backends'' ''backend-1'' Insert (data ''myapp'' ''sa'' ''10.0.0.1'' 8080) test_sync)
      in ch_table change = ''backends'' \<and> ch_pk change = ''backend-1'' \<and> ch_kind change = Insert \<and> ch_origin change = ''test-node'')"

definition sync_test_record_multiple_changes :: bool where
  "sync_test_record_multiple_changes \<longleftrightarrow>
     length (sy_pending_changes (record_local ''b1'' Update (record_local ''b2'' Insert (record_local ''b1'' Insert test_sync)))) = 3"

definition sync_test_flush_empty :: bool where
  "sync_test_flush_empty \<longleftrightarrow>
     fst (flush len_crc key_ser test_sync) = Ready None"

definition sync_test_flush_with_changes :: bool where
  "sync_test_flush_with_changes \<longleftrightarrow>
     (case flush len_crc key_ser (record_local ''backend-1'' Insert ready) of
        (Ready (Some cs), s) \<Rightarrow> cs_seq cs = 1 \<and> length (cs_changes cs) = 1 \<and> changeset_verify len_crc key_ser cs
          \<and> sync_sequence s = 1 \<and> vv_has_seen (sync_version_vector s) ''test-node'' 1
      | _ \<Rightarrow> False)"

definition sync_test_flush_increments_sequence :: bool where
  "sync_test_flush_increments_sequence \<longleftrightarrow>
     (let (cs1, s) = flush len_crc key_ser (record_local ''b1'' Insert ready);
          (cs2, s) = flush len_crc key_ser (record_local ''b2'' Insert s);
          (cs3, s) = flush len_crc key_ser (record_local ''b3'' Insert s)
      in map_poll (map_option cs_seq) cs1 = Ready (Some 1) \<and> map_poll (map_option cs_seq) cs2 = Ready (Some 2) \<and> map_poll (map_option cs_seq) cs3 = Ready (Some 3) \<and> sync_sequence s = 3)"

definition sync_test_flush_clears_pending :: bool where
  "sync_test_flush_clears_pending \<longleftrightarrow>
     (let s = record_local ''b2'' Insert (record_local ''b1'' Insert ready)
      in length (sy_pending_changes s) = 2 \<and> length (sy_pending_changes (snd (flush len_crc key_ser s))) = 0)"

definition sync_test_apply_changeset_invalid_checksum :: bool where
  "sync_test_apply_changeset_invalid_checksum \<longleftrightarrow>
     fst (apply_set ((other_set 1 [])\<lparr>cs_checksum := 12345\<rparr>) ready) = Ready (Inl ChecksumFailed)"

definition sync_test_apply_changeset_already_seen :: bool where
  "sync_test_apply_changeset_already_seen \<longleftrightarrow>
     fst (apply_set (other_set 5 []) (ready\<lparr>sy_version_vector := vv_update ''other-node'' 5 (sy_version_vector ready)\<rparr>)) = Ready (Inr 0)"

definition sync_test_apply_changeset_with_backend_insert :: bool where
  "sync_test_apply_changeset_with_backend_insert \<longleftrightarrow>
     (case apply_set (other_set 1 [other_change 1000 ''backend-1'' Insert (data ''myapp'' ''sa'' ''10.0.0.1'' 8080)]) ready of
        (applied, s) \<Rightarrow> applied = Ready (Inr 1) \<and> column row_id ''backend-1'' s = Some (SqlText ''backend-1'')
          \<and> vv_has_seen (sync_version_vector s) ''other-node'' 1)"

definition sync_test_apply_changeset_with_backend_update :: bool where
  "sync_test_apply_changeset_with_backend_update \<longleftrightarrow>
     (let s = snd (apply_set (other_set 1 [other_change 1000 ''backend-1'' Insert (data ''myapp'' ''sa'' ''10.0.0.1'' 8080)]) ready);
          (applied, s) = apply_set (other_set 2 [other_change 3000 ''backend-1'' Update (data ''myapp'' ''us'' ''10.0.0.2'' 9000)]) s
      in applied = Ready (Inr 1) \<and> column row_region ''backend-1'' s = Some (SqlText ''us''))"

definition sync_test_apply_changeset_with_backend_delete :: bool where
  "sync_test_apply_changeset_with_backend_delete \<longleftrightarrow>
     (let s = snd (apply_set (other_set 1 [other_change 1000 ''backend-1'' Insert (data ''myapp'' ''sa'' ''10.0.0.1'' 8080)]) ready);
          (applied, s) = apply_set (other_set 2 [other_change 3000 ''backend-1'' Delete ''{}'']) s
      in applied = Ready (Inr 1) \<and> column row_deleted ''backend-1'' s = Some (SqlInteger 1))"

definition sync_test_apply_changeset_lww_newer_wins :: bool where
  "sync_test_apply_changeset_lww_newer_wins \<longleftrightarrow>
     (let s = snd (apply_set (other_set 1 [other_change 1000 ''backend-1'' Insert (data ''old'' ''sa'' ''10.0.0.1'' 8080)]) ready);
          (applied, s) = apply_set (other_set 2 [other_change 3000 ''backend-1'' Update (data ''new'' ''us'' ''10.0.0.2'' 9000)]) s
      in applied = Ready (Inr 1) \<and> column row_app ''backend-1'' s = Some (SqlText ''new''))"

definition sync_test_apply_changeset_unknown_table :: bool where
  "sync_test_apply_changeset_unknown_table \<longleftrightarrow>
     fst (apply_set (other_set 1 [change_new len_crc 1 5 ''unknown_table'' ''pk1'' Insert ''{}'' ''other-node'']) ready) = Ready (Inr 1)"

definition sync_test_get_changes_since :: bool where
  "sync_test_get_changes_since \<longleftrightarrow>
     get_changes_since ''other-node'' 0 ready = Inr []"

definition sync_test_persist_version :: bool where
  "sync_test_persist_version \<longleftrightarrow>
     (let (r1, s1) = persist_version ''node-1'' 42 ready; (r2, s2) = persist_version ''node-1'' 100 s1
      in r1 = Inr () \<and> map_option (\<lambda>db. dm_get (db_versions db) ''node-1'') (sy_db s1) = Some (Some 42)
         \<and> r2 = Inr () \<and> map_option (\<lambda>db. dm_get (db_versions db) ''node-1'') (sy_db s2) = Some (Some 100))"

definition sync_test_apply_changeset_lww_older_ignored :: bool where
  "sync_test_apply_changeset_lww_older_ignored \<longleftrightarrow>
     (let change_new = other_change 1700000000000000 ''backend-1'' Insert (data ''new'' ''us'' ''10.0.0.2'' 9000);
          change_old = (other_change 1700000000000001 ''backend-1'' Update (data ''old'' ''sa'' ''10.0.0.1'' 8080))
            \<lparr>ch_timestamp := HLC (wall_time (ch_timestamp change_new) - 10000) 0 1\<rparr>;
          s = snd (apply_set (other_set 2 [change_new]) ready); (applied, s) = apply_set (other_set 3 [change_old]) s
      in applied = Ready (Inr 0) \<and> column row_app ''backend-1'' s = Some (SqlText ''new''))"

definition sync_test_apply_changeset_lww_from_cache :: bool where
  "sync_test_apply_changeset_lww_from_cache \<longleftrightarrow>
     (let change1 = other_change 1700000000000000 ''backend-1'' Insert (data ''first'' ''sa'' ''10.0.0.1'' 8080);
          change2 = (other_change 1700000000000001 ''backend-1'' Update (data ''old'' ''us'' ''10.0.0.2'' 9000))
            \<lparr>ch_timestamp := HLC (wall_time (ch_timestamp change1) - 5000) 0 1\<rparr>;
          s = snd (apply_set (other_set 1 [change1]) ready)
      in dm_contains (sy_last_timestamps s) ''backends:backend-1'' \<and> fst (apply_set (other_set 2 [change2]) s) = Ready (Inr 0))"

definition sync_test_apply_changeset_multiple_changes :: bool where
  "sync_test_apply_changeset_multiple_changes \<longleftrightarrow>
     (case apply_set (other_set 1 [other_change 1000 ''b1'' Insert (data ''app1'' ''sa'' ''10.0.0.1'' 8080),
                                   other_change 1001 ''b2'' Insert (data ''app2'' ''us'' ''10.0.0.2'' 8081),
                                   other_change 1002 ''b3'' Insert (data ''app3'' ''eu'' ''10.0.0.3'' 8082)]) ready of
        (applied, s) \<Rightarrow> applied = Ready (Inr 3) \<and> map_option (length \<circ> db_backends) (sy_db s) = Some 3)"

definition sync_test_flush_sends_broadcast_ready_event :: bool where
  "sync_test_flush_sends_broadcast_ready_event \<longleftrightarrow>
     (case sy_events (snd (flush len_crc key_ser (record_local ''b1'' Insert ready))) of [BroadcastReady cs] \<Rightarrow> cs_seq cs = 1 | _ \<Rightarrow> False)"

definition sync_test_apply_changeset_sends_change_applied_event :: bool where
  "sync_test_apply_changeset_sends_change_applied_event \<longleftrightarrow>
     (case sy_events (snd (apply_set (other_set 1 [other_change 1000 ''b1'' Insert (data ''app1'' ''sa'' ''10.0.0.1'' 8080)]) ready)) of
        [ChangeApplied change] \<Rightarrow> ch_table change = ''backends'' \<and> ch_pk change = ''b1''
      | _ \<Rightarrow> False)"

definition sync_test_backend_insert_with_all_fields :: bool where
  "sync_test_backend_insert_with_all_fields \<longleftrightarrow>
     (let s = snd (apply_set (other_set 1 [other_change 1000 ''full-backend'' Insert (object_text full_fields)]) ready)
      in list_all (\<lambda>(f, v). column f ''full-backend'' s = Some v)
           [(row_app, SqlText ''fullapp''), (row_region, SqlText ''eu''), (row_country, SqlText ''DE''), (row_wg_ip, SqlText ''10.50.1.1''),
            (row_port, SqlInteger 9999), (row_weight, SqlInteger 5), (row_soft_limit, SqlInteger 200), (row_hard_limit, SqlInteger 300),
            (row_healthy, SqlInteger 1)])"

definition sync_test_backend_insert_with_defaults :: bool where
  "sync_test_backend_insert_with_defaults \<longleftrightarrow>
     (let s = snd (apply_set (other_set 1 [other_change 1000 ''minimal-backend'' Insert (object_text [(''app'', JStr ''minapp'')])]) ready)
      in column row_region ''minimal-backend'' s = Some (SqlText ''us'') \<and> column row_weight ''minimal-backend'' s = Some (SqlInteger 2)
         \<and> column row_soft_limit ''minimal-backend'' s = Some (SqlInteger 100) \<and> column row_hard_limit ''minimal-backend'' s = Some (SqlInteger 150))"

lemma sync_tests:
  "sync_test_version_vector_new" "sync_test_version_vector_default" "sync_test_version_vector_clone" "sync_test_version_vector_get_update"
  "sync_test_version_vector_update_only_increases" "sync_test_version_vector_has_seen"
  by code_simp+

lemma sync_tests_2:
  "sync_test_version_vector_merge" "sync_test_version_vector_merge_empty" "sync_test_sync_service_creation"
  "sync_test_sync_service_version_vector" "sync_test_sync_service_init_db" "sync_test_sync_service_init_db_loads_version_vector"
  by code_simp+

lemma sync_tests_3:
  "sync_test_record_change" "sync_test_record_multiple_changes" "sync_test_flush_empty" "sync_test_flush_with_changes"
  "sync_test_flush_increments_sequence" "sync_test_flush_clears_pending"
  by code_simp+

lemma sync_tests_4:
  "sync_test_apply_changeset_invalid_checksum" "sync_test_apply_changeset_already_seen" "sync_test_apply_changeset_with_backend_insert"
  "sync_test_apply_changeset_with_backend_update" "sync_test_apply_changeset_with_backend_delete"
  "sync_test_apply_changeset_lww_newer_wins"
  by code_simp+

lemma sync_tests_5:
  "sync_test_apply_changeset_unknown_table" "sync_test_get_changes_since" "sync_test_persist_version"
  "sync_test_apply_changeset_lww_older_ignored" "sync_test_apply_changeset_lww_from_cache" "sync_test_apply_changeset_multiple_changes"
  by code_simp+

lemma sync_tests_6:
  "sync_test_flush_sends_broadcast_ready_event" "sync_test_apply_changeset_sends_change_applied_event"
  "sync_test_backend_insert_with_all_fields" "sync_test_backend_insert_with_defaults"
  by code_simp+

section \<open>\<^verbatim>\<open>src/replication/config.rs\<close>\<close>

abbreviation port_of :: "socket_addr \<Rightarrow> u16" where
  "port_of a \<equiv> sa_port a"

definition rconfig_test_default_config :: bool where
  "rconfig_test_default_config \<longleftrightarrow>
     (let config = replication_config_default
      in rc_node_id config = [] \<and> port_of (rc_gossip_addr config) = 4001 \<and> port_of (rc_transport_addr config) = 4002
         \<and> rc_cluster_name config = ''edgeproxy'')"

definition rconfig_test_builder_pattern :: bool where
  "rconfig_test_builder_pattern \<longleftrightarrow>
     (case parse_socket_addr ''0.0.0.0:5001'' of
        None \<Rightarrow> False
      | Some a \<Rightarrow>
          let config = with_cluster_name ''myproxy'' (with_bootstrap_peers [''peer1:4001''] (with_gossip_addr a (replication_config_new ''pop-sa-1'')))
          in rc_node_id config = ''pop-sa-1'' \<and> port_of (rc_gossip_addr config) = 5001 \<and> length (rc_bootstrap_peers config) = 1
             \<and> rc_cluster_name config = ''myproxy'')"

definition rconfig_test_validate_missing_node_id :: bool where
  "rconfig_test_validate_missing_node_id \<longleftrightarrow>
     rc_validate replication_config_default = Inl MissingNodeId"

definition rconfig_test_validate_missing_cluster_name :: bool where
  "rconfig_test_validate_missing_cluster_name \<longleftrightarrow>
     rc_validate (with_cluster_name [] (replication_config_new ''node-1'')) = Inl MissingClusterName"

definition rconfig_test_validate_ok :: bool where
  "rconfig_test_validate_ok \<longleftrightarrow>
     rc_validate (replication_config_new ''node-1'') = Inr ()"

lemma rconfig_tests:
  "rconfig_test_default_config" "rconfig_test_builder_pattern" "rconfig_test_validate_missing_node_id"
  "rconfig_test_validate_missing_cluster_name" "rconfig_test_validate_ok"
  by code_simp+

end
