(* ===== verification/Tests_Transport.thy ===== *)
theory Tests_Transport
  imports Replication_Agent Tests_Replication
begin

text \<open>
  The unit tests of the replication transport and of the replication agent (\<^verbatim>\<open>src/replication\<close>), run on the model. The message codec
  numbers the messages of a test; tests that only exercise the serialiser of the library are left out.
\<close>

fun position :: "'a \<Rightarrow> 'a list \<Rightarrow> nat option" where
  "position x [] = None"
| "position x (y # ys) = (if x = y then Some 0 else map_option Suc (position x ys))"

definition test_mser :: "message list \<Rightarrow> message \<Rightarrow> bytes option" where
  "test_mser ms m = map_option (\<lambda>i. [7, of_nat i]) (position m ms)"

definition test_mde :: "message list \<Rightarrow> bytes \<Rightarrow> message option" where
  "test_mde ms b =
     (case b of [t, i] \<Rightarrow> if t = 7 \<and> unat i < length ms then Some (ms ! unat i) else None | _ \<Rightarrow> None)"

section \<open>\<^verbatim>\<open>src/replication/transport.rs\<close>\<close>

abbreviation set_of :: "string \<Rightarrow> u64 \<Rightarrow> change list \<Rightarrow> changeset" where
  "set_of node seq cs \<equiv> changeset_new len_crc key_ser (node_id_new node) seq cs"

definition numbered_changes :: "nat \<Rightarrow> change list" where
  "numbered_changes n = map (\<lambda>i. change_new len_crc (of_nat i) 5 ''backends'' (''b'' @ show_nat i) Insert ''{}'' (node_id_new ''node-1'')) [0..<n]"

definition test_quic :: quic_lib where
  "test_quic = \<lparr>ql_self_signed = (\<lambda>_. Inr ([1], [2])), ql_private_key = Inr, ql_single_cert = (\<lambda>_ _. Inr ()),
     ql_server_config = Inr (), ql_client_config = Inr (), ql_endpoint = (\<lambda>_. Inr ())\<rparr>"

definition node_on_loopback :: "string \<Rightarrow> transport_service" where
  "node_on_loopback n = transport_service_new (with_transport_addr (socket_v4 0x7F000001 0) (replication_config_new n))"

abbreviation started :: "string \<Rightarrow> transport_service" where
  "started n \<equiv> snd (transport_start test_quic (node_on_loopback n))"

abbreviation peer_addr :: socket_addr where
  "peer_addr \<equiv> socket_v4 0x7F000001 40001"

definition transport_test_transport_service_creation :: bool where
  "transport_test_transport_service_creation \<longleftrightarrow>
     \<not> transport_is_shutdown (node_on_loopback ''test-node'')"

definition transport_test_transport_shutdown :: bool where
  "transport_test_transport_shutdown \<longleftrightarrow>
     (let service = transport_service_new (replication_config_new ''test-node'')
      in \<not> transport_is_shutdown service \<and> transport_is_shutdown (transport_shutdown service))"

definition transport_test_transport_service_peers_empty :: bool where
  "transport_test_transport_service_peers_empty \<longleftrightarrow>
     transport_peers (transport_service_new (replication_config_new ''test-node'')) = []"

definition transport_test_transport_service_get_peer_none :: bool where
  "transport_test_transport_service_get_peer_none \<longleftrightarrow>
     transport_get_peer (transport_service_new (replication_config_new ''test-node'')) ''nonexistent'' = None"

definition transport_test_transport_service_start :: bool where
  "transport_test_transport_service_start \<longleftrightarrow>
     (case transport_start test_quic (node_on_loopback ''test-node'') of (r, service) \<Rightarrow> r = Inr () \<and> tr_endpoint service)"

definition transport_test_transport_service_broadcast_no_peers :: bool where
  "transport_test_transport_service_broadcast_no_peers \<longleftrightarrow>
     fst (broadcast_changeset (\<lambda>_. Some [1]) (\<lambda>_. True) (\<lambda>_. True) (set_of ''test-node'' 1 []) (started ''test-node'')) = 0"

definition transport_test_transport_service_connect_without_start :: bool where
  "transport_test_transport_service_connect_without_start \<longleftrightarrow>
     fst (transport_connect (Some 1) peer_addr ''peer'' (transport_service_new (replication_config_new ''test-node''))) = None"

definition transport_test_skip_server_verification_supported_schemes :: bool where
  "transport_test_skip_server_verification_supported_schemes \<longleftrightarrow>
     (let schemes = supported_verify_schemes
      in schemes \<noteq> [] \<and> ECDSA_NISTP256_SHA256 \<in> set schemes \<and> RSA_PKCS1_SHA256 \<in> set schemes \<and> ED25519 \<in> set schemes)"

definition transport_test_transport_two_services_communicate :: bool where
  "transport_test_transport_two_services_communicate \<longleftrightarrow>
     (case transport_connect (Some 1) peer_addr ''node-1'' (started ''node-2'') of
        (result, service2) \<Rightarrow> result \<noteq> None
          \<and> (case transport_get_peer service2 ''node-1'' of Some peer \<Rightarrow> is_alive (\<lambda>_. None) peer | None \<Rightarrow> False)
          \<and> length (transport_peers service2) = 1)"

definition transport_test_peer_connection_is_alive :: bool where
  "transport_test_peer_connection_is_alive \<longleftrightarrow>
     (case fst (transport_connect (Some 1) peer_addr ''node-1'' (started ''node-2'')) of Some peer \<Rightarrow> is_alive (\<lambda>_. None) peer | None \<Rightarrow> False)"

definition transport_test_peer_connection_send :: bool where
  "transport_test_peer_connection_send \<longleftrightarrow>
     (case fst (transport_connect (Some 1) peer_addr ''receiver'' (started ''sender'')) of
        Some peer \<Rightarrow> peer_send (\<lambda>_. Some [1]) (\<lambda>_. True) peer (Broadcast (set_of ''sender'' 1 [])) \<noteq> None
      | None \<Rightarrow> False)"

definition transport_test_broadcast_to_connected_peers :: bool where
  "transport_test_broadcast_to_connected_peers \<longleftrightarrow>
     fst (broadcast_changeset (\<lambda>_. Some [1]) (\<lambda>_. True) (\<lambda>_. True) (set_of ''broadcaster'' 1 [])
       (snd (transport_connect (Some 1) peer_addr ''receiver'' (started ''broadcaster'')))) = 1"

definition transport_test_encode_message_broadcast :: bool where
  "transport_test_encode_message_broadcast \<longleftrightarrow>
     (let msg = Broadcast (set_of ''node-1'' 1 [])
      in (case encode_message (test_mser [msg]) msg of
            Some encoded \<Rightarrow> 4 < length encoded \<and> unat (decode_length (take 4 encoded)) = length encoded - 4
          | None \<Rightarrow> False))"

definition transport_test_encode_decode_roundtrip :: bool where
  "transport_test_encode_decode_roundtrip \<longleftrightarrow>
     (let original = Broadcast (set_of ''node-1'' 42 (numbered_changes 1))
      in (case encode_message (test_mser [original]) original of
            Some encoded \<Rightarrow>
              (case decode_message (test_mde [original]) (drop 4 encoded) of
                 Some (Broadcast cs) \<Rightarrow> cs_seq cs = 42 \<and> length (cs_changes cs) = 1
               | _ \<Rightarrow> False)
          | None \<Rightarrow> False))"

definition transport_test_decode_length :: bool where
  "transport_test_decode_length \<longleftrightarrow>
     decode_length [0x00, 0x00, 0x01, 0x00] = 256 \<and> decode_length [0x00, 0x00, 0x00, 0x10] = 16 \<and> decode_length [0x00, 0x01, 0x00, 0x00] = 65536"

definition transport_test_decode_message_invalid :: bool where
  "transport_test_decode_message_invalid \<longleftrightarrow>
     decode_message (test_mde [Ping]) [0, 1, 2, 3] = None"

definition transport_test_validate_broadcast_valid :: bool where
  "transport_test_validate_broadcast_valid \<longleftrightarrow>
     validate_broadcast len_crc key_ser (set_of ''node-1'' 1 [])"

definition transport_test_validate_broadcast_invalid :: bool where
  "transport_test_validate_broadcast_invalid \<longleftrightarrow>
     \<not> validate_broadcast len_crc key_ser ((set_of ''node-1'' 1 [])\<lparr>cs_checksum := 12345\<rparr>)"

definition transport_test_create_broadcast :: bool where
  "transport_test_create_broadcast \<longleftrightarrow>
     (case create_broadcast (set_of ''node-1'' 5 []) of Broadcast cs \<Rightarrow> cs_seq cs = 5 | _ \<Rightarrow> False)"

definition transport_test_create_sync_request :: bool where
  "transport_test_create_sync_request \<longleftrightarrow>
     create_sync_request 100 (Some ''backends'') = SyncRequest 100 (Some ''backends'')"

definition transport_test_create_sync_request_no_table :: bool where
  "transport_test_create_sync_request_no_table \<longleftrightarrow>
     create_sync_request 50 None = SyncRequest 50 None"

definition transport_test_create_sync_response :: bool where
  "transport_test_create_sync_response \<longleftrightarrow>
     (case create_sync_response [set_of ''node-1'' 1 [], set_of ''node-1'' 2 []] of SyncResponse cs \<Rightarrow> length cs = 2 | _ \<Rightarrow> False)"

definition transport_test_create_sync_response_empty :: bool where
  "transport_test_create_sync_response_empty \<longleftrightarrow>
     create_sync_response [] = SyncResponse []"

definition transport_test_extract_broadcast :: bool where
  "transport_test_extract_broadcast \<longleftrightarrow>
     map_option cs_seq (extract_broadcast (Broadcast (set_of ''node-1'' 10 []))) = Some 10"

definition transport_test_extract_broadcast_wrong_type :: bool where
  "transport_test_extract_broadcast_wrong_type \<longleftrightarrow>
     extract_broadcast (SyncRequest 1 None) = None"

definition transport_test_extract_sync_request :: bool where
  "transport_test_extract_sync_request \<longleftrightarrow>
     extract_sync_request (SyncRequest 42 (Some ''backends'')) = Some (42, Some ''backends'')"

definition transport_test_extract_sync_request_no_table :: bool where
  "transport_test_extract_sync_request_no_table \<longleftrightarrow>
     extract_sync_request (SyncRequest 10 None) = Some (10, None)"

definition transport_test_extract_sync_request_wrong_type :: bool where
  "transport_test_extract_sync_request_wrong_type \<longleftrightarrow>
     extract_sync_request (Broadcast (set_of ''node-1'' 1 [])) = None"

definition transport_test_extract_sync_response :: bool where
  "transport_test_extract_sync_response \<longleftrightarrow>
     map_option length (extract_sync_response (SyncResponse (map (\<lambda>i. set_of ''node-1'' i []) [1, 2, 3]))) = Some 3"

definition transport_test_extract_sync_response_wrong_type :: bool where
  "transport_test_extract_sync_response_wrong_type \<longleftrightarrow>
     extract_sync_response (SyncRequest 1 None) = None"

definition transport_test_encode_message_sync_request :: bool where
  "transport_test_encode_message_sync_request \<longleftrightarrow>
     (let msg = create_sync_request 100 (Some ''backends'')
      in (case encode_message (test_mser [msg]) msg of
            Some encoded \<Rightarrow> 0 < decode_length (take 4 encoded)
              \<and> decode_message (test_mde [msg]) (drop 4 encoded) = Some (SyncRequest 100 (Some ''backends''))
          | None \<Rightarrow> False))"

definition transport_test_encode_message_sync_response :: bool where
  "transport_test_encode_message_sync_response \<longleftrightarrow>
     (let msg = create_sync_response [set_of ''node-1'' 1 []]
      in (case encode_message (test_mser [msg]) msg of
            Some encoded \<Rightarrow> (case decode_message (test_mde [msg]) (drop 4 encoded) of Some (SyncResponse cs) \<Rightarrow> length cs = 1 | _ \<Rightarrow> False)
          | None \<Rightarrow> False))"

definition transport_test_is_broadcast :: bool where
  "transport_test_is_broadcast \<longleftrightarrow>
     is_broadcast (Broadcast (set_of ''node-1'' 1 [])) \<and> \<not> is_broadcast (SyncRequest 0 None) \<and> \<not> is_broadcast (SyncResponse [])"

definition transport_test_is_sync_request :: bool where
  "transport_test_is_sync_request \<longleftrightarrow>
     \<not> is_sync_request (Broadcast (set_of ''node-1'' 1 [])) \<and> is_sync_request (SyncRequest 0 None) \<and> \<not> is_sync_request (SyncResponse [])"

definition transport_test_is_sync_response :: bool where
  "transport_test_is_sync_response \<longleftrightarrow>
     \<not> is_sync_response (Broadcast (set_of ''node-1'' 1 [])) \<and> \<not> is_sync_response (SyncRequest 0 None) \<and> is_sync_response (SyncResponse [])"

definition transport_test_message_type_name :: bool where
  "transport_test_message_type_name \<longleftrightarrow>
     map message_type_name [Broadcast (set_of ''node-1'' 1 []), SyncRequest 0 None, SyncResponse [], Ack ''node-1'' 1, Ping, Pong]
       = [''Broadcast'', ''SyncRequest'', ''SyncResponse'', ''Ack'', ''Ping'', ''Pong'']"

definition transport_test_validate_sync_request :: bool where
  "transport_test_validate_sync_request \<longleftrightarrow>
     validate_sync_request 0 \<and> validate_sync_request 1 \<and> validate_sync_request (- 1)"

definition transport_test_count_sync_response_changesets :: bool where
  "transport_test_count_sync_response_changesets \<longleftrightarrow>
     (let cs = (\<lambda>i. set_of ''node-1'' i [])
      in count_sync_response_changesets (SyncResponse []) = 0 \<and> count_sync_response_changesets (SyncResponse [cs 1]) = 1
         \<and> count_sync_response_changesets (SyncResponse [cs 1, cs 2, cs 3]) = 3 \<and> count_sync_response_changesets (SyncRequest 0 None) = 0)"

definition transport_test_count_broadcast_changes :: bool where
  "transport_test_count_broadcast_changes \<longleftrightarrow>
     count_broadcast_changes (Broadcast (set_of ''node-1'' 1 [])) = 0
     \<and> count_broadcast_changes (Broadcast (set_of ''node-1'' 2 (numbered_changes 5))) = 5
     \<and> count_broadcast_changes (SyncRequest 0 None) = 0"

definition transport_test_get_broadcast_seq :: bool where
  "transport_test_get_broadcast_seq \<longleftrightarrow>
     get_broadcast_seq (Broadcast (set_of ''node-1'' 42 [])) = Some 42 \<and> get_broadcast_seq (SyncRequest 100 None) = None"

definition transport_test_get_sync_request_from_seq :: bool where
  "transport_test_get_sync_request_from_seq \<longleftrightarrow>
     get_sync_request_from_seq (SyncRequest 100 None) = Some 100 \<and> get_sync_request_from_seq (Broadcast (set_of ''node-1'' 1 [])) = None"

lemma transport_tests:
  "transport_test_transport_service_creation" "transport_test_transport_shutdown" "transport_test_transport_service_peers_empty"
  "transport_test_transport_service_get_peer_none" "transport_test_transport_service_start"
  "transport_test_transport_service_broadcast_no_peers"
  by code_simp+

lemma transport_tests_2:
  "transport_test_transport_service_connect_without_start" "transport_test_skip_server_verification_supported_schemes"
  "transport_test_transport_two_services_communicate" "transport_test_peer_connection_is_alive" "transport_test_peer_connection_send"
  "transport_test_broadcast_to_connected_peers"
  by code_simp+

lemma transport_tests_3:
  "transport_test_encode_message_broadcast" "transport_test_encode_decode_roundtrip" "transport_test_decode_length"
  "transport_test_decode_message_invalid" "transport_test_validate_broadcast_valid" "transport_test_validate_broadcast_invalid"
  by code_simp+

lemma transport_tests_4:
  "transport_test_create_broadcast" "transport_test_create_sync_request" "transport_test_create_sync_request_no_table"
  "transport_test_create_sync_response" "transport_test_create_sync_response_empty" "transport_test_extract_broadcast"
  by code_simp+

lemma transport_tests_5:
  "transport_test_extract_broadcast_wrong_type" "transport_test_extract_sync_request" "transport_test_extract_sync_request_no_table"
  "transport_test_extract_sync_request_wrong_type" "transport_test_extract_sync_response" "transport_test_extract_sync_response_wrong_type"
  by code_simp+

lemma transport_tests_6:
  "transport_test_encode_message_sync_request" "transport_test_encode_message_sync_response" "transport_test_is_broadcast"
  "transport_test_is_sync_request" "transport_test_is_sync_response" "transport_test_message_type_name"
  by code_simp+

lemma transport_tests_7:
  "transport_test_validate_sync_request" "transport_test_count_sync_response_changesets" "transport_test_count_broadcast_changes"
  "transport_test_get_broadcast_seq" "transport_test_get_sync_request_from_seq"
  by code_simp+

section \<open>\<^verbatim>\<open>src/replication/agent.rs\<close>\<close>

abbreviation test_config :: replication_config where
  "test_config \<equiv> with_db_path ''/tmp/agent.db'' (replication_config_new ''test-node'')"

definition with_agent :: "config_error + replication_agent \<Rightarrow> (replication_agent \<Rightarrow> bool) \<Rightarrow> bool" where
  "with_agent r P \<longleftrightarrow> (case r of Inr a \<Rightarrow> P a | Inl _ \<Rightarrow> False)"

abbreviation with_db :: "replication_agent \<Rightarrow> replication_agent" where
  "with_db a \<equiv> a\<lparr>ag_sync := snd (init_db (ag_sync a))\<rparr>"

abbreviation changed :: "string \<Rightarrow> change_kind \<Rightarrow> string \<Rightarrow> replication_agent \<Rightarrow> replication_agent" where
  "changed i kind d a \<equiv> record_backend_change len_crc 1 5 i kind d a"

abbreviation flushed :: "replication_agent \<Rightarrow> changeset option poll" where
  "flushed a \<equiv> fst (agent_flush len_crc key_ser (\<lambda>_. Some [1]) (\<lambda>_. True) (\<lambda>_. True) a)"

abbreviation loopback_agent :: "string list \<Rightarrow> config_error + replication_agent" where
  "loopback_agent peers \<equiv> agent_new None (with_bootstrap_peers peers
     (with_transport_addr (socket_v4 0x7F000001 0) (with_gossip_addr (socket_v4 0x7F000001 0) test_config)))"

lemmas agent_eval =
  with_agent_def agent_new_def rc_validate_def replication_config_new_def replication_config_default_def with_db_path_def record_backend_change_def
  record_change_def agent_flush_def flush_def sync_service_new_def init_db_def changeset_new_def change_new_def persist_version_def send_event_def
  empty_db_def dm_empty_def dm_get_def vv_new_def Let_def

definition agent_test_agent_creation :: bool where
  "agent_test_agent_creation \<longleftrightarrow>
     with_agent (agent_new None test_config) (\<lambda>agent. agent_node_id agent = ''test-node'' \<and> is_running agent)"

definition agent_test_agent_stop :: bool where
  "agent_test_agent_stop \<longleftrightarrow>
     with_agent (agent_new None test_config) (\<lambda>agent. is_running agent \<and> \<not> is_running (agent_stop agent))"

definition agent_test_builder_pattern :: bool where
  "agent_test_builder_pattern \<longleftrightarrow>
     with_agent (builder_build None (builder_cluster_name ''my-cluster'' (builder_db_path ''/tmp/agent.db''
         (builder_transport_addr (socket_v4 0x7F000001 4002) (builder_gossip_addr (socket_v4 0x7F000001 4001) (builder_new ''pop-sa-1''))))))
       (\<lambda>agent. agent_node_id agent = ''pop-sa-1'')"

definition agent_test_builder_with_bootstrap_peers :: bool where
  "agent_test_builder_with_bootstrap_peers \<longleftrightarrow>
     \<not> isl (builder_build None (builder_bootstrap_peers [''10.0.0.1:4001'', ''10.0.0.2:4001''] (builder_db_path ''/tmp/agent.db''
         (builder_transport_addr (socket_v4 0x7F000001 4002) (builder_gossip_addr (socket_v4 0x7F000001 4001) (builder_new ''pop-sa-1''))))))"

definition agent_test_agent_validation_fails_without_node_id :: bool where
  "agent_test_agent_validation_fails_without_node_id \<longleftrightarrow>
     isl (agent_new None replication_config_default)"

definition agent_test_agent_validation_fails_without_cluster_name :: bool where
  "agent_test_agent_validation_fails_without_cluster_name \<longleftrightarrow>
     isl (agent_new None (with_cluster_name [] (replication_config_new ''test-node'')))"

definition agent_test_record_and_flush :: bool where
  "agent_test_record_and_flush \<longleftrightarrow>
     with_agent (agent_new None test_config) (\<lambda>agent.
       case flushed (changed ''backend-1'' Insert (data ''myapp'' ''sa'' ''10.0.0.1'' 8080) (with_db agent)) of
         Ready (Some cs) \<Rightarrow> map ch_pk (cs_changes cs) = [''backend-1'']
       | _ \<Rightarrow> False)"

definition agent_test_record_multiple_changes_and_flush :: bool where
  "agent_test_record_multiple_changes_and_flush \<longleftrightarrow>
     with_agent (agent_new None test_config) (\<lambda>agent.
       case flushed (changed ''b1'' Update (object_text [(''app'', JStr ''app1-updated'')]) (changed ''b2'' Insert (object_text [(''app'', JStr ''app2'')])
              (changed ''b1'' Insert (object_text [(''app'', JStr ''app1'')]) (with_db agent)))) of
         Ready (Some cs) \<Rightarrow> length (cs_changes cs) = 3
       | _ \<Rightarrow> False)"

definition agent_test_flush_empty :: bool where
  "agent_test_flush_empty \<longleftrightarrow>
     with_agent (agent_new None test_config) (\<lambda>agent. flushed (with_db agent) = Ready None)"

definition agent_test_members_empty_initially :: bool where
  "agent_test_members_empty_initially \<longleftrightarrow>
     with_agent (agent_new None test_config) (\<lambda>agent. agent_members agent = [] \<and> agent_alive_members agent = [])"

definition agent_test_apply_changeset :: bool where
  "agent_test_apply_changeset \<longleftrightarrow>
     with_agent (agent_new None test_config) (\<lambda>agent.
       fst (agent_apply_changeset len_crc key_ser test_parse 0
         (other_set 1 [other_change 1000 ''remote-backend'' Insert (data ''remote-app'' ''us'' ''10.0.0.5'' 9000)]) (with_db agent)) = Ready (Inr 1))"

definition agent_test_agent_start_and_stop :: bool where
  "agent_test_agent_start_and_stop \<longleftrightarrow>
     with_agent (loopback_agent []) (\<lambda>agent.
       case agent_start (\<lambda>_. Some [1]) test_quic (\<lambda>_. None) agent of
         (result, agent) \<Rightarrow> result = Inr () \<and> is_running agent \<and> \<not> is_running (agent_stop agent))"

definition agent_test_builder_default_values :: bool where
  "agent_test_builder_default_values \<longleftrightarrow>
     with_agent (builder_build None (builder_db_path ''/tmp/agent.db'' (builder_new ''minimal-node''))) (\<lambda>agent. agent_node_id agent = ''minimal-node'')"

definition agent_test_agent_with_bootstrap_peers_start :: bool where
  "agent_test_agent_with_bootstrap_peers_start \<longleftrightarrow>
     with_agent (loopback_agent [''127.0.0.1:9999'']) (\<lambda>agent. fst (agent_start (\<lambda>_. Some [1]) test_quic (\<lambda>_. None) agent) = Inr ())"

definition agent_test_agent_record_change_kinds :: bool where
  "agent_test_agent_record_change_kinds \<longleftrightarrow>
     with_agent (agent_new None test_config) (\<lambda>agent.
       case flushed (changed ''b1'' Delete ''{}'' (changed ''b1'' Update (object_text [(''app'', JStr ''b'')])
              (changed ''b1'' Insert (object_text [(''app'', JStr ''a'')]) (with_db agent)))) of
         Ready (Some cs) \<Rightarrow> map ch_kind (cs_changes cs) = [Insert, Update, Delete]
       | _ \<Rightarrow> False)"

lemma agent_tests:
  "agent_test_agent_creation" "agent_test_agent_stop" "agent_test_builder_pattern" "agent_test_builder_with_bootstrap_peers"
  "agent_test_agent_validation_fails_without_node_id" "agent_test_agent_validation_fails_without_cluster_name"
  by code_simp+

lemma agent_tests_2:
  "agent_test_flush_empty" "agent_test_members_empty_initially" "agent_test_apply_changeset" "agent_test_agent_start_and_stop"
  "agent_test_builder_default_values" "agent_test_agent_with_bootstrap_peers_start"
  by code_simp+

lemma agent_tests_3:
  "agent_test_record_and_flush" "agent_test_record_multiple_changes_and_flush" "agent_test_agent_record_change_kinds"
  by (simp_all add: agent_eval
      agent_test_record_and_flush_def agent_test_record_multiple_changes_and_flush_def agent_test_agent_record_change_kinds_def)

end
