(* ===== verification/Tests_Config.thy ===== *)
theory Tests_Config
  imports Config "HOL-Library.Code_Target_Nat"
begin

text \<open>
  The unit tests of the configuration (\<^verbatim>\<open>src/config.rs\<close>), run on the model. The environment of a test is the list of the variables it sets.
\<close>

section \<open>\<^verbatim>\<open>src/config.rs\<close>\<close>

abbreviation loaded :: "(string \<times> string) list \<Rightarrow> config" where
  "loaded vars \<equiv> load_config (map_of vars)"

definition config_test_default_config :: bool where
  "config_test_default_config \<longleftrightarrow>
     (let cfg = config_default
      in cf_listen_addr cfg = ''0.0.0.0:8080'' \<and> cf_region cfg = ''sa'' \<and> \<not> cf_tls_enabled cfg \<and> \<not> cf_api_enabled cfg \<and> \<not> cf_dns_enabled cfg
         \<and> \<not> cf_replication_enabled cfg)"

definition config_test_load_config_defaults :: bool where
  "config_test_load_config_defaults \<longleftrightarrow>
     (let cfg = loaded [] in cf_listen_addr cfg = ''0.0.0.0:8080'' \<and> cf_region cfg = ''sa'' \<and> cf_binding_ttl_secs cfg = 600)"

definition config_test_tls_config_disabled_by_default :: bool where
  "config_test_tls_config_disabled_by_default \<longleftrightarrow>
     \<not> cf_tls_enabled (loaded [])"

definition config_test_api_config_disabled_by_default :: bool where
  "config_test_api_config_disabled_by_default \<longleftrightarrow>
     \<not> cf_api_enabled (loaded [])"

definition config_test_dns_config_disabled_by_default :: bool where
  "config_test_dns_config_disabled_by_default \<longleftrightarrow>
     \<not> cf_dns_enabled (loaded [])"

definition config_test_replication_config_disabled_by_default :: bool where
  "config_test_replication_config_disabled_by_default \<longleftrightarrow>
     \<not> cf_replication_enabled (loaded [])"

definition config_test_load_config_with_tls_enabled_true :: bool where
  "config_test_load_config_with_tls_enabled_true \<longleftrightarrow>
     cf_tls_enabled (loaded [(''EDGEPROXY_TLS_ENABLED'', ''true'')])"

definition config_test_load_config_with_tls_enabled_1 :: bool where
  "config_test_load_config_with_tls_enabled_1 \<longleftrightarrow>
     cf_tls_enabled (loaded [(''EDGEPROXY_TLS_ENABLED'', ''1'')])"

definition config_test_load_config_with_api_enabled_true :: bool where
  "config_test_load_config_with_api_enabled_true \<longleftrightarrow>
     cf_api_enabled (loaded [(''EDGEPROXY_API_ENABLED'', ''TRUE'')])"

definition config_test_load_config_with_dns_enabled_true :: bool where
  "config_test_load_config_with_dns_enabled_true \<longleftrightarrow>
     cf_dns_enabled (loaded [(''EDGEPROXY_DNS_ENABLED'', ''1'')])"

definition config_test_load_config_with_replication_enabled :: bool where
  "config_test_load_config_with_replication_enabled \<longleftrightarrow>
     (let cfg = loaded [(''EDGEPROXY_REPLICATION_ENABLED'', ''true''), (''EDGEPROXY_REPLICATION_NODE_ID'', ''pop-sa-1''),
                        (''EDGEPROXY_REPLICATION_BOOTSTRAP_PEERS'', ''peer1:4001,peer2:4001'')]
      in cf_replication_enabled cfg \<and> cf_replication_node_id cfg = Some ''pop-sa-1'' \<and> length (cf_replication_bootstrap_peers cfg) = 2)"

definition config_test_load_config_with_custom_listen_addr :: bool where
  "config_test_load_config_with_custom_listen_addr \<longleftrightarrow>
     cf_listen_addr (loaded [(''EDGEPROXY_LISTEN_ADDR'', ''127.0.0.1:9000'')]) = ''127.0.0.1:9000''"

definition config_test_load_config_with_custom_db_path :: bool where
  "config_test_load_config_with_custom_db_path \<longleftrightarrow>
     cf_db_path (loaded [(''EDGEPROXY_DB_PATH'', ''/tmp/test.db'')]) = ''/tmp/test.db''"

definition config_test_load_config_with_custom_region :: bool where
  "config_test_load_config_with_custom_region \<longleftrightarrow>
     cf_region (loaded [(''EDGEPROXY_REGION'', ''eu'')]) = ''eu''"

definition config_test_load_config_with_geoip_path :: bool where
  "config_test_load_config_with_geoip_path \<longleftrightarrow>
     cf_geoip_path (loaded [(''EDGEPROXY_GEOIP_PATH'', ''/path/to/GeoLite2.mmdb'')]) = Some ''/path/to/GeoLite2.mmdb''"

definition config_test_load_config_with_debug :: bool where
  "config_test_load_config_with_debug \<longleftrightarrow>
     cf_debug (loaded [(''DEBUG'', ''1'')])"

definition config_test_load_config_with_tls_paths :: bool where
  "config_test_load_config_with_tls_paths \<longleftrightarrow>
     (let cfg = loaded [(''EDGEPROXY_TLS_CERT'', ''/path/to/cert.pem''), (''EDGEPROXY_TLS_KEY'', ''/path/to/key.pem''),
                        (''EDGEPROXY_TLS_LISTEN_ADDR'', ''0.0.0.0:8443'')]
      in cf_tls_cert_path cfg = Some ''/path/to/cert.pem'' \<and> cf_tls_key_path cfg = Some ''/path/to/key.pem''
         \<and> cf_tls_listen_addr cfg = Some ''0.0.0.0:8443'')"

definition config_test_load_config_with_api_settings :: bool where
  "config_test_load_config_with_api_settings \<longleftrightarrow>
     (let cfg = loaded [(''EDGEPROXY_API_LISTEN_ADDR'', ''0.0.0.0:9081''), (''EDGEPROXY_HEARTBEAT_TTL_SECS'', ''120'')]
      in cf_api_listen_addr cfg = ''0.0.0.0:9081'' \<and> cf_heartbeat_ttl_secs cfg = 120)"

definition config_test_load_config_with_dns_settings :: bool where
  "config_test_load_config_with_dns_settings \<longleftrightarrow>
     (let cfg = loaded [(''EDGEPROXY_DNS_LISTEN_ADDR'', ''0.0.0.0:5354''), (''EDGEPROXY_DNS_DOMAIN'', ''edge.local'')]
      in cf_dns_listen_addr cfg = ''0.0.0.0:5354'' \<and> cf_dns_domain cfg = ''edge.local'')"

definition config_test_load_config_with_binding_settings :: bool where
  "config_test_load_config_with_binding_settings \<longleftrightarrow>
     (let cfg = loaded [(''EDGEPROXY_BINDING_TTL_SECS'', ''1200''), (''EDGEPROXY_BINDING_GC_INTERVAL_SECS'', ''120'')]
      in cf_binding_ttl_secs cfg = 1200 \<and> cf_binding_gc_interval_secs cfg = 120)"

definition config_test_load_config_with_db_reload :: bool where
  "config_test_load_config_with_db_reload \<longleftrightarrow>
     cf_db_reload_secs (loaded [(''EDGEPROXY_DB_RELOAD_SECS'', ''30'')]) = 30"

definition config_test_load_config_parse_error_uses_default :: bool where
  "config_test_load_config_parse_error_uses_default \<longleftrightarrow>
     cf_db_reload_secs (loaded [(''EDGEPROXY_DB_RELOAD_SECS'', ''not_a_number'')]) = 5"

lemma config_tests:
  "config_test_default_config" "config_test_load_config_defaults" "config_test_tls_config_disabled_by_default"
  "config_test_api_config_disabled_by_default" "config_test_dns_config_disabled_by_default"
  "config_test_replication_config_disabled_by_default"
  by code_simp+

lemma config_tests_2:
  "config_test_load_config_with_tls_enabled_true" "config_test_load_config_with_tls_enabled_1"
  "config_test_load_config_with_api_enabled_true" "config_test_load_config_with_dns_enabled_true"
  "config_test_load_config_with_replication_enabled" "config_test_load_config_with_custom_listen_addr"
  by code_simp+

lemma config_tests_3:
  "config_test_load_config_with_custom_db_path" "config_test_load_config_with_custom_region" "config_test_load_config_with_geoip_path"
  "config_test_load_config_with_debug" "config_test_load_config_with_tls_paths" "config_test_load_config_with_api_settings"
  by code_simp+

lemma config_tests_4:
  "config_test_load_config_with_dns_settings" "config_test_load_config_with_binding_settings" "config_test_load_config_with_db_reload"
  "config_test_load_config_parse_error_uses_default"
  by code_simp+

end
