(* ===== verification/Spec2Isabelle.thy ===== *)
theory Spec2Isabelle
  imports Replica_Routing Prometheus_Store Circuit_Breaker Rate_Limiter Shutdown Connection_Pool Health_Checker
    Config_Watcher Balance Cluster Breaker_Race Service_Race Sync_Race Tests_Resilience Tests_Adapters Tests_Edge Tests_Gossip
    Tests_Transport Tests_Config
begin

text \<open>
  This development models edgeProxy (\<^verbatim>\<open>src/\<close>), a distributed TCP proxy written in Rust as a hexagonal architecture: a
  domain core, ports, adapters on both sides, infrastructure services and a replication subsystem. The definitions follow the sources function by
  function; record fields carry a short prefix because Isabelle's selectors are global.

  \<^bold>\<open>The program and the theories.\<close>

  \<^item> Domain. \<open>Domain\<close> has the entities and value objects (\<^verbatim>\<open>src/domain/entities.rs\<close>, \<^verbatim>\<open>value_objects.rs\<close>); \<open>Load_Balancer\<close> the scoring and
    selection of \<^verbatim>\<open>src/domain/services/load_balancer.rs\<close>, in the rounded arithmetic of \<open>F64\<close>.
  \<^item> Ports and outbound adapters. Each trait of \<^verbatim>\<open>src/domain/ports\<close> is a record of its methods (\<open>Proxy_Service\<close>) and a locale of its laws, beside
    its implementations: \<open>binding_repository\<close> in \<open>Binding_Repo\<close>
    (\<^verbatim>\<open>dashmap_binding_repo.rs\<close>), \<open>metrics_store_port\<close> in \<open>Metrics_Store\<close> (\<^verbatim>\<open>dashmap_metrics_store.rs\<close>) and again interpreted in
    \<open>Prometheus_Store\<close> (\<^verbatim>\<open>prometheus_metrics_store.rs\<close>), \<open>backend_repository\<close> in \<open>Backend_Repo\<close> (\<^verbatim>\<open>sqlite_backend_repo.rs\<close>,
    \<^verbatim>\<open>postgres_backend_repo.rs\<close>). The GeoIP adapter is in \<open>Composition\<close>.
  \<^item> Application. \<open>Proxy_Service\<close> (\<^verbatim>\<open>src/application/proxy_service.rs\<close>) is written over a record of port methods. What it relies on is the locale
    \<open>proxy_ports\<close>, the sum of the three port locales; it is interpreted on the adapters that \<^verbatim>\<open>src/main.rs\<close> uses, on the Prometheus store, on the PostgreSQL
    repository and on the mocks of the unit tests. \<open>Adapters\<close> has the locale of two such interpretations and the simulation between them; \<open>Balance\<close> runs
    the service on arriving clients; \<open>Service_Race\<close> has its resolutions one access to a repository at a time, at the same time as each other and as the garbage
    collection of the bindings.
  \<^item> Inbound adapters (\<^verbatim>\<open>src/adapters/inbound\<close>). \<open>Edge_Servers\<close> has the connection handlers of the TCP and the TLS server, \<open>Relay\<close> their two-way copy,
    \<open>Listeners\<close> their accept loops, \<open>Tls_Config\<close> the loading of certificates; \<open>Dns_Server\<close> is the DNS resolver with its packet loop, \<open>Api_Server\<close> the
    auto-discovery API with its routes.
  \<^item> Infrastructure (\<^verbatim>\<open>src/infrastructure\<close>): \<open>Circuit_Breaker\<close> (and, one atomic cell at a time, \<open>Breaker_Race\<close>), \<open>Rate_Limiter\<close>, \<open>Shutdown\<close>, \<open>Connection_Pool\<close>, \<open>Health_Checker\<close>, \<open>Config_Watcher\<close>.
  \<^item> Replication (\<^verbatim>\<open>src/replication\<close>): \<open>Replication_Types\<close> (hybrid logical clock, changes, messages), \<open>Sync_Service\<close> (version vectors and
    last-writer-wins application to SQLite; \<open>Sync_Race\<close> has its calls one lock at a time), \<open>Replication_Config\<close>, \<open>Transport\<close> (endpoint setup, framing, peers, broadcast, requests), \<open>Gossip\<close>
    (membership and failure detection), \<open>Cluster\<close> (several gossip nodes and the messages between them), \<open>Replication_Agent\<close> (the composition).
  \<^item> Configuration and composition: \<open>Config\<close> (\<^verbatim>\<open>src/config.rs\<close>) and \<open>Composition\<close> (\<^verbatim>\<open>src/main.rs\<close>); \<open>Replica_Routing\<close> joins
    replication and routing through the database they share.
  \<^item> Library: \<open>Prelude\<close> (machine integers, time, keyed stores, the locales for stores of independent machines and for invariants of step relations),
    \<open>Interleaving\<close> (systems of tasks over shared state, with the method of Owicki and Gries as a locale),
    \<open>Strings\<close> and \<open>Net_Addr\<close> (the string functions and the address parser of the Rust standard library that the sources call), \<open>F64\<close>.
  \<^item> Conformance: each unit test of the sources whose outcome the model determines is a closed boolean definition, named after the test and
    written call by call, and a lemma evaluates it to true. They are in \<open>Tests_Domain\<close>, \<open>Tests_Application\<close>, \<open>Tests_Services\<close> and \<open>Tests_Resilience\<close>
    (infrastructure), \<open>Tests_Adapters\<close> (outbound), \<open>Tests_Inbound\<close> (API, DNS), \<open>Tests_Edge\<close> (TCP, TLS), \<open>Tests_Replication\<close>, \<open>Tests_Gossip\<close>, \<open>Tests_Transport\<close> and
    \<open>Tests_Config\<close>. They check the definitions against what the authors of the program expect of it; the properties do not rest on them.

  \<^bold>\<open>How code becomes definitions.\<close> A struct is a record, an enum a datatype; a method that changes state takes the state last and
  returns it. \<^verbatim>\<open>Result\<close> and \<^verbatim>\<open>Option\<close> are \<open>+\<close> and \<open>option\<close>, so every early return is a branch. Unsigned integers keep their width and
  wrap. \<^verbatim>\<open>Instant\<close> is a number of nanoseconds; each reading of a clock is an argument. A \<^verbatim>\<open>DashMap\<close> or \<^verbatim>\<open>HashMap\<close> is an association
  list with distinct keys, in some order of iteration. A background task is the body of its loop as a function (\<open>\<dots>_tick\<close>). Where tasks run
  at the same time the component also has a step relation whose steps are the atomic operations between two awaits: the metrics counter, the
  circuit breaker, the resolutions of the service, the sync service, the shutdown controller, the connection pool, the connection handlers and the two copy tasks of a connection; the theorems on them hold for every interleaving.
  A bounded channel keeps its bound where a claim depends on it: the events of the sync service (1024; a send into a full channel that nobody reads gives \<open>Pending\<close>, and
  the call has not returned) and those of the configuration watcher (64; a receiver that is further behind loses the oldest).

  Code outside the repository is a parameter: the checksum and the serialisers (\<^verbatim>\<open>crc32fast\<close>, \<^verbatim>\<open>bincode\<close>), the JSON parser, the GeoIP reader,
  the calls of \<^verbatim>\<open>rustls\<close>, \<^verbatim>\<open>rcgen\<close> and \<^verbatim>\<open>quinn\<close> (the records \<open>tls_lib\<close> and \<open>quic_lib\<close>), the decoder of \<^verbatim>\<open>hickory\<close>, the HTTP client of the public-address
  lookup, what the network does during a connection or a probe, the rows of a SQLite file. Of \<^verbatim>\<open>tokio::io::copy\<close> the steps are those it is documented to
  make: how much each read and write moves, and when one fails, is open. Where a theorem needs
  something of them it is a hypothesis (a decoder decodes what the encoder wrote) and the theorem's witness has concrete functions for them.

  \<^bold>\<open>What is proved.\<close>

  \<^item> Routing: session affinity over any sequence of other calls, and under any interleaving of their accesses to the repositories; \<^verbatim>\<open>pick_backend\<close> is the leftmost minimum of the score over the eligible backends, with
    all roundings; geography dominates load; a resolution is sound and fails only when it must; the connection counts are exact in every
    reachable state of any interleaving; one connection's effects on every branch; TLS behaves like TCP; the outbound adapters are
    interchangeable, the mocks of the tests included; replicas share arriving clients evenly; every call and every reload of the backends keeps the state of the service well-formed; the address dialled for a backend is the one its text denotes; under any interleaving of its reads and writes the copy neither
    loses nor reorders a byte, has delivered all when it succeeds, and passes the end of each stream on; from configuration to the first routed client.
  \<^item> Replication: replicas converge to the last writer whatever the interleaving of the sources; application is idempotent; every change is
    flushed once and in order, while readers of the events and the database come and go, and once under any interleaving of recordings and flushes; numbering survives a restart; framing round-trips; a change travels from node to node; the backends that survive a
    replicated history are the ones the other node routes to; failure detection; what a node believes of another is what that node
    announces, in every reachable state of a cluster.
  \<^item> Infrastructure: the circuit breaker's state machine with its timeouts; under any interleaving of the accesses to its cells no circuit opens without
    the configured failures, and its calls end; a bound on the tokens granted over every interval; pool
    limit and what an acquisition gives; hysteresis of the health checker; shutdown accounting; concurrent decrements of a counter terminate; the watcher's
    event journal, for a subscriber within its 64 events, and the files it reports.
  \<^item> API, DNS, configuration: leases of the registry, what stops the program; as lemmas, the branches of a DNS query (of a handler that the server does not call).

  Beside them each theory states as lemmas where the code falls short of its documentation (for example
  \<open>hard_limit_race\<close>, \<open>opening_bypassed\<close>, \<open>first_connections_diverge\<close>, \<open>gc_removes_active_binding\<close>, \<open>older_change_wins\<close>, \<open>drain_wakeup_can_be_lost\<close>, \<open>clear_then_discard_exhausts\<close>, \<open>local_change_not_protected\<close>, \<open>full_channel_loses_flush\<close>, \<open>lagging_subscriber_loses\<close>, \<open>event_loop_inert\<close>).

  \<^bold>\<open>Bounds.\<close> No definition of the program uses fuel: loops recurse on their data. Only \<open>run_alone\<close>, \<open>service_alone\<close> and \<open>sync_alone\<close>, which let one task
  run without the others, count steps; how many are enough is part of the lemmas (\<open>uninterrupted_call\<close>, \<open>resolve_alone\<close>, \<open>flush_alone\<close>, \<open>apply_alone\<close>). The weak compare-exchange loops take the number of spurious failures as an argument, and
  the results do not depend on it. Counters are exact below the range of their word; these bounds (\<open>2\<^sup>6\<^sup>4\<close> connections, \<open>2\<^sup>3\<^sup>2\<close> health
  checks of a backend) are hypotheses of the theorems. The rate limiter's theorem asks for a window of at least a millisecond and numbers exact in
  53 bits.

  \<^bold>\<open>Not modelled.\<close> What happens inside library calls: sockets, the TLS and QUIC handshakes, the wire formats
  of HTTP, JSON and DNS, the SQL engine, the delivery of operating-system signals; nor the reorderings that relaxed atomic accesses to different cells
  permit: an interleaving keeps the program order of each task. Of the program's own code, logging, the bounds of the gossip and transport event
  channels (1024, read by nothing) and the module files are left out. So are the unit tests that exercise only library code (real sockets, serialisers, \<^verbatim>\<open>Debug\<close>
  output, the contents of the GeoIP database) or that accept every outcome. Scripts and documentation are not part of the model.
\<close>

section \<open>Properties that span components\<close>

text \<open>
  C7: a proxy wired from any configuration serves nobody before its first reload of the routing database, and after a successful reload
  it sends a first client to the best of the healthy rows: the load balancer's choice over exactly those rows,
  in the region that the configuration names, with all connection counts zero. The location comes
  from the GeoIP database, whose region is always the one of its country code.
\<close>

theorem wired_proxy_serves_database:
  assumes "main_wire su cfg = Inr w" and "load_from_sqlite db = Inr bs"
  shows "fst (resolve_backend main_ports now ip (wd_service w)) = None
    \<and> fst (resolve_backend main_ports now ip
             ((wd_service w)\<lparr>ps_backend_repo := sqlite_sync_tick db (ps_backend_repo (wd_service w))\<rparr>))
        = pick_backend (filter bk_healthy bs) (region_from_str (cf_region cfg)) (resolve_geo (wd_service w) ip) (\<lambda>_. 0)
    \<and> (\<forall>g. resolve_geo (wd_service w) ip = Some g \<longrightarrow> geo_region g = from_country (geo_country g))"
proof -
  note w = main_wire_service [OF assms(1)]
  have c: "metrics_get_connection_count metrics_store_new = (\<lambda>_. 0)"
    by (simp add: fun_eq_iff metrics.count_new)
  have "fst (resolve_backend main_ports now ip (wd_service w)) = None"
    using fresh_resolve [of now ip _ "[]" 0] by (simp add: main.resolve_backend_eq w sqlite_repo_new_def pick_backend_def)
  moreover have "(wd_service w)\<lparr>ps_backend_repo := sqlite_sync_tick db (ps_backend_repo (wd_service w))\<rparr>
      = proxy_service_new \<lparr>sq_backends = bs, sq_version = 1\<rparr> binding_repo_new (main_geo_resolver su cfg) metrics_store_new
          (region_from_str (cf_region cfg))"
    by (simp add: w proxy_service_new_def sqlite_sync_tick_def assms(2) sqlite_repo_new_def)
  then have "fst (resolve_backend main_ports now ip
             ((wd_service w)\<lparr>ps_backend_repo := sqlite_sync_tick db (ps_backend_repo (wd_service w))\<rparr>))
        = pick_backend (filter bk_healthy bs) (region_from_str (cf_region cfg)) (resolve_geo (wd_service w) ip) (\<lambda>_. 0)"
    by (simp add: main.resolve_backend_eq fresh_resolve c w) (simp add: resolve_geo_def proxy_service_new_def)
  moreover have "geo_region g = from_country (geo_country g)" if "resolve_geo (wd_service w) ip = Some g" for g
    using that by (auto simp: w proxy_service_new_def resolve_geo_def intro: main_geo_region split: option.splits)
  ultimately show ?thesis by simp
qed

definition example_quic_lib :: quic_lib where
  "example_quic_lib = \<lparr>ql_self_signed = (\<lambda>_. Inr ([1], [2])), ql_private_key = Inr, ql_single_cert = (\<lambda>_ _. Inr ()),
     ql_server_config = Inr (), ql_client_config = Inr (), ql_endpoint = (\<lambda>_. Inr ())\<rparr>"

definition example_tls_lib :: "(unit, unit, unit) tls_lib" where
  "example_tls_lib = \<lparr>tl_open = (\<lambda>p. Inl p), tl_certs = (\<lambda>_. []), tl_private_key = (\<lambda>_. Inr None), tl_single_cert = (\<lambda>_ _. Inr ()),
     tl_self_signed = (\<lambda>_. Inr ([], [])), tl_cert_der = (\<lambda>_. ()), tl_key_der = (\<lambda>_. Inr ())\<rparr>"

theorem wired_proxy_serves_database_witness:
  "\<exists>w. main_wire \<lparr>su_uuid = ''0b5f'', su_replica_db = None, su_gossip_codec = (\<lambda>_. None),
         su_quic_lib = example_quic_lib, su_gossip_bind_error = (\<lambda>_. None), su_open_geoip = (\<lambda>_. Inl ''missing''),
         su_geoip_from_source = (\<lambda>_. Inr (\<lambda>_. Some \<lparr>mm_country = Some (Some ''FR'')\<rparr>)), su_embedded_geoip = [],
         su_tls_lib = example_tls_lib \<rparr> config_default = Inr w
     \<and> resolve_geo (wd_service w) (IpV4 7) = Some \<lparr>geo_country = ''FR'', geo_region = Europe\<rparr>
     \<and> fst (resolve_backend main_ports 5 (IpV4 7) (wd_service w)) = None"
proof -
  let ?su = "\<lparr>su_uuid = ''0b5f'', su_replica_db = None, su_gossip_codec = (\<lambda>_. None),
         su_quic_lib = example_quic_lib, su_gossip_bind_error = (\<lambda>_. None), su_open_geoip = (\<lambda>_. Inl ''missing''),
         su_geoip_from_source = (\<lambda>_. Inr (\<lambda>_. Some \<lparr>mm_country = Some (Some ''FR'')\<rparr>)), su_embedded_geoip = [],
         su_tls_lib = example_tls_lib \<rparr>"
  have "from_country ''FR'' = Europe" by code_simp
  moreover obtain w where w: "main_wire ?su config_default = Inr w"
    by (simp add: main_wire_def main_replication_def main_tls_def config_default_def Let_def)
  moreover have "load_from_sqlite (Some []) = Inr []" by (simp add: load_from_sqlite_def)
  ultimately show ?thesis
    using wired_proxy_serves_database [OF w, of "Some []" "[]" 5 "IpV4 7"]
    by (simp add: main_wire_service [OF w] proxy_service_new_def resolve_geo_def main_geo_resolver_def
        maxmind_embedded_def config_default_def maxmind_resolve_def geo_info_new_def)
qed

text \<open>
  C34: What stops the program. The boot fails exactly for the first of these, in this order: with replication enabled, a gossip or transport address that is no
  socket address (a host name, for instance), an empty node id, an empty cluster name; with TLS enabled, a certificate or key that cannot be read, or a pair
  that is refused. A missing GeoIP database or a replication agent that does not start does not stop it. After a boot it runs until the listening
  address cannot be bound or an accept fails, and then returns that error.
\<close>

theorem program_stops:
  "let cfg = load_config e;
       tls = (case (cf_tls_cert_path cfg, cf_tls_key_path cfg) of
                (Some cert, Some key) \<Rightarrow> from_pem_files (su_tls_lib su) cert key
              | _ \<Rightarrow> self_signed (su_tls_lib su) ''edgeproxy.internal'')
   in fst (main_program su e bind_error accepts) =
      (if cf_replication_enabled cfg \<and> parse_socket_addr (cf_replication_gossip_addr cfg) = None
       then Some (Inl (BadSocketAddr (cf_replication_gossip_addr cfg)))
       else if cf_replication_enabled cfg \<and> parse_socket_addr (cf_replication_transport_addr cfg) = None
       then Some (Inl (BadSocketAddr (cf_replication_transport_addr cfg)))
       else if cf_replication_enabled cfg \<and> cf_replication_node_id cfg = Some []
       then Some (Inl (BadReplicationConfig MissingNodeId))
       else if cf_replication_enabled cfg \<and> cf_replication_cluster_name cfg = []
       then Some (Inl (BadReplicationConfig MissingClusterName))
       else if cf_tls_enabled cfg \<and> isl tls then Some (Inl (BadTls (projl tls)))
       else case bind_error (cf_listen_addr cfg) of
              Some err \<Rightarrow> Some (Inr err)
            | None \<Rightarrow> map_option Inr (first_error accepts))"
proof -
  define cfg where "cfg = load_config e"
  define tls where "tls = (case (cf_tls_cert_path cfg, cf_tls_key_path cfg) of
    (Some cert, Some key) \<Rightarrow> from_pem_files (su_tls_lib su) cert key
  | _ \<Rightarrow> self_signed (su_tls_lib su) ''edgeproxy.internal'')"
  have t: "main_tls su cfg geo = (if cf_tls_enabled cfg \<and> isl tls then Inl (BadTls (projl tls))
      else Inr (if cf_tls_enabled cfg then Some (tls_server_new
        (case cf_tls_listen_addr cfg of Some a \<Rightarrow> a | None \<Rightarrow> ''0.0.0.0:8443'') geo (projr tls)) else None))" for geo
    unfolding main_tls_def tls_def [symmetric] Let_def by (cases tls) simp_all
  note boot = main_replication_cases [where su = su and cfg = cfg]
  show ?thesis
    unfolding Let_def cfg_def [symmetric] tls_def [symmetric] main_program_def
    by (cases "main_replication su cfg")
      (use boot in \<open>auto simp: main_wire_def t tcp_run_def tcp_server_new_def tcp_accept_loop_spec Let_def
         split: option.splits if_splits\<close>)
qed

end
